(* ===== verification/Prelude.thy ===== *)
theory Prelude imports
  Complex_Main
  "HOL-Library.List_Lexorder"
  "HOL-Library.Char_ord"
  "HOL-Library.Product_Lexorder"
  "HOL-Library.Word"
begin

text \<open>
  Shared vocabulary of the development: time and durations, Go errors as values, the structured
  value of a JSON metadata column, decimal printing (\<^verbatim>\<open>%d\<close>), the ordering clauses of a query, and
  the lemma collections the component theories extend.
\<close>

section \<open>Collections\<close>

named_theorems op_defs \<open>definitions of the operations that a proof unfolds to run the code\<close>
named_theorems frame \<open>parts of the world that an operation leaves alone\<close>

section \<open>Time\<close>

text \<open>
  \<^verbatim>\<open>time.Time\<close> is the number of nanoseconds since Go's zero time, \<^verbatim>\<open>time.Duration\<close> a number of
  nanoseconds.
\<close>

type_synonym time = int
type_synonym duration = int

definition zero_time :: time where "zero_time = 0"
definition nanosecond :: duration where "nanosecond = 1"
definition millisecond :: duration where "millisecond = 1000000"
definition second :: duration where "second = 1000000000"
definition minute :: duration where "minute = 60 * second"
definition hour :: duration where "hour = 60 * minute"

text \<open>Go's \<^verbatim>\<open>int64\<close> arithmetic wraps; a \<^verbatim>\<open>time.Duration\<close> is such a number.\<close>

definition wrap64 :: "int \<Rightarrow> int" where
  "wrap64 i = (i + 2 ^ 63) mod 2 ^ 64 - 2 ^ 63"

lemma wrap64_id: "- (2 ^ 63) \<le> i \<Longrightarrow> i < 2 ^ 63 \<Longrightarrow> wrap64 i = i"
  by (simp add: wrap64_def)

lemma wrap64_range: "- (2 ^ 63) \<le> wrap64 i" "wrap64 i < 2 ^ 63"
  by (simp_all add: wrap64_def)

lemmas time_units = zero_time_def nanosecond_def millisecond_def second_def minute_def hour_def

lemma time_units_pos [simp]: "0 < second" "0 < minute" "0 < hour" "0 < millisecond"
  by (simp_all add: time_units)

section \<open>Errors\<close>

text \<open>
  A Go \<^verbatim>\<open>error\<close>: GORM's \<^verbatim>\<open>ErrRecordNotFound\<close>, a violated unique constraint, a failure of the SQLite
  driver, or a message made by \<^verbatim>\<open>errors.New\<close> or \<^verbatim>\<open>fmt.Errorf\<close>.
\<close>

datatype gerr = ErrNotFound | ErrUnique | ErrDriver | ErrMsg string

text \<open>What \<^verbatim>\<open>%v\<close> and \<^verbatim>\<open>err.Error()\<close> print.\<close>

fun err_text :: "gerr \<Rightarrow> string" where
  "err_text ErrNotFound = ''record not found''"
| "err_text ErrUnique = ''UNIQUE constraint failed''"
| "err_text ErrDriver = ''sqlite driver error''"
| "err_text (ErrMsg s) = s"

type_synonym 'a result = "gerr + 'a"

definition is_ok :: "'a result \<Rightarrow> bool" where
  "is_ok r = (case r of Inl e \<Rightarrow> False | Inr x \<Rightarrow> True)"

lemma is_ok_simps [simp]: "is_ok (Inr x)" "\<not> is_ok (Inl e)"
  by (simp_all add: is_ok_def)

lemma is_okE: "is_ok r \<Longrightarrow> (\<And>x. r = Inr x \<Longrightarrow> P) \<Longrightarrow> P"
  by (cases r) auto

lemma result_cases [case_names err ok]:
  fixes p :: "'a result \<times> 'w"
  obtains e w where "p = (Inl e, w)" | x w where "p = (Inr x, w)"
  by (cases p, cases "fst p") auto

text \<open>
  Sequencing of operations that can fail: the first error ends the whole, as in
  \<^verbatim>\<open>if err != nil { return ..., err }\<close>.
\<close>

definition and_then ::
  "('w \<Rightarrow> 'a result \<times> 'w) \<Rightarrow> ('a \<Rightarrow> 'w \<Rightarrow> 'b result \<times> 'w) \<Rightarrow> 'w \<Rightarrow> 'b result \<times> 'w" where
  "and_then m k w = (case m w of (Inl e, w1) \<Rightarrow> (Inl e, w1) | (Inr x, w1) \<Rightarrow> k x w1)"

lemma and_then_simps:
  "m w = (Inl e, w1) \<Longrightarrow> and_then m k w = (Inl e, w1)"
  "m w = (Inr x, w1) \<Longrightarrow> and_then m k w = k x w1"
  by (simp_all add: and_then_def)

lemma and_then_okE:
  assumes "and_then m k w = (Inr y, w')"
  obtains x w1 where "m w = (Inr x, w1)" and "k x w1 = (Inr y, w')"
  using assms by (cases "m w" rule: result_cases) (auto simp: and_then_def)

lemma and_then_get:
  assumes "get (snd (m w)) = get w" and "\<And>x w1. m w = (Inr x, w1) \<Longrightarrow> get (snd (k x w1)) = get w1"
  shows "get (snd (and_then m k w)) = get w"
  using assms by (cases "m w" rule: result_cases) (auto simp: and_then_def)

section \<open>JSON metadata\<close>

datatype jval = JStr string | JInt int | JReal real | JBool bool | JTime time

text \<open>A metadata column: \<open>None\<close> is the JSON text \<^verbatim>\<open>null\<close> of a nil map.\<close>

type_synonym jmeta = "(string \<times> jval) list option"

section \<open>Decimal printing\<close>

definition dec_char :: "nat \<Rightarrow> char" where
  "dec_char d = ''0123456789'' ! d"

fun digits :: "nat \<Rightarrow> string" where
  "digits n = (if n < 10 then [dec_char n] else digits (n div 10) @ [dec_char (n mod 10)])"

declare digits.simps [simp del]

definition itoa :: "int \<Rightarrow> string" where
  "itoa i = (if i < 0 then CHR ''-'' # digits (nat (- i)) else digits (nat i))"

lemma digits_nonempty: "digits n \<noteq> []"
  by (subst digits.simps) simp

lemma itoa_nonempty: "itoa i \<noteq> []"
  by (simp add: itoa_def digits_nonempty)

section \<open>Ordered selection\<close>

text \<open>
  \<^verbatim>\<open>ORDER BY k LIMIT 1\<close>: the first row in the order of \<open>k\<close>. Among rows of equal \<open>k\<close> the sort is
  stable.
\<close>

definition first_by :: "('r \<Rightarrow> 'k::linorder) \<Rightarrow> 'r list \<Rightarrow> 'r option" where
  "first_by k rs = (case sort_key k rs of [] \<Rightarrow> None | r # _ \<Rightarrow> Some r)"

lemma first_by_Nil [simp]: "first_by k [] = None"
  by (simp add: first_by_def)

lemma first_by_single [simp]: "first_by k [r] = Some r"
  by (simp add: first_by_def)

lemma first_by_None_iff [simp]: "first_by k rs = None \<longleftrightarrow> rs = []"
proof -
  have s: "set (sort_key k rs) = set rs" by simp
  have "sort_key k rs = [] \<longleftrightarrow> rs = []" using s by (metis set_empty)
  then show ?thesis by (cases "sort_key k rs") (auto simp: first_by_def)
qed

lemma first_by_in: "first_by k rs = Some r \<Longrightarrow> r \<in> set rs"
proof -
  assume "first_by k rs = Some r"
  then obtain rest where "sort_key k rs = r # rest"
    by (auto simp: first_by_def split: list.splits)
  then have "r \<in> set (sort_key k rs)" by (metis list.set_intros(1))
  then show "r \<in> set rs" by simp
qed

lemma first_by_least: "first_by k rs = Some r \<Longrightarrow> s \<in> set rs \<Longrightarrow> k r \<le> k s"
proof -
  assume f: "first_by k rs = Some r" and s: "s \<in> set rs"
  from f obtain rest where e: "sort_key k rs = r # rest"
    by (auto simp: first_by_def split: list.splits)
  have "sorted (map k (sort_key k rs))" by (rule sorted_sort_key)
  moreover have "s \<in> set (sort_key k rs)" using s by simp
  ultimately show "k r \<le> k s" by (auto simp: e)
qed

lemma first_by_ex: "r \<in> set rs \<Longrightarrow> \<exists>s. first_by k rs = Some s"
  by (metis empty_iff first_by_None_iff list.set(1) not_Some_eq)

lemma first_by_filter:
  "first_by k (filter P rs) = Some r \<Longrightarrow> r \<in> set rs \<and> P r"
  by (drule first_by_in) simp

lemma first_by_filter_None:
  "first_by k (filter P rs) = None \<longleftrightarrow> (\<forall>r \<in> set rs. \<not> P r)"
  by (simp add: filter_empty_conv)

lemma first_by_filter_ex: "\<exists>r \<in> set rs. P r \<Longrightarrow> \<exists>s. first_by k (filter P rs) = Some s"
  by (metis first_by_filter_None not_Some_eq)

lemma filter_unique:
  assumes "distinct (map key rs)" and "r \<in> set rs"
  shows "filter (\<lambda>s. key s = key r) rs = [r]"
  using assms
proof (induction rs)
  case (Cons a rs)
  show ?case
  proof (cases "a = r")
    case True
    with Cons.prems(1) have "filter (\<lambda>s. key s = key r) rs = []"
      by (auto simp: filter_empty_conv image_iff)
    with True show ?thesis by simp
  next
    case False
    with Cons.prems have "r \<in> set rs" "key a \<noteq> key r" by (auto simp: image_iff)
    with Cons show ?thesis by simp
  qed
qed simp

lemma first_by_unique:
  assumes "distinct (map key rs)" and "r \<in> set rs"
  shows "first_by k (filter (\<lambda>s. key s = key r) rs) = Some r"
  by (simp add: filter_unique [OF assms])

lemma sort_key_map: "(\<And>r. k (f r) = k r) \<Longrightarrow> sort_key k (map f rs) = map f (sort_key k rs)"
proof (induction rs)
  case (Cons a rs)
  have "insort_key k (f a) (map f xs) = map f (insort_key k a xs)" for xs
    using Cons.prems by (induction xs) auto
  with Cons show ?case by simp
qed simp

lemma first_by_map: "(\<And>r. k (f r) = k r) \<Longrightarrow> first_by k (map f rs) = map_option f (first_by k rs)"
  by (simp add: first_by_def sort_key_map split: list.split)

section \<open>Lists\<close>

lemma map_if_id: "(\<And>x. x \<in> set xs \<Longrightarrow> \<not> P x) \<Longrightarrow> map (\<lambda>x. if P x then f x else x) xs = xs"
  by (induction xs) auto

text \<open>The rows after an update of those that satisfy a condition.\<close>

definition update_where :: "('r \<Rightarrow> bool) \<Rightarrow> ('r \<Rightarrow> 'r) \<Rightarrow> 'r list \<Rightarrow> 'r list" where
  "update_where P f rs = map (\<lambda>r. if P r then f r else r) rs"

lemma update_where_simps [simp]:
  "update_where P f [] = []"
  "update_where P f (r # rs) = (if P r then f r else r) # update_where P f rs"
  "length (update_where P f rs) = length rs"
  by (simp_all add: update_where_def)

lemma update_where_id: "(\<And>r. r \<in> set rs \<Longrightarrow> \<not> P r) \<Longrightarrow> update_where P f rs = rs"
  by (simp add: update_where_def map_if_id)

lemma map_update_where: "(\<And>r. P r \<Longrightarrow> key (f r) = key r) \<Longrightarrow> map key (update_where P f rs) = map key rs"
  by (simp add: update_where_def)

lemma in_update_where:
  "x \<in> set (update_where P f rs) \<longleftrightarrow> (\<exists>r \<in> set rs. x = (if P r then f r else r))"
  by (auto simp: update_where_def)

lemma ball_update:
  assumes "\<And>r. r \<in> set rs \<Longrightarrow> P r \<Longrightarrow> Q (f r)" and "\<And>r. r \<in> set rs \<Longrightarrow> \<not> P r \<Longrightarrow> Q r"
  shows "\<forall>a \<in> set (update_where P f rs). Q a"
  using assms by (auto simp: update_where_def)

lemma bex_update:
  assumes "r \<in> set rs" and "Q (if P r then f r else r)"
  shows "\<exists>x \<in> set (update_where P f rs). Q x"
proof -
  have "(if P r then f r else r) \<in> set (update_where P f rs)"
    unfolding in_update_where using assms(1) by (rule bexI [where P = "\<lambda>s. _ = (if P s then f s else s)", rotated]) (rule refl)
  with assms(2) show ?thesis by (rule bexI)
qed

lemma distinct_map_key_filter: "distinct (map key rs) \<Longrightarrow> distinct (map key (filter P rs))"
  by (induction rs) auto

lemma length_filter_update:
  assumes "i < length xs"
  shows "length (filter P (xs[i := x])) + (if P (xs ! i) then 1 else 0)
    = length (filter P xs) + (if P x then 1 else 0)"
proof -
  have e: "xs = take i xs @ xs ! i # drop (Suc i) xs" by (rule id_take_nth_drop [OF assms])
  have u: "xs[i := x] = take i xs @ x # drop (Suc i) xs" by (rule upd_conv_take_nth_drop [OF assms])
  show ?thesis by (subst (2) e, subst u) auto
qed

end
