(* ===== verification/Domain.thy ===== *)
theory Domain imports Prelude begin

text \<open>
  The data model of \<^verbatim>\<open>internal/domain/models.go\<close>: one record per GORM model, its fields in the
  order and with the names of the struct (behind a short prefix, since two records of a theory
  cannot share a field name), and the Go zero value of each struct. A nullable
  \<^verbatim>\<open>*time.Time\<close> is an option. The JSON text of a \<^verbatim>\<open>Metadata\<close> column is kept as the value it encodes.
  The structs that no operation reads or writes (SystemConfig, PaymentProvider, BillingEvent,
  RoutingPolicy) are left out.
\<close>

record VPNCredential =
  vc_ID :: "string"
  vc_Provider :: "string"
  vc_Name :: "string"
  vc_EncryptedSecret :: "string"
  vc_MaskedSecret :: "string"
  vc_CreatedAt :: "time"
  vc_UpdatedAt :: "time"

record VPNNode =
  vn_ID :: "string"
  vn_Name :: "string"
  vn_Provider :: "string"
  vn_Type :: "string"
  vn_ConfigText :: "string"
  vn_Status :: "string"
  vn_InterfaceName :: "string"
  vn_LocalIP :: "string"
  vn_IP :: "string"
  vn_Country :: "string"
  vn_ISP :: "string"
  vn_ASN :: "string"
  vn_Region :: "string"
  vn_LatencyMs :: "int"
  vn_LastConnectedAt :: "time option"
  vn_CreatedAt :: "time"
  vn_UpdatedAt :: "time"
  vn_AgentID :: "string"
  vn_CredentialID :: "string"
  vn_LocationAlias :: "string"
  vn_LocationDisplayName :: "string"
  vn_SelectedCountry :: "string"
  vn_SelectedRegion :: "string"
  vn_Protocol :: "string"
  vn_PublicIP :: "string"
  vn_DetectedCountry :: "string"
  vn_AssignedInterface :: "string"
  vn_ConnectionStatus :: "string"
  vn_LastError :: "string"

record Agent =
  ag_ID :: "string"
  ag_Name :: "string"
  ag_Hostname :: "string"
  ag_IPAddress :: "string"
  ag_OS :: "string"
  ag_Version :: "string"
  ag_Status :: "string"
  ag_LastHeartbeatAt :: "time"
  ag_VPNCount :: "int"
  ag_ProxyCount :: "int"
  ag_CPUUsage :: "real"
  ag_RAMUsage :: "real"
  ag_CreatedAt :: "time"
  ag_UpdatedAt :: "time"

record ExpressVPNSession =
  es_ID :: "string"
  es_AgentID :: "string"
  es_NodeID :: "string"
  es_LocationAlias :: "string"
  es_LocationDisplayName :: "string"
  es_PublicIP :: "string"
  es_DetectedCountry :: "string"
  es_Status :: "string"
  es_ConnectedAt :: "time"
  es_DisconnectedAt :: "time option"
  es_LastError :: "string"

record Proxy =
  px_ID :: "string"
  px_VPNNodeID :: "string"
  px_Port :: "int"
  px_Type :: "string"
  px_Status :: "string"
  px_BindIP :: "string"
  px_Username :: "string"
  px_Password :: "string"
  px_ExpiresAt :: "time option"
  px_RevokedAt :: "time option"
  px_Host :: "string"
  px_PublicIP :: "string"
  px_Country :: "string"
  px_Region :: "string"
  px_CreatedAt :: "time"
  px_UpdatedAt :: "time"
  px_AgentID :: "string"
  px_RotationMode :: "string"

record HealthMetric =
  hm_ID :: "nat"
  hm_TargetID :: "string"
  hm_TargetType :: "string"
  hm_LatencyMs :: "int"
  hm_Status :: "string"
  hm_CheckedAt :: "time"

record AuditLog =
  al_ID :: "nat"
  al_Action :: "string"
  al_Details :: "string"
  al_Timestamp :: "time"

record AgentHeartbeat =
  ah_ID :: "nat"
  ah_AgentID :: "string"
  ah_CPUUsage :: "real"
  ah_RAMUsage :: "real"
  ah_VPNCount :: "int"
  ah_ProxyCount :: "int"
  ah_Timestamp :: "time"

record PortAllocation =
  pa_Port :: "int"
  pa_Purpose :: "string"
  pa_TargetID :: "string"
  pa_Status :: "string"
  pa_CreatedAt :: "time"

record RotationPolicy =
  rp_ID :: "string"
  rp_Name :: "string"
  rp_Mode :: "string"
  rp_Description :: "string"
  rp_CreatedAt :: "time"
  rp_UpdatedAt :: "time"

record ExpressVPNValidation =
  ev_ID :: "string"
  ev_NodeID :: "string"
  ev_Status :: "string"
  ev_Details :: "string"
  ev_Timestamp :: "time"

record SystemMetricSnapshot =
  sm_ID :: "nat"
  sm_CPUUsage :: "real"
  sm_RAMUsage :: "real"
  sm_DiskUsage :: "real"
  sm_NetIn :: "nat"
  sm_NetOut :: "nat"
  sm_VPNCount :: "int"
  sm_ProxyCount :: "int"
  sm_Timestamp :: "time"

record AgentCredential =
  ac_AgentID :: "string"
  ac_TokenHash :: "string"
  ac_IssuedAt :: "time"
  ac_ExpiresAt :: "time"
  ac_RevokedAt :: "time option"
  ac_CreatedAt :: "time"

record AgentCommand =
  cmd_ID :: "string"
  cmd_AgentID :: "string"
  cmd_Type :: "string"
  cmd_Payload :: "string"
  cmd_Status :: "string"
  cmd_IdempotencyKey :: "string"
  cmd_TimeoutSeconds :: "int"
  cmd_Attempts :: "int"
  cmd_MaxAttempts :: "int"
  cmd_CreatedAt :: "time"
  cmd_DispatchedAt :: "time option"
  cmd_ExecutedAt :: "time option"
  cmd_CompletedAt :: "time option"
  cmd_Result :: "string"
  cmd_LastError :: "string"

record Customer =
  cu_ID :: "string"
  cu_Email :: "string"
  cu_PasswordHash :: "string"
  cu_Status :: "string"
  cu_Role :: "string"
  cu_CreatedAt :: "time"
  cu_UpdatedAt :: "time"

record CustomerCredential =
  cc_ID :: "string"
  cc_CustomerID :: "string"
  cc_PasswordHash :: "string"
  cc_CreatedAt :: "time"
  cc_UpdatedAt :: "time"

record CustomerSession =
  cs_ID :: "string"
  cs_CustomerID :: "string"
  cs_TokenHash :: "string"
  cs_ExpiresAt :: "time"
  cs_RevokedAt :: "time option"
  cs_CreatedAt :: "time"

record CustomerApiKey =
  ck_ID :: "string"
  ck_CustomerID :: "string"
  ck_Name :: "string"
  ck_KeyHash :: "string"
  ck_Prefix :: "string"
  ck_Status :: "string"
  ck_CreatedAt :: "time"
  ck_LastUsedAt :: "time option"

record ProxyPlan =
  pp_ID :: "string"
  pp_Name :: "string"
  pp_MaxProxies :: "int"
  pp_AllowedCountries :: "string"
  pp_BandwidthLimitGB :: "int"
  pp_RotationModes :: "string"
  pp_ConcurrentConnections :: "int"
  pp_Price :: "real"
  pp_Status :: "string"
  pp_CreatedAt :: "time"
  pp_UpdatedAt :: "time"

record CustomerSubscription =
  csub_ID :: "string"
  csub_CustomerID :: "string"
  csub_PlanID :: "string"
  csub_Status :: "string"
  csub_StartsAt :: "time"
  csub_ExpiresAt :: "time"
  csub_UsageResetAt :: "time"
  csub_CreatedAt :: "time"
  csub_UpdatedAt :: "time"

record CustomerProxyCredential =
  cpc_ID :: "string"
  cpc_Username :: "string"
  cpc_PasswordHash :: "string"
  cpc_CustomerID :: "string"
  cpc_ProxyID :: "string"
  cpc_Status :: "string"
  cpc_CreatedAt :: "time"
  cpc_RotatedAt :: "time option"

record CustomerProxyAllocation =
  cpa_ID :: "string"
  cpa_CustomerID :: "string"
  cpa_SubscriptionID :: "string"
  cpa_ProxyID :: "string"
  cpa_CredentialID :: "string"
  cpa_RotationMode :: "string"
  cpa_Country :: "string"
  cpa_Status :: "string"
  cpa_BandwidthIn :: "nat"
  cpa_BandwidthOut :: "nat"
  cpa_CreatedAt :: "time"
  cpa_UpdatedAt :: "time"
  cpa_DegradedAt :: "time option"

record UsageMetric =
  um_ID :: "nat"
  um_CustomerID :: "string"
  um_ProxyID :: "string"
  um_AgentID :: "string"
  um_BandwidthIn :: "nat"
  um_BandwidthOut :: "nat"
  um_ConnectionCount :: "int"
  um_RequestCount :: "int"
  um_ActiveConnections :: "int"
  um_Bucket :: "string"
  um_PeriodStart :: "time"
  um_CreatedAt :: "time"

record Invoice =
  inv_ID :: "string"
  inv_CustomerID :: "string"
  inv_PlanID :: "string"
  inv_SubscriptionID :: "string"
  inv_Amount :: "real"
  inv_Currency :: "string"
  inv_Status :: "string"
  inv_Provider :: "string"
  inv_PaymentRef :: "string"
  inv_CheckoutURL :: "string"
  inv_CreatedAt :: "time"
  inv_PaidAt :: "time option"

record Plan =
  pl_ID :: "string"
  pl_Name :: "string"
  pl_Description :: "string"
  pl_Price :: "real"
  pl_Currency :: "string"
  pl_MaxProxies :: "int"
  pl_BandwidthLimitGB :: "int"
  pl_ConcurrentConnections :: "int"
  pl_AllowedCountries :: "string"
  pl_Status :: "string"
  pl_CreatedAt :: "time"
  pl_UpdatedAt :: "time"

record PlanFeature =
  pf_ID :: "string"
  pf_PlanID :: "string"
  pf_Key :: "string"
  pf_Value :: "string"
  pf_CreatedAt :: "time"

record Subscription =
  sub_ID :: "string"
  sub_CustomerID :: "string"
  sub_PlanID :: "string"
  sub_Status :: "string"
  sub_StartsAt :: "time"
  sub_ExpiresAt :: "time"
  sub_AutoRenew :: "bool"
  sub_CreatedAt :: "time"
  sub_UpdatedAt :: "time"

record InvoiceItem =
  ii_ID :: "string"
  ii_InvoiceID :: "string"
  ii_Description :: "string"
  ii_Quantity :: "int"
  ii_UnitAmount :: "real"
  ii_Amount :: "real"
  ii_CreatedAt :: "time"

record AuditEvent =
  ae_ID :: "string"
  ae_ActorID :: "string"
  ae_ActorType :: "string"
  ae_Action :: "string"
  ae_TargetID :: "string"
  ae_TargetType :: "string"
  ae_Metadata :: "jmeta"
  ae_CreatedAt :: "time"

record AbuseRule =
  ar_ID :: "string"
  ar_Name :: "string"
  ar_Type :: "string"
  ar_Threshold :: "int"
  ar_Action :: "string"
  ar_Enabled :: "bool"
  ar_CreatedAt :: "time"
  ar_UpdatedAt :: "time"

record AbuseEvent =
  abe_ID :: "string"
  abe_CustomerID :: "string"
  abe_ProxyID :: "string"
  abe_RuleID :: "string"
  abe_Severity :: "string"
  abe_Message :: "string"
  abe_Metadata :: "jmeta"
  abe_CreatedAt :: "time"

record CustomerRiskScore =
  rs_CustomerID :: "string"
  rs_Score :: "int"
  rs_Level :: "string"
  rs_Factors :: "string"
  rs_UpdatedAt :: "time"

record IPWhitelist =
  wl_ID :: "string"
  wl_CustomerID :: "string"
  wl_IPAddress :: "string"
  wl_CIDR :: "string"
  wl_Description :: "string"
  wl_Enabled :: "bool"
  wl_CreatedAt :: "time"
  wl_UpdatedAt :: "time"

record BlockedTarget =
  bt_ID :: "string"
  bt_Type :: "string"
  bt_Value :: "string"
  bt_Reason :: "string"
  bt_Enabled :: "bool"
  bt_CreatedAt :: "time"
  bt_UpdatedAt :: "time"

record ConnectionLimit =
  cl_ID :: "string"
  cl_CustomerID :: "string"
  cl_ProxyID :: "string"
  cl_MaxConcurrent :: "int"
  cl_MaxPerProxy :: "int"
  cl_MaxFailedAuth :: "int"
  cl_MaxRequestsPerMinute :: "int"
  cl_CreatedAt :: "time"
  cl_UpdatedAt :: "time"

record ProxyPool =
  pool_ID :: "string"
  pool_Country :: "string"
  pool_Region :: "string"
  pool_Status :: "string"
  pool_Strategy :: "string"
  pool_CreatedAt :: "time"
  pool_UpdatedAt :: "time"

record ProxyPoolMember =
  pm_ID :: "string"
  pm_PoolID :: "string"
  pm_ProxyID :: "string"
  pm_AgentID :: "string"
  pm_VPNNodeID :: "string"
  pm_HealthStatus :: "string"
  pm_QualityScore :: "int"
  pm_ActiveLoad :: "int"
  pm_Status :: "string"
  pm_LastChecked :: "time"
  pm_CreatedAt :: "time"
  pm_UpdatedAt :: "time"

record ProxyQualitySnapshot =
  qs_ID :: "string"
  qs_ProxyID :: "string"
  qs_Score :: "int"
  qs_Grade :: "string"
  qs_LatencyMs :: "int"
  qs_UptimePercent :: "real"
  qs_ConnectionSuccessRate :: "real"
  qs_BandwidthAvailableGB :: "real"
  qs_RecentFailures :: "int"
  qs_HealthStatus :: "string"
  qs_CreatedAt :: "time"

record StickySession =
  ss_ID :: "string"
  ss_CustomerID :: "string"
  ss_SessionKey :: "string"
  ss_Country :: "string"
  ss_ProxyID :: "string"
  ss_RotationMode :: "string"
  ss_ExpiresAt :: "time"
  ss_CreatedAt :: "time"
  ss_UpdatedAt :: "time"

record ProxyReservation =
  pres_ID :: "string"
  pres_CustomerID :: "string"
  pres_ProxyID :: "string"
  pres_PoolID :: "string"
  pres_AgentID :: "string"
  pres_Country :: "string"
  pres_Type :: "string"
  pres_Status :: "string"
  pres_StartsAt :: "time"
  pres_ExpiresAt :: "time option"
  pres_Permanent :: "bool"
  pres_CreatedAt :: "time"
  pres_UpdatedAt :: "time"

record RoutingEvent =
  re_ID :: "string"
  re_CustomerID :: "string"
  re_ProxyID :: "string"
  re_PoolID :: "string"
  re_Action :: "string"
  re_Message :: "string"
  re_Metadata :: "jmeta"
  re_CreatedAt :: "time"

record RoutingSelectionInput =
  rsi_CustomerID :: "string"
  rsi_Country :: "string"
  rsi_Region :: "string"
  rsi_Provider :: "string"
  rsi_ASN :: "string"
  rsi_ISP :: "string"
  rsi_Strategy :: "string"
  rsi_ProxyType :: "string"
  rsi_PlanID :: "string"
  rsi_SessionKey :: "string"
  rsi_RotationMode :: "string"
  rsi_TargetRegion :: "string"

section \<open>Zero values\<close>

text \<open>
  Go declares \<^verbatim>\<open>var p domain.Proxy\<close> and composite literals that leave fields out: both start from the
  zero value of the struct.
\<close>

definition zero_VPNCredential :: VPNCredential where
  "zero_VPNCredential = \<lparr>vc_ID = '''', vc_Provider = '''', vc_Name = '''', vc_EncryptedSecret = '''', vc_MaskedSecret = '''', vc_CreatedAt = zero_time, vc_UpdatedAt = zero_time\<rparr>"

lemma zero_VPNCredential_simps [simp]:
  "vc_ID zero_VPNCredential = ''''"
  "vc_Provider zero_VPNCredential = ''''"
  "vc_Name zero_VPNCredential = ''''"
  "vc_EncryptedSecret zero_VPNCredential = ''''"
  "vc_MaskedSecret zero_VPNCredential = ''''"
  "vc_CreatedAt zero_VPNCredential = zero_time"
  "vc_UpdatedAt zero_VPNCredential = zero_time"
  by (simp_all add: zero_VPNCredential_def)

definition zero_VPNNode :: VPNNode where
  "zero_VPNNode = \<lparr>vn_ID = '''', vn_Name = '''', vn_Provider = '''', vn_Type = '''', vn_ConfigText = '''', vn_Status = '''', vn_InterfaceName = '''', vn_LocalIP = '''', vn_IP = '''', vn_Country = '''', vn_ISP = '''', vn_ASN = '''', vn_Region = '''', vn_LatencyMs = 0, vn_LastConnectedAt = None, vn_CreatedAt = zero_time, vn_UpdatedAt = zero_time, vn_AgentID = '''', vn_CredentialID = '''', vn_LocationAlias = '''', vn_LocationDisplayName = '''', vn_SelectedCountry = '''', vn_SelectedRegion = '''', vn_Protocol = '''', vn_PublicIP = '''', vn_DetectedCountry = '''', vn_AssignedInterface = '''', vn_ConnectionStatus = '''', vn_LastError = ''''\<rparr>"

lemma zero_VPNNode_simps [simp]:
  "vn_ID zero_VPNNode = ''''"
  "vn_Name zero_VPNNode = ''''"
  "vn_Provider zero_VPNNode = ''''"
  "vn_Type zero_VPNNode = ''''"
  "vn_ConfigText zero_VPNNode = ''''"
  "vn_Status zero_VPNNode = ''''"
  "vn_InterfaceName zero_VPNNode = ''''"
  "vn_LocalIP zero_VPNNode = ''''"
  "vn_IP zero_VPNNode = ''''"
  "vn_Country zero_VPNNode = ''''"
  "vn_ISP zero_VPNNode = ''''"
  "vn_ASN zero_VPNNode = ''''"
  "vn_Region zero_VPNNode = ''''"
  "vn_LatencyMs zero_VPNNode = 0"
  "vn_LastConnectedAt zero_VPNNode = None"
  "vn_CreatedAt zero_VPNNode = zero_time"
  "vn_UpdatedAt zero_VPNNode = zero_time"
  "vn_AgentID zero_VPNNode = ''''"
  "vn_CredentialID zero_VPNNode = ''''"
  "vn_LocationAlias zero_VPNNode = ''''"
  "vn_LocationDisplayName zero_VPNNode = ''''"
  "vn_SelectedCountry zero_VPNNode = ''''"
  "vn_SelectedRegion zero_VPNNode = ''''"
  "vn_Protocol zero_VPNNode = ''''"
  "vn_PublicIP zero_VPNNode = ''''"
  "vn_DetectedCountry zero_VPNNode = ''''"
  "vn_AssignedInterface zero_VPNNode = ''''"
  "vn_ConnectionStatus zero_VPNNode = ''''"
  "vn_LastError zero_VPNNode = ''''"
  by (simp_all add: zero_VPNNode_def)

definition zero_Agent :: Agent where
  "zero_Agent = \<lparr>ag_ID = '''', ag_Name = '''', ag_Hostname = '''', ag_IPAddress = '''', ag_OS = '''', ag_Version = '''', ag_Status = '''', ag_LastHeartbeatAt = zero_time, ag_VPNCount = 0, ag_ProxyCount = 0, ag_CPUUsage = 0, ag_RAMUsage = 0, ag_CreatedAt = zero_time, ag_UpdatedAt = zero_time\<rparr>"

lemma zero_Agent_simps [simp]:
  "ag_ID zero_Agent = ''''"
  "ag_Name zero_Agent = ''''"
  "ag_Hostname zero_Agent = ''''"
  "ag_IPAddress zero_Agent = ''''"
  "ag_OS zero_Agent = ''''"
  "ag_Version zero_Agent = ''''"
  "ag_Status zero_Agent = ''''"
  "ag_LastHeartbeatAt zero_Agent = zero_time"
  "ag_VPNCount zero_Agent = 0"
  "ag_ProxyCount zero_Agent = 0"
  "ag_CPUUsage zero_Agent = 0"
  "ag_RAMUsage zero_Agent = 0"
  "ag_CreatedAt zero_Agent = zero_time"
  "ag_UpdatedAt zero_Agent = zero_time"
  by (simp_all add: zero_Agent_def)

definition zero_ExpressVPNSession :: ExpressVPNSession where
  "zero_ExpressVPNSession = \<lparr>es_ID = '''', es_AgentID = '''', es_NodeID = '''', es_LocationAlias = '''', es_LocationDisplayName = '''', es_PublicIP = '''', es_DetectedCountry = '''', es_Status = '''', es_ConnectedAt = zero_time, es_DisconnectedAt = None, es_LastError = ''''\<rparr>"

lemma zero_ExpressVPNSession_simps [simp]:
  "es_ID zero_ExpressVPNSession = ''''"
  "es_AgentID zero_ExpressVPNSession = ''''"
  "es_NodeID zero_ExpressVPNSession = ''''"
  "es_LocationAlias zero_ExpressVPNSession = ''''"
  "es_LocationDisplayName zero_ExpressVPNSession = ''''"
  "es_PublicIP zero_ExpressVPNSession = ''''"
  "es_DetectedCountry zero_ExpressVPNSession = ''''"
  "es_Status zero_ExpressVPNSession = ''''"
  "es_ConnectedAt zero_ExpressVPNSession = zero_time"
  "es_DisconnectedAt zero_ExpressVPNSession = None"
  "es_LastError zero_ExpressVPNSession = ''''"
  by (simp_all add: zero_ExpressVPNSession_def)

definition zero_Proxy :: Proxy where
  "zero_Proxy = \<lparr>px_ID = '''', px_VPNNodeID = '''', px_Port = 0, px_Type = '''', px_Status = '''', px_BindIP = '''', px_Username = '''', px_Password = '''', px_ExpiresAt = None, px_RevokedAt = None, px_Host = '''', px_PublicIP = '''', px_Country = '''', px_Region = '''', px_CreatedAt = zero_time, px_UpdatedAt = zero_time, px_AgentID = '''', px_RotationMode = ''''\<rparr>"

lemma zero_Proxy_simps [simp]:
  "px_ID zero_Proxy = ''''"
  "px_VPNNodeID zero_Proxy = ''''"
  "px_Port zero_Proxy = 0"
  "px_Type zero_Proxy = ''''"
  "px_Status zero_Proxy = ''''"
  "px_BindIP zero_Proxy = ''''"
  "px_Username zero_Proxy = ''''"
  "px_Password zero_Proxy = ''''"
  "px_ExpiresAt zero_Proxy = None"
  "px_RevokedAt zero_Proxy = None"
  "px_Host zero_Proxy = ''''"
  "px_PublicIP zero_Proxy = ''''"
  "px_Country zero_Proxy = ''''"
  "px_Region zero_Proxy = ''''"
  "px_CreatedAt zero_Proxy = zero_time"
  "px_UpdatedAt zero_Proxy = zero_time"
  "px_AgentID zero_Proxy = ''''"
  "px_RotationMode zero_Proxy = ''''"
  by (simp_all add: zero_Proxy_def)

definition zero_HealthMetric :: HealthMetric where
  "zero_HealthMetric = \<lparr>hm_ID = 0, hm_TargetID = '''', hm_TargetType = '''', hm_LatencyMs = 0, hm_Status = '''', hm_CheckedAt = zero_time\<rparr>"

lemma zero_HealthMetric_simps [simp]:
  "hm_ID zero_HealthMetric = 0"
  "hm_TargetID zero_HealthMetric = ''''"
  "hm_TargetType zero_HealthMetric = ''''"
  "hm_LatencyMs zero_HealthMetric = 0"
  "hm_Status zero_HealthMetric = ''''"
  "hm_CheckedAt zero_HealthMetric = zero_time"
  by (simp_all add: zero_HealthMetric_def)

definition zero_AuditLog :: AuditLog where
  "zero_AuditLog = \<lparr>al_ID = 0, al_Action = '''', al_Details = '''', al_Timestamp = zero_time\<rparr>"

lemma zero_AuditLog_simps [simp]:
  "al_ID zero_AuditLog = 0"
  "al_Action zero_AuditLog = ''''"
  "al_Details zero_AuditLog = ''''"
  "al_Timestamp zero_AuditLog = zero_time"
  by (simp_all add: zero_AuditLog_def)

definition zero_AgentHeartbeat :: AgentHeartbeat where
  "zero_AgentHeartbeat = \<lparr>ah_ID = 0, ah_AgentID = '''', ah_CPUUsage = 0, ah_RAMUsage = 0, ah_VPNCount = 0, ah_ProxyCount = 0, ah_Timestamp = zero_time\<rparr>"

lemma zero_AgentHeartbeat_simps [simp]:
  "ah_ID zero_AgentHeartbeat = 0"
  "ah_AgentID zero_AgentHeartbeat = ''''"
  "ah_CPUUsage zero_AgentHeartbeat = 0"
  "ah_RAMUsage zero_AgentHeartbeat = 0"
  "ah_VPNCount zero_AgentHeartbeat = 0"
  "ah_ProxyCount zero_AgentHeartbeat = 0"
  "ah_Timestamp zero_AgentHeartbeat = zero_time"
  by (simp_all add: zero_AgentHeartbeat_def)

definition zero_PortAllocation :: PortAllocation where
  "zero_PortAllocation = \<lparr>pa_Port = 0, pa_Purpose = '''', pa_TargetID = '''', pa_Status = '''', pa_CreatedAt = zero_time\<rparr>"

lemma zero_PortAllocation_simps [simp]:
  "pa_Port zero_PortAllocation = 0"
  "pa_Purpose zero_PortAllocation = ''''"
  "pa_TargetID zero_PortAllocation = ''''"
  "pa_Status zero_PortAllocation = ''''"
  "pa_CreatedAt zero_PortAllocation = zero_time"
  by (simp_all add: zero_PortAllocation_def)

definition zero_RotationPolicy :: RotationPolicy where
  "zero_RotationPolicy = \<lparr>rp_ID = '''', rp_Name = '''', rp_Mode = '''', rp_Description = '''', rp_CreatedAt = zero_time, rp_UpdatedAt = zero_time\<rparr>"

lemma zero_RotationPolicy_simps [simp]:
  "rp_ID zero_RotationPolicy = ''''"
  "rp_Name zero_RotationPolicy = ''''"
  "rp_Mode zero_RotationPolicy = ''''"
  "rp_Description zero_RotationPolicy = ''''"
  "rp_CreatedAt zero_RotationPolicy = zero_time"
  "rp_UpdatedAt zero_RotationPolicy = zero_time"
  by (simp_all add: zero_RotationPolicy_def)

definition zero_ExpressVPNValidation :: ExpressVPNValidation where
  "zero_ExpressVPNValidation = \<lparr>ev_ID = '''', ev_NodeID = '''', ev_Status = '''', ev_Details = '''', ev_Timestamp = zero_time\<rparr>"

lemma zero_ExpressVPNValidation_simps [simp]:
  "ev_ID zero_ExpressVPNValidation = ''''"
  "ev_NodeID zero_ExpressVPNValidation = ''''"
  "ev_Status zero_ExpressVPNValidation = ''''"
  "ev_Details zero_ExpressVPNValidation = ''''"
  "ev_Timestamp zero_ExpressVPNValidation = zero_time"
  by (simp_all add: zero_ExpressVPNValidation_def)

definition zero_SystemMetricSnapshot :: SystemMetricSnapshot where
  "zero_SystemMetricSnapshot = \<lparr>sm_ID = 0, sm_CPUUsage = 0, sm_RAMUsage = 0, sm_DiskUsage = 0, sm_NetIn = 0, sm_NetOut = 0, sm_VPNCount = 0, sm_ProxyCount = 0, sm_Timestamp = zero_time\<rparr>"

lemma zero_SystemMetricSnapshot_simps [simp]:
  "sm_ID zero_SystemMetricSnapshot = 0"
  "sm_CPUUsage zero_SystemMetricSnapshot = 0"
  "sm_RAMUsage zero_SystemMetricSnapshot = 0"
  "sm_DiskUsage zero_SystemMetricSnapshot = 0"
  "sm_NetIn zero_SystemMetricSnapshot = 0"
  "sm_NetOut zero_SystemMetricSnapshot = 0"
  "sm_VPNCount zero_SystemMetricSnapshot = 0"
  "sm_ProxyCount zero_SystemMetricSnapshot = 0"
  "sm_Timestamp zero_SystemMetricSnapshot = zero_time"
  by (simp_all add: zero_SystemMetricSnapshot_def)

definition zero_AgentCredential :: AgentCredential where
  "zero_AgentCredential = \<lparr>ac_AgentID = '''', ac_TokenHash = '''', ac_IssuedAt = zero_time, ac_ExpiresAt = zero_time, ac_RevokedAt = None, ac_CreatedAt = zero_time\<rparr>"

lemma zero_AgentCredential_simps [simp]:
  "ac_AgentID zero_AgentCredential = ''''"
  "ac_TokenHash zero_AgentCredential = ''''"
  "ac_IssuedAt zero_AgentCredential = zero_time"
  "ac_ExpiresAt zero_AgentCredential = zero_time"
  "ac_RevokedAt zero_AgentCredential = None"
  "ac_CreatedAt zero_AgentCredential = zero_time"
  by (simp_all add: zero_AgentCredential_def)

definition zero_AgentCommand :: AgentCommand where
  "zero_AgentCommand = \<lparr>cmd_ID = '''', cmd_AgentID = '''', cmd_Type = '''', cmd_Payload = '''', cmd_Status = '''', cmd_IdempotencyKey = '''', cmd_TimeoutSeconds = 0, cmd_Attempts = 0, cmd_MaxAttempts = 0, cmd_CreatedAt = zero_time, cmd_DispatchedAt = None, cmd_ExecutedAt = None, cmd_CompletedAt = None, cmd_Result = '''', cmd_LastError = ''''\<rparr>"

lemma zero_AgentCommand_simps [simp]:
  "cmd_ID zero_AgentCommand = ''''"
  "cmd_AgentID zero_AgentCommand = ''''"
  "cmd_Type zero_AgentCommand = ''''"
  "cmd_Payload zero_AgentCommand = ''''"
  "cmd_Status zero_AgentCommand = ''''"
  "cmd_IdempotencyKey zero_AgentCommand = ''''"
  "cmd_TimeoutSeconds zero_AgentCommand = 0"
  "cmd_Attempts zero_AgentCommand = 0"
  "cmd_MaxAttempts zero_AgentCommand = 0"
  "cmd_CreatedAt zero_AgentCommand = zero_time"
  "cmd_DispatchedAt zero_AgentCommand = None"
  "cmd_ExecutedAt zero_AgentCommand = None"
  "cmd_CompletedAt zero_AgentCommand = None"
  "cmd_Result zero_AgentCommand = ''''"
  "cmd_LastError zero_AgentCommand = ''''"
  by (simp_all add: zero_AgentCommand_def)

definition zero_Customer :: Customer where
  "zero_Customer = \<lparr>cu_ID = '''', cu_Email = '''', cu_PasswordHash = '''', cu_Status = '''', cu_Role = '''', cu_CreatedAt = zero_time, cu_UpdatedAt = zero_time\<rparr>"

lemma zero_Customer_simps [simp]:
  "cu_ID zero_Customer = ''''"
  "cu_Email zero_Customer = ''''"
  "cu_PasswordHash zero_Customer = ''''"
  "cu_Status zero_Customer = ''''"
  "cu_Role zero_Customer = ''''"
  "cu_CreatedAt zero_Customer = zero_time"
  "cu_UpdatedAt zero_Customer = zero_time"
  by (simp_all add: zero_Customer_def)

definition zero_CustomerCredential :: CustomerCredential where
  "zero_CustomerCredential = \<lparr>cc_ID = '''', cc_CustomerID = '''', cc_PasswordHash = '''', cc_CreatedAt = zero_time, cc_UpdatedAt = zero_time\<rparr>"

lemma zero_CustomerCredential_simps [simp]:
  "cc_ID zero_CustomerCredential = ''''"
  "cc_CustomerID zero_CustomerCredential = ''''"
  "cc_PasswordHash zero_CustomerCredential = ''''"
  "cc_CreatedAt zero_CustomerCredential = zero_time"
  "cc_UpdatedAt zero_CustomerCredential = zero_time"
  by (simp_all add: zero_CustomerCredential_def)

definition zero_CustomerSession :: CustomerSession where
  "zero_CustomerSession = \<lparr>cs_ID = '''', cs_CustomerID = '''', cs_TokenHash = '''', cs_ExpiresAt = zero_time, cs_RevokedAt = None, cs_CreatedAt = zero_time\<rparr>"

lemma zero_CustomerSession_simps [simp]:
  "cs_ID zero_CustomerSession = ''''"
  "cs_CustomerID zero_CustomerSession = ''''"
  "cs_TokenHash zero_CustomerSession = ''''"
  "cs_ExpiresAt zero_CustomerSession = zero_time"
  "cs_RevokedAt zero_CustomerSession = None"
  "cs_CreatedAt zero_CustomerSession = zero_time"
  by (simp_all add: zero_CustomerSession_def)

definition zero_CustomerApiKey :: CustomerApiKey where
  "zero_CustomerApiKey = \<lparr>ck_ID = '''', ck_CustomerID = '''', ck_Name = '''', ck_KeyHash = '''', ck_Prefix = '''', ck_Status = '''', ck_CreatedAt = zero_time, ck_LastUsedAt = None\<rparr>"

lemma zero_CustomerApiKey_simps [simp]:
  "ck_ID zero_CustomerApiKey = ''''"
  "ck_CustomerID zero_CustomerApiKey = ''''"
  "ck_Name zero_CustomerApiKey = ''''"
  "ck_KeyHash zero_CustomerApiKey = ''''"
  "ck_Prefix zero_CustomerApiKey = ''''"
  "ck_Status zero_CustomerApiKey = ''''"
  "ck_CreatedAt zero_CustomerApiKey = zero_time"
  "ck_LastUsedAt zero_CustomerApiKey = None"
  by (simp_all add: zero_CustomerApiKey_def)

definition zero_ProxyPlan :: ProxyPlan where
  "zero_ProxyPlan = \<lparr>pp_ID = '''', pp_Name = '''', pp_MaxProxies = 0, pp_AllowedCountries = '''', pp_BandwidthLimitGB = 0, pp_RotationModes = '''', pp_ConcurrentConnections = 0, pp_Price = 0, pp_Status = '''', pp_CreatedAt = zero_time, pp_UpdatedAt = zero_time\<rparr>"

lemma zero_ProxyPlan_simps [simp]:
  "pp_ID zero_ProxyPlan = ''''"
  "pp_Name zero_ProxyPlan = ''''"
  "pp_MaxProxies zero_ProxyPlan = 0"
  "pp_AllowedCountries zero_ProxyPlan = ''''"
  "pp_BandwidthLimitGB zero_ProxyPlan = 0"
  "pp_RotationModes zero_ProxyPlan = ''''"
  "pp_ConcurrentConnections zero_ProxyPlan = 0"
  "pp_Price zero_ProxyPlan = 0"
  "pp_Status zero_ProxyPlan = ''''"
  "pp_CreatedAt zero_ProxyPlan = zero_time"
  "pp_UpdatedAt zero_ProxyPlan = zero_time"
  by (simp_all add: zero_ProxyPlan_def)

definition zero_CustomerSubscription :: CustomerSubscription where
  "zero_CustomerSubscription = \<lparr>csub_ID = '''', csub_CustomerID = '''', csub_PlanID = '''', csub_Status = '''', csub_StartsAt = zero_time, csub_ExpiresAt = zero_time, csub_UsageResetAt = zero_time, csub_CreatedAt = zero_time, csub_UpdatedAt = zero_time\<rparr>"

lemma zero_CustomerSubscription_simps [simp]:
  "csub_ID zero_CustomerSubscription = ''''"
  "csub_CustomerID zero_CustomerSubscription = ''''"
  "csub_PlanID zero_CustomerSubscription = ''''"
  "csub_Status zero_CustomerSubscription = ''''"
  "csub_StartsAt zero_CustomerSubscription = zero_time"
  "csub_ExpiresAt zero_CustomerSubscription = zero_time"
  "csub_UsageResetAt zero_CustomerSubscription = zero_time"
  "csub_CreatedAt zero_CustomerSubscription = zero_time"
  "csub_UpdatedAt zero_CustomerSubscription = zero_time"
  by (simp_all add: zero_CustomerSubscription_def)

definition zero_CustomerProxyCredential :: CustomerProxyCredential where
  "zero_CustomerProxyCredential = \<lparr>cpc_ID = '''', cpc_Username = '''', cpc_PasswordHash = '''', cpc_CustomerID = '''', cpc_ProxyID = '''', cpc_Status = '''', cpc_CreatedAt = zero_time, cpc_RotatedAt = None\<rparr>"

lemma zero_CustomerProxyCredential_simps [simp]:
  "cpc_ID zero_CustomerProxyCredential = ''''"
  "cpc_Username zero_CustomerProxyCredential = ''''"
  "cpc_PasswordHash zero_CustomerProxyCredential = ''''"
  "cpc_CustomerID zero_CustomerProxyCredential = ''''"
  "cpc_ProxyID zero_CustomerProxyCredential = ''''"
  "cpc_Status zero_CustomerProxyCredential = ''''"
  "cpc_CreatedAt zero_CustomerProxyCredential = zero_time"
  "cpc_RotatedAt zero_CustomerProxyCredential = None"
  by (simp_all add: zero_CustomerProxyCredential_def)

definition zero_CustomerProxyAllocation :: CustomerProxyAllocation where
  "zero_CustomerProxyAllocation = \<lparr>cpa_ID = '''', cpa_CustomerID = '''', cpa_SubscriptionID = '''', cpa_ProxyID = '''', cpa_CredentialID = '''', cpa_RotationMode = '''', cpa_Country = '''', cpa_Status = '''', cpa_BandwidthIn = 0, cpa_BandwidthOut = 0, cpa_CreatedAt = zero_time, cpa_UpdatedAt = zero_time, cpa_DegradedAt = None\<rparr>"

lemma zero_CustomerProxyAllocation_simps [simp]:
  "cpa_ID zero_CustomerProxyAllocation = ''''"
  "cpa_CustomerID zero_CustomerProxyAllocation = ''''"
  "cpa_SubscriptionID zero_CustomerProxyAllocation = ''''"
  "cpa_ProxyID zero_CustomerProxyAllocation = ''''"
  "cpa_CredentialID zero_CustomerProxyAllocation = ''''"
  "cpa_RotationMode zero_CustomerProxyAllocation = ''''"
  "cpa_Country zero_CustomerProxyAllocation = ''''"
  "cpa_Status zero_CustomerProxyAllocation = ''''"
  "cpa_BandwidthIn zero_CustomerProxyAllocation = 0"
  "cpa_BandwidthOut zero_CustomerProxyAllocation = 0"
  "cpa_CreatedAt zero_CustomerProxyAllocation = zero_time"
  "cpa_UpdatedAt zero_CustomerProxyAllocation = zero_time"
  "cpa_DegradedAt zero_CustomerProxyAllocation = None"
  by (simp_all add: zero_CustomerProxyAllocation_def)

definition zero_UsageMetric :: UsageMetric where
  "zero_UsageMetric = \<lparr>um_ID = 0, um_CustomerID = '''', um_ProxyID = '''', um_AgentID = '''', um_BandwidthIn = 0, um_BandwidthOut = 0, um_ConnectionCount = 0, um_RequestCount = 0, um_ActiveConnections = 0, um_Bucket = '''', um_PeriodStart = zero_time, um_CreatedAt = zero_time\<rparr>"

lemma zero_UsageMetric_simps [simp]:
  "um_ID zero_UsageMetric = 0"
  "um_CustomerID zero_UsageMetric = ''''"
  "um_ProxyID zero_UsageMetric = ''''"
  "um_AgentID zero_UsageMetric = ''''"
  "um_BandwidthIn zero_UsageMetric = 0"
  "um_BandwidthOut zero_UsageMetric = 0"
  "um_ConnectionCount zero_UsageMetric = 0"
  "um_RequestCount zero_UsageMetric = 0"
  "um_ActiveConnections zero_UsageMetric = 0"
  "um_Bucket zero_UsageMetric = ''''"
  "um_PeriodStart zero_UsageMetric = zero_time"
  "um_CreatedAt zero_UsageMetric = zero_time"
  by (simp_all add: zero_UsageMetric_def)

definition zero_Invoice :: Invoice where
  "zero_Invoice = \<lparr>inv_ID = '''', inv_CustomerID = '''', inv_PlanID = '''', inv_SubscriptionID = '''', inv_Amount = 0, inv_Currency = '''', inv_Status = '''', inv_Provider = '''', inv_PaymentRef = '''', inv_CheckoutURL = '''', inv_CreatedAt = zero_time, inv_PaidAt = None\<rparr>"

lemma zero_Invoice_simps [simp]:
  "inv_ID zero_Invoice = ''''"
  "inv_CustomerID zero_Invoice = ''''"
  "inv_PlanID zero_Invoice = ''''"
  "inv_SubscriptionID zero_Invoice = ''''"
  "inv_Amount zero_Invoice = 0"
  "inv_Currency zero_Invoice = ''''"
  "inv_Status zero_Invoice = ''''"
  "inv_Provider zero_Invoice = ''''"
  "inv_PaymentRef zero_Invoice = ''''"
  "inv_CheckoutURL zero_Invoice = ''''"
  "inv_CreatedAt zero_Invoice = zero_time"
  "inv_PaidAt zero_Invoice = None"
  by (simp_all add: zero_Invoice_def)

definition zero_Plan :: Plan where
  "zero_Plan = \<lparr>pl_ID = '''', pl_Name = '''', pl_Description = '''', pl_Price = 0, pl_Currency = '''', pl_MaxProxies = 0, pl_BandwidthLimitGB = 0, pl_ConcurrentConnections = 0, pl_AllowedCountries = '''', pl_Status = '''', pl_CreatedAt = zero_time, pl_UpdatedAt = zero_time\<rparr>"

lemma zero_Plan_simps [simp]:
  "pl_ID zero_Plan = ''''"
  "pl_Name zero_Plan = ''''"
  "pl_Description zero_Plan = ''''"
  "pl_Price zero_Plan = 0"
  "pl_Currency zero_Plan = ''''"
  "pl_MaxProxies zero_Plan = 0"
  "pl_BandwidthLimitGB zero_Plan = 0"
  "pl_ConcurrentConnections zero_Plan = 0"
  "pl_AllowedCountries zero_Plan = ''''"
  "pl_Status zero_Plan = ''''"
  "pl_CreatedAt zero_Plan = zero_time"
  "pl_UpdatedAt zero_Plan = zero_time"
  by (simp_all add: zero_Plan_def)

definition zero_PlanFeature :: PlanFeature where
  "zero_PlanFeature = \<lparr>pf_ID = '''', pf_PlanID = '''', pf_Key = '''', pf_Value = '''', pf_CreatedAt = zero_time\<rparr>"

lemma zero_PlanFeature_simps [simp]:
  "pf_ID zero_PlanFeature = ''''"
  "pf_PlanID zero_PlanFeature = ''''"
  "pf_Key zero_PlanFeature = ''''"
  "pf_Value zero_PlanFeature = ''''"
  "pf_CreatedAt zero_PlanFeature = zero_time"
  by (simp_all add: zero_PlanFeature_def)

definition zero_Subscription :: Subscription where
  "zero_Subscription = \<lparr>sub_ID = '''', sub_CustomerID = '''', sub_PlanID = '''', sub_Status = '''', sub_StartsAt = zero_time, sub_ExpiresAt = zero_time, sub_AutoRenew = False, sub_CreatedAt = zero_time, sub_UpdatedAt = zero_time\<rparr>"

lemma zero_Subscription_simps [simp]:
  "sub_ID zero_Subscription = ''''"
  "sub_CustomerID zero_Subscription = ''''"
  "sub_PlanID zero_Subscription = ''''"
  "sub_Status zero_Subscription = ''''"
  "sub_StartsAt zero_Subscription = zero_time"
  "sub_ExpiresAt zero_Subscription = zero_time"
  "sub_AutoRenew zero_Subscription = False"
  "sub_CreatedAt zero_Subscription = zero_time"
  "sub_UpdatedAt zero_Subscription = zero_time"
  by (simp_all add: zero_Subscription_def)

definition zero_InvoiceItem :: InvoiceItem where
  "zero_InvoiceItem = \<lparr>ii_ID = '''', ii_InvoiceID = '''', ii_Description = '''', ii_Quantity = 0, ii_UnitAmount = 0, ii_Amount = 0, ii_CreatedAt = zero_time\<rparr>"

lemma zero_InvoiceItem_simps [simp]:
  "ii_ID zero_InvoiceItem = ''''"
  "ii_InvoiceID zero_InvoiceItem = ''''"
  "ii_Description zero_InvoiceItem = ''''"
  "ii_Quantity zero_InvoiceItem = 0"
  "ii_UnitAmount zero_InvoiceItem = 0"
  "ii_Amount zero_InvoiceItem = 0"
  "ii_CreatedAt zero_InvoiceItem = zero_time"
  by (simp_all add: zero_InvoiceItem_def)

definition zero_AuditEvent :: AuditEvent where
  "zero_AuditEvent = \<lparr>ae_ID = '''', ae_ActorID = '''', ae_ActorType = '''', ae_Action = '''', ae_TargetID = '''', ae_TargetType = '''', ae_Metadata = None, ae_CreatedAt = zero_time\<rparr>"

lemma zero_AuditEvent_simps [simp]:
  "ae_ID zero_AuditEvent = ''''"
  "ae_ActorID zero_AuditEvent = ''''"
  "ae_ActorType zero_AuditEvent = ''''"
  "ae_Action zero_AuditEvent = ''''"
  "ae_TargetID zero_AuditEvent = ''''"
  "ae_TargetType zero_AuditEvent = ''''"
  "ae_Metadata zero_AuditEvent = None"
  "ae_CreatedAt zero_AuditEvent = zero_time"
  by (simp_all add: zero_AuditEvent_def)

definition zero_AbuseRule :: AbuseRule where
  "zero_AbuseRule = \<lparr>ar_ID = '''', ar_Name = '''', ar_Type = '''', ar_Threshold = 0, ar_Action = '''', ar_Enabled = False, ar_CreatedAt = zero_time, ar_UpdatedAt = zero_time\<rparr>"

lemma zero_AbuseRule_simps [simp]:
  "ar_ID zero_AbuseRule = ''''"
  "ar_Name zero_AbuseRule = ''''"
  "ar_Type zero_AbuseRule = ''''"
  "ar_Threshold zero_AbuseRule = 0"
  "ar_Action zero_AbuseRule = ''''"
  "ar_Enabled zero_AbuseRule = False"
  "ar_CreatedAt zero_AbuseRule = zero_time"
  "ar_UpdatedAt zero_AbuseRule = zero_time"
  by (simp_all add: zero_AbuseRule_def)

definition zero_AbuseEvent :: AbuseEvent where
  "zero_AbuseEvent = \<lparr>abe_ID = '''', abe_CustomerID = '''', abe_ProxyID = '''', abe_RuleID = '''', abe_Severity = '''', abe_Message = '''', abe_Metadata = None, abe_CreatedAt = zero_time\<rparr>"

lemma zero_AbuseEvent_simps [simp]:
  "abe_ID zero_AbuseEvent = ''''"
  "abe_CustomerID zero_AbuseEvent = ''''"
  "abe_ProxyID zero_AbuseEvent = ''''"
  "abe_RuleID zero_AbuseEvent = ''''"
  "abe_Severity zero_AbuseEvent = ''''"
  "abe_Message zero_AbuseEvent = ''''"
  "abe_Metadata zero_AbuseEvent = None"
  "abe_CreatedAt zero_AbuseEvent = zero_time"
  by (simp_all add: zero_AbuseEvent_def)

definition zero_CustomerRiskScore :: CustomerRiskScore where
  "zero_CustomerRiskScore = \<lparr>rs_CustomerID = '''', rs_Score = 0, rs_Level = '''', rs_Factors = '''', rs_UpdatedAt = zero_time\<rparr>"

lemma zero_CustomerRiskScore_simps [simp]:
  "rs_CustomerID zero_CustomerRiskScore = ''''"
  "rs_Score zero_CustomerRiskScore = 0"
  "rs_Level zero_CustomerRiskScore = ''''"
  "rs_Factors zero_CustomerRiskScore = ''''"
  "rs_UpdatedAt zero_CustomerRiskScore = zero_time"
  by (simp_all add: zero_CustomerRiskScore_def)

definition zero_IPWhitelist :: IPWhitelist where
  "zero_IPWhitelist = \<lparr>wl_ID = '''', wl_CustomerID = '''', wl_IPAddress = '''', wl_CIDR = '''', wl_Description = '''', wl_Enabled = False, wl_CreatedAt = zero_time, wl_UpdatedAt = zero_time\<rparr>"

lemma zero_IPWhitelist_simps [simp]:
  "wl_ID zero_IPWhitelist = ''''"
  "wl_CustomerID zero_IPWhitelist = ''''"
  "wl_IPAddress zero_IPWhitelist = ''''"
  "wl_CIDR zero_IPWhitelist = ''''"
  "wl_Description zero_IPWhitelist = ''''"
  "wl_Enabled zero_IPWhitelist = False"
  "wl_CreatedAt zero_IPWhitelist = zero_time"
  "wl_UpdatedAt zero_IPWhitelist = zero_time"
  by (simp_all add: zero_IPWhitelist_def)

definition zero_BlockedTarget :: BlockedTarget where
  "zero_BlockedTarget = \<lparr>bt_ID = '''', bt_Type = '''', bt_Value = '''', bt_Reason = '''', bt_Enabled = False, bt_CreatedAt = zero_time, bt_UpdatedAt = zero_time\<rparr>"

lemma zero_BlockedTarget_simps [simp]:
  "bt_ID zero_BlockedTarget = ''''"
  "bt_Type zero_BlockedTarget = ''''"
  "bt_Value zero_BlockedTarget = ''''"
  "bt_Reason zero_BlockedTarget = ''''"
  "bt_Enabled zero_BlockedTarget = False"
  "bt_CreatedAt zero_BlockedTarget = zero_time"
  "bt_UpdatedAt zero_BlockedTarget = zero_time"
  by (simp_all add: zero_BlockedTarget_def)

definition zero_ConnectionLimit :: ConnectionLimit where
  "zero_ConnectionLimit = \<lparr>cl_ID = '''', cl_CustomerID = '''', cl_ProxyID = '''', cl_MaxConcurrent = 0, cl_MaxPerProxy = 0, cl_MaxFailedAuth = 0, cl_MaxRequestsPerMinute = 0, cl_CreatedAt = zero_time, cl_UpdatedAt = zero_time\<rparr>"

lemma zero_ConnectionLimit_simps [simp]:
  "cl_ID zero_ConnectionLimit = ''''"
  "cl_CustomerID zero_ConnectionLimit = ''''"
  "cl_ProxyID zero_ConnectionLimit = ''''"
  "cl_MaxConcurrent zero_ConnectionLimit = 0"
  "cl_MaxPerProxy zero_ConnectionLimit = 0"
  "cl_MaxFailedAuth zero_ConnectionLimit = 0"
  "cl_MaxRequestsPerMinute zero_ConnectionLimit = 0"
  "cl_CreatedAt zero_ConnectionLimit = zero_time"
  "cl_UpdatedAt zero_ConnectionLimit = zero_time"
  by (simp_all add: zero_ConnectionLimit_def)

definition zero_ProxyPool :: ProxyPool where
  "zero_ProxyPool = \<lparr>pool_ID = '''', pool_Country = '''', pool_Region = '''', pool_Status = '''', pool_Strategy = '''', pool_CreatedAt = zero_time, pool_UpdatedAt = zero_time\<rparr>"

lemma zero_ProxyPool_simps [simp]:
  "pool_ID zero_ProxyPool = ''''"
  "pool_Country zero_ProxyPool = ''''"
  "pool_Region zero_ProxyPool = ''''"
  "pool_Status zero_ProxyPool = ''''"
  "pool_Strategy zero_ProxyPool = ''''"
  "pool_CreatedAt zero_ProxyPool = zero_time"
  "pool_UpdatedAt zero_ProxyPool = zero_time"
  by (simp_all add: zero_ProxyPool_def)

definition zero_ProxyPoolMember :: ProxyPoolMember where
  "zero_ProxyPoolMember = \<lparr>pm_ID = '''', pm_PoolID = '''', pm_ProxyID = '''', pm_AgentID = '''', pm_VPNNodeID = '''', pm_HealthStatus = '''', pm_QualityScore = 0, pm_ActiveLoad = 0, pm_Status = '''', pm_LastChecked = zero_time, pm_CreatedAt = zero_time, pm_UpdatedAt = zero_time\<rparr>"

lemma zero_ProxyPoolMember_simps [simp]:
  "pm_ID zero_ProxyPoolMember = ''''"
  "pm_PoolID zero_ProxyPoolMember = ''''"
  "pm_ProxyID zero_ProxyPoolMember = ''''"
  "pm_AgentID zero_ProxyPoolMember = ''''"
  "pm_VPNNodeID zero_ProxyPoolMember = ''''"
  "pm_HealthStatus zero_ProxyPoolMember = ''''"
  "pm_QualityScore zero_ProxyPoolMember = 0"
  "pm_ActiveLoad zero_ProxyPoolMember = 0"
  "pm_Status zero_ProxyPoolMember = ''''"
  "pm_LastChecked zero_ProxyPoolMember = zero_time"
  "pm_CreatedAt zero_ProxyPoolMember = zero_time"
  "pm_UpdatedAt zero_ProxyPoolMember = zero_time"
  by (simp_all add: zero_ProxyPoolMember_def)

definition zero_ProxyQualitySnapshot :: ProxyQualitySnapshot where
  "zero_ProxyQualitySnapshot = \<lparr>qs_ID = '''', qs_ProxyID = '''', qs_Score = 0, qs_Grade = '''', qs_LatencyMs = 0, qs_UptimePercent = 0, qs_ConnectionSuccessRate = 0, qs_BandwidthAvailableGB = 0, qs_RecentFailures = 0, qs_HealthStatus = '''', qs_CreatedAt = zero_time\<rparr>"

lemma zero_ProxyQualitySnapshot_simps [simp]:
  "qs_ID zero_ProxyQualitySnapshot = ''''"
  "qs_ProxyID zero_ProxyQualitySnapshot = ''''"
  "qs_Score zero_ProxyQualitySnapshot = 0"
  "qs_Grade zero_ProxyQualitySnapshot = ''''"
  "qs_LatencyMs zero_ProxyQualitySnapshot = 0"
  "qs_UptimePercent zero_ProxyQualitySnapshot = 0"
  "qs_ConnectionSuccessRate zero_ProxyQualitySnapshot = 0"
  "qs_BandwidthAvailableGB zero_ProxyQualitySnapshot = 0"
  "qs_RecentFailures zero_ProxyQualitySnapshot = 0"
  "qs_HealthStatus zero_ProxyQualitySnapshot = ''''"
  "qs_CreatedAt zero_ProxyQualitySnapshot = zero_time"
  by (simp_all add: zero_ProxyQualitySnapshot_def)

definition zero_StickySession :: StickySession where
  "zero_StickySession = \<lparr>ss_ID = '''', ss_CustomerID = '''', ss_SessionKey = '''', ss_Country = '''', ss_ProxyID = '''', ss_RotationMode = '''', ss_ExpiresAt = zero_time, ss_CreatedAt = zero_time, ss_UpdatedAt = zero_time\<rparr>"

lemma zero_StickySession_simps [simp]:
  "ss_ID zero_StickySession = ''''"
  "ss_CustomerID zero_StickySession = ''''"
  "ss_SessionKey zero_StickySession = ''''"
  "ss_Country zero_StickySession = ''''"
  "ss_ProxyID zero_StickySession = ''''"
  "ss_RotationMode zero_StickySession = ''''"
  "ss_ExpiresAt zero_StickySession = zero_time"
  "ss_CreatedAt zero_StickySession = zero_time"
  "ss_UpdatedAt zero_StickySession = zero_time"
  by (simp_all add: zero_StickySession_def)

definition zero_ProxyReservation :: ProxyReservation where
  "zero_ProxyReservation = \<lparr>pres_ID = '''', pres_CustomerID = '''', pres_ProxyID = '''', pres_PoolID = '''', pres_AgentID = '''', pres_Country = '''', pres_Type = '''', pres_Status = '''', pres_StartsAt = zero_time, pres_ExpiresAt = None, pres_Permanent = False, pres_CreatedAt = zero_time, pres_UpdatedAt = zero_time\<rparr>"

lemma zero_ProxyReservation_simps [simp]:
  "pres_ID zero_ProxyReservation = ''''"
  "pres_CustomerID zero_ProxyReservation = ''''"
  "pres_ProxyID zero_ProxyReservation = ''''"
  "pres_PoolID zero_ProxyReservation = ''''"
  "pres_AgentID zero_ProxyReservation = ''''"
  "pres_Country zero_ProxyReservation = ''''"
  "pres_Type zero_ProxyReservation = ''''"
  "pres_Status zero_ProxyReservation = ''''"
  "pres_StartsAt zero_ProxyReservation = zero_time"
  "pres_ExpiresAt zero_ProxyReservation = None"
  "pres_Permanent zero_ProxyReservation = False"
  "pres_CreatedAt zero_ProxyReservation = zero_time"
  "pres_UpdatedAt zero_ProxyReservation = zero_time"
  by (simp_all add: zero_ProxyReservation_def)

definition zero_RoutingEvent :: RoutingEvent where
  "zero_RoutingEvent = \<lparr>re_ID = '''', re_CustomerID = '''', re_ProxyID = '''', re_PoolID = '''', re_Action = '''', re_Message = '''', re_Metadata = None, re_CreatedAt = zero_time\<rparr>"

lemma zero_RoutingEvent_simps [simp]:
  "re_ID zero_RoutingEvent = ''''"
  "re_CustomerID zero_RoutingEvent = ''''"
  "re_ProxyID zero_RoutingEvent = ''''"
  "re_PoolID zero_RoutingEvent = ''''"
  "re_Action zero_RoutingEvent = ''''"
  "re_Message zero_RoutingEvent = ''''"
  "re_Metadata zero_RoutingEvent = None"
  "re_CreatedAt zero_RoutingEvent = zero_time"
  by (simp_all add: zero_RoutingEvent_def)

definition zero_RoutingSelectionInput :: RoutingSelectionInput where
  "zero_RoutingSelectionInput = \<lparr>rsi_CustomerID = '''', rsi_Country = '''', rsi_Region = '''', rsi_Provider = '''', rsi_ASN = '''', rsi_ISP = '''', rsi_Strategy = '''', rsi_ProxyType = '''', rsi_PlanID = '''', rsi_SessionKey = '''', rsi_RotationMode = '''', rsi_TargetRegion = ''''\<rparr>"

lemma zero_RoutingSelectionInput_simps [simp]:
  "rsi_CustomerID zero_RoutingSelectionInput = ''''"
  "rsi_Country zero_RoutingSelectionInput = ''''"
  "rsi_Region zero_RoutingSelectionInput = ''''"
  "rsi_Provider zero_RoutingSelectionInput = ''''"
  "rsi_ASN zero_RoutingSelectionInput = ''''"
  "rsi_ISP zero_RoutingSelectionInput = ''''"
  "rsi_Strategy zero_RoutingSelectionInput = ''''"
  "rsi_ProxyType zero_RoutingSelectionInput = ''''"
  "rsi_PlanID zero_RoutingSelectionInput = ''''"
  "rsi_SessionKey zero_RoutingSelectionInput = ''''"
  "rsi_RotationMode zero_RoutingSelectionInput = ''''"
  "rsi_TargetRegion zero_RoutingSelectionInput = ''''"
  by (simp_all add: zero_RoutingSelectionInput_def)

end
