(* ===== verification/World.thy ===== *)
theory World imports Domain begin

text \<open>
  The state every service works on: the SQLite database with one row list per table of
  \<^verbatim>\<open>AutoMigrate\<close> (\<^verbatim>\<open>internal/repository/sqlite.go\<close>), the environment the code reads (the clock, the
  supplies of UUIDs and random bytes, the sockets), and the memory each service keeps. GORM's
  statements are operations on this state: every statement takes one bit from \<open>faults\<close>, which says
  whether the driver executes it, so that each \<^verbatim>\<open>.Error\<close> branch of the code is a branch of the model
  (an empty list means that every further statement succeeds). A schema holds what the struct tags
  declare: primary key, unique indexes, column defaults and GORM's \<^verbatim>\<open>CreatedAt\<close> and \<^verbatim>\<open>UpdatedAt\<close>.
\<close>

section \<open>Memory of the services\<close>

text \<open>\<^verbatim>\<open>proxy.GoProxyServer\<close>: one listening proxy; the two booleans say whether the package-level hooks
  \<^verbatim>\<open>customerAuthValidator\<close> and \<^verbatim>\<open>connectionGuard\<close> were set when it was made.\<close>

record GoProxyServer =
  gs_port :: int
  gs_proxyID :: string
  gs_bindIP :: string
  gs_outboundIP :: string
  gs_netnsName :: string
  gs_username :: string
  gs_password :: string
  gs_auth :: bool
  gs_guard :: bool
  gs_running :: bool

text \<open>A connected VPN interface (\<^verbatim>\<open>domain.VpnInterface\<close>): the getters of the three driver structs. Only
  \<^verbatim>\<open>WgInterface\<close> has \<^verbatim>\<open>GetNamespace\<close>.\<close>

record VpnIface =
  vi_id :: string
  vi_name :: string
  vi_localIP :: string
  vi_interfaceName :: string
  vi_status :: string
  vi_namespace :: "string option"

text \<open>\<^verbatim>\<open>abuse.Service\<close>: a missing key of a Go map reads as the zero value.\<close>

record AbuseMem =
  ab_activeCustomer :: "string \<Rightarrow> int"
  ab_activeProxy :: "string \<Rightarrow> int"
  ab_failedAuth :: "string \<Rightarrow> time list"
  ab_requests :: "string \<Rightarrow> time list"
  ab_tempBlocked :: "string \<Rightarrow> time option"

text \<open>\<^verbatim>\<open>health.CachedHeartbeat\<close>.\<close>

record CachedHeartbeat =
  ch_AgentID :: string
  ch_CPUUsage :: real
  ch_RAMUsage :: real
  ch_VPNCount :: int
  ch_ProxyCount :: int
  ch_Timestamp :: time

text \<open>\<^verbatim>\<open>event.EventType\<close>, \<^verbatim>\<open>event.Event\<close> and the payloads the code publishes.\<close>

datatype EventType = AgentRegistered | AgentConnected | AgentDisconnected | AgentOnline
  | AgentOffline | VPNConnected | VPNDisconnected | ProxyCreated | ProxyDeleted | ProxyFailed
  | HealthChanged | CommandCreated | CommandDispatched | CommandExecuting | CommandExecuted

datatype payload = NoPayload | PCommand AgentCommand | PGrade string

record Event =
  ev_Type :: EventType
  ev_AgentID :: string
  ev_TargetID :: string
  ev_Payload :: payload

text \<open>The listeners of the bus by type, and the goroutines \<^verbatim>\<open>go l(e)\<close> it has started, oldest first.\<close>

record EventBus =
  eb_listeners :: "EventType \<Rightarrow> nat list"
  eb_started :: "(nat \<times> Event) list"

section \<open>The world\<close>

record world =
  clock :: time
  uuid_of :: "nat \<Rightarrow> string"
  uuid_next :: nat
  rand_of :: "nat \<Rightarrow> nat \<Rightarrow> 8 word list option"
  rand_next :: nat
  can_listen :: "string \<Rightarrow> int \<Rightarrow> bool"
  faults :: "bool list"
  vpn_credentials :: "VPNCredential list"
  vpn_nodes :: "VPNNode list"
  agents :: "Agent list"
  express_vpn_sessions :: "ExpressVPNSession list"
  proxies :: "Proxy list"
  health_metrics :: "HealthMetric list"
  audit_logs :: "AuditLog list"
  agent_heartbeats :: "AgentHeartbeat list"
  port_allocations :: "PortAllocation list"
  rotation_policies :: "RotationPolicy list"
  express_vpn_validations :: "ExpressVPNValidation list"
  system_metric_snapshots :: "SystemMetricSnapshot list"
  agent_credentials :: "AgentCredential list"
  agent_commands :: "AgentCommand list"
  customers :: "Customer list"
  customer_credentials :: "CustomerCredential list"
  customer_sessions :: "CustomerSession list"
  customer_api_keys :: "CustomerApiKey list"
  proxy_plans :: "ProxyPlan list"
  customer_subscriptions :: "CustomerSubscription list"
  customer_proxy_credentials :: "CustomerProxyCredential list"
  customer_proxy_allocations :: "CustomerProxyAllocation list"
  usage_metrics :: "UsageMetric list"
  invoices :: "Invoice list"
  plans :: "Plan list"
  plan_features :: "PlanFeature list"
  subscriptions :: "Subscription list"
  invoice_items :: "InvoiceItem list"
  audit_events :: "AuditEvent list"
  abuse_rules :: "AbuseRule list"
  abuse_events :: "AbuseEvent list"
  customer_risk_scores :: "CustomerRiskScore list"
  ip_whitelists :: "IPWhitelist list"
  blocked_targets :: "BlockedTarget list"
  connection_limits :: "ConnectionLimit list"
  proxy_pools :: "ProxyPool list"
  proxy_pool_members :: "ProxyPoolMember list"
  proxy_quality_snapshots :: "ProxyQualitySnapshot list"
  sticky_sessions :: "StickySession list"
  proxy_reservations :: "ProxyReservation list"
  routing_events :: "RoutingEvent list"
  abuse_mem :: AbuseMem
  routing_rr :: "string \<Rightarrow> int"
  servers :: "int \<Rightarrow> GoProxyServer option"
  vpn_active :: "string \<Rightarrow> VpnIface option"
  hb_cache :: "string \<Rightarrow> CachedHeartbeat option"
  monitor_grade :: string
  monitor_latency :: int
  event_bus :: EventBus

text \<open>A process that has just started on an empty database (\<^verbatim>\<open>NewService\<close> of each package).\<close>

definition new_abuse_mem :: AbuseMem where
  "new_abuse_mem = \<lparr>ab_activeCustomer = (\<lambda>_. 0), ab_activeProxy = (\<lambda>_. 0), ab_failedAuth = (\<lambda>_. []),
    ab_requests = (\<lambda>_. []), ab_tempBlocked = (\<lambda>_. None)\<rparr>"

lemma new_abuse_mem_simps [simp]:
  "ab_activeCustomer new_abuse_mem = (\<lambda>_. 0)" "ab_activeProxy new_abuse_mem = (\<lambda>_. 0)"
  "ab_failedAuth new_abuse_mem = (\<lambda>_. [])" "ab_requests new_abuse_mem = (\<lambda>_. [])"
  "ab_tempBlocked new_abuse_mem = (\<lambda>_. None)"
  by (simp_all add: new_abuse_mem_def)

definition demo_uuid :: "nat \<Rightarrow> string" where
  "demo_uuid n = replicate (Suc n) (CHR ''u'')"

definition start_world :: world where
  "start_world = \<lparr>clock = 1000 * hour,
    uuid_of = demo_uuid,
    uuid_next = 0,
    rand_of = (\<lambda>k n. Some (replicate n (of_nat k))),
    rand_next = 0,
    can_listen = (\<lambda>_ _. True),
    faults = [],
    vpn_credentials = [],
    vpn_nodes = [],
    agents = [],
    express_vpn_sessions = [],
    proxies = [],
    health_metrics = [],
    audit_logs = [],
    agent_heartbeats = [],
    port_allocations = [],
    rotation_policies = [],
    express_vpn_validations = [],
    system_metric_snapshots = [],
    agent_credentials = [],
    agent_commands = [],
    customers = [],
    customer_credentials = [],
    customer_sessions = [],
    customer_api_keys = [],
    proxy_plans = [],
    customer_subscriptions = [],
    customer_proxy_credentials = [],
    customer_proxy_allocations = [],
    usage_metrics = [],
    invoices = [],
    plans = [],
    plan_features = [],
    subscriptions = [],
    invoice_items = [],
    audit_events = [],
    abuse_rules = [],
    abuse_events = [],
    customer_risk_scores = [],
    ip_whitelists = [],
    blocked_targets = [],
    connection_limits = [],
    proxy_pools = [],
    proxy_pool_members = [],
    proxy_quality_snapshots = [],
    sticky_sessions = [],
    proxy_reservations = [],
    routing_events = [],
    abuse_mem = new_abuse_mem,
    routing_rr = (\<lambda>_. 0),
    servers = (\<lambda>_. None),
    vpn_active = (\<lambda>_. None),
    hb_cache = (\<lambda>_. None),
    monitor_grade = ''A'',
    monitor_latency = 0,
    event_bus = \<lparr>eb_listeners = (\<lambda>_. []), eb_started = []\<rparr>\<rparr>"

lemma start_world_simps [simp]:
  "clock start_world = 1000 * hour"
  "uuid_of start_world = demo_uuid"
  "uuid_next start_world = 0"
  "rand_of start_world = (\<lambda>k n. Some (replicate n (of_nat k)))"
  "rand_next start_world = 0"
  "can_listen start_world = (\<lambda>_ _. True)"
  "faults start_world = []"
  "vpn_credentials start_world = []"
  "vpn_nodes start_world = []"
  "agents start_world = []"
  "express_vpn_sessions start_world = []"
  "proxies start_world = []"
  "health_metrics start_world = []"
  "audit_logs start_world = []"
  "agent_heartbeats start_world = []"
  "port_allocations start_world = []"
  "rotation_policies start_world = []"
  "express_vpn_validations start_world = []"
  "system_metric_snapshots start_world = []"
  "agent_credentials start_world = []"
  "agent_commands start_world = []"
  "customers start_world = []"
  "customer_credentials start_world = []"
  "customer_sessions start_world = []"
  "customer_api_keys start_world = []"
  "proxy_plans start_world = []"
  "customer_subscriptions start_world = []"
  "customer_proxy_credentials start_world = []"
  "customer_proxy_allocations start_world = []"
  "usage_metrics start_world = []"
  "invoices start_world = []"
  "plans start_world = []"
  "plan_features start_world = []"
  "subscriptions start_world = []"
  "invoice_items start_world = []"
  "audit_events start_world = []"
  "abuse_rules start_world = []"
  "abuse_events start_world = []"
  "customer_risk_scores start_world = []"
  "ip_whitelists start_world = []"
  "blocked_targets start_world = []"
  "connection_limits start_world = []"
  "proxy_pools start_world = []"
  "proxy_pool_members start_world = []"
  "proxy_quality_snapshots start_world = []"
  "sticky_sessions start_world = []"
  "proxy_reservations start_world = []"
  "routing_events start_world = []"
  "abuse_mem start_world = new_abuse_mem"
  "routing_rr start_world = (\<lambda>_. 0)"
  "servers start_world = (\<lambda>_. None)"
  "vpn_active start_world = (\<lambda>_. None)"
  "hb_cache start_world = (\<lambda>_. None)"
  "monitor_grade start_world = ''A''"
  "monitor_latency start_world = 0"
  "event_bus start_world = \<lparr>eb_listeners = (\<lambda>_. []), eb_started = []\<rparr>"
  by (simp_all add: start_world_def)

section \<open>Statements\<close>

definition stmt :: "world \<Rightarrow> bool \<times> world" where
  "stmt w = (case faults w of [] \<Rightarrow> (True, w) | ok # rest \<Rightarrow> (ok, w\<lparr>faults := rest\<rparr>))"

definition new_uuid :: "world \<Rightarrow> string \<times> world" where
  "new_uuid w = (uuid_of w (uuid_next w), w\<lparr>uuid_next := Suc (uuid_next w)\<rparr>)"

definition rand_read :: "nat \<Rightarrow> world \<Rightarrow> 8 word list option \<times> world" where
  "rand_read n w = (rand_of w (rand_next w) n, w\<lparr>rand_next := Suc (rand_next w)\<rparr>)"

record ('r, 'k) schema =
  sc_rows :: "world \<Rightarrow> 'r list"
  sc_put :: "('r list \<Rightarrow> 'r list) \<Rightarrow> world \<Rightarrow> world"
  sc_key :: "'r \<Rightarrow> 'k"
  sc_clash :: "'r \<Rightarrow> 'r \<Rightarrow> bool"
  sc_create :: "time \<Rightarrow> 'r list \<Rightarrow> 'r \<Rightarrow> 'r"
  sc_update :: "time \<Rightarrow> 'r \<Rightarrow> 'r"

text \<open>\<^verbatim>\<open>db.First(&x, cond)\<close>: the least primary key among the rows that satisfy the condition.\<close>

definition db_first :: "('r, 'k::linorder) schema \<Rightarrow> ('r \<Rightarrow> bool) \<Rightarrow> world \<Rightarrow> 'r result \<times> world" where
  "db_first sc P w = (case stmt w of (ok, w1) \<Rightarrow>
     if \<not> ok then (Inl ErrDriver, w1)
     else case first_by (sc_key sc) (filter P (sc_rows sc w1)) of
       None \<Rightarrow> (Inl ErrNotFound, w1) | Some r \<Rightarrow> (Inr r, w1))"

text \<open>\<^verbatim>\<open>db.Where(cond).Order(o).First(&x)\<close>: GORM appends the primary key to the given order.\<close>

definition db_first_ordered ::
  "('r, 'k::linorder) schema \<Rightarrow> ('r \<Rightarrow> 'o::linorder) \<Rightarrow> ('r \<Rightarrow> bool) \<Rightarrow> world \<Rightarrow> 'r result \<times> world" where
  "db_first_ordered sc ord P w = (case stmt w of (ok, w1) \<Rightarrow>
     if \<not> ok then (Inl ErrDriver, w1)
     else case first_by (\<lambda>r. (ord r, sc_key sc r)) (filter P (sc_rows sc w1)) of
       None \<Rightarrow> (Inl ErrNotFound, w1) | Some r \<Rightarrow> (Inr r, w1))"

text \<open>\<^verbatim>\<open>Find\<close> without an order returns the rows in table order, with one in that order (stable).\<close>

definition db_find :: "('r, 'k) schema \<Rightarrow> ('r \<Rightarrow> bool) \<Rightarrow> world \<Rightarrow> 'r list result \<times> world" where
  "db_find sc P w = (case stmt w of (ok, w1) \<Rightarrow>
     if \<not> ok then (Inl ErrDriver, w1) else (Inr (filter P (sc_rows sc w1)), w1))"

definition db_find_ordered ::
  "('r, 'k) schema \<Rightarrow> ('r \<Rightarrow> 'o::linorder) \<Rightarrow> ('r \<Rightarrow> bool) \<Rightarrow> world \<Rightarrow> 'r list result \<times> world" where
  "db_find_ordered sc ord P w = (case stmt w of (ok, w1) \<Rightarrow>
     if \<not> ok then (Inl ErrDriver, w1) else (Inr (sort_key ord (filter P (sc_rows sc w1))), w1))"

text \<open>\<^verbatim>\<open>Count(&n)\<close> whose error is ignored: the variable keeps its zero when the statement fails.\<close>

definition db_count :: "('r, 'k) schema \<Rightarrow> ('r \<Rightarrow> bool) \<Rightarrow> world \<Rightarrow> int \<times> world" where
  "db_count sc P w = (case stmt w of (ok, w1) \<Rightarrow>
     (if ok then int (length (filter P (sc_rows sc w1))) else 0, w1))"

text \<open>\<^verbatim>\<open>Create\<close>: defaults and timestamps are written back into the struct, which is the result.\<close>

definition db_create :: "('r, 'k) schema \<Rightarrow> 'r \<Rightarrow> world \<Rightarrow> 'r result \<times> world" where
  "db_create sc r w = (case stmt w of (ok, w1) \<Rightarrow>
     if \<not> ok then (Inl ErrDriver, w1)
     else let r' = sc_create sc (clock w1) (sc_rows sc w1) r in
       if (\<exists>x \<in> set (sc_rows sc w1). sc_key sc x = sc_key sc r' \<or> sc_clash sc x r')
       then (Inl ErrUnique, w1)
       else (Inr r', sc_put sc (\<lambda>rs. rs @ [r']) w1))"

text \<open>\<^verbatim>\<open>Save\<close>: updates every column of the row with this key, and inserts the row when there is none.\<close>

definition db_save :: "('r, 'k) schema \<Rightarrow> 'r \<Rightarrow> world \<Rightarrow> 'r result \<times> world" where
  "db_save sc r w = (case stmt w of (ok, w1) \<Rightarrow>
     if \<not> ok then (Inl ErrDriver, w1)
     else
       let found = (\<exists>x \<in> set (sc_rows sc w1). sc_key sc x = sc_key sc r);
           r' = (if found then sc_update sc (clock w1) r
                 else sc_create sc (clock w1) (sc_rows sc w1) r)
       in if (\<exists>x \<in> set (sc_rows sc w1). sc_key sc x \<noteq> sc_key sc r \<and> sc_clash sc x r')
          then (Inl ErrUnique, w1)
          else if found
          then (Inr r', sc_put sc (\<lambda>rs. map (\<lambda>x. if sc_key sc x = sc_key sc r then r' else x) rs) w1)
          else (Inr r', sc_put sc (\<lambda>rs. rs @ [r']) w1))"

text \<open>\<^verbatim>\<open>Model(&T{}).Where(cond).Updates(columns)\<close>: no matching row is not an error.\<close>

definition db_updates :: "('r, 'k) schema \<Rightarrow> ('r \<Rightarrow> bool) \<Rightarrow> ('r \<Rightarrow> 'r) \<Rightarrow> world \<Rightarrow> unit result \<times> world" where
  "db_updates sc P f w = (case stmt w of (ok, w1) \<Rightarrow>
     if \<not> ok then (Inl ErrDriver, w1)
     else (Inr (), sc_put sc (update_where P (\<lambda>r. sc_update sc (clock w1) (f r))) w1))"

text \<open>The same when a column of a unique index is among the columns.\<close>

definition db_updates_unique :: "('r, 'k) schema \<Rightarrow> ('r \<Rightarrow> bool) \<Rightarrow> ('r \<Rightarrow> 'r) \<Rightarrow> world \<Rightarrow> unit result \<times> world" where
  "db_updates_unique sc P f w = (case stmt w of (ok, w1) \<Rightarrow>
     if \<not> ok then (Inl ErrDriver, w1)
     else if (\<exists>x \<in> set (sc_rows sc w1). \<exists>y \<in> set (sc_rows sc w1). P x \<and> sc_key sc x \<noteq> sc_key sc y \<and>
                sc_clash sc (f x) (if P y then f y else y))
     then (Inl ErrUnique, w1)
     else (Inr (), sc_put sc (update_where P (\<lambda>r. sc_update sc (clock w1) (f r))) w1))"

definition db_delete :: "('r, 'k) schema \<Rightarrow> ('r \<Rightarrow> bool) \<Rightarrow> world \<Rightarrow> unit result \<times> world" where
  "db_delete sc P w = (case stmt w of (ok, w1) \<Rightarrow>
     if \<not> ok then (Inl ErrDriver, w1) else (Inr (), sc_put sc (filter (\<lambda>r. \<not> P r)) w1))"

text \<open>\<^verbatim>\<open>Limit(n)\<close>: a negative limit is no limit.\<close>

definition limit_rows :: "int \<Rightarrow> 'r list \<Rightarrow> 'r list" where
  "limit_rows n rs = (if n < 0 then rs else take (nat n) rs)"

text \<open>The variable after a query whose error is ignored: the rows, or the zero value it had.\<close>

definition rows_or_empty :: "'r list result \<Rightarrow> 'r list" where
  "rows_or_empty r = (case r of Inl _ \<Rightarrow> [] | Inr rows \<Rightarrow> rows)"

definition row_or :: "'r \<Rightarrow> 'r result \<Rightarrow> 'r" where
  "row_or z r = (case r of Inl _ \<Rightarrow> z | Inr x \<Rightarrow> x)"

text \<open>
  \<^verbatim>\<open>db.Transaction(f)\<close>: \<^verbatim>\<open>BEGIN\<close> and \<^verbatim>\<open>COMMIT\<close> are statements too. An error of the body or of the
  commit restores the world of the start; what is not in the database (the consumed statement
  outcomes and supplies) stays consumed.
\<close>

definition rollback :: "world \<Rightarrow> world \<Rightarrow> world" where
  "rollback w w' = w\<lparr>faults := faults w', uuid_next := uuid_next w', rand_next := rand_next w'\<rparr>"

definition db_transaction :: "(world \<Rightarrow> 'a result \<times> world) \<Rightarrow> world \<Rightarrow> 'a result \<times> world" where
  "db_transaction body w = (case stmt w of (ok, w1) \<Rightarrow>
     if \<not> ok then (Inl ErrDriver, w1)
     else case body w1 of
       (Inl e, w2) \<Rightarrow> (Inl e, rollback w1 w2)
     | (Inr x, w2) \<Rightarrow> (case stmt w2 of (ok2, w3) \<Rightarrow>
         if ok2 then (Inr x, w3) else (Inl ErrDriver, rollback w1 w3)))"

section \<open>Schemas\<close>

text \<open>
  One schema per table, from the struct tags: \<^verbatim>\<open>primaryKey\<close>, \<^verbatim>\<open>uniqueIndex\<close>, \<^verbatim>\<open>default\<close>, and GORM's
  conventions for \<^verbatim>\<open>CreatedAt\<close> (set on create when zero) and \<^verbatim>\<open>UpdatedAt\<close> (set on create when zero and
  on every update). A numeric \<^verbatim>\<open>uint\<close> key is assigned by the database.
\<close>

definition auto_time :: "time \<Rightarrow> time \<Rightarrow> time" where
  "auto_time now t = (if t = zero_time then now else t)"

definition auto_str :: "string \<Rightarrow> string \<Rightarrow> string" where
  "auto_str d s = (if s = [] then d else s)"

definition auto_int :: "int \<Rightarrow> int \<Rightarrow> int" where
  "auto_int d i = (if i = 0 then d else i)"

lemma auto_simps [simp]:
  "auto_str d [] = d" "s \<noteq> [] \<Longrightarrow> auto_str d s = s" "auto_str d (c # cs) = c # cs"
  "auto_int n 0 = n" "i \<noteq> 0 \<Longrightarrow> auto_int n i = i"
  by (simp_all add: auto_str_def auto_int_def)

definition next_id :: "('r \<Rightarrow> nat) \<Rightarrow> 'r list \<Rightarrow> nat" where
  "next_id f rs = Suc (foldr max (map f rs) 0)"

definition VPNCredential_schema :: "(VPNCredential, string) schema" where
  "VPNCredential_schema = \<lparr>sc_rows = vpn_credentials, sc_put = vpn_credentials_update, sc_key = vc_ID,
    sc_clash = (\<lambda>x y. False),
    sc_create = (\<lambda>now rs r. r\<lparr>vc_CreatedAt := auto_time now (vc_CreatedAt r), vc_UpdatedAt := auto_time now (vc_UpdatedAt r)\<rparr>),
    sc_update = (\<lambda>now r. r\<lparr>vc_UpdatedAt := now\<rparr>)\<rparr>"

lemma VPNCredential_schema_simps [simp]:
  "sc_rows VPNCredential_schema = vpn_credentials" "sc_put VPNCredential_schema = vpn_credentials_update"
  "sc_key VPNCredential_schema = vc_ID" "sc_clash VPNCredential_schema = (\<lambda>x y. False)"
  "sc_create VPNCredential_schema = (\<lambda>now rs r. r\<lparr>vc_CreatedAt := auto_time now (vc_CreatedAt r), vc_UpdatedAt := auto_time now (vc_UpdatedAt r)\<rparr>)"
  "sc_update VPNCredential_schema = (\<lambda>now r. r\<lparr>vc_UpdatedAt := now\<rparr>)"
  by (simp_all add: VPNCredential_schema_def)

definition VPNNode_schema :: "(VPNNode, string) schema" where
  "VPNNode_schema = \<lparr>sc_rows = vpn_nodes, sc_put = vpn_nodes_update, sc_key = vn_ID,
    sc_clash = (\<lambda>x y. False),
    sc_create = (\<lambda>now rs r. r\<lparr>vn_Status := auto_str ''disconnected'' (vn_Status r), vn_CreatedAt := auto_time now (vn_CreatedAt r), vn_UpdatedAt := auto_time now (vn_UpdatedAt r)\<rparr>),
    sc_update = (\<lambda>now r. r\<lparr>vn_UpdatedAt := now\<rparr>)\<rparr>"

lemma VPNNode_schema_simps [simp]:
  "sc_rows VPNNode_schema = vpn_nodes" "sc_put VPNNode_schema = vpn_nodes_update"
  "sc_key VPNNode_schema = vn_ID" "sc_clash VPNNode_schema = (\<lambda>x y. False)"
  "sc_create VPNNode_schema = (\<lambda>now rs r. r\<lparr>vn_Status := auto_str ''disconnected'' (vn_Status r), vn_CreatedAt := auto_time now (vn_CreatedAt r), vn_UpdatedAt := auto_time now (vn_UpdatedAt r)\<rparr>)"
  "sc_update VPNNode_schema = (\<lambda>now r. r\<lparr>vn_UpdatedAt := now\<rparr>)"
  by (simp_all add: VPNNode_schema_def)

definition Agent_schema :: "(Agent, string) schema" where
  "Agent_schema = \<lparr>sc_rows = agents, sc_put = agents_update, sc_key = ag_ID,
    sc_clash = (\<lambda>x y. False),
    sc_create = (\<lambda>now rs r. r\<lparr>ag_CreatedAt := auto_time now (ag_CreatedAt r), ag_UpdatedAt := auto_time now (ag_UpdatedAt r)\<rparr>),
    sc_update = (\<lambda>now r. r\<lparr>ag_UpdatedAt := now\<rparr>)\<rparr>"

lemma Agent_schema_simps [simp]:
  "sc_rows Agent_schema = agents" "sc_put Agent_schema = agents_update"
  "sc_key Agent_schema = ag_ID" "sc_clash Agent_schema = (\<lambda>x y. False)"
  "sc_create Agent_schema = (\<lambda>now rs r. r\<lparr>ag_CreatedAt := auto_time now (ag_CreatedAt r), ag_UpdatedAt := auto_time now (ag_UpdatedAt r)\<rparr>)"
  "sc_update Agent_schema = (\<lambda>now r. r\<lparr>ag_UpdatedAt := now\<rparr>)"
  by (simp_all add: Agent_schema_def)

definition ExpressVPNSession_schema :: "(ExpressVPNSession, string) schema" where
  "ExpressVPNSession_schema = \<lparr>sc_rows = express_vpn_sessions, sc_put = express_vpn_sessions_update, sc_key = es_ID,
    sc_clash = (\<lambda>x y. False),
    sc_create = (\<lambda>now rs r. r),
    sc_update = (\<lambda>now r. r)\<rparr>"

lemma ExpressVPNSession_schema_simps [simp]:
  "sc_rows ExpressVPNSession_schema = express_vpn_sessions" "sc_put ExpressVPNSession_schema = express_vpn_sessions_update"
  "sc_key ExpressVPNSession_schema = es_ID" "sc_clash ExpressVPNSession_schema = (\<lambda>x y. False)"
  "sc_create ExpressVPNSession_schema = (\<lambda>now rs r. r)"
  "sc_update ExpressVPNSession_schema = (\<lambda>now r. r)"
  by (simp_all add: ExpressVPNSession_schema_def)

definition Proxy_schema :: "(Proxy, string) schema" where
  "Proxy_schema = \<lparr>sc_rows = proxies, sc_put = proxies_update, sc_key = px_ID,
    sc_clash = (\<lambda>x y. px_Port x = px_Port y),
    sc_create = (\<lambda>now rs r. r\<lparr>px_Status := auto_str ''stopped'' (px_Status r), px_BindIP := auto_str ''0.0.0.0'' (px_BindIP r), px_CreatedAt := auto_time now (px_CreatedAt r), px_UpdatedAt := auto_time now (px_UpdatedAt r)\<rparr>),
    sc_update = (\<lambda>now r. r\<lparr>px_UpdatedAt := now\<rparr>)\<rparr>"

lemma Proxy_schema_simps [simp]:
  "sc_rows Proxy_schema = proxies" "sc_put Proxy_schema = proxies_update"
  "sc_key Proxy_schema = px_ID" "sc_clash Proxy_schema = (\<lambda>x y. px_Port x = px_Port y)"
  "sc_create Proxy_schema = (\<lambda>now rs r. r\<lparr>px_Status := auto_str ''stopped'' (px_Status r), px_BindIP := auto_str ''0.0.0.0'' (px_BindIP r), px_CreatedAt := auto_time now (px_CreatedAt r), px_UpdatedAt := auto_time now (px_UpdatedAt r)\<rparr>)"
  "sc_update Proxy_schema = (\<lambda>now r. r\<lparr>px_UpdatedAt := now\<rparr>)"
  by (simp_all add: Proxy_schema_def)

definition HealthMetric_schema :: "(HealthMetric, nat) schema" where
  "HealthMetric_schema = \<lparr>sc_rows = health_metrics, sc_put = health_metrics_update, sc_key = hm_ID,
    sc_clash = (\<lambda>x y. False),
    sc_create = (\<lambda>now rs r. r\<lparr>hm_ID := next_id hm_ID rs\<rparr>),
    sc_update = (\<lambda>now r. r)\<rparr>"

lemma HealthMetric_schema_simps [simp]:
  "sc_rows HealthMetric_schema = health_metrics" "sc_put HealthMetric_schema = health_metrics_update"
  "sc_key HealthMetric_schema = hm_ID" "sc_clash HealthMetric_schema = (\<lambda>x y. False)"
  "sc_create HealthMetric_schema = (\<lambda>now rs r. r\<lparr>hm_ID := next_id hm_ID rs\<rparr>)"
  "sc_update HealthMetric_schema = (\<lambda>now r. r)"
  by (simp_all add: HealthMetric_schema_def)

definition AuditLog_schema :: "(AuditLog, nat) schema" where
  "AuditLog_schema = \<lparr>sc_rows = audit_logs, sc_put = audit_logs_update, sc_key = al_ID,
    sc_clash = (\<lambda>x y. False),
    sc_create = (\<lambda>now rs r. r\<lparr>al_ID := next_id al_ID rs\<rparr>),
    sc_update = (\<lambda>now r. r)\<rparr>"

lemma AuditLog_schema_simps [simp]:
  "sc_rows AuditLog_schema = audit_logs" "sc_put AuditLog_schema = audit_logs_update"
  "sc_key AuditLog_schema = al_ID" "sc_clash AuditLog_schema = (\<lambda>x y. False)"
  "sc_create AuditLog_schema = (\<lambda>now rs r. r\<lparr>al_ID := next_id al_ID rs\<rparr>)"
  "sc_update AuditLog_schema = (\<lambda>now r. r)"
  by (simp_all add: AuditLog_schema_def)

definition AgentHeartbeat_schema :: "(AgentHeartbeat, nat) schema" where
  "AgentHeartbeat_schema = \<lparr>sc_rows = agent_heartbeats, sc_put = agent_heartbeats_update, sc_key = ah_ID,
    sc_clash = (\<lambda>x y. False),
    sc_create = (\<lambda>now rs r. r\<lparr>ah_ID := next_id ah_ID rs\<rparr>),
    sc_update = (\<lambda>now r. r)\<rparr>"

lemma AgentHeartbeat_schema_simps [simp]:
  "sc_rows AgentHeartbeat_schema = agent_heartbeats" "sc_put AgentHeartbeat_schema = agent_heartbeats_update"
  "sc_key AgentHeartbeat_schema = ah_ID" "sc_clash AgentHeartbeat_schema = (\<lambda>x y. False)"
  "sc_create AgentHeartbeat_schema = (\<lambda>now rs r. r\<lparr>ah_ID := next_id ah_ID rs\<rparr>)"
  "sc_update AgentHeartbeat_schema = (\<lambda>now r. r)"
  by (simp_all add: AgentHeartbeat_schema_def)

definition PortAllocation_schema :: "(PortAllocation, int) schema" where
  "PortAllocation_schema = \<lparr>sc_rows = port_allocations, sc_put = port_allocations_update, sc_key = pa_Port,
    sc_clash = (\<lambda>x y. False),
    sc_create = (\<lambda>now rs r. r\<lparr>pa_CreatedAt := auto_time now (pa_CreatedAt r)\<rparr>),
    sc_update = (\<lambda>now r. r)\<rparr>"

lemma PortAllocation_schema_simps [simp]:
  "sc_rows PortAllocation_schema = port_allocations" "sc_put PortAllocation_schema = port_allocations_update"
  "sc_key PortAllocation_schema = pa_Port" "sc_clash PortAllocation_schema = (\<lambda>x y. False)"
  "sc_create PortAllocation_schema = (\<lambda>now rs r. r\<lparr>pa_CreatedAt := auto_time now (pa_CreatedAt r)\<rparr>)"
  "sc_update PortAllocation_schema = (\<lambda>now r. r)"
  by (simp_all add: PortAllocation_schema_def)

definition RotationPolicy_schema :: "(RotationPolicy, string) schema" where
  "RotationPolicy_schema = \<lparr>sc_rows = rotation_policies, sc_put = rotation_policies_update, sc_key = rp_ID,
    sc_clash = (\<lambda>x y. False),
    sc_create = (\<lambda>now rs r. r\<lparr>rp_CreatedAt := auto_time now (rp_CreatedAt r), rp_UpdatedAt := auto_time now (rp_UpdatedAt r)\<rparr>),
    sc_update = (\<lambda>now r. r\<lparr>rp_UpdatedAt := now\<rparr>)\<rparr>"

lemma RotationPolicy_schema_simps [simp]:
  "sc_rows RotationPolicy_schema = rotation_policies" "sc_put RotationPolicy_schema = rotation_policies_update"
  "sc_key RotationPolicy_schema = rp_ID" "sc_clash RotationPolicy_schema = (\<lambda>x y. False)"
  "sc_create RotationPolicy_schema = (\<lambda>now rs r. r\<lparr>rp_CreatedAt := auto_time now (rp_CreatedAt r), rp_UpdatedAt := auto_time now (rp_UpdatedAt r)\<rparr>)"
  "sc_update RotationPolicy_schema = (\<lambda>now r. r\<lparr>rp_UpdatedAt := now\<rparr>)"
  by (simp_all add: RotationPolicy_schema_def)

definition ExpressVPNValidation_schema :: "(ExpressVPNValidation, string) schema" where
  "ExpressVPNValidation_schema = \<lparr>sc_rows = express_vpn_validations, sc_put = express_vpn_validations_update, sc_key = ev_ID,
    sc_clash = (\<lambda>x y. False),
    sc_create = (\<lambda>now rs r. r),
    sc_update = (\<lambda>now r. r)\<rparr>"

lemma ExpressVPNValidation_schema_simps [simp]:
  "sc_rows ExpressVPNValidation_schema = express_vpn_validations" "sc_put ExpressVPNValidation_schema = express_vpn_validations_update"
  "sc_key ExpressVPNValidation_schema = ev_ID" "sc_clash ExpressVPNValidation_schema = (\<lambda>x y. False)"
  "sc_create ExpressVPNValidation_schema = (\<lambda>now rs r. r)"
  "sc_update ExpressVPNValidation_schema = (\<lambda>now r. r)"
  by (simp_all add: ExpressVPNValidation_schema_def)

definition SystemMetricSnapshot_schema :: "(SystemMetricSnapshot, nat) schema" where
  "SystemMetricSnapshot_schema = \<lparr>sc_rows = system_metric_snapshots, sc_put = system_metric_snapshots_update, sc_key = sm_ID,
    sc_clash = (\<lambda>x y. False),
    sc_create = (\<lambda>now rs r. r\<lparr>sm_ID := next_id sm_ID rs\<rparr>),
    sc_update = (\<lambda>now r. r)\<rparr>"

lemma SystemMetricSnapshot_schema_simps [simp]:
  "sc_rows SystemMetricSnapshot_schema = system_metric_snapshots" "sc_put SystemMetricSnapshot_schema = system_metric_snapshots_update"
  "sc_key SystemMetricSnapshot_schema = sm_ID" "sc_clash SystemMetricSnapshot_schema = (\<lambda>x y. False)"
  "sc_create SystemMetricSnapshot_schema = (\<lambda>now rs r. r\<lparr>sm_ID := next_id sm_ID rs\<rparr>)"
  "sc_update SystemMetricSnapshot_schema = (\<lambda>now r. r)"
  by (simp_all add: SystemMetricSnapshot_schema_def)

definition AgentCredential_schema :: "(AgentCredential, string) schema" where
  "AgentCredential_schema = \<lparr>sc_rows = agent_credentials, sc_put = agent_credentials_update, sc_key = ac_AgentID,
    sc_clash = (\<lambda>x y. False),
    sc_create = (\<lambda>now rs r. r\<lparr>ac_CreatedAt := auto_time now (ac_CreatedAt r)\<rparr>),
    sc_update = (\<lambda>now r. r)\<rparr>"

lemma AgentCredential_schema_simps [simp]:
  "sc_rows AgentCredential_schema = agent_credentials" "sc_put AgentCredential_schema = agent_credentials_update"
  "sc_key AgentCredential_schema = ac_AgentID" "sc_clash AgentCredential_schema = (\<lambda>x y. False)"
  "sc_create AgentCredential_schema = (\<lambda>now rs r. r\<lparr>ac_CreatedAt := auto_time now (ac_CreatedAt r)\<rparr>)"
  "sc_update AgentCredential_schema = (\<lambda>now r. r)"
  by (simp_all add: AgentCredential_schema_def)

definition AgentCommand_schema :: "(AgentCommand, string) schema" where
  "AgentCommand_schema = \<lparr>sc_rows = agent_commands, sc_put = agent_commands_update, sc_key = cmd_ID,
    sc_clash = (\<lambda>x y. False),
    sc_create = (\<lambda>now rs r. r\<lparr>cmd_Status := auto_str ''pending'' (cmd_Status r), cmd_TimeoutSeconds := auto_int 120 (cmd_TimeoutSeconds r), cmd_MaxAttempts := auto_int 3 (cmd_MaxAttempts r), cmd_CreatedAt := auto_time now (cmd_CreatedAt r)\<rparr>),
    sc_update = (\<lambda>now r. r)\<rparr>"

lemma AgentCommand_schema_simps [simp]:
  "sc_rows AgentCommand_schema = agent_commands" "sc_put AgentCommand_schema = agent_commands_update"
  "sc_key AgentCommand_schema = cmd_ID" "sc_clash AgentCommand_schema = (\<lambda>x y. False)"
  "sc_create AgentCommand_schema = (\<lambda>now rs r. r\<lparr>cmd_Status := auto_str ''pending'' (cmd_Status r), cmd_TimeoutSeconds := auto_int 120 (cmd_TimeoutSeconds r), cmd_MaxAttempts := auto_int 3 (cmd_MaxAttempts r), cmd_CreatedAt := auto_time now (cmd_CreatedAt r)\<rparr>)"
  "sc_update AgentCommand_schema = (\<lambda>now r. r)"
  by (simp_all add: AgentCommand_schema_def)

definition Customer_schema :: "(Customer, string) schema" where
  "Customer_schema = \<lparr>sc_rows = customers, sc_put = customers_update, sc_key = cu_ID,
    sc_clash = (\<lambda>x y. cu_Email x = cu_Email y),
    sc_create = (\<lambda>now rs r. r\<lparr>cu_Status := auto_str ''active'' (cu_Status r), cu_Role := auto_str ''customer'' (cu_Role r), cu_CreatedAt := auto_time now (cu_CreatedAt r), cu_UpdatedAt := auto_time now (cu_UpdatedAt r)\<rparr>),
    sc_update = (\<lambda>now r. r\<lparr>cu_UpdatedAt := now\<rparr>)\<rparr>"

lemma Customer_schema_simps [simp]:
  "sc_rows Customer_schema = customers" "sc_put Customer_schema = customers_update"
  "sc_key Customer_schema = cu_ID" "sc_clash Customer_schema = (\<lambda>x y. cu_Email x = cu_Email y)"
  "sc_create Customer_schema = (\<lambda>now rs r. r\<lparr>cu_Status := auto_str ''active'' (cu_Status r), cu_Role := auto_str ''customer'' (cu_Role r), cu_CreatedAt := auto_time now (cu_CreatedAt r), cu_UpdatedAt := auto_time now (cu_UpdatedAt r)\<rparr>)"
  "sc_update Customer_schema = (\<lambda>now r. r\<lparr>cu_UpdatedAt := now\<rparr>)"
  by (simp_all add: Customer_schema_def)

definition CustomerCredential_schema :: "(CustomerCredential, string) schema" where
  "CustomerCredential_schema = \<lparr>sc_rows = customer_credentials, sc_put = customer_credentials_update, sc_key = cc_ID,
    sc_clash = (\<lambda>x y. False),
    sc_create = (\<lambda>now rs r. r\<lparr>cc_CreatedAt := auto_time now (cc_CreatedAt r), cc_UpdatedAt := auto_time now (cc_UpdatedAt r)\<rparr>),
    sc_update = (\<lambda>now r. r\<lparr>cc_UpdatedAt := now\<rparr>)\<rparr>"

lemma CustomerCredential_schema_simps [simp]:
  "sc_rows CustomerCredential_schema = customer_credentials" "sc_put CustomerCredential_schema = customer_credentials_update"
  "sc_key CustomerCredential_schema = cc_ID" "sc_clash CustomerCredential_schema = (\<lambda>x y. False)"
  "sc_create CustomerCredential_schema = (\<lambda>now rs r. r\<lparr>cc_CreatedAt := auto_time now (cc_CreatedAt r), cc_UpdatedAt := auto_time now (cc_UpdatedAt r)\<rparr>)"
  "sc_update CustomerCredential_schema = (\<lambda>now r. r\<lparr>cc_UpdatedAt := now\<rparr>)"
  by (simp_all add: CustomerCredential_schema_def)

definition CustomerSession_schema :: "(CustomerSession, string) schema" where
  "CustomerSession_schema = \<lparr>sc_rows = customer_sessions, sc_put = customer_sessions_update, sc_key = cs_ID,
    sc_clash = (\<lambda>x y. cs_TokenHash x = cs_TokenHash y),
    sc_create = (\<lambda>now rs r. r\<lparr>cs_CreatedAt := auto_time now (cs_CreatedAt r)\<rparr>),
    sc_update = (\<lambda>now r. r)\<rparr>"

lemma CustomerSession_schema_simps [simp]:
  "sc_rows CustomerSession_schema = customer_sessions" "sc_put CustomerSession_schema = customer_sessions_update"
  "sc_key CustomerSession_schema = cs_ID" "sc_clash CustomerSession_schema = (\<lambda>x y. cs_TokenHash x = cs_TokenHash y)"
  "sc_create CustomerSession_schema = (\<lambda>now rs r. r\<lparr>cs_CreatedAt := auto_time now (cs_CreatedAt r)\<rparr>)"
  "sc_update CustomerSession_schema = (\<lambda>now r. r)"
  by (simp_all add: CustomerSession_schema_def)

definition CustomerApiKey_schema :: "(CustomerApiKey, string) schema" where
  "CustomerApiKey_schema = \<lparr>sc_rows = customer_api_keys, sc_put = customer_api_keys_update, sc_key = ck_ID,
    sc_clash = (\<lambda>x y. ck_KeyHash x = ck_KeyHash y),
    sc_create = (\<lambda>now rs r. r\<lparr>ck_Status := auto_str ''active'' (ck_Status r), ck_CreatedAt := auto_time now (ck_CreatedAt r)\<rparr>),
    sc_update = (\<lambda>now r. r)\<rparr>"

lemma CustomerApiKey_schema_simps [simp]:
  "sc_rows CustomerApiKey_schema = customer_api_keys" "sc_put CustomerApiKey_schema = customer_api_keys_update"
  "sc_key CustomerApiKey_schema = ck_ID" "sc_clash CustomerApiKey_schema = (\<lambda>x y. ck_KeyHash x = ck_KeyHash y)"
  "sc_create CustomerApiKey_schema = (\<lambda>now rs r. r\<lparr>ck_Status := auto_str ''active'' (ck_Status r), ck_CreatedAt := auto_time now (ck_CreatedAt r)\<rparr>)"
  "sc_update CustomerApiKey_schema = (\<lambda>now r. r)"
  by (simp_all add: CustomerApiKey_schema_def)

definition ProxyPlan_schema :: "(ProxyPlan, string) schema" where
  "ProxyPlan_schema = \<lparr>sc_rows = proxy_plans, sc_put = proxy_plans_update, sc_key = pp_ID,
    sc_clash = (\<lambda>x y. pp_Name x = pp_Name y),
    sc_create = (\<lambda>now rs r. r\<lparr>pp_Status := auto_str ''active'' (pp_Status r), pp_CreatedAt := auto_time now (pp_CreatedAt r), pp_UpdatedAt := auto_time now (pp_UpdatedAt r)\<rparr>),
    sc_update = (\<lambda>now r. r\<lparr>pp_UpdatedAt := now\<rparr>)\<rparr>"

lemma ProxyPlan_schema_simps [simp]:
  "sc_rows ProxyPlan_schema = proxy_plans" "sc_put ProxyPlan_schema = proxy_plans_update"
  "sc_key ProxyPlan_schema = pp_ID" "sc_clash ProxyPlan_schema = (\<lambda>x y. pp_Name x = pp_Name y)"
  "sc_create ProxyPlan_schema = (\<lambda>now rs r. r\<lparr>pp_Status := auto_str ''active'' (pp_Status r), pp_CreatedAt := auto_time now (pp_CreatedAt r), pp_UpdatedAt := auto_time now (pp_UpdatedAt r)\<rparr>)"
  "sc_update ProxyPlan_schema = (\<lambda>now r. r\<lparr>pp_UpdatedAt := now\<rparr>)"
  by (simp_all add: ProxyPlan_schema_def)

definition CustomerSubscription_schema :: "(CustomerSubscription, string) schema" where
  "CustomerSubscription_schema = \<lparr>sc_rows = customer_subscriptions, sc_put = customer_subscriptions_update, sc_key = csub_ID,
    sc_clash = (\<lambda>x y. False),
    sc_create = (\<lambda>now rs r. r\<lparr>csub_Status := auto_str ''active'' (csub_Status r), csub_CreatedAt := auto_time now (csub_CreatedAt r), csub_UpdatedAt := auto_time now (csub_UpdatedAt r)\<rparr>),
    sc_update = (\<lambda>now r. r\<lparr>csub_UpdatedAt := now\<rparr>)\<rparr>"

lemma CustomerSubscription_schema_simps [simp]:
  "sc_rows CustomerSubscription_schema = customer_subscriptions" "sc_put CustomerSubscription_schema = customer_subscriptions_update"
  "sc_key CustomerSubscription_schema = csub_ID" "sc_clash CustomerSubscription_schema = (\<lambda>x y. False)"
  "sc_create CustomerSubscription_schema = (\<lambda>now rs r. r\<lparr>csub_Status := auto_str ''active'' (csub_Status r), csub_CreatedAt := auto_time now (csub_CreatedAt r), csub_UpdatedAt := auto_time now (csub_UpdatedAt r)\<rparr>)"
  "sc_update CustomerSubscription_schema = (\<lambda>now r. r\<lparr>csub_UpdatedAt := now\<rparr>)"
  by (simp_all add: CustomerSubscription_schema_def)

definition CustomerProxyCredential_schema :: "(CustomerProxyCredential, string) schema" where
  "CustomerProxyCredential_schema = \<lparr>sc_rows = customer_proxy_credentials, sc_put = customer_proxy_credentials_update, sc_key = cpc_ID,
    sc_clash = (\<lambda>x y. cpc_Username x = cpc_Username y),
    sc_create = (\<lambda>now rs r. r\<lparr>cpc_Status := auto_str ''active'' (cpc_Status r), cpc_CreatedAt := auto_time now (cpc_CreatedAt r)\<rparr>),
    sc_update = (\<lambda>now r. r)\<rparr>"

lemma CustomerProxyCredential_schema_simps [simp]:
  "sc_rows CustomerProxyCredential_schema = customer_proxy_credentials" "sc_put CustomerProxyCredential_schema = customer_proxy_credentials_update"
  "sc_key CustomerProxyCredential_schema = cpc_ID" "sc_clash CustomerProxyCredential_schema = (\<lambda>x y. cpc_Username x = cpc_Username y)"
  "sc_create CustomerProxyCredential_schema = (\<lambda>now rs r. r\<lparr>cpc_Status := auto_str ''active'' (cpc_Status r), cpc_CreatedAt := auto_time now (cpc_CreatedAt r)\<rparr>)"
  "sc_update CustomerProxyCredential_schema = (\<lambda>now r. r)"
  by (simp_all add: CustomerProxyCredential_schema_def)

definition CustomerProxyAllocation_schema :: "(CustomerProxyAllocation, string) schema" where
  "CustomerProxyAllocation_schema = \<lparr>sc_rows = customer_proxy_allocations, sc_put = customer_proxy_allocations_update, sc_key = cpa_ID,
    sc_clash = (\<lambda>x y. False),
    sc_create = (\<lambda>now rs r. r\<lparr>cpa_RotationMode := auto_str ''static'' (cpa_RotationMode r), cpa_Status := auto_str ''active'' (cpa_Status r), cpa_CreatedAt := auto_time now (cpa_CreatedAt r), cpa_UpdatedAt := auto_time now (cpa_UpdatedAt r)\<rparr>),
    sc_update = (\<lambda>now r. r\<lparr>cpa_UpdatedAt := now\<rparr>)\<rparr>"

lemma CustomerProxyAllocation_schema_simps [simp]:
  "sc_rows CustomerProxyAllocation_schema = customer_proxy_allocations" "sc_put CustomerProxyAllocation_schema = customer_proxy_allocations_update"
  "sc_key CustomerProxyAllocation_schema = cpa_ID" "sc_clash CustomerProxyAllocation_schema = (\<lambda>x y. False)"
  "sc_create CustomerProxyAllocation_schema = (\<lambda>now rs r. r\<lparr>cpa_RotationMode := auto_str ''static'' (cpa_RotationMode r), cpa_Status := auto_str ''active'' (cpa_Status r), cpa_CreatedAt := auto_time now (cpa_CreatedAt r), cpa_UpdatedAt := auto_time now (cpa_UpdatedAt r)\<rparr>)"
  "sc_update CustomerProxyAllocation_schema = (\<lambda>now r. r\<lparr>cpa_UpdatedAt := now\<rparr>)"
  by (simp_all add: CustomerProxyAllocation_schema_def)

definition UsageMetric_schema :: "(UsageMetric, nat) schema" where
  "UsageMetric_schema = \<lparr>sc_rows = usage_metrics, sc_put = usage_metrics_update, sc_key = um_ID,
    sc_clash = (\<lambda>x y. False),
    sc_create = (\<lambda>now rs r. r\<lparr>um_ID := next_id um_ID rs, um_CreatedAt := auto_time now (um_CreatedAt r)\<rparr>),
    sc_update = (\<lambda>now r. r)\<rparr>"

lemma UsageMetric_schema_simps [simp]:
  "sc_rows UsageMetric_schema = usage_metrics" "sc_put UsageMetric_schema = usage_metrics_update"
  "sc_key UsageMetric_schema = um_ID" "sc_clash UsageMetric_schema = (\<lambda>x y. False)"
  "sc_create UsageMetric_schema = (\<lambda>now rs r. r\<lparr>um_ID := next_id um_ID rs, um_CreatedAt := auto_time now (um_CreatedAt r)\<rparr>)"
  "sc_update UsageMetric_schema = (\<lambda>now r. r)"
  by (simp_all add: UsageMetric_schema_def)

definition Invoice_schema :: "(Invoice, string) schema" where
  "Invoice_schema = \<lparr>sc_rows = invoices, sc_put = invoices_update, sc_key = inv_ID,
    sc_clash = (\<lambda>x y. False),
    sc_create = (\<lambda>now rs r. r\<lparr>inv_CreatedAt := auto_time now (inv_CreatedAt r)\<rparr>),
    sc_update = (\<lambda>now r. r)\<rparr>"

lemma Invoice_schema_simps [simp]:
  "sc_rows Invoice_schema = invoices" "sc_put Invoice_schema = invoices_update"
  "sc_key Invoice_schema = inv_ID" "sc_clash Invoice_schema = (\<lambda>x y. False)"
  "sc_create Invoice_schema = (\<lambda>now rs r. r\<lparr>inv_CreatedAt := auto_time now (inv_CreatedAt r)\<rparr>)"
  "sc_update Invoice_schema = (\<lambda>now r. r)"
  by (simp_all add: Invoice_schema_def)

definition Plan_schema :: "(Plan, string) schema" where
  "Plan_schema = \<lparr>sc_rows = plans, sc_put = plans_update, sc_key = pl_ID,
    sc_clash = (\<lambda>x y. pl_Name x = pl_Name y),
    sc_create = (\<lambda>now rs r. r\<lparr>pl_Currency := auto_str ''USD'' (pl_Currency r), pl_Status := auto_str ''active'' (pl_Status r), pl_CreatedAt := auto_time now (pl_CreatedAt r), pl_UpdatedAt := auto_time now (pl_UpdatedAt r)\<rparr>),
    sc_update = (\<lambda>now r. r\<lparr>pl_UpdatedAt := now\<rparr>)\<rparr>"

lemma Plan_schema_simps [simp]:
  "sc_rows Plan_schema = plans" "sc_put Plan_schema = plans_update"
  "sc_key Plan_schema = pl_ID" "sc_clash Plan_schema = (\<lambda>x y. pl_Name x = pl_Name y)"
  "sc_create Plan_schema = (\<lambda>now rs r. r\<lparr>pl_Currency := auto_str ''USD'' (pl_Currency r), pl_Status := auto_str ''active'' (pl_Status r), pl_CreatedAt := auto_time now (pl_CreatedAt r), pl_UpdatedAt := auto_time now (pl_UpdatedAt r)\<rparr>)"
  "sc_update Plan_schema = (\<lambda>now r. r\<lparr>pl_UpdatedAt := now\<rparr>)"
  by (simp_all add: Plan_schema_def)

definition PlanFeature_schema :: "(PlanFeature, string) schema" where
  "PlanFeature_schema = \<lparr>sc_rows = plan_features, sc_put = plan_features_update, sc_key = pf_ID,
    sc_clash = (\<lambda>x y. False),
    sc_create = (\<lambda>now rs r. r\<lparr>pf_CreatedAt := auto_time now (pf_CreatedAt r)\<rparr>),
    sc_update = (\<lambda>now r. r)\<rparr>"

lemma PlanFeature_schema_simps [simp]:
  "sc_rows PlanFeature_schema = plan_features" "sc_put PlanFeature_schema = plan_features_update"
  "sc_key PlanFeature_schema = pf_ID" "sc_clash PlanFeature_schema = (\<lambda>x y. False)"
  "sc_create PlanFeature_schema = (\<lambda>now rs r. r\<lparr>pf_CreatedAt := auto_time now (pf_CreatedAt r)\<rparr>)"
  "sc_update PlanFeature_schema = (\<lambda>now r. r)"
  by (simp_all add: PlanFeature_schema_def)

definition Subscription_schema :: "(Subscription, string) schema" where
  "Subscription_schema = \<lparr>sc_rows = subscriptions, sc_put = subscriptions_update, sc_key = sub_ID,
    sc_clash = (\<lambda>x y. False),
    sc_create = (\<lambda>now rs r. r\<lparr>sub_Status := auto_str ''pending'' (sub_Status r), sub_CreatedAt := auto_time now (sub_CreatedAt r), sub_UpdatedAt := auto_time now (sub_UpdatedAt r)\<rparr>),
    sc_update = (\<lambda>now r. r\<lparr>sub_UpdatedAt := now\<rparr>)\<rparr>"

lemma Subscription_schema_simps [simp]:
  "sc_rows Subscription_schema = subscriptions" "sc_put Subscription_schema = subscriptions_update"
  "sc_key Subscription_schema = sub_ID" "sc_clash Subscription_schema = (\<lambda>x y. False)"
  "sc_create Subscription_schema = (\<lambda>now rs r. r\<lparr>sub_Status := auto_str ''pending'' (sub_Status r), sub_CreatedAt := auto_time now (sub_CreatedAt r), sub_UpdatedAt := auto_time now (sub_UpdatedAt r)\<rparr>)"
  "sc_update Subscription_schema = (\<lambda>now r. r\<lparr>sub_UpdatedAt := now\<rparr>)"
  by (simp_all add: Subscription_schema_def)

definition InvoiceItem_schema :: "(InvoiceItem, string) schema" where
  "InvoiceItem_schema = \<lparr>sc_rows = invoice_items, sc_put = invoice_items_update, sc_key = ii_ID,
    sc_clash = (\<lambda>x y. False),
    sc_create = (\<lambda>now rs r. r\<lparr>ii_CreatedAt := auto_time now (ii_CreatedAt r)\<rparr>),
    sc_update = (\<lambda>now r. r)\<rparr>"

lemma InvoiceItem_schema_simps [simp]:
  "sc_rows InvoiceItem_schema = invoice_items" "sc_put InvoiceItem_schema = invoice_items_update"
  "sc_key InvoiceItem_schema = ii_ID" "sc_clash InvoiceItem_schema = (\<lambda>x y. False)"
  "sc_create InvoiceItem_schema = (\<lambda>now rs r. r\<lparr>ii_CreatedAt := auto_time now (ii_CreatedAt r)\<rparr>)"
  "sc_update InvoiceItem_schema = (\<lambda>now r. r)"
  by (simp_all add: InvoiceItem_schema_def)

definition AuditEvent_schema :: "(AuditEvent, string) schema" where
  "AuditEvent_schema = \<lparr>sc_rows = audit_events, sc_put = audit_events_update, sc_key = ae_ID,
    sc_clash = (\<lambda>x y. False),
    sc_create = (\<lambda>now rs r. r\<lparr>ae_CreatedAt := auto_time now (ae_CreatedAt r)\<rparr>),
    sc_update = (\<lambda>now r. r)\<rparr>"

lemma AuditEvent_schema_simps [simp]:
  "sc_rows AuditEvent_schema = audit_events" "sc_put AuditEvent_schema = audit_events_update"
  "sc_key AuditEvent_schema = ae_ID" "sc_clash AuditEvent_schema = (\<lambda>x y. False)"
  "sc_create AuditEvent_schema = (\<lambda>now rs r. r\<lparr>ae_CreatedAt := auto_time now (ae_CreatedAt r)\<rparr>)"
  "sc_update AuditEvent_schema = (\<lambda>now r. r)"
  by (simp_all add: AuditEvent_schema_def)

definition AbuseRule_schema :: "(AbuseRule, string) schema" where
  "AbuseRule_schema = \<lparr>sc_rows = abuse_rules, sc_put = abuse_rules_update, sc_key = ar_ID,
    sc_clash = (\<lambda>x y. False),
    sc_create = (\<lambda>now rs r. r\<lparr>ar_Enabled := True, ar_CreatedAt := auto_time now (ar_CreatedAt r), ar_UpdatedAt := auto_time now (ar_UpdatedAt r)\<rparr>),
    sc_update = (\<lambda>now r. r\<lparr>ar_UpdatedAt := now\<rparr>)\<rparr>"

lemma AbuseRule_schema_simps [simp]:
  "sc_rows AbuseRule_schema = abuse_rules" "sc_put AbuseRule_schema = abuse_rules_update"
  "sc_key AbuseRule_schema = ar_ID" "sc_clash AbuseRule_schema = (\<lambda>x y. False)"
  "sc_create AbuseRule_schema = (\<lambda>now rs r. r\<lparr>ar_Enabled := True, ar_CreatedAt := auto_time now (ar_CreatedAt r), ar_UpdatedAt := auto_time now (ar_UpdatedAt r)\<rparr>)"
  "sc_update AbuseRule_schema = (\<lambda>now r. r\<lparr>ar_UpdatedAt := now\<rparr>)"
  by (simp_all add: AbuseRule_schema_def)

definition AbuseEvent_schema :: "(AbuseEvent, string) schema" where
  "AbuseEvent_schema = \<lparr>sc_rows = abuse_events, sc_put = abuse_events_update, sc_key = abe_ID,
    sc_clash = (\<lambda>x y. False),
    sc_create = (\<lambda>now rs r. r\<lparr>abe_CreatedAt := auto_time now (abe_CreatedAt r)\<rparr>),
    sc_update = (\<lambda>now r. r)\<rparr>"

lemma AbuseEvent_schema_simps [simp]:
  "sc_rows AbuseEvent_schema = abuse_events" "sc_put AbuseEvent_schema = abuse_events_update"
  "sc_key AbuseEvent_schema = abe_ID" "sc_clash AbuseEvent_schema = (\<lambda>x y. False)"
  "sc_create AbuseEvent_schema = (\<lambda>now rs r. r\<lparr>abe_CreatedAt := auto_time now (abe_CreatedAt r)\<rparr>)"
  "sc_update AbuseEvent_schema = (\<lambda>now r. r)"
  by (simp_all add: AbuseEvent_schema_def)

definition CustomerRiskScore_schema :: "(CustomerRiskScore, string) schema" where
  "CustomerRiskScore_schema = \<lparr>sc_rows = customer_risk_scores, sc_put = customer_risk_scores_update, sc_key = rs_CustomerID,
    sc_clash = (\<lambda>x y. False),
    sc_create = (\<lambda>now rs r. r\<lparr>rs_UpdatedAt := auto_time now (rs_UpdatedAt r)\<rparr>),
    sc_update = (\<lambda>now r. r\<lparr>rs_UpdatedAt := now\<rparr>)\<rparr>"

lemma CustomerRiskScore_schema_simps [simp]:
  "sc_rows CustomerRiskScore_schema = customer_risk_scores" "sc_put CustomerRiskScore_schema = customer_risk_scores_update"
  "sc_key CustomerRiskScore_schema = rs_CustomerID" "sc_clash CustomerRiskScore_schema = (\<lambda>x y. False)"
  "sc_create CustomerRiskScore_schema = (\<lambda>now rs r. r\<lparr>rs_UpdatedAt := auto_time now (rs_UpdatedAt r)\<rparr>)"
  "sc_update CustomerRiskScore_schema = (\<lambda>now r. r\<lparr>rs_UpdatedAt := now\<rparr>)"
  by (simp_all add: CustomerRiskScore_schema_def)

definition IPWhitelist_schema :: "(IPWhitelist, string) schema" where
  "IPWhitelist_schema = \<lparr>sc_rows = ip_whitelists, sc_put = ip_whitelists_update, sc_key = wl_ID,
    sc_clash = (\<lambda>x y. False),
    sc_create = (\<lambda>now rs r. r\<lparr>wl_Enabled := True, wl_CreatedAt := auto_time now (wl_CreatedAt r), wl_UpdatedAt := auto_time now (wl_UpdatedAt r)\<rparr>),
    sc_update = (\<lambda>now r. r\<lparr>wl_UpdatedAt := now\<rparr>)\<rparr>"

lemma IPWhitelist_schema_simps [simp]:
  "sc_rows IPWhitelist_schema = ip_whitelists" "sc_put IPWhitelist_schema = ip_whitelists_update"
  "sc_key IPWhitelist_schema = wl_ID" "sc_clash IPWhitelist_schema = (\<lambda>x y. False)"
  "sc_create IPWhitelist_schema = (\<lambda>now rs r. r\<lparr>wl_Enabled := True, wl_CreatedAt := auto_time now (wl_CreatedAt r), wl_UpdatedAt := auto_time now (wl_UpdatedAt r)\<rparr>)"
  "sc_update IPWhitelist_schema = (\<lambda>now r. r\<lparr>wl_UpdatedAt := now\<rparr>)"
  by (simp_all add: IPWhitelist_schema_def)

definition BlockedTarget_schema :: "(BlockedTarget, string) schema" where
  "BlockedTarget_schema = \<lparr>sc_rows = blocked_targets, sc_put = blocked_targets_update, sc_key = bt_ID,
    sc_clash = (\<lambda>x y. False),
    sc_create = (\<lambda>now rs r. r\<lparr>bt_Enabled := True, bt_CreatedAt := auto_time now (bt_CreatedAt r), bt_UpdatedAt := auto_time now (bt_UpdatedAt r)\<rparr>),
    sc_update = (\<lambda>now r. r\<lparr>bt_UpdatedAt := now\<rparr>)\<rparr>"

lemma BlockedTarget_schema_simps [simp]:
  "sc_rows BlockedTarget_schema = blocked_targets" "sc_put BlockedTarget_schema = blocked_targets_update"
  "sc_key BlockedTarget_schema = bt_ID" "sc_clash BlockedTarget_schema = (\<lambda>x y. False)"
  "sc_create BlockedTarget_schema = (\<lambda>now rs r. r\<lparr>bt_Enabled := True, bt_CreatedAt := auto_time now (bt_CreatedAt r), bt_UpdatedAt := auto_time now (bt_UpdatedAt r)\<rparr>)"
  "sc_update BlockedTarget_schema = (\<lambda>now r. r\<lparr>bt_UpdatedAt := now\<rparr>)"
  by (simp_all add: BlockedTarget_schema_def)

definition ConnectionLimit_schema :: "(ConnectionLimit, string) schema" where
  "ConnectionLimit_schema = \<lparr>sc_rows = connection_limits, sc_put = connection_limits_update, sc_key = cl_ID,
    sc_clash = (\<lambda>x y. False),
    sc_create = (\<lambda>now rs r. r\<lparr>cl_CreatedAt := auto_time now (cl_CreatedAt r), cl_UpdatedAt := auto_time now (cl_UpdatedAt r)\<rparr>),
    sc_update = (\<lambda>now r. r\<lparr>cl_UpdatedAt := now\<rparr>)\<rparr>"

lemma ConnectionLimit_schema_simps [simp]:
  "sc_rows ConnectionLimit_schema = connection_limits" "sc_put ConnectionLimit_schema = connection_limits_update"
  "sc_key ConnectionLimit_schema = cl_ID" "sc_clash ConnectionLimit_schema = (\<lambda>x y. False)"
  "sc_create ConnectionLimit_schema = (\<lambda>now rs r. r\<lparr>cl_CreatedAt := auto_time now (cl_CreatedAt r), cl_UpdatedAt := auto_time now (cl_UpdatedAt r)\<rparr>)"
  "sc_update ConnectionLimit_schema = (\<lambda>now r. r\<lparr>cl_UpdatedAt := now\<rparr>)"
  by (simp_all add: ConnectionLimit_schema_def)

definition ProxyPool_schema :: "(ProxyPool, string) schema" where
  "ProxyPool_schema = \<lparr>sc_rows = proxy_pools, sc_put = proxy_pools_update, sc_key = pool_ID,
    sc_clash = (\<lambda>x y. pool_Country x = pool_Country y),
    sc_create = (\<lambda>now rs r. r\<lparr>pool_Status := auto_str ''active'' (pool_Status r), pool_Strategy := auto_str ''weighted_score'' (pool_Strategy r), pool_CreatedAt := auto_time now (pool_CreatedAt r), pool_UpdatedAt := auto_time now (pool_UpdatedAt r)\<rparr>),
    sc_update = (\<lambda>now r. r\<lparr>pool_UpdatedAt := now\<rparr>)\<rparr>"

lemma ProxyPool_schema_simps [simp]:
  "sc_rows ProxyPool_schema = proxy_pools" "sc_put ProxyPool_schema = proxy_pools_update"
  "sc_key ProxyPool_schema = pool_ID" "sc_clash ProxyPool_schema = (\<lambda>x y. pool_Country x = pool_Country y)"
  "sc_create ProxyPool_schema = (\<lambda>now rs r. r\<lparr>pool_Status := auto_str ''active'' (pool_Status r), pool_Strategy := auto_str ''weighted_score'' (pool_Strategy r), pool_CreatedAt := auto_time now (pool_CreatedAt r), pool_UpdatedAt := auto_time now (pool_UpdatedAt r)\<rparr>)"
  "sc_update ProxyPool_schema = (\<lambda>now r. r\<lparr>pool_UpdatedAt := now\<rparr>)"
  by (simp_all add: ProxyPool_schema_def)

definition ProxyPoolMember_schema :: "(ProxyPoolMember, string) schema" where
  "ProxyPoolMember_schema = \<lparr>sc_rows = proxy_pool_members, sc_put = proxy_pool_members_update, sc_key = pm_ID,
    sc_clash = (\<lambda>x y. pm_ProxyID x = pm_ProxyID y),
    sc_create = (\<lambda>now rs r. r\<lparr>pm_Status := auto_str ''active'' (pm_Status r), pm_CreatedAt := auto_time now (pm_CreatedAt r), pm_UpdatedAt := auto_time now (pm_UpdatedAt r)\<rparr>),
    sc_update = (\<lambda>now r. r\<lparr>pm_UpdatedAt := now\<rparr>)\<rparr>"

lemma ProxyPoolMember_schema_simps [simp]:
  "sc_rows ProxyPoolMember_schema = proxy_pool_members" "sc_put ProxyPoolMember_schema = proxy_pool_members_update"
  "sc_key ProxyPoolMember_schema = pm_ID" "sc_clash ProxyPoolMember_schema = (\<lambda>x y. pm_ProxyID x = pm_ProxyID y)"
  "sc_create ProxyPoolMember_schema = (\<lambda>now rs r. r\<lparr>pm_Status := auto_str ''active'' (pm_Status r), pm_CreatedAt := auto_time now (pm_CreatedAt r), pm_UpdatedAt := auto_time now (pm_UpdatedAt r)\<rparr>)"
  "sc_update ProxyPoolMember_schema = (\<lambda>now r. r\<lparr>pm_UpdatedAt := now\<rparr>)"
  by (simp_all add: ProxyPoolMember_schema_def)

definition ProxyQualitySnapshot_schema :: "(ProxyQualitySnapshot, string) schema" where
  "ProxyQualitySnapshot_schema = \<lparr>sc_rows = proxy_quality_snapshots, sc_put = proxy_quality_snapshots_update, sc_key = qs_ID,
    sc_clash = (\<lambda>x y. False),
    sc_create = (\<lambda>now rs r. r\<lparr>qs_CreatedAt := auto_time now (qs_CreatedAt r)\<rparr>),
    sc_update = (\<lambda>now r. r)\<rparr>"

lemma ProxyQualitySnapshot_schema_simps [simp]:
  "sc_rows ProxyQualitySnapshot_schema = proxy_quality_snapshots" "sc_put ProxyQualitySnapshot_schema = proxy_quality_snapshots_update"
  "sc_key ProxyQualitySnapshot_schema = qs_ID" "sc_clash ProxyQualitySnapshot_schema = (\<lambda>x y. False)"
  "sc_create ProxyQualitySnapshot_schema = (\<lambda>now rs r. r\<lparr>qs_CreatedAt := auto_time now (qs_CreatedAt r)\<rparr>)"
  "sc_update ProxyQualitySnapshot_schema = (\<lambda>now r. r)"
  by (simp_all add: ProxyQualitySnapshot_schema_def)

definition StickySession_schema :: "(StickySession, string) schema" where
  "StickySession_schema = \<lparr>sc_rows = sticky_sessions, sc_put = sticky_sessions_update, sc_key = ss_ID,
    sc_clash = (\<lambda>x y. False),
    sc_create = (\<lambda>now rs r. r\<lparr>ss_CreatedAt := auto_time now (ss_CreatedAt r), ss_UpdatedAt := auto_time now (ss_UpdatedAt r)\<rparr>),
    sc_update = (\<lambda>now r. r\<lparr>ss_UpdatedAt := now\<rparr>)\<rparr>"

lemma StickySession_schema_simps [simp]:
  "sc_rows StickySession_schema = sticky_sessions" "sc_put StickySession_schema = sticky_sessions_update"
  "sc_key StickySession_schema = ss_ID" "sc_clash StickySession_schema = (\<lambda>x y. False)"
  "sc_create StickySession_schema = (\<lambda>now rs r. r\<lparr>ss_CreatedAt := auto_time now (ss_CreatedAt r), ss_UpdatedAt := auto_time now (ss_UpdatedAt r)\<rparr>)"
  "sc_update StickySession_schema = (\<lambda>now r. r\<lparr>ss_UpdatedAt := now\<rparr>)"
  by (simp_all add: StickySession_schema_def)

definition ProxyReservation_schema :: "(ProxyReservation, string) schema" where
  "ProxyReservation_schema = \<lparr>sc_rows = proxy_reservations, sc_put = proxy_reservations_update, sc_key = pres_ID,
    sc_clash = (\<lambda>x y. False),
    sc_create = (\<lambda>now rs r. r\<lparr>pres_Status := auto_str ''active'' (pres_Status r), pres_CreatedAt := auto_time now (pres_CreatedAt r), pres_UpdatedAt := auto_time now (pres_UpdatedAt r)\<rparr>),
    sc_update = (\<lambda>now r. r\<lparr>pres_UpdatedAt := now\<rparr>)\<rparr>"

lemma ProxyReservation_schema_simps [simp]:
  "sc_rows ProxyReservation_schema = proxy_reservations" "sc_put ProxyReservation_schema = proxy_reservations_update"
  "sc_key ProxyReservation_schema = pres_ID" "sc_clash ProxyReservation_schema = (\<lambda>x y. False)"
  "sc_create ProxyReservation_schema = (\<lambda>now rs r. r\<lparr>pres_Status := auto_str ''active'' (pres_Status r), pres_CreatedAt := auto_time now (pres_CreatedAt r), pres_UpdatedAt := auto_time now (pres_UpdatedAt r)\<rparr>)"
  "sc_update ProxyReservation_schema = (\<lambda>now r. r\<lparr>pres_UpdatedAt := now\<rparr>)"
  by (simp_all add: ProxyReservation_schema_def)

definition RoutingEvent_schema :: "(RoutingEvent, string) schema" where
  "RoutingEvent_schema = \<lparr>sc_rows = routing_events, sc_put = routing_events_update, sc_key = re_ID,
    sc_clash = (\<lambda>x y. False),
    sc_create = (\<lambda>now rs r. r\<lparr>re_CreatedAt := auto_time now (re_CreatedAt r)\<rparr>),
    sc_update = (\<lambda>now r. r)\<rparr>"

lemma RoutingEvent_schema_simps [simp]:
  "sc_rows RoutingEvent_schema = routing_events" "sc_put RoutingEvent_schema = routing_events_update"
  "sc_key RoutingEvent_schema = re_ID" "sc_clash RoutingEvent_schema = (\<lambda>x y. False)"
  "sc_create RoutingEvent_schema = (\<lambda>now rs r. r\<lparr>re_CreatedAt := auto_time now (re_CreatedAt r)\<rparr>)"
  "sc_update RoutingEvent_schema = (\<lambda>now r. r)"
  by (simp_all add: RoutingEvent_schema_def)

end
