(* ===== verification/ProxyHooks.thy ===== *)
theory ProxyHooks imports World begin

text \<open>
  The hooks of \<^verbatim>\<open>internal/proxy/go_proxy.go\<close> that other packages fill in: the validator of a customer
  credential and the guard of a connection, with the contract the proxy server relies on. The guard
  returns the closure that releases the connection, a function of the world at the time it runs.
\<close>

record AuthResult =
  au_Allowed :: bool
  au_CustomerID :: string
  au_Reason :: string

definition deny :: "string \<Rightarrow> string \<Rightarrow> AuthResult" where
  "deny cust reason = \<lparr>au_Allowed = False, au_CustomerID = cust, au_Reason = reason\<rparr>"

definition allow :: "string \<Rightarrow> AuthResult" where
  "allow cust = \<lparr>au_Allowed = True, au_CustomerID = cust, au_Reason = []\<rparr>"

lemma AuthResult_simps [simp]:
  "au_Allowed (deny c r) = False" "au_CustomerID (deny c r) = c" "au_Reason (deny c r) = r"
  "au_Allowed (allow c) = True" "au_CustomerID (allow c) = c" "au_Reason (allow c) = []"
  by (simp_all add: deny_def allow_def)

text \<open>\<^verbatim>\<open>customerAuthValidator\<close>: proxy, user name, password, client address.\<close>

type_synonym auth_validator_fn = "string \<Rightarrow> string \<Rightarrow> string \<Rightarrow> string \<Rightarrow> world \<Rightarrow> AuthResult \<times> world"

text \<open>\<^verbatim>\<open>connectionGuard\<close>: proxy, customer, client address, target; the release closure or an error.\<close>

type_synonym connection_guard_fn =
  "string \<Rightarrow> string \<Rightarrow> string \<Rightarrow> string \<Rightarrow> world \<Rightarrow> (world \<Rightarrow> world) result \<times> world"

end
