(* ===== verification/GoStrings.thy ===== *)
theory GoStrings imports Prelude begin

text \<open>
  What the code uses of Go's \<^verbatim>\<open>strings\<close> package, on ASCII strings (lists of bytes below 128): the
  case, space and letter tests of Go agree with these there. A separator is always one character in
  the code, so \<^verbatim>\<open>Split\<close>, \<^verbatim>\<open>SplitN\<close> and \<^verbatim>\<open>Cut\<close> take a character.
\<close>

section \<open>Characters\<close>

definition upper_letters :: string where "upper_letters = ''ABCDEFGHIJKLMNOPQRSTUVWXYZ''"
definition lower_letters :: string where "lower_letters = ''abcdefghijklmnopqrstuvwxyz''"

definition lower_char :: "char \<Rightarrow> char" where
  "lower_char c = (case map_of (zip upper_letters lower_letters) c of None \<Rightarrow> c | Some d \<Rightarrow> d)"

definition upper_char :: "char \<Rightarrow> char" where
  "upper_char c = (case map_of (zip lower_letters upper_letters) c of None \<Rightarrow> c | Some d \<Rightarrow> d)"

definition is_space :: "char \<Rightarrow> bool" where
  "is_space c \<longleftrightarrow> c \<in> {CHR 0x09, CHR 0x0A, CHR 0x0B, CHR 0x0C, CHR 0x0D, CHR '' ''}"

lemma lower_table:
  "list_all (\<lambda>c. lower_char c \<in> set lower_letters) upper_letters"
  "list_all (\<lambda>c. lower_char c = c) lower_letters"
  "length upper_letters = length lower_letters"
  by code_simp+

lemma lower_char_lower: "c \<in> set lower_letters \<Longrightarrow> lower_char c = c"
  using lower_table(2) by (simp add: list_all_iff)

lemma lower_char_upper: "c \<in> set upper_letters \<Longrightarrow> lower_char c \<in> set lower_letters"
  using lower_table(1) by (simp add: list_all_iff)

lemma lower_char_other: "c \<notin> set upper_letters \<Longrightarrow> lower_char c = c"
proof (cases "map_of (zip upper_letters lower_letters) c")
  case (Some d)
  assume "c \<notin> set upper_letters"
  moreover have "c \<in> set upper_letters"
    using map_of_SomeD [OF Some] by (rule set_zip_leftD)
  ultimately show ?thesis by contradiction
qed (simp add: lower_char_def)

lemma lower_char_idem [simp]: "lower_char (lower_char c) = lower_char c"
  by (cases "c \<in> set upper_letters") (simp_all add: lower_char_upper lower_char_lower lower_char_other)

lemma lower_char_fixed:
  assumes "d \<notin> set upper_letters" and "d \<notin> set lower_letters"
  shows "lower_char c = d \<longleftrightarrow> c = d"
  using assms lower_char_upper [of c] lower_char_other [of c] lower_char_other [of d] by metis

section \<open>Case, prefixes and suffixes\<close>

definition to_lower :: "string \<Rightarrow> string" where "to_lower s = map lower_char s"
definition to_upper :: "string \<Rightarrow> string" where "to_upper s = map upper_char s"
definition equal_fold :: "string \<Rightarrow> string \<Rightarrow> bool" where "equal_fold a b = (to_lower a = to_lower b)"
definition has_prefix :: "string \<Rightarrow> string \<Rightarrow> bool" where "has_prefix s p = (take (length p) s = p)"
definition has_suffix :: "string \<Rightarrow> string \<Rightarrow> bool" where "has_suffix s p = has_prefix (rev s) (rev p)"

fun contains :: "string \<Rightarrow> string \<Rightarrow> bool" where
  "contains [] p = (p = [])"
| "contains (c # s) p = (has_prefix (c # s) p \<or> contains s p)"

lemma to_lower_simps [simp]:
  "to_lower [] = []" "to_lower (c # s) = lower_char c # to_lower s"
  "to_lower (s @ t) = to_lower s @ to_lower t" "length (to_lower s) = length s"
  by (simp_all add: to_lower_def)

lemma to_lower_idem [simp]: "to_lower (to_lower s) = to_lower s"
  by (simp add: to_lower_def)

lemma to_lower_Nil_iff [simp]: "to_lower s = [] \<longleftrightarrow> s = []"
  by (simp add: to_lower_def)

lemma equal_fold_refl [simp]: "equal_fold s s"
  by (simp add: equal_fold_def)

lemma equal_fold_sym: "equal_fold a b = equal_fold b a"
  by (auto simp: equal_fold_def)

lemma has_prefix_append [simp]: "has_prefix (p @ s) p"
  by (simp add: has_prefix_def)

lemma has_prefix_iff: "has_prefix s p \<longleftrightarrow> (\<exists>t. s = p @ t)"
  by (metis append_eq_conv_conj append_take_drop_id has_prefix_def)

lemma has_suffix_iff: "has_suffix s p \<longleftrightarrow> (\<exists>t. s = t @ p)"
proof
  assume "has_suffix s p"
  then obtain t where "rev s = rev p @ t" by (auto simp: has_suffix_def has_prefix_iff)
  then have "s = rev t @ p" by (metis rev_append rev_rev_ident)
  then show "\<exists>t. s = t @ p" by blast
qed (auto simp: has_suffix_def has_prefix_iff)

section \<open>Trimming\<close>

definition trim_left :: "(char \<Rightarrow> bool) \<Rightarrow> string \<Rightarrow> string" where "trim_left P s = dropWhile P s"
definition trim_by :: "(char \<Rightarrow> bool) \<Rightarrow> string \<Rightarrow> string" where
  "trim_by P s = rev (dropWhile P (rev (dropWhile P s)))"
definition trim_space :: "string \<Rightarrow> string" where "trim_space s = trim_by is_space s"

text \<open>\<^verbatim>\<open>strings.Trim(s, cutset)\<close>.\<close>

definition trim_cutset :: "string \<Rightarrow> string \<Rightarrow> string" where
  "trim_cutset s cs = trim_by (\<lambda>c. c \<in> set cs) s"

lemma dropWhile_snoc: "\<not> P c \<Longrightarrow> dropWhile P (s @ [c]) = dropWhile P s @ [c]"
  by (induction s) auto

lemma trim_by_hd: "trim_by P s = c # t \<Longrightarrow> \<not> P c"
proof (cases "dropWhile P s")
  case (Cons a u)
  assume e: "trim_by P s = c # t"
  from Cons have "\<not> P a" by (metis dropWhile_eq_Cons_conv)
  then have "trim_by P s = a # rev (dropWhile P (rev u))"
    by (simp add: trim_by_def Cons dropWhile_snoc)
  with e \<open>\<not> P a\<close> show ?thesis by simp
qed (simp add: trim_by_def)

lemma trim_by_last: "trim_by P s = t @ [c] \<Longrightarrow> \<not> P c"
proof -
  assume "trim_by P s = t @ [c]"
  then have "dropWhile P (rev (dropWhile P s)) = c # rev t"
    by (metis rev.simps(2) rev_rev_ident rev_swap trim_by_def)
  then show "\<not> P c" by (metis dropWhile_eq_Cons_conv)
qed

lemma trim_by_id:
  assumes "\<And>c t. s = c # t \<Longrightarrow> \<not> P c" and "\<And>c t. s = t @ [c] \<Longrightarrow> \<not> P c"
  shows "trim_by P s = s"
proof (cases s rule: rev_cases)
  case Nil
  then show ?thesis by (simp add: trim_by_def)
next
  case (snoc t c)
  have "dropWhile P s = s"
  proof (cases s)
    case (Cons a u)
    then show ?thesis using assms(1) by simp
  qed simp
  moreover have "\<not> P c" using assms(2) snoc by blast
  ultimately show ?thesis using snoc by (simp add: trim_by_def)
qed

lemma trim_by_idem [simp]: "trim_by P (trim_by P s) = trim_by P s"
  by (rule trim_by_id) (auto dest: trim_by_hd trim_by_last)

lemma trim_space_idem [simp]: "trim_space (trim_space s) = trim_space s"
  by (simp add: trim_space_def)

lemma set_trim_by: "set (trim_by P s) \<subseteq> set s"
proof -
  have "set (dropWhile P u) \<subseteq> set u" for u by (auto dest: set_dropWhileD)
  from this [of "rev (dropWhile P s)"] this [of s] show ?thesis by (auto simp: trim_by_def)
qed

section \<open>Splitting and joining\<close>

fun split_on :: "char \<Rightarrow> string \<Rightarrow> string list" where
  "split_on sep [] = [[]]"
| "split_on sep (c # s) =
     (if c = sep then [] # split_on sep s
      else case split_on sep s of [] \<Rightarrow> [[c]] | p # ps \<Rightarrow> (c # p) # ps)"

fun join :: "string \<Rightarrow> string list \<Rightarrow> string" where
  "join sep [] = []"
| "join sep [p] = p"
| "join sep (p # q # ps) = p @ sep @ join sep (q # ps)"

text \<open>\<^verbatim>\<open>strings.Cut(s, sep)\<close>: what is before and after the first separator, and whether there is one.\<close>

fun cut :: "char \<Rightarrow> string \<Rightarrow> string \<times> string \<times> bool" where
  "cut sep [] = ([], [], False)"
| "cut sep (c # s) =
     (if c = sep then ([], s, True) else case cut sep s of (a, b, found) \<Rightarrow> (c # a, b, found))"

text \<open>\<^verbatim>\<open>strings.SplitN(s, sep, 2)\<close>.\<close>

definition split2 :: "char \<Rightarrow> string \<Rightarrow> string list" where
  "split2 sep s = (case cut sep s of (a, b, found) \<Rightarrow> if found then [a, b] else [s])"

text \<open>\<^verbatim>\<open>strings.Fields\<close>: the maximal runs of non-space characters.\<close>

fun fields_from :: "string \<Rightarrow> string \<Rightarrow> string list" where
  "fields_from acc [] = (if acc = [] then [] else [rev acc])"
| "fields_from acc (c # s) =
     (if is_space c then (if acc = [] then fields_from [] s else rev acc # fields_from [] s)
      else fields_from (c # acc) s)"

definition fields :: "string \<Rightarrow> string list" where "fields s = fields_from [] s"

lemma split_on_nonempty [simp]: "split_on sep s \<noteq> []"
  by (induction s) (auto split: list.splits)

lemma split_on_no_sep: "p \<in> set (split_on sep s) \<Longrightarrow> sep \<notin> set p"
proof (induction s arbitrary: p)
  case (Cons c s)
  then show ?case by (cases "split_on sep s") (auto split: if_splits)
qed simp

lemma join_split_on: "join [sep] (split_on sep s) = s"
proof (induction s)
  case (Cons c s)
  obtain p ps where e: "split_on sep s = p # ps" by (cases "split_on sep s") auto
  with Cons show ?case by (cases ps) auto
qed simp

lemma split_on_none: "sep \<notin> set p \<Longrightarrow> split_on sep p = [p]"
  by (induction p) auto

lemma split_on_append: "sep \<notin> set p \<Longrightarrow> split_on sep (p @ sep # s) = p # split_on sep s"
  by (induction p) auto

lemma split_on_join:
  "ps \<noteq> [] \<Longrightarrow> (\<And>p. p \<in> set ps \<Longrightarrow> sep \<notin> set p) \<Longrightarrow> split_on sep (join [sep] ps) = ps"
proof (induction ps rule: induct_list012)
  case (3 p q ps)
  then have "split_on sep (join [sep] (q # ps)) = q # ps" by simp
  moreover have "sep \<notin> set p" using "3.prems"(2) by simp
  ultimately show ?case by (simp add: split_on_append)
qed (auto simp: split_on_none)

lemma cut_not_found: "sep \<notin> set s \<Longrightarrow> cut sep s = (s, [], False)"
  by (induction s) auto

lemma cut_append [simp]: "sep \<notin> set a \<Longrightarrow> cut sep (a @ sep # b) = (a, b, True)"
  by (induction a) auto

lemma cut_parts: "cut sep s = (a, b, True) \<Longrightarrow> s = a @ sep # b"
proof (induction s arbitrary: a)
  case (Cons c s)
  then show ?case by (cases "cut sep s") (auto split: if_splits)
qed simp

lemma cut_first: "cut sep s = (a, b, f) \<Longrightarrow> sep \<notin> set a"
  by (induction s arbitrary: a b f) (auto split: if_splits prod.splits)

text \<open>\<^verbatim>\<open>strings.Title\<close>: upper-cases every letter that starts a word.\<close>

definition is_word_char :: "char \<Rightarrow> bool" where
  "is_word_char c \<longleftrightarrow> c \<in> set upper_letters \<or> c \<in> set lower_letters \<or> c \<in> set ''0123456789_''"

fun title_from :: "bool \<Rightarrow> string \<Rightarrow> string" where
  "title_from inside [] = []"
| "title_from inside (c # s) = (if inside then c else upper_char c) # title_from (is_word_char c) s"

definition title :: "string \<Rightarrow> string" where "title s = title_from False s"

end
