(* ===== verification/GoNet.thy ===== *)
theory GoNet imports GoStrings begin

text \<open>
  What the code uses of Go's \<^verbatim>\<open>net\<close> package. An address is the byte slice \<^verbatim>\<open>net.IP\<close>: \<^verbatim>\<open>ParseIP\<close> gives 16
  bytes (an IPv4 address behind the prefix \<^verbatim>\<open>::ffff\<close>), the SOCKS5 code also makes slices of 4. The parsers
  follow \<^verbatim>\<open>net/netip\<close>: no leading zeros in a decimal field, at most four digits in a hexadecimal group, one
  ellipsis that stands for at least one group; an address with a zone is not an IP for \<^verbatim>\<open>ParseIP\<close>.
\<close>

unbundle bit_operations_syntax

type_synonym byte = "8 word"
type_synonym ip = "byte list"

section \<open>Digits\<close>

definition digit_of :: "char \<Rightarrow> nat option" where
  "digit_of c = map_of (zip ''0123456789'' [0..<10]) c"

definition hex_digit_of :: "char \<Rightarrow> nat option" where
  "hex_digit_of c = map_of (zip ''0123456789abcdefABCDEF'' ([0..<16] @ [10..<16])) c"

text \<open>\<^verbatim>\<open>strconv.Atoi\<close> without sign and \<^verbatim>\<open>ParseUint\<close>: a nonempty run of decimal digits.\<close>

fun nat_from :: "nat \<Rightarrow> string \<Rightarrow> nat option" where
  "nat_from acc [] = Some acc"
| "nat_from acc (c # s) = (case digit_of c of None \<Rightarrow> None | Some d \<Rightarrow> nat_from (10 * acc + d) s)"

definition parse_nat :: "string \<Rightarrow> nat option" where
  "parse_nat s = (if s = [] then None else nat_from 0 s)"

text \<open>\<^verbatim>\<open>strconv.Atoi\<close> on a 64-bit platform.\<close>

definition parse_int :: "string \<Rightarrow> int option" where
  "parse_int s =
     (let r = (case s of
         CHR ''-'' # t \<Rightarrow> map_option (\<lambda>n. - int n) (parse_nat t)
       | CHR ''+'' # t \<Rightarrow> map_option int (parse_nat t)
       | _ \<Rightarrow> map_option int (parse_nat s))
      in case r of None \<Rightarrow> None
         | Some i \<Rightarrow> if - (2 ^ 63) \<le> i \<and> i < 2 ^ 63 then Some i else None)"

section \<open>IPv4\<close>

definition parse_octet :: "string \<Rightarrow> byte option" where
  "parse_octet s =
     (if s = [] \<or> 3 < length s \<or> (1 < length s \<and> hd s = CHR ''0'') then None
      else case parse_nat s of None \<Rightarrow> None | Some n \<Rightarrow> if n < 256 then Some (of_nat n) else None)"

definition parse_ipv4 :: "string \<Rightarrow> byte list option" where
  "parse_ipv4 s = (case map parse_octet (split_on (CHR ''.'') s) of
     [Some a, Some b, Some c, Some d] \<Rightarrow> Some [a, b, c, d] | _ \<Rightarrow> None)"

definition v4_prefix :: "byte list" where
  "v4_prefix = replicate 10 0 @ [0xff, 0xff]"

section \<open>IPv6\<close>

text \<open>The next hexadecimal group: its value and the rest; it fails with no digit or more than four.\<close>

fun hex_group :: "nat \<Rightarrow> nat \<Rightarrow> string \<Rightarrow> (nat \<times> nat \<times> string) option" where
  "hex_group k acc [] = (if k = 0 then None else Some (k, acc, []))"
| "hex_group k acc (c # s) = (case hex_digit_of c of
     None \<Rightarrow> if k = 0 then None else Some (k, acc, c # s)
   | Some d \<Rightarrow> if 3 < k then None else hex_group (Suc k) (16 * acc + d) s)"

text \<open>
  The loop of \<^verbatim>\<open>parseIPv6\<close> with room for \<open>n\<close> more groups: the bytes read so far, the position of the
  ellipsis and the rest of the text.
\<close>

fun v6_groups :: "nat \<Rightarrow> nat option \<Rightarrow> byte list \<Rightarrow> string \<Rightarrow> (byte list \<times> nat option \<times> string) option" where
  "v6_groups 0 ell bs s = Some (bs, ell, s)"
| "v6_groups (Suc n) ell bs s = (case hex_group 0 0 s of
     None \<Rightarrow> None
   | Some (k, acc, rest) \<Rightarrow>
       if rest \<noteq> [] \<and> hd rest = CHR ''.'' then
         (if ell = None \<and> length bs \<noteq> 12 \<or> 16 < length bs + 4 then None
          else case parse_ipv4 s of None \<Rightarrow> None | Some q \<Rightarrow> Some (bs @ q, ell, []))
       else let bs' = bs @ [of_nat (acc div 256), of_nat acc] in
         case rest of
           [] \<Rightarrow> Some (bs', ell, [])
         | c # t \<Rightarrow>
             if c \<noteq> CHR '':'' \<or> t = [] then None
             else if hd t = CHR '':'' then
               (if ell \<noteq> None then None
                else if tl t = [] then Some (bs', Some (length bs'), [])
                else v6_groups n (Some (length bs')) bs' (tl t))
             else v6_groups n ell bs' t)"

definition parse_ipv6 :: "string \<Rightarrow> byte list option" where
  "parse_ipv6 s =
     (if s = ''::'' then Some (replicate 16 0)
      else (case (if has_prefix s ''::'' then v6_groups 8 (Some 0) [] (drop 2 s) else v6_groups 8 None [] s) of
        None \<Rightarrow> None
      | Some (bs, ell, rest) \<Rightarrow>
          if rest \<noteq> [] then None
          else (case ell of
            None \<Rightarrow> if length bs = 16 then Some bs else None
          | Some e \<Rightarrow> if length bs < 16
              then Some (take e bs @ replicate (16 - length bs) 0 @ drop e bs) else None)))"

text \<open>\<^verbatim>\<open>net.ParseIP\<close>: the first dot or colon decides; \<open>None\<close> is the nil slice.\<close>

definition parse_ip :: "string \<Rightarrow> ip option" where
  "parse_ip s = (case dropWhile (\<lambda>c. c \<noteq> CHR ''.'' \<and> c \<noteq> CHR '':'' \<and> c \<noteq> CHR ''%'') s of
     [] \<Rightarrow> None
   | c # _ \<Rightarrow> if c = CHR ''.'' then map_option (\<lambda>q. v4_prefix @ q) (parse_ipv4 s)
              else if c = CHR '':'' then parse_ipv6 s else None)"

text \<open>\<^verbatim>\<open>IP.To4\<close> and \<^verbatim>\<open>IP.Equal\<close>; the nil slice equals only itself.\<close>

definition to4 :: "ip \<Rightarrow> ip option" where
  "to4 x = (if length x = 4 then Some x
            else if length x = 16 \<and> take 12 x = v4_prefix then Some (drop 12 x) else None)"

definition ip_equal :: "ip option \<Rightarrow> ip option \<Rightarrow> bool" where
  "ip_equal a b = (case (a, b) of
     (None, None) \<Rightarrow> True
   | (Some x, Some y) \<Rightarrow> (if length x = length y then x = y
                          else to4 x \<noteq> None \<and> to4 x = to4 y)
   | _ \<Rightarrow> False)"

section \<open>Networks\<close>

text \<open>\<^verbatim>\<open>net.CIDRMask(ones, 8 * n)\<close>.\<close>

fun cidr_mask :: "nat \<Rightarrow> nat \<Rightarrow> byte list" where
  "cidr_mask ones 0 = []"
| "cidr_mask ones (Suc n) =
     (if 8 \<le> ones then 0xff # cidr_mask (ones - 8) n
      else NOT (drop_bit ones 0xff) # cidr_mask 0 n)"

definition mask_ip :: "byte list \<Rightarrow> byte list \<Rightarrow> byte list" where
  "mask_ip a m = map2 (AND) a m"

record IPNet =
  net_ip :: ip
  net_mask :: "byte list"

text \<open>\<^verbatim>\<open>net.ParseCIDR\<close>: the network it returns.\<close>

definition parse_cidr :: "string \<Rightarrow> IPNet option" where
  "parse_cidr s = (case cut (CHR ''/'') s of (addr, msk, found) \<Rightarrow>
     if \<not> found then None
     else case (parse_ip addr, parse_nat msk) of
       (Some x, Some n) \<Rightarrow>
         let v4 = contains addr ''.'' \<and> \<not> contains addr '':'';
             len = (if v4 then 4 else 16);
             y = (if v4 then drop 12 x else x)
         in if n \<le> 8 * len
            then Some \<lparr>net_ip = mask_ip y (cidr_mask n len), net_mask = cidr_mask n len\<rparr> else None
     | _ \<Rightarrow> None)"

text \<open>\<^verbatim>\<open>IPNet.Contains\<close>.\<close>

definition net_contains :: "IPNet \<Rightarrow> ip \<Rightarrow> bool" where
  "net_contains n x =
     (let y = (case to4 x of None \<Rightarrow> x | Some q \<Rightarrow> q) in
      length y = length (net_ip n) \<and> mask_ip y (net_mask n) = mask_ip (net_ip n) (net_mask n))"

section \<open>Hosts and ports\<close>

text \<open>\<^verbatim>\<open>net.JoinHostPort\<close>.\<close>

definition join_host_port :: "string \<Rightarrow> string \<Rightarrow> string" where
  "join_host_port host port =
     (if CHR '':'' \<in> set host \<or> CHR ''%'' \<in> set host
      then ''['' @ host @ '']:'' @ port else host @ '':'' @ port)"

text \<open>The text before and after the last colon.\<close>

definition cut_last :: "char \<Rightarrow> string \<Rightarrow> (string \<times> string) option" where
  "cut_last c s = (case cut c (rev s) of (b, a, found) \<Rightarrow> if found then Some (rev a, rev b) else None)"

text \<open>\<^verbatim>\<open>net.SplitHostPort\<close>.\<close>

definition split_host_port :: "string \<Rightarrow> (string \<times> string) option" where
  "split_host_port s = (case cut_last (CHR '':'') s of
     None \<Rightarrow> None
   | Some (pre, port) \<Rightarrow>
       if s \<noteq> [] \<and> hd s = CHR ''['' then
         (case cut (CHR '']'') s of (h, rest, found) \<Rightarrow>
            if \<not> found \<or> tl rest \<noteq> port \<or> rest = [] \<or> hd rest \<noteq> CHR '':'' then None
            else if CHR ''['' \<in> set (tl h) \<or> CHR ''['' \<in> set rest \<or> CHR '']'' \<in> set rest then None
            else Some (tl h, port))
       else if CHR '':'' \<in> set pre then None
       else if CHR ''['' \<in> set s \<or> CHR '']'' \<in> set s then None
       else Some (pre, port))"

section \<open>Printing an address\<close>

definition ipv4_string :: "byte list \<Rightarrow> string" where
  "ipv4_string bs = join ''.'' (map (\<lambda>b. digits (unat b)) bs)"

fun hex_digits :: "nat \<Rightarrow> string" where
  "hex_digits n = (if n < 16 then [''0123456789abcdef'' ! n]
                   else hex_digits (n div 16) @ [''0123456789abcdef'' ! (n mod 16)])"

declare hex_digits.simps [simp del]

definition groups_of :: "byte list \<Rightarrow> nat list" where
  "groups_of bs = map (\<lambda>i. 256 * unat (bs ! (2 * i)) + unat (bs ! (2 * i + 1))) [0..<8]"

definition zero_run :: "nat list \<Rightarrow> nat \<Rightarrow> nat" where
  "zero_run gs i = length (takeWhile (\<lambda>g. g = 0) (drop i gs))"

text \<open>The first longest run of at least two zero groups (start and length).\<close>

definition best_run :: "nat list \<Rightarrow> (nat \<times> nat) option" where
  "best_run gs = foldl (\<lambda>best i. let n = zero_run gs i in
      if 2 \<le> n \<and> (case best of None \<Rightarrow> True | Some (_, m) \<Rightarrow> m < n) then Some (i, n) else best)
     None [0..<length gs]"

definition ipv6_string :: "byte list \<Rightarrow> string" where
  "ipv6_string bs = (let gs = groups_of bs in case best_run gs of
     None \<Rightarrow> join '':'' (map hex_digits gs)
   | Some (i, n) \<Rightarrow> join '':'' (map hex_digits (take i gs)) @ ''::'' @ join '':'' (map hex_digits (drop (i + n) gs)))"

text \<open>\<^verbatim>\<open>IP.String\<close>, on the slices of 4 and 16 bytes.\<close>

definition ip_string :: "ip \<Rightarrow> string" where
  "ip_string x = (case to4 x of Some q \<Rightarrow> ipv4_string q | None \<Rightarrow> ipv6_string x)"

section \<open>Decimal round trip\<close>

lemma digit_of_nth: "d < 10 \<Longrightarrow> digit_of (dec_char d) = Some d"
proof -
  have "list_all (\<lambda>d. digit_of (dec_char d) = Some d) [0..<10]" by code_simp
  then show "d < 10 \<Longrightarrow> digit_of (dec_char d) = Some d" by (simp add: list_all_iff)
qed

lemma nat_from_append:
  "nat_from acc (s @ t) = (case nat_from acc s of None \<Rightarrow> None | Some n \<Rightarrow> nat_from n t)"
  by (induction s arbitrary: acc) (auto split: option.splits)

lemma nat_from_digits: "nat_from 0 (digits n) = Some n"
proof (induction n rule: digits.induct)
  case (1 n)
  show ?case
  proof (cases "n < 10")
    case True
    then show ?thesis by (simp add: digits.simps [of n] digit_of_nth)
  next
    case False
    then show ?thesis
      using "1.IH" by (simp add: digits.simps [of n] nat_from_append digit_of_nth)
  qed
qed

lemma parse_nat_digits [simp]: "parse_nat (digits n) = Some n"
  by (simp add: parse_nat_def digits_nonempty nat_from_digits)

lemma digits_chars: "c \<in> set (digits n) \<Longrightarrow> c \<in> set ''0123456789''"
proof (induction n rule: digits.induct)
  case (1 n)
  have "list_all (\<lambda>d. dec_char d \<in> set ''0123456789'') [0..<10]" by code_simp
  then have t: "dec_char d \<in> set ''0123456789''" if "d < 10" for d
    using that by (simp add: list_all_iff del: list.set)
  show ?case
  proof (cases "n < 10")
    case True
    then show ?thesis using "1.prems" t [of n] by (simp only: digits.simps [of n] if_True set_simps empty_iff insert_iff simp_thms)
  next
    case False
    then show ?thesis
      using "1.prems" "1.IH" t [of "n mod 10"]
      by (simp only: digits.simps [of n] if_False set_append Un_iff set_simps empty_iff insert_iff simp_thms)
         (auto simp del: list.set)
  qed
qed

lemma digits_no_char: "c \<notin> set ''0123456789'' \<Longrightarrow> c \<notin> set (digits n)"
  using digits_chars by blast

lemma digits_hd: "1 < length (digits n) \<Longrightarrow> hd (digits n) \<noteq> CHR ''0''"
proof (induction n rule: digits.induct)
  case (1 n)
  show ?case
  proof (cases "n < 10")
    case True
    then show ?thesis using "1.prems" by (simp add: digits.simps [of n])
  next
    case big: False
    have e: "digits n = digits (n div 10) @ [dec_char (n mod 10)]"
      using big by (simp add: digits.simps [of n])
    show ?thesis
    proof (cases "n div 10 < 10")
      case True
      then have d: "digits (n div 10) = [dec_char (n div 10)]" by (simp add: digits.simps)
      have "0 < n div 10" using big by simp
      then have "digit_of (dec_char (n div 10)) \<noteq> Some 0" using True digit_of_nth by simp
      moreover have "digit_of (CHR ''0'') = Some 0" by code_simp
      ultimately show ?thesis using e d by auto
    next
      case False
      then have "1 < length (digits (n div 10))"
        by (subst digits.simps) (simp add: digits_nonempty)
      with "1.IH" big e show ?thesis by (simp add: digits_nonempty)
    qed
  qed
qed

lemma digits_length: "n < 1000 \<Longrightarrow> length (digits n) \<le> 3"
  by (simp add: digits.simps [of n] digits.simps [of "n div 10"] digits.simps [of "n div 10 div 10"])

lemma parse_octet_digits [simp]: "parse_octet (digits (unat b)) = Some b"
proof -
  have b: "unat b < 256" using unsigned_less [of b, where ?'a = nat] by simp
  have l: "\<not> 3 < length (digits (unat b))" using b digits_length [of "unat b"] by simp
  have h: "\<not> (1 < length (digits (unat b)) \<and> hd (digits (unat b)) = CHR ''0'')"
    using digits_hd by blast
  show ?thesis using b l h by (auto simp: parse_octet_def digits_nonempty)
qed

text \<open>An IPv4 address reads back from its text.\<close>

lemma parse_ipv4_string: "parse_ipv4 (ipv4_string [a, b, c, d]) = Some [a, b, c, d]"
proof -
  have "split_on (CHR ''.'') (ipv4_string [a, b, c, d]) = map (\<lambda>b. digits (unat b)) [a, b, c, d]"
    unfolding ipv4_string_def by (rule split_on_join) (auto dest: digits_chars)
  then show ?thesis by (simp add: parse_ipv4_def)
qed

lemma parse_ip_ipv4_string: "parse_ip (ipv4_string [a, b, c, d]) = Some (v4_prefix @ [a, b, c, d])"
proof -
  have "dropWhile (\<lambda>c. c \<noteq> CHR ''.'' \<and> c \<noteq> CHR '':'' \<and> c \<noteq> CHR ''%'') (digits (unat a) @ u) =
      dropWhile (\<lambda>c. c \<noteq> CHR ''.'' \<and> c \<noteq> CHR '':'' \<and> c \<noteq> CHR ''%'') u" for u
    by (rule dropWhile_append2) (auto dest: digits_chars)
  then have "dropWhile (\<lambda>c. c \<noteq> CHR ''.'' \<and> c \<noteq> CHR '':'' \<and> c \<noteq> CHR ''%'') (ipv4_string [a, b, c, d])
      = CHR ''.'' # join ''.'' (map (\<lambda>b. digits (unat b)) [b, c, d])"
    by (simp add: ipv4_string_def)
  then show ?thesis by (simp only: parse_ip_def list.case simp_thms if_True parse_ipv4_string option.map)
qed

lemma ip_string_v4 [simp]: "length q = 4 \<Longrightarrow> ip_string q = ipv4_string q"
  by (simp add: ip_string_def to4_def)

section \<open>Networks contain their addresses\<close>

lemma mask_ip_idem: "mask_ip (mask_ip a m) m = mask_ip a m"
proof (induction a arbitrary: m)
  case (Cons x a)
  then show ?case by (cases m) (auto simp: mask_ip_def and.assoc)
qed (simp add: mask_ip_def)

lemma length_cidr_mask [simp]: "length (cidr_mask ones n) = n"
  by (induction ones n rule: cidr_mask.induct) auto

section \<open>Host and port round trip\<close>

lemma cut_last_append: "c \<notin> set t \<Longrightarrow> cut_last c (s @ c # t) = Some (s, t)"
  by (simp add: cut_last_def)

lemma split_join_host_port:
  assumes "CHR '':'' \<notin> set port" and "CHR ''['' \<notin> set host" and "CHR '']'' \<notin> set host"
    and "CHR ''['' \<notin> set port" and "CHR '']'' \<notin> set port"
  shows "split_host_port (join_host_port host port) = Some (host, port)"
proof (cases "CHR '':'' \<in> set host \<or> CHR ''%'' \<in> set host")
  case True
  have c: "cut_last (CHR '':'') ((''['' @ host @ '']'') @ CHR '':'' # port) = Some (''['' @ host @ '']'', port)"
    by (rule cut_last_append) (rule assms(1))
  have "cut (CHR '']'') ((''['' @ host) @ CHR '']'' # CHR '':'' # port) = (''['' @ host, CHR '':'' # port, True)"
    by (rule cut_append) (simp add: assms(3))
  with True c assms show ?thesis by (simp add: join_host_port_def split_host_port_def)
next
  case False
  have "cut_last (CHR '':'') (host @ CHR '':'' # port) = Some (host, port)"
    by (rule cut_last_append) (rule assms(1))
  moreover have "\<not> (host @ CHR '':'' # port \<noteq> [] \<and> hd (host @ CHR '':'' # port) = CHR ''['')"
    using assms(2) by (cases host) auto
  ultimately show ?thesis using False assms by (simp add: join_host_port_def split_host_port_def)
qed

end
