(* ===== verification/GoJson.thy ===== *)
theory GoJson imports GoNet begin

text \<open>
  \<^verbatim>\<open>encoding/json\<close> on the one type the services store as JSON text and read back, \<^verbatim>\<open>[]string\<close>: plan
  countries and rotation modes, and the factors of a risk score. The encoder is \<^verbatim>\<open>json.Marshal\<close> with its
  HTML-safe escapes; the decoder is \<^verbatim>\<open>json.Unmarshal\<close> into a nil slice, \<open>None\<close> its error. Text that is
  not an array of strings and nulls is such an error; an array with elements of another type, where Go
  reports the error after filling in the strings, is treated as one with nothing filled in. Escapes
  beyond ASCII are outside the model's strings and are errors too.
\<close>

section \<open>Encoding\<close>

definition hex_char :: "nat \<Rightarrow> char" where
  "hex_char n = ''0123456789abcdef'' ! n"

definition json_char :: "char \<Rightarrow> string" where
  "json_char c =
     (if c = CHR 0x22 then [CHR 0x5C, CHR 0x22]
      else if c = CHR 0x5C then [CHR 0x5C, CHR 0x5C]
      else if c = CHR 0x08 then [CHR 0x5C, CHR ''b'']
      else if c = CHR 0x0C then [CHR 0x5C, CHR ''f'']
      else if c = CHR 0x0A then [CHR 0x5C, CHR ''n'']
      else if c = CHR 0x0D then [CHR 0x5C, CHR ''r'']
      else if c = CHR 0x09 then [CHR 0x5C, CHR ''t'']
      else if of_char c < (0x20 :: nat) \<or> c = CHR ''<'' \<or> c = CHR ''>'' \<or> c = CHR ''&'' then
        [CHR 0x5C, CHR ''u'', CHR ''0'', CHR ''0'', hex_char (of_char c div 16), hex_char (of_char c mod 16)]
      else [c])"

definition json_string :: "string \<Rightarrow> string" where
  "json_string s = CHR 0x22 # concat (map json_char s) @ [CHR 0x22]"

text \<open>A nil slice is encoded as \<^verbatim>\<open>null\<close>; the code only encodes slices it has appended to.\<close>

definition json_strings :: "string list \<Rightarrow> string" where
  "json_strings xs = ''['' @ join '','' (map json_string xs) @ '']''"

section \<open>Decoding\<close>

text \<open>The value of an escape: the character and the rest of the text.\<close>

definition hex4 :: "string \<Rightarrow> (nat \<times> string) option" where
  "hex4 s = (case map hex_digit_of (take 4 s) of
     [Some a, Some b, Some c, Some d] \<Rightarrow> Some (((a * 16 + b) * 16 + c) * 16 + d, drop 4 s)
   | _ \<Rightarrow> None)"

definition unescape :: "string \<Rightarrow> (char \<times> string) option" where
  "unescape s = (case s of [] \<Rightarrow> None | c # r \<Rightarrow>
     (if c \<in> {CHR 0x22, CHR 0x5C, CHR ''/''} then Some (c, r)
      else if c = CHR ''b'' then Some (CHR 0x08, r)
      else if c = CHR ''f'' then Some (CHR 0x0C, r)
      else if c = CHR ''n'' then Some (CHR 0x0A, r)
      else if c = CHR ''r'' then Some (CHR 0x0D, r)
      else if c = CHR ''t'' then Some (CHR 0x09, r)
      else if c = CHR ''u'' then
        (case hex4 r of None \<Rightarrow> None
         | Some (n, r') \<Rightarrow> if n < 128 then Some (char_of n, r') else None)
      else None))"

lemma unescape_shorter: "unescape s = Some (c, r) \<Longrightarrow> length r < length s"
  by (auto simp: unescape_def hex4_def split: list.splits option.splits if_splits)

text \<open>The characters up to the closing quote, and what follows it.\<close>

function string_body :: "string \<Rightarrow> (string \<times> string) option" where
  "string_body [] = None"
| "string_body (c # s) =
     (if c = CHR 0x22 then Some ([], s)
      else if c = CHR 0x5C then
        (case unescape s of None \<Rightarrow> None
         | Some (d, r) \<Rightarrow> map_option (\<lambda>(t, u). (d # t, u)) (string_body r))
      else if of_char c < (0x20 :: nat) then None
      else map_option (\<lambda>(t, u). (c # t, u)) (string_body s))"
  by pat_completeness auto
termination
  by (relation "measure length") (auto dest: unescape_shorter)

definition skip_ws :: "string \<Rightarrow> string" where
  "skip_ws s = dropWhile (\<lambda>c. c \<in> {CHR '' '', CHR 0x09, CHR 0x0A, CHR 0x0D}) s"

text \<open>One element: a string, or \<^verbatim>\<open>null\<close>, which leaves the zero value.\<close>

definition json_element :: "string \<Rightarrow> (string \<times> string) option" where
  "json_element s = (case skip_ws s of
     c # r \<Rightarrow> if c = CHR 0x22 then string_body r
              else if has_prefix (c # r) ''null'' then Some ([], drop 4 (c # r)) else None
   | [] \<Rightarrow> None)"

fun json_elements :: "nat \<Rightarrow> string \<Rightarrow> (string list \<times> string) option" where
  "json_elements 0 s = None"
| "json_elements (Suc n) s = (case json_element s of None \<Rightarrow> None
   | Some (x, r) \<Rightarrow> (case skip_ws r of
       [] \<Rightarrow> None
     | c # t \<Rightarrow> if c = CHR '']'' then Some ([x], t)
                else if c = CHR '','' then map_option (\<lambda>(xs, u). (x # xs, u)) (json_elements n t)
                else None))"

definition parse_strings :: "string \<Rightarrow> string list option" where
  "parse_strings s = (case skip_ws s of
     [] \<Rightarrow> None
   | c # r \<Rightarrow>
       if c = CHR ''['' then
         (case (case skip_ws r of d # t \<Rightarrow> if d = CHR '']'' then Some ([], t) else json_elements (length r) r
                | [] \<Rightarrow> None) of
            None \<Rightarrow> None | Some (xs, u) \<Rightarrow> if skip_ws u = [] then Some xs else None)
       else if has_prefix (c # r) ''null'' \<and> skip_ws (drop 4 (c # r)) = [] then Some []
       else None)"

section \<open>Round trip\<close>

lemma hex_digit_of_hex_char: "n < 16 \<Longrightarrow> hex_digit_of (hex_char n) = Some n"
proof -
  have "list_all (\<lambda>n. hex_digit_of (hex_char n) = Some n) [0..<16]" by code_simp
  then show "n < 16 \<Longrightarrow> hex_digit_of (hex_char n) = Some n" by (simp add: list_all_iff)
qed

lemma hex4_of_char:
  assumes "n < 128"
  shows "hex4 (CHR ''0'' # CHR ''0'' # hex_char (n div 16) # hex_char (n mod 16) # r) = Some (n, r)"
proof -
  have z: "hex_digit_of (CHR ''0'') = Some 0" by code_simp
  have d: "hex_digit_of (hex_char (n div 16)) = Some (n div 16)"
    "hex_digit_of (hex_char (n mod 16)) = Some (n mod 16)"
    using assms by (simp_all add: hex_digit_of_hex_char)
  show ?thesis by (simp add: hex4_def z d)
qed

lemma unescape_u:
  assumes "n < 128"
  shows "unescape (CHR ''u'' # CHR ''0'' # CHR ''0'' # hex_char (n div 16) # hex_char (n mod 16) # r)
    = Some (char_of n, r)"
  using assms by (simp add: unescape_def hex4_of_char)

lemma string_body_char:
  "string_body (json_char c @ r) = map_option (\<lambda>(t, u). (c # t, u)) (string_body r)"
proof (cases "c \<in> {CHR 0x22, CHR 0x5C, CHR 0x08, CHR 0x0C, CHR 0x0A, CHR 0x0D, CHR 0x09}")
  case True
  then show ?thesis by (auto simp: json_char_def unescape_def)
next
  case False
  show ?thesis
  proof (cases "of_char c < (0x20 :: nat) \<or> c = CHR ''<'' \<or> c = CHR ''>'' \<or> c = CHR ''&''")
    case True
    then have "of_char c < (128 :: nat)" by auto
    from unescape_u [OF this, of r] True False show ?thesis
      by (simp add: json_char_def)
  next
    case plain: False
    with False show ?thesis by (simp add: json_char_def)
  qed
qed

lemma string_body_chars:
  "string_body (concat (map json_char s) @ CHR 0x22 # r) = Some (s, r)"
  by (induction s) (simp_all add: string_body_char)

lemma json_element_string: "json_element (json_string s @ r) = Some (s, r)"
  by (simp add: json_element_def json_string_def skip_ws_def string_body_chars)

lemma skip_ws_simps [simp]:
  "skip_ws [] = []" "skip_ws (CHR '','' # r) = CHR '','' # r" "skip_ws (CHR '']'' # r) = CHR '']'' # r"
  "skip_ws (CHR ''['' # r) = CHR ''['' # r" "skip_ws (json_string s @ r) = json_string s @ r"
  by (simp_all add: skip_ws_def json_string_def)

lemma json_elements_join:
  "xs \<noteq> [] \<Longrightarrow> length xs \<le> n \<Longrightarrow>
    json_elements n (join '','' (map json_string xs) @ CHR '']'' # r) = Some (xs, r)"
proof (induction xs arbitrary: n rule: induct_list012)
  case (2 x)
  then show ?case by (cases n) (simp_all add: json_element_string)
next
  case (3 x y xs)
  then obtain m where n: "n = Suc m" and m: "length (y # xs) \<le> m" by (cases n) auto
  have "json_elements m (join '','' (map json_string (y # xs)) @ CHR '']'' # r) = Some (y # xs, r)"
    using "3.IH"(2) m by simp
  then show ?case by (simp add: n json_element_string)
qed simp

lemma length_join: "length xs \<le> length (join '','' (map json_string xs)) + 1"
  by (induction xs rule: induct_list012) (simp_all add: json_string_def)

lemma skip_ws_join:
  assumes "xs \<noteq> []"
  obtains t where "skip_ws (join '','' (map json_string xs) @ r) = CHR 0x22 # t"
  using assms by (cases xs rule: remdups_adj.cases) (auto simp: skip_ws_def json_string_def)

lemma parse_json_strings: "parse_strings (json_strings xs) = Some xs"
proof (cases "xs = []")
  case True
  then show ?thesis by (simp add: json_strings_def parse_strings_def)
next
  case False
  let ?r = "join '','' (map json_string xs) @ CHR '']'' # []"
  obtain t where t: "skip_ws ?r = CHR 0x22 # t" by (rule skip_ws_join [OF False])
  have "json_elements (length ?r) ?r = Some (xs, [])"
    using False length_join [of xs] by (intro json_elements_join) simp_all
  with t show ?thesis by (simp add: json_strings_def parse_strings_def)
qed

end
