(* ===== verification/GoTime.thy ===== *)
theory GoTime imports GoJson begin

text \<open>
  What the code uses of Go's \<^verbatim>\<open>time\<close> package beyond comparison and addition: \<^verbatim>\<open>Truncate\<close>, the calendar
  date of an instant and \<^verbatim>\<open>Format(time.RFC3339)\<close>, for a process whose local zone is UTC.
\<close>

text \<open>\<^verbatim>\<open>t.Truncate(d)\<close>: down to a multiple of \<open>d\<close> since the zero time.\<close>

definition time_truncate :: "time \<Rightarrow> duration \<Rightarrow> time" where
  "time_truncate t d = (if d \<le> 0 then t else t - t mod d)"

definition day :: duration where "day = 24 * hour"

text \<open>
  Year, month and day of the month, in the proleptic Gregorian calendar. Day 0 is 0001-01-01, which is
  306 days after 0000-03-01; eras of 400 years start in March.
\<close>

definition civil_date :: "time \<Rightarrow> int \<times> int \<times> int" where
  "civil_date t =
     (let z = t div day + 306;
          era = z div 146097;
          doe = z mod 146097;
          yoe = (doe - doe div 1460 + doe div 36524 - doe div 146096) div 365;
          doy = doe - (365 * yoe + yoe div 4 - yoe div 100);
          mp = (5 * doy + 2) div 153;
          d = doy - (153 * mp + 2) div 5 + 1;
          m = (if mp < 10 then mp + 3 else mp - 9);
          y = yoe + era * 400 + (if m \<le> 2 then 1 else 0)
      in (y, m, d))"

definition pad_left :: "nat \<Rightarrow> string \<Rightarrow> string" where
  "pad_left n s = replicate (n - length s) (CHR ''0'') @ s"

definition pad_int :: "nat \<Rightarrow> int \<Rightarrow> string" where
  "pad_int n i = pad_left n (itoa i)"

definition rfc3339 :: "time \<Rightarrow> string" where
  "rfc3339 t = (case civil_date t of (y, m, d) \<Rightarrow>
     let s = (t mod day) div second in
     pad_int 4 y @ ''-'' @ pad_int 2 m @ ''-'' @ pad_int 2 d @ ''T'' @ pad_int 2 (s div 3600) @ '':'' @
     pad_int 2 (s div 60 mod 60) @ '':'' @ pad_int 2 (s mod 60) @ ''Z'')"

lemma time_truncate_le: "time_truncate t d \<le> t"
  by (simp add: time_truncate_def)

lemma time_truncate_mult: "0 < d \<Longrightarrow> time_truncate t d mod d = 0"
  by (simp add: time_truncate_def)

lemma time_truncate_close: "0 < d \<Longrightarrow> t - time_truncate t d < d"
  by (simp add: time_truncate_def)

end
