(* ===== verification/Tables.thy ===== *)
theory Tables imports World begin

text \<open>
  What the services rely on of a table: reading back what was written, one row per primary key, and
  the fields of the world a statement leaves alone. The contract of a schema is the locale
  \<open>table\<close>, and \<open>keyed_table\<close> for the tables whose key the code chooses; both are interpreted
  on the schemas of the model.
\<close>

section \<open>Statements that all succeed\<close>

text \<open>The next number of an auto-incremented key is new.\<close>

lemma next_id_fresh: "x \<in> set rs \<Longrightarrow> f x \<noteq> next_id f rs"
proof -
  have "x \<in> set rs \<Longrightarrow> f x \<le> foldr max (map f rs) 0" by (induction rs) auto
  then show "x \<in> set rs \<Longrightarrow> f x \<noteq> next_id f rs" by (simp add: next_id_def)
qed

lemma stmt_ok [simp]: "faults w = [] \<Longrightarrow> stmt w = (True, w)"
  by (simp add: stmt_def)

text \<open>
  Which statement of a call fails: \<open>statement_ok n w\<close> says that the driver executes the statement after the next
  \<open>n\<close> ones.
\<close>

definition statement_ok :: "nat \<Rightarrow> world \<Rightarrow> bool" where
  "statement_ok n w \<longleftrightarrow> (n < length (faults w) \<longrightarrow> faults w ! n)"

lemma stmt_statement_ok: "fst (stmt w) = statement_ok 0 w"
  by (simp add: stmt_def statement_ok_def split: list.split)

lemma statement_ok_Suc: "statement_ok n (snd (stmt w)) = statement_ok (Suc n) w"
  by (simp add: stmt_def statement_ok_def split: list.split)

lemma statement_ok_cong: "faults w' = faults w \<Longrightarrow> statement_ok n w' = statement_ok n w"
  by (simp add: statement_ok_def)

lemma statement_ok_none [simp]: "faults w = [] \<Longrightarrow> statement_ok n w"
  by (simp add: statement_ok_def)

lemma stmt_drop: "snd (stmt w) = w\<lparr>faults := drop 1 (faults w)\<rparr>"
  by (cases w) (simp add: stmt_def split: list.split)

lemma query_after:
  "snd (db_first sc P w) = snd (stmt w)" "snd (db_first_ordered sc ord P w) = snd (stmt w)"
  "snd (db_find sc P w) = snd (stmt w)" "snd (db_count sc P w) = snd (stmt w)"
  by (simp_all add: db_first_def db_first_ordered_def db_find_def db_count_def split: prod.split option.split)

lemma db_first_ok [simp]:
  "faults w = [] \<Longrightarrow> db_first sc P w =
    (case first_by (sc_key sc) (filter P (sc_rows sc w)) of
       None \<Rightarrow> (Inl ErrNotFound, w) | Some r \<Rightarrow> (Inr r, w))"
  by (simp add: db_first_def)

lemma db_first_ordered_ok [simp]:
  "faults w = [] \<Longrightarrow> db_first_ordered sc ord P w =
    (case first_by (\<lambda>r. (ord r, sc_key sc r)) (filter P (sc_rows sc w)) of
       None \<Rightarrow> (Inl ErrNotFound, w) | Some r \<Rightarrow> (Inr r, w))"
  by (simp add: db_first_ordered_def)

lemma db_find_ok [simp]: "faults w = [] \<Longrightarrow> db_find sc P w = (Inr (filter P (sc_rows sc w)), w)"
  by (simp add: db_find_def)

lemma db_find_ordered_ok [simp]:
  "faults w = [] \<Longrightarrow> db_find_ordered sc ord P w = (Inr (sort_key ord (filter P (sc_rows sc w))), w)"
  by (simp add: db_find_ordered_def)

lemma db_count_ok [simp]:
  "faults w = [] \<Longrightarrow> db_count sc P w = (int (length (filter P (sc_rows sc w))), w)"
  by (simp add: db_count_def)

lemma db_create_ok:
  "faults w = [] \<Longrightarrow> db_create sc r w =
    (let r' = sc_create sc (clock w) (sc_rows sc w) r in
       if (\<exists>x \<in> set (sc_rows sc w). sc_key sc x = sc_key sc r' \<or> sc_clash sc x r')
       then (Inl ErrUnique, w) else (Inr r', sc_put sc (\<lambda>rs. rs @ [r']) w))"
  by (simp add: db_create_def)

lemma db_create_fresh:
  assumes "faults w = []" and "r' = sc_create sc (clock w) (sc_rows sc w) r"
    and "\<And>x. x \<in> set (sc_rows sc w) \<Longrightarrow> sc_key sc x \<noteq> sc_key sc r' \<and> \<not> sc_clash sc x r'"
  shows "db_create sc r w = (Inr r', sc_put sc (\<lambda>rs. rs @ [r']) w)"
  using assms by (auto simp: db_create_ok Let_def)

lemma db_updates_ok [simp]:
  "faults w = [] \<Longrightarrow> db_updates sc P f w =
    (Inr (), sc_put sc (update_where P (\<lambda>r. sc_update sc (clock w) (f r))) w)"
  by (simp add: db_updates_def)

lemma db_delete_ok [simp]:
  "faults w = [] \<Longrightarrow> db_delete sc P w = (Inr (), sc_put sc (filter (\<lambda>r. \<not> P r)) w)"
  by (simp add: db_delete_def)

lemma db_transaction_ok:
  "faults w = [] \<Longrightarrow> db_transaction body w =
    (case body w of
       (Inl e, w2) \<Rightarrow> (Inl e, rollback w w2)
     | (Inr x, w2) \<Rightarrow> (case stmt w2 of (ok2, w3) \<Rightarrow>
         if ok2 then (Inr x, w3) else (Inl ErrDriver, rollback w w3)))"
  by (simp add: db_transaction_def)

section \<open>What a statement leaves alone\<close>

text \<open>
  \<open>get\<close> is a part of the world that neither the table nor the statement outcomes are part of. The
  rules are instantiated with a field (\<open>where get = clock\<close>) and used as rewrite rules.
\<close>

lemma stmt_frame: "(\<And>bs w. get (w\<lparr>faults := bs\<rparr>) = get w) \<Longrightarrow> get (snd (stmt w)) = get w"
  by (simp add: stmt_def split: list.splits)

lemma db_first_frame:
  "(\<And>bs w. get (w\<lparr>faults := bs\<rparr>) = get w) \<Longrightarrow> get (snd (db_first sc P w)) = get w"
  by (auto simp: db_first_def stmt_def split: list.splits option.splits)

lemma db_first_ordered_frame:
  "(\<And>bs w. get (w\<lparr>faults := bs\<rparr>) = get w) \<Longrightarrow> get (snd (db_first_ordered sc ord P w)) = get w"
  by (auto simp: db_first_ordered_def stmt_def split: list.splits option.splits)

lemma db_find_frame:
  "(\<And>bs w. get (w\<lparr>faults := bs\<rparr>) = get w) \<Longrightarrow> get (snd (db_find sc P w)) = get w"
  by (auto simp: db_find_def stmt_def split: list.splits)

lemma db_find_ordered_frame:
  "(\<And>bs w. get (w\<lparr>faults := bs\<rparr>) = get w) \<Longrightarrow> get (snd (db_find_ordered sc ord P w)) = get w"
  by (auto simp: db_find_ordered_def stmt_def split: list.splits)

lemma db_count_frame:
  "(\<And>bs w. get (w\<lparr>faults := bs\<rparr>) = get w) \<Longrightarrow> get (snd (db_count sc P w)) = get w"
  by (auto simp: db_count_def stmt_def split: list.splits)

lemma db_create_frame:
  "(\<And>bs w. get (w\<lparr>faults := bs\<rparr>) = get w) \<Longrightarrow> (\<And>f w. get (sc_put sc f w) = get w) \<Longrightarrow>
    get (snd (db_create sc r w)) = get w"
  by (auto simp: db_create_def stmt_def Let_def split: list.splits)

lemma db_save_frame:
  "(\<And>bs w. get (w\<lparr>faults := bs\<rparr>) = get w) \<Longrightarrow> (\<And>f w. get (sc_put sc f w) = get w) \<Longrightarrow>
    get (snd (db_save sc r w)) = get w"
  by (auto simp: db_save_def stmt_def Let_def split: list.splits)

lemma db_updates_frame:
  "(\<And>bs w. get (w\<lparr>faults := bs\<rparr>) = get w) \<Longrightarrow> (\<And>f w. get (sc_put sc f w) = get w) \<Longrightarrow>
    get (snd (db_updates sc P f w)) = get w"
  by (auto simp: db_updates_def stmt_def split: list.splits)

lemma db_updates_unique_frame:
  "(\<And>bs w. get (w\<lparr>faults := bs\<rparr>) = get w) \<Longrightarrow> (\<And>f w. get (sc_put sc f w) = get w) \<Longrightarrow>
    get (snd (db_updates_unique sc P f w)) = get w"
  by (auto simp: db_updates_unique_def stmt_def split: list.splits)

lemma db_delete_frame:
  "(\<And>bs w. get (w\<lparr>faults := bs\<rparr>) = get w) \<Longrightarrow> (\<And>f w. get (sc_put sc f w) = get w) \<Longrightarrow>
    get (snd (db_delete sc P w)) = get w"
  by (auto simp: db_delete_def stmt_def split: list.splits)

lemma new_uuid_frame:
  "(\<And>n w. get (w\<lparr>uuid_next := n\<rparr>) = get w) \<Longrightarrow> get (snd (new_uuid w)) = get w"
  by (simp add: new_uuid_def)

lemma rand_read_frame:
  "(\<And>n w. get (w\<lparr>rand_next := n\<rparr>) = get w) \<Longrightarrow> get (snd (rand_read k w)) = get w"
  by (simp add: rand_read_def)

lemmas query_frames = stmt_frame db_first_frame db_first_ordered_frame db_find_frame
  db_find_ordered_frame db_count_frame
lemmas statement_frames = query_frames db_create_frame db_save_frame db_updates_frame db_delete_frame
  db_updates_unique_frame
  new_uuid_frame rand_read_frame

text \<open>A transaction that fails leaves every part of the world as it was, except what is consumed.\<close>

lemma db_transaction_error:
  assumes "fst (db_transaction body w) = Inl e"
    and "\<And>bs w. get (w\<lparr>faults := bs\<rparr>) = get w" and "\<And>n w. get (w\<lparr>uuid_next := n\<rparr>) = get w"
    and "\<And>n w. get (w\<lparr>rand_next := n\<rparr>) = get w"
  shows "get (snd (db_transaction body w)) = get w"
  using assms by (auto simp: db_transaction_def rollback_def stmt_def split: prod.splits sum.splits list.splits if_splits)

lemma db_transaction_okE:
  assumes "db_transaction body w = (Inr x, w')"
  obtains w1 w2 where "stmt w = (True, w1)" and "body w1 = (Inr x, w2)" and "stmt w2 = (True, w')"
  using assms by (auto simp: db_transaction_def split: prod.splits sum.splits if_splits)

lemma db_transaction_get:
  assumes "db_transaction body w = (Inl e, w')"
    and "\<And>bs w. get (w\<lparr>faults := bs\<rparr>) = get w" and "\<And>n w. get (w\<lparr>uuid_next := n\<rparr>) = get w"
    and "\<And>n w. get (w\<lparr>rand_next := n\<rparr>) = get w"
  shows "get w' = get w"
  using db_transaction_error [where get = get, of body w e] assms by simp

lemma db_first_get:
  "db_first sc P w = (r, w') \<Longrightarrow> (\<And>bs w. get (w\<lparr>faults := bs\<rparr>) = get w) \<Longrightarrow> get w' = get w"
  using db_first_frame [of get sc P w] by simp

lemma db_updates_okE:
  assumes "db_updates sc P f w = (Inr u, w')"
  obtains w1 where "stmt w = (True, w1)"
    and "w' = sc_put sc (update_where P (\<lambda>r. sc_update sc (clock w1) (f r))) w1"
  using assms by (auto simp: db_updates_def split: prod.splits if_splits)

lemma db_updates_get:
  "db_updates sc P f w = (r, w') \<Longrightarrow> (\<And>bs w. get (w\<lparr>faults := bs\<rparr>) = get w) \<Longrightarrow>
    (\<And>g w. get (sc_put sc g w) = get w) \<Longrightarrow> get w' = get w"
  using db_updates_frame [of get sc P f w] by simp

lemma db_create_get:
  "db_create sc r w = (res, w') \<Longrightarrow> (\<And>bs w. get (w\<lparr>faults := bs\<rparr>) = get w) \<Longrightarrow>
    (\<And>g w. get (sc_put sc g w) = get w) \<Longrightarrow> get w' = get w"
  using db_create_frame [of get sc r w] by simp

lemma stmt_get: "stmt w = (ok, w1) \<Longrightarrow> (\<And>bs w. get (w\<lparr>faults := bs\<rparr>) = get w) \<Longrightarrow> get w1 = get w"
  using stmt_frame [of get w] by simp

text \<open>Every statement leaves the clock alone, and the process memory of the services.\<close>

lemmas clock_frames [simp] = statement_frames [where get = clock]
lemmas abuse_mem_frames [simp] = statement_frames [where get = abuse_mem]
lemmas routing_rr_frames [simp] = statement_frames [where get = routing_rr]
lemmas servers_frames [simp] = statement_frames [where get = servers]

text \<open>
  The same for operations built with \<open>and_then\<close>: \<open>keeps get m\<close> says that \<open>m\<close> never changes \<open>get\<close>, and
  \<open>keeps_err get m\<close> that it does not when it fails.
\<close>

definition keeps :: "(world \<Rightarrow> 'x) \<Rightarrow> (world \<Rightarrow> 'a \<times> world) \<Rightarrow> bool" where
  "keeps get m \<longleftrightarrow> (\<forall>w. get (snd (m w)) = get w)"

definition keeps_err :: "(world \<Rightarrow> 'x) \<Rightarrow> (world \<Rightarrow> 'a result \<times> world) \<Rightarrow> bool" where
  "keeps_err get m \<longleftrightarrow> (\<forall>w e w'. m w = (Inl e, w') \<longrightarrow> get w' = get w)"

named_theorems keeps_intros \<open>introduction rules for what an operation keeps\<close>

lemma keepsD: "keeps get m \<Longrightarrow> m w = (r, w') \<Longrightarrow> get w' = get w"
  unfolding keeps_def by (metis snd_conv)

lemma keeps_snd: "keeps get m \<Longrightarrow> get (snd (m w)) = get w"
  by (simp add: keeps_def)

lemma keeps_errD: "keeps_err get m \<Longrightarrow> m w = (Inl e, w') \<Longrightarrow> get w' = get w"
  by (auto simp: keeps_err_def)

lemma keeps_imp_err: "keeps get m \<Longrightarrow> keeps_err get m"
  unfolding keeps_err_def keeps_def by (metis snd_conv)

lemma keepsI: "(\<And>w. get (snd (m w)) = get w) \<Longrightarrow> keeps get m"
  by (simp add: keeps_def)

lemma keeps_and_then [keeps_intros]:
  "keeps get m \<Longrightarrow> (\<And>x. keeps get (k x)) \<Longrightarrow> keeps get (and_then m k)"
  unfolding keeps_def by (auto intro: and_then_get)

lemma keeps_err_and_then:
  assumes "keeps get m" and "\<And>x. keeps_err get (k x)"
  shows "keeps_err get (and_then m k)"
  unfolding keeps_err_def
proof (intro allI impI)
  fix w e w' assume a: "and_then m k w = (Inl e, w')"
  show "get w' = get w"
  proof (cases "m w" rule: result_cases)
    case (err e' w1)
    then show ?thesis using a keepsD [OF assms(1) err] by (simp add: and_then_simps)
  next
    case (ok x w1)
    then show ?thesis
      using a keepsD [OF assms(1) ok] keeps_errD [OF assms(2) [of x]] by (simp add: and_then_simps)
  qed
qed

text \<open>A last step that cannot fail may change anything: only the steps before it can report an error.\<close>

lemma keeps_err_then_ok:
  assumes "keeps_err get m" and "\<And>x w. is_ok (fst (k x w))"
  shows "keeps_err get (and_then m k)"
  unfolding keeps_err_def
proof (intro allI impI)
  fix w e w' assume a: "and_then m k w = (Inl e, w')"
  show "get w' = get w"
  proof (cases "m w" rule: result_cases)
    case (err e' w1)
    then show ?thesis using a keeps_errD [OF assms(1) err] by (simp add: and_then_simps)
  next
    case (ok x w1)
    then show ?thesis using a assms(2) [of x w1] by (simp add: and_then_simps)
  qed
qed

lemma keeps_return [keeps_intros]: "keeps get (\<lambda>w. (r, w))"
  by (simp add: keeps_def)

lemma keeps_statements [keeps_intros]:
  "(\<And>bs w. get (w\<lparr>faults := bs\<rparr>) = get w) \<Longrightarrow> keeps get (db_first sc P)"
  "(\<And>bs w. get (w\<lparr>faults := bs\<rparr>) = get w) \<Longrightarrow> keeps get (db_first_ordered sc ord P)"
  "(\<And>bs w. get (w\<lparr>faults := bs\<rparr>) = get w) \<Longrightarrow> keeps get (db_find sc P)"
  "(\<And>bs w. get (w\<lparr>faults := bs\<rparr>) = get w) \<Longrightarrow> keeps get (db_find_ordered sc ord P)"
  "(\<And>bs w. get (w\<lparr>faults := bs\<rparr>) = get w) \<Longrightarrow> (\<And>f w. get (sc_put sc f w) = get w) \<Longrightarrow> keeps get (db_create sc r)"
  "(\<And>bs w. get (w\<lparr>faults := bs\<rparr>) = get w) \<Longrightarrow> (\<And>f w. get (sc_put sc f w) = get w) \<Longrightarrow> keeps get (db_save sc r)"
  "(\<And>bs w. get (w\<lparr>faults := bs\<rparr>) = get w) \<Longrightarrow> (\<And>f w. get (sc_put sc f w) = get w) \<Longrightarrow> keeps get (db_updates sc P f)"
  "(\<And>bs w. get (w\<lparr>faults := bs\<rparr>) = get w) \<Longrightarrow> (\<And>f w. get (sc_put sc f w) = get w) \<Longrightarrow> keeps get (db_delete sc P)"
  "(\<And>bs w. get (w\<lparr>faults := bs\<rparr>) = get w) \<Longrightarrow> (\<And>f w. get (sc_put sc f w) = get w) \<Longrightarrow> keeps get (db_updates_unique sc P f)"
  unfolding keeps_def by (intro allI statement_frames; assumption)+

lemma keeps_err_transaction:
  assumes "\<And>bs w. get (w\<lparr>faults := bs\<rparr>) = get w" and "\<And>n w. get (w\<lparr>uuid_next := n\<rparr>) = get w"
    and "\<And>n w. get (w\<lparr>rand_next := n\<rparr>) = get w"
  shows "keeps_err get (db_transaction body)"
  unfolding keeps_err_def using db_transaction_get [where get = get, OF _ assms] by blast

text \<open>With no fault ahead there is none after a statement.\<close>

lemma faults_frames [simp]:
  "faults w = [] \<Longrightarrow> faults (snd (stmt w)) = []"
  "faults w = [] \<Longrightarrow> (\<And>f w. faults (sc_put sc f w) = faults w) \<Longrightarrow> faults (snd (db_create sc r w)) = []"
  "faults w = [] \<Longrightarrow> (\<And>f w. faults (sc_put sc f w) = faults w) \<Longrightarrow> faults (snd (db_save sc r w)) = []"
  "faults (snd (new_uuid w)) = faults w"
  "faults (snd (rand_read k w)) = faults w"
  by (simp_all add: db_create_def db_save_def Let_def new_uuid_def rand_read_def)

section \<open>The contract of a table\<close>

locale table =
  fixes sc :: "('r, 'k::linorder) schema"
  assumes put_rows: "sc_rows sc (sc_put sc f w) = f (sc_rows sc w)"
    and put_faults: "faults (sc_put sc f w) = faults w"
    and put_clock: "clock (sc_put sc f w) = clock w"
    and faults_rows: "sc_rows sc (w\<lparr>faults := bs\<rparr>) = sc_rows sc w"
    and key_update: "sc_key sc (sc_update sc now r) = sc_key sc r"
begin

definition one_row_per_key :: "world \<Rightarrow> bool" where
  "one_row_per_key w \<longleftrightarrow> distinct (map (sc_key sc) (sc_rows sc w))"

lemma stmt_rows: "stmt w = (ok, w1) \<Longrightarrow> sc_rows sc w1 = sc_rows sc w"
  by (auto simp: stmt_def faults_rows split: list.splits)

lemma first_row: "db_first sc P w = (Inr r, w') \<Longrightarrow> r \<in> set (sc_rows sc w) \<and> P r"
  by (auto simp: db_first_def stmt_rows split: prod.splits if_splits option.splits dest: first_by_filter)

lemma first_rows: "db_first sc P w = (res, w') \<Longrightarrow> sc_rows sc w' = sc_rows sc w"
  by (auto simp: db_first_def stmt_rows split: prod.splits if_splits option.splits)

lemma find_rows:
  "db_find sc P w = (Inr rs, w') \<Longrightarrow> rs = filter P (sc_rows sc w) \<and> sc_rows sc w' = sc_rows sc w"
  by (auto simp: db_find_def stmt_rows split: prod.splits if_splits)

lemma first_by_key:
  assumes "faults w = []" and "one_row_per_key w" and "r \<in> set (sc_rows sc w)"
  shows "db_first sc (\<lambda>x. sc_key sc x = sc_key sc r) w = (Inr r, w)"
  using assms by (simp add: one_row_per_key_def first_by_unique)

text \<open>A failed \<^verbatim>\<open>Create\<close> changes no table; a successful one adds one row.\<close>

lemma create_rows:
  assumes "db_create sc r w = (res, w')"
  shows "case res of Inl _ \<Rightarrow> sc_rows sc w' = sc_rows sc w
    | Inr r' \<Rightarrow> sc_rows sc w' = sc_rows sc w @ [r'] \<and>
        (\<forall>x \<in> set (sc_rows sc w). sc_key sc x \<noteq> sc_key sc r' \<and> \<not> sc_clash sc x r')"
  using assms
  by (auto simp: db_create_def stmt_rows put_rows Let_def split: prod.splits if_splits)

lemma create_keeps_keys:
  assumes "one_row_per_key w"
  shows "one_row_per_key (snd (db_create sc r w))"
proof -
  obtain res w' where e: "db_create sc r w = (res, w')" by fastforce
  show ?thesis
    using create_rows [OF e] assms by (cases res) (auto simp: e one_row_per_key_def)
qed

lemma updates_rows:
  assumes "db_updates sc P f w = (res, w')"
  shows "case res of Inl _ \<Rightarrow> sc_rows sc w' = sc_rows sc w
    | Inr _ \<Rightarrow> \<exists>now. sc_rows sc w' =
        update_where P (\<lambda>r. sc_update sc now (f r)) (sc_rows sc w)"
  using assms by (auto simp: db_updates_def stmt_rows put_rows split: prod.splits if_splits)

lemma updates_keeps_keys:
  assumes "one_row_per_key w" and "\<And>r. sc_key sc (f r) = sc_key sc r"
  shows "one_row_per_key (snd (db_updates sc P f w))"
proof -
  obtain res w' where e: "db_updates sc P f w = (res, w')" by fastforce
  show ?thesis
  proof (cases res)
    case (Inl x)
    with updates_rows [OF e] assms(1) e show ?thesis by (simp add: one_row_per_key_def)
  next
    case (Inr u)
    with updates_rows [OF e] obtain now where
      rows: "sc_rows sc w' = update_where P (\<lambda>r. sc_update sc now (f r)) (sc_rows sc w)" by auto
    have "distinct (map (sc_key sc) (update_where P (\<lambda>r. sc_update sc now (f r)) (sc_rows sc w)))"
      using assms by (simp add: one_row_per_key_def key_update map_update_where)
    then show ?thesis by (simp only: e snd_conv one_row_per_key_def rows)
  qed
qed

lemma delete_keeps_keys:
  "one_row_per_key w \<Longrightarrow> one_row_per_key (snd (db_delete sc P w))"
  by (auto simp: db_delete_def one_row_per_key_def put_rows stmt_rows distinct_map_key_filter
      split: prod.splits)

lemma first_ordered_row:
  "db_first_ordered sc ord P w = (Inr r, w') \<Longrightarrow> r \<in> set (sc_rows sc w) \<and> P r"
  by (auto simp: db_first_ordered_def stmt_rows split: prod.splits if_splits option.splits
      dest: first_by_filter)

lemma updates_ok_rows:
  assumes "db_updates sc P f w = (Inr u, w')"
  shows "sc_rows sc w' = update_where P (\<lambda>r. sc_update sc (clock w) (f r)) (sc_rows sc w)"
proof -
  obtain w1 where w1: "stmt w = (True, w1)"
    and w': "w' = sc_put sc (update_where P (\<lambda>r. sc_update sc (clock w1) (f r))) w1"
    using assms by (rule db_updates_okE)
  have "clock w1 = clock w" using stmt_get [OF w1, of clock] by simp
  then show ?thesis by (simp add: w' put_rows stmt_rows [OF w1])
qed

lemma updates_unique_ok_rows:
  assumes "db_updates_unique sc P f w = (Inr u, w')"
  shows "sc_rows sc w' = update_where P (\<lambda>r. sc_update sc (clock w) (f r)) (sc_rows sc w)"
proof -
  obtain ok w1 where w1: "stmt w = (ok, w1)" by fastforce
  have "clock w1 = clock w" using stmt_get [OF w1, of clock] by simp
  then show ?thesis
    using assms by (auto simp: db_updates_unique_def w1 put_rows stmt_rows [OF w1] split: if_splits)
qed

lemma create_ok_rows:
  assumes "db_create sc r w = (Inr r', w')"
  shows "sc_rows sc w' = sc_rows sc w @ [r'] \<and> r' = sc_create sc (clock w) (sc_rows sc w) r"
proof -
  obtain ok w1 where w1: "stmt w = (ok, w1)" by fastforce
  have "clock w1 = clock w" using stmt_get [OF w1, of clock] by simp
  then show ?thesis
    using assms by (auto simp: db_create_def w1 Let_def put_rows stmt_rows [OF w1] split: if_splits)
qed

text \<open>A property of all rows survives a statement when the written rows have it.\<close>

lemma all_create:
  "\<forall>x \<in> set (sc_rows sc w). Q x \<Longrightarrow> (\<And>now rs. Q (sc_create sc now rs r)) \<Longrightarrow>
    \<forall>x \<in> set (sc_rows sc (snd (db_create sc r w))). Q x"
  by (auto simp: db_create_def stmt_def faults_rows put_rows Let_def split: list.splits)

lemma all_save:
  "\<forall>x \<in> set (sc_rows sc w). Q x \<Longrightarrow> (\<And>now rs. Q (sc_create sc now rs r)) \<Longrightarrow>
    (\<And>now. Q (sc_update sc now r)) \<Longrightarrow> \<forall>x \<in> set (sc_rows sc (snd (db_save sc r w))). Q x"
  by (auto simp: db_save_def stmt_def faults_rows put_rows Let_def split: list.splits)

lemma all_updates:
  "\<forall>x \<in> set (sc_rows sc w). Q x \<Longrightarrow> (\<And>now x. Q x \<Longrightarrow> P x \<Longrightarrow> Q (sc_update sc now (f x))) \<Longrightarrow>
    \<forall>x \<in> set (sc_rows sc (snd (db_updates sc P f w))). Q x"
  by (auto simp: db_updates_def stmt_def faults_rows put_rows in_update_where split: list.splits)

lemma all_delete:
  "\<forall>x \<in> set (sc_rows sc w). Q x \<Longrightarrow> \<forall>x \<in> set (sc_rows sc (snd (db_delete sc P w))). Q x"
  by (auto simp: db_delete_def stmt_def faults_rows put_rows split: list.splits)

text \<open>The ordered \<^verbatim>\<open>First\<close> returns a row whose order key is least.\<close>

lemma first_ordered_least:
  assumes "db_first_ordered sc ord P w = (Inr r, w')" and "s \<in> set (sc_rows sc w)" and "P s"
  shows "ord r \<le> ord s"
proof -
  from assms(1) have f: "first_by (\<lambda>r. (ord r, sc_key sc r)) (filter P (sc_rows sc w)) = Some r"
    by (auto simp: db_first_ordered_def stmt_rows split: prod.splits if_splits option.splits)
  have "(ord r, sc_key sc r) \<le> (ord s, sc_key sc s)"
    by (rule first_by_least [OF f]) (simp add: assms(2,3))
  then show ?thesis by (auto simp: less_eq_prod_def)
qed

end

locale keyed_table = table sc for sc :: "('r, 'k::linorder) schema" +
  assumes key_create: "sc_key sc (sc_create sc now rs r) = sc_key sc r"
begin

text \<open>Read your own write, for \<^verbatim>\<open>Create\<close> and for \<^verbatim>\<open>Save\<close>.\<close>

lemma create_then_first:
  assumes "faults w = []" and "one_row_per_key w" and "db_create sc r w = (Inr r', w')"
  shows "db_first sc (\<lambda>x. sc_key sc x = sc_key sc r) w' = (Inr r', w')"
proof -
  have k: "sc_key sc r' = sc_key sc r" and f: "faults w' = []"
    using assms(1,3) by (auto simp: db_create_ok Let_def key_create put_faults split: if_splits)
  have "one_row_per_key w'" using create_keeps_keys [OF assms(2), of r] assms(3) by simp
  moreover have "r' \<in> set (sc_rows sc w')" using create_rows [OF assms(3)] by simp
  ultimately show ?thesis using first_by_key [of w' r'] f k by simp
qed

lemma save_keeps_keys:
  assumes "one_row_per_key w"
  shows "one_row_per_key (snd (db_save sc r w))"
proof -
  obtain ok w1 where s: "stmt w = (ok, w1)" by fastforce
  have rows: "sc_rows sc w1 = sc_rows sc w" using s by (rule stmt_rows)
  have upd: "distinct (map (sc_key sc)
      (map (\<lambda>x. if sc_key sc x = sc_key sc r then r' else x) (sc_rows sc w)))"
    if "sc_key sc r' = sc_key sc r" for r'
  proof -
    have "map (sc_key sc) (map (\<lambda>x. if sc_key sc x = sc_key sc r then r' else x) (sc_rows sc w))
      = map (sc_key sc) (sc_rows sc w)" using that by simp
    then show ?thesis using assms by (metis one_row_per_key_def)
  qed
  show ?thesis
    using assms upd
    by (auto simp: db_save_def s Let_def put_rows rows one_row_per_key_def key_create key_update
        split: prod.splits simp del: map_map)
qed

lemma save_then_first:
  assumes "faults w = []" and "one_row_per_key w" and "db_save sc r w = (Inr r', w')"
  shows "db_first sc (\<lambda>x. sc_key sc x = sc_key sc r) w' = (Inr r', w')"
proof -
  have k: "sc_key sc r' = sc_key sc r" and f: "faults w' = []" and m: "r' \<in> set (sc_rows sc w')"
    using assms(1,3)
    by (auto simp: db_save_def Let_def key_create key_update put_faults put_rows image_iff
        split: if_splits)
  have "one_row_per_key w'" using save_keeps_keys [OF assms(2), of r] assms(3) by simp
  then show ?thesis using first_by_key [of w' r'] f k m by simp
qed

end

section \<open>The schemas satisfy the contract\<close>

interpretation vpn_credentials_table: keyed_table VPNCredential_schema
  by unfold_locales simp_all

interpretation vpn_nodes_table: keyed_table VPNNode_schema
  by unfold_locales simp_all

interpretation agents_table: keyed_table Agent_schema
  by unfold_locales simp_all

interpretation express_vpn_sessions_table: keyed_table ExpressVPNSession_schema
  by unfold_locales simp_all

interpretation proxies_table: keyed_table Proxy_schema
  by unfold_locales simp_all

interpretation health_metrics_table: table HealthMetric_schema
  by unfold_locales simp_all

interpretation audit_logs_table: table AuditLog_schema
  by unfold_locales simp_all

interpretation agent_heartbeats_table: table AgentHeartbeat_schema
  by unfold_locales simp_all

interpretation port_allocations_table: keyed_table PortAllocation_schema
  by unfold_locales simp_all

interpretation rotation_policies_table: keyed_table RotationPolicy_schema
  by unfold_locales simp_all

interpretation express_vpn_validations_table: keyed_table ExpressVPNValidation_schema
  by unfold_locales simp_all

interpretation system_metric_snapshots_table: table SystemMetricSnapshot_schema
  by unfold_locales simp_all

interpretation agent_credentials_table: keyed_table AgentCredential_schema
  by unfold_locales simp_all

interpretation agent_commands_table: keyed_table AgentCommand_schema
  by unfold_locales simp_all

interpretation customers_table: keyed_table Customer_schema
  by unfold_locales simp_all

interpretation customer_credentials_table: keyed_table CustomerCredential_schema
  by unfold_locales simp_all

interpretation customer_sessions_table: keyed_table CustomerSession_schema
  by unfold_locales simp_all

interpretation customer_api_keys_table: keyed_table CustomerApiKey_schema
  by unfold_locales simp_all

interpretation proxy_plans_table: keyed_table ProxyPlan_schema
  by unfold_locales simp_all

interpretation customer_subscriptions_table: keyed_table CustomerSubscription_schema
  by unfold_locales simp_all

interpretation customer_proxy_credentials_table: keyed_table CustomerProxyCredential_schema
  by unfold_locales simp_all

interpretation customer_proxy_allocations_table: keyed_table CustomerProxyAllocation_schema
  by unfold_locales simp_all

interpretation usage_metrics_table: table UsageMetric_schema
  by unfold_locales simp_all

interpretation invoices_table: keyed_table Invoice_schema
  by unfold_locales simp_all

interpretation plans_table: keyed_table Plan_schema
  by unfold_locales simp_all

interpretation plan_features_table: keyed_table PlanFeature_schema
  by unfold_locales simp_all

interpretation subscriptions_table: keyed_table Subscription_schema
  by unfold_locales simp_all

interpretation invoice_items_table: keyed_table InvoiceItem_schema
  by unfold_locales simp_all

interpretation audit_events_table: keyed_table AuditEvent_schema
  by unfold_locales simp_all

interpretation abuse_rules_table: keyed_table AbuseRule_schema
  by unfold_locales simp_all

interpretation abuse_events_table: keyed_table AbuseEvent_schema
  by unfold_locales simp_all

interpretation customer_risk_scores_table: keyed_table CustomerRiskScore_schema
  by unfold_locales simp_all

interpretation ip_whitelists_table: keyed_table IPWhitelist_schema
  by unfold_locales simp_all

interpretation blocked_targets_table: keyed_table BlockedTarget_schema
  by unfold_locales simp_all

interpretation connection_limits_table: keyed_table ConnectionLimit_schema
  by unfold_locales simp_all

interpretation proxy_pools_table: keyed_table ProxyPool_schema
  by unfold_locales simp_all

interpretation proxy_pool_members_table: keyed_table ProxyPoolMember_schema
  by unfold_locales simp_all

interpretation proxy_quality_snapshots_table: keyed_table ProxyQualitySnapshot_schema
  by unfold_locales simp_all

interpretation sticky_sessions_table: keyed_table StickySession_schema
  by unfold_locales simp_all

interpretation proxy_reservations_table: keyed_table ProxyReservation_schema
  by unfold_locales simp_all

interpretation routing_events_table: keyed_table RoutingEvent_schema
  by unfold_locales simp_all

end
