(* ===== verification/Abuse.thy ===== *)
theory Abuse imports ProxyHooks GoTime Tables begin

text \<open>
  \<^verbatim>\<open>internal/abuse/service.go\<close>: the enforcement service of the proxies. It keeps, per process, the
  counters of open connections, the times of failed logins and of requests, and temporary blocks
  (\<open>abuse_mem\<close>), and in the database the rules, events, risk scores, whitelists, blocked targets and
  connection limits. \<^verbatim>\<open>bcrypt.CompareHashAndPassword\<close> is the parameter \<open>bcrypt_ok\<close> (hash, password).
\<close>

type_synonym hash_check = "string \<Rightarrow> string \<Rightarrow> bool"

section \<open>Small helpers\<close>

definition pruneTimes :: "time list \<Rightarrow> time \<Rightarrow> time list" where
  "pruneTimes values cutoff = filter (\<lambda>v. cutoff < v) values"

definition countSince :: "time list \<Rightarrow> time \<Rightarrow> int" where
  "countSince values cutoff = int (length (filter (\<lambda>v. cutoff < v) values))"

definition stripPort :: "string \<Rightarrow> string" where
  "stripPort addr = (case split_host_port addr of Some (host, _) \<Rightarrow> host | None \<Rightarrow> addr)"

definition riskLevel :: "int \<Rightarrow> string" where
  "riskLevel score =
     (if 80 \<le> score then ''critical'' else if 60 \<le> score then ''high''
      else if 30 \<le> score then ''medium'' else ''low'')"

definition appendJSONFactor :: "string \<Rightarrow> string \<Rightarrow> string" where
  "appendJSONFactor raw factor =
     json_strings ((case parse_strings raw of None \<Rightarrow> [] | Some fs \<Rightarrow> fs) @ [factor])"

definition targetPort :: "string \<Rightarrow> int" where
  "targetPort target = (case cut (CHR '':'') target of (_, port, _) \<Rightarrow>
     (case parse_int port of None \<Rightarrow> 0 | Some n \<Rightarrow> n))"

section \<open>Events, audit and risk\<close>

definition abuse_audit :: "string \<Rightarrow> string \<Rightarrow> string \<Rightarrow> string \<Rightarrow> string \<Rightarrow> jmeta \<Rightarrow> world \<Rightarrow> world" where
  "abuse_audit actorID actorType action targetID targetType metadata w =
     (let (u, w1) = new_uuid w in
      snd (db_create AuditEvent_schema
        (zero_AuditEvent\<lparr>ae_ID := u, ae_ActorID := actorID, ae_ActorType := actorType, ae_Action := action,
           ae_TargetID := targetID, ae_TargetType := targetType, ae_Metadata := metadata,
           ae_CreatedAt := clock w1\<rparr>) w1))"

definition createEvent ::
  "string \<Rightarrow> string \<Rightarrow> string \<Rightarrow> string \<Rightarrow> string \<Rightarrow> jmeta \<Rightarrow> world \<Rightarrow> world" where
  "createEvent customerID proxyID ruleID severity message metadata w =
     (let (u, w1) = new_uuid w;
          (_, w2) = db_create AbuseEvent_schema
            (zero_AbuseEvent\<lparr>abe_ID := u, abe_CustomerID := customerID, abe_ProxyID := proxyID,
               abe_RuleID := ruleID, abe_Severity := severity, abe_Message := message,
               abe_Metadata := metadata, abe_CreatedAt := clock w1\<rparr>) w1
      in abuse_audit ''system'' ''enforcement'' ''PROXY_DENIED'' proxyID ''proxy''
           (Some [(''customer_id'', JStr customerID), (''rule_id'', JStr ruleID),
                  (''severity'', JStr severity), (''message'', JStr message)]) w2)"

definition new_score :: "string \<Rightarrow> CustomerRiskScore" where
  "new_score customerID = zero_CustomerRiskScore\<lparr>rs_CustomerID := customerID, rs_Score := 0,
     rs_Level := ''low'', rs_Factors := ''[]''\<rparr>"

definition bump_score :: "int \<Rightarrow> string \<Rightarrow> time \<Rightarrow> CustomerRiskScore \<Rightarrow> CustomerRiskScore" where
  "bump_score delta factor now score =
     (let n = (if 100 < rs_Score score + delta then 100 else rs_Score score + delta) in
      score\<lparr>rs_Score := n, rs_Level := riskLevel n,
        rs_Factors := appendJSONFactor (rs_Factors score) factor, rs_UpdatedAt := now\<rparr>)"

definition bumpRisk :: "string \<Rightarrow> int \<Rightarrow> string \<Rightarrow> world \<Rightarrow> world" where
  "bumpRisk customerID delta factor w =
     (if customerID = [] then w
      else let (r, w1) = db_first CustomerRiskScore_schema (\<lambda>s. rs_CustomerID s = customerID) w;
               score = bump_score delta factor (clock w1)
                         (case r of Inl _ \<Rightarrow> new_score customerID | Inr s \<Rightarrow> s);
               (_, w2) = db_save CustomerRiskScore_schema score w1
           in abuse_audit ''system'' ''risk'' ''RISK_SCORE_CHANGED'' customerID ''customer''
                (Some [(''score'', JInt (rs_Score score)), (''level'', JStr (rs_Level score)),
                       (''factor'', JStr factor)]) w2)"

section \<open>Default rules\<close>

definition default_rule :: "string \<Rightarrow> string \<Rightarrow> string \<Rightarrow> int \<Rightarrow> string \<Rightarrow> AbuseRule" where
  "default_rule i n t th a = zero_AbuseRule\<lparr>ar_ID := i, ar_Name := n, ar_Type := t, ar_Threshold := th,
     ar_Action := a, ar_Enabled := True\<rparr>"

definition default_rules :: "AbuseRule list" where
  "default_rules =
     [default_rule ''failed-auth-warn'' ''Failed auth warning'' ''too_many_failed_auth'' 5 ''warn'',
      default_rule ''failed-auth-block'' ''Failed auth temporary block'' ''too_many_failed_auth'' 20 ''throttle'',
      default_rule ''failed-auth-suspend'' ''Failed auth credential suspend'' ''too_many_failed_auth'' 50 ''suspend_proxy'',
      default_rule ''blocked-target'' ''Blocked target attempt'' ''blacklisted_target'' 1 ''warn'',
      default_rule ''api-rate-limit'' ''API rate limit'' ''api_rate_limit'' 120 ''throttle'',
      default_rule ''connection-limit'' ''Connection limit'' ''too_many_connections'' 1 ''throttle'']"

definition ensure_rule :: "AbuseRule \<Rightarrow> world \<Rightarrow> world" where
  "ensure_rule rule w =
     (case db_first AbuseRule_schema (\<lambda>r. ar_ID r = ar_ID rule) w of
        (Inr _, w1) \<Rightarrow> w1
      | (Inl _, w1) \<Rightarrow> snd (db_create AbuseRule_schema
          (rule\<lparr>ar_CreatedAt := clock w1, ar_UpdatedAt := clock w1\<rparr>) w1))"

definition EnsureDefaultRules :: "world \<Rightarrow> world" where
  "EnsureDefaultRules w = fold ensure_rule default_rules w"

section \<open>Failed logins and request rates\<close>

definition blockedUntil :: "string \<Rightarrow> world \<Rightarrow> time option \<times> world" where
  "blockedUntil key w =
     (case ab_tempBlocked (abuse_mem w) key of
        None \<Rightarrow> (None, w)
      | Some until \<Rightarrow>
          if until < clock w
          then (None, abuse_mem_update (ab_tempBlocked_update (\<lambda>m. m(key := None))) w)
          else (Some until, w))"

definition auth_key :: "string \<Rightarrow> string \<Rightarrow> string \<Rightarrow> string" where
  "auth_key proxyID username clientIP = proxyID @ ''|'' @ username @ ''|'' @ clientIP"

definition RecordFailedAuth :: "string \<Rightarrow> string \<Rightarrow> string \<Rightarrow> string \<Rightarrow> world \<Rightarrow> world" where
  "RecordFailedAuth customerID proxyID username clientIP w =
     (let key = auth_key proxyID username clientIP;
          now = clock w;
          md = Some [(''username'', JStr username), (''client_ip'', JStr clientIP)];
          fails = pruneTimes (ab_failedAuth (abuse_mem w) key @ [now]) (now - hour);
          w1 = abuse_mem_update (ab_failedAuth_update (\<lambda>m. m(key := fails))) w;
          count5 = countSince fails (now - 5 * minute);
          count10 = countSince fails (now - 10 * minute);
          count60 = int (length fails);
          w2 = (if 5 \<le> count5
                then bumpRisk customerID 3 ''failed_auth_warning''
                  (createEvent customerID proxyID ''failed-auth-warn'' ''low''
                     ''5 failed auth attempts in 5 minutes'' md w1)
                else w1);
          w3 = (if 20 \<le> count10
                then bumpRisk customerID 12 ''failed_auth_temporary_block''
                  (createEvent customerID proxyID ''failed-auth-block'' ''high''
                     ''20 failed auth attempts in 10 minutes'' md
                     (abuse_mem_update (ab_tempBlocked_update (\<lambda>m. m(key := Some (now + 10 * minute)))) w2))
                else w2)
      in if 50 \<le> count60
         then bumpRisk customerID 30 ''credential_suspended''
           (createEvent customerID proxyID ''failed-auth-suspend'' ''critical''
              ''50 failed auth attempts in 1 hour; credential suspended'' md
              (snd (db_updates CustomerProxyCredential_schema
                 (\<lambda>c. cpc_ProxyID c = proxyID \<and> cpc_Username c = username)
                 (cpc_Status_update (\<lambda>_. ''suspended'')) w3)))
         else w3)"

definition request_key :: "string \<Rightarrow> string \<Rightarrow> string" where
  "request_key scope identity = scope @ ''|'' @ (if identity = [] then ''anonymous'' else identity)"

definition checkRequestRate :: "string \<Rightarrow> string \<Rightarrow> int \<Rightarrow> duration \<Rightarrow> world \<Rightarrow> unit result \<times> world" where
  "checkRequestRate identity scope limit window w =
     (let key = request_key scope identity;
          now = clock w;
          rs = pruneTimes (ab_requests (abuse_mem w) key @ [now]) (now - window);
          w1 = abuse_mem_update (ab_requests_update (\<lambda>m. m(key := rs))) w
      in if limit < int (length rs) then (Inl (ErrMsg ''rate limit exceeded''), w1) else (Inr (), w1))"

definition CheckAPIRate :: "string \<Rightarrow> string \<Rightarrow> int \<Rightarrow> duration \<Rightarrow> world \<Rightarrow> bool \<times> world" where
  "CheckAPIRate identity scope limit window w =
     (case checkRequestRate identity scope limit window w of (r, w1) \<Rightarrow> (is_ok r, w1))"

section \<open>Whitelists and blocked targets\<close>

definition ListWhitelist :: "string \<Rightarrow> world \<Rightarrow> IPWhitelist list result \<times> world" where
  "ListWhitelist customerID w =
     db_find_ordered IPWhitelist_schema (\<lambda>r. - wl_CreatedAt r) (\<lambda>r. wl_CustomerID r = customerID) w"

definition AddWhitelist :: "string \<Rightarrow> string \<Rightarrow> string \<Rightarrow> string \<Rightarrow> world \<Rightarrow> IPWhitelist result \<times> world" where
  "AddWhitelist customerID addr cidr description w =
     (let (u, w1) = new_uuid w in
      case db_create IPWhitelist_schema
        (zero_IPWhitelist\<lparr>wl_ID := u, wl_CustomerID := customerID, wl_IPAddress := addr, wl_CIDR := cidr,
           wl_Description := description, wl_Enabled := True, wl_CreatedAt := clock w1,
           wl_UpdatedAt := clock w1\<rparr>) w1 of
        (Inl e, w2) \<Rightarrow> (Inl e, w2)
      | (Inr row, w2) \<Rightarrow> (Inr row, abuse_audit customerID ''customer'' ''WHITELIST_CHANGED'' (wl_ID row)
          ''ip_whitelist'' (Some [(''ip'', JStr addr), (''cidr'', JStr cidr)]) w2))"

definition DeleteWhitelist :: "string \<Rightarrow> string \<Rightarrow> world \<Rightarrow> unit result \<times> world" where
  "DeleteWhitelist customerID i w =
     (case db_delete IPWhitelist_schema (\<lambda>r. wl_ID r = i \<and> wl_CustomerID r = customerID) w of
        (Inl e, w1) \<Rightarrow> (Inl e, w1)
      | (Inr _, w1) \<Rightarrow> (Inr (), abuse_audit customerID ''customer'' ''WHITELIST_CHANGED'' i
          ''ip_whitelist'' (Some [(''deleted'', JBool True)]) w1))"

definition ListBlockedTargets :: "world \<Rightarrow> BlockedTarget list result \<times> world" where
  "ListBlockedTargets w =
     db_find_ordered BlockedTarget_schema (\<lambda>r. - bt_CreatedAt r) (\<lambda>_. True) w"

definition AddBlockedTarget :: "string \<Rightarrow> string \<Rightarrow> string \<Rightarrow> world \<Rightarrow> BlockedTarget result \<times> world" where
  "AddBlockedTarget t v reason w =
     (let (u, w1) = new_uuid w in
      case db_create BlockedTarget_schema
        (zero_BlockedTarget\<lparr>bt_ID := u, bt_Type := t, bt_Value := v, bt_Reason := reason,
           bt_Enabled := True, bt_CreatedAt := clock w1, bt_UpdatedAt := clock w1\<rparr>) w1 of
        (Inl e, w2) \<Rightarrow> (Inl e, w2)
      | (Inr row, w2) \<Rightarrow> (Inr row, abuse_audit ''admin'' ''system'' ''BLOCKED_TARGET_CHANGED'' (bt_ID row)
          ''blocked_target'' (Some [(''type'', JStr t), (''value'', JStr v)]) w2))"

definition DeleteBlockedTarget :: "string \<Rightarrow> world \<Rightarrow> unit result \<times> world" where
  "DeleteBlockedTarget i w =
     (case db_delete BlockedTarget_schema (\<lambda>r. bt_ID r = i) w of
        (Inl e, w1) \<Rightarrow> (Inl e, w1)
      | (Inr _, w1) \<Rightarrow> (Inr (), abuse_audit ''admin'' ''system'' ''BLOCKED_TARGET_CHANGED'' i
          ''blocked_target'' (Some [(''deleted'', JBool True)]) w1))"

text \<open>Whether one row of the whitelist names the address.\<close>

definition whitelist_match :: "ip \<Rightarrow> IPWhitelist \<Rightarrow> bool" where
  "whitelist_match addr row \<longleftrightarrow>
     wl_IPAddress row \<noteq> [] \<and> ip_equal (parse_ip (wl_IPAddress row)) (Some addr) \<or>
     wl_CIDR row \<noteq> [] \<and>
       (case parse_cidr (wl_CIDR row) of None \<Rightarrow> False | Some network \<Rightarrow> net_contains network addr)"

definition clientIPAllowed :: "string \<Rightarrow> string \<Rightarrow> world \<Rightarrow> bool \<times> world" where
  "clientIPAllowed customerID clientIP w =
     (case db_find IPWhitelist_schema (\<lambda>r. wl_CustomerID r = customerID \<and> wl_Enabled r) w of
        (Inl _, w1) \<Rightarrow> (True, w1)
      | (Inr [], w1) \<Rightarrow> (True, w1)
      | (Inr rows, w1) \<Rightarrow> (case parse_ip (stripPort clientIP) of
            None \<Rightarrow> (False, w1)
          | Some addr \<Rightarrow> (list_ex (whitelist_match addr) rows, w1)))"

definition target_match :: "string \<Rightarrow> string \<Rightarrow> BlockedTarget \<Rightarrow> bool" where
  "target_match host port row =
     (if bt_Type row = ''domain'' then
        equal_fold host (bt_Value row) \<or> has_suffix (to_lower host) (''.'' @ to_lower (bt_Value row))
      else if bt_Type row = ''ip'' then
        parse_ip host \<noteq> None \<and> ip_equal (parse_ip host) (parse_ip (bt_Value row))
      else if bt_Type row = ''cidr'' then
        (case (parse_cidr (bt_Value row), parse_ip host) of
           (Some network, Some addr) \<Rightarrow> net_contains network addr | _ \<Rightarrow> False)
      else if bt_Type row = ''port'' then port = bt_Value row
      else False)"

definition checkBlockedTarget :: "string \<Rightarrow> string \<Rightarrow> string \<Rightarrow> world \<Rightarrow> unit result \<times> world" where
  "checkBlockedTarget customerID proxyID target w =
     (case cut (CHR '':'') target of (host, port, _) \<Rightarrow>
        case db_find BlockedTarget_schema bt_Enabled w of
          (Inl _, w1) \<Rightarrow> (Inr (), w1)
        | (Inr rows, w1) \<Rightarrow> (case find (target_match host port) rows of
              None \<Rightarrow> (Inr (), w1)
            | Some row \<Rightarrow>
                (Inl (ErrMsg ''target blocked by policy''),
                 bumpRisk customerID 15 ''blocked_target''
                   (createEvent customerID proxyID ''blocked-target'' ''high'' ''blocked target rejected''
                      (Some [(''target'', JStr target), (''blocked_target'', JStr (bt_Value row)),
                             (''type'', JStr (bt_Type row))]) w1))))"

section \<open>Connection limits\<close>

definition planConcurrentLimit :: "string \<Rightarrow> world \<Rightarrow> int \<times> world" where
  "planConcurrentLimit customerID w =
     (case db_first_ordered Subscription_schema (\<lambda>s. - sub_ExpiresAt s)
        (\<lambda>s. sub_CustomerID s = customerID \<and> sub_Status s = ''active'' \<and> clock w < sub_ExpiresAt s) w of
        (Inl _, w1) \<Rightarrow> (0, w1)
      | (Inr sub, w1) \<Rightarrow> (case db_first Plan_schema (\<lambda>p. pl_ID p = sub_PlanID sub) w1 of
            (Inl _, w2) \<Rightarrow> (0, w2)
          | (Inr plan, w2) \<Rightarrow> (pl_ConcurrentConnections plan, w2)))"

text \<open>The two limits that apply to a connection: of the customer, and of the proxy.\<close>

definition connection_limits_of :: "string \<Rightarrow> string \<Rightarrow> world \<Rightarrow> (int \<times> int) \<times> world" where
  "connection_limits_of customerID proxyID w =
     (case planConcurrentLimit customerID w of (limit, w1) \<Rightarrow>
        case db_first ConnectionLimit_schema
          (\<lambda>c. cl_CustomerID c = customerID \<or> cl_ProxyID c = proxyID) w1 of
          (Inl _, w2) \<Rightarrow> ((limit, 0), w2)
        | (Inr custom, w2) \<Rightarrow>
            ((if 0 < cl_MaxConcurrent custom then cl_MaxConcurrent custom else limit,
              cl_MaxPerProxy custom), w2))"

definition checkConnectionLimits :: "string \<Rightarrow> string \<Rightarrow> world \<Rightarrow> unit result \<times> world" where
  "checkConnectionLimits customerID proxyID w =
     (case connection_limits_of customerID proxyID w of ((limit, maxPerProxy), w1) \<Rightarrow>
        let customerActive = ab_activeCustomer (abuse_mem w1) customerID;
            proxyActive = ab_activeProxy (abuse_mem w1) proxyID
        in if 0 < limit \<and> limit \<le> customerActive then
             (Inl (ErrMsg ''customer connection limit exceeded''),
              bumpRisk customerID 10 ''connection_limit''
                (createEvent customerID proxyID ''connection-limit'' ''high''
                   ''customer concurrent connection limit exceeded'' (Some [(''limit'', JInt limit)]) w1))
           else if 0 < maxPerProxy \<and> maxPerProxy \<le> proxyActive then
             (Inl (ErrMsg ''proxy connection limit exceeded''),
              createEvent customerID proxyID ''connection-limit'' ''medium''
                ''proxy concurrent connection limit exceeded'' (Some [(''limit'', JInt maxPerProxy)]) w1)
           else (Inr (), w1))"

definition guard_acquire :: "string \<Rightarrow> string \<Rightarrow> world \<Rightarrow> world" where
  "guard_acquire customerID proxyID w =
     abuse_mem_update (\<lambda>m. m\<lparr>
       ab_activeCustomer := (ab_activeCustomer m)(customerID := ab_activeCustomer m customerID + 1),
       ab_activeProxy := (ab_activeProxy m)(proxyID := ab_activeProxy m proxyID + 1)\<rparr>) w"

definition guard_release :: "string \<Rightarrow> string \<Rightarrow> world \<Rightarrow> world" where
  "guard_release customerID proxyID w =
     abuse_mem_update (\<lambda>m. m\<lparr>
       ab_activeCustomer := (if 0 < ab_activeCustomer m customerID
         then (ab_activeCustomer m)(customerID := ab_activeCustomer m customerID - 1)
         else ab_activeCustomer m),
       ab_activeProxy := (if 0 < ab_activeProxy m proxyID
         then (ab_activeProxy m)(proxyID := ab_activeProxy m proxyID - 1)
         else ab_activeProxy m)\<rparr>) w"

text \<open>The checks of \<^verbatim>\<open>GuardConnection\<close>, which run before its second critical section.\<close>

definition guard_checks :: "string \<Rightarrow> string \<Rightarrow> string \<Rightarrow> world \<Rightarrow> unit result \<times> world" where
  "guard_checks proxyID customerID target w =
     (case checkBlockedTarget customerID proxyID target w of
        (Inl e, w1) \<Rightarrow> (Inl e, w1)
      | (Inr _, w1) \<Rightarrow> checkConnectionLimits customerID proxyID w1)"

definition GuardConnection :: connection_guard_fn where
  "GuardConnection proxyID customerID clientIP target w =
     (if customerID = [] then (Inr id, w)
      else case guard_checks proxyID customerID target w of
        (Inl e, w1) \<Rightarrow> (Inl e, w1)
      | (Inr _, w1) \<Rightarrow> (Inr (guard_release customerID proxyID), guard_acquire customerID proxyID w1))"

section \<open>The validator of a customer credential\<close>

definition abuse_ValidateProxyCredential :: "hash_check \<Rightarrow> auth_validator_fn" where
  "abuse_ValidateProxyCredential bcrypt_ok proxyID username password clientIP w =
     (case blockedUntil (auth_key proxyID username clientIP) w of
        (Some until, w1) \<Rightarrow> (deny [] (''temporarily blocked until '' @ rfc3339 until), w1)
      | (None, w1) \<Rightarrow>
          (case db_first CustomerProxyCredential_schema
             (\<lambda>c. cpc_ProxyID c = proxyID \<and> cpc_Username c = username \<and> cpc_Status c = ''active'') w1 of
             (Inl _, w2) \<Rightarrow>
               (deny [] ''invalid credentials'', RecordFailedAuth [] proxyID username clientIP w2)
           | (Inr cred, w2) \<Rightarrow>
               if \<not> bcrypt_ok (cpc_PasswordHash cred) password then
                 (deny (cpc_CustomerID cred) ''invalid credentials'',
                  RecordFailedAuth (cpc_CustomerID cred) proxyID username clientIP w2)
               else (case clientIPAllowed (cpc_CustomerID cred) clientIP w2 of
                 (False, w3) \<Rightarrow>
                   (deny (cpc_CustomerID cred) ''client IP is not whitelisted'',
                    bumpRisk (cpc_CustomerID cred) 8 ''ip_whitelist_denied''
                      (createEvent (cpc_CustomerID cred) proxyID [] ''medium''
                         ''proxy denied by IP whitelist'' (Some [(''client_ip'', JStr clientIP)]) w3))
               | (True, w3) \<Rightarrow>
                   (case checkRequestRate (cpc_CustomerID cred) ''proxy-auth'' 120 minute w3 of
                      (Inl e, w4) \<Rightarrow>
                        (deny (cpc_CustomerID cred) (err_text e),
                         createEvent (cpc_CustomerID cred) proxyID ''api-rate-limit'' ''medium''
                           ''proxy auth request rate exceeded'' None w4)
                    | (Inr _, w4) \<Rightarrow> (allow (cpc_CustomerID cred), w4)))))"

section \<open>Usage\<close>

text \<open>The sum of \<^verbatim>\<open>bandwidth_in\<close> and of \<^verbatim>\<open>bandwidth_out\<close>, read as \<^verbatim>\<open>uint64\<close>; a failed query leaves zeros.\<close>

definition bandwidth_totals :: "string \<Rightarrow> world \<Rightarrow> (64 word \<times> 64 word) \<times> world" where
  "bandwidth_totals customerID w =
     (case db_find CustomerProxyAllocation_schema (\<lambda>a. cpa_CustomerID a = customerID) w of
        (Inl _, w1) \<Rightarrow> ((0, 0), w1)
      | (Inr as, w1) \<Rightarrow> ((of_nat (sum_list (map cpa_BandwidthIn as)),
                          of_nat (sum_list (map cpa_BandwidthOut as))), w1))"

definition detect_spike :: "string \<Rightarrow> string \<Rightarrow> 64 word \<Rightarrow> world \<Rightarrow> world" where
  "detect_spike customerID proxyID bytes w =
     (if 512 * 1024 * 1024 < bytes
      then bumpRisk customerID 10 ''bandwidth_spike''
        (createEvent customerID proxyID ''bandwidth-spike'' ''medium''
           ''large single-connection bandwidth spike'' (Some [(''bytes'', JInt (uint bytes))]) w)
      else w)"

definition detect_over_limit :: "string \<Rightarrow> string \<Rightarrow> world \<Rightarrow> world" where
  "detect_over_limit customerID proxyID w =
     (case db_first_ordered Subscription_schema (\<lambda>s. - sub_ExpiresAt s)
             (\<lambda>s. sub_CustomerID s = customerID \<and> sub_Status s = ''active'') w of
        (Inl _, w2) \<Rightarrow> w2
      | (Inr sub, w2) \<Rightarrow> (case db_first Plan_schema (\<lambda>p. pl_ID p = sub_PlanID sub) w2 of
            (Inl _, w3) \<Rightarrow> w3
          | (Inr plan, w3) \<Rightarrow>
              if pl_BandwidthLimitGB plan \<le> 0 then w3
              else (case bandwidth_totals customerID w3 of ((tin, tout), w4) \<Rightarrow>
                if of_int (pl_BandwidthLimitGB plan) * 1024 * 1024 * 1024 < tin + tout
                then bumpRisk customerID 20 ''bandwidth_limit''
                  (createEvent customerID proxyID ''bandwidth-limit'' ''critical''
                     ''bandwidth limit exceeded'' None w4)
                else w4)))"

definition detectBandwidthAbuse :: "string \<Rightarrow> string \<Rightarrow> 64 word \<Rightarrow> world \<Rightarrow> world" where
  "detectBandwidthAbuse customerID proxyID bytes w =
     detect_over_limit customerID proxyID (detect_spike customerID proxyID bytes w)"

definition RecordUsage :: "string \<Rightarrow> string \<Rightarrow> 64 word \<Rightarrow> 64 word \<Rightarrow> world \<Rightarrow> world" where
  "RecordUsage customerID proxyID inBytes outBytes w =
     (if customerID = [] \<or> proxyID = [] then w
      else let now = clock w;
               (_, w1) = db_create UsageMetric_schema
                 (zero_UsageMetric\<lparr>um_CustomerID := customerID, um_ProxyID := proxyID,
                    um_BandwidthIn := unat inBytes, um_BandwidthOut := unat outBytes,
                    um_RequestCount := 1, um_Bucket := ''hourly'',
                    um_PeriodStart := time_truncate now hour, um_CreatedAt := now\<rparr>) w;
               (_, w2) = db_updates CustomerProxyAllocation_schema
                 (\<lambda>a. cpa_CustomerID a = customerID \<and> cpa_ProxyID a = proxyID \<and> cpa_Status a \<noteq> ''deleted'')
                 (\<lambda>a. a\<lparr>cpa_BandwidthIn := cpa_BandwidthIn a + unat inBytes,
                        cpa_BandwidthOut := cpa_BandwidthOut a + unat outBytes,
                        cpa_UpdatedAt := now\<rparr>) w1
           in detectBandwidthAbuse customerID proxyID (inBytes + outBytes) w2)"

section \<open>Administration\<close>

definition RecentEvents :: "int \<Rightarrow> world \<Rightarrow> AbuseEvent list result \<times> world" where
  "RecentEvents limit w =
     (case db_find_ordered AbuseEvent_schema (\<lambda>e. - abe_CreatedAt e) (\<lambda>_. True) w of
        (Inl e, w1) \<Rightarrow> (Inl e, w1) | (Inr rows, w1) \<Rightarrow> (Inr (limit_rows limit rows), w1))"

definition HighRiskCustomers :: "int \<Rightarrow> world \<Rightarrow> CustomerRiskScore list result \<times> world" where
  "HighRiskCustomers limit w =
     (case db_find_ordered CustomerRiskScore_schema (\<lambda>r. - rs_Score r) (\<lambda>_. True) w of
        (Inl e, w1) \<Rightarrow> (Inl e, w1) | (Inr rows, w1) \<Rightarrow> (Inr (limit_rows limit rows), w1))"

record AbuseDashboard =
  ad_events :: "AbuseEvent list"
  ad_high_risk_customers :: "CustomerRiskScore list"
  ad_suspended_proxies :: int
  ad_failed_auth_attempts :: int
  ad_blocked_target_attempts :: int
  ad_bandwidth_spikes :: int

definition abuse_Dashboard :: "world \<Rightarrow> AbuseDashboard \<times> world" where
  "abuse_Dashboard w =
     (let (events, w1) = RecentEvents 100 w;
          (risks, w2) = HighRiskCustomers 50 w1;
          (suspended, w3) = db_count CustomerProxyAllocation_schema (\<lambda>a. cpa_Status a = ''suspended'') w2;
          (failed, w4) = db_count AbuseEvent_schema
            (\<lambda>e. abe_RuleID e \<in> {''failed-auth-warn'', ''failed-auth-block'', ''failed-auth-suspend''}) w3;
          (blocked, w5) = db_count AbuseEvent_schema (\<lambda>e. abe_RuleID e = ''blocked-target'') w4;
          (spikes, w6) = db_count AbuseEvent_schema (\<lambda>e. abe_RuleID e = ''bandwidth-spike'') w5
      in (\<lparr>ad_events = rows_or_empty events, ad_high_risk_customers = rows_or_empty risks,
           ad_suspended_proxies = suspended, ad_failed_auth_attempts = failed,
           ad_blocked_target_attempts = blocked, ad_bandwidth_spikes = spikes\<rparr>, w6))"

definition abuse_SuspendCustomer :: "string \<Rightarrow> world \<Rightarrow> unit result \<times> world" where
  "abuse_SuspendCustomer customerID w =
     (let now = clock w in
      case db_updates Customer_schema (\<lambda>c. cu_ID c = customerID)
             (\<lambda>c. c\<lparr>cu_Status := ''suspended'', cu_UpdatedAt := now\<rparr>) w of
        (Inl e, w1) \<Rightarrow> (Inl e, w1)
      | (Inr _, w1) \<Rightarrow>
          (Inr (), abuse_audit ''admin'' ''system'' ''CUSTOMER_SUSPENDED'' customerID ''customer'' None
             (snd (db_updates CustomerProxyAllocation_schema
                (\<lambda>a. cpa_CustomerID a = customerID \<and> cpa_Status a = ''active'')
                (\<lambda>a. a\<lparr>cpa_Status := ''suspended'', cpa_UpdatedAt := now\<rparr>) w1))))"

definition UnsuspendCustomer :: "string \<Rightarrow> world \<Rightarrow> unit result \<times> world" where
  "UnsuspendCustomer customerID w =
     (case db_updates Customer_schema (\<lambda>c. cu_ID c = customerID)
             (\<lambda>c. c\<lparr>cu_Status := ''active'', cu_UpdatedAt := clock w\<rparr>) w of
        (Inl e, w1) \<Rightarrow> (Inl e, w1)
      | (Inr _, w1) \<Rightarrow>
          (Inr (), abuse_audit ''admin'' ''system'' ''CUSTOMER_UNSUSPENDED'' customerID ''customer'' None w1))"

definition SuspendProxy :: "string \<Rightarrow> world \<Rightarrow> unit result \<times> world" where
  "SuspendProxy allocationID w =
     (case db_updates CustomerProxyAllocation_schema (\<lambda>a. cpa_ID a = allocationID)
             (cpa_Status_update (\<lambda>_. ''suspended'')) w of
        (Inl e, w1) \<Rightarrow> (Inl e, w1)
      | (Inr _, w1) \<Rightarrow>
          (Inr (), abuse_audit ''admin'' ''system'' ''PROXY_SUSPENDED'' allocationID ''proxy_allocation'' None w1))"

definition DisableCredential :: "string \<Rightarrow> world \<Rightarrow> unit result \<times> world" where
  "DisableCredential credentialID w =
     (case db_updates CustomerProxyCredential_schema (\<lambda>c. cpc_ID c = credentialID)
             (cpc_Status_update (\<lambda>_. ''suspended'')) w of
        (Inl e, w1) \<Rightarrow> (Inl e, w1)
      | (Inr _, w1) \<Rightarrow>
          (Inr (), abuse_audit ''admin'' ''system'' ''CREDENTIAL_DISABLED'' credentialID ''proxy_credential''
             None w1))"

definition ClearRisk :: "string \<Rightarrow> world \<Rightarrow> unit result \<times> world" where
  "ClearRisk customerID w =
     (case db_save CustomerRiskScore_schema ((new_score customerID)\<lparr>rs_UpdatedAt := clock w\<rparr>) w of
        (Inl e, w1) \<Rightarrow> (Inl e, w1)
      | (Inr _, w1) \<Rightarrow>
          (Inr (), abuse_audit ''admin'' ''system'' ''RISK_SCORE_CHANGED'' customerID ''customer''
             (Some [(''score'', JInt 0)]) w1))"

end
