(* ===== verification/AbuseSafety.thy ===== *)
theory AbuseSafety imports Abuse begin

text \<open>
  What the enforcement service guarantees: the rate limiter counts exactly the requests of its window,
  twenty failed logins in ten minutes block a key, a login that is let in has a matching active
  credential, risk scores stay in range, and the connection counters follow the open connections.
\<close>

section \<open>What bookkeeping leaves alone\<close>

lemma abuse_audit_frame [simp]:
  "abuse_mem (abuse_audit a b c d e m w) = abuse_mem w"
  "clock (abuse_audit a b c d e m w) = clock w"
  "customer_risk_scores (abuse_audit a b c d e m w) = customer_risk_scores w"
  "customer_proxy_credentials (abuse_audit a b c d e m w) = customer_proxy_credentials w"
  "ip_whitelists (abuse_audit a b c d e m w) = ip_whitelists w"
  "customer_proxy_allocations (abuse_audit a b c d e m w) = customer_proxy_allocations w"
  by (simp_all add: abuse_audit_def case_prod_beta Let_def
      db_create_frame [where get = customer_risk_scores] new_uuid_frame [where get = customer_risk_scores]
      db_create_frame [where get = customer_proxy_credentials] new_uuid_frame [where get = customer_proxy_credentials]
      db_create_frame [where get = ip_whitelists] new_uuid_frame [where get = ip_whitelists]
      db_create_frame [where get = customer_proxy_allocations] new_uuid_frame [where get = customer_proxy_allocations])

lemma createEvent_frame [simp]:
  "abuse_mem (createEvent c p r s m md w) = abuse_mem w"
  "clock (createEvent c p r s m md w) = clock w"
  "customer_risk_scores (createEvent c p r s m md w) = customer_risk_scores w"
  "customer_proxy_credentials (createEvent c p r s m md w) = customer_proxy_credentials w"
  by (simp_all add: createEvent_def case_prod_beta Let_def
      db_create_frame [where get = customer_risk_scores] new_uuid_frame [where get = customer_risk_scores]
      db_create_frame [where get = customer_proxy_credentials] new_uuid_frame [where get = customer_proxy_credentials])

lemma bumpRisk_frame [simp]:
  "abuse_mem (bumpRisk c d f w) = abuse_mem w"
  "clock (bumpRisk c d f w) = clock w"
  "customer_proxy_credentials (bumpRisk c d f w) = customer_proxy_credentials w"
  by (simp_all add: bumpRisk_def case_prod_beta Let_def
      db_save_frame [where get = customer_proxy_credentials] db_first_frame [where get = customer_proxy_credentials])

lemma abuse_faults [simp]:
  "faults w = [] \<Longrightarrow> faults (abuse_audit a b c d e m w) = []"
  "faults w = [] \<Longrightarrow> faults (createEvent c' p r s msg md w) = []"
  "faults w = [] \<Longrightarrow> faults (bumpRisk c' dl f w) = []"
  by (simp_all add: abuse_audit_def createEvent_def bumpRisk_def case_prod_beta Let_def split: option.splits)

section \<open>The rate limiter\<close>

text \<open>A run of requests of one caller at the times \<open>ts\<close>: the answers, oldest first.\<close>

fun rate_run :: "string \<Rightarrow> string \<Rightarrow> int \<Rightarrow> duration \<Rightarrow> time list \<Rightarrow> world \<Rightarrow> bool list \<times> world" where
  "rate_run identity scope limit window [] w = ([], w)"
| "rate_run identity scope limit window (t # ts) w =
     (case checkRequestRate identity scope limit window (w\<lparr>clock := t\<rparr>) of (r, w1) \<Rightarrow>
        case rate_run identity scope limit window ts w1 of (rs, w2) \<Rightarrow> (is_ok r # rs, w2))"

text \<open>How many of the times up to position \<open>i\<close> lie in the window that ends there.\<close>

definition in_window :: "duration \<Rightarrow> time list \<Rightarrow> nat \<Rightarrow> nat" where
  "in_window window ts i = length (filter (\<lambda>t. ts ! i - window < t) (take (Suc i) ts))"

lemma checkRequestRate_run:
  "checkRequestRate identity scope limit window w =
     (let rs = pruneTimes (ab_requests (abuse_mem w) (request_key scope identity) @ [clock w]) (clock w - window)
      in (if limit < int (length rs) then Inl (ErrMsg ''rate limit exceeded'') else Inr (),
          abuse_mem_update (ab_requests_update (\<lambda>m. m(request_key scope identity := rs))) w))"
  by (simp add: checkRequestRate_def Let_def)

lemma prune_prune: "a \<le> b \<Longrightarrow> pruneTimes (pruneTimes ts a @ us) b = pruneTimes (ts @ us) b"
  by (induction ts) (auto simp: pruneTimes_def)

lemma rate_run_exact:
  assumes "sorted ts" and "0 \<le> window" and "\<And>t. t \<in> set ts \<Longrightarrow> since \<le> t"
    and "ab_requests (abuse_mem w) (request_key scope identity) = pruneTimes past (since - window)"
  shows "fst (rate_run identity scope limit window ts w) =
    map (\<lambda>i. int (length (filter (\<lambda>t. ts ! i - window < t) (past @ take (Suc i) ts))) \<le> limit) [0..<length ts]"
  using assms
proof (induction ts arbitrary: w past since)
  case (Cons t ts)
  let ?k = "request_key scope identity"
  let ?w1 = "snd (checkRequestRate identity scope limit window (w\<lparr>clock := t\<rparr>))"
  have le: "since - window \<le> t - window" using Cons.prems(3) [of t] by simp
  have rows: "pruneTimes (ab_requests (abuse_mem w) ?k @ [t]) (t - window) = pruneTimes (past @ [t]) (t - window)"
    by (simp add: Cons.prems(4) prune_prune [OF le])
  have mem: "ab_requests (abuse_mem ?w1) ?k = pruneTimes (past @ [t]) (t - window)"
    by (simp add: checkRequestRate_run rows Let_def)
  have ih: "fst (rate_run identity scope limit window ts ?w1) =
    map (\<lambda>i. int (length (filter (\<lambda>u. ts ! i - window < u) ((past @ [t]) @ take (Suc i) ts))) \<le> limit) [0..<length ts]"
    using Cons.prems(1,2) by (intro Cons.IH [where since = t]) (auto simp: mem)
  have hd: "is_ok (fst (checkRequestRate identity scope limit window (w\<lparr>clock := t\<rparr>)))
    \<longleftrightarrow> int (length (filter (\<lambda>u. t - window < u) (past @ [t]))) \<le> limit"
    by (simp add: checkRequestRate_run rows Let_def) (simp add: pruneTimes_def)
  have "[0..<length (t # ts)] = 0 # map Suc [0..<length ts]"
    by (simp add: upt_conv_Cons map_Suc_upt del: upt_Suc)
  then show ?case using ih hd by (simp add: case_prod_beta)
qed simp

text \<open>
  C3. The rate limiter is an exact sliding window: for requests of one caller at non-decreasing times,
  starting with no remembered request, the \<open>i\<close>-th request is let through if and only if at most
  \<open>limit\<close> requests (rejected ones included, and itself) were made in the window that ends with it.
\<close>

theorem rate_limiter_exact:
  assumes "sorted ts" and "0 \<le> window"
    and "ab_requests (abuse_mem w) (request_key scope identity) = []"
  shows "fst (rate_run identity scope limit window ts w) =
    map (\<lambda>i. int (in_window window ts i) \<le> limit) [0..<length ts]"
proof -
  obtain since where "\<And>t. t \<in> set ts \<Longrightarrow> since \<le> t"
    by (cases "ts = []") (auto intro: Min_le [OF finite_set])
  from rate_run_exact [OF assms(1,2) this, of w scope identity "[]" limit] assms(3) show ?thesis
    by (simp add: in_window_def pruneTimes_def)
qed

theorem rate_limiter_exact_witness:
  "fst (rate_run ''c'' ''api'' 2 minute [10 * minute, 10 * minute, 10 * minute, 12 * minute] start_world)
    = [True, True, False, True]"
proof -
  have "sorted [10 * minute, 10 * minute, 10 * minute, 12 * minute]" and "0 \<le> minute"
    by (simp_all add: time_units)
  from rate_limiter_exact [OF this, where w = start_world and identity = "''c''" and scope = "''api''" and limit = 2] show ?thesis
    by (simp add: in_window_def time_units upt_rec numeral_nat)
qed

lemma sorted_last_greatest: "sorted xs \<Longrightarrow> x \<in> set xs \<Longrightarrow> xs \<noteq> [] \<Longrightarrow> x \<le> last xs"
proof (induction xs)
  case (Cons y xs)
  then show ?case using last_in_set [of xs] by (cases "xs = []") auto
qed simp

lemma rate_run_length: "length (fst (rate_run identity scope limit window ts w)) = length ts"
  by (induction ts arbitrary: w) (simp_all add: case_prod_beta)

text \<open>
  No burst gets through: in every interval of the length of the window at most \<open>limit\<close> requests of
  a caller are let through, however the requests are spread.
\<close>

theorem rate_limiter_safe:
  assumes "sorted ts" and "0 \<le> window" and "0 \<le> limit"
    and "ab_requests (abuse_mem w) (request_key scope identity) = []"
  shows "int (length (filter (\<lambda>i. a < ts ! i \<and> ts ! i \<le> a + window \<and>
      fst (rate_run identity scope limit window ts w) ! i) [0..<length ts])) \<le> limit"
proof -
  let ?ok = "\<lambda>i. fst (rate_run identity scope limit window ts w) ! i"
  let ?in = "\<lambda>i. a < ts ! i \<and> ts ! i \<le> a + window \<and> ?ok i"
  let ?acc = "filter ?in [0..<length ts]"
  have ok: "?ok i \<longleftrightarrow> int (in_window window ts i) \<le> limit" if "i < length ts" for i
    using rate_limiter_exact [where ?ts = ts, OF assms(1,2,4), of limit] that by simp
  show ?thesis
  proof (cases "?acc = []")
    case True
    then show ?thesis using assms(3) by simp
  next
    case False
    define l where "l = last ?acc"
    have l: "l < length ts" "?in l"
      using last_in_set [OF False] by (auto simp: l_def)
    have le: "i \<le> l" if "i \<in> set ?acc" for i
    proof -
      have "sorted ?acc" by (simp add: sorted_wrt_filter)
      then show ?thesis using that False unfolding l_def by (rule sorted_last_greatest)
    qed
    let ?P = "\<lambda>t. ts ! l - window < t"
    have "set ?acc \<subseteq> {i. i < length (take (Suc l) ts) \<and> ?P (take (Suc l) ts ! i)}"
    proof
      fix i assume i: "i \<in> set ?acc"
      then have "i \<le> l" "a < ts ! i" "i < length ts" using le by auto
      with l show "i \<in> {i. i < length (take (Suc l) ts) \<and> ?P (take (Suc l) ts ! i)}" by auto
    qed
    then have "card (set ?acc) \<le> card {i. i < length (take (Suc l) ts) \<and> ?P (take (Suc l) ts ! i)}"
      by (intro card_mono) auto
    also have "\<dots> = in_window window ts l"
      by (simp only: in_window_def length_filter_conv_card)
    finally have "card (set ?acc) \<le> in_window window ts l" .
    moreover have "card (set ?acc) = length ?acc" by (rule distinct_card) simp
    ultimately have "length ?acc \<le> in_window window ts l" by (simp only:)
    with ok [OF l(1)] l(2) show ?thesis by simp
  qed
qed

theorem rate_limiter_safe_witness:
  "int (length (filter (\<lambda>i. 9 * minute < [10 * minute, 10 * minute, 10 * minute] ! i \<and>
      [10 * minute, 10 * minute, 10 * minute] ! i \<le> 9 * minute + minute \<and>
      fst (rate_run ''c'' ''api'' 2 minute [10 * minute, 10 * minute, 10 * minute] start_world) ! i)
      [0..<length [10 * minute, 10 * minute, 10 * minute]])) \<le> 2"
  by (rule rate_limiter_safe) (simp_all add: time_units)

section \<open>Failed logins\<close>

text \<open>The failures remembered for a key once one more is recorded.\<close>

definition fails_after :: "string \<Rightarrow> world \<Rightarrow> time list" where
  "fails_after key w = pruneTimes (ab_failedAuth (abuse_mem w) key @ [clock w]) (clock w - hour)"

lemma RecordFailedAuth_clock [simp]: "clock (RecordFailedAuth c p u i w) = clock w"
  by (simp add: RecordFailedAuth_def Let_def)

lemma RecordFailedAuth_mem:
  "abuse_mem (RecordFailedAuth c p u i w) = (abuse_mem w)\<lparr>
     ab_failedAuth := (ab_failedAuth (abuse_mem w))(auth_key p u i := fails_after (auth_key p u i) w),
     ab_tempBlocked :=
       (if 20 \<le> countSince (fails_after (auth_key p u i) w) (clock w - 10 * minute)
        then (ab_tempBlocked (abuse_mem w))(auth_key p u i := Some (clock w + 10 * minute))
        else ab_tempBlocked (abuse_mem w))\<rparr>"
  by (simp add: RecordFailedAuth_def fails_after_def Let_def)

text \<open>
  A password that is wrong for a proxy and user name: no credential stored for them, whatever its status, has a
  hash that accepts it.
\<close>

definition wrong_password :: "hash_check \<Rightarrow> string \<Rightarrow> string \<Rightarrow> string \<Rightarrow> world \<Rightarrow> bool" where
  "wrong_password bcrypt_ok p u pw w \<longleftrightarrow>
     list_all (\<lambda>c. cpc_ProxyID c = p \<longrightarrow> cpc_Username c = u \<longrightarrow> \<not> bcrypt_ok (cpc_PasswordHash c) pw)
       (customer_proxy_credentials w)"

text \<open>What a login reads of a credential: recording a failure changes none of it.\<close>

definition login_data :: "CustomerProxyCredential \<Rightarrow> string \<times> string \<times> string" where
  "login_data c = (cpc_ProxyID c, cpc_Username c, cpc_PasswordHash c)"

lemma wrong_password_data:
  "wrong_password bcrypt_ok p u pw w \<longleftrightarrow>
     list_all (\<lambda>(p', u', h). p' = p \<longrightarrow> u' = u \<longrightarrow> \<not> bcrypt_ok h pw)
       (map login_data (customer_proxy_credentials w))"
  by (simp add: wrong_password_def login_data_def list_all_iff)

lemma wrong_password_cong:
  "map login_data (customer_proxy_credentials w') = map login_data (customer_proxy_credentials w) \<Longrightarrow>
    wrong_password bcrypt_ok p u pw w' = wrong_password bcrypt_ok p u pw w"
  by (simp only: wrong_password_data)

lemma login_data_suspended:
  "map login_data (update_where P (cpc_Status_update f) rows) = map login_data rows"
  by (induction rows) (simp_all add: update_where_def login_data_def)

lemma suspend_logins:
  "map login_data (customer_proxy_credentials (snd (db_updates CustomerProxyCredential_schema P (cpc_Status_update f) w)))
    = map login_data (customer_proxy_credentials w)"
proof (cases "stmt w")
  case (Pair ok w1)
  then have "customer_proxy_credentials w1 = customer_proxy_credentials w"
    by (rule stmt_get) simp
  with Pair show ?thesis by (simp add: db_updates_def login_data_suspended)
qed

lemma RecordFailedAuth_logins:
  "map login_data (customer_proxy_credentials (RecordFailedAuth c p u i w))
    = map login_data (customer_proxy_credentials w)"
  by (simp add: RecordFailedAuth_def Let_def suspend_logins)

text \<open>A login with a wrong password is recorded as a failure, unless the key is blocked.\<close>

lemma wrong_password_recorded:
  assumes "ab_tempBlocked (abuse_mem w) (auth_key p u i) = None" and "wrong_password bcrypt_ok p u pw w"
  obtains c w' where "snd (abuse_ValidateProxyCredential bcrypt_ok p u pw i w) = RecordFailedAuth c p u i w'"
    and "abuse_mem w' = abuse_mem w" and "clock w' = clock w"
    and "customer_proxy_credentials w' = customer_proxy_credentials w"
proof (cases "fst (db_first CustomerProxyCredential_schema
    (\<lambda>c. cpc_ProxyID c = p \<and> cpc_Username c = u \<and> cpc_Status c = ''active'') w)")
  case (Inl e)
  with assms(1) have "snd (abuse_ValidateProxyCredential bcrypt_ok p u pw i w)
    = RecordFailedAuth [] p u i (snd (db_first CustomerProxyCredential_schema
        (\<lambda>c. cpc_ProxyID c = p \<and> cpc_Username c = u \<and> cpc_Status c = ''active'') w))"
    by (simp add: abuse_ValidateProxyCredential_def blockedUntil_def case_prod_beta)
  then show ?thesis
    by (rule that) (simp_all add: db_first_frame [where get = customer_proxy_credentials])
next
  case (Inr cred)
  then have "cred \<in> set (customer_proxy_credentials w)" "cpc_ProxyID cred = p" "cpc_Username cred = u"
    using customer_proxy_credentials_table.first_row [of _ w cred] by (auto simp: prod_eq_iff)
  then have "\<not> bcrypt_ok (cpc_PasswordHash cred) pw"
    using assms(2) by (auto simp: wrong_password_def list_all_iff)
  with Inr assms(1) have "snd (abuse_ValidateProxyCredential bcrypt_ok p u pw i w)
    = RecordFailedAuth (cpc_CustomerID cred) p u i (snd (db_first CustomerProxyCredential_schema
        (\<lambda>c. cpc_ProxyID c = p \<and> cpc_Username c = u \<and> cpc_Status c = ''active'') w))"
    by (simp add: abuse_ValidateProxyCredential_def blockedUntil_def case_prod_beta)
  then show ?thesis
    by (rule that) (simp_all add: db_first_frame [where get = customer_proxy_credentials])
qed

text \<open>Attempts, each with a time and a password of its own.\<close>

definition attempts ::
  "hash_check \<Rightarrow> string \<Rightarrow> string \<Rightarrow> string \<Rightarrow> (time \<times> string) list \<Rightarrow> world \<Rightarrow> world" where
  "attempts bcrypt_ok p u i tps w =
     fold (\<lambda>(t, pw) w. snd (abuse_ValidateProxyCredential bcrypt_ok p u pw i (w\<lparr>clock := t\<rparr>))) tps w"

lemma attempts_snoc:
  "attempts bcrypt_ok p u i (tps @ [(t, pw)]) w =
    snd (abuse_ValidateProxyCredential bcrypt_ok p u pw i ((attempts bcrypt_ok p u i tps w)\<lparr>clock := t\<rparr>))"
  by (simp add: attempts_def)

lemma all_recent: "(\<And>v. v \<in> set ts \<Longrightarrow> cutoff < v) \<Longrightarrow> pruneTimes ts cutoff = ts"
  by (simp add: pruneTimes_def)

lemma one_attempt:
  assumes "ab_tempBlocked (abuse_mem w) (auth_key p u i) = None" and "wrong_password bcrypt_ok p u pw w"
    and "\<And>v. v \<in> set (ab_failedAuth (abuse_mem w) (auth_key p u i)) \<Longrightarrow> clock w - 10 * minute < v"
  shows "ab_failedAuth (abuse_mem (snd (abuse_ValidateProxyCredential bcrypt_ok p u pw i w))) (auth_key p u i)
      = ab_failedAuth (abuse_mem w) (auth_key p u i) @ [clock w]"
    and "ab_tempBlocked (abuse_mem (snd (abuse_ValidateProxyCredential bcrypt_ok p u pw i w))) (auth_key p u i)
      = (if 20 \<le> Suc (length (ab_failedAuth (abuse_mem w) (auth_key p u i)))
         then Some (clock w + 10 * minute) else None)"
    and "map login_data (customer_proxy_credentials (snd (abuse_ValidateProxyCredential bcrypt_ok p u pw i w)))
      = map login_data (customer_proxy_credentials w)"
proof -
  obtain c w' where e: "snd (abuse_ValidateProxyCredential bcrypt_ok p u pw i w) = RecordFailedAuth c p u i w'"
    and m: "abuse_mem w' = abuse_mem w" and c: "clock w' = clock w"
    and l: "customer_proxy_credentials w' = customer_proxy_credentials w"
    by (rule wrong_password_recorded [where bcrypt_ok = bcrypt_ok and pw = pw and w = w and p = p and u = u and i = i,
          OF assms(1,2)])
  have "clock w - hour < v" if "v \<in> set (ab_failedAuth (abuse_mem w) (auth_key p u i))" for v
    using assms(3) [OF that] by (simp add: time_units)
  then have f: "fails_after (auth_key p u i) w' = ab_failedAuth (abuse_mem w) (auth_key p u i) @ [clock w]"
    unfolding fails_after_def m c by (intro all_recent) auto
  have "filter (\<lambda>v. clock w - 10 * minute < v) (ab_failedAuth (abuse_mem w) (auth_key p u i) @ [clock w])
      = ab_failedAuth (abuse_mem w) (auth_key p u i) @ [clock w]"
    using assms(3) by (intro filter_True) auto
  then have n: "countSince (ab_failedAuth (abuse_mem w) (auth_key p u i) @ [clock w]) (clock w - 10 * minute)
      = int (Suc (length (ab_failedAuth (abuse_mem w) (auth_key p u i))))"
    by (simp only: countSince_def length_append) simp
  show "ab_failedAuth (abuse_mem (snd (abuse_ValidateProxyCredential bcrypt_ok p u pw i w))) (auth_key p u i)
      = ab_failedAuth (abuse_mem w) (auth_key p u i) @ [clock w]"
    by (simp add: e RecordFailedAuth_mem f)
  show "ab_tempBlocked (abuse_mem (snd (abuse_ValidateProxyCredential bcrypt_ok p u pw i w))) (auth_key p u i)
      = (if 20 \<le> Suc (length (ab_failedAuth (abuse_mem w) (auth_key p u i)))
         then Some (clock w + 10 * minute) else None)"
    using n assms(1) by (simp add: e RecordFailedAuth_mem f m c)
  show "map login_data (customer_proxy_credentials (snd (abuse_ValidateProxyCredential bcrypt_ok p u pw i w)))
      = map login_data (customer_proxy_credentials w)"
    by (simp add: e RecordFailedAuth_logins l)
qed

lemma attempts_remembered:
  assumes "ab_failedAuth (abuse_mem w) (auth_key p u i) = []"
    and "ab_tempBlocked (abuse_mem w) (auth_key p u i) = None"
    and "\<And>pw. pw \<in> snd ` set tps \<Longrightarrow> wrong_password bcrypt_ok p u pw w"
    and "sorted (map fst tps)" and "tps \<noteq> [] \<Longrightarrow> fst (last tps) - fst (hd tps) < 10 * minute"
    and "length tps \<le> 20"
  shows "ab_failedAuth (abuse_mem (attempts bcrypt_ok p u i tps w)) (auth_key p u i) = map fst tps \<and>
    ab_tempBlocked (abuse_mem (attempts bcrypt_ok p u i tps w)) (auth_key p u i)
      = (if length tps = 20 then Some (fst (last tps) + 10 * minute) else None) \<and>
    map login_data (customer_proxy_credentials (attempts bcrypt_ok p u i tps w))
      = map login_data (customer_proxy_credentials w)"
  using assms(3-6)
proof (induction tps rule: rev_induct)
  case Nil
  then show ?case by (simp add: attempts_def assms)
next
  case (snoc a tps)
  obtain t pw where a: "a = (t, pw)" by (cases a)
  let ?w = "(attempts bcrypt_ok p u i tps w)\<lparr>clock := t\<rparr>"
  have close: "t - 10 * minute < v" if "v \<in> set (map fst tps)" for v
  proof -
    have "fst (hd tps) \<le> v" using snoc.prems(2) that by (cases tps) (auto simp: sorted_append)
    moreover have "t - fst (hd tps) < 10 * minute" using snoc.prems(3) that by (cases tps) (auto simp: a)
    ultimately show ?thesis by simp
  qed
  have "tps \<noteq> [] \<Longrightarrow> fst (last tps) - fst (hd tps) < 10 * minute"
  proof -
    assume "tps \<noteq> []"
    then have "fst (last tps) \<le> t" using snoc.prems(2) last_in_set [of tps] by (simp add: sorted_append a)
    then show ?thesis using snoc.prems(3) \<open>tps \<noteq> []\<close> by (simp add: a)
  qed
  then have ih: "ab_failedAuth (abuse_mem ?w) (auth_key p u i) = map fst tps"
    "ab_tempBlocked (abuse_mem ?w) (auth_key p u i) = None"
    "map login_data (customer_proxy_credentials ?w) = map login_data (customer_proxy_credentials w)"
    using snoc.IH snoc.prems by (simp_all add: sorted_append)
  have wp: "wrong_password bcrypt_ok p u pw ?w"
    using snoc.prems(1) [of pw] wrong_password_cong [OF ih(3)] by (simp add: a)
  show ?case
    using one_attempt [where w = ?w and p = p and u = u and i = i and bcrypt_ok = bcrypt_ok and pw = pw,
        OF ih(2) wp] ih close snoc.prems(4)
    by (simp add: attempts_snoc a)
qed


text \<open>
  A customer with a credential whose hash accepts its password; twenty guesses of passwords, one every twenty
  seconds, then the right password nine minutes later.
\<close>

definition demo_cred :: CustomerProxyCredential where
  "demo_cred = zero_CustomerProxyCredential\<lparr>cpc_ID := ''k1'', cpc_Username := ''user_1'',
     cpc_PasswordHash := ''hash'', cpc_CustomerID := ''c1'', cpc_ProxyID := ''p1'', cpc_Status := ''active''\<rparr>"

text \<open>A hash function under which every password has a hash that accepts it.\<close>

definition demo_hash :: hash_check where
  "demo_hash h pw = (h = (if pw = ''secret'' then ''hash'' else ''hash of '' @ pw))"

definition demo_guesses :: "(time \<times> string) list" where
  "demo_guesses = map (\<lambda>k. (hour + 20 * second * int k, replicate (Suc k) CHR ''a'')) [0..<20]"

lemma demo_guesses_facts:
  "length demo_guesses = 20" "sorted (map fst demo_guesses)"
  "fst (hd demo_guesses) = hour" "fst (last demo_guesses) = hour + 20 * second * 19"
  "pw \<in> snd ` set demo_guesses \<Longrightarrow> \<exists>k. pw = replicate (Suc k) CHR ''a''"
  by (auto simp: demo_guesses_def sorted_iff_nth_mono hd_map last_map time_units)

lemma demo_guess_wrong:
  "pw \<in> snd ` set demo_guesses \<Longrightarrow>
    wrong_password demo_hash ''p1'' ''user_1'' pw (start_world\<lparr>customer_proxy_credentials := [demo_cred]\<rparr>)"
  using demo_guesses_facts(5) [of pw] by (auto simp: wrong_password_def demo_cred_def demo_hash_def)


section \<open>Who is let in\<close>

text \<open>The whitelist of a customer admits an address: it is empty, or one of its enabled rows names it.\<close>

definition whitelist_admits :: "world \<Rightarrow> string \<Rightarrow> string \<Rightarrow> bool" where
  "whitelist_admits w customerID clientIP =
     (let rows = filter (\<lambda>r. wl_CustomerID r = customerID \<and> wl_Enabled r) (ip_whitelists w) in
      rows = [] \<or> (case parse_ip (stripPort clientIP) of None \<Rightarrow> False
                   | Some addr \<Rightarrow> list_ex (whitelist_match addr) rows))"

text \<open>The check fails open: an address is also let in when the query of the whitelist fails.\<close>

lemma clientIPAllowed_iff:
  "fst (clientIPAllowed c i w) \<longleftrightarrow> \<not> statement_ok 0 w \<or> whitelist_admits w c i"
proof (cases "stmt w")
  case (Pair ok w1)
  then have "ip_whitelists w1 = ip_whitelists w" by (rule stmt_get) simp
  with Pair show ?thesis
    by (auto simp: clientIPAllowed_def whitelist_admits_def db_find_def stmt_statement_ok [symmetric]
      split: list.splits option.splits)
qed

definition not_blocked :: "world \<Rightarrow> string \<Rightarrow> bool" where
  "not_blocked w key = (case ab_tempBlocked (abuse_mem w) key of None \<Rightarrow> True | Some u \<Rightarrow> u < clock w)"

lemma blockedUntil_spec:
  "blockedUntil key w = (if not_blocked w key then None else ab_tempBlocked (abuse_mem w) key,
     snd (blockedUntil key w))"
  "fst (blockedUntil key w) = None \<longleftrightarrow> not_blocked w key"
  by (auto simp: blockedUntil_def not_blocked_def split: option.splits)

lemma blockedUntil_frame [simp]:
  "clock (snd (blockedUntil key w)) = clock w"
  "customer_proxy_credentials (snd (blockedUntil key w)) = customer_proxy_credentials w"
  "ip_whitelists (snd (blockedUntil key w)) = ip_whitelists w"
  "faults (snd (blockedUntil key w)) = faults w"
  "ab_requests (abuse_mem (snd (blockedUntil key w))) = ab_requests (abuse_mem w)"
  by (auto simp: blockedUntil_def split: option.splits)

lemma login_has_credential:
  assumes "au_Allowed (fst (abuse_ValidateProxyCredential bcrypt_ok p u pw i w))"
  shows "\<exists>cred \<in> set (customer_proxy_credentials w).
    cpc_ProxyID cred = p \<and> cpc_Username cred = u \<and> cpc_Status cred = ''active''"
proof -
  let ?w1 = "snd (blockedUntil (auth_key p u i) w)"
  let ?P = "\<lambda>c. cpc_ProxyID c = p \<and> cpc_Username c = u \<and> cpc_Status c = ''active''"
  obtain cred w2 where "db_first CustomerProxyCredential_schema ?P ?w1 = (Inr cred, w2)"
    using assms
    by (cases "db_first CustomerProxyCredential_schema ?P ?w1" rule: result_cases)
       (auto simp: abuse_ValidateProxyCredential_def case_prod_beta split: option.splits)
  from customer_proxy_credentials_table.first_row [OF this] show ?thesis by auto
qed


text \<open>The customer's whitelist has one network, and the client's address lies in it.\<close>

definition demo_whitelist :: IPWhitelist where
  "demo_whitelist = zero_IPWhitelist\<lparr>wl_ID := ''w1'', wl_CustomerID := ''c1'', wl_CIDR := ''10.0.0.0/24'',
     wl_Enabled := True\<rparr>"

lemma demo_login_allowed:
  "au_Allowed (fst (abuse_ValidateProxyCredential demo_hash ''p1'' ''user_1'' ''secret'' ''10.0.0.7:4000''
     (start_world\<lparr>customer_proxy_credentials := [demo_cred]\<rparr>)))"
  by code_simp

lemma demo_login_whitelisted:
  "au_Allowed (fst (abuse_ValidateProxyCredential demo_hash ''p1'' ''user_1'' ''secret'' ''10.0.0.7:4000''
     (start_world\<lparr>customer_proxy_credentials := [demo_cred], ip_whitelists := [demo_whitelist]\<rparr>)))"
  by code_simp


text \<open>An address outside the network is refused as long as the query works, and let in when it fails.\<close>

lemma whitelist_fails_open:
  "let w = start_world\<lparr>customer_proxy_credentials := [demo_cred], ip_whitelists := [demo_whitelist]\<rparr>;
       login = \<lambda>w. au_Allowed (fst (abuse_ValidateProxyCredential demo_hash ''p1'' ''user_1'' ''secret'' ''192.0.2.1:4000'' w))
   in \<not> login w \<and> login (w\<lparr>faults := [True, False]\<rparr>)"
  by code_simp

section \<open>Risk scores\<close>

definition score_ok :: "CustomerRiskScore \<Rightarrow> bool" where
  "score_ok r \<longleftrightarrow> 0 \<le> rs_Score r \<and> rs_Score r \<le> 100 \<and> rs_Level r = riskLevel (rs_Score r)"

definition risk_ok :: "world \<Rightarrow> bool" where
  "risk_ok w \<longleftrightarrow> (\<forall>r \<in> set (customer_risk_scores w). score_ok r)"

lemma risk_ok_frame: "customer_risk_scores w' = customer_risk_scores w \<Longrightarrow> risk_ok w' = risk_ok w"
  by (simp add: risk_ok_def)

lemmas scores_frames [simp] = statement_frames [where get = customer_risk_scores]

lemma score_ok_times [simp]: "score_ok (r\<lparr>rs_UpdatedAt := t\<rparr>) = score_ok r"
  by (simp add: score_ok_def)

lemma score_ok_new [simp]: "score_ok (new_score c)"
  by (simp add: score_ok_def new_score_def riskLevel_def)

lemma score_ok_bump: "score_ok r \<Longrightarrow> 0 \<le> delta \<Longrightarrow> score_ok (bump_score delta f now r)"
  by (simp add: score_ok_def bump_score_def Let_def)

lemma risk_ok_bumpRisk:
  assumes "risk_ok w" and "0 \<le> delta"
  shows "risk_ok (bumpRisk c delta f w)"
proof -
  let ?q = "db_first CustomerRiskScore_schema (\<lambda>s. rs_CustomerID s = c) w"
  let ?s = "bump_score delta f (clock w) (case fst ?q of Inl _ \<Rightarrow> new_score c | Inr s \<Rightarrow> s)"
  have "score_ok s" if "fst ?q = Inr s" for s
    using customer_risk_scores_table.first_row [of _ w s "snd ?q"] that assms(1)
    by (auto simp: risk_ok_def prod_eq_iff)
  then have "score_ok ?s" using assms(2) by (auto intro!: score_ok_bump split: sum.splits)
  moreover have "\<forall>x \<in> set (customer_risk_scores (snd ?q)). score_ok x"
    using assms(1) by (simp add: risk_ok_def)
  ultimately have "\<forall>x \<in> set (customer_risk_scores (snd (db_save CustomerRiskScore_schema ?s (snd ?q)))). score_ok x"
    using customer_risk_scores_table.all_save [of "snd ?q" score_ok ?s] by simp
  with assms(1) show ?thesis by (simp add: bumpRisk_def risk_ok_def case_prod_beta Let_def)
qed

lemma risk_ok_simps [simp]:
  "risk_ok (abuse_audit a b c d e m w) = risk_ok w"
  "risk_ok (createEvent c' p r s msg md w) = risk_ok w"
  "risk_ok (abuse_mem_update g w) = risk_ok w"
  "risk_ok (w\<lparr>clock := t\<rparr>) = risk_ok w"
  by (simp_all add: risk_ok_def)

lemma risk_ok_statements [simp]:
  "risk_ok (snd (db_first sc P w)) = risk_ok w"
  "risk_ok (snd (db_first_ordered sc' ord P' w)) = risk_ok w"
  "risk_ok (snd (db_find sc'' P'' w)) = risk_ok w"
  "risk_ok (snd (new_uuid w)) = risk_ok w"
  by (simp_all add: risk_ok_def)

text \<open>The operations of the service that the API and the proxy server call.\<close>

inductive abuse_op :: "world \<Rightarrow> world \<Rightarrow> bool" where
  tick: "abuse_op w (w\<lparr>clock := t\<rparr>)"
| fault: "abuse_op w (w\<lparr>faults := bs\<rparr>)"
| login: "abuse_op w (snd (abuse_ValidateProxyCredential bcrypt_ok p u pw i w))"
| failed: "abuse_op w (RecordFailedAuth c p u i w)"
| guard: "abuse_op w (snd (GuardConnection p c i t w))"
| release: "abuse_op w (guard_release c p w)"
| usage: "abuse_op w (RecordUsage c p inb outb w)"
| rate: "abuse_op w (snd (CheckAPIRate c s limit window w))"
| clear: "abuse_op w (snd (ClearRisk c w))"
| suspend: "abuse_op w (snd (abuse_SuspendCustomer c w))"
| unsuspend: "abuse_op w (snd (UnsuspendCustomer c w))"
| whitelist: "abuse_op w (snd (AddWhitelist c addr cidr d w))"
| block: "abuse_op w (snd (AddBlockedTarget ty v r w))"
| rules: "abuse_op w (EnsureDefaultRules w)"

lemma risk_ok_RecordFailedAuth: "risk_ok w \<Longrightarrow> risk_ok (RecordFailedAuth c p u i w)"
  by (auto simp: RecordFailedAuth_def Let_def risk_ok_frame [OF statement_frames(9) [where get = customer_risk_scores]]
      intro!: risk_ok_bumpRisk)

lemma risk_ok_clientIPAllowed [simp]: "risk_ok (snd (clientIPAllowed c i w)) = risk_ok w"
  by (auto simp: clientIPAllowed_def case_prod_beta split: sum.splits list.splits option.splits)

lemma risk_ok_checkRequestRate [simp]: "risk_ok (snd (checkRequestRate c s l wd w)) = risk_ok w"
  by (simp add: checkRequestRate_run Let_def)

lemma risk_ok_blockedUntil [simp]: "risk_ok (snd (blockedUntil k w)) = risk_ok w"
  by (auto simp: blockedUntil_def split: option.splits)

lemma risk_ok_login: "risk_ok w \<Longrightarrow> risk_ok (snd (abuse_ValidateProxyCredential ok p u pw i w))"
  by (auto simp: abuse_ValidateProxyCredential_def case_prod_beta
      split: option.splits sum.splits bool.splits intro!: risk_ok_bumpRisk risk_ok_RecordFailedAuth)

lemma risk_ok_blocked: "risk_ok w \<Longrightarrow> risk_ok (snd (checkBlockedTarget c p t w))"
  by (auto simp: checkBlockedTarget_def case_prod_beta split: option.splits sum.splits intro!: risk_ok_bumpRisk)

lemma risk_ok_limits [simp]: "risk_ok (snd (connection_limits_of c p w)) = risk_ok w"
  by (auto simp: connection_limits_of_def planConcurrentLimit_def case_prod_beta split: sum.splits)

lemma risk_ok_checkLimits: "risk_ok w \<Longrightarrow> risk_ok (snd (checkConnectionLimits c p w))"
  by (auto simp: checkConnectionLimits_def case_prod_beta Let_def intro!: risk_ok_bumpRisk)

lemma risk_ok_guard: "risk_ok w \<Longrightarrow> risk_ok (snd (GuardConnection p c i t w))"
  using risk_ok_blocked [of w c p t] risk_ok_checkLimits [of "snd (checkBlockedTarget c p t w)" c p]
  by (auto simp: GuardConnection_def guard_checks_def guard_acquire_def case_prod_beta split: sum.splits)

lemma risk_ok_bandwidth [simp]: "risk_ok (snd (bandwidth_totals c w)) = risk_ok w"
  by (auto simp: bandwidth_totals_def case_prod_beta split: sum.splits)

lemma risk_ok_spike: "risk_ok w \<Longrightarrow> risk_ok (detect_spike c p b w)"
  by (simp add: detect_spike_def risk_ok_bumpRisk)

lemma risk_ok_over_limit: "risk_ok w \<Longrightarrow> risk_ok (detect_over_limit c p w)"
  by (auto simp: detect_over_limit_def case_prod_beta split: sum.splits intro!: risk_ok_bumpRisk)

lemma risk_ok_usage: "risk_ok w \<Longrightarrow> risk_ok (RecordUsage c p inb outb w)"
  by (auto simp: RecordUsage_def detectBandwidthAbuse_def case_prod_beta Let_def
      intro!: risk_ok_spike risk_ok_over_limit)
     (simp add: risk_ok_def)

lemma risk_ok_clear: "risk_ok w \<Longrightarrow> risk_ok (snd (ClearRisk c w))"
  using customer_risk_scores_table.all_save [of w score_ok "(new_score c)\<lparr>rs_UpdatedAt := clock w\<rparr>"]
  by (simp add: ClearRisk_def risk_ok_def case_prod_beta split: sum.splits)

lemma risk_ok_admin [simp]:
  "risk_ok (snd (abuse_SuspendCustomer c w)) = risk_ok w"
  "risk_ok (snd (UnsuspendCustomer c w)) = risk_ok w"
  "risk_ok (snd (AddWhitelist c addr cidr d w)) = risk_ok w"
  "risk_ok (snd (AddBlockedTarget ty v r w)) = risk_ok w"
  by (simp_all add: abuse_SuspendCustomer_def UnsuspendCustomer_def AddWhitelist_def AddBlockedTarget_def
      case_prod_beta Let_def risk_ok_def split: sum.splits)

lemma scores_ensure_rule [simp]: "customer_risk_scores (ensure_rule r w) = customer_risk_scores w"
  by (simp add: ensure_rule_def case_prod_beta split: sum.splits)

lemma scores_ensure_rules [simp]: "customer_risk_scores (fold ensure_rule rs w) = customer_risk_scores w"
  by (induction rs arbitrary: w) simp_all

lemma abuse_op_risk_ok: "abuse_op w w' \<Longrightarrow> risk_ok w \<Longrightarrow> risk_ok w'"
proof (induction rule: abuse_op.induct)
  case (release w c p)
  then show ?case by (simp add: guard_release_def)
next
  case (rate w c s limit window)
  then show ?case by (simp add: CheckAPIRate_def case_prod_beta)
next
  case (fault w bs)
  then show ?case by (simp add: risk_ok_def)
next
  case (rules w)
  then show ?case by (simp add: risk_ok_def EnsureDefaultRules_def)
qed (simp_all add: risk_ok_login risk_ok_RecordFailedAuth risk_ok_guard risk_ok_usage risk_ok_clear)

text \<open>
  Risk scores stay meaningful: whatever operations of the enforcement service run, in any order and
  with any database failures, every stored score lies between 0 and 100 and its level is the one of
  its score.
\<close>

theorem risk_scores_in_range:
  assumes "abuse_op\<^sup>*\<^sup>* w w'" and "risk_ok w" and "r \<in> set (customer_risk_scores w')"
  shows "0 \<le> rs_Score r \<and> rs_Score r \<le> 100 \<and> rs_Level r = riskLevel (rs_Score r)"
proof -
  from assms(1,2) have "risk_ok w'" by (induction rule: rtranclp_induct) (auto dest: abuse_op_risk_ok)
  with assms(3) show ?thesis by (simp add: risk_ok_def score_ok_def)
qed

theorem risk_scores_in_range_witness:
  "\<exists>w' r. abuse_op\<^sup>*\<^sup>* start_world w' \<and> r \<in> set (customer_risk_scores w') \<and>
    0 \<le> rs_Score r \<and> rs_Score r \<le> 100 \<and> rs_Level r = riskLevel (rs_Score r)"
proof -
  let ?w = "snd (ClearRisk ''c1'' start_world)"
  have s: "abuse_op\<^sup>*\<^sup>* start_world ?w" by (intro r_into_rtranclp abuse_op.clear)
  have "customer_risk_scores ?w = [(new_score ''c1'')\<lparr>rs_UpdatedAt := 1000 * hour\<rparr>]"
    by (simp add: ClearRisk_def case_prod_beta db_save_def auto_time_def time_units Let_def)
  then obtain r where r: "r \<in> set (customer_risk_scores ?w)" by simp
  moreover have "risk_ok start_world" by (simp add: risk_ok_def)
  ultimately show ?thesis using s risk_scores_in_range [OF s _ r] by blast
qed

end
