(* ===== verification/AbuseGuard.thy ===== *)
theory AbuseGuard imports AbuseSafety begin

text \<open>
  The connection guard of \<^verbatim>\<open>internal/abuse/service.go\<close> under concurrency, the blocked targets, and what
  a suspension does to proxy logins. Every proxy connection is a goroutine that runs the checks of
  \<open>GuardConnection\<close>, then its critical section that counts the connection, and at its end the release
  closure; the steps of different goroutines interleave.
\<close>

section \<open>Goroutines\<close>

datatype phase = Arriving | Checked | Open | Gone

record conn =
  cn_proxy :: string
  cn_customer :: string
  cn_target :: string
  cn_phase :: phase

type_synonym guard_state = "world \<times> conn list"

text \<open>
  \<open>other\<close> is a step of anything else in the process: it may change the world, but only the guard
  touches the two counters.
\<close>

inductive guard_step :: "guard_state \<Rightarrow> guard_state \<Rightarrow> bool" where
  arrive: "cn_customer k \<noteq> [] \<Longrightarrow> cn_phase k = Arriving \<Longrightarrow> guard_step (w, cs) (w, cs @ [k])"
| check: "i < length cs \<Longrightarrow> cn_phase (cs ! i) = Arriving \<Longrightarrow>
    guard_checks (cn_proxy (cs ! i)) (cn_customer (cs ! i)) (cn_target (cs ! i)) w = (r, w') \<Longrightarrow>
    guard_step (w, cs) (w', cs[i := (cs ! i)\<lparr>cn_phase := (if is_ok r then Checked else Gone)\<rparr>])"
| acquire: "i < length cs \<Longrightarrow> cn_phase (cs ! i) = Checked \<Longrightarrow>
    guard_step (w, cs) (guard_acquire (cn_customer (cs ! i)) (cn_proxy (cs ! i)) w,
      cs[i := (cs ! i)\<lparr>cn_phase := Open\<rparr>])"
| release: "i < length cs \<Longrightarrow> cn_phase (cs ! i) = Open \<Longrightarrow>
    guard_step (w, cs) (guard_release (cn_customer (cs ! i)) (cn_proxy (cs ! i)) w,
      cs[i := (cs ! i)\<lparr>cn_phase := Gone\<rparr>])"
| other: "ab_activeCustomer (abuse_mem w') = ab_activeCustomer (abuse_mem w) \<Longrightarrow>
    ab_activeProxy (abuse_mem w') = ab_activeProxy (abuse_mem w) \<Longrightarrow> guard_step (w, cs) (w', cs)"

definition open_customer :: "conn list \<Rightarrow> string \<Rightarrow> int" where
  "open_customer cs c = int (length (filter (\<lambda>k. cn_phase k = Open \<and> cn_customer k = c) cs))"

definition open_proxy :: "conn list \<Rightarrow> string \<Rightarrow> int" where
  "open_proxy cs p = int (length (filter (\<lambda>k. cn_phase k = Open \<and> cn_proxy k = p) cs))"

text \<open>The counters of the service are the numbers of open connections.\<close>

definition counters_exact :: "guard_state \<Rightarrow> bool" where
  "counters_exact s \<longleftrightarrow>
     ab_activeCustomer (abuse_mem (fst s)) = open_customer (snd s) \<and>
     ab_activeProxy (abuse_mem (fst s)) = open_proxy (snd s)"

lemma open_snoc:
  "cn_phase k \<noteq> Open \<Longrightarrow> open_customer (cs @ [k]) = open_customer cs"
  "cn_phase k \<noteq> Open \<Longrightarrow> open_proxy (cs @ [k]) = open_proxy cs"
  by (simp_all add: open_customer_def open_proxy_def fun_eq_iff)

lemma open_update:
  assumes "i < length cs"
  shows "open_customer (cs[i := (cs ! i)\<lparr>cn_phase := ph\<rparr>]) c =
      open_customer cs c - (if cn_phase (cs ! i) = Open \<and> cn_customer (cs ! i) = c then 1 else 0)
        + (if ph = Open \<and> cn_customer (cs ! i) = c then 1 else 0)"
    and "open_proxy (cs[i := (cs ! i)\<lparr>cn_phase := ph\<rparr>]) p =
      open_proxy cs p - (if cn_phase (cs ! i) = Open \<and> cn_proxy (cs ! i) = p then 1 else 0)
        + (if ph = Open \<and> cn_proxy (cs ! i) = p then 1 else 0)"
  using length_filter_update [OF assms, of "\<lambda>k. cn_phase k = Open \<and> cn_customer k = c" "(cs ! i)\<lparr>cn_phase := ph\<rparr>"]
    length_filter_update [OF assms, of "\<lambda>k. cn_phase k = Open \<and> cn_proxy k = p" "(cs ! i)\<lparr>cn_phase := ph\<rparr>"]
  by (auto simp: open_customer_def open_proxy_def split: if_splits)

lemma open_pos:
  assumes "i < length cs" and "cn_phase (cs ! i) = Open"
  shows "0 < open_customer cs (cn_customer (cs ! i))" and "0 < open_proxy cs (cn_proxy (cs ! i))"
proof -
  have "cs ! i \<in> set cs" using assms(1) by simp
  then have "filter (\<lambda>k. cn_phase k = Open \<and> cn_customer k = cn_customer (cs ! i)) cs \<noteq> []"
    and "filter (\<lambda>k. cn_phase k = Open \<and> cn_proxy k = cn_proxy (cs ! i)) cs \<noteq> []"
    using assms(2) by (auto simp: filter_empty_conv)
  then show "0 < open_customer cs (cn_customer (cs ! i))" and "0 < open_proxy cs (cn_proxy (cs ! i))"
    by (simp_all add: open_customer_def open_proxy_def)
qed

lemma checkBlockedTarget_mem [simp]: "abuse_mem (snd (checkBlockedTarget c p t w)) = abuse_mem w"
  by (simp add: checkBlockedTarget_def case_prod_beta split: sum.split option.split)

lemma planConcurrentLimit_mem [simp]: "abuse_mem (snd (planConcurrentLimit c w)) = abuse_mem w"
  by (simp add: planConcurrentLimit_def case_prod_beta split: sum.split)

lemma connection_limits_mem [simp]: "abuse_mem (snd (connection_limits_of c p w)) = abuse_mem w"
  by (simp add: connection_limits_of_def case_prod_beta split: sum.split)

lemma checkConnectionLimits_mem [simp]: "abuse_mem (snd (checkConnectionLimits c p w)) = abuse_mem w"
  by (simp add: checkConnectionLimits_def case_prod_beta Let_def)

lemma guard_checks_mem [simp]: "abuse_mem (snd (guard_checks p c t w)) = abuse_mem w"
  by (simp add: guard_checks_def case_prod_beta split: sum.split)

lemma guard_step_counters: "guard_step s s' \<Longrightarrow> counters_exact s \<Longrightarrow> counters_exact s'"
proof (induction rule: guard_step.induct)
  case (arrive k w cs)
  then show ?case by (simp add: counters_exact_def open_snoc)
next
  case (check i cs w r w')
  then have "abuse_mem w' = abuse_mem w" by (metis guard_checks_mem snd_conv)
  with check show ?case by (auto simp: counters_exact_def open_update fun_eq_iff)
next
  case (acquire i cs w)
  then show ?case by (auto simp: counters_exact_def open_update guard_acquire_def fun_eq_iff)
next
  case (release i cs w)
  then show ?case
    using open_pos [of i cs] by (auto simp: counters_exact_def open_update guard_release_def fun_eq_iff)
qed (simp add: counters_exact_def)

text \<open>
  C4. The connection counters never drift: in every interleaving of arrivals, checks, acquisitions,
  releases and other work, starting with no connection, the counter of each customer and of each proxy
  is the number of its connections that are open, so a release never finds the counter at zero and no
  slot is lost.
\<close>

theorem guard_counters_exact:
  assumes "guard_step\<^sup>*\<^sup>* (w, []) (w', cs)"
    and "ab_activeCustomer (abuse_mem w) = (\<lambda>_. 0)" and "ab_activeProxy (abuse_mem w) = (\<lambda>_. 0)"
  shows "ab_activeCustomer (abuse_mem w') c = open_customer cs c \<and>
    ab_activeProxy (abuse_mem w') p = open_proxy cs p"
proof -
  have "counters_exact (w, [])"
    using assms(2,3) by (simp add: counters_exact_def open_customer_def open_proxy_def fun_eq_iff)
  with assms(1) have "counters_exact (w', cs)"
    by (induction rule: rtranclp_induct) (auto dest: guard_step_counters)
  then show ?thesis by (simp add: counters_exact_def)
qed

definition demo_conn :: conn where
  "demo_conn = \<lparr>cn_proxy = ''p1'', cn_customer = ''c1'', cn_target = ''example.com:443'', cn_phase = Arriving\<rparr>"

theorem guard_counters_exact_witness:
  "\<exists>w'. guard_step\<^sup>*\<^sup>* (start_world, []) (w', [demo_conn]) \<and>
    ab_activeCustomer (abuse_mem w') ''c1'' = open_customer [demo_conn] ''c1'' \<and>
    ab_activeProxy (abuse_mem w') ''p1'' = open_proxy [demo_conn] ''p1''"
proof -
  have "guard_step (start_world, []) (start_world, [] @ [demo_conn])"
    by (rule guard_step.arrive) (simp_all add: demo_conn_def)
  then have s: "guard_step\<^sup>*\<^sup>* (start_world, []) (start_world, [demo_conn])" by simp
  show ?thesis using s guard_counters_exact [OF s, of "''c1''" "''p1''"] by auto
qed

section \<open>The limit\<close>

lemma planConcurrentLimit_world [simp]: "faults w = [] \<Longrightarrow> snd (planConcurrentLimit c w) = w"
  by (simp add: planConcurrentLimit_def split: option.split)

lemma connection_limits_world [simp]: "faults w = [] \<Longrightarrow> snd (connection_limits_of c p w) = w"
  by (simp add: connection_limits_of_def case_prod_beta split: option.split)

lemma blocked_target_ok_world:
  "faults w = [] \<Longrightarrow> checkBlockedTarget c p t w = (Inr u, w') \<Longrightarrow> w' = w"
  by (auto simp: checkBlockedTarget_def case_prod_beta split: sum.splits option.splits)

text \<open>
  Run without interleaving, the guard keeps the limits: when the queries succeed and a connection is
  let through, neither the customer's limit (of the connection-limit row, else of the plan) nor the
  proxy's is exceeded by the counters that include the new connection, the world changes in the
  counters only, and the returned closure is the one that gives the two slots back.
\<close>

theorem guard_respects_limits:
  assumes "GuardConnection p c i t w = (Inr rel, w')" and "c \<noteq> []" and "faults w = []"
  shows "(case fst (connection_limits_of c p w) of (limit, perProxy) \<Rightarrow>
      (limit \<le> 0 \<or> ab_activeCustomer (abuse_mem w') c \<le> limit) \<and>
      (perProxy \<le> 0 \<or> ab_activeProxy (abuse_mem w') p \<le> perProxy)) \<and>
    w' = guard_acquire c p w \<and> rel = guard_release c p"
proof -
  obtain u w1 where b: "checkBlockedTarget c p t w = (Inr u, w1)"
    using assms(1,2) by (auto simp: GuardConnection_def guard_checks_def split: prod.splits sum.splits)
  then have w1: "w1 = w" using blocked_target_ok_world [OF assms(3)] by simp
  obtain limit per where l: "fst (connection_limits_of c p w) = (limit, per)" by fastforce
  then have l': "connection_limits_of c p w = ((limit, per), w)"
    using assms(3) by (simp add: prod_eq_iff)
  show ?thesis
    using assms b w1
    by (auto simp: GuardConnection_def guard_checks_def checkConnectionLimits_def l' guard_acquire_def
        split: if_splits prod.splits)
qed

definition limited_world :: world where
  "limited_world = start_world\<lparr>connection_limits :=
     [zero_ConnectionLimit\<lparr>cl_ID := ''l1'', cl_CustomerID := ''c1'', cl_MaxConcurrent := 1\<rparr>]\<rparr>"

lemma limited_world_checks:
  assumes "ab_activeCustomer (abuse_mem w) ''c1'' = 0" and "faults w = []" and "blocked_targets w = []"
    and "connection_limits w = connection_limits limited_world" and "subscriptions w = []"
  shows "guard_checks ''p1'' ''c1'' ''example.com:443'' w = (Inr (), w)"
    and "fst (connection_limits_of ''c1'' ''p1'' w) = (1, 0)"
  using assms
  by (simp_all add: guard_checks_def checkBlockedTarget_def checkConnectionLimits_def connection_limits_of_def
      planConcurrentLimit_def limited_world_def case_prod_beta)

theorem guard_respects_limits_witness:
  "GuardConnection ''p1'' ''c1'' ''9.9.9.9:1'' ''example.com:443'' limited_world
     = (Inr (guard_release ''c1'' ''p1''), guard_acquire ''c1'' ''p1'' limited_world) \<and>
   ab_activeCustomer (abuse_mem (guard_acquire ''c1'' ''p1'' limited_world)) ''c1'' \<le> 1"
proof -
  have f: "faults limited_world = []" by (simp add: limited_world_def)
  have g: "GuardConnection ''p1'' ''c1'' ''9.9.9.9:1'' ''example.com:443'' limited_world
     = (Inr (guard_release ''c1'' ''p1''), guard_acquire ''c1'' ''p1'' limited_world)"
    by (simp add: GuardConnection_def limited_world_checks limited_world_def)
  have l: "fst (connection_limits_of ''c1'' ''p1'' limited_world) = (1, 0)"
    by (rule limited_world_checks(2)) (simp_all add: limited_world_def)
  from guard_respects_limits [OF g _ f] show ?thesis by (simp add: g l)
qed

text \<open>
  With interleaving the limit does not hold: two connections of a customer whose limit is one can
  both be open, because the checks and the counting are separate critical sections.
\<close>

theorem guard_limit_race:
  "\<exists>w' cs. guard_step\<^sup>*\<^sup>* (limited_world, []) (w', cs) \<and>
    fst (connection_limits_of ''c1'' ''p1'' w') = (1, 0) \<and> open_customer cs ''c1'' = 2"
proof -
  let ?a = "demo_conn" and ?c = "demo_conn\<lparr>cn_phase := Checked\<rparr>" and ?o = "demo_conn\<lparr>cn_phase := Open\<rparr>"
  let ?w0 = limited_world
  let ?w1 = "guard_acquire ''c1'' ''p1'' ?w0" and ?w2 = "guard_acquire ''c1'' ''p1'' (guard_acquire ''c1'' ''p1'' ?w0)"
  have chk: "guard_checks ''p1'' ''c1'' ''example.com:443'' ?w0 = (Inr (), ?w0)"
    by (rule limited_world_checks) (simp_all add: limited_world_def)
  have s1: "guard_step (?w0, []) (?w0, [] @ [?a])"
    by (rule guard_step.arrive) (simp_all add: demo_conn_def)
  have s2: "guard_step (?w0, [?a]) (?w0, [?a] @ [?a])"
    by (rule guard_step.arrive) (simp_all add: demo_conn_def)
  have s3: "guard_step (?w0, [?a, ?a]) (?w0, [?c, ?a])"
    using guard_step.check [of 0 "[?a, ?a]" ?w0 "Inr ()" ?w0] chk by (simp add: demo_conn_def)
  have s4: "guard_step (?w0, [?c, ?a]) (?w0, [?c, ?c])"
    using guard_step.check [of 1 "[?c, ?a]" ?w0 "Inr ()" ?w0] chk by (simp add: demo_conn_def)
  have s5: "guard_step (?w0, [?c, ?c]) (?w1, [?o, ?c])"
    using guard_step.acquire [of 0 "[?c, ?c]" ?w0] by (simp add: demo_conn_def)
  have s6: "guard_step (?w1, [?o, ?c]) (?w2, [?o, ?o])"
    using guard_step.acquire [of 1 "[?o, ?c]" ?w1] by (simp add: demo_conn_def)
  have "guard_step\<^sup>*\<^sup>* (?w0, []) (?w2, [?o, ?o])"
    using s1 s2 s3 s4 s5 s6 by (simp add: converse_rtranclp_into_rtranclp)
  moreover have "fst (connection_limits_of ''c1'' ''p1'' ?w2) = (1, 0)"
    by (simp add: connection_limits_of_def planConcurrentLimit_def limited_world_def guard_acquire_def
        case_prod_beta)
  moreover have "open_customer [?o, ?o] ''c1'' = 2" by (simp add: open_customer_def demo_conn_def)
  ultimately show ?thesis by blast
qed

section \<open>Blocked targets\<close>

lemma find_SomeE: "x \<in> set xs \<Longrightarrow> P x \<Longrightarrow> (\<And>y. find P xs = Some y \<Longrightarrow> R) \<Longrightarrow> R"
  by (cases "find P xs") (auto simp: find_None_iff)

text \<open>
  A blocked domain is blocked with all its subdomains, in any spelling: a connection to such a host
  (on any port) is refused and not counted.
\<close>

theorem blocked_domain_denied:
  assumes "faults w = []" and "row \<in> set (blocked_targets w)" and "bt_Enabled row"
    and "bt_Type row = ''domain''" and "CHR '':'' \<notin> set host" and "CHR ''%'' \<notin> set host" and "c \<noteq> []"
    and "to_lower host = to_lower (bt_Value row) \<or> (\<exists>sub. to_lower host = sub @ ''.'' @ to_lower (bt_Value row))"
  shows "fst (GuardConnection p c i (join_host_port host port) w) = Inl (ErrMsg ''target blocked by policy'') \<and>
    abuse_mem (snd (GuardConnection p c i (join_host_port host port) w)) = abuse_mem w"
proof -
  have cut: "cut (CHR '':'') (join_host_port host port) = (host, port, True)"
    using assms(5,6) cut_append [of "CHR '':''" host port] by (simp add: join_host_port_def)
  have "target_match host port row"
    using assms(4,8) by (auto simp: target_match_def equal_fold_def has_suffix_iff)
  moreover have "row \<in> set (filter bt_Enabled (blocked_targets w))" using assms(2,3) by simp
  ultimately obtain r where r: "find (target_match host port) (filter bt_Enabled (blocked_targets w)) = Some r"
    using find_SomeE by metis
  obtain w2 where b: "checkBlockedTarget c p (join_host_port host port) w =
      (Inl (ErrMsg ''target blocked by policy''), w2)"
    by (simp add: checkBlockedTarget_def cut assms(1) r)
  then have "abuse_mem w2 = abuse_mem w" by (metis checkBlockedTarget_mem snd_conv)
  then show ?thesis using assms(7) by (simp add: GuardConnection_def guard_checks_def b)
qed

definition blocking_world :: world where
  "blocking_world = start_world\<lparr>blocked_targets :=
     [zero_BlockedTarget\<lparr>bt_ID := ''b1'', bt_Type := ''domain'', bt_Value := ''Bad.test'', bt_Enabled := True\<rparr>]\<rparr>"

theorem blocked_domain_denied_witness:
  "fst (GuardConnection ''p1'' ''c1'' ''9.9.9.9:1'' (join_host_port ''www.bad.test'' ''443'') blocking_world)
    = Inl (ErrMsg ''target blocked by policy'')"
proof -
  let ?row = "zero_BlockedTarget\<lparr>bt_ID := ''b1'', bt_Type := ''domain'', bt_Value := ''Bad.test'', bt_Enabled := True\<rparr>"
  have "to_lower ''www.bad.test'' = ''www'' @ ''.'' @ to_lower ''Bad.test''" by code_simp
  then have "\<exists>sub. to_lower ''www.bad.test'' = sub @ ''.'' @ to_lower (bt_Value ?row)" by auto
  then show ?thesis
    using blocked_domain_denied [of blocking_world ?row "''www.bad.test''" "''c1''" "''p1''" "''9.9.9.9:1''" "''443''"]
    by (simp add: blocking_world_def)
qed

lemma parse_ip_bracket:
  assumes "CHR '':'' \<notin> set s"
  shows "parse_ip (CHR ''['' # s) = None"
proof -
  have d: "digit_of (CHR ''['') = None" by code_simp
  obtain q qs where q: "split_on (CHR ''.'') s = q # qs" by (cases "split_on (CHR ''.'') s") auto
  have "parse_octet (CHR ''['' # q) = None" by (simp add: parse_octet_def parse_nat_def d)
  then have v4: "parse_ipv4 (CHR ''['' # s) = None"
    by (simp add: parse_ipv4_def q)
  show ?thesis
  proof (cases "dropWhile (\<lambda>c. c \<noteq> CHR ''.'' \<and> c \<noteq> CHR '':'' \<and> c \<noteq> CHR ''%'') (CHR ''['' # s)")
    case (Cons c t)
    then have "c \<in> set (CHR ''['' # s)" by (metis list.set_intros(1) set_dropWhileD)
    moreover have "\<not> (c \<noteq> CHR ''.'' \<and> c \<noteq> CHR '':'' \<and> c \<noteq> CHR ''%'')"
      using hd_dropWhile [of "\<lambda>c. c \<noteq> CHR ''.'' \<and> c \<noteq> CHR '':'' \<and> c \<noteq> CHR ''%''" "CHR ''['' # s"]
      unfolding Cons by simp
    ultimately show ?thesis using assms Cons v4 by (auto simp: parse_ip_def)
  next
    case Nil
    then show ?thesis by (simp only: parse_ip_def list.case)
  qed
qed

text \<open>
  A rule of type \<^verbatim>\<open>ip\<close> or \<^verbatim>\<open>cidr\<close> never stops a connection to an IPv6 address: the check cuts the
  target at its first colon, which lies inside the bracketed address, so whatever addresses and
  networks are blocked, every target that is an IPv6 address passes.
\<close>

theorem ipv6_target_not_blocked:
  assumes "faults w = []" and "CHR '':'' \<in> set host"
    and "\<And>row. row \<in> set (blocked_targets w) \<Longrightarrow> bt_Type row = ''ip'' \<or> bt_Type row = ''cidr''"
  shows "checkBlockedTarget c p (join_host_port host port) w = (Inr (), w)"
proof -
  obtain a b where host: "host = a @ CHR '':'' # b" and a: "CHR '':'' \<notin> set a"
    using split_list_first [OF assms(2)] by auto
  have cut: "cut (CHR '':'') (join_host_port host port) = (CHR ''['' # a, b @ '']:'' @ port, True)"
    using cut_append [of "CHR '':''" "CHR ''['' # a" "b @ '']:'' @ port"] a
    by (simp add: join_host_port_def host)
  have "\<not> target_match (CHR ''['' # a) q row" if "row \<in> set (blocked_targets w)" for q row
    using assms(3) [OF that] parse_ip_bracket [OF a] by (auto simp: target_match_def split: option.splits)
  then have "find (target_match (CHR ''['' # a) q) (filter bt_Enabled (blocked_targets w)) = None" for q
    by (simp add: find_None_iff)
  then show ?thesis by (simp add: checkBlockedTarget_def cut assms(1))
qed

definition ipv6_world :: world where
  "ipv6_world = start_world\<lparr>blocked_targets :=
     [zero_BlockedTarget\<lparr>bt_ID := ''b1'', bt_Type := ''ip'', bt_Value := ''2001:db8::1'', bt_Enabled := True\<rparr>]\<rparr>"

theorem ipv6_target_not_blocked_witness:
  "checkBlockedTarget ''c1'' ''p1'' (join_host_port ''2001:db8::1'' ''443'') ipv6_world = (Inr (), ipv6_world)"
  by (rule ipv6_target_not_blocked) (auto simp: ipv6_world_def)

section \<open>Suspension\<close>

text \<open>What the validator's answer depends on.\<close>

lemma validate_answer_cong:
  assumes "faults w = []" and "faults w' = []" and "abuse_mem w' = abuse_mem w" and "clock w' = clock w"
    and "customer_proxy_credentials w' = customer_proxy_credentials w"
    and "ip_whitelists w' = ip_whitelists w"
  shows "fst (abuse_ValidateProxyCredential bcrypt_ok p u pw i w')
    = fst (abuse_ValidateProxyCredential bcrypt_ok p u pw i w)"
proof -
  let ?k = "auth_key p u i"
  have b: "fst (blockedUntil ?k w') = fst (blockedUntil ?k w)"
    using assms(3,4) by (simp add: blockedUntil_def split: option.split)
  have c: "fst (clientIPAllowed c i v') = fst (clientIPAllowed c i v)"
    "snd (clientIPAllowed c i v) = v"
    if "faults v = []" "faults v' = []" "ip_whitelists v' = ip_whitelists v" for c v v'
    using that by (simp_all add: clientIPAllowed_def split: list.split option.split)
  have r: "fst (checkRequestRate c ''proxy-auth'' 120 minute v') = fst (checkRequestRate c ''proxy-auth'' 120 minute v)"
    if "ab_requests (abuse_mem v') = ab_requests (abuse_mem v)" "clock v' = clock v" for c v v'
    using that by (simp add: checkRequestRate_run Let_def)
  show ?thesis
    using assms b
    by (simp add: abuse_ValidateProxyCredential_def case_prod_beta c [of "snd (blockedUntil ?k w)" "snd (blockedUntil ?k w')"]
        c(2) [of "snd (blockedUntil ?k w')" "snd (blockedUntil ?k w')"]
        r [of "snd (blockedUntil ?k w')" "snd (blockedUntil ?k w)"] split: option.split sum.split bool.split)
qed

lemma suspended_allocations:
  "faults w = [] \<Longrightarrow> customer_proxy_allocations (snd (abuse_SuspendCustomer c w)) =
    update_where (\<lambda>a. cpa_CustomerID a = c \<and> cpa_Status a = ''active'')
      (\<lambda>a. a\<lparr>cpa_Status := ''suspended'', cpa_UpdatedAt := clock w\<rparr>) (customer_proxy_allocations w)"
  by (simp add: abuse_SuspendCustomer_def Let_def)

text \<open>
  Suspending a customer does not close the customer's proxies: although the customer and all its
  allocations become suspended, the validator gives every login exactly the answer it gave before.
\<close>

theorem suspension_ignored_by_validator:
  assumes "faults w = []"
  shows "fst (abuse_ValidateProxyCredential bcrypt_ok p u pw i (snd (abuse_SuspendCustomer c w)))
      = fst (abuse_ValidateProxyCredential bcrypt_ok p u pw i w) \<and>
    (\<forall>a \<in> set (customer_proxy_allocations (snd (abuse_SuspendCustomer c w))).
      cpa_CustomerID a = c \<longrightarrow> cpa_Status a \<noteq> ''active'')"
proof
  show "fst (abuse_ValidateProxyCredential bcrypt_ok p u pw i (snd (abuse_SuspendCustomer c w)))
      = fst (abuse_ValidateProxyCredential bcrypt_ok p u pw i w)"
    using assms by (intro validate_answer_cong) (simp_all add: abuse_SuspendCustomer_def Let_def)
  show "\<forall>a \<in> set (customer_proxy_allocations (snd (abuse_SuspendCustomer c w))).
      cpa_CustomerID a = c \<longrightarrow> cpa_Status a \<noteq> ''active''"
    unfolding suspended_allocations [OF assms] by (rule ball_update) simp_all
qed

theorem suspension_ignored_by_validator_witness:
  "au_Allowed (fst (abuse_ValidateProxyCredential demo_hash ''p1'' ''user_1'' ''secret'' ''10.0.0.7:4000''
     (snd (abuse_SuspendCustomer ''c1'' (start_world\<lparr>customer_proxy_credentials := [demo_cred]\<rparr>)))))"
  by (subst conjunct1 [OF suspension_ignored_by_validator]) (simp, rule demo_login_allowed)

end
