(* ===== verification/Billing.thy ===== *)
theory Billing imports Abuse "HOL-Library.AList" begin

text \<open>
  \<^verbatim>\<open>internal/billing/service.go\<close>: plans, subscriptions, invoices and the quotas an allocation has to
  meet. The payment provider is the interface of the code, a record of functions; the mock provider of
  the same file is its implementation here. Columns of a plan update are well-typed values; a column
  the table does not have is a driver error.
\<close>

section \<open>The payment provider\<close>

record CheckoutRequest =
  cr_CustomerID :: string
  cr_SubscriptionID :: string
  cr_InvoiceID :: string
  cr_Amount :: real
  cr_Currency :: string

record CheckoutSession =
  co_Provider :: string
  co_PaymentRef :: string
  co_URL :: string
  co_Status :: string

record PaymentProvider =
  CreateCheckout :: "CheckoutRequest \<Rightarrow> world \<Rightarrow> CheckoutSession result \<times> world"
  VerifyPayment :: "string \<Rightarrow> world \<Rightarrow> bool result \<times> world"
  RefundPayment :: "string \<Rightarrow> real \<Rightarrow> world \<Rightarrow> unit result \<times> world"
  GetPaymentStatus :: "string \<Rightarrow> world \<Rightarrow> string result \<times> world"

definition mock_CreateCheckout :: "CheckoutRequest \<Rightarrow> world \<Rightarrow> CheckoutSession result \<times> world" where
  "mock_CreateCheckout req w = (let (u, w1) = new_uuid w; ref = ''mock_'' @ u in
     (Inr \<lparr>co_Provider = ''mock'', co_PaymentRef = ref, co_URL = ''/mock-checkout/'' @ ref,
           co_Status = ''pending''\<rparr>, w1))"

definition mock_VerifyPayment :: "string \<Rightarrow> world \<Rightarrow> bool result \<times> world" where
  "mock_VerifyPayment ref w = (Inr (has_prefix ref ''mock_''), w)"

definition mock_RefundPayment :: "string \<Rightarrow> real \<Rightarrow> world \<Rightarrow> unit result \<times> world" where
  "mock_RefundPayment ref amount w =
     (if \<not> has_prefix ref ''mock_'' then (Inl (ErrMsg ''unknown mock payment reference''), w) else (Inr (), w))"

definition mock_GetPaymentStatus :: "string \<Rightarrow> world \<Rightarrow> string result \<times> world" where
  "mock_GetPaymentStatus ref w =
     (if \<not> has_prefix ref ''mock_'' then (Inr ''unknown'', w) else (Inr ''paid'', w))"

definition MockPaymentProvider :: PaymentProvider where
  "MockPaymentProvider = \<lparr>CreateCheckout = mock_CreateCheckout, VerifyPayment = mock_VerifyPayment,
     RefundPayment = mock_RefundPayment, GetPaymentStatus = mock_GetPaymentStatus\<rparr>"

lemma MockPaymentProvider_simps [simp]:
  "CreateCheckout MockPaymentProvider = mock_CreateCheckout"
  "VerifyPayment MockPaymentProvider = mock_VerifyPayment"
  "RefundPayment MockPaymentProvider = mock_RefundPayment"
  "GetPaymentStatus MockPaymentProvider = mock_GetPaymentStatus"
  by (simp_all add: MockPaymentProvider_def)

section \<open>Audit and helpers\<close>

definition Audit :: "string \<Rightarrow> string \<Rightarrow> string \<Rightarrow> string \<Rightarrow> string \<Rightarrow> jmeta \<Rightarrow> world \<Rightarrow> world" where
  "Audit actorID actorType action targetID targetType metadata w =
     (let (u, w1) = new_uuid w in
      snd (db_create AuditEvent_schema
        (zero_AuditEvent\<lparr>ae_ID := u, ae_ActorID := actorID, ae_ActorType := actorType, ae_Action := action,
           ae_TargetID := targetID, ae_TargetType := targetType, ae_Metadata := metadata,
           ae_CreatedAt := clock w1\<rparr>) w1))"

definition validSubscriptionStatus :: "string \<Rightarrow> bool" where
  "validSubscriptionStatus status \<longleftrightarrow>
     status \<in> {''active'', ''expired'', ''cancelled'', ''suspended'', ''pending''}"

definition firstOfMonth :: "time \<Rightarrow> time" where
  "firstOfMonth now = (case civil_date now of (y, m, d) \<Rightarrow> (now div day - (d - 1)) * day)"

definition jsonListAllows :: "string \<Rightarrow> string \<Rightarrow> bool" where
  "jsonListAllows raw value =
     (if raw = [] \<or> raw = ''[]'' then True
      else case parse_strings raw of None \<Rightarrow> True | Some values \<Rightarrow> list_ex (\<lambda>v. equal_fold v value) values)"

definition days_long :: "int \<Rightarrow> duration" where
  "days_long days = wrap64 (days * 24 * hour)"

section \<open>Plans\<close>

definition default_plan :: "string \<Rightarrow> string \<Rightarrow> string \<Rightarrow> real \<Rightarrow> int \<Rightarrow> int \<Rightarrow> int \<Rightarrow> Plan" where
  "default_plan i n d price maxp gb conc = zero_Plan\<lparr>pl_ID := i, pl_Name := n, pl_Description := d,
     pl_Price := price, pl_Currency := ''USD'', pl_MaxProxies := maxp, pl_BandwidthLimitGB := gb,
     pl_ConcurrentConnections := conc, pl_AllowedCountries := ''[]'', pl_Status := ''active''\<rparr>"

definition billing_default_plans :: "Plan list" where
  "billing_default_plans =
     [default_plan ''starter-v4'' ''Starter'' ''Entry production proxy plan'' 19 5 50 25,
      default_plan ''professional-v4'' ''Professional'' ''Production plan for automation teams'' 79 25 250 100,
      default_plan ''business-v4'' ''Business'' ''Higher quota production plan'' 249 100 1000 500,
      default_plan ''enterprise-v4'' ''Enterprise'' ''Custom operations plan'' 999 500 5000 2500]"

definition ensure_plan :: "Plan \<Rightarrow> world \<Rightarrow> world" where
  "ensure_plan plan w = (case db_first Plan_schema (\<lambda>p. pl_ID p = pl_ID plan) w of
     (Inr _, w1) \<Rightarrow> w1
   | (Inl _, w1) \<Rightarrow> snd (db_create Plan_schema (plan\<lparr>pl_CreatedAt := clock w1, pl_UpdatedAt := clock w1\<rparr>) w1))"

definition billing_EnsureDefaultPlans :: "world \<Rightarrow> world" where
  "billing_EnsureDefaultPlans w = fold ensure_plan billing_default_plans w"

text \<open>The features in the order the map is iterated in.\<close>

fun create_features :: "string \<Rightarrow> time \<Rightarrow> (string \<times> string) list \<Rightarrow> world \<Rightarrow> unit result \<times> world" where
  "create_features planID now [] w = (Inr (), w)"
| "create_features planID now ((k, v) # fs) w =
     (let (u, w1) = new_uuid w in
      case db_create PlanFeature_schema
        (zero_PlanFeature\<lparr>pf_ID := u, pf_PlanID := planID, pf_Key := k, pf_Value := v, pf_CreatedAt := now\<rparr>) w1 of
        (Inl e, w2) \<Rightarrow> (Inl e, w2)
      | (Inr _, w2) \<Rightarrow> create_features planID now fs w2)"

definition billing_CreatePlan :: "Plan \<Rightarrow> (string \<times> string) list \<Rightarrow> world \<Rightarrow> Plan result \<times> world" where
  "billing_CreatePlan plan features w =
     (let (i, w1) = (if pl_ID plan = [] then new_uuid w else (pl_ID plan, w));
          now = clock w1;
          p = plan\<lparr>pl_ID := i, pl_Currency := (if pl_Currency plan = [] then ''USD'' else pl_Currency plan),
                pl_Status := (if pl_Status plan = [] then ''active'' else pl_Status plan),
                pl_CreatedAt := now, pl_UpdatedAt := now\<rparr>
      in db_transaction (\<lambda>w. case db_create Plan_schema p w of
             (Inl e, w2) \<Rightarrow> (Inl e, w2)
           | (Inr p', w2) \<Rightarrow> (case create_features i now features w2 of
                 (Inl e, w3) \<Rightarrow> (Inl e, w3) | (Inr _, w3) \<Rightarrow> (Inr p', w3))) w1)"

text \<open>One column of \<^verbatim>\<open>Updates(map)\<close> on the table of plans.\<close>

fun plan_column :: "string \<Rightarrow> jval \<Rightarrow> Plan \<Rightarrow> Plan option" where
  "plan_column c (JStr s) p =
     (if c = ''name'' then Some (p\<lparr>pl_Name := s\<rparr>)
      else if c = ''description'' then Some (p\<lparr>pl_Description := s\<rparr>)
      else if c = ''currency'' then Some (p\<lparr>pl_Currency := s\<rparr>)
      else if c = ''allowed_countries'' then Some (p\<lparr>pl_AllowedCountries := s\<rparr>)
      else if c = ''status'' then Some (p\<lparr>pl_Status := s\<rparr>)
      else if c = ''id'' then Some (p\<lparr>pl_ID := s\<rparr>)
      else None)"
| "plan_column c (JInt i) p =
     (if c = ''max_proxies'' then Some (p\<lparr>pl_MaxProxies := i\<rparr>)
      else if c = ''bandwidth_limit_gb'' then Some (p\<lparr>pl_BandwidthLimitGB := i\<rparr>)
      else if c = ''concurrent_connections'' then Some (p\<lparr>pl_ConcurrentConnections := i\<rparr>)
      else if c = ''price'' then Some (p\<lparr>pl_Price := of_int i\<rparr>)
      else None)"
| "plan_column c (JReal x) p = (if c = ''price'' then Some (p\<lparr>pl_Price := x\<rparr>) else None)"
| "plan_column c (JTime t) p =
     (if c = ''updated_at'' then Some (p\<lparr>pl_UpdatedAt := t\<rparr>)
      else if c = ''created_at'' then Some (p\<lparr>pl_CreatedAt := t\<rparr>) else None)"
| "plan_column c (JBool b) p = None"

fun plan_columns :: "(string \<times> jval) list \<Rightarrow> Plan \<Rightarrow> Plan option" where
  "plan_columns [] p = Some p"
| "plan_columns ((c, v) # us) p = (case plan_column c v p of None \<Rightarrow> None | Some q \<Rightarrow> plan_columns us q)"

definition UpdatePlan :: "string \<Rightarrow> (string \<times> jval) list \<Rightarrow> world \<Rightarrow> Plan result \<times> world" where
  "UpdatePlan i updates w =
     (let us = AList.update ''updated_at'' (JTime (clock w)) updates in
      if plan_columns us zero_Plan = None then (Inl ErrDriver, w)
      else case db_updates_unique Plan_schema (\<lambda>p. pl_ID p = i) (\<lambda>p. the (plan_columns us p)) w of
        (Inl e, w1) \<Rightarrow> (Inl e, w1)
      | (Inr _, w1) \<Rightarrow> (case db_first Plan_schema (\<lambda>p. pl_ID p = i) w1 of
            (Inl e, w2) \<Rightarrow> (Inl e, w2)
          | (Inr plan, w2) \<Rightarrow> (Inr plan, Audit ''admin'' ''system'' ''PLAN_UPDATED'' i ''plan'' (Some us) w2)))"

definition billing_ListPlans :: "world \<Rightarrow> Plan list result \<times> world" where
  "billing_ListPlans w = db_find_ordered Plan_schema pl_Price (\<lambda>_. True) w"

section \<open>Subscriptions\<close>

definition SuspendExistingAllocations :: "string \<Rightarrow> world \<Rightarrow> unit result \<times> world" where
  "SuspendExistingAllocations customerID w =
     (let now = clock w in
      db_updates CustomerProxyAllocation_schema
        (\<lambda>a. cpa_CustomerID a = customerID \<and> cpa_Status a = ''active'')
        (\<lambda>a. a\<lparr>cpa_Status := ''suspended'', cpa_UpdatedAt := now\<rparr>) w)"

definition CreateSubscription ::
  "string \<Rightarrow> string \<Rightarrow> int \<Rightarrow> bool \<Rightarrow> string \<Rightarrow> world \<Rightarrow> Subscription result \<times> world" where
  "CreateSubscription customerID planID days autoRenew status w =
     (let d = (if days \<le> 0 then 30 else days);
          st = (if status = [] then ''pending'' else status);
          now = clock w;
          (u, w1) = new_uuid w
      in case db_create Subscription_schema
           (zero_Subscription\<lparr>sub_ID := u, sub_CustomerID := customerID, sub_PlanID := planID,
              sub_Status := st, sub_StartsAt := now, sub_ExpiresAt := now + days_long d,
              sub_AutoRenew := autoRenew, sub_CreatedAt := now, sub_UpdatedAt := now\<rparr>) w1 of
           (Inl e, w2) \<Rightarrow> (Inl e, w2)
         | (Inr sub, w2) \<Rightarrow> (Inr sub, Audit ''admin'' ''system'' ''SUBSCRIPTION_CREATED'' (sub_ID sub)
             ''subscription'' (Some [(''customer_id'', JStr customerID), (''plan_id'', JStr planID)]) w2))"

definition UpdateSubscriptionStatus :: "string \<Rightarrow> string \<Rightarrow> world \<Rightarrow> unit result \<times> world" where
  "UpdateSubscriptionStatus i status w =
     (if \<not> validSubscriptionStatus status then (Inl (ErrMsg ''invalid subscription status''), w)
      else case db_updates Subscription_schema (\<lambda>s. sub_ID s = i)
                  (\<lambda>s. s\<lparr>sub_Status := status, sub_UpdatedAt := clock w\<rparr>) w of
        (Inl e, w1) \<Rightarrow> (Inl e, w1)
      | (Inr _, w1) \<Rightarrow>
          let w2 = (if status \<in> {''suspended'', ''expired'', ''cancelled''}
                    then case db_first Subscription_schema (\<lambda>s. sub_ID s = i) w1 of
                           (Inl _, w2) \<Rightarrow> w2
                         | (Inr sub, w2) \<Rightarrow> snd (SuspendExistingAllocations (sub_CustomerID sub) w2)
                    else w1)
          in (Inr (), Audit ''admin'' ''system'' ''SUBSCRIPTION_STATUS_CHANGED'' i ''subscription''
                        (Some [(''status'', JStr status)]) w2))"

definition ActiveCommercialSubscription :: "string \<Rightarrow> world \<Rightarrow> (Subscription \<times> Plan) result \<times> world" where
  "ActiveCommercialSubscription customerID w =
     (case db_first_ordered Subscription_schema (\<lambda>s. - sub_ExpiresAt s)
        (\<lambda>s. sub_CustomerID s = customerID \<and> sub_Status s = ''active'' \<and>
             sub_StartsAt s \<le> clock w \<and> clock w < sub_ExpiresAt s) w of
        (Inl _, w1) \<Rightarrow> (Inl (ErrMsg ''active subscription required''), w1)
      | (Inr sub, w1) \<Rightarrow>
          (case db_first Plan_schema (\<lambda>p. pl_ID p = sub_PlanID sub \<and> pl_Status p = ''active'') w1 of
             (Inl _, w2) \<Rightarrow> (Inl (ErrMsg ''active plan required''), w2)
           | (Inr plan, w2) \<Rightarrow> (Inr (sub, plan), w2)))"

definition EnforceAllocation :: "string \<Rightarrow> string \<Rightarrow> world \<Rightarrow> (Subscription \<times> Plan) result \<times> world" where
  "EnforceAllocation customerID country w =
     (case ActiveCommercialSubscription customerID w of
        (Inl e, w1) \<Rightarrow> (Inl e, w1)
      | (Inr (sub, plan), w1) \<Rightarrow>
          (case db_count CustomerProxyAllocation_schema
             (\<lambda>a. cpa_CustomerID a = customerID \<and> cpa_Status a = ''active'') w1 of (count, w2) \<Rightarrow>
           if 0 < pl_MaxProxies plan \<and> pl_MaxProxies plan \<le> count
           then (Inl (ErrMsg ''plan proxy limit reached''), w2)
           else if country \<noteq> [] \<and> \<not> jsonListAllows (pl_AllowedCountries plan) country
           then (Inl (ErrMsg ''country is not allowed by plan''), w2)
           else (case bandwidth_totals customerID w2 of ((tin, tout), w3) \<Rightarrow>
             if 0 < pl_BandwidthLimitGB plan \<and>
                of_int (pl_BandwidthLimitGB plan) * 1024 * 1024 * 1024 \<le> tin + tout
             then (Inl (ErrMsg ''bandwidth limit reached''), w3)
             else (Inr (sub, plan), w3))))"

section \<open>Invoices\<close>

definition plan_invoice :: "string \<Rightarrow> Subscription \<Rightarrow> Plan \<Rightarrow> string \<Rightarrow> time \<Rightarrow> Invoice" where
  "plan_invoice customerID sub plan i now = zero_Invoice\<lparr>inv_ID := i, inv_CustomerID := customerID,
     inv_PlanID := pl_ID plan, inv_SubscriptionID := sub_ID sub, inv_Amount := pl_Price plan,
     inv_Currency := pl_Currency plan, inv_Status := ''pending'', inv_CreatedAt := now\<rparr>"

definition plan_item :: "Plan \<Rightarrow> string \<Rightarrow> string \<Rightarrow> time \<Rightarrow> InvoiceItem" where
  "plan_item plan i invoiceID now = zero_InvoiceItem\<lparr>ii_ID := i, ii_InvoiceID := invoiceID,
     ii_Description := pl_Name plan @ '' subscription'', ii_Quantity := 1, ii_UnitAmount := pl_Price plan,
     ii_Amount := pl_Price plan, ii_CreatedAt := now\<rparr>"

definition invoice_tx :: "Invoice \<Rightarrow> InvoiceItem \<Rightarrow> world \<Rightarrow> Invoice result \<times> world" where
  "invoice_tx invoice item = and_then (db_create Invoice_schema invoice) (\<lambda>made.
     and_then (db_create InvoiceItem_schema item) (\<lambda>_ w. (Inr made, w)))"

definition GenerateInvoice :: "PaymentProvider \<Rightarrow> string \<Rightarrow> string \<Rightarrow> world \<Rightarrow> Invoice result \<times> world" where
  "GenerateInvoice provider customerID subscriptionID =
     and_then (db_first Subscription_schema (\<lambda>s. sub_ID s = subscriptionID \<and> sub_CustomerID s = customerID)) (\<lambda>sub.
     and_then (db_first Plan_schema (\<lambda>p. pl_ID p = sub_PlanID sub)) (\<lambda>plan w.
       let (invID, w1) = new_uuid w; (itemID, w2) = new_uuid w1 in
       and_then (CreateCheckout provider \<lparr>cr_CustomerID = customerID, cr_SubscriptionID = sub_ID sub,
           cr_InvoiceID = invID, cr_Amount = pl_Price plan, cr_Currency = pl_Currency plan\<rparr>) (\<lambda>session.
         db_transaction (invoice_tx
           ((plan_invoice customerID sub plan invID (clock w))\<lparr>inv_Provider := co_Provider session,
              inv_PaymentRef := co_PaymentRef session, inv_CheckoutURL := co_URL session\<rparr>)
           (plan_item plan itemID invID (clock w)))) w2))"

text \<open>The body of the transaction of \<open>MarkInvoicePaid\<close>.\<close>

definition mark_paid_tx :: "string \<Rightarrow> time \<Rightarrow> Invoice \<Rightarrow> world \<Rightarrow> unit result \<times> world" where
  "mark_paid_tx invoiceID now invoice w =
     (case db_updates Invoice_schema (\<lambda>i. inv_ID i = invoiceID)
             (\<lambda>i. i\<lparr>inv_Status := ''paid'', inv_PaidAt := Some now\<rparr>) w of
        (Inl e, w1) \<Rightarrow> (Inl e, w1)
      | (Inr _, w1) \<Rightarrow>
          if inv_SubscriptionID invoice \<noteq> []
          then db_updates Subscription_schema (\<lambda>s. sub_ID s = inv_SubscriptionID invoice)
                 (\<lambda>s. s\<lparr>sub_Status := ''active'', sub_UpdatedAt := now\<rparr>) w1
          else (Inr (), w1))"

definition MarkInvoicePaid :: "string \<Rightarrow> world \<Rightarrow> unit result \<times> world" where
  "MarkInvoicePaid invoiceID w =
     (case db_first Invoice_schema (\<lambda>i. inv_ID i = invoiceID) w of
        (Inl e, w1) \<Rightarrow> (Inl e, w1)
      | (Inr invoice, w1) \<Rightarrow> db_transaction (mark_paid_tx invoiceID (clock w) invoice) w1)"

text \<open>\<^verbatim>\<open>_ = s.db.First(&invoice, ...)\<close> into a struct that keeps its old value when the query fails.\<close>

definition reload_invoice :: "Invoice \<Rightarrow> string \<Rightarrow> world \<Rightarrow> Invoice \<times> world" where
  "reload_invoice old invoiceID w = (case db_first Invoice_schema (\<lambda>i. inv_ID i = invoiceID) w of
     (Inl _, w1) \<Rightarrow> (old, w1) | (Inr i, w1) \<Rightarrow> (i, w1))"

definition VerifyInvoicePayment :: "PaymentProvider \<Rightarrow> string \<Rightarrow> world \<Rightarrow> Invoice result \<times> world" where
  "VerifyInvoicePayment provider invoiceID w =
     (case db_first Invoice_schema (\<lambda>i. inv_ID i = invoiceID) w of
        (Inl e, w1) \<Rightarrow> (Inl e, w1)
      | (Inr invoice, w1) \<Rightarrow> (case VerifyPayment provider (inv_PaymentRef invoice) w1 of
          (Inl e, w2) \<Rightarrow> (Inl e, w2)
        | (Inr ok, w2) \<Rightarrow>
            (case (if ok \<and> inv_Status invoice \<noteq> ''paid''
                   then (case MarkInvoicePaid (inv_ID invoice) w2 of
                           (Inl e, w3) \<Rightarrow> (Inl e, w3)
                         | (Inr _, w3) \<Rightarrow> (case reload_invoice invoice invoiceID w3 of (i, w4) \<Rightarrow> (Inr i, w4)))
                   else (Inr invoice, w2)) of
               (Inl e, w5) \<Rightarrow> (Inl e, w5)
             | (Inr i, w5) \<Rightarrow> (Inr i, Audit ''admin'' ''system'' ''INVOICE_PAYMENT_VERIFIED'' invoiceID
                 ''invoice'' (Some [(''paid'', JBool ok)]) w5))))"

definition RefundInvoice :: "PaymentProvider \<Rightarrow> string \<Rightarrow> world \<Rightarrow> Invoice result \<times> world" where
  "RefundInvoice provider invoiceID w =
     (case db_first Invoice_schema (\<lambda>i. inv_ID i = invoiceID) w of
        (Inl e, w1) \<Rightarrow> (Inl e, w1)
      | (Inr invoice, w1) \<Rightarrow>
          if inv_Status invoice \<noteq> ''paid''
          then (Inl (ErrMsg ''only paid invoices can be refunded''), w1)
          else (case RefundPayment provider (inv_PaymentRef invoice) (inv_Amount invoice) w1 of
            (Inl e, w2) \<Rightarrow> (Inl e, w2)
          | (Inr _, w2) \<Rightarrow>
              (case db_updates Invoice_schema (\<lambda>i. inv_ID i = invoiceID)
                      (inv_Status_update (\<lambda>_. ''refunded'')) w2 of
                 (Inl e, w3) \<Rightarrow> (Inl e, w3)
               | (Inr _, w3) \<Rightarrow> (case reload_invoice invoice invoiceID w3 of (i, w4) \<Rightarrow>
                   (Inr i, Audit ''admin'' ''system'' ''INVOICE_REFUNDED'' invoiceID ''invoice''
                      (Some [(''amount'', JReal (inv_Amount i))]) w4)))))"

record PaymentStatusReport =
  ps_invoice_id :: string
  ps_invoice_status :: string
  ps_provider :: string
  ps_payment_ref :: string
  ps_provider_status :: string

definition InvoicePaymentStatus ::
  "PaymentProvider \<Rightarrow> string \<Rightarrow> world \<Rightarrow> PaymentStatusReport result \<times> world" where
  "InvoicePaymentStatus provider invoiceID w =
     (case db_first Invoice_schema (\<lambda>i. inv_ID i = invoiceID) w of
        (Inl e, w1) \<Rightarrow> (Inl e, w1)
      | (Inr invoice, w1) \<Rightarrow> (case GetPaymentStatus provider (inv_PaymentRef invoice) w1 of
          (Inl e, w2) \<Rightarrow> (Inl e, w2)
        | (Inr st, w2) \<Rightarrow> (Inr \<lparr>ps_invoice_id = inv_ID invoice, ps_invoice_status = inv_Status invoice,
            ps_provider = inv_Provider invoice, ps_payment_ref = inv_PaymentRef invoice,
            ps_provider_status = st\<rparr>, w2)))"

section \<open>Customers\<close>

definition billing_SuspendCustomer :: "string \<Rightarrow> world \<Rightarrow> unit result \<times> world" where
  "billing_SuspendCustomer customerID w =
     (let now = clock w in
      db_transaction (\<lambda>w.
        case db_updates Customer_schema (\<lambda>c. cu_ID c = customerID)
               (\<lambda>c. c\<lparr>cu_Status := ''suspended'', cu_UpdatedAt := now\<rparr>) w of
          (Inl e, w1) \<Rightarrow> (Inl e, w1)
        | (Inr _, w1) \<Rightarrow>
            (case db_updates Subscription_schema (\<lambda>s. sub_CustomerID s = customerID)
                    (\<lambda>s. s\<lparr>sub_Status := ''suspended'', sub_UpdatedAt := now\<rparr>) w1 of
               (Inl e, w2) \<Rightarrow> (Inl e, w2)
             | (Inr _, w2) \<Rightarrow> db_updates CustomerProxyAllocation_schema
                 (\<lambda>a. cpa_CustomerID a = customerID \<and> cpa_Status a = ''active'')
                 (\<lambda>a. a\<lparr>cpa_Status := ''suspended'', cpa_UpdatedAt := now\<rparr>) w2)) w)"

definition ActivateCustomer :: "string \<Rightarrow> world \<Rightarrow> unit result \<times> world" where
  "ActivateCustomer customerID w =
     db_updates Customer_schema (\<lambda>c. cu_ID c = customerID)
       (\<lambda>c. c\<lparr>cu_Status := ''active'', cu_UpdatedAt := clock w\<rparr>) w"

section \<open>Reports\<close>

record BillingReport =
  bo_total_customers :: int
  bo_active_customers :: int
  bo_active_subscriptions :: int
  bo_monthly_revenue :: real
  bo_pending_payments :: int
  bo_expired_accounts :: int

definition paid_since :: "time \<Rightarrow> Invoice \<Rightarrow> bool" where
  "paid_since t i \<longleftrightarrow> inv_Status i = ''paid'' \<and> (case inv_PaidAt i of None \<Rightarrow> False | Some p \<Rightarrow> t \<le> p)"

definition BillingOverview :: "world \<Rightarrow> BillingReport \<times> world" where
  "BillingOverview w =
     (let now = clock w;
          (total, w1) = db_count Customer_schema (\<lambda>_. True) w;
          (active, w2) = db_count Customer_schema (\<lambda>c. cu_Status c = ''active'') w1;
          (subs, w3) = db_count Subscription_schema (\<lambda>s. sub_Status s = ''active'' \<and> now < sub_ExpiresAt s) w2;
          (pending, w4) = db_count Invoice_schema (\<lambda>i. inv_Status i = ''pending'') w3;
          (expired, w5) = db_count Subscription_schema (\<lambda>s. sub_Status s = ''expired'' \<or> sub_ExpiresAt s \<le> now) w4;
          (paid, w6) = db_find Invoice_schema (paid_since (firstOfMonth now)) w5
      in (\<lparr>bo_total_customers = total, bo_active_customers = active, bo_active_subscriptions = subs,
           bo_monthly_revenue = sum_list (map inv_Amount (rows_or_empty paid)),
           bo_pending_payments = pending, bo_expired_accounts = expired\<rparr>, w6))"

definition ListSubscriptions :: "int \<Rightarrow> world \<Rightarrow> Subscription list result \<times> world" where
  "ListSubscriptions limit w =
     (case db_find_ordered Subscription_schema (\<lambda>s. - sub_CreatedAt s) (\<lambda>_. True) w of
        (Inl e, w1) \<Rightarrow> (Inl e, w1) | (Inr rows, w1) \<Rightarrow> (Inr (limit_rows limit rows), w1))"

definition ListInvoices :: "int \<Rightarrow> world \<Rightarrow> Invoice list result \<times> world" where
  "ListInvoices limit w =
     (case db_find_ordered Invoice_schema (\<lambda>i. - inv_CreatedAt i) (\<lambda>_. True) w of
        (Inl e, w1) \<Rightarrow> (Inl e, w1) | (Inr rows, w1) \<Rightarrow> (Inr (limit_rows limit rows), w1))"

definition ListAuditEvents :: "int \<Rightarrow> world \<Rightarrow> AuditEvent list result \<times> world" where
  "ListAuditEvents limit w =
     (case db_find_ordered AuditEvent_schema (\<lambda>e. - ae_CreatedAt e) (\<lambda>_. True) w of
        (Inl e, w1) \<Rightarrow> (Inl e, w1) | (Inr rows, w1) \<Rightarrow> (Inr (limit_rows limit rows), w1))"

text \<open>The answer of \<^verbatim>\<open>UsageDashboard\<close>; \<^verbatim>\<open>keys\<close> lists a map in no order, so the lists are sets here.\<close>

record UsageReport =
  ur_bandwidth_used_gb :: real
  ur_bandwidth_remaining_gb :: real
  ur_active_proxies :: int
  ur_subscription_status :: string
  ur_plan_name :: string
  ur_renewal_date :: time
  ur_current_public_ips :: "string set"
  ur_countries_used :: "string set"

datatype usage = UsageInactive | UsageActive UsageReport

fun usage_ips :: "CustomerProxyAllocation list \<Rightarrow> world \<Rightarrow> string set \<times> world" where
  "usage_ips [] w = ({}, w)"
| "usage_ips (a # as) w =
     (case db_first Proxy_schema (\<lambda>p. px_ID p = cpa_ProxyID a) w of (r, w1) \<Rightarrow>
      case usage_ips as w1 of (ips, w2) \<Rightarrow>
        (case r of
           Inl _ \<Rightarrow> (ips, w2)
         | Inr p \<Rightarrow> let addr = (if px_PublicIP p = [] then px_Host p else px_PublicIP p) in
             (if addr = [] then ips else insert addr ips, w2)))"

definition sum64 :: "nat list \<Rightarrow> 64 word" where
  "sum64 ns = sum_list (map of_nat ns)"

definition UsageDashboard :: "string \<Rightarrow> world \<Rightarrow> usage result \<times> world" where
  "UsageDashboard customerID w =
     (case ActiveCommercialSubscription customerID w of
        (Inl _, w1) \<Rightarrow> (Inr UsageInactive, w1)
      | (Inr (sub, plan), w1) \<Rightarrow>
          (case db_find CustomerProxyAllocation_schema
             (\<lambda>a. cpa_CustomerID a = customerID \<and> cpa_Status a \<noteq> ''deleted'') w1 of
             (Inl e, w2) \<Rightarrow> (Inl e, w2)
           | (Inr allocs, w2) \<Rightarrow>
               (case usage_ips allocs w2 of (ips, w3) \<Rightarrow>
                let total = sum64 (map cpa_BandwidthIn allocs) + sum64 (map cpa_BandwidthOut allocs);
                    usedGB = real (unat total) / 1024 / 1024 / 1024;
                    remaining = real_of_int (pl_BandwidthLimitGB plan) - usedGB
                in (Inr (UsageActive \<lparr>ur_bandwidth_used_gb = usedGB,
                      ur_bandwidth_remaining_gb = (if remaining < 0 then 0 else remaining),
                      ur_active_proxies = int (length allocs), ur_subscription_status = sub_Status sub,
                      ur_plan_name = pl_Name plan, ur_renewal_date = sub_ExpiresAt sub,
                      ur_current_public_ips = ips,
                      ur_countries_used = set (map cpa_Country allocs) - {[]}\<rparr>), w3))))"

text \<open>\<^verbatim>\<open>backupPayload\<close>, for a file system that is the function \<open>read_file\<close>.\<close>

record BackupPayload =
  bp_exported_at :: string
  bp_plans :: "Plan list"
  bp_subscriptions :: "Subscription list"
  bp_invoices :: "Invoice list"
  bp_audit_events :: "AuditEvent list"
  bp_audit_logs :: "AuditLog list"
  bp_configs :: "string \<rightharpoonup> string"

definition backupPayload ::
  "(string \<Rightarrow> string option) \<Rightarrow> string list \<Rightarrow> world \<Rightarrow> BackupPayload result \<times> world" where
  "backupPayload read_file configPaths w =
     (let (audits, w1) = db_find_ordered AuditEvent_schema (\<lambda>e. - ae_CreatedAt e) (\<lambda>_. True) w;
          (logs, w2) = db_find_ordered AuditLog_schema (\<lambda>l. - al_Timestamp l) (\<lambda>_. True) w1;
          (ps, w3) = db_find Plan_schema (\<lambda>_. True) w2;
          (subs, w4) = db_find Subscription_schema (\<lambda>_. True) w3;
          (invs, w5) = db_find Invoice_schema (\<lambda>_. True) w4
      in (Inr \<lparr>bp_exported_at = rfc3339 (clock w), bp_plans = rows_or_empty ps,
            bp_subscriptions = rows_or_empty subs, bp_invoices = rows_or_empty invs,
            bp_audit_events = limit_rows 5000 (rows_or_empty audits),
            bp_audit_logs = limit_rows 5000 (rows_or_empty logs),
            bp_configs = (\<lambda>p. if p \<in> set configPaths then read_file p else None)\<rparr>, w5))"

end
