(* ===== verification/Customer.thy ===== *)
theory Customer imports Billing GoCrypto begin

text \<open>
  \<^verbatim>\<open>internal/customer/service.go\<close>: accounts, bearer tokens and API keys, subscriptions of the first plan
  generation, and the allocation of proxies to customers. \<^verbatim>\<open>golang.org/x/crypto/bcrypt\<close> is a parameter:
  a hash of a password with the salt of the given draw (or its error), and the comparison. The
  interfaces \<^verbatim>\<open>SubscriptionEnforcer\<close> and \<^verbatim>\<open>RoutingSelector\<close> are records of functions; \<open>None\<close> is the nil
  interface.
\<close>

section \<open>What the service is connected to\<close>

record bcrypt =
  bc_generate :: "string \<Rightarrow> nat \<Rightarrow> string result"
  bc_compare :: hash_check

record SubscriptionEnforcer =
  se_EnforceAllocation :: "string \<Rightarrow> string \<Rightarrow> world \<Rightarrow> (Subscription \<times> Plan) result \<times> world"
  se_ActiveSubscription :: "string \<Rightarrow> world \<Rightarrow> (Subscription \<times> Plan) result \<times> world"
  se_UsageDashboard :: "string \<Rightarrow> world \<Rightarrow> usage result \<times> world"

type_synonym RoutingSelector = "RoutingSelectionInput \<Rightarrow> world \<Rightarrow> Proxy result \<times> world"

record CustomerService =
  svc_bcrypt :: bcrypt
  svc_enforcer :: "SubscriptionEnforcer option"
  svc_router :: "RoutingSelector option"

record Principal =
  pr_Customer :: Customer
  pr_APIKeyID :: string

record AllocatedProxy =
  alp_ID :: string
  alp_Type :: string
  alp_Host :: string
  alp_Port :: int
  alp_Username :: string
  alp_Password :: string
  alp_Country :: string
  alp_PublicIP :: string
  alp_RotationMode :: string
  alp_Health :: string
  alp_Status :: string
  alp_BandwidthIn :: nat
  alp_BandwidthOut :: nat

section \<open>Helpers\<close>

definition customer_audit :: "string \<Rightarrow> string \<Rightarrow> world \<Rightarrow> world" where
  "customer_audit action details w = snd (db_create AuditLog_schema
     (zero_AuditLog\<lparr>al_Action := action, al_Details := details, al_Timestamp := clock w\<rparr>) w)"

definition sha256Hex :: "string \<Rightarrow> string" where
  "sha256Hex s = hex_encode (sha256_sum (string_bytes s))"

definition randomHex :: "nat \<Rightarrow> world \<Rightarrow> string result \<times> world" where
  "randomHex n w = (case rand_read n w of
     (None, w1) \<Rightarrow> (Inl (ErrMsg ''rand read''), w1) | (Some b, w1) \<Rightarrow> (Inr (hex_encode b), w1))"

text \<open>\<^verbatim>\<open>bcrypt.GenerateFromPassword\<close> draws its salt from the random supply.\<close>

definition generate_hash :: "bcrypt \<Rightarrow> string \<Rightarrow> world \<Rightarrow> string result \<times> world" where
  "generate_hash bc pw w = (bc_generate bc pw (rand_next w), w\<lparr>rand_next := Suc (rand_next w)\<rparr>)"

definition generateProxyCredential :: "bcrypt \<Rightarrow> world \<Rightarrow> (string \<times> string \<times> string) result \<times> world" where
  "generateProxyCredential bc =
     and_then (randomHex 5) (\<lambda>userSuffix.
     and_then (randomHex 10) (\<lambda>pass.
     and_then (generate_hash bc pass) (\<lambda>hash w. (Inr (''user_'' @ userSuffix, pass, hash), w))))"

definition customer_jsonListAllows :: "string \<Rightarrow> string \<Rightarrow> bool" where
  "customer_jsonListAllows raw value =
     (if raw = [] \<or> raw = ''[]'' then True
      else case parse_strings raw of None \<Rightarrow> True | Some values \<Rightarrow> list_ex (\<lambda>v. equal_fold v value) values)"

definition defaultRotation :: "string \<Rightarrow> string" where
  "defaultRotation mode = (if mode = [] then ''static'' else mode)"

definition countryFromProxy :: "Proxy \<Rightarrow> string \<Rightarrow> string" where
  "countryFromProxy p fallback = (if px_Country p \<noteq> [] then px_Country p else fallback)"

definition toAllocatedProxy ::
  "CustomerProxyAllocation \<Rightarrow> Proxy \<Rightarrow> CustomerProxyCredential \<Rightarrow> string \<Rightarrow> AllocatedProxy" where
  "toAllocatedProxy alloc p cred plainPassword =
     (let h1 = (if px_PublicIP p = [] then px_Host p else px_PublicIP p);
          host = (if h1 = [] then ''127.0.0.1'' else h1)
      in \<lparr>alp_ID = cpa_ID alloc, alp_Type = px_Type p, alp_Host = host, alp_Port = px_Port p,
          alp_Username = cpc_Username cred, alp_Password = plainPassword,
          alp_Country = countryFromProxy p (cpa_Country alloc), alp_PublicIP = px_PublicIP p,
          alp_RotationMode = cpa_RotationMode alloc, alp_Health = px_Status p, alp_Status = cpa_Status alloc,
          alp_BandwidthIn = cpa_BandwidthIn alloc, alp_BandwidthOut = cpa_BandwidthOut alloc\<rparr>)"

section \<open>Plans and subscriptions\<close>

definition default_proxy_plan ::
  "string \<Rightarrow> string \<Rightarrow> int \<Rightarrow> int \<Rightarrow> string list \<Rightarrow> int \<Rightarrow> real \<Rightarrow> ProxyPlan" where
  "default_proxy_plan i n maxp gb modes conc price = zero_ProxyPlan\<lparr>pp_ID := i, pp_Name := n,
     pp_MaxProxies := maxp, pp_AllowedCountries := ''[]'', pp_BandwidthLimitGB := gb,
     pp_RotationModes := json_strings modes, pp_ConcurrentConnections := conc, pp_Price := price,
     pp_Status := ''active''\<rparr>"

definition customer_default_plans :: "ProxyPlan list" where
  "customer_default_plans =
     [default_proxy_plan ''starter'' ''Starter'' 5 50 [''static'', ''sticky_30m''] 25 19,
      default_proxy_plan ''professional'' ''Professional'' 25 250
        [''static'', ''sticky_30m'', ''sticky_6h'', ''rotating''] 100 79,
      default_proxy_plan ''business'' ''Business'' 100 1000
        [''static'', ''sticky_30m'', ''sticky_6h'', ''sticky_24h'', ''rotating''] 500 249]"

definition ensure_proxy_plan :: "ProxyPlan \<Rightarrow> world \<Rightarrow> world" where
  "ensure_proxy_plan plan w = (case db_first ProxyPlan_schema (\<lambda>p. pp_ID p = pp_ID plan) w of
     (Inr _, w1) \<Rightarrow> w1
   | (Inl _, w1) \<Rightarrow> snd (db_create ProxyPlan_schema
       (plan\<lparr>pp_CreatedAt := clock w1, pp_UpdatedAt := clock w1\<rparr>) w1))"

definition customer_EnsureDefaultPlans :: "world \<Rightarrow> world" where
  "customer_EnsureDefaultPlans w = fold ensure_proxy_plan customer_default_plans w"

definition customer_ListPlans :: "world \<Rightarrow> ProxyPlan list result \<times> world" where
  "customer_ListPlans w = db_find_ordered ProxyPlan_schema pp_Price (\<lambda>p. pp_Status p = ''active'') w"

definition customer_CreatePlan :: "ProxyPlan \<Rightarrow> world \<Rightarrow> ProxyPlan result \<times> world" where
  "customer_CreatePlan plan w =
     (let (i, w1) = (if pp_ID plan = [] then new_uuid w else (pp_ID plan, w)) in
      db_create ProxyPlan_schema
        (plan\<lparr>pp_ID := i, pp_CreatedAt := clock w1, pp_UpdatedAt := clock w1,
              pp_Status := (if pp_Status plan = [] then ''active'' else pp_Status plan)\<rparr>) w1)"

definition ActivateSubscription :: "string \<Rightarrow> string \<Rightarrow> int \<Rightarrow> world \<Rightarrow> CustomerSubscription result \<times> world" where
  "ActivateSubscription customerID planID days w =
     (let d = (if days = 0 then 30 else days); now = clock w; (u, w1) = new_uuid w in
      db_create CustomerSubscription_schema
        (zero_CustomerSubscription\<lparr>csub_ID := u, csub_CustomerID := customerID, csub_PlanID := planID,
           csub_Status := ''active'', csub_StartsAt := now, csub_ExpiresAt := now + days_long d,
           csub_UsageResetAt := now + 30 * 24 * hour, csub_CreatedAt := now, csub_UpdatedAt := now\<rparr>) w1)"

text \<open>A commercial subscription and plan in the shape of the first generation's.\<close>

definition commercial_subscription :: "Subscription \<Rightarrow> CustomerSubscription" where
  "commercial_subscription s = zero_CustomerSubscription\<lparr>csub_ID := sub_ID s, csub_CustomerID := sub_CustomerID s,
     csub_PlanID := sub_PlanID s, csub_Status := sub_Status s, csub_StartsAt := sub_StartsAt s,
     csub_ExpiresAt := sub_ExpiresAt s, csub_CreatedAt := sub_CreatedAt s, csub_UpdatedAt := sub_UpdatedAt s\<rparr>"

definition commercial_plan :: "Plan \<Rightarrow> ProxyPlan" where
  "commercial_plan p = zero_ProxyPlan\<lparr>pp_ID := pl_ID p, pp_Name := pl_Name p, pp_MaxProxies := pl_MaxProxies p,
     pp_AllowedCountries := pl_AllowedCountries p, pp_BandwidthLimitGB := pl_BandwidthLimitGB p,
     pp_ConcurrentConnections := pl_ConcurrentConnections p, pp_Price := pl_Price p, pp_Status := pl_Status p,
     pp_CreatedAt := pl_CreatedAt p, pp_UpdatedAt := pl_UpdatedAt p\<rparr>"

definition legacySubscription :: "string \<Rightarrow> world \<Rightarrow> (CustomerSubscription \<times> ProxyPlan) result \<times> world" where
  "legacySubscription customerID w =
     (case db_first_ordered CustomerSubscription_schema (\<lambda>s. - csub_ExpiresAt s)
        (\<lambda>s. csub_CustomerID s = customerID \<and> csub_Status s = ''active'' \<and> clock w < csub_ExpiresAt s) w of
        (Inl _, w1) \<Rightarrow> (Inl (ErrMsg ''active subscription required''), w1)
      | (Inr sub, w1) \<Rightarrow>
          (case db_first ProxyPlan_schema (\<lambda>p. pp_ID p = csub_PlanID sub \<and> pp_Status p = ''active'') w1 of
             (Inl _, w2) \<Rightarrow> (Inl (ErrMsg ''active plan required''), w2)
           | (Inr plan, w2) \<Rightarrow> (Inr (sub, plan), w2)))"

definition activeSubscription ::
  "CustomerService \<Rightarrow> string \<Rightarrow> world \<Rightarrow> (CustomerSubscription \<times> ProxyPlan) result \<times> world" where
  "activeSubscription svc customerID w =
     (case svc_enforcer svc of
        None \<Rightarrow> legacySubscription customerID w
      | Some se \<Rightarrow> (case se_ActiveSubscription se customerID w of
          (Inr (sub, plan), w1) \<Rightarrow> (Inr (commercial_subscription sub, commercial_plan plan), w1)
        | (Inl _, w1) \<Rightarrow> legacySubscription customerID w1))"

definition checkAllocationAllowed :: "string \<Rightarrow> ProxyPlan \<Rightarrow> string \<Rightarrow> string \<Rightarrow> world \<Rightarrow> unit result \<times> world" where
  "checkAllocationAllowed customerID plan country rotationMode w =
     (case db_count CustomerProxyAllocation_schema
        (\<lambda>a. cpa_CustomerID a = customerID \<and> cpa_Status a = ''active'') w of (count, w1) \<Rightarrow>
      if 0 < pp_MaxProxies plan \<and> pp_MaxProxies plan \<le> count
      then (Inl (ErrMsg ''plan proxy limit reached''), w1)
      else if country \<noteq> [] \<and> \<not> customer_jsonListAllows (pp_AllowedCountries plan) country
      then (Inl (ErrMsg ''country is not allowed by plan''), w1)
      else if rotationMode \<noteq> [] \<and> \<not> customer_jsonListAllows (pp_RotationModes plan) rotationMode
      then (Inl (ErrMsg ''rotation mode is not allowed by plan''), w1)
      else (Inr (), w1))"

section \<open>Accounts and tokens\<close>

definition createSession :: "string \<Rightarrow> world \<Rightarrow> string result \<times> world" where
  "createSession customerID = and_then (randomHex 32) (\<lambda>token w.
     let (u, w1) = new_uuid w in
     and_then (db_create CustomerSession_schema
       (zero_CustomerSession\<lparr>cs_ID := u, cs_CustomerID := customerID, cs_TokenHash := sha256Hex token,
          cs_ExpiresAt := clock w1 + 24 * hour, cs_CreatedAt := clock w1\<rparr>)) (\<lambda>_ w. (Inr token, w)) w1)"

definition normal_email :: "string \<Rightarrow> string" where
  "normal_email email = to_lower (trim_space email)"

definition Register :: "CustomerService \<Rightarrow> string \<Rightarrow> string \<Rightarrow> world \<Rightarrow> (Customer \<times> string) result \<times> world" where
  "Register svc email password w =
     (if normal_email email = [] \<or> password = [] then (Inl (ErrMsg ''email and password are required''), w)
      else and_then (generate_hash (svc_bcrypt svc) password) (\<lambda>hash w.
        let now = clock w; (u, w1) = new_uuid w in
        and_then (db_create Customer_schema
          (zero_Customer\<lparr>cu_ID := u, cu_Email := normal_email email, cu_PasswordHash := hash,
             cu_Status := ''active'', cu_Role := ''customer'', cu_CreatedAt := now, cu_UpdatedAt := now\<rparr>)) (\<lambda>c w.
          let (v, w2) = new_uuid w;
              (_, w3) = db_create CustomerCredential_schema
                (zero_CustomerCredential\<lparr>cc_ID := v, cc_CustomerID := cu_ID c, cc_PasswordHash := hash,
                   cc_CreatedAt := now, cc_UpdatedAt := now\<rparr>) w2
          in and_then (createSession (cu_ID c)) (\<lambda>token w.
               (Inr (c, token),
                customer_audit ''CUSTOMER_REGISTERED'' (''Customer registered: '' @ cu_Email c) w)) w3) w1) w)"

definition Login :: "CustomerService \<Rightarrow> string \<Rightarrow> string \<Rightarrow> world \<Rightarrow> (Customer \<times> string) result \<times> world" where
  "Login svc email password w =
     (case db_first Customer_schema (\<lambda>c. cu_Email c = normal_email email) w of
        (Inl _, w1) \<Rightarrow> (Inl (ErrMsg ''invalid credentials''), w1)
      | (Inr c, w1) \<Rightarrow>
          if cu_Status c \<noteq> ''active'' then (Inl (ErrMsg ''customer is not active''), w1)
          else if \<not> bc_compare (svc_bcrypt svc) (cu_PasswordHash c) password
          then (Inl (ErrMsg ''invalid credentials''), w1)
          else and_then (createSession (cu_ID c)) (\<lambda>token w. (Inr (c, token), w)) w1)"

definition getActiveCustomer :: "string \<Rightarrow> world \<Rightarrow> Customer result \<times> world" where
  "getActiveCustomer i w =
     and_then (db_first Customer_schema (\<lambda>c. cu_ID c = i)) (\<lambda>c w.
       if cu_Status c \<noteq> ''active'' then (Inl (ErrMsg ''customer is not active''), w) else (Inr c, w)) w"

text \<open>\<open>AuthenticateBearer\<close>, from the hash of the token on.\<close>

definition authenticate_hash :: "string \<Rightarrow> world \<Rightarrow> Principal result \<times> world" where
  "authenticate_hash hash w =
     (case db_first CustomerSession_schema (\<lambda>s. cs_TokenHash s = hash \<and> cs_RevokedAt s = None) w of
        (Inr session, w1) \<Rightarrow>
          if cs_ExpiresAt session < clock w1 then (Inl (ErrMsg ''session expired''), w1)
          else and_then (getActiveCustomer (cs_CustomerID session)) (\<lambda>c w.
                 (Inr \<lparr>pr_Customer = c, pr_APIKeyID = []\<rparr>, w)) w1
      | (Inl _, w1) \<Rightarrow>
          (case db_first CustomerApiKey_schema (\<lambda>k. ck_KeyHash k = hash \<and> ck_Status k = ''active'') w1 of
             (Inr apiKey, w2) \<Rightarrow>
               and_then (getActiveCustomer (ck_CustomerID apiKey)) (\<lambda>c w.
                 (Inr \<lparr>pr_Customer = c, pr_APIKeyID = ck_ID apiKey\<rparr>,
                  snd (db_save CustomerApiKey_schema (apiKey\<lparr>ck_LastUsedAt := Some (clock w)\<rparr>) w))) w2
           | (Inl _, w2) \<Rightarrow> (Inl (ErrMsg ''invalid token''), w2)))"

definition bearer_token :: "string \<Rightarrow> string" where
  "bearer_token header = trim_space (drop (length ''Bearer '') header)"

definition AuthenticateBearer :: "string \<Rightarrow> world \<Rightarrow> Principal result \<times> world" where
  "AuthenticateBearer header w =
     (if \<not> has_prefix header ''Bearer '' then (Inl (ErrMsg ''missing bearer token''), w)
      else authenticate_hash (sha256Hex (bearer_token header)) w)"

definition CreateAPIKey :: "string \<Rightarrow> string \<Rightarrow> world \<Rightarrow> (CustomerApiKey \<times> string) result \<times> world" where
  "CreateAPIKey customerID name = and_then (randomHex 32) (\<lambda>plain w.
     let prefix = (if 10 < length plain then take 10 plain else plain); (u, w1) = new_uuid w in
     and_then (db_create CustomerApiKey_schema
       (zero_CustomerApiKey\<lparr>ck_ID := u, ck_CustomerID := customerID, ck_Name := name,
          ck_KeyHash := sha256Hex plain, ck_Prefix := prefix, ck_Status := ''active'',
          ck_CreatedAt := clock w1\<rparr>)) (\<lambda>key w. (Inr (key, plain), w)) w1)"

definition DeleteAPIKey :: "string \<Rightarrow> string \<Rightarrow> world \<Rightarrow> unit result \<times> world" where
  "DeleteAPIKey customerID i w =
     db_updates CustomerApiKey_schema (\<lambda>k. ck_ID k = i \<and> ck_CustomerID k = customerID)
       (ck_Status_update (\<lambda>_. ''revoked'')) w"

section \<open>Allocations\<close>

text \<open>The candidates of the fallback search, newest update first.\<close>

definition proxy_candidate :: "string \<Rightarrow> string \<Rightarrow> world \<Rightarrow> Proxy \<Rightarrow> bool" where
  "proxy_candidate country proxyType w p \<longleftrightarrow>
     px_Status p \<noteq> ''error'' \<and> (proxyType = [] \<or> px_Type p = proxyType) \<and>
     (country = [] \<or> px_Country p = country \<or>
      px_AgentID p \<in> set (map ag_ID (filter (\<lambda>a. ag_Status a \<noteq> ''offline'') (agents w))))"

definition search_proxy :: "string \<Rightarrow> string \<Rightarrow> world \<Rightarrow> Proxy result \<times> world" where
  "search_proxy country proxyType w =
     and_then (db_find_ordered Proxy_schema (\<lambda>p. - px_UpdatedAt p) (proxy_candidate country proxyType w)) (\<lambda>candidates w.
       case db_find CustomerProxyAllocation_schema (\<lambda>a. cpa_Status a = ''active'') w of (existing, w1) \<Rightarrow>
         let allocated = set (map cpa_ProxyID (rows_or_empty existing)) in
         (case find (\<lambda>p. px_ID p \<notin> allocated \<and> px_Status p \<noteq> ''error'') candidates of
            None \<Rightarrow> (Inl (ErrMsg ''no healthy unallocated proxy available for requested filters''), w1)
          | Some p \<Rightarrow> (Inr p, w1))) w"

definition route_input :: "string \<Rightarrow> string \<Rightarrow> string \<Rightarrow> string \<Rightarrow> string \<Rightarrow> RoutingSelectionInput" where
  "route_input customerID country rotationMode proxyType planID =
     zero_RoutingSelectionInput\<lparr>rsi_CustomerID := customerID, rsi_Country := country,
       rsi_ProxyType := proxyType, rsi_PlanID := planID, rsi_RotationMode := defaultRotation rotationMode,
       rsi_SessionKey := customerID @ '':'' @ country, rsi_Strategy := ''weighted_score''\<rparr>"

definition choose_proxy ::
  "CustomerService \<Rightarrow> string \<Rightarrow> string \<Rightarrow> string \<Rightarrow> string \<Rightarrow> string \<Rightarrow> world \<Rightarrow> Proxy result \<times> world" where
  "choose_proxy svc customerID country rotationMode proxyType planID w =
     (case svc_router svc of
        None \<Rightarrow> search_proxy country proxyType w
      | Some route \<Rightarrow>
          (case route (route_input customerID country rotationMode proxyType planID) w of
             (Inr p, w1) \<Rightarrow> if px_ID p \<noteq> [] then (Inr p, w1) else search_proxy country proxyType w1
           | (Inl _, w1) \<Rightarrow> search_proxy country proxyType w1))"

definition allocation_tx ::
  "CustomerProxyCredential \<Rightarrow> CustomerProxyAllocation \<Rightarrow> world \<Rightarrow>
    (CustomerProxyCredential \<times> CustomerProxyAllocation) result \<times> world" where
  "allocation_tx cred alloc =
     and_then (db_create CustomerProxyCredential_schema cred) (\<lambda>c.
     and_then (db_create CustomerProxyAllocation_schema alloc) (\<lambda>a.
     and_then (db_updates Proxy_schema (\<lambda>p. px_ID p = cpc_ProxyID cred)
       (\<lambda>p. p\<lparr>px_Username := cpc_Username cred, px_Password := cpc_PasswordHash cred\<rparr>)) (\<lambda>_ w. (Inr (c, a), w))))"

definition new_credential :: "string \<Rightarrow> string \<Rightarrow> string \<Rightarrow> string \<Rightarrow> string \<Rightarrow> time \<Rightarrow> CustomerProxyCredential" where
  "new_credential i username passHash customerID proxyID now = zero_CustomerProxyCredential\<lparr>cpc_ID := i,
     cpc_Username := username, cpc_PasswordHash := passHash, cpc_CustomerID := customerID,
     cpc_ProxyID := proxyID, cpc_Status := ''active'', cpc_CreatedAt := now\<rparr>"

definition new_allocation ::
  "string \<Rightarrow> string \<Rightarrow> string \<Rightarrow> string \<Rightarrow> string \<Rightarrow> string \<Rightarrow> string \<Rightarrow> time \<Rightarrow> CustomerProxyAllocation" where
  "new_allocation i customerID subID proxyID credID mode country now = zero_CustomerProxyAllocation\<lparr>cpa_ID := i,
     cpa_CustomerID := customerID, cpa_SubscriptionID := subID, cpa_ProxyID := proxyID,
     cpa_CredentialID := credID, cpa_RotationMode := mode, cpa_Country := country, cpa_Status := ''active'',
     cpa_CreatedAt := now, cpa_UpdatedAt := now\<rparr>"

text \<open>The second half of \<open>AllocateProxy\<close>: credentials for the chosen proxy and the transaction.\<close>

definition grant_proxy ::
  "CustomerService \<Rightarrow> string \<Rightarrow> string \<Rightarrow> string \<Rightarrow> string \<Rightarrow> Proxy \<Rightarrow> world \<Rightarrow> AllocatedProxy result \<times> world" where
  "grant_proxy svc customerID country rotationMode subID chosen =
     and_then (generateProxyCredential (svc_bcrypt svc)) (\<lambda>(username, password, passHash) w.
       let now = clock w; (credID, w1) = new_uuid w; (allocID, w2) = new_uuid w1;
           cred = new_credential credID username passHash customerID (px_ID chosen) now;
           alloc = new_allocation allocID customerID subID (px_ID chosen) credID (defaultRotation rotationMode)
                     (countryFromProxy chosen country) now
       in and_then (db_transaction (allocation_tx cred alloc)) (\<lambda>(c, a) w.
            (Inr (toAllocatedProxy a chosen c password),
             customer_audit ''CUSTOMER_PROXY_ALLOCATED''
               (''Customer '' @ customerID @ '' allocated proxy '' @ px_ID chosen) w)) w2)"

definition enforce_quota :: "CustomerService \<Rightarrow> string \<Rightarrow> string \<Rightarrow> world \<Rightarrow> unit result \<times> world" where
  "enforce_quota svc customerID country w =
     (case svc_enforcer svc of
        None \<Rightarrow> (Inr (), w)
      | Some se \<Rightarrow> and_then (se_EnforceAllocation se customerID country) (\<lambda>_ w. (Inr (), w)) w)"

definition AllocateProxy ::
  "CustomerService \<Rightarrow> string \<Rightarrow> string \<Rightarrow> string \<Rightarrow> string \<Rightarrow> world \<Rightarrow> AllocatedProxy result \<times> world" where
  "AllocateProxy svc customerID country rotationMode proxyType =
     and_then (activeSubscription svc customerID) (\<lambda>(sub, plan).
     and_then (enforce_quota svc customerID country) (\<lambda>_.
     and_then (checkAllocationAllowed customerID plan country rotationMode) (\<lambda>_.
     and_then (choose_proxy svc customerID country rotationMode proxyType (pp_ID plan)) (\<lambda>chosen.
       grant_proxy svc customerID country rotationMode (csub_ID sub) chosen))))"

fun list_allocations :: "CustomerProxyAllocation list \<Rightarrow> world \<Rightarrow> AllocatedProxy list \<times> world" where
  "list_allocations [] w = ([], w)"
| "list_allocations (alloc # rest) w =
     (case db_first Proxy_schema (\<lambda>p. px_ID p = cpa_ProxyID alloc) w of
        (Inl _, w1) \<Rightarrow> list_allocations rest w1
      | (Inr p, w1) \<Rightarrow>
          (case db_first CustomerProxyCredential_schema (\<lambda>c. cpc_ID c = cpa_CredentialID alloc) w1 of
             (Inl _, w2) \<Rightarrow> list_allocations rest w2
           | (Inr cred, w2) \<Rightarrow> (case list_allocations rest w2 of (out, w3) \<Rightarrow>
               (toAllocatedProxy alloc p cred [] # out, w3))))"

definition ListAllocatedProxies :: "string \<Rightarrow> world \<Rightarrow> AllocatedProxy list result \<times> world" where
  "ListAllocatedProxies customerID =
     and_then (db_find_ordered CustomerProxyAllocation_schema (\<lambda>a. - cpa_CreatedAt a)
       (\<lambda>a. cpa_CustomerID a = customerID \<and> cpa_Status a \<noteq> ''deleted''))
       (\<lambda>allocs w. case list_allocations allocs w of (out, w1) \<Rightarrow> (Inr out, w1))"

definition rotate_tx :: "CustomerProxyAllocation \<Rightarrow> string \<Rightarrow> string \<Rightarrow> time \<Rightarrow> world \<Rightarrow> Proxy result \<times> world" where
  "rotate_tx alloc username passHash now =
     and_then (db_updates_unique CustomerProxyCredential_schema (\<lambda>c. cpc_ID c = cpa_CredentialID alloc)
       (\<lambda>c. c\<lparr>cpc_Username := username, cpc_PasswordHash := passHash, cpc_RotatedAt := Some now\<rparr>)) (\<lambda>_.
     and_then (db_updates Proxy_schema (\<lambda>p. px_ID p = cpa_ProxyID alloc)
       (\<lambda>p. p\<lparr>px_Username := username, px_Password := passHash\<rparr>)) (\<lambda>_.
     db_first Proxy_schema (\<lambda>p. px_ID p = cpa_ProxyID alloc)))"

definition RotateCredential :: "CustomerService \<Rightarrow> string \<Rightarrow> string \<Rightarrow> world \<Rightarrow> AllocatedProxy result \<times> world" where
  "RotateCredential svc customerID allocationID =
     and_then (db_first CustomerProxyAllocation_schema (\<lambda>a. cpa_ID a = allocationID \<and> cpa_CustomerID a = customerID)) (\<lambda>alloc.
     and_then (generateProxyCredential (svc_bcrypt svc)) (\<lambda>(username, password, passHash) w.
       let now = clock w in
       and_then (db_transaction (rotate_tx alloc username passHash now)) (\<lambda>p w.
         (Inr (toAllocatedProxy alloc p
            (zero_CustomerProxyCredential\<lparr>cpc_ID := cpa_CredentialID alloc, cpc_Username := username,
               cpc_PasswordHash := passHash, cpc_CustomerID := customerID, cpc_ProxyID := cpa_ProxyID alloc,
               cpc_Status := ''active'', cpc_RotatedAt := Some now\<rparr>) password), w)) w))"

definition ReleaseProxy :: "string \<Rightarrow> string \<Rightarrow> world \<Rightarrow> unit result \<times> world" where
  "ReleaseProxy customerID allocationID w =
     db_updates CustomerProxyAllocation_schema (\<lambda>a. cpa_ID a = allocationID \<and> cpa_CustomerID a = customerID)
       (\<lambda>a. a\<lparr>cpa_Status := ''deleted'', cpa_UpdatedAt := clock w\<rparr>) w"

definition RotateProxy :: "CustomerService \<Rightarrow> string \<Rightarrow> string \<Rightarrow> world \<Rightarrow> AllocatedProxy result \<times> world" where
  "RotateProxy svc customerID allocationID =
     and_then (ReleaseProxy customerID allocationID) (\<lambda>_. AllocateProxy svc customerID [] ''rotating'' [])"

section \<open>Usage, credentials, export\<close>

datatype customer_usage = CommercialUsage UsageReport | RawUsage "64 word" "64 word" int

definition own_usage :: "string \<Rightarrow> world \<Rightarrow> customer_usage result \<times> world" where
  "own_usage customerID =
     and_then (db_find CustomerProxyAllocation_schema (\<lambda>a. cpa_CustomerID a = customerID)) (\<lambda>allocs w.
       (Inr (RawUsage (sum64 (map cpa_BandwidthIn allocs)) (sum64 (map cpa_BandwidthOut allocs))
          (int (length allocs))), w))"

definition customer_Usage :: "CustomerService \<Rightarrow> string \<Rightarrow> world \<Rightarrow> customer_usage result \<times> world" where
  "customer_Usage svc customerID w =
     (case svc_enforcer svc of
        None \<Rightarrow> own_usage customerID w
      | Some se \<Rightarrow> (case se_UsageDashboard se customerID w of
          (Inr (UsageActive r), w1) \<Rightarrow>
            if ur_subscription_status r \<noteq> ''inactive'' then (Inr (CommercialUsage r), w1)
            else own_usage customerID w1
        | (_, w1) \<Rightarrow> own_usage customerID w1))"

definition customer_ValidateProxyCredential ::
  "CustomerService \<Rightarrow> string \<Rightarrow> string \<Rightarrow> string \<Rightarrow> world \<Rightarrow> bool \<times> world" where
  "customer_ValidateProxyCredential svc proxyID username password w =
     (case db_first CustomerProxyCredential_schema
        (\<lambda>c. cpc_ProxyID c = proxyID \<and> cpc_Username c = username \<and> cpc_Status c = ''active'') w of
        (Inl _, w1) \<Rightarrow> (False, w1)
      | (Inr cred, w1) \<Rightarrow>
          (case db_first CustomerProxyAllocation_schema
             (\<lambda>a. cpa_ProxyID a = proxyID \<and> cpa_CustomerID a = cpc_CustomerID cred \<and> cpa_Status a = ''active'') w1 of
             (Inl _, w2) \<Rightarrow> (False, w2)
           | (Inr _, w2) \<Rightarrow> (case activeSubscription svc (cpc_CustomerID cred) w2 of
               (Inl _, w3) \<Rightarrow> (False, w3)
             | (Inr _, w3) \<Rightarrow> (bc_compare (svc_bcrypt svc) (cpc_PasswordHash cred) password, w3))))"

text \<open>The body of an export: the value of the JSON text, or the text itself.\<close>

datatype export_body = ExportJson "AllocatedProxy list" | ExportText string

definition newline :: string where "newline = [CHR 0x0A]"

definition csv_line :: "AllocatedProxy \<Rightarrow> string" where
  "csv_line p = alp_Host p @ '','' @ itoa (alp_Port p) @ '','' @ alp_Username p @ '',,'' @ alp_Type p @ '','' @
     alp_Country p @ '','' @ alp_RotationMode p @ newline"

definition plain_line :: "AllocatedProxy \<Rightarrow> string" where
  "plain_line p = alp_Host p @ '':'' @ itoa (alp_Port p) @ '':'' @ alp_Username p @ '':''"

definition ExportProxies :: "string \<Rightarrow> string \<Rightarrow> world \<Rightarrow> (string \<times> export_body) result \<times> world" where
  "ExportProxies customerID format =
     and_then (ListAllocatedProxies customerID) (\<lambda>items w.
       (Inr (if format = ''json'' then (''application/json'', ExportJson items)
             else if format = ''csv'' then (''text/csv'', ExportText
               (''host,port,username,password,type,country,rotation_mode'' @ newline @ concat (map csv_line items)))
             else (''text/plain'', ExportText (join newline (map plain_line items)))), w))"

end
