(* ===== verification/BillingFacts.thy ===== *)
theory BillingFacts imports Billing AbuseSafety begin

text \<open>
  What the billing service guarantees: the contract of a payment provider and what follows from it for
  refunds, atomic payment and suspension, sound quota enforcement, and what a status change does.
\<close>

lemmas invoices_frames [simp] = statement_frames [where get = invoices]
lemmas invoice_items_frames [simp] = statement_frames [where get = invoice_items]
lemmas subscriptions_frames [simp] = statement_frames [where get = subscriptions]
lemmas allocations_frames [simp] = statement_frames [where get = customer_proxy_allocations]
lemmas customers_frames [simp] = statement_frames [where get = customers]

lemma Audit_frame [simp]:
  "invoices (Audit a b c d e m w) = invoices w"
  "subscriptions (Audit a b c d e m w) = subscriptions w"
  "customer_proxy_allocations (Audit a b c d e m w) = customer_proxy_allocations w"
  "customers (Audit a b c d e m w) = customers w"
  "clock (Audit a b c d e m w) = clock w"
  "faults w = [] \<Longrightarrow> faults (Audit a b c d e m w) = []"
  by (simp_all add: Audit_def case_prod_beta Let_def)

section \<open>The contract of a payment provider\<close>

text \<open>A provider works outside the database: of the world it only draws from the supply of identifiers.\<close>

locale payment_provider =
  fixes pv :: PaymentProvider
  assumes checkout_world: "\<exists>n. snd (CreateCheckout pv req w) = w\<lparr>uuid_next := n\<rparr>"
    and verify_world: "\<exists>n. snd (VerifyPayment pv ref w) = w\<lparr>uuid_next := n\<rparr>"
    and refund_world: "\<exists>n. snd (RefundPayment pv ref amount w) = w\<lparr>uuid_next := n\<rparr>"
    and status_world: "\<exists>n. snd (GetPaymentStatus pv ref w) = w\<lparr>uuid_next := n\<rparr>"
begin

lemma refund_get:
  assumes "RefundPayment pv ref amount w = (r, w')" and "\<And>n w. get (w\<lparr>uuid_next := n\<rparr>) = get w"
  shows "get w' = get w"
  using refund_world [of ref amount w] assms by auto

lemma verify_get:
  assumes "VerifyPayment pv ref w = (r, w')" and "\<And>n w. get (w\<lparr>uuid_next := n\<rparr>) = get w"
  shows "get w' = get w"
  using verify_world [of ref w] assms by auto

lemma checkout_get:
  assumes "CreateCheckout pv req w = (r, w')" and "\<And>n w. get (w\<lparr>uuid_next := n\<rparr>) = get w"
  shows "get w' = get w"
  using checkout_world [of req w] assms by auto

lemma refund_result:
  assumes "RefundInvoice pv i w = (Inr invoice, w')" and "faults w = []"
  shows "faults w' = [] \<and> inv_Status invoice = ''refunded'' \<and> map inv_ID (invoices w') = map inv_ID (invoices w) \<and>
    (\<exists>old \<in> set (invoices w). inv_ID old = i \<and> inv_Status old = ''paid'') \<and>
    (\<forall>x \<in> set (invoices w'). inv_ID x = i \<longrightarrow> inv_Status x = ''refunded'')"
proof -
  let ?P = "\<lambda>x. inv_ID x = i"
  obtain old where old: "first_by inv_ID (filter ?P (invoices w)) = Some old" and paid: "inv_Status old = ''paid''"
    using assms by (auto simp: RefundInvoice_def split: option.splits if_splits)
  obtain u w2 where p: "RefundPayment pv (inv_PaymentRef old) (inv_Amount old) w = (Inr u, w2)"
    using assms old paid by (auto simp: RefundInvoice_def split: prod.splits sum.splits)
  have f: "faults w2 = []" and rows: "invoices w2 = invoices w"
    using refund_get [OF p, of faults] refund_get [OF p, of invoices] assms(2) by simp_all
  let ?rows = "update_where ?P (inv_Status_update (\<lambda>_. ''refunded'')) (invoices w)"
  have all: "\<forall>x \<in> set ?rows. inv_ID x = i \<longrightarrow> inv_Status x = ''refunded''"
    by (rule ball_update) simp_all
  have "old \<in> set (invoices w)" "inv_ID old = i" using first_by_filter [OF old] by auto
  then have "\<exists>x \<in> set ?rows. inv_ID x = i" by (intro bex_update [of old]) simp_all
  then obtain new where new: "first_by inv_ID (filter ?P ?rows) = Some new"
    using first_by_filter_ex [of ?rows ?P inv_ID] by blast
  then have ns: "inv_Status new = ''refunded''" using all first_by_filter [OF new] by blast
  have "RefundInvoice pv i w = (Inr new, Audit ''admin'' ''system'' ''INVOICE_REFUNDED'' i ''invoice''
      (Some [(''amount'', JReal (inv_Amount new))]) (invoices_update (update_where ?P (inv_Status_update (\<lambda>_. ''refunded''))) w2))"
    using new by (simp add: RefundInvoice_def assms(2) old paid p reload_invoice_def rows f)
  then have e: "invoice = new" "invoices w' = ?rows" "faults w' = []"
    using assms(1) f rows by auto
  have "map inv_ID (invoices w') = map inv_ID (invoices w)" unfolding e by (rule map_update_where) simp
  then show ?thesis using e ns all \<open>old \<in> set (invoices w)\<close> \<open>inv_ID old = i\<close> paid by auto
qed

end

lemma self_uuid: "\<exists>n. (w :: world) = w\<lparr>uuid_next := n\<rparr>"
  by (rule exI [where x = "uuid_next w"]) simp

interpretation mock_provider: payment_provider MockPaymentProvider
proof
  fix req :: CheckoutRequest and w :: world and ref :: string and amount :: real
  show "\<exists>n. snd (CreateCheckout MockPaymentProvider req w) = w\<lparr>uuid_next := n\<rparr>"
    by (rule exI [where x = "Suc (uuid_next w)"]) (simp add: mock_CreateCheckout_def new_uuid_def Let_def)
  show "\<exists>n. snd (VerifyPayment MockPaymentProvider ref w) = w\<lparr>uuid_next := n\<rparr>"
    and "\<exists>n. snd (RefundPayment MockPaymentProvider ref amount w) = w\<lparr>uuid_next := n\<rparr>"
    and "\<exists>n. snd (GetPaymentStatus MockPaymentProvider ref w) = w\<lparr>uuid_next := n\<rparr>"
    by (simp_all add: mock_VerifyPayment_def mock_RefundPayment_def mock_GetPaymentStatus_def self_uuid)
qed

text \<open>
  Money goes back once: a refund succeeds only for an invoice that was paid, leaves every invoice
  with this id refunded, and every later refund of it is rejected.
\<close>

theorem refund_once:
  assumes "RefundInvoice MockPaymentProvider i w = (Inr invoice, w')" and "faults w = []"
    and "invoices later = invoices w'" and "faults later = []"
  shows "(\<exists>old \<in> set (invoices w). inv_ID old = i \<and> inv_Status old = ''paid'') \<and>
    inv_Status invoice = ''refunded'' \<and>
    fst (RefundInvoice MockPaymentProvider i later) = Inl (ErrMsg ''only paid invoices can be refunded'')"
proof -
  have r: "inv_Status invoice = ''refunded''"
    "\<exists>old \<in> set (invoices w). inv_ID old = i \<and> inv_Status old = ''paid''"
    "\<forall>x \<in> set (invoices w'). inv_ID x = i \<longrightarrow> inv_Status x = ''refunded''"
    using mock_provider.refund_result [OF assms(1,2)] by auto
  have "i \<in> set (map inv_ID (invoices w'))"
    using mock_provider.refund_result [OF assms(1,2)] by (auto simp del: set_map) (auto simp: image_iff)
  then have "\<exists>x \<in> set (invoices w'). inv_ID x = i" by auto
  then obtain new where new: "first_by inv_ID (filter (\<lambda>x. inv_ID x = i) (invoices later)) = Some new"
    using first_by_filter_ex [of "invoices later" "\<lambda>x. inv_ID x = i" inv_ID] assms(3) by auto
  then have "inv_Status new = ''refunded''" using r(3) first_by_filter [OF new] assms(3) by auto
  with r show ?thesis by (simp add: RefundInvoice_def assms(4) new)
qed

definition demo_invoice :: Invoice where
  "demo_invoice = zero_Invoice\<lparr>inv_ID := ''i1'', inv_CustomerID := ''c1'', inv_SubscriptionID := ''s1'',
     inv_Amount := 19, inv_Status := ''paid'', inv_Provider := ''mock'', inv_PaymentRef := ''mock_1''\<rparr>"

definition invoice_world :: world where
  "invoice_world = start_world\<lparr>invoices := [demo_invoice]\<rparr>"

lemma demo_refund:
  "\<exists>w'. RefundInvoice MockPaymentProvider ''i1'' invoice_world =
    (Inr (demo_invoice\<lparr>inv_Status := ''refunded''\<rparr>), w')"
  by (simp add: RefundInvoice_def invoice_world_def demo_invoice_def mock_RefundPayment_def has_prefix_def
      reload_invoice_def)

theorem refund_once_witness:
  "\<exists>w'. RefundInvoice MockPaymentProvider ''i1'' invoice_world =
      (Inr (demo_invoice\<lparr>inv_Status := ''refunded''\<rparr>), w') \<and>
    fst (RefundInvoice MockPaymentProvider ''i1'' w') = Inl (ErrMsg ''only paid invoices can be refunded'')"
proof -
  obtain w' where r: "RefundInvoice MockPaymentProvider ''i1'' invoice_world =
    (Inr (demo_invoice\<lparr>inv_Status := ''refunded''\<rparr>), w')" using demo_refund by blast
  have f: "faults invoice_world = []" by (simp add: invoice_world_def)
  have "faults w' = []" using mock_provider.refund_result [OF r f] by simp
  from refund_once [OF r f refl this] r show ?thesis by blast
qed

section \<open>Payment\<close>

text \<open>What \<open>MarkInvoicePaid\<close> writes, when it succeeds.\<close>

lemma mark_paid_tx_ok:
  assumes "mark_paid_tx i now old w = (Inr u, w')" and "clock w = now"
  shows "invoices w' = update_where (\<lambda>x. inv_ID x = i)
      (\<lambda>x. x\<lparr>inv_Status := ''paid'', inv_PaidAt := Some now\<rparr>) (invoices w)"
    and "subscriptions w' = (if inv_SubscriptionID old = [] then subscriptions w
      else update_where (\<lambda>s. sub_ID s = inv_SubscriptionID old)
        (\<lambda>s. s\<lparr>sub_Status := ''active'', sub_UpdatedAt := now\<rparr>) (subscriptions w))"
proof -
  obtain v w1 where u: "db_updates Invoice_schema (\<lambda>x. inv_ID x = i)
      (\<lambda>x. x\<lparr>inv_Status := ''paid'', inv_PaidAt := Some now\<rparr>) w = (Inr v, w1)"
    using assms(1) by (auto simp: mark_paid_tx_def split: prod.splits sum.splits)
  have rows: "invoices w1 = update_where (\<lambda>x. inv_ID x = i)
      (\<lambda>x. x\<lparr>inv_Status := ''paid'', inv_PaidAt := Some now\<rparr>) (invoices w)"
    using invoices_table.updates_ok_rows [OF u] by simp
  have f1: "subscriptions w1 = subscriptions w" "clock w1 = now"
    using db_updates_get [OF u, of subscriptions] db_updates_get [OF u, of clock] assms(2) by simp_all
  show "invoices w' = update_where (\<lambda>x. inv_ID x = i)
      (\<lambda>x. x\<lparr>inv_Status := ''paid'', inv_PaidAt := Some now\<rparr>) (invoices w)"
    and "subscriptions w' = (if inv_SubscriptionID old = [] then subscriptions w
      else update_where (\<lambda>s. sub_ID s = inv_SubscriptionID old)
        (\<lambda>s. s\<lparr>sub_Status := ''active'', sub_UpdatedAt := now\<rparr>) (subscriptions w))"
    using assms(1) rows f1
    by (auto simp: mark_paid_tx_def u split: if_splits
        dest: db_updates_get [where get = invoices] subscriptions_table.updates_ok_rows)
qed

lemma MarkInvoicePaid_ok:
  assumes "MarkInvoicePaid i w = (Inr u, w')"
  shows "\<exists>old \<in> set (invoices w). inv_ID old = i \<and>
    invoices w' = update_where (\<lambda>x. inv_ID x = i)
      (\<lambda>x. x\<lparr>inv_Status := ''paid'', inv_PaidAt := Some (clock w)\<rparr>) (invoices w) \<and>
    subscriptions w' = (if inv_SubscriptionID old = [] then subscriptions w
      else update_where (\<lambda>s. sub_ID s = inv_SubscriptionID old)
        (\<lambda>s. s\<lparr>sub_Status := ''active'', sub_UpdatedAt := clock w\<rparr>) (subscriptions w))"
proof -
  obtain old w1 where q: "db_first Invoice_schema (\<lambda>x. inv_ID x = i) w = (Inr old, w1)"
    and tx: "db_transaction (mark_paid_tx i (clock w) old) w1 = (Inr u, w')"
    using assms by (auto simp: MarkInvoicePaid_def split: prod.splits sum.splits)
  have old: "old \<in> set (invoices w)" "inv_ID old = i" using invoices_table.first_row [OF q] by auto
  from tx obtain w2 w3 where t: "stmt w1 = (True, w2)" "stmt w3 = (True, w')"
    and b: "mark_paid_tx i (clock w) old w2 = (Inr u, w3)" by (rule db_transaction_okE)
  have f: "invoices w2 = invoices w" "subscriptions w2 = subscriptions w" "clock w2 = clock w"
    using stmt_get [OF t(1), of invoices] stmt_get [OF t(1), of subscriptions] stmt_get [OF t(1), of clock]
      db_first_get [OF q, of invoices] db_first_get [OF q, of subscriptions] db_first_get [OF q, of clock]
    by simp_all
  show ?thesis
    using mark_paid_tx_ok [OF b f(3)] old f stmt_get [OF t(2), of invoices] stmt_get [OF t(2), of subscriptions]
    by (intro bexI [of _ old]) simp_all
qed

lemma MarkInvoicePaid_error:
  assumes "MarkInvoicePaid i w = (Inl e, w')"
    and "\<And>bs w. get (w\<lparr>faults := bs\<rparr>) = get w" and "\<And>n w. get (w\<lparr>uuid_next := n\<rparr>) = get w"
    and "\<And>n w. get (w\<lparr>rand_next := n\<rparr>) = get w"
  shows "get w' = get w"
proof -
  obtain r w1 where q: "db_first Invoice_schema (\<lambda>x. inv_ID x = i) w = (r, w1)" by fastforce
  have g: "get w1 = get w" by (rule db_first_get [where get = get, OF q assms(2)])
  show ?thesis
  proof (cases r)
    case (Inl x)
    then show ?thesis using assms(1) q g by (simp add: MarkInvoicePaid_def)
  next
    case (Inr old)
    then have "db_transaction (mark_paid_tx i (clock w) old) w1 = (Inl e, w')"
      using assms(1) q by (simp add: MarkInvoicePaid_def)
    from db_transaction_get [where get = get, OF this assms(2-4)] g show ?thesis by simp
  qed
qed

text \<open>
  C6. Paying an invoice is atomic: whatever statement fails, either the invoice and its subscription are
  both untouched, or every invoice with this id is paid as of now and the subscription it names is active.
\<close>

theorem mark_paid_atomic:
  "case MarkInvoicePaid i w of
     (Inl e, w') \<Rightarrow> invoices w' = invoices w \<and> subscriptions w' = subscriptions w
   | (Inr u, w') \<Rightarrow> (\<exists>old \<in> set (invoices w). inv_ID old = i \<and>
        (\<forall>s \<in> set (subscriptions w'). sub_ID s = inv_SubscriptionID old \<and> sub_ID s \<noteq> [] \<longrightarrow> sub_Status s = ''active'')) \<and>
        (\<forall>x \<in> set (invoices w'). inv_ID x = i \<longrightarrow> inv_Status x = ''paid'' \<and> inv_PaidAt x = Some (clock w))"
proof (cases "MarkInvoicePaid i w")
  case (Pair r w')
  show ?thesis
  proof (cases r)
    case (Inl e)
    have "invoices w' = invoices w \<and> subscriptions w' = subscriptions w"
      using MarkInvoicePaid_error [where get = invoices, of i w e w']
        MarkInvoicePaid_error [where get = subscriptions, of i w e w'] Pair Inl by simp
    then show ?thesis by (simp add: Pair Inl)
  next
    case (Inr u)
    from MarkInvoicePaid_ok [OF Pair [unfolded Inr]] obtain old where
      old: "old \<in> set (invoices w)" "inv_ID old = i" and
      rows: "invoices w' = update_where (\<lambda>x. inv_ID x = i)
        (\<lambda>x. x\<lparr>inv_Status := ''paid'', inv_PaidAt := Some (clock w)\<rparr>) (invoices w)" and
      subs: "subscriptions w' = (if inv_SubscriptionID old = [] then subscriptions w
        else update_where (\<lambda>s. sub_ID s = inv_SubscriptionID old)
          (\<lambda>s. s\<lparr>sub_Status := ''active'', sub_UpdatedAt := clock w\<rparr>) (subscriptions w))" by blast
    have p: "\<forall>x \<in> set (invoices w'). inv_ID x = i \<longrightarrow> inv_Status x = ''paid'' \<and> inv_PaidAt x = Some (clock w)"
      unfolding rows by (rule ball_update) simp_all
    have "\<forall>s \<in> set (subscriptions w'). sub_ID s = inv_SubscriptionID old \<and> sub_ID s \<noteq> [] \<longrightarrow> sub_Status s = ''active''"
    proof (cases "inv_SubscriptionID old = []")
      case False
      then have e: "subscriptions w' = update_where (\<lambda>s. sub_ID s = inv_SubscriptionID old)
          (\<lambda>s. s\<lparr>sub_Status := ''active'', sub_UpdatedAt := clock w\<rparr>) (subscriptions w)" using subs by simp
      show ?thesis unfolding e by (rule ball_update) simp_all
    qed simp
    with p old show ?thesis by (auto simp: Pair Inr)
  qed
qed

definition unpaid_world :: world where
  "unpaid_world = start_world\<lparr>invoices := [demo_invoice\<lparr>inv_Status := ''pending''\<rparr>],
     subscriptions := [zero_Subscription\<lparr>sub_ID := ''s1'', sub_Status := ''pending''\<rparr>]\<rparr>"

lemma demo_mark_paid:
  "\<exists>w'. MarkInvoicePaid ''i1'' unpaid_world = (Inr (), w')"
  "\<exists>w'. MarkInvoicePaid ''i1'' (unpaid_world\<lparr>faults := [True, True, True, False]\<rparr>) = (Inl ErrDriver, w')"
  by (simp_all add: MarkInvoicePaid_def unpaid_world_def demo_invoice_def db_transaction_def mark_paid_tx_def
      and_then_def db_first_def db_updates_def stmt_def)

text \<open>The subscription's statement fails in the second run: the first statement is undone.\<close>

theorem mark_paid_atomic_witness:
  "(\<exists>w'. MarkInvoicePaid ''i1'' unpaid_world = (Inr (), w')) \<and>
   (\<exists>w'. MarkInvoicePaid ''i1'' (unpaid_world\<lparr>faults := [True, True, True, False]\<rparr>) = (Inl ErrDriver, w') \<and>
      map inv_Status (invoices w') = [''pending''])"
proof -
  obtain w' where f: "MarkInvoicePaid ''i1'' (unpaid_world\<lparr>faults := [True, True, True, False]\<rparr>) = (Inl ErrDriver, w')"
    using demo_mark_paid(2) by blast
  have "invoices w' = invoices unpaid_world"
    using mark_paid_atomic [where i = "''i1''" and w = "unpaid_world\<lparr>faults := [True, True, True, False]\<rparr>"] by (simp add: f)
  then show ?thesis using demo_mark_paid(1) f by (simp add: unpaid_world_def)
qed

lemma MarkInvoicePaid_no_fault:
  assumes "faults w = []" and "first_by inv_ID (filter (\<lambda>x. inv_ID x = i) (invoices w)) = Some old"
  shows "fst (MarkInvoicePaid i w) = Inr () \<and> faults (snd (MarkInvoicePaid i w)) = []"
  using assms by (simp add: MarkInvoicePaid_def db_transaction_ok mark_paid_tx_def)

lemma refund_mock_ref:
  assumes "RefundInvoice MockPaymentProvider i w = (Inr invoice, w')" and "faults w = []"
  obtains cur where "first_by inv_ID (filter (\<lambda>x. inv_ID x = i) (invoices w')) = Some cur"
    and "has_prefix (inv_PaymentRef cur) ''mock_''"
proof -
  obtain old where old: "first_by inv_ID (filter (\<lambda>x. inv_ID x = i) (invoices w)) = Some old"
    and ref: "has_prefix (inv_PaymentRef old) ''mock_''"
    and w': "invoices w' = update_where (\<lambda>x. inv_ID x = i) (inv_Status_update (\<lambda>_. ''refunded'')) (invoices w)"
    using assms
    by (auto simp: RefundInvoice_def mock_RefundPayment_def reload_invoice_def split: option.splits if_splits)
  have flt: "filter (\<lambda>x. inv_ID x = i) (update_where (\<lambda>x. inv_ID x = i) (inv_Status_update (\<lambda>_. ''refunded'')) rs)
    = map (inv_Status_update (\<lambda>_. ''refunded'')) (filter (\<lambda>x. inv_ID x = i) rs)" for rs
    by (induction rs) auto
  have fst: "first_by inv_ID (map (inv_Status_update (\<lambda>_. ''refunded'')) rs)
    = map_option (inv_Status_update (\<lambda>_. ''refunded'')) (first_by inv_ID rs)" for rs
    by (rule first_by_map) simp
  have "first_by inv_ID (filter (\<lambda>x. inv_ID x = i) (invoices w')) = Some (old\<lparr>inv_Status := ''refunded''\<rparr>)"
    by (simp only: w' flt fst old option.map)
  then show ?thesis using ref that by simp
qed

text \<open>
  A refunded invoice does not stay refunded: verifying its payment again marks it paid, because
  verification only asks whether the status is already \<^verbatim>\<open>paid\<close>.
\<close>

theorem refunded_becomes_paid:
  assumes "RefundInvoice MockPaymentProvider i w = (Inr invoice, w')" and "faults w = []"
  shows "\<exists>again w''. VerifyInvoicePayment MockPaymentProvider i w' = (Inr again, w'') \<and>
    inv_Status again = ''paid''"
proof -
  have r: "faults w' = []" "map inv_ID (invoices w') = map inv_ID (invoices w)"
    "\<forall>x \<in> set (invoices w'). inv_ID x = i \<longrightarrow> inv_Status x = ''refunded''"
    using mock_provider.refund_result [OF assms] by auto
  obtain cur where cur: "first_by inv_ID (filter (\<lambda>x. inv_ID x = i) (invoices w')) = Some cur"
    and ref: "has_prefix (inv_PaymentRef cur) ''mock_''" by (rule refund_mock_ref [OF assms])
  have c: "cur \<in> set (invoices w')" "inv_ID cur = i" using first_by_filter [OF cur] by auto
  have st: "inv_Status cur = ''refunded''" using r(3) c by blast
  obtain w1 where ok: "MarkInvoicePaid i w' = (Inr (), w1)" and f: "faults w1 = []"
    using MarkInvoicePaid_no_fault [OF r(1) cur] by (metis prod.collapse)
  from MarkInvoicePaid_ok [OF ok] have rows: "invoices w1 = update_where (\<lambda>x. inv_ID x = i)
      (\<lambda>x. x\<lparr>inv_Status := ''paid'', inv_PaidAt := Some (clock w')\<rparr>) (invoices w')" by blast
  have "\<exists>x \<in> set (invoices w1). inv_ID x = i" unfolding rows using c by (intro bex_update [of cur]) auto
  then obtain new where new: "first_by inv_ID (filter (\<lambda>x. inv_ID x = i) (invoices w1)) = Some new"
    using first_by_filter_ex [of "invoices w1" "\<lambda>x. inv_ID x = i" inv_ID] by blast
  have "\<forall>x \<in> set (invoices w1). inv_ID x = i \<longrightarrow> inv_Status x = ''paid''"
    unfolding rows by (rule ball_update) simp_all
  then have "inv_Status new = ''paid''" using first_by_filter [OF new] by blast
  moreover have "fst (VerifyInvoicePayment MockPaymentProvider i w') = Inr new"
    by (simp add: VerifyInvoicePayment_def r(1) cur mock_VerifyPayment_def ref st c(2) ok reload_invoice_def f new)
  ultimately show ?thesis by (metis prod.collapse)
qed

theorem refunded_becomes_paid_witness:
  "\<exists>w' again w''. RefundInvoice MockPaymentProvider ''i1'' invoice_world =
      (Inr (demo_invoice\<lparr>inv_Status := ''refunded''\<rparr>), w') \<and>
    VerifyInvoicePayment MockPaymentProvider ''i1'' w' = (Inr again, w'') \<and> inv_Status again = ''paid''"
proof -
  obtain w' where r: "RefundInvoice MockPaymentProvider ''i1'' invoice_world =
    (Inr (demo_invoice\<lparr>inv_Status := ''refunded''\<rparr>), w')" using demo_refund by blast
  have "faults invoice_world = []" by (simp add: invoice_world_def)
  from refunded_becomes_paid [OF r this] r show ?thesis by blast
qed

section \<open>Quotas\<close>

text \<open>The subscription a customer's quota comes from.\<close>

definition current_subscription :: "world \<Rightarrow> string \<Rightarrow> Subscription \<Rightarrow> bool" where
  "current_subscription w c s \<longleftrightarrow> s \<in> set (subscriptions w) \<and> sub_CustomerID s = c \<and>
     sub_Status s = ''active'' \<and> sub_StartsAt s \<le> clock w \<and> clock w < sub_ExpiresAt s"

definition active_allocations :: "world \<Rightarrow> string \<Rightarrow> CustomerProxyAllocation list" where
  "active_allocations w c =
     filter (\<lambda>a. cpa_CustomerID a = c \<and> cpa_Status a = ''active'') (customer_proxy_allocations w)"

definition used_bytes :: "world \<Rightarrow> string \<Rightarrow> 64 word" where
  "used_bytes w c =
     (let as = filter (\<lambda>a. cpa_CustomerID a = c) (customer_proxy_allocations w) in
      of_nat (sum_list (map cpa_BandwidthIn as)) + of_nat (sum_list (map cpa_BandwidthOut as)))"

text \<open>
  The statements of a quota check, in order: the subscription, its plan, the count of active allocations, the sum
  of the traffic. The code looks at the errors of the first two only; when the count or the sum fails, it reads as
  zero.
\<close>

definition proxies_left :: "world \<Rightarrow> string \<Rightarrow> Plan \<Rightarrow> bool" where
  "proxies_left w c p \<longleftrightarrow> pl_MaxProxies p \<le> 0 \<or> int (length (active_allocations w c)) < pl_MaxProxies p"

definition bandwidth_left :: "world \<Rightarrow> string \<Rightarrow> Plan \<Rightarrow> bool" where
  "bandwidth_left w c p \<longleftrightarrow>
     pl_BandwidthLimitGB p \<le> 0 \<or> used_bytes w c < of_int (pl_BandwidthLimitGB p) * 1024 * 1024 * 1024"

definition country_allowed :: "string \<Rightarrow> Plan \<Rightarrow> bool" where
  "country_allowed country p \<longleftrightarrow> country = [] \<or> jsonListAllows (pl_AllowedCountries p) country"

lemma ActiveCommercialSubscription_read:
  assumes "ActiveCommercialSubscription c w = (Inr (s, p), w')"
  shows "current_subscription w c s" and "\<And>t. current_subscription w c t \<Longrightarrow> sub_ExpiresAt t \<le> sub_ExpiresAt s"
    and "p \<in> set (plans w)" and "pl_ID p = sub_PlanID s" and "pl_Status p = ''active''"
    and "w' = w\<lparr>faults := drop 2 (faults w)\<rparr>"
proof -
  let ?P = "\<lambda>s. sub_CustomerID s = c \<and> sub_Status s = ''active'' \<and> sub_StartsAt s \<le> clock w \<and> clock w < sub_ExpiresAt s"
  obtain w1 where q: "db_first_ordered Subscription_schema (\<lambda>s. - sub_ExpiresAt s) ?P w = (Inr s, w1)"
    and pl: "db_first Plan_schema (\<lambda>p. pl_ID p = sub_PlanID s \<and> pl_Status p = ''active'') w1 = (Inr p, w')"
    using assms by (auto simp: ActiveCommercialSubscription_def split: prod.splits sum.splits)
  show "current_subscription w c s"
    using subscriptions_table.first_ordered_row [OF q] by (simp add: current_subscription_def)
  show "sub_ExpiresAt t \<le> sub_ExpiresAt s" if "current_subscription w c t" for t
    using subscriptions_table.first_ordered_least [OF q, of t] that by (simp add: current_subscription_def)
  have w1: "w1 = w\<lparr>faults := drop 1 (faults w)\<rparr>"
    using arg_cong [OF q, of snd] by (simp only: query_after snd_conv stmt_drop)
  show "w' = w\<lparr>faults := drop 2 (faults w)\<rparr>"
    using arg_cong [OF pl, of snd] by (simp only: query_after snd_conv stmt_drop w1) (simp add: numeral_2_eq_2)
  show "p \<in> set (plans w)" "pl_ID p = sub_PlanID s" "pl_Status p = ''active''"
    using plans_table.first_row [OF pl] by (simp_all add: w1)
qed

lemma count_read:
  "db_count sc P w = (if statement_ok 0 w then int (length (filter P (sc_rows sc (snd (stmt w))))) else 0, snd (stmt w))"
  by (simp add: db_count_def stmt_statement_ok [symmetric] split: prod.split)

lemma totals_read:
  "\<exists>tin tout. bandwidth_totals c w = ((tin, tout), snd (stmt w)) \<and>
     tin + tout = (if statement_ok 0 w then used_bytes w c else 0)"
proof (cases "stmt w")
  case (Pair ok w1)
  then have "customer_proxy_allocations w1 = customer_proxy_allocations w" by (rule stmt_get) simp
  with Pair show ?thesis
    by (simp add: bandwidth_totals_def db_find_def used_bytes_def stmt_statement_ok [symmetric] Let_def)
qed

text \<open>The check, once the plan is known: what it sees of the allocations depends on the two later statements.\<close>

lemma EnforceAllocation_after:
  assumes "ActiveCommercialSubscription c w = (Inr (s, p), w1)"
  shows "is_ok (fst (EnforceAllocation c country w)) \<Longrightarrow>
      (statement_ok 0 w1 \<longrightarrow> proxies_left w1 c p) \<and> country_allowed country p \<and>
      (statement_ok 1 w1 \<longrightarrow> bandwidth_left w1 c p)"
    and "is_ok (fst (EnforceAllocation c country w)) \<Longrightarrow>
      EnforceAllocation c country w = (Inr (s, p), w1\<lparr>faults := drop 2 (faults w1)\<rparr>)"
    and "statement_ok 0 w1 \<Longrightarrow> statement_ok 1 w1 \<Longrightarrow> proxies_left w1 c p \<Longrightarrow> country_allowed country p \<Longrightarrow>
      bandwidth_left w1 c p \<Longrightarrow> is_ok (fst (EnforceAllocation c country w))"
proof -
  let ?n = "if statement_ok 0 w1 then int (length (active_allocations w1 c)) else 0"
    and ?gb = "of_int (pl_BandwidthLimitGB p) * 1024 * 1024 * 1024 :: 64 word"
  let ?w2 = "snd (stmt w1)"
  let ?w3 = "snd (stmt ?w2)"
  let ?u = "if statement_ok 1 w1 then used_bytes w1 c else 0"
  have f: "active_allocations ?w2 c = active_allocations w1 c" "used_bytes ?w2 c = used_bytes w1 c"
    by (simp_all add: stmt_drop active_allocations_def used_bytes_def)
  have n: "db_count CustomerProxyAllocation_schema (\<lambda>a. cpa_CustomerID a = c \<and> cpa_Status a = ''active'') w1 = (?n, ?w2)"
    by (simp add: count_read stmt_drop active_allocations_def)
  obtain tin tout where b: "bandwidth_totals c ?w2 = ((tin, tout), ?w3)" and u: "tin + tout = ?u"
    using totals_read [of c ?w2] by (auto simp: f statement_ok_Suc)
  have e: "EnforceAllocation c country w =
    (if 0 < pl_MaxProxies p \<and> pl_MaxProxies p \<le> ?n then (Inl (ErrMsg ''plan proxy limit reached''), ?w2)
     else if country \<noteq> [] \<and> \<not> jsonListAllows (pl_AllowedCountries p) country
     then (Inl (ErrMsg ''country is not allowed by plan''), ?w2)
     else if 0 < pl_BandwidthLimitGB p \<and> ?gb \<le> ?u
     then (Inl (ErrMsg ''bandwidth limit reached''), ?w3) else (Inr (s, p), ?w3))"
    by (simp only: EnforceAllocation_def assms prod.case sum.case n b u)
  have w3: "?w3 = w1\<lparr>faults := drop 2 (faults w1)\<rparr>" by (simp add: stmt_drop numeral_2_eq_2)
  show "(statement_ok 0 w1 \<longrightarrow> proxies_left w1 c p) \<and> country_allowed country p \<and>
      (statement_ok 1 w1 \<longrightarrow> bandwidth_left w1 c p)"
    if "is_ok (fst (EnforceAllocation c country w))"
    using that unfolding e proxies_left_def bandwidth_left_def country_allowed_def
    by (auto simp: not_le not_less split: if_splits)
  show "is_ok (fst (EnforceAllocation c country w))"
    if "statement_ok 0 w1" "statement_ok 1 w1" "proxies_left w1 c p" "country_allowed country p" "bandwidth_left w1 c p"
    using that unfolding e proxies_left_def bandwidth_left_def country_allowed_def
    by (auto simp: not_le not_less)
  show "EnforceAllocation c country w = (Inr (s, p), w1\<lparr>faults := drop 2 (faults w1)\<rparr>)"
    if "is_ok (fst (EnforceAllocation c country w))"
    using that unfolding e w3 by (auto split: if_splits)
qed

text \<open>
  C7. Quota enforcement is sound: an allocation is let through only if the customer has a
  subscription that is active and running now, the plan of the one that expires last is active and
  allows the country, that plan's limit on proxies leaves room unless the statement that counts them
  (the third) fails, and its limit on bandwidth leaves room unless the statement that sums the traffic
  (the fourth) fails; the answer is that subscription with its plan, and nothing is written. When one
  of those two statements fails the code reads zero and admits beyond the limit.
\<close>

theorem quota_enforced:
  assumes "EnforceAllocation c country w = (Inr (s, p), w')"
  shows "current_subscription w c s \<and>
    (\<forall>t. current_subscription w c t \<longrightarrow> sub_ExpiresAt t \<le> sub_ExpiresAt s) \<and>
    p \<in> set (plans w) \<and> pl_ID p = sub_PlanID s \<and> pl_Status p = ''active'' \<and>
    country_allowed country p \<and>
    (statement_ok 2 w \<longrightarrow> proxies_left w c p) \<and>
    (statement_ok 3 w \<longrightarrow> bandwidth_left w c p) \<and>
    w' = w\<lparr>faults := drop 4 (faults w)\<rparr>"
proof -
  obtain s' p' w1 where a: "ActiveCommercialSubscription c w = (Inr (s', p'), w1)"
    using assms by (cases "ActiveCommercialSubscription c w" rule: result_cases) (auto simp: EnforceAllocation_def)
  note read = ActiveCommercialSubscription_read [OF a]
  have ok: "is_ok (fst (EnforceAllocation c country w))" by (simp add: assms)
  have e: "s = s'" "p = p'" "w' = w1\<lparr>faults := drop 2 (faults w1)\<rparr>"
    using EnforceAllocation_after(2) [OF a ok] assms by simp_all
  have seen: "statement_ok 0 w1 = statement_ok 2 w" "statement_ok 1 w1 = statement_ok 3 w"
    by (simp_all add: read(6) statement_ok_def) (auto simp: less_diff_conv numeral_eq_Suc)
  have room: "proxies_left w1 c p' = proxies_left w c p'" "bandwidth_left w1 c p' = bandwidth_left w c p'"
    by (simp_all add: read(6) proxies_left_def bandwidth_left_def active_allocations_def used_bytes_def)
  have left: "(statement_ok 2 w \<longrightarrow> proxies_left w c p') \<and> country_allowed country p' \<and>
      (statement_ok 3 w \<longrightarrow> bandwidth_left w c p')"
    using EnforceAllocation_after(1) [OF a ok] unfolding seen room .
  have "w' = w\<lparr>faults := drop 4 (faults w)\<rparr>" by (simp add: e(3) read(6))
  with left read(1-5) show ?thesis unfolding e(1,2) by blast
qed

text \<open>A customer with a plan for two proxies in Germany, one of which is in use.\<close>

definition quota_plan :: Plan where
  "quota_plan = (default_plan ''starter-v4'' ''Starter'' [] 19 2 50 25)\<lparr>pl_AllowedCountries := ''[\"DE\"]''\<rparr>"

definition quota_world :: world where
  "quota_world = start_world\<lparr>
     subscriptions := [zero_Subscription\<lparr>sub_ID := ''s1'', sub_CustomerID := ''c1'', sub_PlanID := ''starter-v4'',
        sub_Status := ''active'', sub_StartsAt := 0, sub_ExpiresAt := 2000 * hour\<rparr>],
     plans := [quota_plan],
     customer_proxy_allocations := [zero_CustomerProxyAllocation\<lparr>cpa_ID := ''a1'', cpa_CustomerID := ''c1'',
        cpa_Status := ''active'', cpa_BandwidthIn := 1000\<rparr>]\<rparr>"

lemma quota_world_ok:
  "\<exists>s. EnforceAllocation ''c1'' ''DE'' quota_world = (Inr (s, quota_plan), quota_world)"
proof -
  obtain s where a: "ActiveCommercialSubscription ''c1'' quota_world = (Inr (s, quota_plan), quota_world)"
    by (simp add: ActiveCommercialSubscription_def quota_world_def quota_plan_def default_plan_def time_units)
  have "proxies_left quota_world ''c1'' quota_plan \<and> country_allowed ''DE'' quota_plan \<and>
      bandwidth_left quota_world ''c1'' quota_plan"
    by code_simp
  then have "is_ok (fst (EnforceAllocation ''c1'' ''DE'' quota_world))"
    by (intro EnforceAllocation_after(3) [OF a]) (simp_all add: quota_world_def)
  from EnforceAllocation_after(2) [OF a this] show ?thesis by (simp add: quota_world_def)
qed

theorem quota_enforced_witness:
  "\<exists>s. EnforceAllocation ''c1'' ''DE'' quota_world = (Inr (s, quota_plan), quota_world) \<and>
    current_subscription quota_world ''c1'' s \<and> country_allowed ''DE'' quota_plan \<and>
    proxies_left quota_world ''c1'' quota_plan \<and> bandwidth_left quota_world ''c1'' quota_plan"
proof -
  obtain s where e: "EnforceAllocation ''c1'' ''DE'' quota_world = (Inr (s, quota_plan), quota_world)"
    using quota_world_ok by blast
  have "statement_ok n quota_world" for n by (simp add: quota_world_def)
  with quota_enforced [OF e] e show ?thesis by blast
qed

text \<open>The plan is full with two proxies: a third is refused, unless the count fails.\<close>

lemma quota_fails_open:
  "let w = quota_world\<lparr>customer_proxy_allocations :=
         map (\<lambda>i. zero_CustomerProxyAllocation\<lparr>cpa_ID := i, cpa_CustomerID := ''c1'', cpa_Status := ''active''\<rparr>)
           [''a1'', ''a2'']\<rparr>
   in \<not> is_ok (fst (EnforceAllocation ''c1'' ''DE'' w)) \<and>
      is_ok (fst (EnforceAllocation ''c1'' ''DE'' (w\<lparr>faults := [True, True, False]\<rparr>)))"
  by code_simp

section \<open>Invoices\<close>

lemma invoice_tx_ok:
  assumes "invoice_tx invoice item w = (Inr made, w')"
  shows "\<exists>row. invoices w' = invoices w @ [made] \<and> invoice_items w' = invoice_items w @ [row] \<and>
    made = sc_create Invoice_schema (clock w) (invoices w) invoice \<and>
    row = sc_create InvoiceItem_schema (clock w) (invoice_items w) item"
proof -
  obtain m w1 where m: "db_create Invoice_schema invoice w = (Inr m, w1)"
    and n: "and_then (db_create InvoiceItem_schema item) (\<lambda>_ w. (Inr m, w)) w1 = (Inr made, w')"
    using assms unfolding invoice_tx_def by (rule and_then_okE)
  from n obtain row where row: "db_create InvoiceItem_schema item w1 = (Inr row, w')" and "made = m"
    by (elim and_then_okE) simp
  then show ?thesis
    using invoices_table.create_ok_rows [OF m] invoice_items_table.create_ok_rows [OF row]
      db_create_get [OF m, of invoice_items] db_create_get [OF m, of clock] db_create_get [OF row, of invoices]
    by auto
qed

text \<open>
  Billing is exact: a generated invoice is pending, is the customer's, and its amount is the price of
  the plan of that very subscription; it is stored together with exactly one item, whose amount is the
  invoice's. When any statement fails, neither is stored.
\<close>

theorem invoice_matches_plan:
  "case GenerateInvoice MockPaymentProvider c s w of
     (Inl e, w') \<Rightarrow> invoices w' = invoices w \<and> invoice_items w' = invoice_items w
   | (Inr made, w') \<Rightarrow> (\<exists>sub \<in> set (subscriptions w). \<exists>plan \<in> set (plans w). \<exists>item.
        sub_ID sub = s \<and> sub_CustomerID sub = c \<and> pl_ID plan = sub_PlanID sub \<and>
        inv_Status made = ''pending'' \<and> inv_CustomerID made = c \<and> inv_SubscriptionID made = s \<and>
        inv_Amount made = pl_Price plan \<and> ii_InvoiceID item = inv_ID made \<and>
        inv_Amount made = real_of_int (ii_Quantity item) * ii_UnitAmount item \<and> ii_Amount item = inv_Amount made \<and>
        invoices w' = invoices w @ [made] \<and> invoice_items w' = invoice_items w @ [item])"
proof (cases "db_first Subscription_schema (\<lambda>x. sub_ID x = s \<and> sub_CustomerID x = c) w" rule: result_cases)
  case (err e w1)
  then show ?thesis
    using db_first_get [OF err, of invoices] db_first_get [OF err, of invoice_items]
    by (simp add: GenerateInvoice_def and_then_simps)
next
  case q: (ok sub w1)
  have qg: "invoices w1 = invoices w" "invoice_items w1 = invoice_items w" "plans w1 = plans w"
    using db_first_get [OF q, of invoices] db_first_get [OF q, of invoice_items] db_first_get [OF q, of plans]
    by simp_all
  have sub: "sub \<in> set (subscriptions w)" "sub_ID sub = s" "sub_CustomerID sub = c"
    using subscriptions_table.first_row [OF q] by simp_all
  show ?thesis
  proof (cases "db_first Plan_schema (\<lambda>p. pl_ID p = sub_PlanID sub) w1" rule: result_cases)
    case (err e w2)
    then show ?thesis
      using db_first_get [OF err, of invoices] db_first_get [OF err, of invoice_items] qg q
      by (simp add: GenerateInvoice_def and_then_simps)
  next
    case p: (ok plan w2)
    have pg: "invoices w2 = invoices w" "invoice_items w2 = invoice_items w"
      using db_first_get [OF p, of invoices] db_first_get [OF p, of invoice_items] qg by simp_all
    have plan: "plan \<in> set (plans w)" "pl_ID plan = sub_PlanID sub"
      using plans_table.first_row [OF p] qg by simp_all
    obtain i n where g: "GenerateInvoice MockPaymentProvider c s w = db_transaction (invoice_tx
        ((plan_invoice c sub plan i (clock w2))\<lparr>inv_Provider := ''mock'',
          inv_PaymentRef := ''mock_'' @ uuid_of w2 n, inv_CheckoutURL := ''/mock-checkout/mock_'' @ uuid_of w2 n\<rparr>)
        (plan_item plan (uuid_of w2 (Suc (uuid_next w2))) i (clock w2))) (w2\<lparr>uuid_next := Suc n\<rparr>)"
      by (auto simp: GenerateInvoice_def and_then_simps q p new_uuid_def mock_CreateCheckout_def Let_def)
    let ?w3 = "w2\<lparr>uuid_next := Suc n\<rparr>"
    show ?thesis
    proof (cases "GenerateInvoice MockPaymentProvider c s w" rule: result_cases)
      case (err e w')
      then show ?thesis
        using db_transaction_get [where get = invoices, OF err [unfolded g]]
          db_transaction_get [where get = invoice_items, OF err [unfolded g]] pg by simp
    next
      case (ok made w')
      from ok [unfolded g] obtain w4 w5 where t: "stmt ?w3 = (True, w4)" "stmt w5 = (True, w')" and
        b: "invoice_tx ((plan_invoice c sub plan i (clock w2))\<lparr>inv_Provider := ''mock'',
          inv_PaymentRef := ''mock_'' @ uuid_of w2 n, inv_CheckoutURL := ''/mock-checkout/mock_'' @ uuid_of w2 n\<rparr>)
        (plan_item plan (uuid_of w2 (Suc (uuid_next w2))) i (clock w2)) w4 = (Inr made, w5)"
        by (rule db_transaction_okE)
      have tg: "invoices w4 = invoices w" "invoice_items w4 = invoice_items w"
        "invoices w' = invoices w5" "invoice_items w' = invoice_items w5"
        using stmt_get [OF t(1), of invoices] stmt_get [OF t(1), of invoice_items]
          stmt_get [OF t(2), of invoices] stmt_get [OF t(2), of invoice_items] pg by simp_all
      from invoice_tx_ok [OF b] tg sub plan show ?thesis
        unfolding ok prod.case sum.case
        by (intro bexI [of _ sub] bexI [of _ plan]) (auto simp: plan_invoice_def plan_item_def)
    qed
  qed
qed

end
