(* ===== verification/CustomerFacts.thy ===== *)
theory CustomerFacts imports Customer BillingFacts begin

text \<open>
  What the customer service guarantees: accounts and tokens work for their owners only, an allocation
  meets the quotas and is stored whole or not at all, and what releasing and rotating do. The contracts
  of the two interfaces the service calls are locales; the billing service provides the first.
\<close>

section \<open>The contract of the subscription enforcer\<close>

text \<open>Asking the enforcer writes nothing: of the world it only consumes statement outcomes.\<close>

locale subscription_enforcer =
  fixes se :: SubscriptionEnforcer
  assumes quota_world: "\<exists>bs. snd (se_EnforceAllocation se c country w) = w\<lparr>faults := bs\<rparr>"
    and active_world: "\<exists>bs. snd (se_ActiveSubscription se c w) = w\<lparr>faults := bs\<rparr>"
    and usage_world: "\<exists>bs. snd (se_UsageDashboard se c w) = w\<lparr>faults := bs\<rparr>"
begin

lemma quota_keeps: "(\<And>bs w. get (w\<lparr>faults := bs\<rparr>) = get w) \<Longrightarrow> keeps get (se_EnforceAllocation se c country)"
  unfolding keeps_def using quota_world by metis

lemma active_keeps: "(\<And>bs w. get (w\<lparr>faults := bs\<rparr>) = get w) \<Longrightarrow> keeps get (se_ActiveSubscription se c)"
  unfolding keeps_def using active_world by metis

lemma usage_keeps: "(\<And>bs w. get (w\<lparr>faults := bs\<rparr>) = get w) \<Longrightarrow> keeps get (se_UsageDashboard se c)"
  unfolding keeps_def using usage_world by metis

end

lemma stmt_world: "\<exists>bs. snd (stmt w) = w\<lparr>faults := bs\<rparr>"
  by (cases "faults w") (auto simp: stmt_def intro: exI [where x = "faults w"])

lemma query_world:
  "\<exists>bs. snd (db_first sc P w) = w\<lparr>faults := bs\<rparr>"
  "\<exists>bs. snd (db_first_ordered sc ord P w) = w\<lparr>faults := bs\<rparr>"
  "\<exists>bs. snd (db_find sc' P' w) = w\<lparr>faults := bs\<rparr>"
  "\<exists>bs. snd (db_count sc' P' w) = w\<lparr>faults := bs\<rparr>"
  using stmt_world [of w]
  by (auto simp: db_first_def db_first_ordered_def db_find_def db_count_def case_prod_beta split: option.split)

definition reads_only :: "(world \<Rightarrow> 'a \<times> world) \<Rightarrow> bool" where
  "reads_only m \<longleftrightarrow> (\<forall>w. \<exists>bs. snd (m w) = w\<lparr>faults := bs\<rparr>)"

lemma reads_onlyD: "reads_only m \<Longrightarrow> m w = (r, w') \<Longrightarrow> \<exists>bs. w' = w\<lparr>faults := bs\<rparr>"
  unfolding reads_only_def by (metis snd_conv)

lemma reads_only_step:
  assumes "\<exists>bs. snd (m w) = w\<lparr>faults := bs\<rparr>"
    and "\<And>r w'. m w = (r, w') \<Longrightarrow> \<exists>bs. snd (k r w') = w'\<lparr>faults := bs\<rparr>"
  shows "\<exists>bs. snd (case m w of (r, w') \<Rightarrow> k r w') = w\<lparr>faults := bs\<rparr>"
proof -
  obtain r w' where m: "m w = (r, w')" by fastforce
  with assms show ?thesis by fastforce
qed

lemma self_faults: "\<exists>bs. (w :: world) = w\<lparr>faults := bs\<rparr>"
  by (rule exI [where x = "faults w"]) simp

lemma ActiveCommercialSubscription_world: "\<exists>bs. snd (ActiveCommercialSubscription c w) = w\<lparr>faults := bs\<rparr>"
  unfolding ActiveCommercialSubscription_def
  by (rule reads_only_step [OF query_world(2)])
     (auto split: sum.split intro!: self_faults reads_only_step [OF query_world(1)])

lemma bandwidth_totals_world: "\<exists>bs. snd (bandwidth_totals c w) = w\<lparr>faults := bs\<rparr>"
  unfolding bandwidth_totals_def
  by (rule reads_only_step [OF query_world(3)]) (auto split: sum.split intro!: self_faults)

lemma EnforceAllocation_world: "\<exists>bs. snd (EnforceAllocation c country w) = w\<lparr>faults := bs\<rparr>"
  unfolding EnforceAllocation_def
  by (rule reads_only_step [OF ActiveCommercialSubscription_world])
     (auto split: sum.split intro!: self_faults reads_only_step [OF query_world(4)]
        reads_only_step [OF bandwidth_totals_world])

lemma usage_ips_world: "\<exists>bs. snd (usage_ips as w) = w\<lparr>faults := bs\<rparr>"
proof (induction as arbitrary: w)
  case (Cons a as)
  show ?case
    unfolding usage_ips.simps
    by (rule reads_only_step [OF query_world(1)], rule reads_only_step [OF Cons.IH])
       (auto split: sum.split simp: Let_def intro!: self_faults)
qed (simp add: self_faults)

lemma UsageDashboard_world: "\<exists>bs. snd (UsageDashboard c w) = w\<lparr>faults := bs\<rparr>"
  unfolding UsageDashboard_def
  by (rule reads_only_step [OF ActiveCommercialSubscription_world])
     (auto split: sum.split intro!: self_faults reads_only_step [OF query_world(3)]
        reads_only_step [OF usage_ips_world] simp: Let_def)

text \<open>\<^verbatim>\<open>customerService.SetSubscriptionEnforcer(billingService)\<close>.\<close>

definition billing_enforcer :: SubscriptionEnforcer where
  "billing_enforcer = \<lparr>se_EnforceAllocation = EnforceAllocation,
     se_ActiveSubscription = ActiveCommercialSubscription, se_UsageDashboard = UsageDashboard\<rparr>"

lemma billing_enforcer_simps [simp]:
  "se_EnforceAllocation billing_enforcer = EnforceAllocation"
  "se_ActiveSubscription billing_enforcer = ActiveCommercialSubscription"
  "se_UsageDashboard billing_enforcer = UsageDashboard"
  by (simp_all add: billing_enforcer_def)

interpretation billing: subscription_enforcer billing_enforcer
  by unfold_locales (simp_all add: EnforceAllocation_world ActiveCommercialSubscription_world UsageDashboard_world)

section \<open>The contract of the routing selector\<close>

locale routing_selector =
  fixes route :: RoutingSelector
  assumes keeps_allocations: "keeps customer_proxy_allocations (route input)"
    and keeps_credentials: "keeps customer_proxy_credentials (route input)"
    and keeps_proxies: "keeps proxies (route input)"
    and keeps_clock: "keeps clock (route input)"
    and keeps_whitelists: "keeps ip_whitelists (route input)"
    and keeps_abuse_mem: "keeps abuse_mem (route input)"
    and known_proxy: "route input w = (Inr p, w') \<Longrightarrow> px_ID p \<noteq> [] \<Longrightarrow> p \<in> set (proxies w)"

section \<open>Building blocks\<close>

lemma randomHex_keeps [keeps_intros]:
  "(\<And>n w. get (w\<lparr>rand_next := n\<rparr>) = get w) \<Longrightarrow> keeps get (randomHex k)"
  by (auto simp: keeps_def randomHex_def rand_read_def split: option.split)

lemma generate_hash_keeps [keeps_intros]:
  "(\<And>n w. get (w\<lparr>rand_next := n\<rparr>) = get w) \<Longrightarrow> keeps get (generate_hash bc pw)"
  by (simp add: keeps_def generate_hash_def)

lemma generateProxyCredential_keeps [keeps_intros]:
  "(\<And>n w. get (w\<lparr>rand_next := n\<rparr>) = get w) \<Longrightarrow> keeps get (generateProxyCredential bc)"
  unfolding generateProxyCredential_def by (intro keeps_intros)

lemma generateProxyCredential_ok:
  assumes "generateProxyCredential bc w = (Inr (u, pw, h), w')"
  shows "\<exists>n. bc_generate bc pw n = Inr h"
  using assms by (auto simp: generateProxyCredential_def generate_hash_def elim!: and_then_okE)

lemma legacySubscription_keeps [keeps_intros]:
  assumes "\<And>bs w. get (w\<lparr>faults := bs\<rparr>) = get w"
  shows "keeps get (legacySubscription c)"
  unfolding keeps_def legacySubscription_def
  by (auto simp: case_prod_beta db_first_ordered_frame [where get = get, OF assms]
      db_first_frame [where get = get, OF assms] split: sum.split)

lemma search_proxy_keeps [keeps_intros]:
  assumes "\<And>bs w. get (w\<lparr>faults := bs\<rparr>) = get w"
  shows "keeps get (search_proxy country ty)"
proof (rule keepsI)
  fix w
  show "get (snd (search_proxy country ty w)) = get w"
    unfolding search_proxy_def
    by (rule and_then_get [where get = get])
       (simp_all add: db_find_ordered_frame [where get = get, OF assms] db_find_frame [where get = get, OF assms]
         case_prod_beta Let_def split: option.split)
qed

lemma checkAllocationAllowed_keeps [keeps_intros]:
  assumes "\<And>bs w. get (w\<lparr>faults := bs\<rparr>) = get w"
  shows "keeps get (checkAllocationAllowed c plan country mode)"
  unfolding keeps_def checkAllocationAllowed_def
  by (simp add: case_prod_beta db_count_frame [where get = get, OF assms])

lemma create_unique:
  assumes "db_create sc r w = (Inr r', w')" and "\<And>bs w. sc_rows sc (w\<lparr>faults := bs\<rparr>) = sc_rows sc w"
  shows "\<forall>x \<in> set (sc_rows sc w). sc_key sc x \<noteq> sc_key sc r' \<and> \<not> sc_clash sc x r'"
  using assms by (auto simp: db_create_def stmt_def Let_def split: list.splits if_splits)

text \<open>What the transaction of an allocation stores.\<close>

lemma allocation_tx_ok:
  assumes "allocation_tx cred alloc w = (Inr (c, a), w')"
  shows "customer_proxy_credentials w' = customer_proxy_credentials w @ [c] \<and>
    c = sc_create CustomerProxyCredential_schema (clock w) (customer_proxy_credentials w) cred \<and>
    (\<forall>x \<in> set (customer_proxy_credentials w). cpc_Username x \<noteq> cpc_Username c) \<and>
    customer_proxy_allocations w' = customer_proxy_allocations w @ [a] \<and>
    a = sc_create CustomerProxyAllocation_schema (clock w) (customer_proxy_allocations w) alloc \<and>
    ip_whitelists w' = ip_whitelists w \<and> abuse_mem w' = abuse_mem w \<and> clock w' = clock w"
proof -
  obtain c' w1 where c: "db_create CustomerProxyCredential_schema cred w = (Inr c', w1)"
    and r1: "and_then (db_create CustomerProxyAllocation_schema alloc) (\<lambda>a. and_then
      (db_updates Proxy_schema (\<lambda>p. px_ID p = cpc_ProxyID cred)
        (\<lambda>p. p\<lparr>px_Username := cpc_Username cred, px_Password := cpc_PasswordHash cred\<rparr>)) (\<lambda>_ w. (Inr (c', a), w))) w1
      = (Inr (c, a), w')"
    using assms unfolding allocation_tx_def by (rule and_then_okE)
  from r1 obtain a' w2 where a: "db_create CustomerProxyAllocation_schema alloc w1 = (Inr a', w2)"
    and r2: "and_then (db_updates Proxy_schema (\<lambda>p. px_ID p = cpc_ProxyID cred)
        (\<lambda>p. p\<lparr>px_Username := cpc_Username cred, px_Password := cpc_PasswordHash cred\<rparr>)) (\<lambda>_ w. (Inr (c', a'), w)) w2
      = (Inr (c, a), w')"
    by (rule and_then_okE)
  from r2 obtain u where p: "db_updates Proxy_schema (\<lambda>p. px_ID p = cpc_ProxyID cred)
        (\<lambda>p. p\<lparr>px_Username := cpc_Username cred, px_Password := cpc_PasswordHash cred\<rparr>) w2 = (Inr u, w')"
    and e: "c' = c" "a' = a"
    by (elim and_then_okE) auto
  have f: "customer_proxy_allocations w1 = customer_proxy_allocations w" "clock w1 = clock w"
    "ip_whitelists w1 = ip_whitelists w" "abuse_mem w1 = abuse_mem w"
    "customer_proxy_credentials w2 = customer_proxy_credentials w1" "clock w2 = clock w1"
    "ip_whitelists w2 = ip_whitelists w1" "abuse_mem w2 = abuse_mem w1"
    "customer_proxy_credentials w' = customer_proxy_credentials w2" "clock w' = clock w2"
    "customer_proxy_allocations w' = customer_proxy_allocations w2"
    "ip_whitelists w' = ip_whitelists w2" "abuse_mem w' = abuse_mem w2"
    using db_create_get [OF c, of customer_proxy_allocations] db_create_get [OF c, of clock]
      db_create_get [OF c, of ip_whitelists] db_create_get [OF c, of abuse_mem]
      db_create_get [OF a, of customer_proxy_credentials] db_create_get [OF a, of clock]
      db_create_get [OF a, of ip_whitelists] db_create_get [OF a, of abuse_mem]
      db_updates_get [OF p, of customer_proxy_credentials] db_updates_get [OF p, of clock]
      db_updates_get [OF p, of customer_proxy_allocations]
      db_updates_get [OF p, of ip_whitelists] db_updates_get [OF p, of abuse_mem]
    by simp_all
  show ?thesis
    using customer_proxy_credentials_table.create_ok_rows [OF c] create_unique [OF c]
      customer_proxy_allocations_table.create_ok_rows [OF a] f e by simp
qed

lemma customer_audit_frame [simp]:
  "customer_proxy_credentials (customer_audit act d w) = customer_proxy_credentials w"
  "customer_proxy_allocations (customer_audit act d w) = customer_proxy_allocations w"
  "ip_whitelists (customer_audit act d w) = ip_whitelists w"
  "abuse_mem (customer_audit act d w) = abuse_mem w"
  "clock (customer_audit act d w) = clock w"
  "customers (customer_audit act d w) = customers w"
  by (simp_all add: customer_audit_def db_create_frame [where get = customer_proxy_credentials]
      db_create_frame [where get = ip_whitelists])

text \<open>A grant that succeeds, over the bare facts a client needs.\<close>

definition granted ::
  "bcrypt \<Rightarrow> string \<Rightarrow> string \<Rightarrow> AllocatedProxy \<Rightarrow> world \<Rightarrow> CustomerProxyCredential \<Rightarrow> CustomerProxyAllocation \<Rightarrow> bool"
where
  "granted bc customerID proxyID ap w cred alloc \<longleftrightarrow>
     cpc_CustomerID cred = customerID \<and> cpc_ProxyID cred = proxyID \<and> cpc_Status cred = ''active'' \<and>
     cpc_Username cred = alp_Username ap \<and> (\<exists>n. bc_generate bc (alp_Password ap) n = Inr (cpc_PasswordHash cred)) \<and>
     (\<forall>x \<in> set (customer_proxy_credentials w). cpc_Username x \<noteq> cpc_Username cred) \<and>
     cpa_CustomerID alloc = customerID \<and> cpa_ProxyID alloc = proxyID \<and> cpa_Status alloc = ''active'' \<and>
     cpa_ID alloc = alp_ID ap \<and> cpa_CredentialID alloc = cpc_ID cred"

lemma grant_proxy_ok:
  assumes "grant_proxy svc c country mode sid p w = (Inr ap, w')"
  shows "\<exists>cred alloc. granted (svc_bcrypt svc) c (px_ID p) ap w cred alloc \<and>
    customer_proxy_credentials w' = customer_proxy_credentials w @ [cred] \<and>
    customer_proxy_allocations w' = customer_proxy_allocations w @ [alloc] \<and>
    ip_whitelists w' = ip_whitelists w \<and> abuse_mem w' = abuse_mem w \<and> clock w' = clock w"
proof -
  obtain u pw h w1 where g: "generateProxyCredential (svc_bcrypt svc) w = (Inr (u, pw, h), w1)"
    and r: "(\<lambda>(username, password, passHash) w.
       let now = clock w; (credID, w1) = new_uuid w; (allocID, w2) = new_uuid w1;
           cred = new_credential credID username passHash c (px_ID p) now;
           alloc = new_allocation allocID c sid (px_ID p) credID (defaultRotation mode) (countryFromProxy p country) now
       in and_then (db_transaction (allocation_tx cred alloc)) (\<lambda>(x, a) w.
            (Inr (toAllocatedProxy a p x password),
             customer_audit ''CUSTOMER_PROXY_ALLOCATED'' (''Customer '' @ c @ '' allocated proxy '' @ px_ID p) w)) w2)
       (u, pw, h) w1 = (Inr ap, w')"
    using assms unfolding grant_proxy_def by (elim and_then_okE) auto
  define i j where "i = uuid_of w1 (uuid_next w1)" and "j = uuid_of w1 (Suc (uuid_next w1))"
  define cred where "cred = new_credential i u h c (px_ID p) (clock w1)"
  define alloc where "alloc = new_allocation j c sid (px_ID p) i (defaultRotation mode) (countryFromProxy p country) (clock w1)"
  define w2 where "w2 = w1\<lparr>uuid_next := Suc (Suc (uuid_next w1))\<rparr>"
  have "and_then (db_transaction (allocation_tx cred alloc)) (\<lambda>(x, a) w.
            (Inr (toAllocatedProxy a p x pw),
             customer_audit ''CUSTOMER_PROXY_ALLOCATED'' (''Customer '' @ c @ '' allocated proxy '' @ px_ID p) w)) w2
      = (Inr ap, w')"
    using r by (simp add: new_uuid_def Let_def i_def j_def cred_def alloc_def w2_def)
  then obtain x a w3 where t: "db_transaction (allocation_tx cred alloc) w2 = (Inr (x, a), w3)"
    and ap: "ap = toAllocatedProxy a p x pw" and w': "w' = customer_audit ''CUSTOMER_PROXY_ALLOCATED''
       (''Customer '' @ c @ '' allocated proxy '' @ px_ID p) w3"
    by (elim and_then_okE) auto
  from t obtain w4 w5 where st: "stmt w2 = (True, w4)" "stmt w5 = (True, w3)"
    and b: "allocation_tx cred alloc w4 = (Inr (x, a), w5)" by (rule db_transaction_okE)
  note ok = allocation_tx_ok [OF b]
  have f: "get w4 = get w" "get w3 = get w5"
    if "\<And>bs w. get (w\<lparr>faults := bs\<rparr>) = get w" "\<And>n w. get (w\<lparr>uuid_next := n\<rparr>) = get w"
      "\<And>n w. get (w\<lparr>rand_next := n\<rparr>) = get w" for get :: "world \<Rightarrow> 'x"
    using stmt_get [where get = get, OF st(1) that(1)] stmt_get [where get = get, OF st(2) that(1)]
      keepsD [OF generateProxyCredential_keeps [where get = get, OF that(3)] g] that(2) by (simp_all add: w2_def)
  have "granted (svc_bcrypt svc) c (px_ID p) ap w x a"
    using ok f [of customer_proxy_credentials] generateProxyCredential_ok [OF g]
    by (auto simp: granted_def ap cred_def alloc_def new_credential_def new_allocation_def toAllocatedProxy_def Let_def)
  then show ?thesis
    using ok f [of customer_proxy_credentials] f [of customer_proxy_allocations] f [of ip_whitelists]
      f [of abuse_mem] f [of clock] w' by auto
qed

lemma grant_proxy_err:
  assumes "\<And>bs w. get (w\<lparr>faults := bs\<rparr>) = get w" and "\<And>n w. get (w\<lparr>uuid_next := n\<rparr>) = get w"
    and "\<And>n w. get (w\<lparr>rand_next := n\<rparr>) = get w"
  shows "keeps_err get (grant_proxy svc c country mode sid p)"
  unfolding grant_proxy_def
proof (rule keeps_err_and_then)
  show "keeps get (generateProxyCredential (svc_bcrypt svc))"
    by (rule generateProxyCredential_keeps [where get = get, OF assms(3)])
  fix x :: "string \<times> string \<times> string"
  show "keeps_err get ((\<lambda>(username, password, passHash) w.
       let now = clock w; (credID, w1) = new_uuid w; (allocID, w2) = new_uuid w1;
           cred = new_credential credID username passHash c (px_ID p) now;
           alloc = new_allocation allocID c sid (px_ID p) credID (defaultRotation mode) (countryFromProxy p country) now
       in and_then (db_transaction (allocation_tx cred alloc)) (\<lambda>(x, a) w.
            (Inr (toAllocatedProxy a p x password),
             customer_audit ''CUSTOMER_PROXY_ALLOCATED'' (''Customer '' @ c @ '' allocated proxy '' @ px_ID p) w)) w2) x)"
    unfolding keeps_err_def
  proof (intro allI impI, goal_cases)
    case (1 w e w')
    have k: "keeps_err get (and_then (db_transaction (allocation_tx cred alloc)) (\<lambda>(x, a) w.
       (Inr (toAllocatedProxy a p x pw), customer_audit act d w)))" for cred alloc pw act d
      by (rule keeps_err_then_ok [OF keeps_err_transaction [where get = get, OF assms]]) auto
    show ?case
      using 1 keeps_errD [OF k] assms(2)
      by (cases x) (auto simp: new_uuid_def Let_def)
  qed
qed

section \<open>A service that is connected\<close>

locale customer_service =
  fixes svc :: CustomerService
  assumes enforcer: "svc_enforcer svc = Some se \<Longrightarrow> subscription_enforcer se"
    and router: "svc_router svc = Some r \<Longrightarrow> routing_selector r"
begin

definition router_keeps :: "(world \<Rightarrow> 'x) \<Rightarrow> bool" where
  "router_keeps get \<longleftrightarrow> (\<forall>r input. svc_router svc = Some r \<longrightarrow> keeps get (r input))"

lemma router_keepsD: "router_keeps get \<Longrightarrow> svc_router svc = Some r \<Longrightarrow> keeps get (r input)"
  by (simp add: router_keeps_def)

lemma router_keeps_simps:
  "router_keeps customer_proxy_allocations" "router_keeps customer_proxy_credentials"
  "router_keeps proxies" "router_keeps clock" "router_keeps ip_whitelists" "router_keeps abuse_mem"
  using router by (auto simp: router_keeps_def routing_selector_def)

lemma activeSubscription_keeps:
  assumes "\<And>bs w. get (w\<lparr>faults := bs\<rparr>) = get w"
  shows "keeps get (activeSubscription svc c)"
proof (cases "svc_enforcer svc")
  case None
  then show ?thesis
    using legacySubscription_keeps [where get = get, OF assms] by (simp add: activeSubscription_def keeps_def)
next
  case (Some se)
  then have k: "keeps get (se_ActiveSubscription se c)"
    using subscription_enforcer.active_keeps [OF enforcer, where get = get] assms by blast
  show ?thesis
  proof (rule keepsI)
    fix w
    show "get (snd (activeSubscription svc c w)) = get w"
      using Some keeps_snd [OF k, of w] keeps_snd [OF legacySubscription_keeps [where get = get, OF assms]]
      by (cases "se_ActiveSubscription se c w" rule: result_cases)
         (simp_all add: activeSubscription_def split: prod.split)
  qed
qed

lemma enforce_quota_keeps:
  assumes "\<And>bs w. get (w\<lparr>faults := bs\<rparr>) = get w"
  shows "keeps get (enforce_quota svc c country)"
proof (cases "svc_enforcer svc")
  case None
  then show ?thesis by (simp add: enforce_quota_def keeps_def)
next
  case (Some se)
  then have "keeps get (se_EnforceAllocation se c country)"
    using subscription_enforcer.quota_keeps [OF enforcer, where get = get] assms by blast
  then have "keeps get (and_then (se_EnforceAllocation se c country) (\<lambda>_ w. (Inr (), w)))"
    by (intro keeps_intros)
  then show ?thesis using Some by (simp add: enforce_quota_def keeps_def)
qed

lemma choose_proxy_keeps:
  assumes "\<And>bs w. get (w\<lparr>faults := bs\<rparr>) = get w"
    and "router_keeps get"
  shows "keeps get (choose_proxy svc c country mode ty plan)"
proof (cases "svc_router svc")
  case None
  then show ?thesis
    using search_proxy_keeps [where get = get, OF assms(1)] by (simp add: choose_proxy_def keeps_def)
next
  case (Some r)
  show ?thesis
  proof (rule keepsI)
    fix w
    let ?i = "route_input c country mode ty plan"
    show "get (snd (choose_proxy svc c country mode ty plan w)) = get w"
      using Some keeps_snd [OF router_keepsD [where get = get, OF assms(2) Some, of ?i], of w]
        keeps_snd [OF search_proxy_keeps [where get = get, OF assms(1)]]
      by (cases "r ?i w" rule: result_cases) (simp_all add: choose_proxy_def)
  qed
qed

text \<open>A proxy that is chosen exists.\<close>

lemma search_proxy_known: "search_proxy country ty w = (Inr p, w') \<Longrightarrow> p \<in> set (proxies w)"
  unfolding search_proxy_def
  by (elim and_then_okE)
     (auto simp: db_find_ordered_def stmt_def Let_def find_Some_iff in_set_conv_nth [symmetric]
        split: prod.splits list.splits if_splits option.splits dest!: nth_mem)

lemma choose_proxy_known:
  assumes "choose_proxy svc c country mode ty plan w = (Inr p, w')"
  shows "p \<in> set (proxies w)"
proof (cases "svc_router svc")
  case None
  then show ?thesis using assms search_proxy_known by (simp add: choose_proxy_def)
next
  case (Some r)
  let ?i = "route_input c country mode ty plan"
  show ?thesis
  proof (cases "r ?i w" rule: result_cases)
    case (err e w1)
    then show ?thesis
      using assms Some search_proxy_known [of country ty w1 p w'] keepsD [OF router_keepsD [OF router_keeps_simps(3) Some] err]
      by (simp add: choose_proxy_def)
  next
    case (ok q w1)
    then show ?thesis
      using assms Some search_proxy_known [of country ty w1 p w'] keepsD [OF router_keepsD [OF router_keeps_simps(3) Some] ok]
        routing_selector.known_proxy [OF router [OF Some] ok]
      by (simp add: choose_proxy_def split: if_splits)
  qed
qed

text \<open>The checks and the choice, which come before anything is stored.\<close>

lemma before_grant_keeps:
  assumes "\<And>bs w. get (w\<lparr>faults := bs\<rparr>) = get w" and "router_keeps get"
  shows "keeps get (activeSubscription svc c)" and "keeps get (enforce_quota svc c country)"
    and "keeps get (checkAllocationAllowed c plan country mode)"
    and "keeps get (choose_proxy svc c country mode ty pid)"
  using activeSubscription_keeps [where get = get, OF assms(1)] enforce_quota_keeps [where get = get, OF assms(1)]
    checkAllocationAllowed_keeps [where get = get, OF assms(1)] choose_proxy_keeps [where get = get, OF assms]
  by simp_all

lemma AllocateProxy_err:
  assumes "\<And>bs w. get (w\<lparr>faults := bs\<rparr>) = get w" and "\<And>n w. get (w\<lparr>uuid_next := n\<rparr>) = get w"
    and "\<And>n w. get (w\<lparr>rand_next := n\<rparr>) = get w" and "router_keeps get"
  shows "keeps_err get (AllocateProxy svc c country mode ty)"
  unfolding AllocateProxy_def
proof (rule keeps_err_and_then [OF before_grant_keeps(1) [where get = get, OF assms(1,4)]])
  fix x :: "CustomerSubscription \<times> ProxyPlan"
  show "keeps_err get ((\<lambda>(sub, plan). and_then (enforce_quota svc c country) (\<lambda>_.
     and_then (checkAllocationAllowed c plan country mode) (\<lambda>_.
     and_then (choose_proxy svc c country mode ty (pp_ID plan)) (\<lambda>chosen.
       grant_proxy svc c country mode (csub_ID sub) chosen)))) x)"
    by (cases x)
       (auto intro!: keeps_err_and_then before_grant_keeps [where get = get, OF assms(1,4)]
          grant_proxy_err [where get = get, OF assms(1-3)])
qed

lemma AllocateProxy_ok:
  assumes "AllocateProxy svc c country mode ty w = (Inr ap, w')"
  shows "\<exists>p sub plan cred alloc w1 w2 w3.
    activeSubscription svc c w = (Inr (sub, plan), w1) \<and>
    enforce_quota svc c country w1 = (Inr (), w2) \<and>
    checkAllocationAllowed c plan country mode w2 = (Inr (), w3) \<and>
    p \<in> set (proxies w) \<and>
    granted (svc_bcrypt svc) c (px_ID p) ap w cred alloc \<and>
    customer_proxy_credentials w' = customer_proxy_credentials w @ [cred] \<and>
    customer_proxy_allocations w' = customer_proxy_allocations w @ [alloc] \<and>
    clock w' = clock w \<and> ip_whitelists w' = ip_whitelists w \<and> abuse_mem w' = abuse_mem w"
proof -
  from assms obtain sub plan w1 where a: "activeSubscription svc c w = (Inr (sub, plan), w1)"
    and ra: "and_then (enforce_quota svc c country) (\<lambda>_. and_then (checkAllocationAllowed c plan country mode) (\<lambda>_.
     and_then (choose_proxy svc c country mode ty (pp_ID plan)) (\<lambda>chosen.
       grant_proxy svc c country mode (csub_ID sub) chosen))) w1 = (Inr ap, w')"
    unfolding AllocateProxy_def by (elim and_then_okE) auto
  from ra obtain u w2 where q: "enforce_quota svc c country w1 = (Inr u, w2)"
    and rq: "and_then (checkAllocationAllowed c plan country mode) (\<lambda>_.
     and_then (choose_proxy svc c country mode ty (pp_ID plan)) (\<lambda>chosen.
       grant_proxy svc c country mode (csub_ID sub) chosen)) w2 = (Inr ap, w')"
    by (rule and_then_okE)
  from rq obtain v w3 where k: "checkAllocationAllowed c plan country mode w2 = (Inr v, w3)"
    and rk: "and_then (choose_proxy svc c country mode ty (pp_ID plan)) (\<lambda>chosen.
       grant_proxy svc c country mode (csub_ID sub) chosen) w3 = (Inr ap, w')"
    by (rule and_then_okE)
  from rk obtain p w4 where p: "choose_proxy svc c country mode ty (pp_ID plan) w3 = (Inr p, w4)"
    and g: "grant_proxy svc c country mode (csub_ID sub) p w4 = (Inr ap, w')"
    by (rule and_then_okE)
  have f: "get w4 = get w \<and> get w3 = get w"
    if "\<And>bs w. get (w\<lparr>faults := bs\<rparr>) = get w" and "router_keeps get"
    for get :: "world \<Rightarrow> 'x"
    using keepsD [OF before_grant_keeps(1) [where get = get, OF that] a]
      keepsD [OF before_grant_keeps(2) [where get = get, OF that] q]
      keepsD [OF before_grant_keeps(3) [where get = get, OF that] k]
      keepsD [OF before_grant_keeps(4) [where get = get, OF that] p] by simp
  have g4: "customer_proxy_credentials w4 = customer_proxy_credentials w"
    "customer_proxy_allocations w4 = customer_proxy_allocations w" "clock w4 = clock w" "proxies w3 = proxies w"
    "ip_whitelists w4 = ip_whitelists w" "abuse_mem w4 = abuse_mem w"
    using f [of customer_proxy_credentials] f [of customer_proxy_allocations] f [of clock] f [of proxies]
      f [of ip_whitelists] f [of abuse_mem] router_keeps_simps
    by simp_all
  from grant_proxy_ok [OF g] obtain cred alloc where gr: "granted (svc_bcrypt svc) c (px_ID p) ap w4 cred alloc"
    and rows: "customer_proxy_credentials w' = customer_proxy_credentials w4 @ [cred]"
    "customer_proxy_allocations w' = customer_proxy_allocations w4 @ [alloc]" "clock w' = clock w4"
    "ip_whitelists w' = ip_whitelists w4" "abuse_mem w' = abuse_mem w4" by auto
  have "granted (svc_bcrypt svc) c (px_ID p) ap w cred alloc" using gr unfolding granted_def g4 .
  then show ?thesis using a q k rows g4 choose_proxy_known [OF p] by auto
qed

text \<open>When a rotation fails after the release, the allocation is gone.\<close>

lemma RotateProxy_failure:
  assumes "RotateProxy svc c aid w = (Inl e, w')" and "faults w = []"
  shows "\<forall>a \<in> set (customer_proxy_allocations w'). cpa_ID a = aid \<and> cpa_CustomerID a = c \<longrightarrow> cpa_Status a = ''deleted''"
    and "map cpa_ID (customer_proxy_allocations w') = map cpa_ID (customer_proxy_allocations w)"
proof -
  obtain u w1 where r: "ReleaseProxy c aid w = (Inr u, w1)" and rows: "customer_proxy_allocations w1 =
      update_where (\<lambda>a. cpa_ID a = aid \<and> cpa_CustomerID a = c)
        (\<lambda>a. a\<lparr>cpa_Status := ''deleted'', cpa_UpdatedAt := clock w\<rparr>) (customer_proxy_allocations w)"
    using assms(2) by (simp add: ReleaseProxy_def)
  have "AllocateProxy svc c [] ''rotating'' [] w1 = (Inl e, w')"
    using assms(1) r by (simp add: RotateProxy_def and_then_simps)
  from keeps_errD [OF AllocateProxy_err [where get = customer_proxy_allocations] this] router_keeps_simps(1)
  have w': "customer_proxy_allocations w' = customer_proxy_allocations w1" by simp
  show "\<forall>a \<in> set (customer_proxy_allocations w'). cpa_ID a = aid \<and> cpa_CustomerID a = c \<longrightarrow> cpa_Status a = ''deleted''"
    unfolding w' rows by (rule ball_update) auto
  show "map cpa_ID (customer_proxy_allocations w') = map cpa_ID (customer_proxy_allocations w)"
    unfolding w' rows by (rule map_update_where) simp
qed

end

end
