(* ===== verification/Accounts.thy ===== *)
theory Accounts imports CustomerFacts begin

text \<open>
  Accounts and bearer tokens of the customer service: registration and login, sessions, API keys.
\<close>

section \<open>Sessions\<close>

lemma hex_no_space: "c \<in> set (hex_encode bs) \<Longrightarrow> \<not> is_space c"
proof -
  have "list_all (\<lambda>n. \<not> is_space (hex_char n)) [0..<16]" by code_simp
  then have h: "\<not> is_space (hex_char n)" if "n < 16" for n using that by (simp add: list_all_iff)
  have b: "unat b < 256" for b :: byte using unsigned_less [of b, where ?'a = nat] by simp
  have d: "unat (b :: byte) div 16 < 16" for b using b [of b] by simp
  show "c \<in> set (hex_encode bs) \<Longrightarrow> \<not> is_space c"
    by (induction bs) (auto simp: hex_encode_def hex_byte_def h d)
qed

lemma trim_space_hex [simp]: "trim_space (hex_encode bs) = hex_encode bs"
  unfolding trim_space_def
proof (rule trim_by_id)
  show "\<not> is_space c" if "hex_encode bs = c # t" for c t using hex_no_space [of c bs] that by simp
  show "\<not> is_space c" if "hex_encode bs = t @ [c]" for c t using hex_no_space [of c bs] that by simp
qed

lemma bearer_token_hex [simp]: "bearer_token (''Bearer '' @ hex_encode bs) = hex_encode bs"
  by (simp add: bearer_token_def)

lemma randomHex_ok: "randomHex n w = (Inr s, w') \<Longrightarrow> \<exists>bs. s = hex_encode bs"
  by (auto simp: randomHex_def split: prod.splits option.splits)

text \<open>A created session is stored, and no other session has its token hash.\<close>

lemma createSession_ok:
  assumes "createSession c w = (Inr token, w')"
  shows "\<exists>s bs. token = hex_encode bs \<and> customer_sessions w' = customer_sessions w @ [s] \<and>
    (\<forall>x \<in> set (customer_sessions w). cs_TokenHash x \<noteq> sha256Hex token) \<and>
    cs_TokenHash s = sha256Hex token \<and> cs_CustomerID s = c \<and> cs_RevokedAt s = None \<and>
    cs_ExpiresAt s = clock w + 24 * hour \<and> customers w' = customers w \<and> clock w' = clock w"
proof -
  obtain t w1 where t: "randomHex 32 w = (Inr t, w1)" and r: "(let (u, w2) = new_uuid w1 in
     and_then (db_create CustomerSession_schema
       (zero_CustomerSession\<lparr>cs_ID := u, cs_CustomerID := c, cs_TokenHash := sha256Hex t,
          cs_ExpiresAt := clock w2 + 24 * hour, cs_CreatedAt := clock w2\<rparr>)) (\<lambda>_ w. (Inr t, w)) w2) = (Inr token, w')"
    using assms unfolding createSession_def by (rule and_then_okE)
  from r obtain u w2 s where u: "new_uuid w1 = (u, w2)" and tok: "token = t"
    and s: "db_create CustomerSession_schema
       (zero_CustomerSession\<lparr>cs_ID := u, cs_CustomerID := c, cs_TokenHash := sha256Hex t,
          cs_ExpiresAt := clock w2 + 24 * hour, cs_CreatedAt := clock w2\<rparr>) w2 = (Inr s, w')"
    by (auto split: prod.splits elim!: and_then_okE)
  have f: "get w2 = get w" if "\<And>n w. get (w\<lparr>uuid_next := n\<rparr>) = get w" "\<And>n w. get (w\<lparr>rand_next := n\<rparr>) = get w"
    for get :: "world \<Rightarrow> 'x"
    using keepsD [OF randomHex_keeps [where get = get, OF that(2)] t] u that(1) by (auto simp: new_uuid_def)
  show ?thesis
    using customer_sessions_table.create_ok_rows [OF s] create_unique [OF s] randomHex_ok [OF t] tok
      f [of customer_sessions] f [of customers] f [of clock]
      db_create_get [OF s, of customers] db_create_get [OF s, of clock]
    by auto
qed

text \<open>
  C5. Authentication is sound: a bearer token is accepted only with the right prefix, and only if its
  SHA-256 hash is that of a session that is not revoked and not expired, or of an API key that is
  active; the principal is the customer of that session or key, and is active.
\<close>

theorem bearer_sound:
  assumes "AuthenticateBearer header w = (Inr p, w')"
  shows "has_prefix header ''Bearer '' \<and> pr_Customer p \<in> set (customers w) \<and>
    cu_Status (pr_Customer p) = ''active'' \<and>
    ((\<exists>s \<in> set (customer_sessions w). cs_TokenHash s = sha256Hex (bearer_token header) \<and>
        cs_RevokedAt s = None \<and> clock w \<le> cs_ExpiresAt s \<and> cs_CustomerID s = cu_ID (pr_Customer p)) \<or>
     (\<exists>k \<in> set (customer_api_keys w). ck_KeyHash k = sha256Hex (bearer_token header) \<and>
        ck_Status k = ''active'' \<and> ck_CustomerID k = cu_ID (pr_Customer p) \<and> pr_APIKeyID p = ck_ID k))"
proof -
  let ?h = "sha256Hex (bearer_token header)"
  let ?qs = "db_first CustomerSession_schema (\<lambda>s. cs_TokenHash s = ?h \<and> cs_RevokedAt s = None)"
  let ?qk = "db_first CustomerApiKey_schema (\<lambda>k. ck_KeyHash k = ?h \<and> ck_Status k = ''active'')"
  have a: "authenticate_hash ?h w = (Inr p, w')" and pre: "has_prefix header ''Bearer ''"
    using assms by (auto simp: AuthenticateBearer_def split: if_splits)
  have act: "c \<in> set (customers v) \<and> cu_ID c = i \<and> cu_Status c = ''active''"
    if "getActiveCustomer i v = (Inr c, v')" for i v c v'
  proof -
    from that obtain c' v1 where q: "db_first Customer_schema (\<lambda>c. cu_ID c = i) v = (Inr c', v1)"
      and "c' = c" "cu_Status c = ''active''"
      unfolding getActiveCustomer_def by (elim and_then_okE) (auto split: if_splits)
    then show ?thesis using customers_table.first_row [OF q] by simp
  qed
  show ?thesis
  proof (cases "?qs w" rule: result_cases)
    case (ok s w1)
    have g: "customers w1 = customers w" "clock w1 = clock w"
      using db_first_get [OF ok, of customers] db_first_get [OF ok, of clock] by simp_all
    obtain c w2 where c: "getActiveCustomer (cs_CustomerID s) w1 = (Inr c, w2)" and p: "pr_Customer p = c"
      and ne: "clock w \<le> cs_ExpiresAt s"
      using a ok g by (auto simp: authenticate_hash_def split: if_splits elim!: and_then_okE)
    then show ?thesis using act [OF c] customer_sessions_table.first_row [OF ok] g pre p by auto
  next
    case (err e w1)
    obtain k w2 where k: "?qk w1 = (Inr k, w2)"
      using a err by (cases "?qk w1" rule: result_cases) (auto simp: authenticate_hash_def)
    have g: "customers w2 = customers w" "customer_api_keys w1 = customer_api_keys w"
      using db_first_get [OF err, of customers] db_first_get [OF k, of customers]
        db_first_get [OF err, of customer_api_keys] by simp_all
    obtain c w3 where c: "getActiveCustomer (ck_CustomerID k) w2 = (Inr c, w3)"
      and p: "pr_Customer p = c" "pr_APIKeyID p = ck_ID k"
      using a err k by (auto simp: authenticate_hash_def elim!: and_then_okE)
    then show ?thesis using act [OF c] customer_api_keys_table.first_row [OF k] g pre by auto
  qed
qed

definition demo_customer :: Customer where
  "demo_customer = zero_Customer\<lparr>cu_ID := ''c1'', cu_Email := ''a@b.c'', cu_PasswordHash := ''hash'',
     cu_Status := ''active''\<rparr>"

definition session_world :: world where
  "session_world = start_world\<lparr>customers := [demo_customer], customer_sessions :=
     [zero_CustomerSession\<lparr>cs_ID := ''s1'', cs_CustomerID := ''c1'', cs_TokenHash := sha256Hex ''tok'',
        cs_ExpiresAt := 2000 * hour\<rparr>]\<rparr>"

lemma session_world_auth:
  "AuthenticateBearer ''Bearer tok'' session_world = (Inr \<lparr>pr_Customer = demo_customer, pr_APIKeyID = []\<rparr>, session_world)"
proof -
  have "bearer_token ''Bearer tok'' = ''tok''" by code_simp
  then show ?thesis
    by (simp add: AuthenticateBearer_def authenticate_hash_def session_world_def has_prefix_def getActiveCustomer_def
        and_then_def demo_customer_def time_units)
qed

theorem bearer_sound_witness:
  "AuthenticateBearer ''Bearer tok'' session_world = (Inr \<lparr>pr_Customer = demo_customer, pr_APIKeyID = []\<rparr>, session_world) \<and>
    demo_customer \<in> set (customers session_world) \<and> cu_Status demo_customer = ''active''"
  using bearer_sound [OF session_world_auth] session_world_auth by simp

section \<open>Registration and login\<close>

lemma Register_ok:
  assumes "Register svc email password w = (Inr (c, token), w')"
  shows "customers w' = customers w @ [c] \<and> cu_Email c = normal_email email \<and> cu_Status c = ''active'' \<and>
    (\<exists>n. bc_generate (svc_bcrypt svc) password n = Inr (cu_PasswordHash c)) \<and>
    (\<forall>x \<in> set (customers w). cu_Email x \<noteq> cu_Email c)"
proof -
  let ?rest = "\<lambda>hash now c w. let (v, w2) = new_uuid w;
              (_, w3) = db_create CustomerCredential_schema
                (zero_CustomerCredential\<lparr>cc_ID := v, cc_CustomerID := cu_ID c, cc_PasswordHash := hash,
                   cc_CreatedAt := now, cc_UpdatedAt := now\<rparr>) w2
          in and_then (createSession (cu_ID c)) (\<lambda>token w.
               (Inr (c, token),
                customer_audit ''CUSTOMER_REGISTERED'' (''Customer registered: '' @ cu_Email c) w)) w3"
  let ?row = "\<lambda>u hash now. zero_Customer\<lparr>cu_ID := u, cu_Email := normal_email email, cu_PasswordHash := hash,
             cu_Status := ''active'', cu_Role := ''customer'', cu_CreatedAt := now, cu_UpdatedAt := now\<rparr>"
  have "and_then (generate_hash (svc_bcrypt svc) password) (\<lambda>hash w.
        let now = clock w; (u, w1) = new_uuid w in
        and_then (db_create Customer_schema (?row u hash now)) (?rest hash now) w1) w = (Inr (c, token), w')"
    using assms by (simp only: Register_def split: if_splits) simp
  then obtain hash w0 where h: "generate_hash (svc_bcrypt svc) password w = (Inr hash, w0)" and
    r0: "(let now = clock w0; (u, w1) = new_uuid w0 in
        and_then (db_create Customer_schema (?row u hash now)) (?rest hash now) w1) = (Inr (c, token), w')"
    by (rule and_then_okE)
  obtain u w1 where u: "new_uuid w0 = (u, w1)" by fastforce
  with r0 obtain c' w2 where cr: "db_create Customer_schema (?row u hash (clock w0)) w1 = (Inr c', w2)"
    and r1: "?rest hash (clock w0) c' w2 = (Inr (c, token), w')"
    unfolding Let_def u prod.case by (elim and_then_okE)
  obtain v w3 where v: "new_uuid w2 = (v, w3)" by fastforce
  let ?cc = "zero_CustomerCredential\<lparr>cc_ID := v, cc_CustomerID := cu_ID c', cc_PasswordHash := hash,
                   cc_CreatedAt := clock w0, cc_UpdatedAt := clock w0\<rparr>"
  obtain x w4 where x: "db_create CustomerCredential_schema ?cc w3 = (x, w4)" by fastforce
  from r1 obtain t w5 where cs: "createSession (cu_ID c') w4 = (Inr t, w5)" and e: "c = c'"
    and w': "w' = customer_audit ''CUSTOMER_REGISTERED'' (''Customer registered: '' @ cu_Email c') w5"
    unfolding Let_def v prod.case x by (elim and_then_okE) auto
  have "customers w1 = customers w" "customers w' = customers w2"
    using h u v x createSession_ok [OF cs] db_create_get [OF x, of customers]
    by (auto simp: generate_hash_def new_uuid_def w')
  then show ?thesis
    using customers_table.create_ok_rows [OF cr] create_unique [OF cr] h e
    by (auto simp: generate_hash_def)
qed

text \<open>
  A customer can come back: after a successful registration, logging in with the same password and
  any spelling of the same address (other case, spaces around it) gets past every check and opens a
  session for that very customer, for every password hash whose comparison accepts what it generated.
\<close>

theorem register_then_login:
  assumes "\<And>pw n h. bc_generate (svc_bcrypt svc) pw n = Inr h \<Longrightarrow> bc_compare (svc_bcrypt svc) h pw"
    and "Register svc email password w = (Inr (c, token), w')" and "faults w' = []"
    and "normal_email email' = normal_email email"
  shows "Login svc email' password w' = and_then (createSession (cu_ID c)) (\<lambda>token w. (Inr (c, token), w)) w'"
proof -
  note r = Register_ok [OF assms(2)]
  have "filter (\<lambda>x. cu_Email x = normal_email email') (customers w') = [c]"
    using r assms(4) by (auto simp: filter_empty_conv)
  then have q: "db_first Customer_schema (\<lambda>x. cu_Email x = normal_email email') w' = (Inr c, w')"
    by (simp add: assms(3))
  have "bc_compare (svc_bcrypt svc) (cu_PasswordHash c) password" using r assms(1) by blast
  then show ?thesis using r by (simp only: Login_def q) simp
qed

text \<open>A password hash that only meets its contract.\<close>

definition demo_bcrypt :: bcrypt where
  "demo_bcrypt = \<lparr>bc_generate = (\<lambda>pw n. Inr (''#'' @ pw)), bc_compare = (\<lambda>h pw. h = ''#'' @ pw)\<rparr>"

definition demo_service :: CustomerService where
  "demo_service = \<lparr>svc_bcrypt = demo_bcrypt, svc_enforcer = Some billing_enforcer, svc_router = None\<rparr>"

lemma demo_register:
  "\<exists>c token w'. Register demo_service '' Ann@Mail.org'' ''pw'' start_world = (Inr (c, token), w') \<and> faults w' = []"
proof -
  have e: "normal_email '' Ann@Mail.org'' = ''ann@mail.org''" by code_simp
  show ?thesis
    unfolding Register_def e
    by (simp add: and_then_def generate_hash_def demo_service_def demo_bcrypt_def new_uuid_def Let_def
        db_create_ok createSession_def randomHex_def rand_read_def customer_audit_def)
qed

theorem register_then_login_witness:
  "\<exists>c token w'. Register demo_service '' Ann@Mail.org'' ''pw'' start_world = (Inr (c, token), w') \<and>
    Login demo_service ''ann@mail.ORG'' ''pw'' w'
      = and_then (createSession (cu_ID c)) (\<lambda>token w. (Inr (c, token), w)) w'"
proof -
  obtain c token w' where r: "Register demo_service '' Ann@Mail.org'' ''pw'' start_world = (Inr (c, token), w')"
    and f: "faults w' = []" using demo_register by blast
  have e: "normal_email ''ann@mail.ORG'' = normal_email '' Ann@Mail.org''" by code_simp
  have b: "bc_generate (svc_bcrypt demo_service) pw n = Inr h \<Longrightarrow> bc_compare (svc_bcrypt demo_service) h pw" for pw n h
    by (simp add: demo_service_def demo_bcrypt_def)
  note l = register_then_login [where svc = demo_service, OF _ r f e]
  have "Login demo_service ''ann@mail.ORG'' ''pw'' w'
      = and_then (createSession (cu_ID c)) (\<lambda>token w. (Inr (c, token), w)) w'"
    by (rule l) (rule b)
  with r show ?thesis by blast
qed

text \<open>
  A login token works: the token a login returns authenticates its customer, and no other, at any
  later time up to the 24 hours of the session (while the customer and the sessions stay as they are and
  the queries succeed).
\<close>

theorem login_token_works:
  assumes "Login svc email password w = (Inr (c, token), w')" and "distinct (map cu_ID (customers w))"
    and "customers late = customers w'" and "customer_sessions late = customer_sessions w'"
    and "faults late = []" and "clock late \<le> clock w + 24 * hour"
  shows "AuthenticateBearer (''Bearer '' @ token) late = (Inr \<lparr>pr_Customer = c, pr_APIKeyID = []\<rparr>, late)"
proof -
  obtain w1 where q: "db_first Customer_schema (\<lambda>x. cu_Email x = normal_email email) w = (Inr c, w1)"
    and act: "cu_Status c = ''active''" and cs: "createSession (cu_ID c) w1 = (Inr token, w')"
    using assms(1)
    by (cases "db_first Customer_schema (\<lambda>x. cu_Email x = normal_email email) w" rule: result_cases)
       (auto simp: Login_def split: if_splits elim!: and_then_okE)
  have g: "customers w1 = customers w" "clock w1 = clock w"
    using db_first_get [OF q, of customers] db_first_get [OF q, of clock] by simp_all
  from createSession_ok [OF cs] obtain s bs where tok: "token = hex_encode bs"
    and rows: "customer_sessions w' = customer_sessions w1 @ [s]"
    and fresh: "\<forall>x \<in> set (customer_sessions w1). cs_TokenHash x \<noteq> sha256Hex token"
    and s: "cs_TokenHash s = sha256Hex token" "cs_CustomerID s = cu_ID c" "cs_RevokedAt s = None"
      "cs_ExpiresAt s = clock w1 + 24 * hour" and cu: "customers w' = customers w1" by blast
  have "filter (\<lambda>x. cs_TokenHash x = sha256Hex token \<and> cs_RevokedAt x = None) (customer_sessions late) = [s]"
    using fresh s by (auto simp: assms(4) rows filter_empty_conv)
  then have qs: "db_first CustomerSession_schema (\<lambda>x. cs_TokenHash x = sha256Hex token \<and> cs_RevokedAt x = None) late
      = (Inr s, late)" by (simp add: assms(5))
  have "c \<in> set (customers late)" using customers_table.first_row [OF q] by (simp add: assms(3) cu g)
  then have "first_by cu_ID (filter (\<lambda>x. cu_ID x = cu_ID c) (customers late)) = Some c"
    using assms(2) by (intro first_by_unique) (simp_all add: assms(3) cu g)
  then have "getActiveCustomer (cs_CustomerID s) late = (Inr c, late)"
    by (simp add: getActiveCustomer_def and_then_def s assms(5) act)
  moreover have "\<not> cs_ExpiresAt s < clock late" using assms(6) s(4) g by simp
  moreover have "has_prefix (''Bearer '' @ token) ''Bearer ''" by (rule has_prefix_append)
  moreover have "bearer_token (''Bearer '' @ token) = token" unfolding tok by (rule bearer_token_hex)
  ultimately show ?thesis
    by (simp only: AuthenticateBearer_def authenticate_hash_def qs prod.case sum.case) (simp add: and_then_def)
qed

definition login_world :: world where
  "login_world = start_world\<lparr>customers := [zero_Customer\<lparr>cu_ID := ''c1'', cu_Email := ''ann@mail.org'',
     cu_PasswordHash := ''#pw'', cu_Status := ''active''\<rparr>]\<rparr>"

lemma demo_login:
  "\<exists>c token w'. Login demo_service ''ann@mail.org'' ''pw'' login_world = (Inr (c, token), w') \<and> faults w' = []"
proof -
  have e: "normal_email ''ann@mail.org'' = ''ann@mail.org''" by code_simp
  show ?thesis
    unfolding Login_def e
    by (simp add: login_world_def and_then_def demo_service_def demo_bcrypt_def new_uuid_def Let_def
        db_create_ok createSession_def randomHex_def rand_read_def)
qed

theorem login_token_works_witness:
  "\<exists>c token w'. Login demo_service ''ann@mail.org'' ''pw'' login_world = (Inr (c, token), w') \<and>
    AuthenticateBearer (''Bearer '' @ token) (w'\<lparr>clock := clock login_world + 24 * hour\<rparr>)
      = (Inr \<lparr>pr_Customer = c, pr_APIKeyID = []\<rparr>, w'\<lparr>clock := clock login_world + 24 * hour\<rparr>)"
proof -
  from demo_login obtain c token w' where l: "Login demo_service ''ann@mail.org'' ''pw'' login_world = (Inr (c, token), w')"
    and f: "faults w' = []" by blast
  have d: "distinct (map cu_ID (customers login_world))" by (simp add: login_world_def)
  have "AuthenticateBearer (''Bearer '' @ token) (w'\<lparr>clock := clock login_world + 24 * hour\<rparr>)
      = (Inr \<lparr>pr_Customer = c, pr_APIKeyID = []\<rparr>, w'\<lparr>clock := clock login_world + 24 * hour\<rparr>)"
    by (rule login_token_works [OF l d]) (simp_all add: f)
  with l show ?thesis by blast
qed

end
