(* ===== verification/Routing.thy ===== *)
theory Routing imports Abuse "HOL-Library.Signed_Division" begin

text \<open>
  The smart router, \<^verbatim>\<open>internal/routing/service.go\<close>: proxy pools, quality scores, the choice of a proxy
  for a customer, sticky sessions, rotation and failover. The round-robin counters of the service are
  \<open>routing_rr\<close> of the world. Integers of the code that count rows or are scores are \<open>int\<close>; only the sum
  of latencies wraps.
\<close>

section \<open>Data\<close>

record Candidate =
  ca_Proxy :: Proxy
  ca_Pool :: ProxyPool
  ca_Quality :: ProxyQualitySnapshot
  ca_Agent :: Agent
  ca_VPNNode :: VPNNode
  ca_ActiveLoad :: int
  ca_Weighted :: int

record PoolOverview =
  po_Pool :: ProxyPool
  po_AvailableProxies :: int
  po_PoolSize :: int
  po_ActiveSessions :: int
  po_AverageQuality :: int
  po_Health :: string
  po_AgentRedundancy :: int
  po_CountryRedundancy :: int
  po_Members :: "ProxyPoolMember list"

definition zero_PoolOverview :: PoolOverview where
  "zero_PoolOverview = \<lparr>po_Pool = zero_ProxyPool, po_AvailableProxies = 0, po_PoolSize = 0, po_ActiveSessions = 0,
     po_AverageQuality = 0, po_Health = [], po_AgentRedundancy = 0, po_CountryRedundancy = 0, po_Members = []\<rparr>"

section \<open>Small functions\<close>

definition Grade :: "int \<Rightarrow> string" where
  "Grade score = (if 95 \<le> score then ''A+'' else if 85 \<le> score then ''A'' else if 70 \<le> score then ''B''
     else if 40 \<le> score then ''C'' else ''Dead'')"

definition strategy :: "string \<Rightarrow> string" where
  "strategy v = (if v = [] then ''weighted_score'' else v)"

definition isSticky :: "string \<Rightarrow> bool" where
  "isSticky mode \<longleftrightarrow> mode = ''sticky_30m'' \<or> mode = ''sticky_6h'' \<or> mode = ''sticky_24h''"

definition stickyDuration :: "string \<Rightarrow> duration" where
  "stickyDuration mode = (if mode = ''sticky_6h'' then 6 * hour else if mode = ''sticky_24h'' then 24 * hour
     else 30 * minute)"

definition countryFromVPNNode :: "string \<Rightarrow> world \<Rightarrow> string \<times> world" where
  "countryFromVPNNode vpnNodeID w =
     (if vpnNodeID = [] then ([], w)
      else case db_first VPNNode_schema (\<lambda>n. vn_ID n = vpnNodeID) w of
        (Inr node, w1) \<Rightarrow> (vn_Country node, w1) | (Inl _, w1) \<Rightarrow> ([], w1))"

definition memberStatus :: "Proxy \<Rightarrow> ProxyQualitySnapshot \<Rightarrow> string" where
  "memberStatus p q = (if px_Status p = ''error'' \<or> qs_Grade q = ''Dead'' then ''degraded'' else ''active'')"

definition agentOffline :: "string \<Rightarrow> world \<Rightarrow> bool \<times> world" where
  "agentOffline agentID w =
     (if agentID = [] then (False, w)
      else case db_first Agent_schema (\<lambda>a. ag_ID a = agentID) w of
        (Inr agent, w1) \<Rightarrow> (ag_Status agent = ''offline'', w1) | (Inl _, w1) \<Rightarrow> (False, w1))"

definition reservationAllows :: "ProxyReservation list \<Rightarrow> Proxy \<Rightarrow> string \<Rightarrow> bool" where
  "reservationAllows rows p poolID \<longleftrightarrow> rows = [] \<or> list_ex (\<lambda>r.
     if pres_Type r = ''proxy'' then pres_ProxyID r = px_ID p
     else if pres_Type r = ''pool'' then pres_PoolID r = poolID \<or> equal_fold (pres_Country r) (px_Country p)
     else pres_Type r = ''agent'' \<and> pres_AgentID r = px_AgentID p) rows"

section \<open>Events and loads\<close>

definition recordEvent :: "string \<Rightarrow> string \<Rightarrow> string \<Rightarrow> string \<Rightarrow> string \<Rightarrow> jmeta \<Rightarrow> world \<Rightarrow> world" where
  "recordEvent customerID proxyID poolID action message metadata w =
     (let (u, w1) = new_uuid w;
          w2 = snd (db_create RoutingEvent_schema
            (zero_RoutingEvent\<lparr>re_ID := u, re_CustomerID := customerID, re_ProxyID := proxyID, re_PoolID := poolID,
               re_Action := action, re_Message := message, re_Metadata := metadata, re_CreatedAt := clock w1\<rparr>) w1);
          (v, w3) = new_uuid w2
      in snd (db_create AuditEvent_schema
           (zero_AuditEvent\<lparr>ae_ID := v, ae_ActorID := customerID, ae_ActorType := ''routing'', ae_Action := action,
              ae_TargetID := proxyID, ae_TargetType := ''proxy'', ae_Metadata := metadata,
              ae_CreatedAt := clock w3\<rparr>) w3))"

definition activeLoad :: "string \<Rightarrow> world \<Rightarrow> int \<times> world" where
  "activeLoad proxyID = db_count CustomerProxyAllocation_schema
     (\<lambda>a. cpa_ProxyID a = proxyID \<and> cpa_Status a = ''active'')"

definition activeReservations :: "string \<Rightarrow> world \<Rightarrow> ProxyReservation list \<times> world" where
  "activeReservations customerID w =
     (let now = clock w in
      case db_find ProxyReservation_schema (\<lambda>r. pres_Status r = ''active'' \<and> pres_StartsAt r \<le> now \<and>
          (pres_Permanent r \<or> pres_ExpiresAt r = None \<or> now < the (pres_ExpiresAt r)) \<and>
          (customerID = [] \<or> pres_CustomerID r = customerID)) w of
        (rows, w1) \<Rightarrow> (rows_or_empty rows, w1))"

section \<open>Pools\<close>

definition CreatePool :: "string \<Rightarrow> string \<Rightarrow> string \<Rightarrow> world \<Rightarrow> unit result \<times> world" where
  "CreatePool country region strat w =
     (if trim_space country = [] then (Inl (ErrMsg ''country is required''), w)
      else let strat = strategy strat; now = clock w in
        case db_first ProxyPool_schema (\<lambda>p. pool_Country p = country) w of
          (Inr existing, w1) \<Rightarrow> db_updates ProxyPool_schema (\<lambda>p. pool_ID p = pool_ID existing)
            (\<lambda>p. p\<lparr>pool_Region := region, pool_Strategy := strat, pool_Status := ''active'', pool_UpdatedAt := now\<rparr>) w1
        | (Inl _, w1) \<Rightarrow> (let (u, w2) = new_uuid w1 in
            and_then (db_create ProxyPool_schema
              (zero_ProxyPool\<lparr>pool_ID := u, pool_Country := country, pool_Region := region, pool_Status := ''active'',
                 pool_Strategy := strat, pool_CreatedAt := now, pool_UpdatedAt := now\<rparr>)) (\<lambda>_ w. (Inr (), w)) w2))"

section \<open>Quality\<close>

definition metric_online :: "HealthMetric \<Rightarrow> bool" where
  "metric_online m \<longleftrightarrow> hm_Status m = ''online'' \<or> hm_Status m = ''healthy''"

text \<open>Average latency, online and failure counts over the last metrics.\<close>

definition latency_total :: "HealthMetric list \<Rightarrow> int" where
  "latency_total ms = foldl (\<lambda>t m. if 0 < hm_LatencyMs m then wrap64 (t + hm_LatencyMs m) else t) 0 ms"

definition metric_latency :: "HealthMetric list \<Rightarrow> int" where
  "metric_latency ms = (if ms = [] then 300 else latency_total ms sdiv int (length ms))"

definition metric_failures :: "HealthMetric list \<Rightarrow> int" where
  "metric_failures ms = int (length (filter (\<lambda>m. \<not> metric_online m) ms))"

definition metric_uptime :: "HealthMetric list \<Rightarrow> real" where
  "metric_uptime ms = (if ms = [] then 100
     else real (length (filter metric_online ms)) / real (length ms) * 100)"

text \<open>\<^verbatim>\<open>int(math.Min(float64(latency)/10, 30))\<close>; the conversion of a float truncates.\<close>

definition latency_penalty :: "int \<Rightarrow> int" where
  "latency_penalty latency = (let x = min (real_of_int latency / 10) 30 in if x < 0 then \<lceil>x\<rceil> else \<lfloor>x\<rfloor>)"

definition clamp_score :: "int \<Rightarrow> int" where
  "clamp_score score = (let s = (if score < 0 then 0 else score) in if 100 < s then 100 else s)"

definition quality_score :: "HealthMetric list \<Rightarrow> string \<Rightarrow> bool \<Rightarrow> int \<Rightarrow> int" where
  "quality_score ms status offline load =
     clamp_score (100 - latency_penalty (metric_latency ms) - metric_failures ms * 8
       - (if status = ''error'' \<or> status = ''stopped'' then 45 else 0)
       - (if offline then 35 else 0) - load * 3)"

definition quality_health :: "int \<Rightarrow> string \<Rightarrow> string" where
  "quality_health score status =
     (if score = 0 \<or> status = ''error'' then ''dead'' else if score < 50 then ''degraded'' else ''healthy'')"

definition CalculateQuality :: "string \<Rightarrow> world \<Rightarrow> ProxyQualitySnapshot \<times> world" where
  "CalculateQuality proxyID w =
     (case db_first Proxy_schema (\<lambda>p. px_ID p = proxyID) w of
        (Inl _, w1) \<Rightarrow> (zero_ProxyQualitySnapshot\<lparr>qs_ProxyID := proxyID, qs_Score := 0, qs_Grade := ''Dead'',
           qs_HealthStatus := ''missing'', qs_CreatedAt := clock w1\<rparr>, w1)
      | (Inr p, w1) \<Rightarrow>
          (let (found, w2) = db_find_ordered HealthMetric_schema (\<lambda>m. - hm_CheckedAt m) (\<lambda>m. hm_TargetID m = proxyID) w1;
               metrics = limit_rows 20 (rows_or_empty found);
               (offline, w3) = agentOffline (px_AgentID p) w2;
               (load, w4) = activeLoad proxyID w3;
               score = quality_score metrics (px_Status p) offline load;
               (u, w5) = new_uuid w4;
               snapshot = zero_ProxyQualitySnapshot\<lparr>qs_ID := u, qs_ProxyID := proxyID, qs_Score := score,
                 qs_Grade := Grade score, qs_LatencyMs := metric_latency metrics,
                 qs_UptimePercent := metric_uptime metrics, qs_ConnectionSuccessRate := metric_uptime metrics,
                 qs_BandwidthAvailableGB := 0, qs_RecentFailures := metric_failures metrics,
                 qs_HealthStatus := quality_health score (px_Status p), qs_CreatedAt := clock w5\<rparr>
           in (case db_create ProxyQualitySnapshot_schema snapshot w5 of
                 (Inl _, w6) \<Rightarrow> (snapshot, w6) | (Inr stored, w6) \<Rightarrow> (stored, w6))))"

section \<open>Synchronising the pools\<close>

text \<open>
  \<^verbatim>\<open>Updates(member)\<close> with a struct: GORM writes the fields that are not zero, and leaves the others of
  the row.
\<close>

definition nz_str :: "string \<Rightarrow> string \<Rightarrow> string" where "nz_str new old = (if new = [] then old else new)"
definition nz_int :: "int \<Rightarrow> int \<Rightarrow> int" where "nz_int new old = (if new = 0 then old else new)"

definition write_member :: "ProxyPoolMember \<Rightarrow> ProxyPoolMember \<Rightarrow> ProxyPoolMember" where
  "write_member m r = r\<lparr>pm_PoolID := nz_str (pm_PoolID m) (pm_PoolID r), pm_ProxyID := nz_str (pm_ProxyID m) (pm_ProxyID r),
     pm_AgentID := nz_str (pm_AgentID m) (pm_AgentID r), pm_VPNNodeID := nz_str (pm_VPNNodeID m) (pm_VPNNodeID r),
     pm_HealthStatus := nz_str (pm_HealthStatus m) (pm_HealthStatus r),
     pm_QualityScore := nz_int (pm_QualityScore m) (pm_QualityScore r),
     pm_ActiveLoad := nz_int (pm_ActiveLoad m) (pm_ActiveLoad r), pm_Status := nz_str (pm_Status m) (pm_Status r),
     pm_LastChecked := nz_int (pm_LastChecked m) (pm_LastChecked r),
     pm_CreatedAt := nz_int (pm_CreatedAt m) (pm_CreatedAt r), pm_UpdatedAt := nz_int (pm_UpdatedAt m) (pm_UpdatedAt r)\<rparr>"

definition new_member :: "string \<Rightarrow> ProxyPool \<Rightarrow> Proxy \<Rightarrow> ProxyQualitySnapshot \<Rightarrow> int \<Rightarrow> time \<Rightarrow> ProxyPoolMember" where
  "new_member i pool p quality load now = \<lparr>pm_ID = i, pm_PoolID = pool_ID pool, pm_ProxyID = px_ID p,
     pm_AgentID = px_AgentID p, pm_VPNNodeID = px_VPNNodeID p,
     pm_HealthStatus = (if qs_HealthStatus quality = [] then ''unknown'' else qs_HealthStatus quality),
     pm_QualityScore = qs_Score quality, pm_ActiveLoad = load, pm_Status = memberStatus p quality,
     pm_LastChecked = now, pm_CreatedAt = now, pm_UpdatedAt = now\<rparr>"

definition store_member :: "ProxyPoolMember \<Rightarrow> world \<Rightarrow> world" where
  "store_member member w =
     (case db_first ProxyPoolMember_schema (\<lambda>m. pm_ProxyID m = pm_ProxyID member) w of
        (Inr existing, w1) \<Rightarrow> snd (db_updates ProxyPoolMember_schema (\<lambda>m. pm_ID m = pm_ID existing)
          (write_member (member\<lparr>pm_ID := pm_ID existing, pm_CreatedAt := pm_CreatedAt existing\<rparr>)) w1)
      | (Inl _, w1) \<Rightarrow> snd (db_create ProxyPoolMember_schema member w1))"

definition member_country :: "Proxy \<Rightarrow> world \<Rightarrow> string \<times> world" where
  "member_country p w =
     (if px_Country p \<noteq> [] then (px_Country p, w)
      else case countryFromVPNNode (px_VPNNodeID p) w of (c, w1) \<Rightarrow> (if c = [] then ''Unassigned'' else c, w1))"

definition sync_proxy :: "time \<Rightarrow> Proxy \<Rightarrow> world \<Rightarrow> unit result \<times> world" where
  "sync_proxy now p w =
     (case member_country p w of (country, w1) \<Rightarrow>
      and_then (CreatePool country (px_Region p) ''weighted_score'') (\<lambda>_.
      and_then (db_first ProxyPool_schema (\<lambda>q. pool_Country q = country)) (\<lambda>pool w.
        let (quality, w2) = CalculateQuality (px_ID p) w;
            (load, w3) = activeLoad (px_ID p) w2;
            (u, w4) = new_uuid w3
        in (Inr (), store_member (new_member u pool p quality load now) w4))) w1)"

fun sync_proxies :: "time \<Rightarrow> Proxy list \<Rightarrow> world \<Rightarrow> unit result \<times> world" where
  "sync_proxies now [] w = (Inr (), w)"
| "sync_proxies now (p # ps) w = and_then (sync_proxy now p) (\<lambda>_. sync_proxies now ps) w"

definition SyncPools :: "world \<Rightarrow> unit result \<times> world" where
  "SyncPools = and_then (db_find Proxy_schema (\<lambda>_. True)) (\<lambda>ps w. sync_proxies (clock w) ps w)"

definition EnsureDefaultPools :: "world \<Rightarrow> world" where
  "EnsureDefaultPools w =
     snd (SyncPools (foldl (\<lambda>w country. snd (CreatePool country [] ''weighted_score'' w)) w
       [''Vietnam'', ''Singapore'', ''Japan'', ''USA'', ''Germany'', ''UK'']))"

section \<open>Candidates\<close>

text \<open>The pool of a country, created when there is none; the zero value when even that fails.\<close>

definition candidate_pool :: "string \<Rightarrow> string \<Rightarrow> world \<Rightarrow> ProxyPool \<times> world" where
  "candidate_pool country region w =
     (case db_first ProxyPool_schema (\<lambda>q. pool_Country q = country) w of
        (Inr pool, w1) \<Rightarrow> (pool, w1)
      | (Inl _, w1) \<Rightarrow>
          (case db_first ProxyPool_schema (\<lambda>q. pool_Country q = country)
             (snd (CreatePool country region ''weighted_score'' w1)) of
             (r, w2) \<Rightarrow> (row_or zero_ProxyPool r, w2)))"

definition candidateForProxy :: "string \<Rightarrow> RoutingSelectionInput \<Rightarrow> world \<Rightarrow> Candidate result \<times> world" where
  "candidateForProxy proxyID input = and_then (db_first Proxy_schema (\<lambda>p. px_ID p = proxyID)) (\<lambda>p w.
     let c1 = (if px_Country p = [] then rsi_Country input else px_Country p);
         country = (if c1 = [] then ''Unassigned'' else c1);
         (pool, w1) = candidate_pool country (px_Region p) w;
         (quality, w2) = CalculateQuality proxyID w1;
         (load, w3) = activeLoad proxyID w2;
         (agent, w4) = db_first Agent_schema (\<lambda>a. ag_ID a = px_AgentID p) w3;
         (node, w5) = db_first VPNNode_schema (\<lambda>n. vn_ID n = px_VPNNodeID p) w4
     in (Inr \<lparr>ca_Proxy = p, ca_Pool = pool, ca_Quality = quality, ca_Agent = row_or zero_Agent agent,
           ca_VPNNode = row_or zero_VPNNode node, ca_ActiveLoad = load,
           ca_Weighted = qs_Score quality - load * 3\<rparr>, w5))"

definition input_region :: "RoutingSelectionInput \<Rightarrow> string" where
  "input_region input = (if rsi_Region input = [] then rsi_TargetRegion input else rsi_Region input)"

definition proxy_matches :: "RoutingSelectionInput \<Rightarrow> Proxy \<Rightarrow> bool" where
  "proxy_matches input p \<longleftrightarrow> px_Status p \<noteq> ''error'' \<and>
     (rsi_ProxyType input = [] \<or> px_Type p = rsi_ProxyType input) \<and>
     (rsi_Country input = [] \<or> px_Country p = rsi_Country input) \<and>
     (input_region input = [] \<or> px_Region p = input_region input)"

definition candidate_matches :: "RoutingSelectionInput \<Rightarrow> ProxyReservation list \<Rightarrow> Proxy \<Rightarrow> Candidate \<Rightarrow> bool" where
  "candidate_matches input reserved p c \<longleftrightarrow>
     reservationAllows reserved p (pool_ID (ca_Pool c)) \<and>
     (rsi_Provider input = [] \<or> equal_fold (vn_Provider (ca_VPNNode c)) (rsi_Provider input)) \<and>
     (rsi_ASN input = [] \<or> equal_fold (vn_ASN (ca_VPNNode c)) (rsi_ASN input)) \<and>
     (rsi_ISP input = [] \<or> contains (to_lower (vn_ISP (ca_VPNNode c))) (to_lower (rsi_ISP input))) \<and>
     qs_Grade (ca_Quality c) \<noteq> ''Dead'' \<and> ag_Status (ca_Agent c) \<noteq> ''offline''"

fun collect_candidates ::
  "RoutingSelectionInput \<Rightarrow> ProxyReservation list \<Rightarrow> Proxy list \<Rightarrow> world \<Rightarrow> Candidate list \<times> world" where
  "collect_candidates input reserved [] w = ([], w)"
| "collect_candidates input reserved (p # ps) w =
     (case candidateForProxy (px_ID p) input w of
        (Inl _, w1) \<Rightarrow> collect_candidates input reserved ps w1
      | (Inr c, w1) \<Rightarrow> (case collect_candidates input reserved ps w1 of (cs, w2) \<Rightarrow>
          (if candidate_matches input reserved p c then c # cs else cs, w2)))"

definition candidates :: "RoutingSelectionInput \<Rightarrow> world \<Rightarrow> Candidate list result \<times> world" where
  "candidates input = and_then (db_find Proxy_schema (proxy_matches input)) (\<lambda>ps w.
     let (reserved, w1) = activeReservations (rsi_CustomerID input) w;
         (out, w2) = collect_candidates input reserved ps w1
     in (Inr (sort_key (\<lambda>c. (- ca_Weighted c, qs_LatencyMs (ca_Quality c))) out), w2))"

section \<open>Selection\<close>

definition balance :: "RoutingSelectionInput \<Rightarrow> Candidate list \<Rightarrow> world \<Rightarrow> Candidate \<times> world" where
  "balance input cs w =
     (let s = strategy (rsi_Strategy input) in
      if s = ''lowest_latency'' then (hd (sort_key (\<lambda>c. qs_LatencyMs (ca_Quality c)) cs), w)
      else if s = ''least_loaded'' then (hd (sort_key ca_ActiveLoad cs), w)
      else if s = ''round_robin'' then
        (let key = (if rsi_Country input = [] then ''global'' else rsi_Country input);
             idx = nat (routing_rr w key mod int (length cs))
         in (cs ! idx, w\<lparr>routing_rr := (routing_rr w)(key := routing_rr w key + 1)\<rparr>))
      else if s = ''health_first'' \<or> s = ''highest_quality'' \<or> s = ''weighted_score''
      then (hd (sort_key (\<lambda>c. - ca_Weighted c) cs), w)
      else (hd cs, w))"

definition findSticky :: "RoutingSelectionInput \<Rightarrow> world \<Rightarrow> StickySession option \<times> world" where
  "findSticky input w =
     (if rsi_CustomerID input = [] \<or> rsi_SessionKey input = [] \<or> \<not> isSticky (rsi_RotationMode input) then (None, w)
      else case db_first_ordered StickySession_schema (\<lambda>s. - ss_ExpiresAt s)
          (\<lambda>s. ss_CustomerID s = rsi_CustomerID input \<and> ss_SessionKey s = rsi_SessionKey input \<and>
               ss_Country s = rsi_Country input \<and> clock w < ss_ExpiresAt s) w of
        (Inl _, w1) \<Rightarrow> (None, w1) | (Inr sticky, w1) \<Rightarrow> (Some sticky, w1))"

definition new_sticky :: "string \<Rightarrow> RoutingSelectionInput \<Rightarrow> string \<Rightarrow> time \<Rightarrow> StickySession" where
  "new_sticky i input proxyID now = \<lparr>ss_ID = i, ss_CustomerID = rsi_CustomerID input,
     ss_SessionKey = rsi_SessionKey input, ss_Country = rsi_Country input, ss_ProxyID = proxyID,
     ss_RotationMode = rsi_RotationMode input, ss_ExpiresAt = now + stickyDuration (rsi_RotationMode input),
     ss_CreatedAt = now, ss_UpdatedAt = now\<rparr>"

definition saveSticky :: "RoutingSelectionInput \<Rightarrow> string \<Rightarrow> world \<Rightarrow> world" where
  "saveSticky input proxyID w =
     (let (u, w1) = new_uuid w;
          w2 = snd (db_delete StickySession_schema (\<lambda>s. ss_CustomerID s = rsi_CustomerID input \<and>
                 ss_SessionKey s = rsi_SessionKey input \<and> ss_Country s = rsi_Country input) w1)
      in snd (db_create StickySession_schema (new_sticky u input proxyID (clock w)) w2))"

text \<open>The sticky proxy of the session, when it can still be routed to.\<close>

definition sticky_candidate :: "RoutingSelectionInput \<Rightarrow> world \<Rightarrow> Candidate option \<times> world" where
  "sticky_candidate input w =
     (case findSticky input w of
        (None, w1) \<Rightarrow> (None, w1)
      | (Some sticky, w1) \<Rightarrow>
          (case candidateForProxy (ss_ProxyID sticky) input w1 of
             (Inl _, w2) \<Rightarrow> (None, w2)
           | (Inr c, w2) \<Rightarrow> (if qs_Grade (ca_Quality c) \<noteq> ''Dead'' then Some c else None, w2)))"

definition fresh_candidate :: "RoutingSelectionInput \<Rightarrow> world \<Rightarrow> Candidate result \<times> world" where
  "fresh_candidate input = and_then (candidates input) (\<lambda>cs w.
     if cs = [] then (Inl (ErrMsg ''no healthy proxy available for routing policy''), w)
     else let (chosen, w1) = balance input cs w;
              w2 = (if rsi_SessionKey input \<noteq> [] \<and> isSticky (rsi_RotationMode input)
                    then saveSticky input (px_ID (ca_Proxy chosen)) w1 else w1)
       in (Inr chosen, recordEvent (rsi_CustomerID input) (px_ID (ca_Proxy chosen)) (pool_ID (ca_Pool chosen))
             ''ProxySelected'' ''smart routing selected proxy''
             (Some [(''country'', JStr (rsi_Country input)), (''strategy'', JStr (strategy (rsi_Strategy input)))]) w2))"

definition SelectProxy :: "RoutingSelectionInput \<Rightarrow> world \<Rightarrow> Candidate result \<times> world" where
  "SelectProxy input = and_then SyncPools (\<lambda>_ w.
     case sticky_candidate input w of
       (Some c, w1) \<Rightarrow> (Inr c, recordEvent (rsi_CustomerID input) (px_ID (ca_Proxy c)) (pool_ID (ca_Pool c))
           ''ProxySelected'' ''sticky session proxy selected'' (Some [(''session_key'', JStr (rsi_SessionKey input))]) w1)
     | (None, w1) \<Rightarrow> fresh_candidate input w1)"

definition SelectDomainProxy :: "RoutingSelectionInput \<Rightarrow> world \<Rightarrow> Proxy result \<times> world" where
  "SelectDomainProxy input = and_then (SelectProxy input) (\<lambda>c w. (Inr (ca_Proxy c), w))"

section \<open>Rotation and failover\<close>

text \<open>
  \<^verbatim>\<open>db.Model(&alloc).Updates(columns)\<close> also writes the columns into \<^verbatim>\<open>alloc\<close>, so the \<^verbatim>\<open>alloc.ProxyID\<close> that
  \<^verbatim>\<open>RotateAllocation\<close> records as the previous proxy is the new one.
\<close>

definition RotateAllocation :: "string \<Rightarrow> string \<Rightarrow> string \<Rightarrow> world \<Rightarrow> Candidate result \<times> world" where
  "RotateAllocation customerID allocationID reason =
     and_then (db_first CustomerProxyAllocation_schema
       (\<lambda>a. cpa_ID a = allocationID \<and> cpa_CustomerID a = customerID)) (\<lambda>alloc.
     and_then (candidates (zero_RoutingSelectionInput\<lparr>rsi_CustomerID := customerID, rsi_Country := cpa_Country alloc,
         rsi_RotationMode := cpa_RotationMode alloc\<rparr>)) (\<lambda>cs w.
       case find (\<lambda>c. px_ID (ca_Proxy c) \<noteq> cpa_ProxyID alloc) cs of
         None \<Rightarrow> (Inl (ErrMsg ''no replacement proxy available''), w)
       | Some c \<Rightarrow>
           let new = px_ID (ca_Proxy c); alloc' = alloc\<lparr>cpa_ProxyID := new, cpa_UpdatedAt := clock w\<rparr> in
           and_then (db_updates CustomerProxyAllocation_schema (\<lambda>a. cpa_ID a = cpa_ID alloc)
             (\<lambda>a. a\<lparr>cpa_ProxyID := new, cpa_UpdatedAt := clock w\<rparr>)) (\<lambda>_ w.
             (Inr c, recordEvent customerID new (pool_ID (ca_Pool c)) ''ProxyRotated'' ''proxy allocation rotated''
               (Some [(''allocation_id'', JStr allocationID), (''previous_proxy_id'', JStr (cpa_ProxyID alloc')),
                      (''reason'', JStr reason)]) w)) w))"

definition FailoverAllocation :: "string \<Rightarrow> string \<Rightarrow> world \<Rightarrow> Candidate result \<times> world" where
  "FailoverAllocation customerID allocationID =
     and_then (RotateAllocation customerID allocationID ''failover'') (\<lambda>c w.
       (Inr c, recordEvent customerID (px_ID (ca_Proxy c)) (pool_ID (ca_Pool c)) ''ProxyFailedOver''
          ''proxy allocation failed over'' (Some [(''allocation_id'', JStr allocationID)]) w))"

definition CreateReservation :: "ProxyReservation \<Rightarrow> world \<Rightarrow> ProxyReservation result \<times> world" where
  "CreateReservation r w =
     (let now = clock w;
          (i, w1) = (if pres_ID r = [] then new_uuid w else (pres_ID r, w));
          r' = r\<lparr>pres_ID := i, pres_Status := (if pres_Status r = [] then ''active'' else pres_Status r),
                 pres_StartsAt := (if pres_StartsAt r = zero_time then now else pres_StartsAt r),
                 pres_CreatedAt := now, pres_UpdatedAt := now\<rparr>
      in db_create ProxyReservation_schema r' w1)"

section \<open>Overviews\<close>

definition member_available :: "ProxyPoolMember \<Rightarrow> bool" where
  "member_available m \<longleftrightarrow> pm_Status m = ''active'' \<and> pm_HealthStatus m \<noteq> ''dead'' \<and> 40 \<le> pm_QualityScore m"

definition pool_overview :: "string \<Rightarrow> bool \<Rightarrow> world \<Rightarrow> PoolOverview result \<times> world" where
  "pool_overview country includeMembers =
     and_then (db_first ProxyPool_schema (\<lambda>p. pool_Country p = country)) (\<lambda>pool w.
       let (found, w1) = db_find_ordered ProxyPoolMember_schema (\<lambda>m. - pm_QualityScore m)
             (\<lambda>m. pm_PoolID m = pool_ID pool) w;
           members = rows_or_empty found;
           agents = int (card (set (map pm_AgentID members) - {[]}));
           total = sum_list (map pm_QualityScore members);
           active = sum_list (map pm_ActiveLoad members);
           available = int (length (filter member_available members));
           avg = (if members = [] then 0 else total sdiv int (length members));
           (health, w2) =
             (if available = 0 then (''dead'', recordEvent [] [] (pool_ID pool) ''PoolDegraded''
                 ''pool has no available proxies'' (Some [(''country'', JStr country)]) w1)
              else if agents < 2 then (''degraded'', recordEvent [] [] (pool_ID pool) ''PoolDegraded''
                 ''pool has low agent redundancy'' (Some [(''agents'', JInt agents), (''country'', JStr country)]) w1)
              else (''healthy'', w1))
       in (Inr \<lparr>po_Pool = pool, po_AvailableProxies = available, po_PoolSize = int (length members),
             po_ActiveSessions = active, po_AverageQuality = avg, po_Health = health, po_AgentRedundancy = agents,
             po_CountryRedundancy = available, po_Members = (if includeMembers then members else [])\<rparr>, w2))"

fun list_overviews :: "ProxyPool list \<Rightarrow> world \<Rightarrow> PoolOverview list \<times> world" where
  "list_overviews [] w = ([], w)"
| "list_overviews (p # ps) w =
     (case pool_overview (pool_Country p) True w of (r, w1) \<Rightarrow>
      case list_overviews ps w1 of (os, w2) \<Rightarrow> (row_or zero_PoolOverview r # os, w2))"

definition ListPools :: "world \<Rightarrow> PoolOverview list result \<times> world" where
  "ListPools = and_then SyncPools (\<lambda>_.
     and_then (db_find_ordered ProxyPool_schema pool_Country (\<lambda>_. True)) (\<lambda>pools w.
       case list_overviews pools w of (os, w1) \<Rightarrow> (Inr os, w1)))"

definition pool_score :: "PoolOverview \<Rightarrow> int" where
  "pool_score p =
     (let s1 = po_AverageQuality p + (if 2 \<le> po_AgentRedundancy p then 10 else 0)
               + (if 2 \<le> po_AvailableProxies p then 10 else 0);
          s2 = (if po_Health p = ''dead'' then 0 else s1)
      in if 100 < s2 then 100 else s2)"

definition HAScore :: "PoolOverview list \<Rightarrow> int" where
  "HAScore ps = (if ps = [] then 0 else sum_list (map pool_score ps) sdiv int (length ps))"

record RoutingDashboard =
  rd_pools :: "PoolOverview list"
  rd_events :: "RoutingEvent list"
  rd_rotation_count :: int
  rd_failover_count :: int
  rd_ha_score :: int

definition routing_Dashboard :: "world \<Rightarrow> RoutingDashboard result \<times> world" where
  "routing_Dashboard = and_then ListPools (\<lambda>pools w.
     let (events, w1) = db_find_ordered RoutingEvent_schema (\<lambda>e. - re_CreatedAt e) (\<lambda>_. True) w;
         (rotations, w2) = db_count RoutingEvent_schema (\<lambda>e. re_Action e = ''ProxyRotated'') w1;
         (failovers, w3) = db_count RoutingEvent_schema (\<lambda>e. re_Action e = ''ProxyFailedOver'') w2
     in (Inr \<lparr>rd_pools = pools, rd_events = limit_rows 100 (rows_or_empty events), rd_rotation_count = rotations,
           rd_failover_count = failovers, rd_ha_score = HAScore pools\<rparr>, w3))"

end
