(* ===== verification/RoutingFacts.thy ===== *)
theory RoutingFacts imports AbuseSafety Routing CustomerFacts begin

text \<open>
  What the router guarantees: which proxies it may choose and which of them it chooses, the bounds of its
  scores, sticky sessions, the fairness of round robin, and what a rotation changes. The router meets the
  contract \<open>routing_selector\<close> of the customer service.
\<close>

section \<open>What the router does not touch\<close>

text \<open>
  A part of the world that scoring and listing candidates leaves alone: no pool table, no quality
  snapshot, no supply.
\<close>

locale scoring_frame =
  fixes get :: "world \<Rightarrow> 'x"
  assumes faults [simp]: "get (w\<lparr>faults := bs\<rparr>) = get w"
    and uuid [simp]: "get (w\<lparr>uuid_next := n\<rparr>) = get w"
    and pools [simp]: "get (proxy_pools_update f1 w) = get w"
    and members [simp]: "get (proxy_pool_members_update f2 w) = get w"
    and snapshots [simp]: "get (proxy_quality_snapshots_update f3 w) = get w"
begin

lemmas statements [simp] = statement_frames [where get = get, simplified]

lemma seq [simp]:
  "(\<And>w. get (snd (m w)) = get w) \<Longrightarrow> (\<And>x w. get (snd (k x w)) = get w) \<Longrightarrow>
    get (snd (and_then m k w)) = get w"
  by (rule and_then_get [where get = get])

lemma CreatePool [simp]: "get (snd (CreatePool country region strat w)) = get w"
  by (simp add: CreatePool_def Let_def case_prod_beta split: sum.split)

lemma country [simp]: "get (snd (member_country p w)) = get w"
  by (simp add: member_country_def countryFromVPNNode_def case_prod_beta split: sum.split)

lemma activeLoad [simp]: "get (snd (activeLoad p w)) = get w"
  by (simp add: activeLoad_def)

lemma agentOffline [simp]: "get (snd (agentOffline a w)) = get w"
  by (simp add: agentOffline_def case_prod_beta split: sum.split)

lemma CalculateQuality [simp]: "get (snd (CalculateQuality p w)) = get w"
  by (simp add: CalculateQuality_def Let_def case_prod_beta split: sum.split)

lemma store_member [simp]: "get (store_member m w) = get w"
  by (simp add: store_member_def case_prod_beta split: sum.split)

lemma sync_proxy [simp]: "get (snd (sync_proxy now p w)) = get w"
  by (simp add: sync_proxy_def Let_def case_prod_beta)

lemma sync_proxies [simp]: "get (snd (sync_proxies now ps w)) = get w"
  by (induction ps arbitrary: w) simp_all

lemma SyncPools [simp]: "get (snd (SyncPools w)) = get w"
  by (simp add: SyncPools_def Let_def case_prod_beta)

lemma candidate_pool [simp]: "get (snd (candidate_pool country region w)) = get w"
  by (simp add: candidate_pool_def case_prod_beta split: sum.split)

lemma candidateForProxy [simp]: "get (snd (candidateForProxy p input w)) = get w"
  by (simp add: candidateForProxy_def Let_def case_prod_beta)

lemma activeReservations [simp]: "get (snd (activeReservations c w)) = get w"
  by (simp add: activeReservations_def Let_def case_prod_beta)

lemma collect [simp]: "get (snd (collect_candidates input reserved ps w)) = get w"
proof (induction ps arbitrary: w)
  case (Cons p ps)
  show ?case
  proof (cases "candidateForProxy (px_ID p) input w" rule: result_cases)
    case (err e w1)
    then show ?thesis using Cons [of w1] candidateForProxy [of "px_ID p" input w] by simp
  next
    case (ok c w1)
    then show ?thesis using Cons [of w1] candidateForProxy [of "px_ID p" input w] by (simp add: case_prod_beta)
  qed
qed simp

lemma candidates [simp]: "get (snd (candidates input w)) = get w"
  by (simp add: candidates_def Let_def case_prod_beta)

lemma findSticky [simp]: "get (snd (findSticky input w)) = get w"
  by (simp add: findSticky_def case_prod_beta split: sum.split)

lemma sticky_candidate [simp]: "get (snd (sticky_candidate input w)) = get w"
proof -
  obtain s w1 where s: "findSticky input w = (s, w1)" by fastforce
  then have g: "get w1 = get w" using findSticky [of input w] by simp
  then show ?thesis
    by (cases s) (simp_all add: sticky_candidate_def s case_prod_beta split: sum.split)
qed

end

text \<open>A part that the whole selection leaves alone.\<close>

locale router_frame = scoring_frame +
  assumes sticky [simp]: "get (sticky_sessions_update f4 w) = get w"
    and events [simp]: "get (routing_events_update f5 w) = get w"
    and audits [simp]: "get (audit_events_update f6 w) = get w"
    and round_robin [simp]: "get (w\<lparr>routing_rr := rr\<rparr>) = get w"
begin

lemma recordEvent [simp]: "get (recordEvent c p pool act msg meta w) = get w"
  by (simp add: recordEvent_def Let_def case_prod_beta)

lemma balance [simp]: "get (snd (balance input cs w)) = get w"
  by (simp add: balance_def Let_def)

lemma saveSticky [simp]: "get (saveSticky input p w) = get w"
  by (simp add: saveSticky_def Let_def case_prod_beta)

lemma fresh_candidate [simp]: "get (snd (fresh_candidate input w)) = get w"
  by (simp add: fresh_candidate_def Let_def case_prod_beta)

lemma SelectProxy [simp]: "get (snd (SelectProxy input w)) = get w"
  unfolding SelectProxy_def
proof (rule and_then_get [where get = get])
  fix u w1
  obtain s w2 where s: "sticky_candidate input w1 = (s, w2)" by fastforce
  then have "get w2 = get w1" using sticky_candidate [of input w1] by simp
  then show "get (snd (case sticky_candidate input w1 of
      (None, w1) \<Rightarrow> fresh_candidate input w1
    | (Some c, w1) \<Rightarrow> (Inr c, recordEvent (rsi_CustomerID input) (px_ID (ca_Proxy c)) (pool_ID (ca_Pool c))
        ''ProxySelected'' ''sticky session proxy selected'' (Some [(''session_key'', JStr (rsi_SessionKey input))]) w1)))
    = get w1"
    by (cases s) (simp_all add: s)
qed simp

lemma SelectDomainProxy [simp]: "get (snd (SelectDomainProxy input w)) = get w"
  by (simp add: SelectDomainProxy_def Let_def case_prod_beta)

lemma keeps_select: "keeps get (SelectDomainProxy input)"
  by (rule keepsI) simp

end

interpretation frame_sticky: scoring_frame sticky_sessions by unfold_locales simp_all
interpretation frame_rr: scoring_frame routing_rr by unfold_locales simp_all
interpretation frame_allocations: router_frame customer_proxy_allocations by unfold_locales simp_all
interpretation frame_credentials: router_frame customer_proxy_credentials by unfold_locales simp_all
interpretation frame_proxies: router_frame proxies by unfold_locales simp_all
interpretation frame_agents: router_frame agents by unfold_locales simp_all
interpretation frame_clock: router_frame clock by unfold_locales simp_all
interpretation frame_whitelists: router_frame ip_whitelists by unfold_locales simp_all
interpretation frame_abuse: router_frame abuse_mem by unfold_locales simp_all
interpretation frame_reservations: router_frame proxy_reservations by unfold_locales simp_all

section \<open>Scores\<close>

lemma clamp_bounds: "0 \<le> clamp_score s \<and> clamp_score s \<le> 100"
  by (simp add: clamp_score_def Let_def)

lemma CalculateQuality_ok:
  assumes "CalculateQuality pid w = (q, w')"
  shows "qs_ProxyID q = pid \<and> 0 \<le> qs_Score q \<and> qs_Score q \<le> 100 \<and> qs_Grade q = Grade (qs_Score q)"
proof (cases "db_first Proxy_schema (\<lambda>p. px_ID p = pid) w" rule: result_cases)
  case (err e w1)
  then show ?thesis using assms by (auto simp: CalculateQuality_def Grade_def)
next
  case (ok p w1)
  let ?b = "\<lambda>q. qs_ProxyID q = pid \<and> 0 \<le> qs_Score q \<and> qs_Score q \<le> 100 \<and> qs_Grade q = Grade (qs_Score q)"
  have c: "?b (fst (case db_create ProxyQualitySnapshot_schema s w5 of (Inl _, w6) \<Rightarrow> (s, w6) | (Inr t, w6) \<Rightarrow> (t, w6)))"
    if "?b s" for s w5
    using that proxy_quality_snapshots_table.create_ok_rows [of s w5]
    by (cases "db_create ProxyQualitySnapshot_schema s w5" rule: result_cases) auto
  have "?b (fst (CalculateQuality pid w))"
    unfolding CalculateQuality_def ok Let_def prod.case sum.case case_prod_beta [of _ "db_find_ordered _ _ _ _"]
      case_prod_beta [of _ "agentOffline _ _"] case_prod_beta [of _ "activeLoad _ _"] case_prod_beta [of _ "new_uuid _"]
    by (rule c) (simp add: quality_score_def clamp_bounds)
  then show ?thesis by (simp add: assms)
qed

text \<open>
  What the score of a proxy is made of: its last twenty metrics, the average of their latencies (300 ms when there
  is no metric), how many of them are bad, and the allocations that use it now.
\<close>

definition recent_metrics :: "string \<Rightarrow> world \<Rightarrow> HealthMetric list" where
  "recent_metrics pid w =
     take 20 (sort_key (\<lambda>m. - hm_CheckedAt m) (filter (\<lambda>m. hm_TargetID m = pid) (health_metrics w)))"

definition average_latency :: "HealthMetric list \<Rightarrow> int" where
  "average_latency ms = (if ms = [] then 300 else (\<Sum>m\<leftarrow>ms. max 0 (hm_LatencyMs m)) div int (length ms))"

definition bad_metrics :: "HealthMetric list \<Rightarrow> int" where
  "bad_metrics ms = int (length (filter (\<lambda>m. hm_Status m \<notin> {''online'', ''healthy''}) ms))"

definition allocations_of :: "string \<Rightarrow> world \<Rightarrow> int" where
  "allocations_of pid w =
     int (length (filter (\<lambda>a. cpa_ProxyID a = pid \<and> cpa_Status a = ''active'') (customer_proxy_allocations w)))"

definition agent_down :: "string \<Rightarrow> world \<Rightarrow> bool" where
  "agent_down aid w \<longleftrightarrow> aid \<noteq> [] \<and> list_ex (\<lambda>a. ag_ID a = aid \<and> ag_Status a = ''offline'') (agents w)"

lemma latency_total_exact:
  assumes "\<forall>m \<in> set ms. hm_LatencyMs m < 2 ^ 58" and "length ms \<le> 20"
  shows "latency_total ms = (\<Sum>m\<leftarrow>ms. max 0 (hm_LatencyMs m))"
proof -
  have "foldl (\<lambda>t m. if 0 < hm_LatencyMs m then wrap64 (t + hm_LatencyMs m) else t) 0 ms
      = (\<Sum>m\<leftarrow>ms. max 0 (hm_LatencyMs m)) \<and>
    0 \<le> (\<Sum>m\<leftarrow>ms. max 0 (hm_LatencyMs m)) \<and>
    (\<Sum>m\<leftarrow>ms. max 0 (hm_LatencyMs m)) \<le> int (length ms) * 2 ^ 58"
    using assms
  proof (induction ms rule: rev_induct)
    case (snoc m ms)
    then have ih: "foldl (\<lambda>t m. if 0 < hm_LatencyMs m then wrap64 (t + hm_LatencyMs m) else t) 0 ms
        = (\<Sum>m\<leftarrow>ms. max 0 (hm_LatencyMs m))"
      "0 \<le> (\<Sum>m\<leftarrow>ms. max 0 (hm_LatencyMs m))"
      "(\<Sum>m\<leftarrow>ms. max 0 (hm_LatencyMs m)) \<le> int (length ms) * 2 ^ 58" and m: "hm_LatencyMs m < 2 ^ 58"
      by simp_all
    have "int (length ms) \<le> 19" using snoc.prems(2) by simp
    then have "(\<Sum>m\<leftarrow>ms. max 0 (hm_LatencyMs m)) + max 0 (hm_LatencyMs m) < 2 ^ 63"
      using ih(3) m by simp
    then show ?case using ih m by (auto simp: wrap64_id max_def algebra_simps)
  qed simp
  then show ?thesis by (simp add: latency_total_def)
qed

lemma sdiv_nonneg: "0 \<le> (a :: int) \<Longrightarrow> 0 \<le> b \<Longrightarrow> a sdiv b = a div b"
  by (cases "a = 0"; cases "b = 0") (simp_all add: signed_divide_int_def)

lemma metric_latency_exact:
  assumes "\<forall>m \<in> set ms. hm_LatencyMs m < 2 ^ 58" and "length ms \<le> 20"
  shows "metric_latency ms = average_latency ms" and "0 \<le> average_latency ms"
proof -
  have "0 \<le> (\<Sum>m\<leftarrow>ms. max 0 (hm_LatencyMs m))" by (intro sum_list_nonneg) auto
  then show "metric_latency ms = average_latency ms" "0 \<le> average_latency ms"
    by (simp_all add: metric_latency_def average_latency_def latency_total_exact [OF assms] sdiv_nonneg
        pos_imp_zdiv_nonneg_iff)
qed

lemma latency_penalty_exact:
  assumes "0 \<le> l"
  shows "latency_penalty l = min 30 (l div 10)"
proof (cases "l < 300")
  case True
  then have "min (real_of_int l / 10) 30 = real_of_int l / real_of_int 10" by simp
  then have "latency_penalty l = \<lfloor>real_of_int l / real_of_int 10\<rfloor>"
    using assms by (simp add: latency_penalty_def Let_def)
  then show ?thesis using True by (simp only: floor_divide_of_int_eq)
next
  case False
  then have "min (real_of_int l / 10) 30 = 30" by simp
  then show ?thesis using False by (simp add: latency_penalty_def Let_def)
qed

lemma agentOffline_ok:
  assumes "faults w = []" and "distinct (map ag_ID (agents w))"
  shows "agentOffline aid w = (agent_down aid w, w)"
proof (cases "\<exists>a \<in> set (agents w). ag_ID a = aid")
  case True
  then obtain a where a: "a \<in> set (agents w)" "ag_ID a = aid" by blast
  have "first_by ag_ID (filter (\<lambda>x. ag_ID x = ag_ID a) (agents w)) = Some a"
    using assms(2) a(1) by (rule first_by_unique)
  moreover have "list_ex (\<lambda>x. ag_ID x = aid \<and> ag_Status x = ''offline'') (agents w) \<longleftrightarrow> ag_Status a = ''offline''"
    using a assms(2) by (auto simp: list_ex_iff distinct_map dest: inj_onD)
  ultimately show ?thesis using assms(1) a(2) by (simp add: agentOffline_def agent_down_def)
next
  case False
  then have "filter (\<lambda>x. ag_ID x = aid) (agents w) = []" by (auto simp: filter_empty_conv)
  moreover have "\<not> list_ex (\<lambda>x. ag_ID x = aid \<and> ag_Status x = ''offline'') (agents w)"
    using False by (auto simp: list_ex_iff)
  ultimately show ?thesis using assms(1) by (simp add: agentOffline_def agent_down_def)
qed

lemma stored_snapshot:
  fixes s :: ProxyQualitySnapshot
  defines "answer \<equiv> \<lambda>v. case db_create ProxyQualitySnapshot_schema s v of (Inl _, v') \<Rightarrow> (s, v') | (Inr t, v') \<Rightarrow> (t, v')"
  shows "qs_LatencyMs (fst (answer v)) = qs_LatencyMs s" "qs_RecentFailures (fst (answer v)) = qs_RecentFailures s"
    "qs_Score (fst (answer v)) = qs_Score s"
  using proxy_quality_snapshots_table.create_ok_rows [of s v]
  by (cases "db_create ProxyQualitySnapshot_schema s v" rule: result_cases; auto simp: answer_def)+

lemma quality_of_rows:
  assumes "faults w = []" and "p \<in> set (proxies w)" and "distinct (map px_ID (proxies w))"
    and "distinct (map ag_ID (agents w))"
  shows "qs_LatencyMs (fst (CalculateQuality (px_ID p) w)) = metric_latency (recent_metrics (px_ID p) w) \<and>
    qs_RecentFailures (fst (CalculateQuality (px_ID p) w)) = bad_metrics (recent_metrics (px_ID p) w) \<and>
    qs_Score (fst (CalculateQuality (px_ID p) w)) = quality_score (recent_metrics (px_ID p) w) (px_Status p)
      (agent_down (px_AgentID p) w) (allocations_of (px_ID p) w)"
proof -
  have first: "first_by px_ID (filter (\<lambda>x. px_ID x = px_ID p) (proxies w)) = Some p"
    using assms(3,2) by (rule first_by_unique)
  have row: "db_first Proxy_schema (\<lambda>x. px_ID x = px_ID p) w = (Inr p, w)"
    by (simp add: assms(1) first)
  have found: "db_find_ordered HealthMetric_schema (\<lambda>m. - hm_CheckedAt m) (\<lambda>m. hm_TargetID m = px_ID p) w
      = (Inr (sort_key (\<lambda>m. - hm_CheckedAt m) (filter (\<lambda>m. hm_TargetID m = px_ID p) (health_metrics w))), w)"
    by (simp add: assms(1))
  have ms: "limit_rows 20 (rows_or_empty (Inr (sort_key (\<lambda>m. - hm_CheckedAt m)
      (filter (\<lambda>m. hm_TargetID m = px_ID p) (health_metrics w))))) = recent_metrics (px_ID p) w"
    by (simp add: limit_rows_def recent_metrics_def rows_or_empty_def)
  have load: "activeLoad (px_ID p) w = (allocations_of (px_ID p) w, w)"
    by (simp add: activeLoad_def assms(1) allocations_of_def)
  have fails: "metric_failures (recent_metrics (px_ID p) w) = bad_metrics (recent_metrics (px_ID p) w)"
    by (simp add: metric_failures_def bad_metrics_def metric_online_def)
  show ?thesis
    unfolding CalculateQuality_def row found Let_def prod.case sum.case ms agentOffline_ok [OF assms(1,4)] load
      case_prod_beta [of _ "new_uuid _"]
    by (simp only: stored_snapshot) (simp add: fails)
qed

text \<open>
  C12. The quality score is exactly what the rows say. When the queries succeed, and the latencies
  stay below 2 to the 58 ms, the snapshot of a stored proxy has the average latency and the number of bad ones of its
  last twenty metrics, and its score is 100 less a tenth of that latency (at most 30), 8 for each bad
  metric, 45 when the proxy is stopped or in error, 35 when its agent is offline and 3 for each active
  allocation, cut off at 0; the grade follows from the score.
  Whatever the queries do, a score lies between 0 and 100 and its grade is \<open>Dead\<close> exactly below 40.
\<close>

theorem quality_bounds:
  assumes "faults w = []" and "p \<in> set (proxies w)" and "distinct (map px_ID (proxies w))"
    and "distinct (map ag_ID (agents w))" and "\<forall>m \<in> set (health_metrics w). hm_LatencyMs m < 2 ^ 58"
  shows "(let q = fst (CalculateQuality (px_ID p) w); ms = recent_metrics (px_ID p) w in
      qs_LatencyMs q = average_latency ms \<and> qs_RecentFailures q = bad_metrics ms \<and>
      qs_Score q = max 0 (100 - min 30 (average_latency ms div 10) - 8 * bad_metrics ms
        - (if px_Status p = ''error'' \<or> px_Status p = ''stopped'' then 45 else 0)
        - (if agent_down (px_AgentID p) w then 35 else 0) - 3 * allocations_of (px_ID p) w) \<and>
      qs_Grade q = (if 95 \<le> qs_Score q then ''A+'' else if 85 \<le> qs_Score q then ''A''
        else if 70 \<le> qs_Score q then ''B'' else if 40 \<le> qs_Score q then ''C'' else ''Dead'')) \<and>
    0 \<le> qs_Score (fst (CalculateQuality pid v)) \<and> qs_Score (fst (CalculateQuality pid v)) \<le> 100 \<and>
      (qs_Grade (fst (CalculateQuality pid v)) = ''Dead'' \<longleftrightarrow> qs_Score (fst (CalculateQuality pid v)) < 40)"
proof -
  let ?ms = "recent_metrics (px_ID p) w"
  have lat: "\<forall>m \<in> set ?ms. hm_LatencyMs m < 2 ^ 58" "length ?ms \<le> 20"
    using assms(5) by (auto simp: recent_metrics_def dest!: in_set_takeD)
  note l = metric_latency_exact [OF lat]
  have nn: "0 \<le> bad_metrics ?ms" "0 \<le> allocations_of (px_ID p) w" "0 \<le> min 30 (average_latency ?ms div 10)"
    using l(2) by (simp_all add: bad_metrics_def allocations_of_def pos_imp_zdiv_nonneg_iff)
  have clamp: "clamp_score s = max 0 s" if "s \<le> 100" for s using that by (simp add: clamp_score_def Let_def)
  have score: "quality_score ?ms (px_Status p) (agent_down (px_AgentID p) w) (allocations_of (px_ID p) w)
    = max 0 (100 - min 30 (average_latency ?ms div 10) - 8 * bad_metrics ?ms
        - (if px_Status p = ''error'' \<or> px_Status p = ''stopped'' then 45 else 0)
        - (if agent_down (px_AgentID p) w then 35 else 0) - 3 * allocations_of (px_ID p) w)"
    unfolding quality_score_def l(1) latency_penalty_exact [OF l(2)]
    by (subst clamp) (use nn in \<open>auto simp: metric_failures_def bad_metrics_def metric_online_def mult.commute\<close>)
  obtain q w' where q: "CalculateQuality (px_ID p) w = (q, w')" by fastforce
  have exact: "let q = fst (CalculateQuality (px_ID p) w); ms = ?ms in
      qs_LatencyMs q = average_latency ms \<and> qs_RecentFailures q = bad_metrics ms \<and>
      qs_Score q = max 0 (100 - min 30 (average_latency ms div 10) - 8 * bad_metrics ms
        - (if px_Status p = ''error'' \<or> px_Status p = ''stopped'' then 45 else 0)
        - (if agent_down (px_AgentID p) w then 35 else 0) - 3 * allocations_of (px_ID p) w) \<and>
      qs_Grade q = (if 95 \<le> qs_Score q then ''A+'' else if 85 \<le> qs_Score q then ''A''
        else if 70 \<le> qs_Score q then ''B'' else if 40 \<le> qs_Score q then ''C'' else ''Dead'')"
    using quality_of_rows [OF assms(1-4)] CalculateQuality_ok [OF q] by (simp only: Let_def score l(1) q fst_conv Grade_def)
  obtain q' v' where q': "CalculateQuality pid v = (q', v')" by fastforce
  have "0 \<le> qs_Score (fst (CalculateQuality pid v)) \<and> qs_Score (fst (CalculateQuality pid v)) \<le> 100 \<and>
      (qs_Grade (fst (CalculateQuality pid v)) = ''Dead'' \<longleftrightarrow> qs_Score (fst (CalculateQuality pid v)) < 40)"
    using CalculateQuality_ok [OF q'] by (simp add: q' Grade_def)
  with exact show ?thesis by blast
qed

text \<open>A running proxy with two metrics, one of them bad, and two active allocations.\<close>

definition quality_world :: world where
  "quality_world = start_world\<lparr>proxies := [zero_Proxy\<lparr>px_ID := ''p1'', px_Status := ''running''\<rparr>],
     health_metrics := [zero_HealthMetric\<lparr>hm_TargetID := ''p1'', hm_LatencyMs := 120, hm_Status := ''online''\<rparr>,
       zero_HealthMetric\<lparr>hm_TargetID := ''p1'', hm_LatencyMs := 80, hm_Status := ''offline''\<rparr>],
     customer_proxy_allocations := map (\<lambda>i. zero_CustomerProxyAllocation\<lparr>cpa_ID := i, cpa_ProxyID := ''p1'',
       cpa_Status := ''active''\<rparr>) [''a1'', ''a2'']\<rparr>"

lemma quality_world_parts:
  "average_latency (recent_metrics ''p1'' quality_world) = 100" "bad_metrics (recent_metrics ''p1'' quality_world) = 1"
  "allocations_of ''p1'' quality_world = 2" "agent_down [] quality_world = False"
  by code_simp+

theorem quality_bounds_witness:
  "let q = fst (CalculateQuality ''p1'' quality_world) in
     qs_LatencyMs q = 100 \<and> qs_Score q = 100 - 10 - 8 - 3 * 2 \<and> qs_Grade q = ''B''"
proof -
  let ?p = "zero_Proxy\<lparr>px_ID := ''p1'', px_Status := ''running''\<rparr>"
  have "faults quality_world = []" "?p \<in> set (proxies quality_world)" "distinct (map px_ID (proxies quality_world))"
    "distinct (map ag_ID (agents quality_world))" "\<forall>m \<in> set (health_metrics quality_world). hm_LatencyMs m < 2 ^ 58"
    by (simp_all add: quality_world_def)
  from quality_bounds [OF this, of "''p1''" quality_world] show ?thesis
    by (simp add: Let_def quality_world_parts)
qed

section \<open>Candidates\<close>

lemma candidateForProxy_ok:
  assumes "candidateForProxy pid input w = (Inr c, w')"
  shows "ca_Proxy c \<in> set (proxies w) \<and> px_ID (ca_Proxy c) = pid \<and>
    qs_Grade (ca_Quality c) = Grade (qs_Score (ca_Quality c)) \<and> 0 \<le> qs_Score (ca_Quality c) \<and>
    qs_Score (ca_Quality c) \<le> 100"
proof (cases "db_first Proxy_schema (\<lambda>p. px_ID p = pid) w" rule: result_cases)
  case (ok p w1)
  have "ca_Proxy c = p \<and> (\<exists>w2. ca_Quality c = fst (CalculateQuality pid w2))"
    using assms by (auto simp: candidateForProxy_def and_then_def ok Let_def case_prod_beta)
  then obtain w2 where "ca_Proxy c = p" and q2: "ca_Quality c = fst (CalculateQuality pid w2)" by blast
  moreover obtain q w3 where "CalculateQuality pid w2 = (q, w3)" by fastforce
  ultimately show ?thesis using proxies_table.first_row [OF ok] CalculateQuality_ok [of pid w2 q w3] by simp
qed (use assms in \<open>simp add: candidateForProxy_def and_then_def\<close>)

lemma collect_ok:
  assumes "collect_candidates input reserved ps w = (cs, w')" and "c \<in> set cs"
  shows "\<exists>p \<in> set ps. px_ID (ca_Proxy c) = px_ID p \<and> ca_Proxy c \<in> set (proxies w) \<and>
    candidate_matches input reserved p c \<and> qs_Grade (ca_Quality c) = Grade (qs_Score (ca_Quality c))"
  using assms
proof (induction ps arbitrary: w cs w')
  case (Cons p ps)
  show ?case
  proof (cases "candidateForProxy (px_ID p) input w" rule: result_cases)
    case (err e w1)
    have "proxies w1 = proxies w" using frame_proxies.candidateForProxy [of "px_ID p" input w] by (simp add: err)
    then show ?thesis using Cons.IH [of w1 cs w'] Cons.prems by (simp add: err)
  next
    case (ok d w1)
    obtain ds w2 where ds: "collect_candidates input reserved ps w1 = (ds, w2)" by fastforce
    have w1: "proxies w1 = proxies w" using frame_proxies.candidateForProxy [of "px_ID p" input w] by (simp add: ok)
    have cs: "cs = (if candidate_matches input reserved p d then d # ds else ds)"
      using Cons.prems(1) by (simp add: ok ds)
    show ?thesis
    proof (cases "c \<in> set ds")
      case True
      then show ?thesis using Cons.IH [OF ds] w1 by auto
    next
      case False
      then have "c = d" "candidate_matches input reserved p d" using Cons.prems(2) cs by (auto split: if_splits)
      then show ?thesis using candidateForProxy_ok [OF ok] by auto
    qed
  qed
qed simp

definition current_reservations :: "string \<Rightarrow> world \<Rightarrow> ProxyReservation list" where
  "current_reservations customerID w = filter (\<lambda>r. pres_Status r = ''active'' \<and> pres_StartsAt r \<le> clock w \<and>
     (pres_Permanent r \<or> pres_ExpiresAt r = None \<or> clock w < the (pres_ExpiresAt r)) \<and>
     (customerID = [] \<or> pres_CustomerID r = customerID)) (proxy_reservations w)"

lemma activeReservations_ok:
  assumes "activeReservations c w = (rs, w')"
  shows "rs = [] \<or> rs = current_reservations c w"
  using assms proxy_reservations_table.find_rows
  by (cases "db_find ProxyReservation_schema (\<lambda>r. pres_Status r = ''active'' \<and> pres_StartsAt r \<le> clock w \<and>
     (pres_Permanent r \<or> pres_ExpiresAt r = None \<or> clock w < the (pres_ExpiresAt r)) \<and>
     (c = [] \<or> pres_CustomerID r = c)) w" rule: result_cases)
    (auto simp: activeReservations_def Let_def rows_or_empty_def current_reservations_def)

text \<open>A candidate is a stored proxy that fits the request, is alive, on an agent that is not offline.\<close>

definition eligible :: "RoutingSelectionInput \<Rightarrow> world \<Rightarrow> Candidate \<Rightarrow> bool" where
  "eligible input w c \<longleftrightarrow> ca_Proxy c \<in> set (proxies w) \<and> proxy_matches input (ca_Proxy c) \<and>
     40 \<le> qs_Score (ca_Quality c) \<and>
     (\<exists>reserved \<in> {[], current_reservations (rsi_CustomerID input) w}. candidate_matches input reserved (ca_Proxy c) c)"

lemma candidates_stored:
  assumes "candidates input w = (Inr cs, w')" and "c \<in> set cs"
  shows "ca_Proxy c \<in> set (proxies w)"
proof -
  obtain ps w1 rs w2 out w3 where ps: "db_find Proxy_schema (proxy_matches input) w = (Inr ps, w1)"
    and rs: "activeReservations (rsi_CustomerID input) w1 = (rs, w2)"
    and out: "collect_candidates input rs ps w2 = (out, w3)"
    and cs: "cs = sort_key (\<lambda>c. (- ca_Weighted c, qs_LatencyMs (ca_Quality c))) out"
    using assms(1) unfolding candidates_def by (elim and_then_okE) (auto simp: Let_def split: prod.splits)
  have "proxies w2 = proxies w"
    using frame_proxies.activeReservations [of "rsi_CustomerID input" w1] rs proxies_table.find_rows [OF ps] by simp
  moreover have "c \<in> set out" using cs assms(2) by simp
  ultimately show ?thesis using collect_ok [OF out] by auto
qed

lemma candidates_ok:
  assumes "candidates input w = (Inr cs, w')" and "distinct (map px_ID (proxies w))" and "c \<in> set cs"
  shows "eligible input w c"
proof -
  obtain ps w1 rs w2 out w3 where ps: "db_find Proxy_schema (proxy_matches input) w = (Inr ps, w1)"
    and rs: "activeReservations (rsi_CustomerID input) w1 = (rs, w2)"
    and out: "collect_candidates input rs ps w2 = (out, w3)"
    and cs: "cs = sort_key (\<lambda>c. (- ca_Weighted c, qs_LatencyMs (ca_Quality c))) out"
    using assms(1) unfolding candidates_def by (elim and_then_okE) (auto simp: Let_def split: prod.splits)
  have c: "c \<in> set out" using cs assms(3) by simp
  have g: "proxies w2 = proxies w" "proxy_reservations w1 = proxy_reservations w" "clock w1 = clock w"
    using frame_proxies.activeReservations [of "rsi_CustomerID input" w1] rs proxies_table.find_rows [OF ps]
      db_find_frame [where get = proxy_reservations, of Proxy_schema "proxy_matches input" w]
      db_find_frame [where get = clock, of Proxy_schema "proxy_matches input" w] by (simp_all add: ps)
  from collect_ok [OF out c] obtain p where p: "p \<in> set ps" "px_ID (ca_Proxy c) = px_ID p"
    "ca_Proxy c \<in> set (proxies w)" "candidate_matches input rs p c"
    "qs_Grade (ca_Quality c) = Grade (qs_Score (ca_Quality c))" by (auto simp: g)
  have "p \<in> set (proxies w)" "proxy_matches input p" using p(1) proxies_table.find_rows [OF ps] by auto
  moreover have "ca_Proxy c = p" using assms(2) p(2,3) calculation(1) by (metis distinct_map inj_on_eq_iff)
  moreover have "rs = [] \<or> rs = current_reservations (rsi_CustomerID input) w"
    using activeReservations_ok [OF rs] g by (simp add: current_reservations_def)
  moreover have "40 \<le> qs_Score (ca_Quality c)"
    using p(4,5) by (auto simp: candidate_matches_def Grade_def split: if_splits)
  ultimately show ?thesis using p(3,4) by (auto simp: eligible_def)
qed

section \<open>The choice among the candidates\<close>

lemma hd_sort_in: "cs \<noteq> [] \<Longrightarrow> hd (sort_key k cs) \<in> set cs"
  by (metis hd_in_set set_empty set_sort)

lemma balance_in:
  assumes "balance input cs w = (c, w')" and "cs \<noteq> []"
  shows "c \<in> set cs"
proof -
  have "nat (i mod int (length cs)) < length cs" for i using assms(2) by (simp add: nat_less_iff)
  then show ?thesis using assms by (auto simp: balance_def Let_def hd_sort_in split: if_splits)
qed

lemma sort_key_sorted: "sorted (map k xs) \<Longrightarrow> sort_key k xs = xs"
  by (rule sort_key_id_if_sorted)

text \<open>
  C9. The best candidate wins: under the default strategy, among all the candidates of the request the
  chosen one has the greatest score less load, and the least latency of those that share it.
\<close>

theorem best_candidate_chosen:
  assumes "candidates input w = (Inr cs, w1)" and "balance input cs w1 = (best, w2)"
    and "strategy (rsi_Strategy input) \<in> {''weighted_score'', ''health_first'', ''highest_quality''}" and "c \<in> set cs"
  shows "best = hd cs \<and> ca_Weighted c \<le> ca_Weighted best \<and>
    (ca_Weighted c = ca_Weighted best \<longrightarrow> qs_LatencyMs (ca_Quality best) \<le> qs_LatencyMs (ca_Quality c))"
proof -
  obtain out where cs: "cs = sort_key (\<lambda>c. (- ca_Weighted c, qs_LatencyMs (ca_Quality c))) out"
    using assms(1) unfolding candidates_def by (elim and_then_okE) (auto simp: Let_def split: prod.splits)
  have srt: "sorted (map (\<lambda>c. (- ca_Weighted c, qs_LatencyMs (ca_Quality c))) cs)"
    unfolding cs by (rule sorted_sort_key)
  then have "sorted_wrt (\<lambda>a b. - ca_Weighted a \<le> - ca_Weighted b) cs"
    unfolding sorted_map by (rule sorted_wrt_mono_rel [rotated]) auto
  then have "sorted (map (\<lambda>c. - ca_Weighted c) cs)" by (simp only: sorted_map)
  then have b: "best = hd cs" using assms(2,3) by (auto simp: balance_def Let_def sort_key_sorted)
  obtain t where t: "cs = best # t" using assms(4) b by (cases cs) auto
  have "(- ca_Weighted best, qs_LatencyMs (ca_Quality best)) \<le> (- ca_Weighted c, qs_LatencyMs (ca_Quality c))"
    using srt assms(4) by (auto simp: t)
  then show ?thesis using b by auto
qed

lemma fresh_candidate_ok:
  assumes "fresh_candidate input w = (Inr c, w')"
  obtains cs w1 w2 where "candidates input w = (Inr cs, w1)" and "cs \<noteq> []" and "balance input cs w1 = (c, w2)"
proof (cases "candidates input w" rule: result_cases)
  case (ok cs w1)
  obtain d w2 where d: "balance input cs w1 = (d, w2)" by fastforce
  have "cs \<noteq> [] \<and> d = c" using assms by (auto simp: fresh_candidate_def and_then_def ok d Let_def split: if_splits)
  then show ?thesis using that ok d by blast
qed (use assms in \<open>simp add: fresh_candidate_def and_then_def\<close>)

lemma sticky_candidate_ok:
  assumes "sticky_candidate input w = (Some c, w')"
  shows "\<exists>s \<in> set (sticky_sessions w). ss_CustomerID s = rsi_CustomerID input \<and>
    ss_SessionKey s = rsi_SessionKey input \<and> ss_Country s = rsi_Country input \<and> clock w < ss_ExpiresAt s \<and>
    ss_ProxyID s = px_ID (ca_Proxy c) \<and> ca_Proxy c \<in> set (proxies w) \<and> 40 \<le> qs_Score (ca_Quality c)"
proof -
  obtain s w1 where s: "findSticky input w = (Some s, w1)" and "candidateForProxy (ss_ProxyID s) input w1 = (Inr c, w')"
    and live: "qs_Grade (ca_Quality c) \<noteq> ''Dead''"
    using assms by (auto simp: sticky_candidate_def split: prod.splits option.splits sum.splits if_splits)
  then have c: "ca_Proxy c \<in> set (proxies w1)" "px_ID (ca_Proxy c) = ss_ProxyID s"
    "qs_Grade (ca_Quality c) = Grade (qs_Score (ca_Quality c))" using candidateForProxy_ok by blast+
  have "proxies w1 = proxies w" using frame_proxies.findSticky [of input w] s by simp
  moreover have "s \<in> set (sticky_sessions w) \<and> ss_CustomerID s = rsi_CustomerID input \<and>
      ss_SessionKey s = rsi_SessionKey input \<and> ss_Country s = rsi_Country input \<and> clock w < ss_ExpiresAt s"
    using s by (auto simp: findSticky_def split: if_splits prod.splits sum.splits dest!: sticky_sessions_table.first_ordered_row)
  ultimately show ?thesis using c live by (auto simp: Grade_def split: if_splits)
qed

lemma SelectProxy_ok:
  assumes "SelectProxy input w = (Inr c, w')"
  obtains w1 where "SyncPools w = (Inr (), w1)" and "\<exists>w2. sticky_candidate input w1 = (Some c, w2)"
  | w1 w2 w3 where "SyncPools w = (Inr (), w1)" and "sticky_candidate input w1 = (None, w2)"
      and "fresh_candidate input w2 = (Inr c, w3)"
proof (cases "SyncPools w" rule: result_cases)
  case (ok u w1)
  obtain s w2 where s: "sticky_candidate input w1 = (s, w2)" by fastforce
  show ?thesis
  proof (cases s)
    case None
    then have "fresh_candidate input w2 = (Inr c, w')" using assms by (simp add: SelectProxy_def and_then_def ok s)
    then show ?thesis using that(2) ok s None by simp
  next
    case (Some d)
    then have "d = c" using assms by (simp add: SelectProxy_def and_then_def ok s)
    then show ?thesis using that(1) ok s Some by simp
  qed
qed (use assms in \<open>simp add: SelectProxy_def and_then_def\<close>)

text \<open>
  C8. The router only hands out proxies it may: the selected proxy is stored, alive (its score is at
  least 40), and either the live sticky session of this very customer, key and country names it, or it
  meets every filter of the request, its agent is not offline and the customer's reservations, as far as
  they could be read, allow it.
\<close>

theorem routed_proxy_eligible:
  assumes "SelectProxy input w = (Inr c, w')" and "distinct (map px_ID (proxies w))"
  shows "ca_Proxy c \<in> set (proxies w) \<and> 40 \<le> qs_Score (ca_Quality c) \<and>
    ((\<exists>s \<in> set (sticky_sessions w). ss_CustomerID s = rsi_CustomerID input \<and> ss_SessionKey s = rsi_SessionKey input \<and>
        ss_Country s = rsi_Country input \<and> clock w < ss_ExpiresAt s \<and> ss_ProxyID s = px_ID (ca_Proxy c)) \<or>
     (proxy_matches input (ca_Proxy c) \<and>
      (\<exists>reserved \<in> {[], current_reservations (rsi_CustomerID input) w}.
         candidate_matches input reserved (ca_Proxy c) c)))"
  using assms(1)
proof (cases rule: SelectProxy_ok)
  case (1 w1)
  then obtain w2 where s: "sticky_candidate input w1 = (Some c, w2)" by blast
  have "sticky_sessions w1 = sticky_sessions w" "proxies w1 = proxies w" "clock w1 = clock w"
    using frame_sticky.SyncPools [of w] frame_proxies.SyncPools [of w] frame_clock.SyncPools [of w] 1(1) by simp_all
  then show ?thesis using sticky_candidate_ok [OF s] by auto
next
  case (2 w1 w2 w3)
  have "proxies w1 = proxies w" "clock w1 = clock w" "proxy_reservations w1 = proxy_reservations w"
    using frame_proxies.SyncPools [of w] frame_clock.SyncPools [of w] frame_reservations.SyncPools [of w] 2(1) by simp_all
  moreover have "proxies w2 = proxies w1" "clock w2 = clock w1" "proxy_reservations w2 = proxy_reservations w1"
    using frame_proxies.sticky_candidate [of input w1] frame_clock.sticky_candidate [of input w1]
      frame_reservations.sticky_candidate [of input w1] 2(2) by simp_all
  ultimately have g: "proxies w2 = proxies w" "current_reservations x w2 = current_reservations x w" for x
    by (simp_all add: current_reservations_def)
  obtain cs w4 w5 where cs: "candidates input w2 = (Inr cs, w4)" "cs \<noteq> []" "balance input cs w4 = (c, w5)"
    using 2(3) by (rule fresh_candidate_ok)
  have "eligible input w2 c"
    by (rule candidates_ok [OF cs(1)]) (simp_all add: g assms(2) balance_in [OF cs(3,2)])
  then show ?thesis by (auto simp: eligible_def g)
qed

section \<open>Round robin\<close>

fun picks :: "nat \<Rightarrow> RoutingSelectionInput \<Rightarrow> Candidate list \<Rightarrow> world \<Rightarrow> Candidate list" where
  "picks 0 input cs w = []"
| "picks (Suc n) input cs w = (case balance input cs w of (c, w') \<Rightarrow> c # picks n input cs w')"

definition rr_key :: "RoutingSelectionInput \<Rightarrow> string" where
  "rr_key input = (if rsi_Country input = [] then ''global'' else rsi_Country input)"

lemma picks_round_robin:
  assumes "strategy (rsi_Strategy input) = ''round_robin''"
  shows "picks n input cs w =
    map (\<lambda>j. cs ! nat ((routing_rr w (rr_key input) + int j) mod int (length cs))) [0..<n]"
proof (induction n arbitrary: w)
  case (Suc n)
  let ?i = "routing_rr w (rr_key input)"
  have b: "balance input cs w = (cs ! nat (?i mod int (length cs)), w\<lparr>routing_rr := (routing_rr w)(rr_key input := ?i + 1)\<rparr>)"
    using assms by (simp add: balance_def Let_def rr_key_def)
  show ?case
    unfolding picks.simps b prod.case Suc upt_conv_Cons [OF zero_less_Suc] list.map map_Suc_upt [symmetric] map_map
    by (simp add: o_def algebra_simps del: upt_Suc)
qed simp

text \<open>
  C10. Round robin is fair: with the candidates unchanged, as many consecutive choices as there are
  candidates are exactly the candidates, each once, starting where the last round stopped.
\<close>

theorem round_robin_fair:
  assumes "strategy (rsi_Strategy input) = ''round_robin''" and "cs \<noteq> []"
  shows "picks (length cs) input cs w
    = rotate (nat (routing_rr w (rr_key input) mod int (length cs))) cs"
proof (rule nth_equalityI)
  show "length (picks (length cs) input cs w) = length (rotate (nat (routing_rr w (rr_key input) mod int (length cs))) cs)"
    by (simp add: picks_round_robin [OF assms(1)])
next
  fix j
  let ?i = "routing_rr w (rr_key input)" and ?n = "length cs"
  assume "j < length (picks (length cs) input cs w)"
  then have j: "j < ?n" by (simp add: picks_round_robin [OF assms(1)])
  have "int ((nat (?i mod int ?n) + j) mod ?n) = (?i + int j) mod int ?n"
    using assms(2) by (simp add: zmod_int mod_simps)
  then have "nat ((?i + int j) mod int ?n) = (nat (?i mod int ?n) + j) mod ?n" by linarith
  with j show "picks ?n input cs w ! j = rotate (nat (?i mod int ?n)) cs ! j"
    by (simp add: picks_round_robin [OF assms(1)] nth_rotate)
qed

section \<open>Sticky sessions\<close>

text \<open>
  C11. A sticky session sticks: after the router has pinned a proxy to a customer's session, the session
  is found again, with that proxy, at every later time until it expires. The database answers throughout.
\<close>

theorem sticky_roundtrip:
  assumes "faults w = []" and "rsi_CustomerID input \<noteq> []" and "rsi_SessionKey input \<noteq> []"
    and "isSticky (rsi_RotationMode input)" and "uuid_of w (uuid_next w) \<notin> ss_ID ` set (sticky_sessions w)"
    and "t < clock w + stickyDuration (rsi_RotationMode input)"
  shows "map_option ss_ProxyID (fst (findSticky input ((saveSticky input pid w)\<lparr>clock := t\<rparr>))) = Some pid"
proof -
  let ?mine = "\<lambda>s. ss_CustomerID s = rsi_CustomerID input \<and> ss_SessionKey s = rsi_SessionKey input \<and>
    ss_Country s = rsi_Country input"
  let ?u = "uuid_of w (uuid_next w)"
  define w2 where "w2 = snd (db_delete StickySession_schema ?mine (snd (new_uuid w)))"
  have w2: "faults w2 = []" "clock w2 = clock w" "sticky_sessions w2 = filter (\<lambda>s. \<not> ?mine s) (sticky_sessions w)"
    using assms(1) by (simp_all add: w2_def new_uuid_def)
  define r where "r = sc_create StickySession_schema (clock w) (sticky_sessions w2) (new_sticky ?u input pid (clock w))"
  have r: "ss_ID r = ?u" "?mine r" "ss_ProxyID r = pid" "ss_ExpiresAt r = clock w + stickyDuration (rsi_RotationMode input)"
    by (simp_all add: r_def new_sticky_def)
  have "db_create StickySession_schema (new_sticky ?u input pid (clock w)) w2
      = (Inr r, sc_put StickySession_schema (\<lambda>rs. rs @ [r]) w2)"
  proof (rule db_create_fresh)
    have "ss_ID x \<noteq> ?u" if "x \<in> set (sticky_sessions w)" for x using assms(5) imageI [OF that, of ss_ID] by auto
    then show "sc_key StickySession_schema x \<noteq> sc_key StickySession_schema r \<and> \<not> sc_clash StickySession_schema x r"
      if "x \<in> set (sc_rows StickySession_schema w2)" for x using that by (simp add: w2 r(1))
  qed (simp_all add: w2 r_def)
  then have save: "saveSticky input pid w = sticky_sessions_update (\<lambda>rs. rs @ [r]) w2"
    by (simp add: saveSticky_def w2_def new_uuid_def Let_def)
  have f: "filter (\<lambda>s. ss_CustomerID s = rsi_CustomerID input \<and> ss_SessionKey s = rsi_SessionKey input \<and>
      ss_Country s = rsi_Country input \<and> t < ss_ExpiresAt s) (sticky_sessions w2 @ [r]) = [r]"
    using r assms(6) by (auto simp: w2 filter_empty_conv)
  define w3 where "w3 = (sticky_sessions_update (\<lambda>rs. rs @ [r]) w2)\<lparr>clock := t\<rparr>"
  have w3: "faults w3 = []" "clock w3 = t" "sticky_sessions w3 = sticky_sessions w2 @ [r]" by (simp_all add: w3_def w2)
  have "db_first_ordered StickySession_schema (\<lambda>s. - ss_ExpiresAt s)
      (\<lambda>s. ss_CustomerID s = rsi_CustomerID input \<and> ss_SessionKey s = rsi_SessionKey input \<and>
           ss_Country s = rsi_Country input \<and> clock w3 < ss_ExpiresAt s) w3 = (Inr r, w3)"
    by (simp only: db_first_ordered_ok [OF w3(1)] StickySession_schema_simps w3 f first_by_single option.case)
  then show ?thesis unfolding save w3_def [symmetric] findSticky_def using assms(2-4) r(3) by simp
qed

section \<open>Pool members\<close>

text \<open>
  A score of zero is never written: when a proxy dies (score 0) or loses its last allocation (load 0),
  \<^verbatim>\<open>Updates(member)\<close> skips the zero, and the pool member keeps its old score and its old load.
\<close>

theorem dead_member_keeps_score:
  assumes "faults w = []" and "distinct (map pm_ID (proxy_pool_members w))"
    and "distinct (map pm_ProxyID (proxy_pool_members w))" and "old \<in> set (proxy_pool_members w)"
    and "pm_ProxyID old = px_ID p" and "px_ID p \<noteq> []" and "qs_Score quality = 0"
  shows "\<exists>m \<in> set (proxy_pool_members (store_member (new_member i pool p quality 0 now) w)).
    pm_ProxyID m = px_ID p \<and> pm_Status m = memberStatus p quality \<and>
    pm_QualityScore m = pm_QualityScore old \<and> pm_ActiveLoad m = pm_ActiveLoad old"
proof -
  let ?new = "new_member i pool p quality 0 now"
  have key: "pm_ProxyID ?new = pm_ProxyID old" using assms(5) by (simp add: new_member_def)
  have "first_by pm_ID (filter (\<lambda>m. pm_ProxyID m = pm_ProxyID old) (proxy_pool_members w)) = Some old"
    using assms(3,4) by (rule first_by_unique)
  then have q: "db_first ProxyPoolMember_schema (\<lambda>m. pm_ProxyID m = pm_ProxyID ?new) w = (Inr old, w)"
    unfolding key using assms(1) by simp
  let ?f = "\<lambda>r. sc_update ProxyPoolMember_schema (clock w)
    (write_member (?new\<lparr>pm_ID := pm_ID old, pm_CreatedAt := pm_CreatedAt old\<rparr>) r)"
  have rows: "proxy_pool_members (store_member ?new w) = update_where (\<lambda>m. pm_ID m = pm_ID old) ?f (proxy_pool_members w)"
    unfolding store_member_def q by (simp add: assms(1))
  show ?thesis
    unfolding rows
  proof (rule bex_update [OF assms(4)])
    have "memberStatus p quality \<noteq> []" by (simp add: memberStatus_def)
    then show "pm_ProxyID (if pm_ID old = pm_ID old then ?f old else old) = px_ID p \<and>
      pm_Status (if pm_ID old = pm_ID old then ?f old else old) = memberStatus p quality \<and>
      pm_QualityScore (if pm_ID old = pm_ID old then ?f old else old) = pm_QualityScore old \<and>
      pm_ActiveLoad (if pm_ID old = pm_ID old then ?f old else old) = pm_ActiveLoad old"
      using assms(6,7) by (simp add: write_member_def new_member_def nz_str_def nz_int_def)
  qed
qed

section \<open>Rotation\<close>

text \<open>
  A rotation (or failover) moves the allocation to another eligible proxy and nothing else: the
  credential stays that of the old proxy. So unless the customer happens to have a credential of the same
  name for the new proxy, the login the customer holds is refused there.
\<close>

theorem rotation_orphans_credential:
  assumes "RotateAllocation customerID allocationID reason w = (Inr c, w')"
    and "distinct (map px_ID (proxies w))" and "distinct (map cpa_ID (customer_proxy_allocations w))"
    and "\<And>cred. cred \<in> set (customer_proxy_credentials w) \<Longrightarrow> cpc_Username cred = u \<Longrightarrow>
      cpc_ProxyID cred \<noteq> px_ID (ca_Proxy c)"
  shows "\<exists>old \<in> set (customer_proxy_allocations w). cpa_ID old = allocationID \<and> cpa_CustomerID old = customerID \<and>
      px_ID (ca_Proxy c) \<noteq> cpa_ProxyID old \<and> ca_Proxy c \<in> set (proxies w) \<and>
      customer_proxy_allocations w' = update_where (\<lambda>a. cpa_ID a = allocationID)
        (\<lambda>a. a\<lparr>cpa_ProxyID := px_ID (ca_Proxy c), cpa_UpdatedAt := clock w\<rparr>) (customer_proxy_allocations w) \<and>
      customer_proxy_credentials w' = customer_proxy_credentials w \<and>
      \<not> au_Allowed (fst (abuse_ValidateProxyCredential bcrypt_ok (px_ID (ca_Proxy c)) u pw ip w'))"
proof -
  let ?input = "\<lambda>old. zero_RoutingSelectionInput\<lparr>rsi_CustomerID := customerID, rsi_Country := cpa_Country old,
         rsi_RotationMode := cpa_RotationMode old\<rparr>"
  obtain old w1 where old: "db_first CustomerProxyAllocation_schema
      (\<lambda>a. cpa_ID a = allocationID \<and> cpa_CustomerID a = customerID) w = (Inr old, w1)"
    using assms(1)
    by (cases "db_first CustomerProxyAllocation_schema (\<lambda>a. cpa_ID a = allocationID \<and> cpa_CustomerID a = customerID) w"
          rule: result_cases) (auto simp: RotateAllocation_def and_then_def)
  obtain cs w2 where cs: "candidates (?input old) w1 = (Inr cs, w2)"
    using assms(1)
    by (cases "candidates (?input old) w1" rule: result_cases) (auto simp: RotateAllocation_def and_then_def old)
  obtain d where d: "find (\<lambda>c. px_ID (ca_Proxy c) \<noteq> cpa_ProxyID old) cs = Some d"
    using assms(1) by (auto simp: RotateAllocation_def and_then_def old cs split: option.splits)
  let ?f = "\<lambda>a. a\<lparr>cpa_ProxyID := px_ID (ca_Proxy d), cpa_UpdatedAt := clock w2\<rparr>"
  obtain x w3 where up: "db_updates CustomerProxyAllocation_schema (\<lambda>a. cpa_ID a = cpa_ID old) ?f w2 = (Inr x, w3)"
    using assms(1)
    by (cases "db_updates CustomerProxyAllocation_schema (\<lambda>a. cpa_ID a = cpa_ID old) ?f w2" rule: result_cases)
       (auto simp: RotateAllocation_def and_then_def old cs d Let_def)
  have c: "c = d" and w': "\<exists>act msg meta. w' = recordEvent customerID (px_ID (ca_Proxy d)) (pool_ID (ca_Pool d)) act msg meta w3"
    using assms(1) up by (auto simp: RotateAllocation_def and_then_def old cs d Let_def)
  have g: "get w2 = get w"
    if "router_frame get" for get :: "world \<Rightarrow> 'z"
    using router_frame.axioms(1) [OF that, THEN scoring_frame.candidates, of "?input old" w1]
      db_first_get [OF old, of get] scoring_frame.faults [OF router_frame.axioms(1) [OF that]] by (simp add: cs)
  have rows: "customer_proxy_allocations w2 = customer_proxy_allocations w" "proxies w1 = proxies w"
    "customer_proxy_credentials w2 = customer_proxy_credentials w" "clock w2 = clock w"
    using g [OF frame_allocations.router_frame_axioms] g [OF frame_credentials.router_frame_axioms]
      g [OF frame_clock.router_frame_axioms] db_first_get [OF old, of proxies] by simp_all
  have oldin: "old \<in> set (customer_proxy_allocations w)" "cpa_ID old = allocationID" "cpa_CustomerID old = customerID"
    using customer_proxy_allocations_table.first_row [OF old] by simp_all
  have "d \<in> set cs" "px_ID (ca_Proxy d) \<noteq> cpa_ProxyID old" using d by (auto simp: find_Some_iff)
  moreover have "ca_Proxy d \<in> set (proxies w)"
    using candidates_ok [OF cs _ calculation(1)] assms(2) rows by (simp add: eligible_def)
  moreover have creds: "customer_proxy_credentials w' = customer_proxy_credentials w"
    using w' rows db_updates_get [OF up, of customer_proxy_credentials] frame_credentials.recordEvent by auto
  moreover have "customer_proxy_allocations w' = update_where (\<lambda>a. cpa_ID a = allocationID)
        (\<lambda>a. a\<lparr>cpa_ProxyID := px_ID (ca_Proxy d), cpa_UpdatedAt := clock w\<rparr>) (customer_proxy_allocations w)"
    using w' frame_allocations.recordEvent customer_proxy_allocations_table.updates_ok_rows [OF up] rows oldin(2)
    by auto
  moreover have "\<not> au_Allowed (fst (abuse_ValidateProxyCredential bcrypt_ok (px_ID (ca_Proxy d)) u pw ip w'))"
  proof
    assume "au_Allowed (fst (abuse_ValidateProxyCredential bcrypt_ok (px_ID (ca_Proxy d)) u pw ip w'))"
    then have "\<exists>cred \<in> set (customer_proxy_credentials w'). cpc_ProxyID cred = px_ID (ca_Proxy d) \<and> cpc_Username cred = u"
      using login_has_credential by blast
    then show False using assms(4) by (auto simp: creds c)
  qed
  ultimately show ?thesis using oldin by (auto simp: c)
qed

section \<open>The contract of the router\<close>

interpretation smart_router: routing_selector SelectDomainProxy
proof
  show "keeps customer_proxy_allocations (SelectDomainProxy input)" for input by (rule frame_allocations.keeps_select)
  show "keeps customer_proxy_credentials (SelectDomainProxy input)" for input by (rule frame_credentials.keeps_select)
  show "keeps proxies (SelectDomainProxy input)" for input by (rule frame_proxies.keeps_select)
  show "keeps clock (SelectDomainProxy input)" for input by (rule frame_clock.keeps_select)
  show "keeps ip_whitelists (SelectDomainProxy input)" for input by (rule frame_whitelists.keeps_select)
  show "keeps abuse_mem (SelectDomainProxy input)" for input by (rule frame_abuse.keeps_select)
  show "p \<in> set (proxies w)" if "SelectDomainProxy input w = (Inr p, w')" for input w p w'
  proof -
    from that obtain c w2 where c: "SelectProxy input w = (Inr c, w2)" and p: "p = ca_Proxy c"
      unfolding SelectDomainProxy_def by (elim and_then_okE) auto
    from c show ?thesis
    proof (cases rule: SelectProxy_ok)
      case (1 w1)
      have "proxies w1 = proxies w" using frame_proxies.SyncPools [of w] 1(1) by simp
      then show ?thesis using 1(2) p by (auto dest: sticky_candidate_ok)
    next
      case (2 w1 w2 w3)
      have "proxies w2 = proxies w"
        using frame_proxies.SyncPools [of w] frame_proxies.sticky_candidate [of input w1] 2 by simp
      moreover obtain cs w4 w5 where cs: "candidates input w2 = (Inr cs, w4)" "cs \<noteq> []" "balance input cs w4 = (c, w5)"
        using 2(3) by (rule fresh_candidate_ok)
      ultimately show ?thesis using candidates_stored [OF cs(1) balance_in [OF cs(3,2)]] p by simp
    qed
  qed
qed

section \<open>An example\<close>

definition demo_proxy :: "string \<Rightarrow> Proxy" where
  "demo_proxy i = zero_Proxy\<lparr>px_ID := i, px_Type := ''http'', px_Status := ''running'', px_Country := ''Japan''\<rparr>"

definition route_world :: world where
  "route_world = start_world\<lparr>proxies := [demo_proxy ''p1'', demo_proxy ''p2''], customer_proxy_allocations :=
     [zero_CustomerProxyAllocation\<lparr>cpa_ID := ''a1'', cpa_CustomerID := ''c1'', cpa_ProxyID := ''p1'',
        cpa_CredentialID := ''k1'', cpa_Country := ''Japan'', cpa_Status := ''active''\<rparr>],
     customer_proxy_credentials := [zero_CustomerProxyCredential\<lparr>cpc_ID := ''k1'', cpc_Username := ''u1'',
        cpc_CustomerID := ''c1'', cpc_ProxyID := ''p1'', cpc_Status := ''active''\<rparr>]\<rparr>"

definition demo_input :: RoutingSelectionInput where
  "demo_input = zero_RoutingSelectionInput\<lparr>rsi_CustomerID := ''c1'', rsi_Country := ''Japan''\<rparr>"

lemma demo_quality:
  "quality_score [] ''running'' False 0 = 70" "quality_score [] ''running'' False 1 = 67"
  by (simp_all add: quality_score_def metric_latency_def metric_failures_def latency_penalty_def clamp_score_def)

lemma demo_trim [simp]: "trim_space ''Japan'' = ''Japan''"
  by code_simp

lemma zero_limit [simp]: "limit_rows n [] = []"
  by (simp add: limit_rows_def)

lemma demo_candidates:
  "\<exists>c1 c2 w'. candidates demo_input route_world = (Inr [c1, c2], w') \<and> faults w' = [] \<and>
     px_ID (ca_Proxy c1) = ''p2'' \<and> px_ID (ca_Proxy c2) = ''p1''"
  by (simp add: candidates_def and_then_def route_world_def demo_input_def proxy_matches_def demo_proxy_def
      input_region_def activeReservations_def Let_def rows_or_empty_def candidateForProxy_def candidate_pool_def
      CreatePool_def strategy_def new_uuid_def db_create_ok CalculateQuality_def agentOffline_def activeLoad_def
      demo_quality Grade_def row_or_def candidate_matches_def reservationAllows_def demo_uuid_def
      metric_latency_def)

theorem best_candidate_chosen_witness:
  "\<exists>c1 c2 w1. candidates demo_input route_world = (Inr [c1, c2], w1) \<and> fst (balance demo_input [c1, c2] w1) = c1 \<and>
    ca_Weighted c2 \<le> ca_Weighted c1"
proof -
  obtain c1 c2 w1 where c: "candidates demo_input route_world = (Inr [c1, c2], w1)" using demo_candidates by blast
  obtain best w2 where b: "balance demo_input [c1, c2] w1 = (best, w2)" by fastforce
  have s: "strategy (rsi_Strategy demo_input) \<in> {''weighted_score'', ''health_first'', ''highest_quality''}"
    by (simp add: demo_input_def strategy_def)
  have "best = c1 \<and> ca_Weighted c2 \<le> ca_Weighted best" using best_candidate_chosen [OF c b s, of c2] by auto
  with b show ?thesis using c by auto
qed

lemma demo_select: "\<exists>c w'. SelectProxy demo_input route_world = (Inr c, w')"
proof -
  have "\<exists>c w'. SelectProxy demo_input route_world = (Inr c, w')" if "SyncPools route_world = (Inr (), w1)"
    "\<exists>cs w2. candidates demo_input w1 = (Inr cs, w2) \<and> cs \<noteq> []" for w1
    using that
    by (auto simp: SelectProxy_def and_then_def sticky_candidate_def findSticky_def demo_input_def isSticky_def
        fresh_candidate_def Let_def split: prod.splits)
  moreover have "\<exists>w1. SyncPools route_world = (Inr (), w1) \<and> (\<exists>cs w2. candidates demo_input w1 = (Inr cs, w2) \<and> cs \<noteq> [])"
    by (simp add: SyncPools_def sync_proxy_def member_country_def store_member_def new_member_def
      candidates_def and_then_def route_world_def demo_input_def proxy_matches_def demo_proxy_def
      input_region_def activeReservations_def Let_def rows_or_empty_def candidateForProxy_def candidate_pool_def
      CreatePool_def strategy_def new_uuid_def db_create_ok CalculateQuality_def agentOffline_def activeLoad_def
      demo_quality Grade_def row_or_def candidate_matches_def reservationAllows_def demo_uuid_def
      metric_latency_def)
  ultimately show ?thesis by blast
qed

theorem routed_proxy_eligible_witness:
  "\<exists>c w'. SelectProxy demo_input route_world = (Inr c, w') \<and> ca_Proxy c \<in> set (proxies route_world) \<and>
     40 \<le> qs_Score (ca_Quality c)"
proof -
  obtain c w' where s: "SelectProxy demo_input route_world = (Inr c, w')" using demo_select by blast
  have "distinct (map px_ID (proxies route_world))" by (simp add: route_world_def demo_proxy_def)
  from routed_proxy_eligible [OF s this] s show ?thesis by auto
qed

definition demo_candidate :: "string \<Rightarrow> Candidate" where
  "demo_candidate i = \<lparr>ca_Proxy = demo_proxy i, ca_Pool = zero_ProxyPool, ca_Quality = zero_ProxyQualitySnapshot,
     ca_Agent = zero_Agent, ca_VPNNode = zero_VPNNode, ca_ActiveLoad = 0, ca_Weighted = 0\<rparr>"

theorem round_robin_fair_witness:
  "picks 3 (demo_input\<lparr>rsi_Strategy := ''round_robin''\<rparr>) (map demo_candidate [''p1'', ''p2'', ''p3''])
      (route_world\<lparr>routing_rr := (\<lambda>_. 4)\<rparr>) = map demo_candidate [''p2'', ''p3'', ''p1'']"
  using round_robin_fair [of "demo_input\<lparr>rsi_Strategy := ''round_robin''\<rparr>" "map demo_candidate [''p1'', ''p2'', ''p3'']"
      "route_world\<lparr>routing_rr := (\<lambda>_. 4)\<rparr>"]
  by (simp add: demo_input_def strategy_def numeral_3_eq_3 rotate1_def)

theorem sticky_roundtrip_witness:
  "map_option ss_ProxyID (fst (findSticky (demo_input\<lparr>rsi_SessionKey := ''k'', rsi_RotationMode := ''sticky_6h''\<rparr>)
     ((saveSticky (demo_input\<lparr>rsi_SessionKey := ''k'', rsi_RotationMode := ''sticky_6h''\<rparr>) ''p1'' route_world)
        \<lparr>clock := 1005 * hour\<rparr>))) = Some ''p1''"
  by (rule sticky_roundtrip)
     (simp_all add: route_world_def demo_input_def isSticky_def stickyDuration_def time_units)

definition demo_member :: ProxyPoolMember where
  "demo_member = \<lparr>pm_ID = ''m1'', pm_PoolID = ''pool'', pm_ProxyID = ''p1'', pm_AgentID = [], pm_VPNNodeID = [],
     pm_HealthStatus = ''healthy'', pm_QualityScore = 90, pm_ActiveLoad = 3, pm_Status = ''active'',
     pm_LastChecked = 1, pm_CreatedAt = 1, pm_UpdatedAt = 1\<rparr>"

theorem dead_member_keeps_score_witness:
  "\<exists>m \<in> set (proxy_pool_members (store_member (new_member ''m2'' zero_ProxyPool (demo_proxy ''p1'')
       (zero_ProxyQualitySnapshot\<lparr>qs_Grade := ''Dead'', qs_HealthStatus := ''dead''\<rparr>) 0 5)
       (route_world\<lparr>proxy_pool_members := [demo_member]\<rparr>))).
     pm_ProxyID m = ''p1'' \<and> pm_Status m = ''degraded'' \<and> pm_QualityScore m = 90 \<and> pm_ActiveLoad m = 3"
  using dead_member_keeps_score [of "route_world\<lparr>proxy_pool_members := [demo_member]\<rparr>" demo_member "demo_proxy ''p1''"
      "zero_ProxyQualitySnapshot\<lparr>qs_Grade := ''Dead'', qs_HealthStatus := ''dead''\<rparr>" "''m2''" zero_ProxyPool 5]
  by (simp add: route_world_def demo_member_def demo_proxy_def memberStatus_def zero_ProxyQualitySnapshot_def)

lemma demo_rotate: "\<exists>c w'. RotateAllocation ''c1'' ''a1'' ''test'' route_world = (Inr c, w') \<and> px_ID (ca_Proxy c) = ''p2''"
proof -
  obtain c1 c2 w1 where c: "candidates demo_input route_world = (Inr [c1, c2], w1)" "faults w1 = []"
    "px_ID (ca_Proxy c1) = ''p2''" using demo_candidates by blast
  have "zero_RoutingSelectionInput\<lparr>rsi_CustomerID := ''c1'', rsi_Country := ''Japan'', rsi_RotationMode := []\<rparr> = demo_input"
    by (simp add: demo_input_def zero_RoutingSelectionInput_def)
  moreover have "db_first CustomerProxyAllocation_schema (\<lambda>a. cpa_ID a = ''a1'' \<and> cpa_CustomerID a = ''c1'') route_world
    = (Inr (zero_CustomerProxyAllocation\<lparr>cpa_ID := ''a1'', cpa_CustomerID := ''c1'', cpa_ProxyID := ''p1'',
        cpa_CredentialID := ''k1'', cpa_Country := ''Japan'', cpa_Status := ''active''\<rparr>), route_world)"
    by (simp add: route_world_def)
  ultimately show ?thesis
    using c by (simp add: RotateAllocation_def and_then_def Let_def zero_CustomerProxyAllocation_def)
qed

theorem rotation_orphans_credential_witness:
  "\<exists>c w'. RotateAllocation ''c1'' ''a1'' ''test'' route_world = (Inr c, w') \<and>
     map cpa_ProxyID (customer_proxy_allocations w') = [''p2''] \<and>
     \<not> au_Allowed (fst (abuse_ValidateProxyCredential (\<lambda>h pw. True) ''p2'' ''u1'' ''secret'' ''10.0.0.1'' w'))"
proof -
  obtain c w' where r: "RotateAllocation ''c1'' ''a1'' ''test'' route_world = (Inr c, w')"
    and i: "px_ID (ca_Proxy c) = ''p2''" using demo_rotate by blast
  have d: "distinct (map px_ID (proxies route_world))" "distinct (map cpa_ID (customer_proxy_allocations route_world))"
    by (simp_all add: route_world_def demo_proxy_def)
  have n: "cpc_ProxyID cred \<noteq> px_ID (ca_Proxy c)"
    if "cred \<in> set (customer_proxy_credentials route_world)" "cpc_Username cred = ''u1''" for cred
    using that by (simp add: route_world_def i)
  have rows: "customer_proxy_allocations route_world = [zero_CustomerProxyAllocation\<lparr>cpa_ID := ''a1'',
      cpa_CustomerID := ''c1'', cpa_ProxyID := ''p1'', cpa_CredentialID := ''k1'', cpa_Country := ''Japan'',
      cpa_Status := ''active''\<rparr>]" by (simp add: route_world_def)
  show ?thesis
    using rotation_orphans_credential [OF r d n, where u = "''u1''" and bcrypt_ok = "\<lambda>h pw. True" and pw = "''secret''"
      and ip = "''10.0.0.1''"] r by (auto simp: rows i)
qed

end
