(* ===== verification/Repository.thy ===== *)
theory Repository imports Tables begin

text \<open>
  The repositories of \<^verbatim>\<open>internal/repository/sqlite.go\<close>, one group of operations per repository struct, and
  the contract of a repository as the interfaces of \<^verbatim>\<open>internal/domain/repository.go\<close> have it: what was
  created or updated is what is read back, and what was deleted is gone. A repository is a thin layer over
  a table; the contract follows from that of the table.
\<close>

section \<open>The repositories\<close>

text \<open>\<^verbatim>\<open>Order(t desc).Limit(n).Find\<close>.\<close>

definition recent_rows ::
  "('r, 'k) schema \<Rightarrow> ('r \<Rightarrow> time) \<Rightarrow> ('r \<Rightarrow> bool) \<Rightarrow> int \<Rightarrow> world \<Rightarrow> 'r list result \<times> world" where
  "recent_rows sc ts P limit = and_then (db_find_ordered sc (\<lambda>r. - ts r) P) (\<lambda>rows w. (Inr (limit_rows limit rows), w))"

text \<open>\<^verbatim>\<open>vpnNodeRepo\<close>.\<close>

definition vpnNodeRepo_Create :: "VPNNode \<Rightarrow> world \<Rightarrow> VPNNode result \<times> world" where
  "vpnNodeRepo_Create = db_create VPNNode_schema"

definition vpnNodeRepo_Update :: "VPNNode \<Rightarrow> world \<Rightarrow> VPNNode result \<times> world" where
  "vpnNodeRepo_Update = db_save VPNNode_schema"

definition vpnNodeRepo_Delete :: "string \<Rightarrow> world \<Rightarrow> unit result \<times> world" where
  "vpnNodeRepo_Delete i = db_delete VPNNode_schema (\<lambda>r. vn_ID r = i)"

definition vpnNodeRepo_GetByID :: "string \<Rightarrow> world \<Rightarrow> VPNNode result \<times> world" where
  "vpnNodeRepo_GetByID i = db_first VPNNode_schema (\<lambda>r. vn_ID r = i)"

definition vpnNodeRepo_List :: "world \<Rightarrow> VPNNode list result \<times> world" where
  "vpnNodeRepo_List = db_find VPNNode_schema (\<lambda>_. True)"

text \<open>\<^verbatim>\<open>proxyRepo\<close>.\<close>

definition proxyRepo_Create :: "Proxy \<Rightarrow> world \<Rightarrow> Proxy result \<times> world" where
  "proxyRepo_Create = db_create Proxy_schema"

definition proxyRepo_Update :: "Proxy \<Rightarrow> world \<Rightarrow> Proxy result \<times> world" where
  "proxyRepo_Update = db_save Proxy_schema"

definition proxyRepo_Delete :: "string \<Rightarrow> world \<Rightarrow> unit result \<times> world" where
  "proxyRepo_Delete i = db_delete Proxy_schema (\<lambda>r. px_ID r = i)"

definition proxyRepo_GetByID :: "string \<Rightarrow> world \<Rightarrow> Proxy result \<times> world" where
  "proxyRepo_GetByID i = db_first Proxy_schema (\<lambda>r. px_ID r = i)"

definition proxyRepo_GetByPort :: "int \<Rightarrow> world \<Rightarrow> Proxy result \<times> world" where
  "proxyRepo_GetByPort x = db_first Proxy_schema (\<lambda>r. px_Port r = x)"

definition proxyRepo_List :: "world \<Rightarrow> Proxy list result \<times> world" where
  "proxyRepo_List = db_find Proxy_schema (\<lambda>_. True)"

definition proxyRepo_GetByVPNNodeID :: "string \<Rightarrow> world \<Rightarrow> Proxy list result \<times> world" where
  "proxyRepo_GetByVPNNodeID x = db_find Proxy_schema (\<lambda>r. px_VPNNodeID r = x)"

text \<open>\<^verbatim>\<open>auditLogRepo\<close>.\<close>

definition auditLogRepo_Create :: "AuditLog \<Rightarrow> world \<Rightarrow> AuditLog result \<times> world" where
  "auditLogRepo_Create = db_create AuditLog_schema"

definition auditLogRepo_List :: "int \<Rightarrow> world \<Rightarrow> AuditLog list result \<times> world" where
  "auditLogRepo_List = recent_rows AuditLog_schema al_Timestamp (\<lambda>_. True)"

text \<open>\<^verbatim>\<open>healthMetricRepo\<close>.\<close>

definition healthMetricRepo_Create :: "HealthMetric \<Rightarrow> world \<Rightarrow> HealthMetric result \<times> world" where
  "healthMetricRepo_Create = db_create HealthMetric_schema"

definition healthMetricRepo_GetLatest :: "string \<Rightarrow> int \<Rightarrow> world \<Rightarrow> HealthMetric list result \<times> world" where
  "healthMetricRepo_GetLatest x = recent_rows HealthMetric_schema hm_CheckedAt (\<lambda>r. hm_TargetID r = x)"

text \<open>\<^verbatim>\<open>vpnCredentialRepo\<close>.\<close>

definition vpnCredentialRepo_Create :: "VPNCredential \<Rightarrow> world \<Rightarrow> VPNCredential result \<times> world" where
  "vpnCredentialRepo_Create = db_create VPNCredential_schema"

definition vpnCredentialRepo_Update :: "VPNCredential \<Rightarrow> world \<Rightarrow> VPNCredential result \<times> world" where
  "vpnCredentialRepo_Update = db_save VPNCredential_schema"

definition vpnCredentialRepo_Delete :: "string \<Rightarrow> world \<Rightarrow> unit result \<times> world" where
  "vpnCredentialRepo_Delete i = db_delete VPNCredential_schema (\<lambda>r. vc_ID r = i)"

definition vpnCredentialRepo_GetByID :: "string \<Rightarrow> world \<Rightarrow> VPNCredential result \<times> world" where
  "vpnCredentialRepo_GetByID i = db_first VPNCredential_schema (\<lambda>r. vc_ID r = i)"

definition vpnCredentialRepo_List :: "world \<Rightarrow> VPNCredential list result \<times> world" where
  "vpnCredentialRepo_List = db_find VPNCredential_schema (\<lambda>_. True)"

text \<open>\<^verbatim>\<open>agentRepo\<close>.\<close>

definition agentRepo_Create :: "Agent \<Rightarrow> world \<Rightarrow> Agent result \<times> world" where
  "agentRepo_Create = db_create Agent_schema"

definition agentRepo_Update :: "Agent \<Rightarrow> world \<Rightarrow> Agent result \<times> world" where
  "agentRepo_Update = db_save Agent_schema"

definition agentRepo_Delete :: "string \<Rightarrow> world \<Rightarrow> unit result \<times> world" where
  "agentRepo_Delete i = db_delete Agent_schema (\<lambda>r. ag_ID r = i)"

definition agentRepo_GetByID :: "string \<Rightarrow> world \<Rightarrow> Agent result \<times> world" where
  "agentRepo_GetByID i = db_first Agent_schema (\<lambda>r. ag_ID r = i)"

definition agentRepo_List :: "world \<Rightarrow> Agent list result \<times> world" where
  "agentRepo_List = db_find Agent_schema (\<lambda>_. True)"

text \<open>\<^verbatim>\<open>expressVPNSessionRepo\<close>.\<close>

definition expressVPNSessionRepo_Create :: "ExpressVPNSession \<Rightarrow> world \<Rightarrow> ExpressVPNSession result \<times> world" where
  "expressVPNSessionRepo_Create = db_create ExpressVPNSession_schema"

definition expressVPNSessionRepo_Update :: "ExpressVPNSession \<Rightarrow> world \<Rightarrow> ExpressVPNSession result \<times> world" where
  "expressVPNSessionRepo_Update = db_save ExpressVPNSession_schema"

definition expressVPNSessionRepo_GetByID :: "string \<Rightarrow> world \<Rightarrow> ExpressVPNSession result \<times> world" where
  "expressVPNSessionRepo_GetByID i = db_first ExpressVPNSession_schema (\<lambda>r. es_ID r = i)"

definition expressVPNSessionRepo_GetActiveByAgent :: "string \<Rightarrow> world \<Rightarrow> ExpressVPNSession result \<times> world" where
  "expressVPNSessionRepo_GetActiveByAgent agentID =
     db_first ExpressVPNSession_schema (\<lambda>s. es_AgentID s = agentID \<and> es_Status s = ''connected'')"

definition expressVPNSessionRepo_List :: "world \<Rightarrow> ExpressVPNSession list result \<times> world" where
  "expressVPNSessionRepo_List = db_find ExpressVPNSession_schema (\<lambda>_. True)"

text \<open>\<^verbatim>\<open>agentHeartbeatRepo\<close>.\<close>

definition agentHeartbeatRepo_Create :: "AgentHeartbeat \<Rightarrow> world \<Rightarrow> AgentHeartbeat result \<times> world" where
  "agentHeartbeatRepo_Create = db_create AgentHeartbeat_schema"

definition agentHeartbeatRepo_ListByAgent :: "string \<Rightarrow> int \<Rightarrow> world \<Rightarrow> AgentHeartbeat list result \<times> world" where
  "agentHeartbeatRepo_ListByAgent x = recent_rows AgentHeartbeat_schema ah_Timestamp (\<lambda>r. ah_AgentID r = x)"

text \<open>\<^verbatim>\<open>portAllocationRepo\<close>.\<close>

definition portAllocationRepo_Create :: "PortAllocation \<Rightarrow> world \<Rightarrow> PortAllocation result \<times> world" where
  "portAllocationRepo_Create = db_save PortAllocation_schema"

definition portAllocationRepo_GetByPort :: "int \<Rightarrow> world \<Rightarrow> PortAllocation result \<times> world" where
  "portAllocationRepo_GetByPort x = db_first PortAllocation_schema (\<lambda>r. pa_Port r = x)"

definition portAllocationRepo_Delete :: "int \<Rightarrow> world \<Rightarrow> unit result \<times> world" where
  "portAllocationRepo_Delete x = db_delete PortAllocation_schema (\<lambda>r. pa_Port r = x)"

definition portAllocationRepo_List :: "world \<Rightarrow> PortAllocation list result \<times> world" where
  "portAllocationRepo_List = db_find PortAllocation_schema (\<lambda>_. True)"

text \<open>\<^verbatim>\<open>rotationPolicyRepo\<close>.\<close>

definition rotationPolicyRepo_Create :: "RotationPolicy \<Rightarrow> world \<Rightarrow> RotationPolicy result \<times> world" where
  "rotationPolicyRepo_Create = db_create RotationPolicy_schema"

definition rotationPolicyRepo_Update :: "RotationPolicy \<Rightarrow> world \<Rightarrow> RotationPolicy result \<times> world" where
  "rotationPolicyRepo_Update = db_save RotationPolicy_schema"

definition rotationPolicyRepo_Delete :: "string \<Rightarrow> world \<Rightarrow> unit result \<times> world" where
  "rotationPolicyRepo_Delete i = db_delete RotationPolicy_schema (\<lambda>r. rp_ID r = i)"

definition rotationPolicyRepo_GetByID :: "string \<Rightarrow> world \<Rightarrow> RotationPolicy result \<times> world" where
  "rotationPolicyRepo_GetByID i = db_first RotationPolicy_schema (\<lambda>r. rp_ID r = i)"

definition rotationPolicyRepo_List :: "world \<Rightarrow> RotationPolicy list result \<times> world" where
  "rotationPolicyRepo_List = db_find RotationPolicy_schema (\<lambda>_. True)"

text \<open>\<^verbatim>\<open>expressVPNValidationRepo\<close>.\<close>

definition expressVPNValidationRepo_Create :: "ExpressVPNValidation \<Rightarrow> world \<Rightarrow> ExpressVPNValidation result \<times> world" where
  "expressVPNValidationRepo_Create = db_create ExpressVPNValidation_schema"

definition expressVPNValidationRepo_ListByNode :: "string \<Rightarrow> int \<Rightarrow> world \<Rightarrow> ExpressVPNValidation list result \<times> world" where
  "expressVPNValidationRepo_ListByNode x = recent_rows ExpressVPNValidation_schema ev_Timestamp (\<lambda>r. ev_NodeID r = x)"

definition expressVPNValidationRepo_GetLatestForNode :: "string \<Rightarrow> world \<Rightarrow> ExpressVPNValidation result \<times> world" where
  "expressVPNValidationRepo_GetLatestForNode nodeID =
     db_first_ordered ExpressVPNValidation_schema (\<lambda>r. - ev_Timestamp r) (\<lambda>r. ev_NodeID r = nodeID)"

text \<open>\<^verbatim>\<open>systemMetricRepo\<close>.\<close>

definition systemMetricRepo_Create :: "SystemMetricSnapshot \<Rightarrow> world \<Rightarrow> SystemMetricSnapshot result \<times> world" where
  "systemMetricRepo_Create = db_create SystemMetricSnapshot_schema"

definition systemMetricRepo_List :: "int \<Rightarrow> world \<Rightarrow> SystemMetricSnapshot list result \<times> world" where
  "systemMetricRepo_List = recent_rows SystemMetricSnapshot_schema sm_Timestamp (\<lambda>_. True)"

text \<open>\<^verbatim>\<open>agentCredentialRepo\<close>.\<close>

definition agentCredentialRepo_Create :: "AgentCredential \<Rightarrow> world \<Rightarrow> AgentCredential result \<times> world" where
  "agentCredentialRepo_Create = db_create AgentCredential_schema"

definition agentCredentialRepo_Update :: "AgentCredential \<Rightarrow> world \<Rightarrow> AgentCredential result \<times> world" where
  "agentCredentialRepo_Update = db_save AgentCredential_schema"

definition agentCredentialRepo_GetByAgentID :: "string \<Rightarrow> world \<Rightarrow> AgentCredential result \<times> world" where
  "agentCredentialRepo_GetByAgentID x = db_first AgentCredential_schema (\<lambda>r. ac_AgentID r = x)"

definition agentCredentialRepo_Delete :: "string \<Rightarrow> world \<Rightarrow> unit result \<times> world" where
  "agentCredentialRepo_Delete x = db_delete AgentCredential_schema (\<lambda>r. ac_AgentID r = x)"

text \<open>\<^verbatim>\<open>agentCommandRepo\<close>.\<close>

definition agentCommandRepo_Create :: "AgentCommand \<Rightarrow> world \<Rightarrow> AgentCommand result \<times> world" where
  "agentCommandRepo_Create = db_create AgentCommand_schema"

definition agentCommandRepo_Update :: "AgentCommand \<Rightarrow> world \<Rightarrow> AgentCommand result \<times> world" where
  "agentCommandRepo_Update = db_save AgentCommand_schema"

definition agentCommandRepo_GetByID :: "string \<Rightarrow> world \<Rightarrow> AgentCommand result \<times> world" where
  "agentCommandRepo_GetByID i = db_first AgentCommand_schema (\<lambda>r. cmd_ID r = i)"

definition agentCommandRepo_GetByIdempotencyKey :: "string \<Rightarrow> world \<Rightarrow> AgentCommand result \<times> world" where
  "agentCommandRepo_GetByIdempotencyKey x = db_first AgentCommand_schema (\<lambda>r. cmd_IdempotencyKey r = x)"

definition agentCommandRepo_ListPendingByAgent :: "string \<Rightarrow> world \<Rightarrow> AgentCommand list result \<times> world" where
  "agentCommandRepo_ListPendingByAgent agentID =
     db_find_ordered AgentCommand_schema cmd_CreatedAt (\<lambda>c. cmd_AgentID c = agentID \<and> cmd_Status c = ''pending'')"

definition agentCommandRepo_ListPendingAll :: "world \<Rightarrow> AgentCommand list result \<times> world" where
  "agentCommandRepo_ListPendingAll =
     db_find_ordered AgentCommand_schema cmd_CreatedAt (\<lambda>c. cmd_Status c = ''pending'')"

definition agentCommandRepo_ListActive :: "world \<Rightarrow> AgentCommand list result \<times> world" where
  "agentCommandRepo_ListActive =
     db_find AgentCommand_schema (\<lambda>c. cmd_Status c = ''dispatched'' \<or> cmd_Status c = ''executing'')"

definition agentCommandRepo_ListAll :: "int \<Rightarrow> world \<Rightarrow> AgentCommand list result \<times> world" where
  "agentCommandRepo_ListAll = recent_rows AgentCommand_schema cmd_CreatedAt (\<lambda>_. True)"

section \<open>The contract of a repository\<close>

locale crud_repository =
  fixes create update :: "'r \<Rightarrow> world \<Rightarrow> 'r result \<times> world"
    and get :: "'k \<Rightarrow> world \<Rightarrow> 'r result \<times> world"
    and delete :: "'k \<Rightarrow> world \<Rightarrow> unit result \<times> world"
    and key :: "'r \<Rightarrow> 'k"
  assumes create_get: "create r w = (Inr r', w') \<Longrightarrow> faults w' = [] \<Longrightarrow> key r' = key r \<and> get (key r) w' = (Inr r', w')"
    and update_get: "update r w = (Inr r', w') \<Longrightarrow> faults w' = [] \<Longrightarrow> key r' = key r \<and> get (key r) w' = (Inr r', w')"
    and delete_get: "delete k w = (Inr u, w') \<Longrightarrow> faults w' = [] \<Longrightarrow> get k w' = (Inl ErrNotFound, w')"
    and get_key: "get k w = (Inr r, w') \<Longrightarrow> key r = k"
begin

text \<open>Read, modify, write back: the pattern of every handler that changes one row.\<close>

lemma modify_get:
  assumes "get k w = (Inr r, w1)" and "key (f r) = key r" and "update (f r) w1 = (Inr r', w')" and "faults w' = []"
  shows "get k w' = (Inr r', w')"
  using update_get [OF assms(3,4)] get_key [OF assms(1)] assms(2) by simp

lemma create_delete_get:
  assumes "create r w = (Inr r', w1)" and "delete (key r) w1 = (Inr u, w')" and "faults w' = []"
  shows "get (key r) w' = (Inl ErrNotFound, w')"
  using delete_get [OF assms(2,3)] .

text \<open>Two writers of the same row: the one who writes last wins whole.\<close>

lemma last_update_wins:
  assumes "update a w = (Inr a', w1)" and "update b w1 = (Inr b', w')" and "key a = key b" and "faults w' = []"
  shows "get (key a) w' = (Inr b', w')"
  using update_get [OF assms(2,4)] assms(3) by simp

end

text \<open>Every table whose key the code chooses gives one.\<close>

lemma first_by_replicate: "0 < n \<Longrightarrow> first_by g (replicate n r) = Some r"
  using first_by_ex [of r "replicate n r" g] first_by_in [of g "replicate n r"] by fastforce

sublocale keyed_table \<subseteq> repository: crud_repository "db_create sc" "db_save sc"
  "\<lambda>k. db_first sc (\<lambda>r. sc_key sc r = k)" "\<lambda>k. db_delete sc (\<lambda>r. sc_key sc r = k)" "sc_key sc"
proof
  fix r r' w w' assume c: "db_create sc r w = (Inr r', w')" and f: "faults w' = []"
  have k: "sc_key sc r' = sc_key sc r" using create_ok_rows [OF c] by (simp add: key_create)
  have "\<forall>x \<in> set (sc_rows sc w). sc_key sc x \<noteq> sc_key sc r'" using create_rows [OF c] by simp
  then have "filter (\<lambda>x. sc_key sc x = sc_key sc r) (sc_rows sc w') = [r']"
    using create_ok_rows [OF c] k by (auto simp: filter_empty_conv)
  then show "sc_key sc r' = sc_key sc r \<and> db_first sc (\<lambda>x. sc_key sc x = sc_key sc r) w' = (Inr r', w')"
    using k f by simp
next
  fix r r' w w' assume s: "db_save sc r w = (Inr r', w')" and f: "faults w' = []"
  obtain ok w1 where st: "stmt w = (ok, w1)" by fastforce
  have k: "sc_key sc r' = sc_key sc r"
    using s by (auto simp: db_save_def st Let_def key_create key_update split: if_splits)
  have same: "filter (\<lambda>x. sc_key sc x = sc_key sc r) (map (\<lambda>x. if sc_key sc x = sc_key sc r then r' else x) rs)
      = replicate (length (filter (\<lambda>x. sc_key sc x = sc_key sc r) rs)) r'" for rs
    using k by (induction rs) auto
  have "\<exists>n > 0. filter (\<lambda>x. sc_key sc x = sc_key sc r) (sc_rows sc w') = replicate n r'"
  proof (cases "\<exists>x \<in> set (sc_rows sc w). sc_key sc x = sc_key sc r")
    case True
    then have "sc_rows sc w' = map (\<lambda>x. if sc_key sc x = sc_key sc r then r' else x) (sc_rows sc w)"
      using s by (auto simp: db_save_def st Let_def put_rows stmt_rows [OF st] split: if_splits)
    moreover have "0 < length (filter (\<lambda>x. sc_key sc x = sc_key sc r) (sc_rows sc w))"
      using True by (auto simp: filter_empty_conv)
    ultimately show ?thesis unfolding same [symmetric] using same by auto
  next
    case False
    then have "sc_rows sc w' = sc_rows sc w @ [r']"
      using s by (auto simp: db_save_def st Let_def put_rows stmt_rows [OF st] split: if_splits)
    moreover have "filter (\<lambda>x. sc_key sc x = sc_key sc r) (sc_rows sc w) = []" using False by (auto simp: filter_empty_conv)
    ultimately show ?thesis using k by (intro exI [of _ 1]) simp
  qed
  then show "sc_key sc r' = sc_key sc r \<and> db_first sc (\<lambda>x. sc_key sc x = sc_key sc r) w' = (Inr r', w')"
    using k f by (auto simp: first_by_replicate)
next
  fix k u w w' assume d: "db_delete sc (\<lambda>r. sc_key sc r = k) w = (Inr u, w')" and f: "faults w' = []"
  have "filter (\<lambda>r. sc_key sc r = k) (sc_rows sc w') = []"
    using d by (auto simp: db_delete_def put_rows filter_empty_conv split: prod.splits if_splits)
  then show "db_first sc (\<lambda>r. sc_key sc r = k) w' = (Inl ErrNotFound, w')" using f by simp
next
  fix k r w w' assume "db_first sc (\<lambda>r. sc_key sc r = k) w = (Inr r, w')"
  from first_row [OF this] show "sc_key sc r = k" by simp
qed

section \<open>The repositories meet it\<close>

interpretation node_repository: crud_repository vpnNodeRepo_Create vpnNodeRepo_Update vpnNodeRepo_GetByID vpnNodeRepo_Delete vn_ID
  using vpn_nodes_table.repository.crud_repository_axioms
  by (simp add: vpnNodeRepo_Create_def [abs_def] vpnNodeRepo_Update_def [abs_def] vpnNodeRepo_GetByID_def [abs_def] vpnNodeRepo_Delete_def [abs_def])

interpretation proxy_repository: crud_repository proxyRepo_Create proxyRepo_Update proxyRepo_GetByID proxyRepo_Delete px_ID
  using proxies_table.repository.crud_repository_axioms
  by (simp add: proxyRepo_Create_def [abs_def] proxyRepo_Update_def [abs_def] proxyRepo_GetByID_def [abs_def] proxyRepo_Delete_def [abs_def])

interpretation vpn_credential_repository: crud_repository vpnCredentialRepo_Create vpnCredentialRepo_Update vpnCredentialRepo_GetByID vpnCredentialRepo_Delete vc_ID
  using vpn_credentials_table.repository.crud_repository_axioms
  by (simp add: vpnCredentialRepo_Create_def [abs_def] vpnCredentialRepo_Update_def [abs_def] vpnCredentialRepo_GetByID_def [abs_def] vpnCredentialRepo_Delete_def [abs_def])

interpretation agent_repository: crud_repository agentRepo_Create agentRepo_Update agentRepo_GetByID agentRepo_Delete ag_ID
  using agents_table.repository.crud_repository_axioms
  by (simp add: agentRepo_Create_def [abs_def] agentRepo_Update_def [abs_def] agentRepo_GetByID_def [abs_def] agentRepo_Delete_def [abs_def])

interpretation rotation_policy_repository: crud_repository rotationPolicyRepo_Create rotationPolicyRepo_Update rotationPolicyRepo_GetByID rotationPolicyRepo_Delete rp_ID
  using rotation_policies_table.repository.crud_repository_axioms
  by (simp add: rotationPolicyRepo_Create_def [abs_def] rotationPolicyRepo_Update_def [abs_def] rotationPolicyRepo_GetByID_def [abs_def] rotationPolicyRepo_Delete_def [abs_def])

interpretation agent_credential_repository: crud_repository agentCredentialRepo_Create agentCredentialRepo_Update agentCredentialRepo_GetByAgentID agentCredentialRepo_Delete ac_AgentID
  using agent_credentials_table.repository.crud_repository_axioms
  by (simp add: agentCredentialRepo_Create_def [abs_def] agentCredentialRepo_Update_def [abs_def] agentCredentialRepo_GetByAgentID_def [abs_def] agentCredentialRepo_Delete_def [abs_def])

end
