(* ===== verification/CommandBus.thy ===== *)
theory CommandBus imports Repository begin

text \<open>
  The event bus (\<^verbatim>\<open>internal/event/event_bus.go\<close>) and the command bus (\<^verbatim>\<open>internal/event/command_bus.go\<close>):
  commands for remote agents, their delivery over the agents' send channels, results, retries and
  timeouts. The goroutines the bus starts are tasks of its state; a step of the bus is one call, one task,
  one tick of the monitor or one message leaving a channel.
\<close>

section \<open>The event bus\<close>

definition GetBus :: EventBus where
  "GetBus = \<lparr>eb_listeners = (\<lambda>_. []), eb_started = []\<rparr>"

definition Subscribe :: "EventType \<Rightarrow> nat \<Rightarrow> EventBus \<Rightarrow> EventBus" where
  "Subscribe t l b = b\<lparr>eb_listeners := (eb_listeners b)(t := eb_listeners b t @ [l])\<rparr>"

definition Publish :: "Event \<Rightarrow> EventBus \<Rightarrow> EventBus" where
  "Publish e b = b\<lparr>eb_started := eb_started b @ map (\<lambda>l. (l, e)) (eb_listeners b (ev_Type e))\<rparr>"

definition publish :: "EventType \<Rightarrow> string \<Rightarrow> string \<Rightarrow> payload \<Rightarrow> world \<Rightarrow> world" where
  "publish t agentID targetID p w =
     w\<lparr>event_bus := Publish \<lparr>ev_Type = t, ev_AgentID = agentID, ev_TargetID = targetID, ev_Payload = p\<rparr> (event_bus w)\<rparr>"

section \<open>The state of the command bus\<close>

text \<open>The message \<^verbatim>\<open>attemptDispatch\<close> puts into the agent's channel.\<close>

record CommandMsg =
  cm_command_id :: string
  cm_command_type :: string
  cm_payload :: string
  cm_timeout_seconds :: int
  cm_idempotency_key :: string

record SendChan =
  snd_cap :: nat
  snd_queue :: "CommandMsg list"

text \<open>
  A goroutine: \<^verbatim>\<open>attemptDispatch\<close> with the copy of the command it was given, or
  \<^verbatim>\<open>processPendingCommandsForAgent\<close>. The time says when it may start (\<^verbatim>\<open>time.AfterFunc\<close>).
\<close>

datatype task = Attempt AgentCommand | ProcessPending string

record CommandBus =
  cb_world :: world
  cb_wsRegistry :: "string \<Rightarrow> SendChan option"
  cb_tasks :: "(time \<times> task) list"

definition NewCommandBus :: "world \<Rightarrow> CommandBus" where
  "NewCommandBus w = \<lparr>cb_world = w, cb_wsRegistry = (\<lambda>_. None), cb_tasks = []\<rparr>"

definition start_task :: "duration \<Rightarrow> task \<Rightarrow> CommandBus \<Rightarrow> CommandBus" where
  "start_task d t b = b\<lparr>cb_tasks := cb_tasks b @ [(clock (cb_world b) + d, t)]\<rparr>"

definition publish_cmd :: "EventType \<Rightarrow> AgentCommand \<Rightarrow> world \<Rightarrow> world" where
  "publish_cmd t c = publish t (cmd_AgentID c) (cmd_ID c) (PCommand c)"

definition save_cmd :: "AgentCommand \<Rightarrow> world \<Rightarrow> world" where
  "save_cmd c w = snd (agentCommandRepo_Update c w)"

section \<open>Operations\<close>

definition RegisterAgentConnection :: "string \<Rightarrow> SendChan \<Rightarrow> CommandBus \<Rightarrow> CommandBus" where
  "RegisterAgentConnection agentID ch b =
     start_task 0 (ProcessPending agentID) (b\<lparr>cb_wsRegistry := (cb_wsRegistry b)(agentID \<mapsto> ch)\<rparr>)"

definition UnregisterAgentConnection :: "string \<Rightarrow> CommandBus \<Rightarrow> CommandBus" where
  "UnregisterAgentConnection agentID b = b\<lparr>cb_wsRegistry := (cb_wsRegistry b)(agentID := None)\<rparr>"

definition command_msg :: "AgentCommand \<Rightarrow> CommandMsg" where
  "command_msg c = \<lparr>cm_command_id = cmd_ID c, cm_command_type = cmd_Type c, cm_payload = cmd_Payload c,
     cm_timeout_seconds = cmd_TimeoutSeconds c, cm_idempotency_key = cmd_IdempotencyKey c\<rparr>"

definition attemptDispatch :: "AgentCommand \<Rightarrow> CommandBus \<Rightarrow> CommandBus" where
  "attemptDispatch cmd b =
     (case cb_wsRegistry b (cmd_AgentID cmd) of
        None \<Rightarrow> b
      | Some ch \<Rightarrow>
          let cmd1 = cmd\<lparr>cmd_Status := ''dispatched'', cmd_DispatchedAt := Some (clock (cb_world b)),
                cmd_Attempts := cmd_Attempts cmd + 1\<rparr>;
              w1 = save_cmd cmd1 (cb_world b)
          in if length (snd_queue ch) < snd_cap ch
             then b\<lparr>cb_world := publish_cmd CommandDispatched cmd1 w1,
                    cb_wsRegistry := (cb_wsRegistry b)
                      (cmd_AgentID cmd \<mapsto> ch\<lparr>snd_queue := snd_queue ch @ [command_msg cmd1]\<rparr>)\<rparr>
             else b\<lparr>cb_world := save_cmd (cmd1\<lparr>cmd_Status := ''pending''\<rparr>) w1\<rparr>)"

definition idempotency_conflict :: "AgentCommand \<Rightarrow> world \<Rightarrow> bool \<times> world" where
  "idempotency_conflict cmd w =
     (if cmd_IdempotencyKey cmd = [] then (False, w)
      else case agentCommandRepo_GetByIdempotencyKey (cmd_IdempotencyKey cmd) w of (r, w1) \<Rightarrow> (is_ok r, w1))"

definition fresh_command :: "AgentCommand \<Rightarrow> time \<Rightarrow> AgentCommand" where
  "fresh_command cmd now = cmd\<lparr>cmd_Status := ''pending'', cmd_CreatedAt := now,
     cmd_MaxAttempts := (if cmd_MaxAttempts cmd = 0 then 3 else cmd_MaxAttempts cmd),
     cmd_TimeoutSeconds := (if cmd_TimeoutSeconds cmd = 0 then 120 else cmd_TimeoutSeconds cmd)\<rparr>"

definition Dispatch :: "AgentCommand \<Rightarrow> CommandBus \<Rightarrow> AgentCommand result \<times> CommandBus" where
  "Dispatch cmd b =
     (case idempotency_conflict cmd (cb_world b) of
        (True, w1) \<Rightarrow> (Inl (ErrMsg (''idempotency conflict: key '' @ cmd_IdempotencyKey cmd @ '' already exists'')),
                       b\<lparr>cb_world := w1\<rparr>)
      | (False, w1) \<Rightarrow>
          (case agentCommandRepo_Create (fresh_command cmd (clock w1)) w1 of
             (Inl e, w2) \<Rightarrow> (Inl e, b\<lparr>cb_world := w2\<rparr>)
           | (Inr c, w2) \<Rightarrow> (Inr c, start_task 0 (Attempt c) (b\<lparr>cb_world := publish_cmd CommandCreated c w2\<rparr>))))"

definition terminal :: "string \<Rightarrow> bool" where
  "terminal s \<longleftrightarrow> s \<in> {''completed'', ''failed'', ''dead_letter'', ''timeout''}"

text \<open>The branches of \<^verbatim>\<open>HandleResult\<close> once the command is loaded.\<close>

definition handle_failed :: "AgentCommand \<Rightarrow> string \<Rightarrow> CommandBus \<Rightarrow> CommandBus" where
  "handle_failed cmd lastError b =
     (let c = cmd\<lparr>cmd_LastError := lastError\<rparr> in
      if cmd_Attempts c < cmd_MaxAttempts c
      then let c1 = c\<lparr>cmd_Status := ''pending''\<rparr> in
        start_task (3 * second) (Attempt c1) (b\<lparr>cb_world := save_cmd c1 (cb_world b)\<rparr>)
      else let c1 = c\<lparr>cmd_Status := ''dead_letter''\<rparr> in
        b\<lparr>cb_world := publish_cmd ProxyFailed c1 (save_cmd c1 (cb_world b))\<rparr>)"

definition apply_result ::
  "AgentCommand \<Rightarrow> string \<Rightarrow> string \<Rightarrow> string \<Rightarrow> CommandBus \<Rightarrow> unit result \<times> CommandBus" where
  "apply_result cmd status res lastError b =
     (let now = clock (cb_world b) in
      if terminal (cmd_Status cmd) then (Inr (), b)
      else if status = ''executing'' then
        let c = cmd\<lparr>cmd_Status := ''executing'', cmd_ExecutedAt := Some now\<rparr> in
        (Inr (), b\<lparr>cb_world := publish_cmd CommandExecuting c (save_cmd c (cb_world b))\<rparr>)
      else if status = ''completed'' then
        let c = cmd\<lparr>cmd_Status := ''completed'', cmd_CompletedAt := Some now, cmd_Result := res\<rparr> in
        (Inr (), b\<lparr>cb_world := publish_cmd CommandExecuted c (save_cmd c (cb_world b))\<rparr>)
      else if status = ''failed'' then (Inr (), handle_failed cmd lastError b)
      else (Inl (ErrMsg (''unknown status update: '' @ status)), b))"

definition HandleResult :: "string \<Rightarrow> string \<Rightarrow> string \<Rightarrow> string \<Rightarrow> CommandBus \<Rightarrow> unit result \<times> CommandBus" where
  "HandleResult commandID status res lastError b =
     (case agentCommandRepo_GetByID commandID (cb_world b) of
        (Inl e, w1) \<Rightarrow> (Inl e, b\<lparr>cb_world := w1\<rparr>)
      | (Inr cmd, w1) \<Rightarrow> apply_result cmd status res lastError (b\<lparr>cb_world := w1\<rparr>))"

definition processPendingCommandsForAgent :: "string \<Rightarrow> CommandBus \<Rightarrow> CommandBus" where
  "processPendingCommandsForAgent agentID b =
     (case agentCommandRepo_ListPendingByAgent agentID (cb_world b) of
        (Inl _, w1) \<Rightarrow> b\<lparr>cb_world := w1\<rparr>
      | (Inr cmds, w1) \<Rightarrow> foldl (\<lambda>b c. attemptDispatch c b) (b\<lparr>cb_world := w1\<rparr>) cmds)"

section \<open>Timeouts\<close>

text \<open>\<^verbatim>\<open>t.Sub(u)\<close> saturates; the product of a \<^verbatim>\<open>time.Duration\<close> wraps.\<close>

definition time_sub :: "time \<Rightarrow> time \<Rightarrow> duration" where
  "time_sub t u = max (- (2 ^ 63)) (min (2 ^ 63 - 1) (t - u))"

definition overdue :: "time \<Rightarrow> AgentCommand \<Rightarrow> bool" where
  "overdue now c \<longleftrightarrow>
     wrap64 (cmd_TimeoutSeconds c * second)
       < time_sub now (case cmd_DispatchedAt c of None \<Rightarrow> cmd_CreatedAt c | Some t \<Rightarrow> t)"

definition time_out :: "AgentCommand \<Rightarrow> AgentCommand" where
  "time_out c = c\<lparr>cmd_Status := ''timeout'', cmd_LastError := ''execution timed out''\<rparr>"

definition check_timeout :: "time \<Rightarrow> AgentCommand \<Rightarrow> world \<Rightarrow> world" where
  "check_timeout now c w =
     (if overdue now c then publish_cmd ProxyFailed (time_out c) (save_cmd (time_out c) w) else w)"

definition checkCommandTimeouts :: "CommandBus \<Rightarrow> CommandBus" where
  "checkCommandTimeouts b =
     (case agentCommandRepo_ListActive (cb_world b) of
        (Inl _, w1) \<Rightarrow> b\<lparr>cb_world := w1\<rparr>
      | (Inr active, w1) \<Rightarrow> b\<lparr>cb_world := foldl (\<lambda>w c. check_timeout (clock w1) c w) w1 active\<rparr>)"

section \<open>Steps\<close>

fun run_task :: "task \<Rightarrow> CommandBus \<Rightarrow> CommandBus" where
  "run_task (Attempt c) b = attemptDispatch c b"
| "run_task (ProcessPending a) b = processPendingCommandsForAgent a b"

text \<open>
  A call of the API (commands carry an id), a goroutine whose time has come, a tick of
  \<^verbatim>\<open>startTimeoutMonitor\<close>, the writer goroutine of a connection taking a message, or time passing.
\<close>

inductive bus_step :: "CommandBus \<Rightarrow> CommandBus \<Rightarrow> bool" where
  dispatch: "bus_step b (snd (Dispatch cmd b))"
| register: "bus_step b (RegisterAgentConnection agentID \<lparr>snd_cap = cap, snd_queue = []\<rparr> b)"
| unregister: "bus_step b (UnregisterAgentConnection agentID b)"
| result: "bus_step b (snd (HandleResult commandID status res lastError b))"
| task: "i < length (cb_tasks b) \<Longrightarrow> cb_tasks b ! i = (due, t) \<Longrightarrow> due \<le> clock (cb_world b) \<Longrightarrow>
    bus_step b (run_task t (b\<lparr>cb_tasks := take i (cb_tasks b) @ drop (Suc i) (cb_tasks b)\<rparr>))"
| tick: "bus_step b (checkCommandTimeouts b)"
| deliver: "cb_wsRegistry b agentID = Some ch \<Longrightarrow> snd_queue ch = m # rest \<Longrightarrow>
    bus_step b (b\<lparr>cb_wsRegistry := (cb_wsRegistry b)(agentID \<mapsto> ch\<lparr>snd_queue := rest\<rparr>)\<rparr>)"
| wait: "clock (cb_world b) \<le> t \<Longrightarrow> bus_step b (b\<lparr>cb_world := (cb_world b)\<lparr>clock := t\<rparr>\<rparr>)"

inductive bus_run :: "CommandBus \<Rightarrow> CommandBus \<Rightarrow> bool" where
  start: "bus_run b b"
| step: "bus_run a b \<Longrightarrow> bus_step b c \<Longrightarrow> bus_run a c"

inductive_cases bus_stepE: "bus_step b c"

end
