(* ===== verification/CommandBusFacts.thy ===== *)
theory CommandBusFacts imports CommandBus begin

text \<open>
  What the command bus guarantees under every interleaving of its steps: the identity of commands, what
  is delivered to whom, the states a command can be in, idempotency keys, exact timeouts; and what a
  stale retry does to a command that is already completed.
\<close>

section \<open>Saving a command\<close>

abbreviation commands :: "CommandBus \<Rightarrow> AgentCommand list" where
  "commands b \<equiv> agent_commands (cb_world b)"

lemmas repo_defs = agentCommandRepo_Create_def agentCommandRepo_Update_def agentCommandRepo_GetByID_def
  agentCommandRepo_GetByIdempotencyKey_def agentCommandRepo_ListPendingByAgent_def agentCommandRepo_ListActive_def

lemma publish_simps [simp]:
  "agent_commands (publish_cmd t c w) = agent_commands w" "faults (publish_cmd t c w) = faults w"
  "clock (publish_cmd t c w) = clock w"
  by (simp_all add: publish_cmd_def publish_def)

lemma stmt_commands [simp]: "agent_commands (snd (stmt w)) = agent_commands w" "clock (snd (stmt w)) = clock w"
  by (simp_all add: stmt_frame [where get = agent_commands])

text \<open>A save replaces the stored command, or does nothing when the statement fails.\<close>

lemma save_cmd_rows:
  assumes "cmd_ID c \<in> cmd_ID ` set (agent_commands w)"
  shows "agent_commands (save_cmd c w) = agent_commands w \<or>
    agent_commands (save_cmd c w) = map (\<lambda>x. if cmd_ID x = cmd_ID c then c else x) (agent_commands w)"
proof -
  obtain ok w1 where st: "stmt w = (ok, w1)" by fastforce
  have rows: "agent_commands w1 = agent_commands w" using stmt_commands(1) [of w] st by simp
  obtain x where "x \<in> set (agent_commands w)" "cmd_ID x = cmd_ID c" using assms by auto
  then have "\<exists>x \<in> set (agent_commands w). cmd_ID x = cmd_ID c" by blast
  then show ?thesis by (simp add: save_cmd_def agentCommandRepo_Update_def db_save_def st rows Let_def)
qed

lemma save_cmd_ok:
  assumes "faults w = []" and "cmd_ID c \<in> cmd_ID ` set (agent_commands w)"
  shows "agent_commands (save_cmd c w) = map (\<lambda>x. if cmd_ID x = cmd_ID c then c else x) (agent_commands w)"
  using assms by (auto simp: save_cmd_def agentCommandRepo_Update_def db_save_def Let_def)

lemma save_cmd_frame [simp]: "clock (save_cmd c w) = clock w" "faults w = [] \<Longrightarrow> faults (save_cmd c w) = []"
  by (simp_all add: save_cmd_def agentCommandRepo_Update_def)

section \<open>The identity of commands\<close>

text \<open>What never changes of a command: its id, agent, type, payload and idempotency key.\<close>

definition ident :: "AgentCommand \<Rightarrow> string \<times> string \<times> string \<times> string \<times> string" where
  "ident c = (cmd_ID c, cmd_AgentID c, cmd_Type c, cmd_Payload c, cmd_IdempotencyKey c)"

definition msg_ident :: "string \<Rightarrow> CommandMsg \<Rightarrow> string \<times> string \<times> string \<times> string \<times> string" where
  "msg_ident a m = (cm_command_id m, a, cm_command_type m, cm_payload m, cm_idempotency_key m)"

lemma save_cmd_idents:
  assumes "distinct (map cmd_ID (agent_commands w))" and "ident c \<in> ident ` set (agent_commands w)"
  shows "map ident (agent_commands (save_cmd c w)) = map ident (agent_commands w)"
proof -
  obtain r where r: "r \<in> set (agent_commands w)" "ident r = ident c" using assms(2) by auto
  then have k: "cmd_ID r = cmd_ID c" by (simp add: ident_def)
  have "ident (if cmd_ID x = cmd_ID c then c else x) = ident x" if "x \<in> set (agent_commands w)" for x
  proof (cases "cmd_ID x = cmd_ID c")
    case True
    then have "x = r" using assms(1) r(1) that k by (auto simp: distinct_map dest: inj_onD [of cmd_ID _ x r])
    with True r(2) show ?thesis by simp
  qed simp
  then have u: "map ident (map (\<lambda>x. if cmd_ID x = cmd_ID c then c else x) (agent_commands w)) = map ident (agent_commands w)"
    by simp
  have "cmd_ID c \<in> cmd_ID ` set (agent_commands w)" using imageI [OF r(1), of cmd_ID] k by simp
  from save_cmd_rows [OF this] show ?thesis
  proof
    assume "agent_commands (save_cmd c w) = map (\<lambda>x. if cmd_ID x = cmd_ID c then c else x) (agent_commands w)"
    with u show ?thesis by (simp only:)
  qed simp
qed

definition bus_inv :: "CommandBus \<Rightarrow> bool" where
  "bus_inv b \<longleftrightarrow> distinct (map cmd_ID (commands b)) \<and>
     (\<forall>d c. (d, Attempt c) \<in> set (cb_tasks b) \<longrightarrow> ident c \<in> ident ` set (commands b)) \<and>
     (\<forall>a ch. cb_wsRegistry b a = Some ch \<longrightarrow> length (snd_queue ch) \<le> snd_cap ch \<and>
        (\<forall>m \<in> set (snd_queue ch). msg_ident a m \<in> ident ` set (commands b)))"

lemma distinct_idents: "map ident xs = map ident ys \<Longrightarrow> distinct (map cmd_ID xs) = distinct (map cmd_ID ys)"
proof -
  assume "map ident xs = map ident ys"
  then have "map (fst \<circ> ident) xs = map (fst \<circ> ident) ys" by (metis map_map)
  moreover have "fst \<circ> ident = cmd_ID" by (simp add: fun_eq_iff ident_def)
  ultimately show ?thesis by simp
qed

lemma bus_inv_cong:
  assumes "bus_inv b" and "map ident (commands b') = map ident (commands b)" and "cb_tasks b' = cb_tasks b"
    and "cb_wsRegistry b' = cb_wsRegistry b"
  shows "bus_inv b'"
proof -
  have "ident ` set (commands b') = ident ` set (commands b)" using assms(2) by (metis list.set_map)
  then show ?thesis using assms distinct_idents [OF assms(2)] by (simp add: bus_inv_def)
qed

lemma attemptDispatch_idents:
  assumes "distinct (map cmd_ID (commands b))" and "ident c \<in> ident ` set (commands b)"
  shows "map ident (commands (attemptDispatch c b)) = map ident (commands b)"
proof (cases "cb_wsRegistry b (cmd_AgentID c)")
  case (Some ch)
  let ?c1 = "c\<lparr>cmd_Status := ''dispatched'', cmd_DispatchedAt := Some (clock (cb_world b)), cmd_Attempts := cmd_Attempts c + 1\<rparr>"
  let ?w1 = "save_cmd ?c1 (cb_world b)"
  have i: "ident ?c1 = ident c" "ident (?c1\<lparr>cmd_Status := ''pending''\<rparr>) = ident c" by (simp_all add: ident_def)
  have w1: "map ident (agent_commands ?w1) = map ident (commands b)"
    using assms by (intro save_cmd_idents) (simp_all only: i)
  have "ident c \<in> ident ` set (agent_commands ?w1)" using assms(2) w1 by (metis list.set_map)
  then have "map ident (agent_commands (save_cmd (?c1\<lparr>cmd_Status := ''pending''\<rparr>) ?w1)) = map ident (agent_commands ?w1)"
    using distinct_idents [OF w1] assms(1) by (intro save_cmd_idents) (simp_all only: i)
  then show ?thesis using w1 by (simp add: attemptDispatch_def Some Let_def)
qed (simp add: attemptDispatch_def)

lemma attemptDispatch_inv:
  assumes "bus_inv b" and "ident c \<in> ident ` set (commands b)"
  shows "bus_inv (attemptDispatch c b) \<and> map ident (commands (attemptDispatch c b)) = map ident (commands b)"
proof -
  have d: "distinct (map cmd_ID (commands b))" using assms(1) by (simp add: bus_inv_def)
  note i = attemptDispatch_idents [OF d assms(2)]
  have s: "ident ` set (commands (attemptDispatch c b)) = ident ` set (commands b)" using i by (metis list.set_map)
  have t: "cb_tasks (attemptDispatch c b) = cb_tasks b"
    by (simp add: attemptDispatch_def Let_def split: option.split)
  have r: "length (snd_queue ch') \<le> snd_cap ch' \<and> (\<forall>m \<in> set (snd_queue ch'). msg_ident a m \<in> ident ` set (commands b))"
    if "cb_wsRegistry (attemptDispatch c b) a = Some ch'" for a ch'
  proof (cases "cb_wsRegistry b (cmd_AgentID c)")
    case (Some ch)
    have m: "msg_ident (cmd_AgentID c) (command_msg (c\<lparr>cmd_Status := s, cmd_DispatchedAt := x, cmd_Attempts := n\<rparr>)) = ident c" for s x n
      by (simp add: msg_ident_def command_msg_def ident_def)
    define S where "S = ident ` set (commands b)"
    have inv: "length (snd_queue x) \<le> snd_cap x \<and> (\<forall>m \<in> set (snd_queue x). msg_ident y m \<in> S)"
      if "cb_wsRegistry b y = Some x" for x y using assms(1) that by (simp add: bus_inv_def S_def)
    have c: "msg_ident (cmd_AgentID c) (command_msg (c\<lparr>cmd_Status := s, cmd_DispatchedAt := x, cmd_Attempts := n\<rparr>)) \<in> S"
      for s x n using m assms(2) by (simp add: S_def)
    show ?thesis
      unfolding S_def [symmetric] using that inv [OF Some] inv [of a ch'] c
      by (simp add: attemptDispatch_def Some Let_def split: if_splits) auto
  qed (use that assms in \<open>auto simp: attemptDispatch_def bus_inv_def\<close>)
  show ?thesis
    using assms i d t r by (auto simp: bus_inv_def s distinct_idents [OF i])
qed

lemma inv_distinct: "bus_inv b \<Longrightarrow> distinct (map cmd_ID (commands b))"
  by (simp add: bus_inv_def)

text \<open>Adding a task, and a save of a stored command, keep the invariant.\<close>

lemma start_task_inv:
  assumes "bus_inv b" and "\<And>c. t = Attempt c \<Longrightarrow> ident c \<in> ident ` set (commands b)"
  shows "bus_inv (start_task d t b)"
  using assms by (auto simp: bus_inv_def start_task_def)

lemma save_inv:
  assumes "bus_inv b" and "ident c \<in> ident ` set (commands b)" and "agent_commands w = agent_commands (save_cmd c (cb_world b))"
  shows "bus_inv (b\<lparr>cb_world := w\<rparr>)" and "ident ` set (agent_commands w) = ident ` set (commands b)"
proof -
  have i: "map ident (agent_commands w) = map ident (commands b)"
    using save_cmd_idents [OF inv_distinct [OF assms(1)] assms(2)] assms(3) by simp
  show "bus_inv (b\<lparr>cb_world := w\<rparr>)" by (rule bus_inv_cong [OF assms(1)]) (simp_all add: i)
  show "ident ` set (agent_commands w) = ident ` set (commands b)" using i by (metis list.set_map)
qed

lemma world_inv: "bus_inv b \<Longrightarrow> agent_commands w = commands b \<Longrightarrow> bus_inv (b\<lparr>cb_world := w\<rparr>)"
  by (rule bus_inv_cong) simp_all

lemma foldl_attempts_inv:
  assumes "bus_inv b" and "\<forall>c \<in> set cs. ident c \<in> ident ` set (commands b)"
  shows "bus_inv (foldl (\<lambda>b c. attemptDispatch c b) b cs)"
  using assms
proof (induction cs arbitrary: b)
  case (Cons c cs)
  have a: "bus_inv (attemptDispatch c b)" "map ident (commands (attemptDispatch c b)) = map ident (commands b)"
    using attemptDispatch_inv [of b c] Cons.prems by auto
  have "ident ` set (commands (attemptDispatch c b)) = ident ` set (commands b)" using a(2) by (metis list.set_map)
  then show ?case using Cons.IH [OF a(1)] Cons.prems by simp
qed simp

lemma processPending_inv:
  assumes "bus_inv b"
  shows "bus_inv (processPendingCommandsForAgent a b)"
proof (cases "agentCommandRepo_ListPendingByAgent a (cb_world b)" rule: result_cases)
  case (err e w1)
  have "agent_commands w1 = commands b"
    using err db_find_ordered_frame [where get = agent_commands] by (auto simp: repo_defs prod_eq_iff dest: sym)
  then show ?thesis using assms by (simp add: processPendingCommandsForAgent_def err world_inv)
next
  case (ok cs w1)
  obtain g w2 where st: "stmt (cb_world b) = (g, w2)" by fastforce
  have "w1 = w2" and cs: "set cs \<subseteq> set (commands b)" and rows: "agent_commands w1 = commands b"
    using ok stmt_commands(1) [of "cb_world b"]
    by (auto simp: repo_defs db_find_ordered_def st split: if_splits)
  have "bus_inv (foldl (\<lambda>b c. attemptDispatch c b) (b\<lparr>cb_world := w1\<rparr>) cs)"
    using cs by (intro foldl_attempts_inv world_inv assms rows) (auto simp: rows)
  then show ?thesis by (simp add: processPendingCommandsForAgent_def ok)
qed

lemma Dispatch_rows:
  "commands (snd (Dispatch cmd b)) = commands b \<and> cb_tasks (snd (Dispatch cmd b)) = cb_tasks b \<or>
   (\<exists>c d. commands (snd (Dispatch cmd b)) = commands b @ [c] \<and> cb_tasks (snd (Dispatch cmd b)) = cb_tasks b @ [(d, Attempt c)] \<and>
      (\<forall>x \<in> set (commands b). cmd_ID x \<noteq> cmd_ID c) \<and> cmd_Status c = ''pending'' \<and> ident c = ident cmd)"
  "cb_wsRegistry (snd (Dispatch cmd b)) = cb_wsRegistry b"
proof -
  obtain conf w1 where i: "idempotency_conflict cmd (cb_world b) = (conf, w1)" by fastforce
  have w1: "agent_commands w1 = commands b"
    using i db_first_frame [where get = agent_commands]
    by (auto simp: idempotency_conflict_def repo_defs split: if_splits prod.splits dest!: db_first_get [where get = agent_commands])
  have goal: "(commands (snd (Dispatch cmd b)) = commands b \<and> cb_tasks (snd (Dispatch cmd b)) = cb_tasks b \<or>
   (\<exists>c d. commands (snd (Dispatch cmd b)) = commands b @ [c] \<and> cb_tasks (snd (Dispatch cmd b)) = cb_tasks b @ [(d, Attempt c)] \<and>
      (\<forall>x \<in> set (commands b). cmd_ID x \<noteq> cmd_ID c) \<and> cmd_Status c = ''pending'' \<and> ident c = ident cmd)) \<and>
   cb_wsRegistry (snd (Dispatch cmd b)) = cb_wsRegistry b"
  proof (cases conf)
    case True
    then show ?thesis by (simp add: Dispatch_def i w1)
  next
    case False
    show ?thesis
    proof (cases "agentCommandRepo_Create (fresh_command cmd (clock w1)) w1" rule: result_cases)
      case (err e w2)
      have "agent_commands w2 = agent_commands w1"
        using agent_commands_table.create_rows [of "fresh_command cmd (clock w1)" w1 "Inl e" w2] err by (simp add: repo_defs)
      then show ?thesis using False by (simp add: Dispatch_def i err w1)
    next
      case (ok c w2)
      then have cr: "db_create AgentCommand_schema (fresh_command cmd (clock w1)) w1 = (Inr c, w2)" by (simp add: repo_defs)
      have D: "Dispatch cmd b = (Inr c, start_task 0 (Attempt c) (b\<lparr>cb_world := publish_cmd CommandCreated c w2\<rparr>))"
        using False by (simp add: Dispatch_def i ok)
      have rows: "agent_commands w2 = commands b @ [c]" and c: "c = sc_create AgentCommand_schema (clock w1) (commands b) (fresh_command cmd (clock w1))"
        and new: "\<forall>x \<in> set (commands b). cmd_ID x \<noteq> cmd_ID c"
        using agent_commands_table.create_ok_rows [OF cr] agent_commands_table.create_rows [OF cr] w1 by simp_all
      have "cmd_Status c = ''pending'' \<and> ident c = ident cmd" by (simp add: c ident_def fresh_command_def)
      then show ?thesis unfolding D using rows new by (simp add: start_task_def)
    qed
  qed
  then show "commands (snd (Dispatch cmd b)) = commands b \<and> cb_tasks (snd (Dispatch cmd b)) = cb_tasks b \<or>
   (\<exists>c d. commands (snd (Dispatch cmd b)) = commands b @ [c] \<and> cb_tasks (snd (Dispatch cmd b)) = cb_tasks b @ [(d, Attempt c)] \<and>
      (\<forall>x \<in> set (commands b). cmd_ID x \<noteq> cmd_ID c) \<and> cmd_Status c = ''pending'' \<and> ident c = ident cmd)" by blast
  from goal show "cb_wsRegistry (snd (Dispatch cmd b)) = cb_wsRegistry b" by blast
qed

lemma Dispatch_inv:
  assumes "bus_inv b"
  shows "bus_inv (snd (Dispatch cmd b))"
  using Dispatch_rows(1) [of cmd b]
proof
  assume "commands (snd (Dispatch cmd b)) = commands b \<and> cb_tasks (snd (Dispatch cmd b)) = cb_tasks b"
  with assms show ?thesis by (intro bus_inv_cong [OF assms]) (simp_all add: Dispatch_rows(2))
next
  assume "\<exists>c d. commands (snd (Dispatch cmd b)) = commands b @ [c] \<and> cb_tasks (snd (Dispatch cmd b)) = cb_tasks b @ [(d, Attempt c)] \<and>
      (\<forall>x \<in> set (commands b). cmd_ID x \<noteq> cmd_ID c) \<and> cmd_Status c = ''pending'' \<and> ident c = ident cmd"
  then show ?thesis using assms unfolding bus_inv_def Dispatch_rows(2) by fastforce
qed

lemma apply_result_inv:
  assumes "bus_inv b" and "cmd \<in> set (commands b)"
  shows "bus_inv (snd (apply_result cmd status res err b))"
proof -
  have i: "ident c \<in> ident ` set (commands b)" if "ident c = ident cmd" for c using assms(2) that by simp
  have s: "bus_inv (b\<lparr>cb_world := publish_cmd t c (save_cmd c (cb_world b))\<rparr>)" if "ident c = ident cmd" for t c
    by (rule save_inv(1) [OF assms(1) i [OF that]]) simp
  have f: "bus_inv (start_task d (Attempt c) (b\<lparr>cb_world := save_cmd c (cb_world b)\<rparr>))" if "ident c = ident cmd" for d c
    using save_inv [OF assms(1) i [OF that], of "save_cmd c (cb_world b)"] i [OF that] by (intro start_task_inv) auto
  show ?thesis
    unfolding apply_result_def handle_failed_def Let_def using assms(1)
    by (split if_split, simp)+ (simp_all add: s f ident_def)
qed

lemma HandleResult_inv:
  assumes "bus_inv b"
  shows "bus_inv (snd (HandleResult commandID status res err b))"
proof (cases "agentCommandRepo_GetByID commandID (cb_world b)" rule: result_cases)
  case (err e w1)
  have "agent_commands w1 = commands b" using agent_commands_table.first_rows err by (force simp: repo_defs)
  then show ?thesis using assms by (simp add: HandleResult_def err world_inv)
next
  case (ok cmd w1)
  have "agent_commands w1 = commands b" "cmd \<in> set (commands b)"
    using agent_commands_table.first_rows agent_commands_table.first_row ok by (force simp: repo_defs)+
  then show ?thesis using assms by (simp add: HandleResult_def ok apply_result_inv world_inv)
qed

lemma foldl_timeouts_idents:
  assumes "distinct (map cmd_ID (agent_commands w))" and "\<forall>c \<in> set cs. ident c \<in> ident ` set (agent_commands w)"
  shows "map ident (agent_commands (foldl (\<lambda>w c. check_timeout now c w) w cs)) = map ident (agent_commands w)"
  using assms
proof (induction cs arbitrary: w)
  case (Cons c cs)
  have "map ident (agent_commands (check_timeout now c w)) = map ident (agent_commands w)"
    using Cons.prems by (auto simp: check_timeout_def time_out_def ident_def intro!: save_cmd_idents)
  moreover from this have "ident ` set (agent_commands (check_timeout now c w)) = ident ` set (agent_commands w)"
    by (metis list.set_map)
  moreover have "distinct (map cmd_ID (agent_commands (check_timeout now c w)))"
    using distinct_idents [OF calculation(1)] Cons.prems(1) by simp
  ultimately show ?case using Cons by simp
qed simp

lemma ListActive_rows:
  assumes "agentCommandRepo_ListActive w = (r, w1)"
  shows "agent_commands w1 = agent_commands w \<and> (\<forall>cs. r = Inr cs \<longrightarrow> set cs \<subseteq> set (agent_commands w))"
proof -
  obtain g w2 where st: "stmt w = (g, w2)" by fastforce
  then show ?thesis using assms stmt_commands(1) [of w] by (auto simp: repo_defs db_find_def st split: if_splits)
qed

lemma checkCommandTimeouts_inv:
  assumes "bus_inv b"
  shows "bus_inv (checkCommandTimeouts b)"
proof (cases "agentCommandRepo_ListActive (cb_world b)" rule: result_cases)
  case (err e w1)
  then show ?thesis using assms ListActive_rows [OF err] by (simp add: checkCommandTimeouts_def world_inv)
next
  case (ok cs w1)
  note r = ListActive_rows [OF ok]
  have "map ident (agent_commands (foldl (\<lambda>w c. check_timeout (clock w1) c w) w1 cs)) = map ident (commands b)"
    using foldl_timeouts_idents [of w1 cs "clock w1"] r assms by (auto simp: inv_distinct)
  then show ?thesis by (intro bus_inv_cong [OF assms]) (simp_all add: checkCommandTimeouts_def ok)
qed

lemma bus_step_inv:
  assumes "bus_step b b'" and "bus_inv b"
  shows "bus_inv b'"
  using assms
proof (induction rule: bus_step.induct)
  case (register b agentID cap)
  then show ?case by (auto simp: RegisterAgentConnection_def bus_inv_def start_task_def)
next
  case (unregister b agentID)
  then show ?case by (auto simp: UnregisterAgentConnection_def bus_inv_def split: if_splits)
next
  case (task i b due t)
  let ?b = "b\<lparr>cb_tasks := take i (cb_tasks b) @ drop (Suc i) (cb_tasks b)\<rparr>"
  have "set (cb_tasks ?b) \<subseteq> set (cb_tasks b)" by (auto dest: in_set_takeD in_set_dropD)
  then have inv: "bus_inv ?b" using task(4) by (auto simp: bus_inv_def)
  have mem: "(due, t) \<in> set (cb_tasks b)" using task(1,2) nth_mem by metis
  show ?case
  proof (cases t)
    case (Attempt c)
    then have "ident c \<in> ident ` set (commands ?b)" using task(4) mem by (auto simp: bus_inv_def)
    then show ?thesis using attemptDispatch_inv [OF inv] Attempt by simp
  qed (simp add: processPending_inv inv)
next
  case (deliver b agentID ch m rest)
  then have "Suc (length rest) \<le> snd_cap ch" by (force simp: bus_inv_def)
  then show ?case using deliver by (auto simp: bus_inv_def split: if_splits)
next
  case (wait b t)
  then show ?case by (simp add: world_inv)
qed (simp_all add: Dispatch_inv HandleResult_inv checkCommandTimeouts_inv)

lemma bus_run_inv: "bus_run b b' \<Longrightarrow> bus_inv b \<Longrightarrow> bus_inv b'"
  by (induction rule: bus_run.induct) (simp_all add: bus_step_inv)

lemma NewCommandBus_inv: "distinct (map cmd_ID (agent_commands w)) \<Longrightarrow> bus_inv (NewCommandBus w)"
  by (simp add: bus_inv_def NewCommandBus_def)

text \<open>
  C13. Delivery is exact: under every interleaving of calls, goroutines, ticks, reconnects and statement
  failures, command ids stay unique, and every message in an agent's send channel carries the type, payload
  and idempotency key of a stored command with its id that is addressed to this very agent; the channel
  never holds more than its capacity.
\<close>

theorem delivery_exact:
  assumes "bus_run (NewCommandBus w) b" and "distinct (map cmd_ID (agent_commands w))"
    and "cb_wsRegistry b agentID = Some ch"
  shows "distinct (map cmd_ID (commands b)) \<and> length (snd_queue ch) \<le> snd_cap ch \<and>
    (\<forall>m \<in> set (snd_queue ch). \<exists>c \<in> set (commands b). cmd_ID c = cm_command_id m \<and> cmd_AgentID c = agentID \<and>
       cmd_Type c = cm_command_type m \<and> cmd_Payload c = cm_payload m \<and> cmd_IdempotencyKey c = cm_idempotency_key m)"
proof -
  have "bus_inv b" using bus_run_inv [OF assms(1) NewCommandBus_inv [OF assms(2)]] .
  then have "distinct (map cmd_ID (commands b))" "length (snd_queue ch) \<le> snd_cap ch"
    and m: "\<forall>m \<in> set (snd_queue ch). msg_ident agentID m \<in> ident ` set (commands b)"
    using assms(3) by (simp_all add: bus_inv_def)
  moreover have "\<exists>c \<in> set (commands b). cmd_ID c = cm_command_id m \<and> cmd_AgentID c = agentID \<and>
      cmd_Type c = cm_command_type m \<and> cmd_Payload c = cm_payload m \<and> cmd_IdempotencyKey c = cm_idempotency_key m"
    if "m \<in> set (snd_queue ch)" for m
  proof -
    obtain c where "c \<in> set (commands b)" "ident c = msg_ident agentID m" using m \<open>m \<in> _\<close> by fastforce
    then show ?thesis by (auto simp: ident_def msg_ident_def)
  qed
  ultimately show ?thesis by blast
qed

section \<open>States\<close>

definition cmd_ok :: "AgentCommand \<Rightarrow> bool" where
  "cmd_ok c \<longleftrightarrow>
     cmd_Status c \<in> {''pending'', ''dispatched'', ''executing'', ''completed'', ''dead_letter'', ''timeout''} \<and>
     (cmd_Status c = ''dispatched'' \<longrightarrow> cmd_DispatchedAt c \<noteq> None) \<and>
     (cmd_Status c = ''executing'' \<longrightarrow> cmd_ExecutedAt c \<noteq> None) \<and>
     (cmd_Status c = ''completed'' \<longrightarrow> cmd_CompletedAt c \<noteq> None)"

definition all_ok :: "world \<Rightarrow> bool" where
  "all_ok w \<longleftrightarrow> (\<forall>c \<in> set (agent_commands w). cmd_ok c)"

lemma cmd_ok_states [simp]:
  "cmd_ok (c\<lparr>cmd_Status := ''pending''\<rparr>)" "cmd_ok (c\<lparr>cmd_Status := ''dead_letter''\<rparr>)" "cmd_ok (time_out c)"
  "cmd_ok (c\<lparr>cmd_Status := ''dispatched'', cmd_DispatchedAt := Some t, cmd_Attempts := n\<rparr>)"
  "cmd_ok (c\<lparr>cmd_Status := ''pending'', cmd_DispatchedAt := x, cmd_Attempts := n\<rparr>)"
  "cmd_ok (c\<lparr>cmd_Status := ''executing'', cmd_ExecutedAt := Some t\<rparr>)"
  "cmd_ok (c\<lparr>cmd_Status := ''completed'', cmd_CompletedAt := Some t, cmd_Result := res\<rparr>)"
  "cmd_ok (c\<lparr>cmd_Status := ''pending'', cmd_LastError := e\<rparr>)" "cmd_ok (c\<lparr>cmd_Status := ''dead_letter'', cmd_LastError := e\<rparr>)"
  by (simp_all add: cmd_ok_def time_out_def)

lemma cmd_ok_create: "cmd_ok c \<Longrightarrow> cmd_ok (sc_create AgentCommand_schema now rs c)"
  by (auto simp: cmd_ok_def)

lemma save_all_ok [simp]: "all_ok w \<Longrightarrow> cmd_ok c \<Longrightarrow> all_ok (save_cmd c w)"
  using agent_commands_table.all_save [of w cmd_ok c] cmd_ok_create [of c]
  by (simp add: all_ok_def save_cmd_def agentCommandRepo_Update_def)

lemma all_ok_cong: "agent_commands w' = agent_commands w \<Longrightarrow> all_ok w' = all_ok w"
  by (simp add: all_ok_def)

lemma publish_all_ok [simp]: "all_ok (publish_cmd t c w) = all_ok w"
  by (rule all_ok_cong) simp

lemma attemptDispatch_all_ok: "all_ok (cb_world b) \<Longrightarrow> all_ok (cb_world (attemptDispatch c b))"
  by (simp add: attemptDispatch_def Let_def split: option.split)

lemma HandleResult_all_ok:
  assumes "all_ok (cb_world b)"
  shows "all_ok (cb_world (snd (HandleResult commandID status res err b)))"
proof (cases "agentCommandRepo_GetByID commandID (cb_world b)" rule: result_cases)
  case (err e w1)
  have "agent_commands w1 = commands b" using agent_commands_table.first_rows err by (force simp: repo_defs)
  then show ?thesis using assms all_ok_cong [of w1 "cb_world b"] by (simp add: HandleResult_def err)
next
  case (ok cmd w1)
  have "agent_commands w1 = commands b" using agent_commands_table.first_rows ok by (force simp: repo_defs)
  then have "all_ok w1" using assms all_ok_cong [of w1 "cb_world b"] by simp
  then show ?thesis
    unfolding HandleResult_def ok apply_result_def handle_failed_def Let_def
    by (simp add: start_task_def)
qed

lemma foldl_all_ok:
  "(\<And>s x. all_ok (f s) \<Longrightarrow> all_ok (f (g s x))) \<Longrightarrow> all_ok (f s) \<Longrightarrow> all_ok (f (foldl g s xs))"
  by (induction xs arbitrary: s) simp_all

lemma bus_step_all_ok:
  assumes "bus_step b b'" and "all_ok (cb_world b)"
  shows "all_ok (cb_world b')"
  using assms
proof (induction rule: bus_step.induct)
  case (dispatch b cmd)
  from Dispatch_rows(1) [of cmd b] show ?case
  proof
    assume "commands (snd (Dispatch cmd b)) = commands b \<and> cb_tasks (snd (Dispatch cmd b)) = cb_tasks b"
    then show ?thesis using dispatch by (simp add: all_ok_def)
  next
    assume "\<exists>c d. commands (snd (Dispatch cmd b)) = commands b @ [c] \<and> cb_tasks (snd (Dispatch cmd b)) = cb_tasks b @ [(d, Attempt c)] \<and>
      (\<forall>x \<in> set (commands b). cmd_ID x \<noteq> cmd_ID c) \<and> cmd_Status c = ''pending'' \<and> ident c = ident cmd"
    then obtain c where "commands (snd (Dispatch cmd b)) = commands b @ [c]" "cmd_Status c = ''pending''" by blast
    then show ?thesis using dispatch by (simp add: all_ok_def cmd_ok_def [of c])
  qed
next
  case (task i b due t)
  let ?b = "b\<lparr>cb_tasks := take i (cb_tasks b) @ drop (Suc i) (cb_tasks b)\<rparr>"
  have ok: "all_ok (cb_world ?b)" using task(4) by simp
  show ?case
  proof (cases t)
    case (Attempt c)
    then show ?thesis using attemptDispatch_all_ok [OF ok] by simp
  next
    case (ProcessPending a)
    obtain r w1 where r: "agentCommandRepo_ListPendingByAgent a (cb_world ?b) = (r, w1)" by fastforce
    have "agent_commands w1 = commands ?b"
      using db_find_ordered_frame [where get = agent_commands] r by (auto simp: repo_defs prod_eq_iff dest: sym)
    then have "all_ok w1" using ok all_ok_cong [of w1 "cb_world ?b"] by simp
    then show ?thesis
      unfolding ProcessPending run_task.simps processPendingCommandsForAgent_def r
      by (auto split: sum.split intro!: foldl_all_ok [where f = cb_world] attemptDispatch_all_ok)
  qed
next
  case (tick b)
  obtain r w1 where r: "agentCommandRepo_ListActive (cb_world b) = (r, w1)" by fastforce
  have "all_ok w1" using tick ListActive_rows [OF r] by (simp add: all_ok_def)
  then show ?case
    unfolding checkCommandTimeouts_def r
    by (auto split: sum.split intro!: foldl_all_ok [where f = "\<lambda>w. w"] simp: check_timeout_def)
next
  case (wait b t)
  then show ?case using all_ok_cong [of "(cb_world b)\<lparr>clock := t\<rparr>" "cb_world b"] by simp
qed (simp_all add: RegisterAgentConnection_def UnregisterAgentConnection_def start_task_def HandleResult_all_ok)

text \<open>
  C14. The life of a command: in every reachable state each command is pending, dispatched, executing,
  completed, dead-lettered or timed out, and a command that is dispatched, executing or completed carries
  the time at which it became so.
\<close>

theorem command_states:
  assumes "bus_run (NewCommandBus w) b" and "all_ok w"
  shows "\<forall>c \<in> set (commands b).
    cmd_Status c \<in> {''pending'', ''dispatched'', ''executing'', ''completed'', ''dead_letter'', ''timeout''} \<and>
    (cmd_Status c = ''dispatched'' \<longrightarrow> cmd_DispatchedAt c \<noteq> None) \<and>
    (cmd_Status c = ''executing'' \<longrightarrow> cmd_ExecutedAt c \<noteq> None) \<and>
    (cmd_Status c = ''completed'' \<longrightarrow> cmd_CompletedAt c \<noteq> None)"
proof -
  have "bus_run a b \<Longrightarrow> all_ok (cb_world a) \<Longrightarrow> all_ok (cb_world b)" for a
    by (induction rule: bus_run.induct) (simp_all add: bus_step_all_ok)
  from this [OF assms(1)] have "all_ok (cb_world b)" using assms(2) by (simp add: NewCommandBus_def)
  then show ?thesis by (simp add: all_ok_def cmd_ok_def)
qed

section \<open>Timeouts\<close>

definition active_cmd :: "AgentCommand \<Rightarrow> bool" where
  "active_cmd c \<longleftrightarrow> cmd_Status c = ''dispatched'' \<or> cmd_Status c = ''executing''"

definition tick_row :: "time \<Rightarrow> AgentCommand list \<Rightarrow> AgentCommand \<Rightarrow> AgentCommand" where
  "tick_row now cs r = foldl (\<lambda>r c. if overdue now c \<and> cmd_ID r = cmd_ID c then time_out c else r) r cs"

lemma time_out_id [simp]: "cmd_ID (time_out c) = cmd_ID c"
  by (simp add: time_out_def)

lemma check_timeout_ok:
  assumes "faults w = []" and "cmd_ID c \<in> cmd_ID ` set (agent_commands w)"
  shows "agent_commands (check_timeout now c w)
    = map (\<lambda>r. if overdue now c \<and> cmd_ID r = cmd_ID c then time_out c else r) (agent_commands w)"
  using save_cmd_ok [OF assms(1), of "time_out c"] assms(2) by (simp add: check_timeout_def)

lemma foldl_timeouts_ok:
  assumes "faults w = []" and "\<forall>c \<in> set cs. cmd_ID c \<in> cmd_ID ` set (agent_commands w)"
  shows "agent_commands (foldl (\<lambda>w c. check_timeout now c w) w cs) = map (tick_row now cs) (agent_commands w)"
  using assms
proof (induction cs arbitrary: w)
  case (Cons c cs)
  let ?w = "check_timeout now c w"
  have rows: "agent_commands ?w = map (\<lambda>r. if overdue now c \<and> cmd_ID r = cmd_ID c then time_out c else r) (agent_commands w)"
    using Cons.prems by (intro check_timeout_ok) auto
  have "faults ?w = []" using Cons.prems(1) by (simp add: check_timeout_def)
  moreover have "map cmd_ID (agent_commands ?w) = map cmd_ID (agent_commands w)" unfolding rows by simp
  then have "cmd_ID ` set (agent_commands ?w) = cmd_ID ` set (agent_commands w)" by (metis list.set_map)
  ultimately have "agent_commands (foldl (\<lambda>w c. check_timeout now c w) ?w cs) = map (tick_row now cs) (agent_commands ?w)"
    using Cons.prems(2) by (intro Cons.IH) auto
  then show ?case by (simp add: rows tick_row_def)
qed (simp add: tick_row_def [abs_def])

lemma tick_row_other: "cmd_ID r \<notin> cmd_ID ` set cs \<Longrightarrow> tick_row now cs r = r"
  unfolding tick_row_def by (induction cs) auto

lemma tick_row_self:
  assumes "distinct (map cmd_ID cs)" and "r \<in> set cs"
  shows "tick_row now cs r = (if overdue now r then time_out r else r)"
proof -
  obtain xs ys where cs: "cs = xs @ r # ys" using assms(2) by (meson split_list)
  then have "cmd_ID r \<notin> cmd_ID ` set xs" "cmd_ID r \<notin> cmd_ID ` set ys" using assms(1) by auto
  then have "tick_row now xs r = r" "tick_row now ys r = r" "tick_row now ys (time_out r) = time_out r"
    by (simp_all add: tick_row_other)
  then show ?thesis by (simp add: cs tick_row_def)
qed

text \<open>
  C16. A tick of the monitor times out exactly the commands it should: when the statements succeed, every
  dispatched or executing command that is overdue becomes a timeout, and every other command is as it was.
\<close>

theorem tick_exact:
  assumes "faults (cb_world b) = []" and "distinct (map cmd_ID (commands b))"
  shows "commands (checkCommandTimeouts b) =
    map (\<lambda>c. if (cmd_Status c = ''dispatched'' \<or> cmd_Status c = ''executing'') \<and> overdue (clock (cb_world b)) c
       then time_out c else c) (commands b)"
proof -
  let ?cs = "filter active_cmd (commands b)" and ?now = "clock (cb_world b)"
  have q: "agentCommandRepo_ListActive (cb_world b) = (Inr ?cs, cb_world b)"
    using assms(1) by (simp add: agentCommandRepo_ListActive_def active_cmd_def [abs_def])
  have "commands (checkCommandTimeouts b) = map (tick_row ?now ?cs) (commands b)"
    using foldl_timeouts_ok [OF assms(1), of ?cs ?now] by (auto simp: checkCommandTimeouts_def q)
  also have "\<dots> = map (\<lambda>c. if active_cmd c \<and> overdue ?now c then time_out c else c) (commands b)"
  proof (rule map_cong [OF refl])
    fix c assume c: "c \<in> set (commands b)"
    have d: "distinct (map cmd_ID ?cs)" using assms(2) by (rule distinct_map_filter)
    show "tick_row ?now ?cs c = (if active_cmd c \<and> overdue ?now c then time_out c else c)"
    proof (cases "active_cmd c")
      case True
      then show ?thesis using c by (simp add: tick_row_self [OF d])
    next
      case False
      have "cmd_ID c \<noteq> cmd_ID x" if "x \<in> set ?cs" for x
        using that assms(2) c False by (auto simp: distinct_map dest: inj_onD [of cmd_ID _ c x])
      then have "tick_row ?now ?cs c = c" by (intro tick_row_other) blast
      with False show ?thesis by simp
    qed
  qed
  finally show ?thesis by (simp only: active_cmd_def)
qed

section \<open>Idempotency\<close>

definition keys_unique :: "world \<Rightarrow> bool" where
  "keys_unique w \<longleftrightarrow> faults w = [] \<and>
     distinct (filter (\<lambda>k. k \<noteq> []) (map cmd_IdempotencyKey (agent_commands w)))"

lemma conflict_iff:
  assumes "faults w = []"
  shows "idempotency_conflict cmd w = (cmd_IdempotencyKey cmd \<noteq> [] \<and>
    (\<exists>c \<in> set (agent_commands w). cmd_IdempotencyKey c = cmd_IdempotencyKey cmd), w)"
proof (cases "first_by cmd_ID (filter (\<lambda>c. cmd_IdempotencyKey c = cmd_IdempotencyKey cmd) (agent_commands w))")
  case None
  then have "\<not> (\<exists>c \<in> set (agent_commands w). cmd_IdempotencyKey c = cmd_IdempotencyKey cmd)"
    by (simp add: filter_empty_conv)
  then show ?thesis using assms None by (simp add: idempotency_conflict_def repo_defs)
next
  case (Some c)
  then have "\<exists>c \<in> set (agent_commands w). cmd_IdempotencyKey c = cmd_IdempotencyKey cmd"
    using first_by_filter [OF Some] by (intro bexI [of _ c]) simp_all
  then show ?thesis using assms Some by (simp add: idempotency_conflict_def repo_defs)
qed


section \<open>Examples\<close>

definition demo_cmd :: AgentCommand where
  "demo_cmd = zero_AgentCommand\<lparr>cmd_ID := ''c1'', cmd_AgentID := ''a'', cmd_Type := ''connect'', cmd_IdempotencyKey := ''k''\<rparr>"

definition drop_task :: "nat \<Rightarrow> CommandBus \<Rightarrow> CommandBus" where
  "drop_task i b = b\<lparr>cb_tasks := take i (cb_tasks b) @ drop (Suc i) (cb_tasks b)\<rparr>"

text \<open>
  The agent connects; a command is dispatched and fails once, which schedules a retry; the goroutine of
  the connection finds it pending and dispatches it again, and this time it completes; three seconds later
  the retry fires.
\<close>

definition demo_b1 :: CommandBus where
  "demo_b1 = RegisterAgentConnection ''a'' \<lparr>snd_cap = 100, snd_queue = []\<rparr> (NewCommandBus start_world)"
definition demo_b2 :: CommandBus where "demo_b2 = snd (Dispatch demo_cmd demo_b1)"
definition demo_b3 :: CommandBus where "demo_b3 = run_task (snd (cb_tasks demo_b2 ! 1)) (drop_task 1 demo_b2)"
definition demo_b4 :: CommandBus where "demo_b4 = snd (HandleResult ''c1'' ''failed'' [] ''boom'' demo_b3)"
definition demo_b5 :: CommandBus where "demo_b5 = run_task (snd (cb_tasks demo_b4 ! 0)) (drop_task 0 demo_b4)"
definition demo_b6 :: CommandBus where "demo_b6 = snd (HandleResult ''c1'' ''completed'' ''ok'' [] demo_b5)"
definition demo_b7 :: CommandBus where
  "demo_b7 = demo_b6\<lparr>cb_world := (cb_world demo_b6)\<lparr>clock := clock (cb_world demo_b6) + 3 * second\<rparr>\<rparr>"

lemma demo_b2:
  "commands demo_b2 = [fresh_command demo_cmd (1000 * hour)]" "faults (cb_world demo_b2) = []"
  "clock (cb_world demo_b2) = 1000 * hour" "cb_wsRegistry demo_b2 ''a'' = Some \<lparr>snd_cap = 100, snd_queue = []\<rparr>"
  "cb_tasks demo_b2 = [(1000 * hour, ProcessPending ''a''), (1000 * hour, Attempt (fresh_command demo_cmd (1000 * hour)))]"
  by (simp_all add: demo_b2_def demo_b1_def RegisterAgentConnection_def NewCommandBus_def start_task_def Dispatch_def
      idempotency_conflict_def repo_defs db_create_ok Let_def demo_cmd_def fresh_command_def publish_cmd_def publish_def
      auto_time_def is_ok_def)

definition demo_sent :: AgentCommand where
  "demo_sent = (fresh_command demo_cmd (1000 * hour))\<lparr>cmd_Status := ''dispatched'', cmd_DispatchedAt := Some (1000 * hour),
     cmd_Attempts := 1\<rparr>"

lemma demo_b3:
  "commands demo_b3 = [demo_sent]" "faults (cb_world demo_b3) = []" "clock (cb_world demo_b3) = 1000 * hour"
  "\<exists>q. cb_wsRegistry demo_b3 ''a'' = Some \<lparr>snd_cap = 100, snd_queue = q\<rparr> \<and> length q = 1"
  "cb_tasks demo_b3 = [(1000 * hour, ProcessPending ''a'')]"
  using demo_b2
  by (simp_all add: demo_b3_def drop_task_def attemptDispatch_def Let_def save_cmd_ok demo_cmd_def demo_sent_def fresh_command_def)

definition demo_retry :: AgentCommand where
  "demo_retry = demo_sent\<lparr>cmd_LastError := ''boom'', cmd_Status := ''pending''\<rparr>"

lemma demo_b4:
  "commands demo_b4 = [demo_retry]" "faults (cb_world demo_b4) = []" "clock (cb_world demo_b4) = 1000 * hour"
  "\<exists>q. cb_wsRegistry demo_b4 ''a'' = Some \<lparr>snd_cap = 100, snd_queue = q\<rparr> \<and> length q = 1"
  "cb_tasks demo_b4 = [(1000 * hour, ProcessPending ''a''), (1000 * hour + 3 * second, Attempt demo_retry)]"
  using demo_b3
  by (simp_all add: demo_b4_def HandleResult_def repo_defs apply_result_def handle_failed_def Let_def terminal_def start_task_def
      save_cmd_ok demo_sent_def demo_retry_def fresh_command_def demo_cmd_def)

lemma demo_b5:
  "commands demo_b5 = [demo_retry\<lparr>cmd_Status := ''dispatched'', cmd_DispatchedAt := Some (1000 * hour), cmd_Attempts := 2\<rparr>]"
  "faults (cb_world demo_b5) = []" "clock (cb_world demo_b5) = 1000 * hour"
  "\<exists>q. cb_wsRegistry demo_b5 ''a'' = Some \<lparr>snd_cap = 100, snd_queue = q\<rparr> \<and> length q = 2"
  "cb_tasks demo_b5 = [(1000 * hour + 3 * second, Attempt demo_retry)]"
  using demo_b4
  by (auto simp: demo_b5_def drop_task_def processPendingCommandsForAgent_def repo_defs attemptDispatch_def Let_def save_cmd_ok
      demo_retry_def demo_sent_def fresh_command_def demo_cmd_def)

lemma demo_b7:
  "map cmd_Status (commands demo_b7) = [''completed'']" "map cmd_Result (commands demo_b7) = [''ok'']"
  "map cmd_ID (commands demo_b7) = [''c1'']"
  "faults (cb_world demo_b7) = []" "clock (cb_world demo_b7) = 1000 * hour + 3 * second"
  "\<exists>q. cb_wsRegistry demo_b7 ''a'' = Some \<lparr>snd_cap = 100, snd_queue = q\<rparr> \<and> length q = 2"
  "cb_tasks demo_b7 = [(1000 * hour + 3 * second, Attempt demo_retry)]"
  using demo_b5
  by (simp_all add: demo_b7_def demo_b6_def HandleResult_def repo_defs apply_result_def Let_def terminal_def save_cmd_ok
      demo_retry_def demo_sent_def fresh_command_def demo_cmd_def)

lemma run_task_step:
  assumes "i < length (cb_tasks b)" and "cb_tasks b ! i = (due, t)" and "due \<le> clock (cb_world b)"
  shows "bus_step b (run_task t (drop_task i b))"
  unfolding drop_task_def using assms by (rule bus_step.task)

lemma demo_run: "bus_run (NewCommandBus start_world) demo_b7"
proof -
  have 1: "bus_run (NewCommandBus start_world) demo_b1"
    unfolding demo_b1_def by (rule bus_run.step [OF bus_run.start bus_step.register])
  have 2: "bus_run (NewCommandBus start_world) demo_b2"
    unfolding demo_b2_def by (rule bus_run.step [OF 1 bus_step.dispatch])
  have "bus_step demo_b2 demo_b3"
    unfolding demo_b3_def by (rule run_task_step [where due = "1000 * hour"]) (simp_all add: demo_b2)
  with 2 have 3: "bus_run (NewCommandBus start_world) demo_b3" by (rule bus_run.step)
  have 4: "bus_run (NewCommandBus start_world) demo_b4"
    unfolding demo_b4_def by (rule bus_run.step [OF 3 bus_step.result])
  have "bus_step demo_b4 demo_b5"
    unfolding demo_b5_def by (rule run_task_step [where due = "1000 * hour"]) (simp_all add: demo_b4)
  with 4 have 5: "bus_run (NewCommandBus start_world) demo_b5" by (rule bus_run.step)
  have 6: "bus_run (NewCommandBus start_world) demo_b6"
    unfolding demo_b6_def by (rule bus_run.step [OF 5 bus_step.result])
  show ?thesis
    unfolding demo_b7_def by (rule bus_run.step [OF 6 bus_step.wait]) (simp add: time_units)
qed

text \<open>
  A stale retry undoes a finished command: the retry of \<^verbatim>\<open>HandleResult\<close> works on the copy it closed over,
  so when it fires it stores that copy whatever has become of the command since. Its result and completion
  are lost, its status is \<open>dispatched\<close> again and the agent is sent the command once more.
\<close>

theorem stale_retry_resurrects:
  assumes "faults (cb_world b) = []" and "finished \<in> set (commands b)" and "cmd_ID finished = cmd_ID stale"
    and "cb_wsRegistry b (cmd_AgentID stale) = Some ch" and "length (snd_queue ch) < snd_cap ch"
  shows "\<exists>c \<in> set (commands (run_task (Attempt stale) b)). cmd_ID c = cmd_ID finished \<and> cmd_Status c = ''dispatched'' \<and>
      cmd_Result c = cmd_Result stale \<and> cmd_CompletedAt c = cmd_CompletedAt stale \<and>
    (\<exists>ch'. cb_wsRegistry (run_task (Attempt stale) b) (cmd_AgentID stale) = Some ch' \<and>
       map cm_command_id (snd_queue ch') = map cm_command_id (snd_queue ch) @ [cmd_ID finished])"
proof -
  let ?c1 = "stale\<lparr>cmd_Status := ''dispatched'', cmd_DispatchedAt := Some (clock (cb_world b)), cmd_Attempts := cmd_Attempts stale + 1\<rparr>"
  have "cmd_ID ?c1 \<in> cmd_ID ` set (commands b)" using imageI [OF assms(2), of cmd_ID] assms(3) by simp
  from save_cmd_ok [OF assms(1) this]
  have rows: "commands (run_task (Attempt stale) b) = map (\<lambda>x. if cmd_ID x = cmd_ID ?c1 then ?c1 else x) (commands b)"
    using assms(4,5) by (simp add: attemptDispatch_def Let_def)
  have "(\<lambda>x. if cmd_ID x = cmd_ID ?c1 then ?c1 else x) finished \<in> set (commands (run_task (Attempt stale) b))"
    unfolding rows using assms(2) by (simp only: set_map) (rule imageI)
  then have "?c1 \<in> set (commands (run_task (Attempt stale) b))" using assms(3) by simp
  moreover have "\<exists>ch'. cb_wsRegistry (run_task (Attempt stale) b) (cmd_AgentID stale) = Some ch' \<and>
       map cm_command_id (snd_queue ch') = map cm_command_id (snd_queue ch) @ [cmd_ID finished]"
    using assms(3-5) by (simp add: attemptDispatch_def Let_def command_msg_def)
  ultimately show ?thesis using assms(3) by (intro bexI [of _ ?c1]) simp_all
qed

text \<open>This happens: from an empty system, in a state where the only command is completed.\<close>

theorem stale_retry_resurrects_witness:
  "bus_run (NewCommandBus start_world) demo_b7 \<and> map cmd_Status (commands demo_b7) = [''completed''] \<and>
   bus_step demo_b7 (run_task (Attempt demo_retry) (drop_task 0 demo_b7)) \<and>
   (\<exists>c \<in> set (commands (run_task (Attempt demo_retry) (drop_task 0 demo_b7))). cmd_Status c = ''dispatched'' \<and> cmd_Result c = [])"
proof -
  let ?b = "drop_task 0 demo_b7"
  obtain q where q: "cb_wsRegistry ?b ''a'' = Some \<lparr>snd_cap = 100, snd_queue = q\<rparr>" "length q = 2"
    using demo_b7(6) by (auto simp: drop_task_def)
  obtain f where f: "commands ?b = [f]" "cmd_ID f = ''c1''" using demo_b7(3) by (auto simp: drop_task_def)
  have d: "cmd_ID demo_retry = ''c1''" "cmd_AgentID demo_retry = ''a''" "cmd_Result demo_retry = []"
    by (simp_all add: demo_retry_def demo_sent_def fresh_command_def demo_cmd_def zero_AgentCommand_def)
  have "\<exists>c \<in> set (commands (run_task (Attempt demo_retry) ?b)). cmd_ID c = cmd_ID f \<and> cmd_Status c = ''dispatched'' \<and>
      cmd_Result c = cmd_Result demo_retry \<and> cmd_CompletedAt c = cmd_CompletedAt demo_retry \<and>
    (\<exists>ch'. cb_wsRegistry (run_task (Attempt demo_retry) ?b) (cmd_AgentID demo_retry) = Some ch' \<and>
       map cm_command_id (snd_queue ch') = map cm_command_id q @ [cmd_ID f])"
    using stale_retry_resurrects [of ?b f demo_retry "\<lparr>snd_cap = 100, snd_queue = q\<rparr>"] f q d demo_b7(4)
    by (simp add: drop_task_def)
  moreover have "bus_step demo_b7 (run_task (Attempt demo_retry) ?b)"
    by (rule run_task_step [where due = "1000 * hour + 3 * second"]) (simp_all add: demo_b7)
  ultimately show ?thesis using demo_run demo_b7(1) d(3) by auto
qed

theorem delivery_exact_witness:
  "\<exists>q. cb_wsRegistry demo_b7 ''a'' = Some \<lparr>snd_cap = 100, snd_queue = q\<rparr> \<and> length q = 2 \<and>
     distinct (map cmd_ID (commands demo_b7)) \<and> (\<exists>c \<in> set (commands demo_b7). cmd_ID c = cm_command_id (hd q))"
proof -
  obtain q where q: "cb_wsRegistry demo_b7 ''a'' = Some \<lparr>snd_cap = 100, snd_queue = q\<rparr>" "length q = 2"
    using demo_b7(6) by blast
  then have h: "hd q \<in> set q" by (cases q) auto
  have "distinct (map cmd_ID (agent_commands start_world))" by simp
  from delivery_exact [OF demo_run this q(1)] h
  have "distinct (map cmd_ID (commands demo_b7))" "\<exists>c \<in> set (commands demo_b7). cmd_ID c = cm_command_id (hd q)" by auto
  then show ?thesis using q by blast
qed

theorem command_states_witness:
  "\<exists>c. commands demo_b7 = [c] \<and> cmd_Status c = ''completed'' \<and> cmd_CompletedAt c \<noteq> None"
proof -
  obtain c where c: "commands demo_b7 = [c]" "cmd_Status c = ''completed''" using demo_b7(1) by auto
  then show ?thesis using command_states [OF demo_run] by (simp add: all_ok_def)
qed

text \<open>One command is overdue, the other is not.\<close>

definition late_world :: world where
  "late_world = start_world\<lparr>agent_commands := [
     demo_cmd\<lparr>cmd_Status := ''dispatched'', cmd_TimeoutSeconds := 120, cmd_DispatchedAt := Some (999 * hour)\<rparr>,
     demo_cmd\<lparr>cmd_ID := ''c2'', cmd_Status := ''executing'', cmd_TimeoutSeconds := 120, cmd_DispatchedAt := Some (1000 * hour)\<rparr>]\<rparr>"

theorem tick_exact_witness:
  "map cmd_Status (commands (checkCommandTimeouts (NewCommandBus late_world))) = [''timeout'', ''executing'']"
  by (subst tick_exact)
     (simp_all add: NewCommandBus_def late_world_def demo_cmd_def overdue_def time_sub_def wrap64_def time_units time_out_def)


text \<open>
  An agent that reconnects before its old connection is torn down loses the new one: the deferred
  \<^verbatim>\<open>UnregisterAgentConnection\<close> of the old handler removes whatever channel is registered.
\<close>

lemma late_close_drops_new_connection:
  "cmd_AgentID c = a \<Longrightarrow>
    attemptDispatch c (UnregisterAgentConnection a (RegisterAgentConnection a ch b))
      = UnregisterAgentConnection a (RegisterAgentConnection a ch b)"
  by (simp add: attemptDispatch_def UnregisterAgentConnection_def)

end
