(* ===== verification/GoProxy.thy ===== *)
theory GoProxy imports ProxyHooks GoNet GoCrypto begin

text \<open>
  The proxy server of \<^verbatim>\<open>internal/proxy/go_proxy.go\<close>: the SOCKS5 and HTTP protocols on one client connection,
  the login, the guard, the dial and the relay. The connection is a record: what the client sends before it
  closes, the outcomes of the writes to it, and the log of what the server does. Go's \<^verbatim>\<open>http.ReadRequest\<close>, the
  outcome of a dial and the bytes that \<^verbatim>\<open>bridge\<close> copies are fields of the environment.
\<close>

section \<open>Base64\<close>

definition b64_alphabet :: string where
  "b64_alphabet = upper_letters @ lower_letters @ ''0123456789+/''"

definition b64_char :: "nat \<Rightarrow> char" where "b64_char n = b64_alphabet ! n"

definition b64_value :: "char \<Rightarrow> nat option" where
  "b64_value c = List.find (\<lambda>n. b64_char n = c) [0..<64]"

text \<open>\<^verbatim>\<open>base64.StdEncoding\<close>; the decoder skips line breaks.\<close>

fun base64_encode :: "byte list \<Rightarrow> string" where
  "base64_encode (a # b # c # bs) =
     (let n = unat a * 65536 + unat b * 256 + unat c in
      [b64_char (n div 262144), b64_char (n div 4096 mod 64), b64_char (n div 64 mod 64), b64_char (n mod 64)]
        @ base64_encode bs)"
| "base64_encode [a, b] =
     (let n = unat a * 256 + unat b in
      [b64_char (n div 1024), b64_char (n div 16 mod 64), b64_char (n mod 16 * 4), CHR ''=''])"
| "base64_encode [a] = [b64_char (unat a div 4), b64_char (unat a mod 4 * 16), CHR ''='', CHR ''='']"
| "base64_encode [] = []"

fun b64_groups :: "string \<Rightarrow> byte list option" where
  "b64_groups [] = Some []"
| "b64_groups (c1 # c2 # c3 # c4 # cs) =
     (case (b64_value c1, b64_value c2, b64_value c3, b64_value c4) of
        (Some a, Some b, Some c, Some d) \<Rightarrow>
          let n = a * 262144 + b * 4096 + c * 64 + d in
          (case b64_groups cs of None \<Rightarrow> None
           | Some bs \<Rightarrow> Some (of_nat (n div 65536) # of_nat (n div 256) # of_nat n # bs))
      | (Some a, Some b, Some c, None) \<Rightarrow>
          if c4 = CHR ''='' \<and> cs = [] then
            let n = a * 262144 + b * 4096 + c * 64 in Some [of_nat (n div 65536), of_nat (n div 256)]
          else None
      | (Some a, Some b, None, None) \<Rightarrow>
          if c3 = CHR ''='' \<and> c4 = CHR ''='' \<and> cs = [] then Some [of_nat ((a * 262144 + b * 4096) div 65536)] else None
      | _ \<Rightarrow> None)"
| "b64_groups _ = None"

definition base64_decode :: "string \<Rightarrow> byte list option" where
  "base64_decode s = b64_groups (filter (\<lambda>c. c \<noteq> CHR 0x0A \<and> c \<noteq> CHR 0x0D) s)"

section \<open>Servers\<close>

text \<open>
  The package-level hooks. A server made by \<^verbatim>\<open>NewAuthenticatedGoProxyServer\<close> keeps the validator and the
  guard that were set at that time; the server's booleans say whether they were.
\<close>

type_synonym usage_recorder_fn = "string \<Rightarrow> string \<Rightarrow> 64 word \<Rightarrow> 64 word \<Rightarrow> world \<Rightarrow> world"

record hooks =
  hk_auth :: "auth_validator_fn option"
  hk_guard :: "connection_guard_fn option"
  hk_usage :: "usage_recorder_fn option"
  hk_bcrypt :: "string \<Rightarrow> string \<Rightarrow> bool"

definition NewGoProxyServer :: "int \<Rightarrow> string \<Rightarrow> string \<Rightarrow> string \<Rightarrow> string \<Rightarrow> GoProxyServer" where
  "NewGoProxyServer port bindIP outboundIP username password =
     \<lparr>gs_port = port, gs_proxyID = [], gs_bindIP = bindIP, gs_outboundIP = outboundIP, gs_netnsName = [],
      gs_username = username, gs_password = password, gs_auth = False, gs_guard = False, gs_running = False\<rparr>"

definition NewAuthenticatedGoProxyServer ::
  "hooks \<Rightarrow> string \<Rightarrow> int \<Rightarrow> string \<Rightarrow> string \<Rightarrow> string \<Rightarrow> string \<Rightarrow> GoProxyServer" where
  "NewAuthenticatedGoProxyServer hk proxyID port bindIP outboundIP username password =
     (NewGoProxyServer port bindIP outboundIP username password)
       \<lparr>gs_proxyID := proxyID, gs_auth := hk_auth hk \<noteq> None, gs_guard := hk_guard hk \<noteq> None\<rparr>"

definition SetNamespace :: "string \<Rightarrow> GoProxyServer \<Rightarrow> GoProxyServer" where
  "SetNamespace nsName s = s\<lparr>gs_netnsName := nsName\<rparr>"

definition server_Start :: "GoProxyServer \<Rightarrow> world \<Rightarrow> GoProxyServer result" where
  "server_Start s w =
     (if gs_running s then Inr s
      else if can_listen w (gs_bindIP s) (gs_port s) then Inr (s\<lparr>gs_running := True\<rparr>)
      else Inl (ErrMsg ''listen tcp: address already in use''))"

definition server_Stop :: "GoProxyServer \<Rightarrow> GoProxyServer" where
  "server_Stop s = (if gs_running s then s\<lparr>gs_running := False\<rparr> else s)"

definition server_auth :: "hooks \<Rightarrow> GoProxyServer \<Rightarrow> auth_validator_fn option" where
  "server_auth hk s = (if gs_auth s then hk_auth hk else None)"

definition server_guard :: "hooks \<Rightarrow> GoProxyServer \<Rightarrow> connection_guard_fn option" where
  "server_guard hk s = (if gs_guard s then hk_guard hk else None)"

section \<open>A client connection\<close>

text \<open>How a target is dialled: inside a network namespace, from a source address, or by default.\<close>

datatype dialer = InNamespace string | FromIP string | Direct

datatype action = Sent "byte list" | Dialed dialer string | Relayed "64 word" "64 word"

record client =
  pc_ip :: string
  pc_in :: "byte list"
  pc_writes :: "bool list"
  pc_log :: "action list"
  pc_world :: world

record HttpRequest =
  hr_Method :: string
  hr_RequestURI :: string
  hr_Host :: string
  hr_ProxyAuthorization :: string

text \<open>
  The rest of the world during one connection: which dials succeed, what \<^verbatim>\<open>bridge\<close> copied, what other
  connections did to the world while this one was relayed, how \<^verbatim>\<open>http.ReadRequest\<close> parses, and whether the
  request could be written to the target.
\<close>

record net_env =
  ne_dial :: "dialer \<Rightarrow> string \<Rightarrow> bool"
  ne_relay :: "64 word \<times> 64 word"
  ne_meanwhile :: "world \<Rightarrow> world"
  ne_ReadRequest :: "byte list \<Rightarrow> HttpRequest option"
  ne_forward :: bool

definition log_action :: "action \<Rightarrow> client \<Rightarrow> client" where
  "log_action a c = c\<lparr>pc_log := pc_log c @ [a]\<rparr>"

definition conn_write :: "byte list \<Rightarrow> client \<Rightarrow> bool \<times> client" where
  "conn_write bs c = (case pc_writes c of
     [] \<Rightarrow> (True, log_action (Sent bs) c)
   | ok # rest \<Rightarrow> (ok, (if ok then log_action (Sent bs) else id) (c\<lparr>pc_writes := rest\<rparr>)))"

definition send :: "byte list \<Rightarrow> client \<Rightarrow> client" where
  "send bs c = snd (conn_write bs c)"

text \<open>\<^verbatim>\<open>io.ReadFull\<close>: all the bytes, or an error.\<close>

definition read_full :: "nat \<Rightarrow> client \<Rightarrow> byte list option \<times> client" where
  "read_full n c = (if length (pc_in c) < n then (None, c\<lparr>pc_in := []\<rparr>)
     else (Some (take n (pc_in c)), c\<lparr>pc_in := drop n (pc_in c)\<rparr>))"

text \<open>A length byte and as many bytes.\<close>

definition read_field :: "client \<Rightarrow> byte list option \<times> client" where
  "read_field c = (case read_full 1 c of
     (None, c1) \<Rightarrow> (None, c1) | (Some l, c1) \<Rightarrow> read_full (unat (hd l)) c1)"

definition dial_how :: "GoProxyServer \<Rightarrow> dialer" where
  "dial_how s = (if gs_netnsName s \<noteq> [] then InNamespace (gs_netnsName s)
     else if gs_outboundIP s \<noteq> [] then FromIP (gs_outboundIP s) else Direct)"

definition dial :: "net_env \<Rightarrow> GoProxyServer \<Rightarrow> string \<Rightarrow> client \<Rightarrow> bool \<times> client" where
  "dial env s addr c = (ne_dial env (dial_how s) addr, log_action (Dialed (dial_how s) addr) c)"

definition recordProxyUsage :: "hooks \<Rightarrow> string \<Rightarrow> string \<Rightarrow> 64 word \<times> 64 word \<Rightarrow> world \<Rightarrow> world" where
  "recordProxyUsage hk proxyID customerID bytes w =
     (case hk_usage hk of None \<Rightarrow> w | Some f \<Rightarrow> f proxyID customerID (fst bytes) (snd bytes) w)"

text \<open>
  The part the three ways to a target share: the guard, the dial, what tells the client or the target
  (\<open>announce\<close>, which may fail), the relay, the usage, and the deferred release.
\<close>

definition serve_target ::
  "hooks \<Rightarrow> net_env \<Rightarrow> GoProxyServer \<Rightarrow> string \<Rightarrow> string \<Rightarrow> byte list \<Rightarrow> byte list \<Rightarrow> (client \<Rightarrow> bool \<times> client) \<Rightarrow> client \<Rightarrow> client"
where
  "serve_target hk env s customerID addr refused failed announce c =
     (let (granted, w1) = (case server_guard hk s of
            None \<Rightarrow> (Inr id, pc_world c)
          | Some g \<Rightarrow> g (gs_proxyID s) customerID (pc_ip c) addr (pc_world c));
          c1 = c\<lparr>pc_world := w1\<rparr>
      in case granted of
        Inl _ \<Rightarrow> send refused c1
      | Inr release \<Rightarrow>
          let c4 = (case dial env s addr c1 of
              (False, c2) \<Rightarrow> send failed c2
            | (True, c2) \<Rightarrow>
                (case announce c2 of
                   (False, c3) \<Rightarrow> c3
                 | (True, c3) \<Rightarrow>
                     log_action (Relayed (fst (ne_relay env)) (snd (ne_relay env)))
                       (c3\<lparr>pc_world := recordProxyUsage hk (gs_proxyID s) customerID (ne_relay env)
                             (ne_meanwhile env (pc_world c3))\<rparr>)))
          in c4\<lparr>pc_world := release (pc_world c4)\<rparr>)"

section \<open>SOCKS5\<close>

definition choose_method :: "GoProxyServer \<Rightarrow> byte list \<Rightarrow> byte" where
  "choose_method s methods =
     (if gs_username s \<noteq> [] \<and> gs_password s \<noteq> [] then (if 0x02 \<in> set methods then 0x02 else 0xFF)
      else if 0x00 \<in> set methods then 0x00 else 0xFF)"

text \<open>The check against the server's own user name and password (or its bcrypt hash).\<close>

definition own_login :: "hooks \<Rightarrow> GoProxyServer \<Rightarrow> string \<Rightarrow> string \<Rightarrow> bool" where
  "own_login hk s u pw \<longleftrightarrow> u = gs_username s \<and> (pw = gs_password s \<or> hk_bcrypt hk (gs_password s) pw)"

definition check_socks_login :: "hooks \<Rightarrow> GoProxyServer \<Rightarrow> string \<Rightarrow> string \<Rightarrow> client \<Rightarrow> AuthResult \<times> client" where
  "check_socks_login hk s u pw c =
     (case server_auth hk s of
        Some auth \<Rightarrow> (case auth (gs_proxyID s) u pw (pc_ip c) (pc_world c) of (r, w) \<Rightarrow>
          (r, send (if au_Allowed r then [0x01, 0x00] else [0x01, 0x01]) (c\<lparr>pc_world := w\<rparr>)))
      | None \<Rightarrow>
          if own_login hk s u pw then (allow [], send [0x01, 0x00] c)
          else (deny [] ''invalid credentials'', send [0x01, 0x01] c))"

definition authenticateSocks5 :: "hooks \<Rightarrow> GoProxyServer \<Rightarrow> client \<Rightarrow> AuthResult \<times> client" where
  "authenticateSocks5 hk s c =
     (case read_full 1 c of
        (None, c1) \<Rightarrow> (deny [] ''invalid socks5 auth version'', send [0x01, 0x01] c1)
      | (Some ver, c1) \<Rightarrow>
          if ver \<noteq> [0x01] then (deny [] ''invalid socks5 auth version'', send [0x01, 0x01] c1)
          else (case read_field c1 of
            (None, c2) \<Rightarrow> (deny [] ''invalid socks5 username'', c2)
          | (Some u, c2) \<Rightarrow> (case read_field c2 of
              (None, c3) \<Rightarrow> (deny [] ''invalid socks5 password'', c3)
            | (Some pw, c3) \<Rightarrow> check_socks_login hk s (bytes_string u) (bytes_string pw) c3)))"

text \<open>The address of the request: nothing when the client is gone or the type is not supported.\<close>

definition read_host :: "byte \<Rightarrow> client \<Rightarrow> string option \<times> client" where
  "read_host atyp c =
     (if atyp = 0x01 then (case read_full 4 c of (r, c1) \<Rightarrow> (map_option ip_string r, c1))
      else if atyp = 0x03 then (case read_field c of (r, c1) \<Rightarrow> (map_option bytes_string r, c1))
      else if atyp = 0x04 then (case read_full 16 c of (r, c1) \<Rightarrow> (map_option ip_string r, c1))
      else (None, send [0x05, 0x08, 0x00, 0x01, 0, 0, 0, 0, 0, 0] c))"

definition be16 :: "byte list \<Rightarrow> int" where
  "be16 p = int (unat (p ! 0)) * 256 + int (unat (p ! 1))"

definition socks_request :: "hooks \<Rightarrow> net_env \<Rightarrow> GoProxyServer \<Rightarrow> string \<Rightarrow> client \<Rightarrow> client" where
  "socks_request hk env s customerID c =
     (case read_full 4 c of
        (None, c1) \<Rightarrow> c1
      | (Some h, c1) \<Rightarrow>
          if h ! 1 \<noteq> 0x01 then send [0x05, 0x07, 0x00, 0x01, 0, 0, 0, 0, 0, 0] c1
          else (case read_host (h ! 3) c1 of
            (None, c2) \<Rightarrow> c2
          | (Some host, c2) \<Rightarrow> (case read_full 2 c2 of
              (None, c3) \<Rightarrow> c3
            | (Some port, c3) \<Rightarrow>
                serve_target hk env s customerID (join_host_port host (itoa (be16 port)))
                  [0x05, 0x02, 0x00, 0x01, 0, 0, 0, 0, 0, 0] [0x05, 0x04, 0x00, 0x01, 0, 0, 0, 0, 0, 0]
                  (\<lambda>c. (True, send [0x05, 0x00, 0x00, 0x01, 0, 0, 0, 0, 0, 0] c)) c3)))"

definition handleSocks5 :: "hooks \<Rightarrow> net_env \<Rightarrow> GoProxyServer \<Rightarrow> client \<Rightarrow> client" where
  "handleSocks5 hk env s c =
     (case read_full 2 c of
        (None, c1) \<Rightarrow> c1
      | (Some header, c1) \<Rightarrow> (case read_full (unat (header ! 1)) c1 of
          (None, c2) \<Rightarrow> c2
        | (Some methods, c2) \<Rightarrow>
            let m = choose_method s methods in
            (case conn_write [0x05, m] c2 of
               (False, c3) \<Rightarrow> c3
             | (True, c3) \<Rightarrow>
                 if m = 0xFF then c3
                 else if m = 0x02 then
                   (case authenticateSocks5 hk s c3 of (r, c4) \<Rightarrow>
                      if au_Allowed r then socks_request hk env s (au_CustomerID r) c4 else c4)
                 else socks_request hk env s [] c3)))"

section \<open>HTTP\<close>

definition crlf :: string where "crlf = [CHR 0x0D, CHR 0x0A]"

definition http_407 :: "byte list" where
  "http_407 = string_bytes (''HTTP/1.1 407 Proxy Authentication Required'' @ crlf @
     ''Proxy-Authenticate: Basic realm='' @ [CHR 0x22] @ ''Proxy'' @ [CHR 0x22] @ crlf @ crlf)"
definition http_403 :: "byte list" where
  "http_403 = string_bytes (''HTTP/1.1 403 Forbidden'' @ crlf @ crlf @ ''Target blocked or connection limit exceeded'')"
definition http_502 :: "byte list" where "http_502 = string_bytes (''HTTP/1.1 502 Bad Gateway'' @ crlf @ crlf)"
definition http_200 :: "byte list" where
  "http_200 = string_bytes (''HTTP/1.1 200 Connection Established'' @ crlf @ crlf)"

text \<open>A denial of the validator is not the end: the server's own login is tried next.\<close>

definition check_http_login :: "hooks \<Rightarrow> GoProxyServer \<Rightarrow> string \<Rightarrow> string \<Rightarrow> string \<Rightarrow> world \<Rightarrow> AuthResult \<times> world" where
  "check_http_login hk s u pw clientIP w =
     (let (r, w1) = (case server_auth hk s of
            None \<Rightarrow> (deny [] [], w) | Some auth \<Rightarrow> auth (gs_proxyID s) u pw clientIP w)
      in if au_Allowed r then (r, w1)
         else if u \<noteq> gs_username s then (deny [] ''invalid credentials'', w1)
         else if pw = gs_password s then (allow [], w1)
         else ((if hk_bcrypt hk (gs_password s) pw then allow [] else deny [] []), w1))"

definition authenticateHTTP :: "hooks \<Rightarrow> GoProxyServer \<Rightarrow> string \<Rightarrow> string \<Rightarrow> world \<Rightarrow> AuthResult \<times> world" where
  "authenticateHTTP hk s authHeader clientIP w =
     (if \<not> has_prefix authHeader ''Basic '' then (deny [] ''missing basic auth'', w)
      else case base64_decode (drop (length ''Basic '') authHeader) of
        None \<Rightarrow> (deny [] ''invalid basic auth'', w)
      | Some payload \<Rightarrow>
          (case split2 (CHR '':'') (bytes_string payload) of
             [u, pw] \<Rightarrow> check_http_login hk s u pw clientIP w
           | _ \<Rightarrow> (deny [] ''invalid basic auth'', w)))"

definition http_addr :: "HttpRequest \<Rightarrow> string" where
  "http_addr req = (if hr_Method req = ''CONNECT'' then hr_RequestURI req
     else if contains (hr_Host req) '':'' then hr_Host req else hr_Host req @ '':80'')"

definition http_target :: "hooks \<Rightarrow> net_env \<Rightarrow> GoProxyServer \<Rightarrow> HttpRequest \<Rightarrow> string \<Rightarrow> client \<Rightarrow> client" where
  "http_target hk env s req customerID c =
     serve_target hk env s customerID (http_addr req) http_403 http_502
       (if hr_Method req = ''CONNECT'' then conn_write http_200 else (\<lambda>c. (ne_forward env, c))) c"

definition handleHTTP :: "hooks \<Rightarrow> net_env \<Rightarrow> GoProxyServer \<Rightarrow> client \<Rightarrow> client" where
  "handleHTTP hk env s c =
     (case ne_ReadRequest env (pc_in c) of
        None \<Rightarrow> c
      | Some req \<Rightarrow>
          if gs_username s \<noteq> [] \<and> gs_password s \<noteq> [] then
            if hr_ProxyAuthorization req = [] then send http_407 c
            else (case authenticateHTTP hk s (hr_ProxyAuthorization req) (pc_ip c) (pc_world c) of (r, w) \<Rightarrow>
              let c1 = c\<lparr>pc_world := w\<rparr> in
              if au_Allowed r then http_target hk env s req (au_CustomerID r) c1 else send http_407 c1)
          else http_target hk env s req [] c)"

definition handleConnection :: "hooks \<Rightarrow> net_env \<Rightarrow> GoProxyServer \<Rightarrow> client \<Rightarrow> client" where
  "handleConnection hk env s c =
     (case pc_in c of
        [] \<Rightarrow> c
      | b # _ \<Rightarrow> if b = 0x05 then handleSocks5 hk env s c else handleHTTP hk env s c)"

end
