(* ===== verification/GoProxyFacts.thy ===== *)
theory GoProxyFacts imports GoProxy AbuseGuard begin

text \<open>
  What the proxy server guarantees: the Base64 and SOCKS5 encodings read back, a SOCKS5 client that must
  log in reaches nothing without the validator, every connection gives back what the guard took; and what
  the HTTP login and the usage record get wrong.
\<close>

section \<open>Base64 round trip\<close>

lemma b64_tables:
  "list_all (\<lambda>n. b64_value (b64_char n) = Some n) [0..<64]"
  "list_all (\<lambda>n. b64_char n \<noteq> CHR 0x0A \<and> b64_char n \<noteq> CHR 0x0D) [0..<64]"
  "b64_value (CHR ''='') = None"
  by code_simp+

lemma b64_value_char [simp]: "n < 64 \<Longrightarrow> b64_value (b64_char n) = Some n"
  using b64_tables(1) by (simp add: list_all_iff)

lemma b64_char_no_break [simp]: "n < 64 \<Longrightarrow> b64_char n \<noteq> CHR 0x0A" "n < 64 \<Longrightarrow> b64_char n \<noteq> CHR 0x0D"
  using b64_tables(2) by (simp_all add: list_all_iff)

lemma b64_value_pad [simp]: "b64_value (CHR ''='') = None"
  by (rule b64_tables(3))

lemma byte_bound: "unat (b :: byte) < 256"
  using unsigned_less [of b, where ?'a = nat] by simp

lemma base_64_digits:
  "n div 262144 * 262144 + n div 4096 mod 64 * 4096 + n div 64 mod 64 * 64 + n mod 64 = (n :: nat)"
proof -
  have d: "n div 4096 = n div 64 div 64" "n div 262144 = n div 64 div 64 div 64"
    by (simp_all add: div_mult2_eq [symmetric])
  have "64 * (m div 64) + m mod 64 = m" for m :: nat by simp
  from this [of n] this [of "n div 64"] this [of "n div 64 div 64"] show ?thesis
    unfolding d by linarith
qed

lemma base_64_digits2:
  "n div 1024 * 262144 + n div 16 mod 64 * 4096 + n mod 16 * 4 * 64 = 256 * (n :: nat)"
proof -
  have d: "n div 1024 = n div 16 div 64" by (simp add: div_mult2_eq [symmetric])
  have "64 * (n div 16 div 64) + n div 16 mod 64 = n div 16" "16 * (n div 16) + n mod 16 = n" by simp_all
  then show ?thesis unfolding d by linarith
qed

lemma base64_group_bounds:
  "unat (a :: byte) * 65536 + unat (b :: byte) * 256 + unat (c :: byte) < 16777216"
  "unat (a :: byte) * 256 + unat (b :: byte) < 65536"
  using byte_bound [of a] byte_bound [of b] byte_bound [of c] by linarith+

lemma byte_of_nat_mod: "of_nat (256 * n + unat b) = (b :: byte)"
proof -
  have z: "(256 :: byte) = 0" by code_simp
  have "(of_nat (256 * n + unat b) :: byte) = 256 * of_nat n + of_nat (unat b)" by simp
  also have "\<dots> = b" unfolding z by simp
  finally show ?thesis .
qed

lemma byte_digits:
  "of_nat ((unat (a :: byte) * 65536 + unat (b :: byte) * 256 + unat (c :: byte)) div 65536) = a"
  "of_nat ((unat a * 65536 + unat b * 256 + unat c) div 256) = b"
  "of_nat (unat a * 65536 + unat b * 256 + unat c) = c"
proof -
  have "(unat a * 65536 + unat b * 256 + unat c) div 65536 = unat a"
    using byte_bound [of b] byte_bound [of c] by linarith
  then show "of_nat ((unat a * 65536 + unat b * 256 + unat c) div 65536) = a" by simp
  have "(unat a * 65536 + unat b * 256 + unat c) div 256 = 256 * unat a + unat b"
    using byte_bound [of c] by linarith
  then show "of_nat ((unat a * 65536 + unat b * 256 + unat c) div 256) = b"
    by (simp only: byte_of_nat_mod)
  have "unat a * 65536 + unat b * 256 + unat c = 256 * (256 * unat a + unat b) + unat c" by simp
  then show "of_nat (unat a * 65536 + unat b * 256 + unat c) = c" by (simp only: byte_of_nat_mod)
qed

lemma b64_groups_pad1:
  "b64_value c1 = Some x \<Longrightarrow> b64_value c2 = Some y \<Longrightarrow> b64_value c3 = Some z \<Longrightarrow>
    b64_groups [c1, c2, c3, CHR ''=''] = Some [of_nat ((x * 262144 + y * 4096 + z * 64) div 65536),
      of_nat ((x * 262144 + y * 4096 + z * 64) div 256)]"
  by (simp add: Let_def del: of_nat_add of_nat_mult)

lemma b64_groups_encode: "b64_groups (base64_encode bs) = Some bs"
proof (induction bs rule: base64_encode.induct)
  case (1 a b c bs)
  let ?n = "unat a * 65536 + unat b * 256 + unat c"
  have n: "?n < 16777216" by (rule base64_group_bounds)
  then have "?n div 262144 < 64" by linarith
  then show ?case
    using 1 by (simp add: Let_def base_64_digits byte_digits del: of_nat_add of_nat_mult)
next
  case (2 a b)
  let ?n = "unat a * 256 + unat b"
  have n: "?n < 65536" by (rule base64_group_bounds)
  have b: "?n div 1024 < 64" "?n mod 16 * 4 < 64" using n by linarith+
  have e: "?n div 1024 * 262144 + ?n div 16 mod 64 * 4096 + ?n mod 16 * 4 * 64 = 256 * ?n"
    by (rule base_64_digits2)
  have "256 * ?n = 256 * unat b + unat a * 65536" by simp
  then have "256 * ?n div 65536 = unat a" using byte_bound [of b] by (simp only: div_mult_self1)
  moreover have "256 * ?n div 256 = 256 * unat a + unat b" by simp
  ultimately have d: "256 * ?n div 65536 = unat a" "256 * ?n div 256 = 256 * unat a + unat b" .
  have "b64_groups (base64_encode [a, b]) = Some [of_nat (256 * ?n div 65536), of_nat (256 * ?n div 256)]"
    unfolding base64_encode.simps Let_def
    by (subst b64_groups_pad1 [OF b64_value_char b64_value_char b64_value_char]) (simp_all only: b e mod_less_divisor zero_less_numeral)
  then show ?case by (simp only: d byte_of_nat_mod) simp
next
  case (3 a)
  have b: "unat a div 4 < 64" "unat a mod 4 * 16 < 64" using byte_bound [of a] by linarith+
  have "4 * (unat a div 4) + unat a mod 4 = unat a" by simp
  then have "unat a div 4 * 262144 + unat a mod 4 * 16 * 4096 = 65536 * unat a" by linarith
  then show ?case using b by (simp del: of_nat_add of_nat_mult)
qed simp

lemma base64_no_break: "c \<in> set (base64_encode bs) \<Longrightarrow> c \<noteq> CHR 0x0A \<and> c \<noteq> CHR 0x0D"
proof (induction bs rule: base64_encode.induct)
  case (1 a b c bs)
  have "(unat a * 65536 + unat b * 256 + unat c) div 262144 < 64"
    using base64_group_bounds(1) [of a b c] by linarith
  with 1 show ?case by (auto simp: Let_def)
next
  case (2 a b)
  have "(unat a * 256 + unat b) div 1024 < 64" "(unat a * 256 + unat b) mod 16 * 4 < 64"
    using base64_group_bounds(2) [of a b] by linarith+
  with 2 show ?case by (auto simp: Let_def)
next
  case (3 a)
  have "unat a div 4 < 64" "unat a mod 4 * 16 < 64" using byte_bound [of a] by linarith+
  with 3 show ?case by auto
qed simp

lemma base64_decode_encode: "base64_decode (base64_encode bs) = Some bs"
proof -
  have "filter (\<lambda>c. c \<noteq> CHR 0x0A \<and> c \<noteq> CHR 0x0D) (base64_encode bs) = base64_encode bs"
    using base64_no_break [of _ bs] by (simp add: filter_id_conv)
  then show ?thesis by (simp add: base64_decode_def b64_groups_encode)
qed


text \<open>A client that sends its credentials in the \<^verbatim>\<open>Basic\<close> scheme is asked for exactly these.\<close>

definition basic_auth :: "string \<Rightarrow> string \<Rightarrow> string" where
  "basic_auth u pw = ''Basic '' @ base64_encode (string_bytes (u @ CHR '':'' # pw))"

lemma authenticateHTTP_basic:
  assumes "CHR '':'' \<notin> set u"
  shows "authenticateHTTP hk s (basic_auth u pw) i w = check_http_login hk s u pw i w"
proof -
  have p: "has_prefix (basic_auth u pw) ''Basic ''" unfolding basic_auth_def by (rule has_prefix_append)
  have d: "drop (length ''Basic '') (basic_auth u pw) = base64_encode (string_bytes (u @ CHR '':'' # pw))"
    by (simp add: basic_auth_def)
  have c: "split2 (CHR '':'') (u @ CHR '':'' # pw) = [u, pw]" using assms by (simp add: split2_def)
  show ?thesis by (simp only: authenticateHTTP_def p d base64_decode_encode c bytes_string_bytes simp_thms if_False option.case list.case)
qed

section \<open>The running system's hooks\<close>

text \<open>What \<^verbatim>\<open>main\<close> installs before it restores the proxies.\<close>

definition live_hooks :: "hash_check \<Rightarrow> hooks" where
  "live_hooks bcrypt_ok = \<lparr>hk_auth = Some (abuse_ValidateProxyCredential bcrypt_ok),
     hk_guard = Some GuardConnection, hk_usage = Some RecordUsage, hk_bcrypt = bcrypt_ok\<rparr>"

lemma live_hooks_simps [simp]:
  "hk_auth (live_hooks b) = Some (abuse_ValidateProxyCredential b)" "hk_guard (live_hooks b) = Some GuardConnection"
  "hk_usage (live_hooks b) = Some RecordUsage" "hk_bcrypt (live_hooks b) = b"
  by (simp_all add: live_hooks_def)

section \<open>Frames of a connection\<close>

lemma send_simps [simp]: "pc_world (send bs c) = pc_world c" "pc_ip (send bs c) = pc_ip c" "pc_in (send bs c) = pc_in c"
  by (simp_all add: send_def conn_write_def log_action_def split: list.split)

lemma conn_write_world [simp]: "pc_world (snd (conn_write bs c)) = pc_world c" "pc_ip (snd (conn_write bs c)) = pc_ip c"
  "pc_in (snd (conn_write bs c)) = pc_in c"
  by (simp_all add: conn_write_def log_action_def split: list.split)

lemma log_action_simps [simp]: "pc_world (log_action a c) = pc_world c" "pc_ip (log_action a c) = pc_ip c"
  "pc_log (log_action a c) = pc_log c @ [a]" "pc_in (log_action a c) = pc_in c" "pc_writes (log_action a c) = pc_writes c"
  by (simp_all add: log_action_def)

lemma read_frames [simp]:
  "pc_world (snd (read_full n c)) = pc_world c" "pc_ip (snd (read_full n c)) = pc_ip c" "pc_log (snd (read_full n c)) = pc_log c"
  "pc_world (snd (read_field c)) = pc_world c" "pc_ip (snd (read_field c)) = pc_ip c" "pc_log (snd (read_field c)) = pc_log c"
  by (simp_all add: read_full_def read_field_def case_prod_beta split: option.split)

lemma read_host_frames [simp]:
  "pc_world (snd (read_host t c)) = pc_world c" "pc_ip (snd (read_host t c)) = pc_ip c"
  by (simp_all add: read_host_def case_prod_beta)

lemma dial_frames [simp]: "pc_world (snd (dial env s addr c)) = pc_world c"
  by (simp add: dial_def)

text \<open>The dials a connection has made.\<close>

definition dials :: "client \<Rightarrow> (dialer \<times> string) list" where
  "dials c = List.map_filter (\<lambda>a. case a of Dialed d t \<Rightarrow> Some (d, t) | _ \<Rightarrow> None) (pc_log c)"

lemma dials_log [simp]:
  "dials (log_action a c) = dials c @ (case a of Dialed d t \<Rightarrow> [(d, t)] | _ \<Rightarrow> [])"
  by (simp add: dials_def List.map_filter_def split: action.split)

lemma dials_world [simp]: "dials (c\<lparr>pc_world := w\<rparr>) = dials c" "dials (c\<lparr>pc_in := bs\<rparr>) = dials c" "dials (c\<lparr>pc_writes := ws\<rparr>) = dials c"
  by (simp_all add: dials_def)

lemma dials_write [simp]: "dials (snd (conn_write bs c)) = dials c" "dials (send bs c) = dials c"
  by (simp_all add: send_def conn_write_def split: list.split)

lemma dials_read [simp]: "dials (snd (read_full n c)) = dials c" "dials (snd (read_field c)) = dials c"
  "dials (snd (read_host t c)) = dials c"
  by (simp_all add: dials_def read_host_def case_prod_beta) (simp_all add: dials_def [symmetric])


section \<open>Every dial was granted\<close>

definition granted :: "hooks \<Rightarrow> GoProxyServer \<Rightarrow> string \<Rightarrow> string \<Rightarrow> string \<Rightarrow> world \<Rightarrow> bool" where
  "granted hk s k addr i w = (case server_guard hk s of None \<Rightarrow> True | Some g \<Rightarrow> is_ok (fst (g (gs_proxyID s) k i addr w)))"

lemma serve_target_dials:
  assumes "\<And>c. dials (snd (announce c)) = dials c"
  shows "dials (serve_target hk env s k addr refused failed announce c) =
    dials c @ (if granted hk s k addr (pc_ip c) (pc_world c) then [(dial_how s, addr)] else [])"
  using assms
  by (simp add: serve_target_def granted_def dial_def case_prod_beta Let_def is_ok_def split: option.split sum.split bool.split)

definition grants :: "hooks \<Rightarrow> GoProxyServer \<Rightarrow> string \<Rightarrow> client \<Rightarrow> client \<Rightarrow> bool" where
  "grants hk s k c c' \<longleftrightarrow> (\<forall>x \<in> set (dials c'). x \<in> set (dials c) \<or> granted hk s k (snd x) (pc_ip c) (pc_world c))"

lemma grants_same: "dials c' = dials c \<Longrightarrow> grants hk s k c c'"
  by (simp add: grants_def)

lemma grants_serve:
  assumes "\<And>c. dials (snd (announce c)) = dials c" and "dials c1 = dials c" "pc_ip c1 = pc_ip c" "pc_world c1 = pc_world c"
  shows "grants hk s k c (serve_target hk env s k addr refused failed announce c1)"
  using assms by (auto simp: grants_def serve_target_dials)

lemma socks_request_grants: "grants hk s k c (socks_request hk env s k c)"
  by (simp add: socks_request_def case_prod_beta grants_same grants_serve split: option.split)

lemma http_target_grants: "grants hk s k c (http_target hk env s req k c)"
  by (simp add: http_target_def Let_def grants_serve)

section \<open>A SOCKS5 client must log in\<close>

lemma check_socks_login_frames [simp]:
  "dials (snd (check_socks_login hk s u pw c)) = dials c" "pc_ip (snd (check_socks_login hk s u pw c)) = pc_ip c"
  by (simp_all add: check_socks_login_def case_prod_beta split: option.split)

lemma authenticateSocks5_frames [simp]:
  "dials (snd (authenticateSocks5 hk s c)) = dials c" "pc_ip (snd (authenticateSocks5 hk s c)) = pc_ip c"
  by (simp_all add: authenticateSocks5_def case_prod_beta split: option.split)

text \<open>
  What a client sends when it logs in, read from its bytes alone: a greeting (version, number of methods, methods),
  then the version 1 of the login, and user name and password, each behind a length byte.
\<close>

fun length_field :: "byte list \<Rightarrow> (string \<times> byte list) option" where
  "length_field [] = None"
| "length_field (n # bs) =
     (if length bs < unat n then None else Some (bytes_string (take (unat n) bs), drop (unat n) bs))"

definition login_fields :: "byte list \<Rightarrow> (string \<times> string) option" where
  "login_fields bs = (case length_field bs of None \<Rightarrow> None
     | Some (u, bs') \<Rightarrow> (case length_field bs' of None \<Rightarrow> None | Some (pw, _) \<Rightarrow> Some (u, pw)))"

definition login_message :: "byte list \<Rightarrow> (string \<times> string) option" where
  "login_message bs = (case bs of [] \<Rightarrow> None | v # rest \<Rightarrow> if v = 0x01 then login_fields rest else None)"

fun client_login :: "byte list \<Rightarrow> (string \<times> string) option" where
  "client_login (_ # n # bs) = login_message (drop (unat n) bs)"
| "client_login _ = None"

lemma read_field_length:
  "(fst (read_field c) = Some bs) = (length_field (pc_in c) = Some (bytes_string bs, pc_in (snd (read_field c))) \<and>
    fst (read_field c) = Some bs)"
  by (cases "pc_in c") (auto simp: read_field_def read_full_def)

text \<open>A login that is allowed is the validator's answer to the user name and the password of the client's message.\<close>

lemma authenticateSocks5_validated:
  assumes "au_Allowed (fst (authenticateSocks5 hk s c))" and "server_auth hk s = Some auth"
  shows "\<exists>u pw. login_message (pc_in c) = Some (u, pw) \<and>
    (fst (authenticateSocks5 hk s c), pc_world (snd (authenticateSocks5 hk s c)))
      = auth (gs_proxyID s) u pw (pc_ip c) (pc_world c)"
proof -
  let ?c1 = "snd (read_full 1 c)"
  let ?c2 = "snd (read_field ?c1)"
  obtain bs where v: "pc_in c = 0x01 # bs"
    using assms(1) by (cases "pc_in c") (auto simp: authenticateSocks5_def read_full_def split: if_splits)
  then have c1: "fst (read_full 1 c) = Some [0x01]" "pc_in ?c1 = bs" by (simp_all add: read_full_def)
  obtain u where u: "fst (read_field ?c1) = Some u"
    using assms(1) c1(1) by (cases "fst (read_field ?c1)") (auto simp: authenticateSocks5_def case_prod_beta)
  obtain pw where pw: "fst (read_field ?c2) = Some pw"
    using assms(1) c1(1) u by (cases "fst (read_field ?c2)") (auto simp: authenticateSocks5_def case_prod_beta)
  have "authenticateSocks5 hk s c = check_socks_login hk s (bytes_string u) (bytes_string pw) (snd (read_field ?c2))"
    by (simp only: authenticateSocks5_def case_prod_beta c1(1) u pw option.case) simp
  moreover have "login_message (pc_in c) = Some (bytes_string u, bytes_string pw)"
    using u pw read_field_length [of ?c1 u] read_field_length [of ?c2 pw] c1(2)
    by (simp add: v login_message_def login_fields_def)
  ultimately show ?thesis using assms(2) by (auto simp: check_socks_login_def case_prod_beta)
qed

text \<open>With a user name and a password set, a run that dials went through the login.\<close>

lemma socks_dial_logs_in:
  assumes "gs_username s \<noteq> []" and "gs_password s \<noteq> []" and "dials (handleSocks5 hk env s c) \<noteq> dials c"
  obtains c3 where "dials c3 = dials c" and "pc_ip c3 = pc_ip c" and "pc_world c3 = pc_world c"
    and "login_message (pc_in c3) = client_login (pc_in c)"
    and "au_Allowed (fst (authenticateSocks5 hk s c3))"
    and "handleSocks5 hk env s c = socks_request hk env s (au_CustomerID (fst (authenticateSocks5 hk s c3)))
      (snd (authenticateSocks5 hk s c3))"
proof -
  let ?c1 = "snd (read_full 2 c)"
  obtain h where h: "fst (read_full 2 c) = Some h"
    using assms(3) by (cases "fst (read_full 2 c)") (auto simp: handleSocks5_def case_prod_beta)
  let ?c2 = "snd (read_full (unat (h ! 1)) ?c1)" and ?c3 = "snd (conn_write [5, 2] (snd (read_full (unat (h ! 1)) ?c1)))"
  obtain ms where ms: "fst (read_full (unat (h ! 1)) ?c1) = Some ms"
    using assms(3) by (cases "fst (read_full (unat (h ! 1)) ?c1)") (auto simp: handleSocks5_def case_prod_beta h)
  have "au_Allowed (fst (authenticateSocks5 hk s ?c3)) \<and>
    handleSocks5 hk env s c = socks_request hk env s (au_CustomerID (fst (authenticateSocks5 hk s ?c3)))
      (snd (authenticateSocks5 hk s ?c3))"
    using assms
    by (auto simp: handleSocks5_def choose_method_def case_prod_beta Let_def h split: option.splits bool.splits if_splits)
  moreover have "login_message (pc_in ?c3) = client_login (pc_in c)"
    using h ms by (cases "pc_in c" rule: client_login.cases) (auto simp: read_full_def split: if_splits)
  ultimately show thesis by (intro that [of ?c3]) simp_all
qed

lemma socks_dial_validated:
  assumes "gs_username s \<noteq> []" and "gs_password s \<noteq> []" and "server_auth hk s = Some auth"
    and "dials c = []" and "(d, addr) \<in> set (dials (handleSocks5 hk env s c))"
  shows "\<exists>u pw r w. client_login (pc_in c) = Some (u, pw) \<and>
    auth (gs_proxyID s) u pw (pc_ip c) (pc_world c) = (r, w) \<and> au_Allowed r \<and>
    granted hk s (au_CustomerID r) addr (pc_ip c) w"
proof -
  have "dials (handleSocks5 hk env s c) \<noteq> dials c" using assms(4,5) by auto
  then obtain c3 where c3: "dials c3 = dials c" "pc_ip c3 = pc_ip c" "pc_world c3 = pc_world c"
      "login_message (pc_in c3) = client_login (pc_in c)"
    and run: "au_Allowed (fst (authenticateSocks5 hk s c3))"
      "handleSocks5 hk env s c = socks_request hk env s (au_CustomerID (fst (authenticateSocks5 hk s c3)))
        (snd (authenticateSocks5 hk s c3))"
    using socks_dial_logs_in [OF assms(1,2), of hk env c] by metis
  let ?r = "fst (authenticateSocks5 hk s c3)" and ?c4 = "snd (authenticateSocks5 hk s c3)"
  have "granted hk s (au_CustomerID ?r) addr (pc_ip ?c4) (pc_world ?c4)"
    using socks_request_grants [of hk s "au_CustomerID ?r" ?c4 env] assms(4,5) c3 by (auto simp: run grants_def)
  moreover obtain u pw where "client_login (pc_in c) = Some (u, pw)"
      and "(?r, pc_world ?c4) = auth (gs_proxyID s) u pw (pc_ip c) (pc_world c)"
    using authenticateSocks5_validated [OF run(1) assms(3)] c3 by auto
  ultimately show ?thesis using run(1) c3(2) by (metis authenticateSocks5_frames(2))
qed


lemma allowed_login:
  assumes "abuse_ValidateProxyCredential bcrypt_ok p u pw i w = (r, w')" and "au_Allowed r"
  shows "\<exists>cred \<in> set (customer_proxy_credentials w). cpc_ProxyID cred = p \<and> cpc_Username cred = u \<and>
    cpc_Status cred = ''active'' \<and> bcrypt_ok (cpc_PasswordHash cred) pw \<and> au_CustomerID r = cpc_CustomerID cred"
proof -
  let ?w1 = "snd (blockedUntil (auth_key p u i) w)"
  let ?P = "\<lambda>c. cpc_ProxyID c = p \<and> cpc_Username c = u \<and> cpc_Status c = ''active''"
  obtain cred w2 where f: "db_first CustomerProxyCredential_schema ?P ?w1 = (Inr cred, w2)"
    and "bcrypt_ok (cpc_PasswordHash cred) pw" and "au_CustomerID r = cpc_CustomerID cred"
    using assms
    by (cases "db_first CustomerProxyCredential_schema ?P ?w1" rule: result_cases)
       (auto simp: abuse_ValidateProxyCredential_def case_prod_beta split: option.splits bool.splits sum.splits if_splits)
  with customer_proxy_credentials_table.first_row [OF f] show ?thesis by auto
qed

lemma allowed_answer:
  "abuse_ValidateProxyCredential bcrypt_ok p u pw i w = (r, w') \<Longrightarrow> au_Allowed r \<Longrightarrow> r = allow (au_CustomerID r)"
  by (auto simp: abuse_ValidateProxyCredential_def case_prod_beta split: option.splits bool.splits sum.splits if_splits)

text \<open>
  C17. A SOCKS5 client of a proxy that has a user name and a password (and was started with the validator and the
  guard in place) reaches no target unless the bytes it sent contain a login whose user name and password the running
  system's validator accepted for this very proxy: there is an active credential of it with the name the client gave
  whose hash accepts the password the client gave. The guard then granted exactly that target to the credential's
  customer.
\<close>

theorem socks_login_required:
  assumes "gs_username s \<noteq> []" and "gs_password s \<noteq> []" and "gs_auth s" and "gs_guard s"
    and "pc_in c = 0x05 # rest" and "dials c = []"
    and "(d, addr) \<in> set (dials (handleConnection (live_hooks bcrypt_ok) env s c))"
  shows "\<exists>u pw w. client_login (pc_in c) = Some (u, pw) \<and>
    (\<exists>cred \<in> set (customer_proxy_credentials (pc_world c)).
      cpc_ProxyID cred = gs_proxyID s \<and> cpc_Username cred = u \<and> cpc_Status cred = ''active'' \<and>
      bcrypt_ok (cpc_PasswordHash cred) pw \<and>
      abuse_ValidateProxyCredential bcrypt_ok (gs_proxyID s) u pw (pc_ip c) (pc_world c) = (allow (cpc_CustomerID cred), w) \<and>
      is_ok (fst (GuardConnection (gs_proxyID s) (cpc_CustomerID cred) (pc_ip c) addr w)))"
proof -
  have "(d, addr) \<in> set (dials (handleSocks5 (live_hooks bcrypt_ok) env s c))"
    using assms(5,7) by (simp add: handleConnection_def)
  moreover have "server_auth (live_hooks bcrypt_ok) s = Some (abuse_ValidateProxyCredential bcrypt_ok)"
    using assms(3) by (simp add: server_auth_def)
  ultimately obtain u pw r w where l: "client_login (pc_in c) = Some (u, pw)"
    and r: "abuse_ValidateProxyCredential bcrypt_ok (gs_proxyID s) u pw (pc_ip c) (pc_world c) = (r, w)"
      "au_Allowed r" "granted (live_hooks bcrypt_ok) s (au_CustomerID r) addr (pc_ip c) w"
    using socks_dial_validated [OF assms(1,2) _ assms(6)] by metis
  have "is_ok (fst (GuardConnection (gs_proxyID s) (au_CustomerID r) (pc_ip c) addr w))"
    using r(3) assms(4) by (simp add: granted_def server_guard_def)
  moreover have "r = allow (au_CustomerID r)" using allowed_answer [OF r(1,2)] .
  ultimately show ?thesis using allowed_login [OF r(1,2)] r(1) l by metis
qed

section \<open>A client that follows the protocol\<close>

text \<open>What a SOCKS5 client sends: its greeting, its login, and a request by host name.\<close>

definition socks_field :: "string \<Rightarrow> byte list" where
  "socks_field t = of_nat (length t) # string_bytes t"

definition socks_session :: "string \<Rightarrow> string \<Rightarrow> string \<Rightarrow> 16 word \<Rightarrow> byte list" where
  "socks_session u pw host port = [0x05, 1, 0x02] @ [0x01] @ socks_field u @ socks_field pw @
     [0x05, 0x01, 0x00, 0x03] @ socks_field host @ [of_nat (unat port div 256), of_nat (unat port mod 256)]"

lemma length_string_bytes [simp]: "length (string_bytes t) = length t"
  by (simp add: string_bytes_def)

lemma read_full_append [simp]:
  "length bs = n \<Longrightarrow> pc_in c = bs @ rest \<Longrightarrow> read_full n c = (Some bs, c\<lparr>pc_in := rest\<rparr>)"
  by (simp add: read_full_def)

lemma read_field_socks:
  assumes "pc_in c = socks_field t @ rest" and "length t < 256"
  shows "read_field c = (Some (string_bytes t), c\<lparr>pc_in := rest\<rparr>)"
proof -
  have "unat (of_nat (length t) :: byte) = length t" using assms(2) by (simp add: unsigned_of_nat take_bit_eq_mod)
  then show ?thesis using assms(1) by (simp add: read_field_def read_full_def socks_field_def)
qed

lemma be16_bytes: "be16 [of_nat (unat (p :: 16 word) div 256), of_nat (unat p mod 256)] = int (unat p)"
proof -
  have "unat p < 65536" using unsigned_less [of p, where ?'a = nat] by simp
  then have "unat (of_nat (unat p div 256) :: byte) = unat p div 256" "unat (of_nat (unat p mod 256) :: byte) = unat p mod 256"
    by (simp_all add: unsigned_of_nat take_bit_eq_mod)
  moreover have "unat p div 256 * 256 + unat p mod 256 = unat p" by simp
  ultimately show ?thesis by (simp only: be16_def nth_Cons_0 nth_Cons_Suc One_nat_def)
qed


lemma send_all: "pc_writes c = [] \<Longrightarrow> send bs c = c\<lparr>pc_log := pc_log c @ [Sent bs]\<rparr>"
  by (simp add: send_def conn_write_def log_action_def)

lemma authenticateSocks5_session:
  assumes "pc_in c = [0x01] @ socks_field u @ socks_field pw @ rest" and "length u < 256" and "length pw < 256"
  shows "authenticateSocks5 hk s c = check_socks_login hk s u pw (c\<lparr>pc_in := rest\<rparr>)"
proof -
  have v: "read_full 1 c = (Some [0x01], c\<lparr>pc_in := socks_field u @ socks_field pw @ rest\<rparr>)"
    by (rule read_full_append) (simp_all add: assms(1))
  have "read_field (c\<lparr>pc_in := socks_field u @ socks_field pw @ rest\<rparr>)
      = (Some (string_bytes u), c\<lparr>pc_in := socks_field pw @ rest\<rparr>)"
    using read_field_socks [of "c\<lparr>pc_in := socks_field u @ socks_field pw @ rest\<rparr>"] assms(2) by simp
  moreover have "read_field (c\<lparr>pc_in := socks_field pw @ rest\<rparr>) = (Some (string_bytes pw), c\<lparr>pc_in := rest\<rparr>)"
    using read_field_socks [of "c\<lparr>pc_in := socks_field pw @ rest\<rparr>"] assms(3) by simp
  ultimately show ?thesis unfolding authenticateSocks5_def v by simp
qed

lemma socks_request_session:
  assumes "pc_in c = [0x05, 0x01, 0x00, 0x03] @ socks_field host @
      [of_nat (unat (port :: 16 word) div 256), of_nat (unat port mod 256)] @ rest" and "length host < 256"
  shows "socks_request hk env s k c = serve_target hk env s k (join_host_port host (itoa (int (unat port))))
    [0x05, 0x02, 0x00, 0x01, 0, 0, 0, 0, 0, 0] [0x05, 0x04, 0x00, 0x01, 0, 0, 0, 0, 0, 0]
    (\<lambda>c. (True, send [0x05, 0x00, 0x00, 0x01, 0, 0, 0, 0, 0, 0] c)) (c\<lparr>pc_in := rest\<rparr>)"
proof -
  let ?p = "[of_nat (unat port div 256), of_nat (unat port mod 256)] :: byte list"
  have h: "read_full 4 c = (Some [0x05, 0x01, 0x00, 0x03], c\<lparr>pc_in := socks_field host @ ?p @ rest\<rparr>)"
    by (rule read_full_append) (simp_all add: assms(1))
  have "read_field (c\<lparr>pc_in := socks_field host @ ?p @ rest\<rparr>) = (Some (string_bytes host), c\<lparr>pc_in := ?p @ rest\<rparr>)"
    using read_field_socks [of "c\<lparr>pc_in := socks_field host @ ?p @ rest\<rparr>"] assms(2) by simp
  moreover have "read_full 2 (c\<lparr>pc_in := ?p @ rest\<rparr>) = (Some ?p, c\<lparr>pc_in := rest\<rparr>)"
    using read_full_append [of ?p 2 "c\<lparr>pc_in := ?p @ rest\<rparr>" rest] by simp
  ultimately show ?thesis by (simp add: socks_request_def h read_host_def be16_bytes)
qed

lemma socks5_session_log:
  assumes "pc_in c = socks_session u pw host port @ rest" and "pc_writes c = []" and "pc_log c = []"
    and "length u < 256" and "length pw < 256" and "length host < 256"
    and "gs_username s \<noteq> []" and "gs_password s \<noteq> []"
    and "server_auth hk s = Some auth" and "auth (gs_proxyID s) u pw (pc_ip c) (pc_world c) = (allow k, w)"
    and "server_guard hk s = Some guard"
    and "guard (gs_proxyID s) k (pc_ip c) (join_host_port host (itoa (int (unat port)))) w = (Inr release, w2)"
    and "ne_dial env (dial_how s) (join_host_port host (itoa (int (unat port))))"
  shows "pc_log (handleConnection hk env s c) =
      [Sent [0x05, 0x02], Sent [0x01, 0x00], Dialed (dial_how s) (join_host_port host (itoa (int (unat port)))),
       Sent [0x05, 0x00, 0x00, 0x01, 0, 0, 0, 0, 0, 0], Relayed (fst (ne_relay env)) (snd (ne_relay env))]"
proof -
  let ?q = "[0x05, 0x01, 0x00, 0x03] @ socks_field host @
    [of_nat (unat port div 256), of_nat (unat port mod 256)] @ rest"
  let ?a = "[0x01] @ socks_field u @ socks_field pw @ ?q"
  have i: "pc_in c = [0x05, 1] @ [0x02] @ ?a" by (simp add: assms(1) socks_session_def)
  have r1: "read_full 2 c = (Some [0x05, 1], c\<lparr>pc_in := [0x02] @ ?a\<rparr>)"
    by (rule read_full_append) (simp_all add: i)
  have r2: "read_full 1 (c\<lparr>pc_in := [0x02] @ ?a\<rparr>) = (Some [0x02], c\<lparr>pc_in := ?a\<rparr>)"
    using read_full_append [of "[0x02]" 1 "c\<lparr>pc_in := [0x02] @ ?a\<rparr>" ?a] by simp
  define c3 where "c3 = c\<lparr>pc_in := ?a, pc_log := [Sent [0x05, 0x02]]\<rparr>"
  have w: "conn_write [0x05, 0x02] (c\<lparr>pc_in := ?a\<rparr>) = (True, c3)"
    by (simp add: c3_def conn_write_def log_action_def assms(2,3))
  have a: "authenticateSocks5 hk s c3 = check_socks_login hk s u pw (c3\<lparr>pc_in := ?q\<rparr>)"
    by (rule authenticateSocks5_session) (simp_all add: c3_def assms)
  define c4 where "c4 = c3\<lparr>pc_in := ?q, pc_world := w, pc_log := [Sent [0x05, 0x02], Sent [0x01, 0x00]]\<rparr>"
  have l: "check_socks_login hk s u pw (c3\<lparr>pc_in := ?q\<rparr>) = (allow k, c4)"
    by (simp add: check_socks_login_def assms(2,9,10) c3_def c4_def send_all)
  have "handleConnection hk env s c = socks_request hk env s k c4"
    unfolding handleConnection_def handleSocks5_def
    by (simp only: r1) (simp add: i r2 [simplified] w [simplified] a l [simplified] choose_method_def assms(7,8) Let_def)
  moreover have "pc_in c4 = ?q" by (simp add: c4_def)
  ultimately have "handleConnection hk env s c = serve_target hk env s k (join_host_port host (itoa (int (unat port))))
    [0x05, 0x02, 0x00, 0x01, 0, 0, 0, 0, 0, 0] [0x05, 0x04, 0x00, 0x01, 0, 0, 0, 0, 0, 0]
    (\<lambda>c. (True, send [0x05, 0x00, 0x00, 0x01, 0, 0, 0, 0, 0, 0] c)) (c4\<lparr>pc_in := rest\<rparr>)"
    by (simp only: socks_request_session [OF _ assms(6)])
  then show "pc_log (handleConnection hk env s c) =
      [Sent [0x05, 0x02], Sent [0x01, 0x00], Dialed (dial_how s) (join_host_port host (itoa (int (unat port)))),
       Sent [0x05, 0x00, 0x00, 0x01, 0, 0, 0, 0, 0, 0], Relayed (fst (ne_relay env)) (snd (ne_relay env))]"
    using assms(2,11,12,13) by (simp add: serve_target_def c4_def c3_def dial_def send_all log_action_def)
qed

text \<open>
  C18. A client that follows SOCKS5 is served what it asked for: when it offers the login method, its user
  name and password (of at most 255 characters) satisfy the validator, the guard grants the target and the
  dial succeeds, the server answers the method, the login and the request with success, dials the address
  whose host and port are exactly those the client encoded, relays, and reports nothing else.
\<close>

theorem socks5_session:
  assumes "pc_in c = socks_session u pw host port @ rest" and "pc_writes c = []" and "pc_log c = []"
    and "length u < 256" and "length pw < 256" and "length host < 256" and "set host \<inter> {CHR ''['', CHR '']''} = {}"
    and "gs_username s \<noteq> []" and "gs_password s \<noteq> []"
    and "server_auth hk s = Some auth" and "auth (gs_proxyID s) u pw (pc_ip c) (pc_world c) = (allow k, w)"
    and "server_guard hk s = Some guard"
    and "guard (gs_proxyID s) k (pc_ip c) (join_host_port host (itoa (int (unat port)))) w = (Inr release, w2)"
    and "ne_dial env (dial_how s) (join_host_port host (itoa (int (unat port))))"
  shows "pc_log (handleConnection hk env s c) =
      [Sent [0x05, 0x02], Sent [0x01, 0x00], Dialed (dial_how s) (join_host_port host (itoa (int (unat port)))),
       Sent [0x05, 0x00, 0x00, 0x01, 0, 0, 0, 0, 0, 0], Relayed (fst (ne_relay env)) (snd (ne_relay env))] \<and>
    split_host_port (join_host_port host (itoa (int (unat port)))) = Some (host, itoa (int (unat port)))"
proof
  show "pc_log (handleConnection hk env s c) =
      [Sent [0x05, 0x02], Sent [0x01, 0x00], Dialed (dial_how s) (join_host_port host (itoa (int (unat port)))),
       Sent [0x05, 0x00, 0x00, 0x01, 0, 0, 0, 0, 0, 0], Relayed (fst (ne_relay env)) (snd (ne_relay env))]"
    by (rule socks5_session_log [OF assms(1-6,8-14)])
  have "CHR '':'' \<notin> set (itoa (int (unat port)))" "CHR ''['' \<notin> set (itoa (int (unat port)))"
    "CHR '']'' \<notin> set (itoa (int (unat port)))"
    by (auto simp: itoa_def dest: digits_chars)
  then show "split_host_port (join_host_port host (itoa (int (unat port)))) = Some (host, itoa (int (unat port)))"
    using assms(7) by (intro split_join_host_port) auto
qed


section \<open>Running examples\<close>

definition demo_server :: GoProxyServer where
  "demo_server = (NewAuthenticatedGoProxyServer (live_hooks demo_hash) ''p1'' 8000 ''0.0.0.0'' [] ''admin'' ''adminpw'')"

definition demo_env :: "net_env" where
  "demo_env = \<lparr>ne_dial = \<lambda>_ _. True, ne_relay = (100, 2000), ne_meanwhile = id,
     ne_ReadRequest = \<lambda>_. Some \<lparr>hr_Method = ''CONNECT'', hr_RequestURI = ''www.bad.test:443'', hr_Host = ''www.bad.test:443'',
       hr_ProxyAuthorization = basic_auth ''admin'' ''adminpw''\<rparr>, ne_forward = True\<rparr>"

definition demo_client :: "byte list \<Rightarrow> world \<Rightarrow> client" where
  "demo_client bs w = \<lparr>pc_ip = ''10.0.0.7'', pc_in = bs, pc_writes = [], pc_log = [], pc_world = w\<rparr>"

definition demo_customer :: world where
  "demo_customer = start_world\<lparr>customer_proxy_credentials := [demo_cred]\<rparr>"

lemma demo_server_simps [simp]:
  "gs_username demo_server = ''admin''" "gs_password demo_server = ''adminpw''" "gs_proxyID demo_server = ''p1''"
  "gs_auth demo_server" "gs_guard demo_server" "dial_how demo_server = Direct"
  by (simp_all add: demo_server_def NewAuthenticatedGoProxyServer_def NewGoProxyServer_def dial_how_def)

lemma demo_client_simps [simp]:
  "pc_ip (demo_client bs w) = ''10.0.0.7''" "pc_in (demo_client bs w) = bs" "pc_writes (demo_client bs w) = []"
  "pc_log (demo_client bs w) = []" "pc_world (demo_client bs w) = w" "dials (demo_client bs w) = []"
  by (simp_all add: demo_client_def dials_def List.map_filter_def)

lemma demo_customer_login: "\<exists>w. abuse_ValidateProxyCredential demo_hash ''p1'' ''user_1'' ''secret'' ''10.0.0.7'' demo_customer = (allow ''c1'', w) \<and>
    GuardConnection ''p1'' ''c1'' ''10.0.0.7'' ''example.com:443'' w = (Inr (guard_release ''c1'' ''p1''), guard_acquire ''c1'' ''p1'' w)"
  by (simp add: abuse_ValidateProxyCredential_def blockedUntil_def demo_cred_def demo_hash_def demo_customer_def
      clientIPAllowed_def checkRequestRate_def Let_def pruneTimes_def GuardConnection_def guard_checks_def checkBlockedTarget_def
      checkConnectionLimits_def connection_limits_of_def planConcurrentLimit_def case_prod_beta)

lemma demo_target: "join_host_port ''example.com'' (itoa (int (unat (443 :: 16 word)))) = ''example.com:443''"
  "join_host_port ''example.com'' (itoa 443) = ''example.com:443''"
  by code_simp+

lemma demo_session:
  obtains w where "dials (handleConnection (live_hooks demo_hash) demo_env demo_server
      (demo_client (socks_session ''user_1'' ''secret'' ''example.com'' 443) demo_customer)) = [(Direct, ''example.com:443'')]"
    and "abuse_ValidateProxyCredential demo_hash ''p1'' ''user_1'' ''secret'' ''10.0.0.7'' demo_customer = (allow ''c1'', w)"
    and "GuardConnection ''p1'' ''c1'' ''10.0.0.7'' ''example.com:443'' w
      = (Inr (guard_release ''c1'' ''p1''), guard_acquire ''c1'' ''p1'' w)"
proof -
  obtain w where w: "abuse_ValidateProxyCredential demo_hash ''p1'' ''user_1'' ''secret'' ''10.0.0.7'' demo_customer = (allow ''c1'', w)"
    "GuardConnection ''p1'' ''c1'' ''10.0.0.7'' ''example.com:443'' w = (Inr (guard_release ''c1'' ''p1''), guard_acquire ''c1'' ''p1'' w)"
    using demo_customer_login by blast
  have "pc_log (handleConnection (live_hooks demo_hash) demo_env demo_server
      (demo_client (socks_session ''user_1'' ''secret'' ''example.com'' 443) demo_customer)) =
    [Sent [0x05, 0x02], Sent [0x01, 0x00], Dialed (dial_how demo_server) (join_host_port ''example.com'' (itoa (int (unat (443 :: 16 word))))),
     Sent [0x05, 0x00, 0x00, 0x01, 0, 0, 0, 0, 0, 0], Relayed (fst (ne_relay demo_env)) (snd (ne_relay demo_env))]"
    by (rule socks5_session_log [where rest = "[]" and k = "''c1''" and w = w and guard = GuardConnection
          and auth = "abuse_ValidateProxyCredential demo_hash" and release = "guard_release ''c1'' ''p1''"
          and ?w2.0 = "guard_acquire ''c1'' ''p1'' w" and u = "''user_1''" and pw = "''secret''"])
       (simp_all add: w demo_target server_auth_def server_guard_def demo_env_def)
  then show thesis using w by (intro that [of w]) (simp_all add: dials_def List.map_filter_def demo_target)
qed

theorem socks5_session_witness:
  "pc_log (handleConnection (live_hooks demo_hash) demo_env demo_server
      (demo_client (socks_session ''user_1'' ''secret'' ''example.com'' 443) demo_customer)) =
    [Sent [0x05, 0x02], Sent [0x01, 0x00], Dialed Direct ''example.com:443'',
     Sent [0x05, 0x00, 0x00, 0x01, 0, 0, 0, 0, 0, 0], Relayed 100 2000]"
proof -
  obtain w where w: "abuse_ValidateProxyCredential demo_hash ''p1'' ''user_1'' ''secret'' ''10.0.0.7'' demo_customer = (allow ''c1'', w)"
    "GuardConnection ''p1'' ''c1'' ''10.0.0.7'' ''example.com:443'' w = (Inr (guard_release ''c1'' ''p1''), guard_acquire ''c1'' ''p1'' w)"
    using demo_customer_login by blast
  have r: "ne_relay demo_env = (100, 2000)" "ne_dial demo_env d t" for d t by (simp_all add: demo_env_def)
  from socks5_session [where c = "demo_client (socks_session ''user_1'' ''secret'' ''example.com'' 443) demo_customer"
      and rest = "[]" and k = "''c1''" and w = w and guard = GuardConnection and host = "''example.com''" and port = 443
      and auth = "abuse_ValidateProxyCredential demo_hash" and release = "guard_release ''c1'' ''p1''"
      and ?w2.0 = "guard_acquire ''c1'' ''p1'' w" and u = "''user_1''" and pw = "''secret''"
      and s = demo_server and env = demo_env and hk = "live_hooks demo_hash", unfolded demo_target(1)]
  show ?thesis using w by (simp add: server_auth_def server_guard_def r)
qed

lemma demo_client_login:
  "client_login (socks_session ''user_1'' ''secret'' ''example.com'' 443) = Some (''user_1'', ''secret'')"
  by code_simp

theorem socks_login_required_witness:
  "let c = demo_client (socks_session ''user_1'' ''secret'' ''example.com'' 443) demo_customer in
    (Direct, ''example.com:443'') \<in> set (dials (handleConnection (live_hooks demo_hash) demo_env demo_server c)) \<and>
    client_login (pc_in c) = Some (''user_1'', ''secret'') \<and>
    (\<exists>w. \<exists>cred \<in> set (customer_proxy_credentials (pc_world c)).
      cpc_ProxyID cred = ''p1'' \<and> cpc_Username cred = ''user_1'' \<and> cpc_Status cred = ''active'' \<and>
      demo_hash (cpc_PasswordHash cred) ''secret'' \<and>
      abuse_ValidateProxyCredential demo_hash ''p1'' ''user_1'' ''secret'' ''10.0.0.7'' (pc_world c)
        = (allow (cpc_CustomerID cred), w) \<and>
      is_ok (fst (GuardConnection ''p1'' (cpc_CustomerID cred) ''10.0.0.7'' ''example.com:443'' w)))"
proof -
  let ?c = "demo_client (socks_session ''user_1'' ''secret'' ''example.com'' 443) demo_customer"
  obtain w where d: "dials (handleConnection (live_hooks demo_hash) demo_env demo_server ?c) = [(Direct, ''example.com:443'')]"
    by (rule demo_session)
  obtain rest where i: "pc_in ?c = 0x05 # rest" by (simp add: socks_session_def)
  have "(Direct, ''example.com:443'') \<in> set (dials (handleConnection (live_hooks demo_hash) demo_env demo_server ?c))"
    by (simp add: d)
  from socks_login_required [OF _ _ _ _ i _ this] this demo_client_login
  show ?thesis by (simp add: Let_def)
qed


section \<open>The HTTP login\<close>

text \<open>
  The HTTP side does not take the validator's denial for an answer: whoever sends the proxy's own user
  name and password in the \<^verbatim>\<open>Basic\<close> scheme has the target dialled, although the validator denies exactly this
  login (no credential, a suspended one, a temporary block, a client address off the whitelist), and for no
  customer, so that the guard checks neither the blocked targets nor the limits and counts nothing.
\<close>

theorem http_login_bypass:
  assumes "pc_in c = b # rest" and "b \<noteq> 0x05" and "ne_ReadRequest env (pc_in c) = Some req"
    and "gs_username s \<noteq> []" and "gs_password s \<noteq> []" and "CHR '':'' \<notin> set (gs_username s)"
    and "hr_ProxyAuthorization req = basic_auth (gs_username s) (gs_password s)"
    and "gs_auth s" and "gs_guard s"
    and "\<not> au_Allowed (fst (abuse_ValidateProxyCredential bcrypt_ok (gs_proxyID s) (gs_username s) (gs_password s)
      (pc_ip c) (pc_world c)))"
  shows "dials (handleConnection (live_hooks bcrypt_ok) env s c) = dials c @ [(dial_how s, http_addr req)]"
proof -
  let ?hk = "live_hooks bcrypt_ok"
  obtain r w where v: "abuse_ValidateProxyCredential bcrypt_ok (gs_proxyID s) (gs_username s) (gs_password s)
      (pc_ip c) (pc_world c) = (r, w)" by fastforce
  have a: "server_auth ?hk s = Some (abuse_ValidateProxyCredential bcrypt_ok)" "server_guard ?hk s = Some GuardConnection"
    using assms(8,9) by (simp_all add: server_auth_def server_guard_def)
  have l: "authenticateHTTP ?hk s (hr_ProxyAuthorization req) (pc_ip c) (pc_world c) = (allow [], w)"
    using assms(10) by (simp add: assms(7) authenticateHTTP_basic [OF assms(6)] check_http_login_def a v)
  have ne: "hr_ProxyAuthorization req \<noteq> []" by (simp add: assms(7) basic_auth_def)
  have "handleConnection ?hk env s c = http_target ?hk env s req [] (c\<lparr>pc_world := w\<rparr>)"
    using assms(1-5) ne by (simp add: handleConnection_def handleHTTP_def l)
  moreover have "granted ?hk s [] (http_addr req) i v" for i v by (simp add: granted_def a GuardConnection_def)
  ultimately show ?thesis by (simp add: http_target_def serve_target_dials)
qed

theorem http_login_bypass_witness:
  "dials (handleConnection (live_hooks demo_hash) demo_env demo_server (demo_client (string_bytes ''CONNECT'') blocking_world))
    = [(Direct, ''www.bad.test:443'')]"
proof -
  have i: "string_bytes ''CONNECT'' = 0x43 # string_bytes ''ONNECT''" by code_simp
  have n: "\<not> au_Allowed (fst (abuse_ValidateProxyCredential demo_hash ''p1'' ''admin'' ''adminpw'' ''10.0.0.7'' blocking_world))"
    by (simp add: abuse_ValidateProxyCredential_def blockedUntil_def blocking_world_def)
  show ?thesis
    using http_login_bypass [where c = "demo_client (string_bytes ''CONNECT'') blocking_world" and b = "0x43"
        and rest = "string_bytes ''ONNECT''" and env = demo_env and s = demo_server and bcrypt_ok = demo_hash] n
    by (simp add: i demo_env_def http_addr_def)
qed


section \<open>Usage\<close>

lemmas usage_tables = statement_frames [where get = customer_proxy_allocations] statement_frames [where get = usage_metrics]

lemma bookkeeping_usage [simp]:
  "usage_metrics (abuse_audit a b c d e m w) = usage_metrics w"
  "usage_metrics (createEvent c p r sv ms m w) = usage_metrics w"
  "usage_metrics (bumpRisk c dl f w) = usage_metrics w"
  "customer_proxy_allocations (createEvent c p r sv ms m w) = customer_proxy_allocations w"
  "customer_proxy_allocations (bumpRisk c dl f w) = customer_proxy_allocations w"
  by (simp_all add: abuse_audit_def createEvent_def bumpRisk_def case_prod_beta Let_def usage_tables)

lemma detectBandwidthAbuse_usage [simp]:
  "usage_metrics (detectBandwidthAbuse c p b w) = usage_metrics w"
  "customer_proxy_allocations (detectBandwidthAbuse c p b w) = customer_proxy_allocations w"
  by (simp_all add: detectBandwidthAbuse_def detect_spike_def detect_over_limit_def bandwidth_totals_def
      case_prod_beta Let_def usage_tables split: sum.split)

text \<open>
  The bytes of a connection are not charged to the customer: the server reports the proxy and then the
  customer, the installed recorder expects the customer and then the proxy. Unless the proxy's id is also
  the id of a customer with an allocation, no allocation's counters change, and the metric that is stored
  names the proxy as the customer and the customer as the proxy.
\<close>

theorem usage_recorded_swapped:
  assumes "faults w = []" and "proxyID \<noteq> []" and "customerID \<noteq> []"
    and "\<And>a. a \<in> set (customer_proxy_allocations w) \<Longrightarrow> cpa_CustomerID a \<noteq> proxyID"
  shows "customer_proxy_allocations (recordProxyUsage (live_hooks bcrypt_ok) proxyID customerID bytes w)
      = customer_proxy_allocations w \<and>
    (\<exists>m. usage_metrics (recordProxyUsage (live_hooks bcrypt_ok) proxyID customerID bytes w) = usage_metrics w @ [m] \<and>
      um_CustomerID m = proxyID \<and> um_ProxyID m = customerID)"
proof -
  let ?m = "zero_UsageMetric\<lparr>um_CustomerID := proxyID, um_ProxyID := customerID,
     um_BandwidthIn := unat (fst bytes), um_BandwidthOut := unat (snd bytes), um_RequestCount := 1, um_Bucket := ''hourly'',
     um_PeriodStart := time_truncate (clock w) hour, um_CreatedAt := clock w\<rparr>"
  have "um_ID x \<noteq> next_id um_ID (usage_metrics w)" if "x \<in> set (usage_metrics w)" for x
    using that next_id_fresh by metis
  then obtain m where c: "db_create UsageMetric_schema ?m w = (Inr m, usage_metrics_update (\<lambda>rs. rs @ [m]) w)"
      and "um_CustomerID m = proxyID" "um_ProxyID m = customerID"
    using db_create_fresh [OF assms(1) refl, of UsageMetric_schema ?m] by simp
  have n: "update_where (\<lambda>a. cpa_CustomerID a = proxyID \<and> cpa_ProxyID a = customerID \<and> cpa_Status a \<noteq> ''deleted'') f
      (customer_proxy_allocations w) = customer_proxy_allocations w" for f
    using assms(4) by (intro update_where_id) auto
  show ?thesis
    using assms(1-3) \<open>um_CustomerID m = proxyID\<close> \<open>um_ProxyID m = customerID\<close>
    by (simp add: recordProxyUsage_def RecordUsage_def Let_def c n)
qed

definition usage_world :: world where
  "usage_world = start_world\<lparr>customer_proxy_allocations :=
     [zero_CustomerProxyAllocation\<lparr>cpa_ID := ''a1'', cpa_CustomerID := ''c1'', cpa_ProxyID := ''p1'', cpa_Status := ''active''\<rparr>]\<rparr>"

theorem usage_recorded_swapped_witness:
  "map cpa_BandwidthOut (customer_proxy_allocations
     (recordProxyUsage (live_hooks demo_hash) ''p1'' ''c1'' (100, 2000) usage_world)) = [0]"
  using usage_recorded_swapped [of usage_world "''p1''" "''c1''" demo_hash "(100, 2000)"]
  by (simp add: usage_world_def)

section \<open>Slots\<close>

text \<open>
  What a server needs of its hooks so that a connection leaves no trace in what the guard counts: a refusal
  takes nothing, the release closure undoes exactly what its grant took, whatever the other connections
  have taken and released in between, and the other hooks do not count.
\<close>

locale guarded_hooks =
  fixes hk :: hooks and taken :: "world \<Rightarrow> 'x \<Rightarrow> int"
  assumes guard_refuses: "hk_guard hk = Some g \<Longrightarrow> g p k i t w = (Inl e, w') \<Longrightarrow> taken w' = taken w"
    and guard_releases: "hk_guard hk = Some g \<Longrightarrow> g p k i t w = (Inr rel, w') \<Longrightarrow>
      (\<And>x. 0 \<le> taken w x + d x) \<Longrightarrow> (\<And>x. taken v x = taken w' x + d x) \<Longrightarrow> taken (rel v) y = taken w y + d y"
    and auth_keeps: "hk_auth hk = Some f \<Longrightarrow> taken (snd (f p u pw i w)) = taken w"
    and usage_keeps: "hk_usage hk = Some h \<Longrightarrow> taken (h p k a b w) = taken w"
begin

definition balanced :: "('x \<Rightarrow> int) \<Rightarrow> client \<Rightarrow> client \<Rightarrow> bool" where
  "balanced d c c' \<longleftrightarrow> taken (pc_world c') \<in> {taken (pc_world c), \<lambda>x. taken (pc_world c) x + d x}"

lemma balanced_same: "taken (pc_world c') = taken (pc_world c) \<Longrightarrow> balanced d c c'"
  by (simp add: balanced_def)

lemma usage_taken: "taken (recordProxyUsage hk p k b w) = taken w"
  by (simp add: recordProxyUsage_def usage_keeps split: option.split)

lemma release_taken:
  assumes "hk_guard hk = Some g" and "g p k i t w = (Inr rel, w')" and "\<And>x. 0 \<le> taken w x" and "taken v = taken w'"
  shows "taken (rel v) = taken w"
  using guard_releases [OF assms(1,2), of "\<lambda>_. 0" v] assms(3,4) by (simp add: fun_eq_iff)

lemma serve_balanced:
  assumes "\<And>w x. taken (ne_meanwhile env w) x = taken w x + d x"
    and "\<And>x. 0 \<le> taken (pc_world c) x" and "\<And>x. 0 \<le> taken (pc_world c) x + d x"
    and announce: "\<And>c. pc_world (snd (announce c)) = pc_world c"
  shows "balanced d c (serve_target hk env s k addr refused failed announce c)"
proof -
  obtain g w1 where g: "(case server_guard hk s of None \<Rightarrow> (Inr id, pc_world c)
      | Some g \<Rightarrow> g (gs_proxyID s) k (pc_ip c) addr (pc_world c)) = (g, w1)" by fastforce
  have relayed: "taken (recordProxyUsage hk p k' b (ne_meanwhile env w)) = (\<lambda>x. taken w x + d x)" for p k' b w
    by (simp add: usage_taken assms(1) fun_eq_iff)
  show ?thesis
  proof (cases g)
    case (Inl e)
    with g have "taken w1 = taken (pc_world c)"
      by (auto simp: server_guard_def split: option.splits if_splits dest: guard_refuses)
    then show ?thesis by (simp add: serve_target_def g Inl balanced_same)
  next
    case (Inr rel)
    have r: "taken (rel v) = taken (pc_world c)" if "taken v = taken w1" for v
      using g that assms(2) by (auto simp: Inr server_guard_def split: option.splits if_splits dest: release_taken)
    have m: "taken (rel v) = (\<lambda>x. taken (pc_world c) x + d x)" if "taken v = (\<lambda>x. taken w1 x + d x)" for v
    proof (cases "server_guard hk s")
      case (Some f)
      then have "hk_guard hk = Some f" by (simp add: server_guard_def split: if_splits)
      from guard_releases [OF this] show ?thesis using g Some that assms(3) by (simp add: Inr fun_eq_iff)
    qed (use g that in \<open>auto simp: Inr\<close>)
    show ?thesis
      by (simp add: serve_target_def g Inr balanced_def case_prod_beta Let_def announce relayed r m split: bool.split)
  qed
qed

lemma balanced_from: "balanced d c1 c' \<Longrightarrow> taken (pc_world c1) = taken (pc_world c) \<Longrightarrow> balanced d c c'"
  by (simp add: balanced_def)

lemma login_taken:
  "taken (pc_world (snd (authenticateSocks5 hk s c))) = taken (pc_world c)"
  "taken (snd (authenticateHTTP hk s h i w)) = taken w"
proof -
  have a: "server_auth hk s = Some f \<Longrightarrow> taken (snd (f p u pw i w)) = taken w" for f p u pw i w
    by (simp add: server_auth_def auth_keeps split: if_splits)
  then have s: "taken (pc_world (snd (check_socks_login hk s u pw c))) = taken (pc_world c)" for u pw c
    by (simp add: check_socks_login_def case_prod_beta split: option.split)
  then show "taken (pc_world (snd (authenticateSocks5 hk s c))) = taken (pc_world c)"
    by (simp add: authenticateSocks5_def case_prod_beta split: option.split)
  from a have "taken (snd (check_http_login hk s u pw i w)) = taken w" for u pw i w
    by (simp add: check_http_login_def case_prod_beta Let_def split: option.split)
  then show "taken (snd (authenticateHTTP hk s h i w)) = taken w"
    by (simp add: authenticateHTTP_def split: option.split list.split)
qed

lemma handle_balanced:
  assumes "\<And>w x. taken (ne_meanwhile env w) x = taken w x + d x"
    and "\<And>x. 0 \<le> taken (pc_world c) x" and "\<And>x. 0 \<le> taken (pc_world c) x + d x"
  shows "balanced d c (handleConnection hk env s c)"
proof -
  have serve: "balanced d c (serve_target hk env s k addr r f ann c1)"
    if "taken (pc_world c1) = taken (pc_world c)" and "\<And>c. pc_world (snd (ann c)) = pc_world c" for k addr r f ann c1
    using that assms by (intro balanced_from [OF serve_balanced]) simp_all
  have socks: "balanced d c (socks_request hk env s k c1)" if "taken (pc_world c1) = taken (pc_world c)" for k c1
    using that by (simp add: socks_request_def case_prod_beta balanced_same serve split: option.split)
  have http: "balanced d c (http_target hk env s req k c1)" if "taken (pc_world c1) = taken (pc_world c)" for req k c1
    using that by (simp add: http_target_def serve)
  have "balanced d c (handleSocks5 hk env s c)"
    by (simp add: handleSocks5_def case_prod_beta Let_def balanced_same socks login_taken split: option.split bool.split)
  moreover have "balanced d c (handleHTTP hk env s c)"
    by (simp add: handleHTTP_def case_prod_beta Let_def balanced_same http login_taken split: option.split)
  ultimately show ?thesis by (simp add: handleConnection_def balanced_same split: list.split)
qed

end

text \<open>The slots in use: of each customer and of each proxy.\<close>

definition slots :: "world \<Rightarrow> string + string \<Rightarrow> int" where
  "slots w = case_sum (ab_activeCustomer (abuse_mem w)) (ab_activeProxy (abuse_mem w))"

lemma slots_mem: "abuse_mem w' = abuse_mem w \<Longrightarrow> slots w' = slots w"
  by (simp add: slots_def)

lemma slots_bookkeeping:
  "slots (snd (blockedUntil key w)) = slots w" "slots (RecordFailedAuth c p u i w) = slots w"
  "slots (snd (checkRequestRate c sc l wd w)) = slots w" "slots (snd (clientIPAllowed c i w)) = slots w"
  "slots (snd (db_first CustomerProxyCredential_schema P w)) = slots w"
  "slots (createEvent c p rl sv ms md w) = slots w" "slots (bumpRisk c dl fc w) = slots w"
proof -
  show "slots (snd (blockedUntil key w)) = slots w" by (simp add: blockedUntil_def slots_def split: option.split)
  show "slots (RecordFailedAuth c p u i w) = slots w" by (simp add: slots_def RecordFailedAuth_mem)
  show "slots (snd (checkRequestRate c sc l wd w)) = slots w" by (simp add: checkRequestRate_run Let_def slots_def)
  show "slots (snd (clientIPAllowed c i w)) = slots w"
    by (rule slots_mem) (simp add: clientIPAllowed_def case_prod_beta split: sum.split list.split option.split)
qed (rule slots_mem, simp)+

lemma login_slots: "slots (snd (abuse_ValidateProxyCredential bcrypt_ok p u pw i w)) = slots w"
proof -
  obtain b w1 where b: "blockedUntil (auth_key p u i) w = (b, w1)" by fastforce
  let ?P = "\<lambda>c. cpc_ProxyID c = p \<and> cpc_Username c = u \<and> cpc_Status c = ''active''"
  obtain q w2 where q: "db_first CustomerProxyCredential_schema ?P w1 = (q, w2)" by fastforce
  have w2: "slots w1 = slots w" "slots w2 = slots w1"
    using slots_bookkeeping(1) [of "auth_key p u i" w] slots_bookkeeping(5) [of ?P w1] b q by simp_all
  show ?thesis
  proof (cases "b = None \<and> is_ok q")
    case True
    then obtain cred where c: "b = None" "q = Inr cred" by (auto elim: is_okE)
    obtain a w3 where a: "clientIPAllowed (cpc_CustomerID cred) i w2 = (a, w3)" by fastforce
    obtain r w4 where r: "checkRequestRate (cpc_CustomerID cred) ''proxy-auth'' 120 minute w3 = (r, w4)" by fastforce
    have "slots w3 = slots w2" "slots w4 = slots w3"
      using slots_bookkeeping(4) [of "cpc_CustomerID cred" i w2]
        slots_bookkeeping(3) [of "cpc_CustomerID cred" "''proxy-auth''" 120 minute w3] a r by simp_all
    with w2 show ?thesis
      by (simp add: abuse_ValidateProxyCredential_def b c q a r slots_bookkeeping split: sum.split bool.split)
  qed (use w2 in \<open>auto simp: abuse_ValidateProxyCredential_def b q is_ok_def slots_bookkeeping split: option.splits sum.splits\<close>)
qed

lemma abuse_mem_usage: "abuse_mem (detectBandwidthAbuse c p b w) = abuse_mem w"
proof -
  have s: "abuse_mem (detect_spike c p b w) = abuse_mem w" for w by (simp add: detect_spike_def)
  have "abuse_mem (snd (bandwidth_totals c w)) = abuse_mem w" for w
    by (simp add: bandwidth_totals_def case_prod_beta split: sum.split)
  then have "abuse_mem (detect_over_limit c p w) = abuse_mem w" for w
    by (simp add: detect_over_limit_def case_prod_beta split: sum.split)
  then show ?thesis by (simp add: detectBandwidthAbuse_def s)
qed

lemma RecordUsage_mem: "abuse_mem (RecordUsage c p inb outb w) = abuse_mem w"
  by (simp add: RecordUsage_def abuse_mem_usage case_prod_beta Let_def)

lemma guard_slots:
  assumes "GuardConnection p k i t w = (g, w')"
  shows "g = Inl e \<Longrightarrow> slots w' = slots w"
    and "g = Inr rel \<Longrightarrow> (\<And>x. 0 \<le> slots w x + d x) \<Longrightarrow> (\<And>x. slots v x = slots w' x + d x) \<Longrightarrow> slots (rel v) y = slots w y + d y"
proof -
  obtain r w1 where c: "guard_checks p k t w = (r, w1)" by fastforce
  have w1: "abuse_mem w1 = abuse_mem w" using guard_checks_mem [of p k t w] c by simp
  show "g = Inl e \<Longrightarrow> slots w' = slots w"
    using assms slots_mem [OF w1] by (auto simp: GuardConnection_def c split: if_splits sum.splits)
  assume g: "g = Inr rel" and pos: "\<And>x. 0 \<le> slots w x + d x" and v: "\<And>x. slots v x = slots w' x + d x"
  show "slots (rel v) y = slots w y + d y"
  proof (cases "k = []")
    case True
    then show ?thesis using assms g v by (simp add: GuardConnection_def)
  next
    case False
    then have r: "rel = guard_release k p" "w' = guard_acquire k p w1"
      using assms g by (auto simp: GuardConnection_def c split: sum.splits)
    have a: "slots (guard_acquire k p w1) x = slots w x + (if x = Inl k \<or> x = Inr p then 1 else 0)" for x
      by (cases x) (simp_all add: slots_def guard_acquire_def w1)
    have "slots (guard_release k p v) x = slots v x - (if (x = Inl k \<or> x = Inr p) \<and> 0 < slots v x then 1 else 0)" for x
      by (cases x) (simp_all add: slots_def guard_release_def)
    then show ?thesis using pos [of y] v [of y] a [of y] by (simp add: r split: if_splits)
  qed
qed

interpretation live: guarded_hooks "live_hooks bcrypt_ok" slots for bcrypt_ok
proof unfold_locales
  fix g p k i t w rel w' d v y
  assume g: "hk_guard (live_hooks bcrypt_ok) = Some g" "g p k i t w = (Inr rel, w')"
    and "\<And>x. 0 \<le> slots w x + d x" "\<And>x. slots v x = slots w' x + d x"
  then show "slots (rel v) y = slots w y + d y"
    using guard_slots(2) [of p k i t w "Inr rel" w' rel d v y] by simp
next
  fix h p k a b w
  assume "hk_usage (live_hooks bcrypt_ok) = Some h"
  then show "slots (h p k a b w) = slots w" using slots_mem [OF RecordUsage_mem] by simp
qed (auto simp: login_slots dest: guard_slots(1))

text \<open>
  C19. No connection leaks a slot: whatever a client sends, whatever the validator, the guard, the dial and
  the writes answer, and whatever (\<open>d\<close>) the other connections take and release while it is relayed, after the
  server has handled the connection the counters of every customer and every proxy are what they would be
  without it.
\<close>

theorem connection_returns_slots:
  assumes "\<And>w x. slots (ne_meanwhile env w) x = slots w x + d x"
    and "\<And>x. 0 \<le> slots (pc_world c) x" and "\<And>x. 0 \<le> slots (pc_world c) x + d x"
  shows "slots (pc_world (handleConnection (live_hooks bcrypt_ok) env s c))
    \<in> {slots (pc_world c), \<lambda>x. slots (pc_world c) x + d x}"
  using live.handle_balanced [OF assms] by (simp add: live.balanced_def)

theorem connection_returns_slots_witness:
  "slots (pc_world (handleConnection (live_hooks demo_hash) demo_env demo_server
      (demo_client (socks_session ''user_1'' ''secret'' ''example.com'' 443) demo_customer))) = slots demo_customer"
proof -
  have z: "0 \<le> slots demo_customer x" for x
    by (simp add: slots_def demo_customer_def split: sum.split)
  show ?thesis
    using connection_returns_slots [where env = demo_env and d = "\<lambda>_. 0" and s = demo_server and bcrypt_ok = demo_hash
        and c = "demo_client (socks_session ''user_1'' ''secret'' ''example.com'' 443) demo_customer"] z
    by (simp add: demo_env_def)
qed

end
