(* ===== verification/ProxyManager.thy ===== *)
theory ProxyManager imports GoProxy Repository begin

text \<open>
  \<^verbatim>\<open>internal/proxy/manager.go\<close>, \<^verbatim>\<open>port_allocator.go\<close> and \<^verbatim>\<open>credential_manager.go\<close>: the servers of the process by port,
  starting, stopping, expiring and restoring proxies; the reservation of ports; the generation of proxy
  credentials. The active VPN interfaces are the world's.
\<close>

section \<open>The manager\<close>

definition log_audit :: "string \<Rightarrow> string \<Rightarrow> world \<Rightarrow> world" where
  "log_audit action details w = snd (auditLogRepo_Create
     (zero_AuditLog\<lparr>al_Action := action, al_Details := details, al_Timestamp := clock w\<rparr>) w)"

definition save_proxy :: "Proxy \<Rightarrow> world \<Rightarrow> world" where
  "save_proxy p w = snd (proxyRepo_Update p w)"

definition set_server :: "int \<Rightarrow> GoProxyServer option \<Rightarrow> world \<Rightarrow> world" where
  "set_server port s w = w\<lparr>servers := (servers w)(port := s)\<rparr>"

definition expired_at :: "time \<Rightarrow> Proxy \<Rightarrow> bool" where
  "expired_at now p = (case px_ExpiresAt p of None \<Rightarrow> False | Some t \<Rightarrow> t < now)"

definition mark_expired :: "time \<Rightarrow> Proxy \<Rightarrow> Proxy" where
  "mark_expired now p = p\<lparr>px_Status := ''expired'', px_RevokedAt := Some now\<rparr>"

definition GetActiveInterface :: "string \<Rightarrow> world \<Rightarrow> VpnIface option" where
  "GetActiveInterface nodeID w = vpn_active w nodeID"

text \<open>The source address and the network namespace the proxy dials from.\<close>

definition proxy_route :: "Proxy \<Rightarrow> world \<Rightarrow> (string \<times> string) \<times> world" where
  "proxy_route p w =
     (if px_VPNNodeID p = [] then (([], []), w)
      else case GetActiveInterface (px_VPNNodeID p) w of
        Some i \<Rightarrow> ((case vi_namespace i of
            Some ns \<Rightarrow> if ns \<noteq> [] then ([], ns) else (vi_localIP i, [])
          | None \<Rightarrow> (vi_localIP i, [])), w)
      | None \<Rightarrow> (([], []), log_audit ''PROXY_WARNING'' (''Starting Proxy on port '' @ itoa (px_Port p) @
            '' with unbound VPN (VPN Node '' @ px_VPNNodeID p @ '' not active)'') w))"

definition proxy_server :: "hooks \<Rightarrow> Proxy \<Rightarrow> string \<times> string \<Rightarrow> GoProxyServer" where
  "proxy_server hk p route =
     (let server = NewAuthenticatedGoProxyServer hk (px_ID p) (px_Port p) (px_BindIP p) (fst route) (px_Username p) (px_Password p)
      in if snd route \<noteq> [] then SetNamespace (snd route) server else server)"

definition StartProxy :: "hooks \<Rightarrow> string \<Rightarrow> world \<Rightarrow> unit result \<times> world" where
  "StartProxy hk proxyID w =
     (case proxyRepo_GetByID proxyID w of
        (Inl e, w1) \<Rightarrow> (Inl (ErrMsg (''proxy not found: '' @ err_text e)), w1)
      | (Inr p, w1) \<Rightarrow>
          if servers w1 (px_Port p) \<noteq> None then (Inr (), save_proxy (p\<lparr>px_Status := ''running''\<rparr>) w1)
          else if expired_at (clock w1) p then
            (Inl (ErrMsg (''proxy on port '' @ itoa (px_Port p) @ '' has expired'')),
             log_audit ''PROXY_EXPIRED'' (''Proxy on port '' @ itoa (px_Port p) @ '' expired before start'')
               (save_proxy (mark_expired (clock w1) p) w1))
          else (case proxy_route p w1 of (route, w2) \<Rightarrow>
            case server_Start (proxy_server hk p route) w2 of
              Inl e \<Rightarrow> (Inl e, log_audit ''PROXY_START_FAILED''
                (''Failed to start Proxy on port '' @ itoa (px_Port p) @ '': '' @ err_text e)
                (save_proxy (p\<lparr>px_Status := ''error''\<rparr>) w2))
            | Inr server \<Rightarrow> (Inr (), log_audit ''PROXY_STARTED''
                (''Proxy started on port '' @ itoa (px_Port p) @ '' ('' @ px_Type p @ ''), VPN: '' @ px_VPNNodeID p)
                (save_proxy (p\<lparr>px_Status := ''running''\<rparr>) (set_server (px_Port p) (Some server) w2)))))"

text \<open>\<^verbatim>\<open>server.Stop()\<close> closes the listener; the server leaves the map.\<close>

definition StopProxy :: "string \<Rightarrow> world \<Rightarrow> unit result \<times> world" where
  "StopProxy proxyID w =
     (case proxyRepo_GetByID proxyID w of
        (Inl e, w1) \<Rightarrow> (Inl (ErrMsg (''proxy not found: '' @ err_text e)), w1)
      | (Inr p, w1) \<Rightarrow> (Inr (), log_audit ''PROXY_STOPPED'' (''Proxy stopped on port '' @ itoa (px_Port p))
          (save_proxy (p\<lparr>px_Status := ''stopped''\<rparr>) (set_server (px_Port p) None w1))))"

definition ExpireProxy :: "string \<Rightarrow> world \<Rightarrow> unit result \<times> world" where
  "ExpireProxy proxyID w =
     (case proxyRepo_GetByID proxyID w of
        (Inl e, w1) \<Rightarrow> (Inl (ErrMsg (''proxy not found: '' @ err_text e)), w1)
      | (Inr p, w1) \<Rightarrow> (case proxyRepo_Update (mark_expired (clock w1) p) (set_server (px_Port p) None w1) of
          (Inl e, w2) \<Rightarrow> (Inl e, w2)
        | (Inr _, w2) \<Rightarrow> (Inr (), log_audit ''PROXY_EXPIRED'' (''Proxy expired on port '' @ itoa (px_Port p)) w2)))"

definition sweep_proxy :: "Proxy \<Rightarrow> world \<Rightarrow> world" where
  "sweep_proxy p w =
     (if expired_at (clock w) p \<and> px_Status p = ''running'' then snd (ExpireProxy (px_ID p) w)
      else if expired_at (clock w) p \<and> px_Status p = ''stopped'' then save_proxy (mark_expired (clock w) p) w
      else w)"

definition SweepExpiredProxies :: "world \<Rightarrow> world" where
  "SweepExpiredProxies w = (case proxyRepo_List w of
     (Inl _, w1) \<Rightarrow> w1 | (Inr ps, w1) \<Rightarrow> fold sweep_proxy ps w1)"

definition restore_proxy :: "hooks \<Rightarrow> Proxy \<Rightarrow> world \<Rightarrow> world" where
  "restore_proxy hk p w =
     (if expired_at (clock w) p then save_proxy (mark_expired (clock w) p) w
      else if px_Status p = ''running'' then snd (StartProxy hk (px_ID p) w)
      else w)"

definition RestoreProxies :: "hooks \<Rightarrow> world \<Rightarrow> world" where
  "RestoreProxies hk w = (case proxyRepo_List w of
     (Inl _, w1) \<Rightarrow> w1 | (Inr ps, w1) \<Rightarrow> fold (restore_proxy hk) ps w1)"

text \<open>A manager of a new process: no server runs.\<close>

definition NewProxyManager :: "world \<Rightarrow> world" where
  "NewProxyManager w = w\<lparr>servers := \<lambda>_. None\<rparr>"

section \<open>Ports\<close>

text \<open>
  A probe socket on the loopback address: it fails when another process holds the port, or when one of this
  process's own listeners does, on all addresses or on the loopback address.
\<close>

definition own_listener :: "int \<Rightarrow> world \<Rightarrow> bool" where
  "own_listener port w = (case servers w port of None \<Rightarrow> False
     | Some s \<Rightarrow> gs_bindIP s = [] \<or> gs_bindIP s = ''0.0.0.0'' \<or> gs_bindIP s = ''127.0.0.1'')"

definition checkAvailability :: "int \<Rightarrow> world \<Rightarrow> bool \<times> world" where
  "checkAvailability port w =
     (case portAllocationRepo_GetByPort port w of
        (Inr _, w1) \<Rightarrow> (False, w1)
      | (Inl _, w1) \<Rightarrow> (can_listen w1 ''127.0.0.1'' port \<and> \<not> own_listener port w1, w1))"

definition port_allocation :: "int \<Rightarrow> string \<Rightarrow> string \<Rightarrow> string \<Rightarrow> time \<Rightarrow> PortAllocation" where
  "port_allocation port purpose targetID status now = zero_PortAllocation\<lparr>pa_Port := port, pa_Purpose := purpose,
     pa_TargetID := targetID, pa_Status := status, pa_CreatedAt := now\<rparr>"

text \<open>The loop over the range: its measure is the number of ports that are left.\<close>

function allocate_from :: "string \<Rightarrow> string \<Rightarrow> int \<Rightarrow> int \<Rightarrow> world \<Rightarrow> int option \<times> world" where
  "allocate_from purpose targetID port endPort w =
     (if port \<le> endPort then
        (case checkAvailability port w of
           (False, w1) \<Rightarrow> allocate_from purpose targetID (port + 1) endPort w1
         | (True, w1) \<Rightarrow>
             (case portAllocationRepo_Create (port_allocation port purpose targetID ''allocated'' (clock w1)) w1 of
                (Inr _, w2) \<Rightarrow> (Some port, w2)
              | (Inl _, w2) \<Rightarrow> allocate_from purpose targetID (port + 1) endPort w2))
      else (None, w))"
  by pat_completeness auto

termination by (relation "measure (\<lambda>(_, _, port, endPort, _). nat (endPort + 1 - port))") auto

declare allocate_from.simps [simp del]

definition AllocatePort :: "string \<Rightarrow> string \<Rightarrow> int \<Rightarrow> int \<Rightarrow> world \<Rightarrow> int result \<times> world" where
  "AllocatePort purpose targetID startPort endPort w =
     (case allocate_from purpose targetID startPort endPort w of
        (Some port, w1) \<Rightarrow> (Inr port, w1)
      | (None, w1) \<Rightarrow> (Inl (ErrMsg (''no free ports available in range '' @ itoa startPort @ '' - '' @ itoa endPort)), w1))"

definition ReservePort :: "int \<Rightarrow> string \<Rightarrow> string \<Rightarrow> world \<Rightarrow> unit result \<times> world" where
  "ReservePort port purpose targetID w =
     (case checkAvailability port w of
        (False, w1) \<Rightarrow> (Inl (ErrMsg (''port '' @ itoa port @ '' is not available'')), w1)
      | (True, w1) \<Rightarrow>
          (case portAllocationRepo_Create (port_allocation port purpose targetID ''reserved'' (clock w1)) w1 of
             (Inl e, w2) \<Rightarrow> (Inl e, w2) | (Inr _, w2) \<Rightarrow> (Inr (), w2)))"

definition ReleasePort :: "int \<Rightarrow> world \<Rightarrow> unit result \<times> world" where
  "ReleasePort port w = portAllocationRepo_Delete port w"

definition CheckAvailability :: "int \<Rightarrow> world \<Rightarrow> bool \<times> world" where
  "CheckAvailability port w = checkAvailability port w"

section \<open>Credentials\<close>

record Credential =
  cr_Username :: string
  cr_Password :: string
  cr_HashedPass :: string

definition charset :: string where
  "charset = lower_letters @ upper_letters @ ''0123456789''"

text \<open>
  \<open>rand.Int\<close> below 62 (\<open>draw\<close>, which fails when the system has no randomness) reads its numbers one after
  the other; \<open>k\<close> counts the draws.
\<close>

fun generateRandomString :: "(nat \<Rightarrow> nat option) \<Rightarrow> nat \<Rightarrow> nat \<Rightarrow> string result \<times> nat" where
  "generateRandomString draw 0 k = (Inr [], k)"
| "generateRandomString draw (Suc n) k = (case draw k of
     None \<Rightarrow> (Inl (ErrMsg ''rand''), Suc k)
   | Some i \<Rightarrow> (case generateRandomString draw n (Suc k) of
       (Inl e, k') \<Rightarrow> (Inl e, k') | (Inr s, k') \<Rightarrow> (Inr (charset ! (i mod 62) # s), k')))"

definition GenerateCredential ::
  "(nat \<Rightarrow> nat option) \<Rightarrow> (string \<Rightarrow> string result) \<Rightarrow> nat \<Rightarrow> Credential result \<times> nat" where
  "GenerateCredential draw bcrypt k =
     and_then (generateRandomString draw 8) (\<lambda>username. and_then (generateRandomString draw 16) (\<lambda>password k.
       (case bcrypt password of
          Inl e \<Rightarrow> Inl (ErrMsg (''failed to hash password: '' @ err_text e))
        | Inr h \<Rightarrow> Inr \<lparr>cr_Username = ''proxy_'' @ username, cr_Password = password, cr_HashedPass = h\<rparr>, k))) k"

definition proxy_RotateCredential ::
  "(nat \<Rightarrow> nat option) \<Rightarrow> (string \<Rightarrow> string result) \<Rightarrow> nat \<Rightarrow> Credential result \<times> nat" where
  "proxy_RotateCredential draw bcrypt k = GenerateCredential draw bcrypt k"

definition ValidateCredential :: "(string \<Rightarrow> string \<Rightarrow> bool) \<Rightarrow> string \<Rightarrow> string \<Rightarrow> bool" where
  "ValidateCredential bcrypt_ok plainPassword hashedPassword = bcrypt_ok hashedPassword plainPassword"

end
