(* ===== verification/ProxyManagerFacts.thy ===== *)
theory ProxyManagerFacts imports ProxyManager GoProxyFacts begin

text \<open>
  The proxy manager refines a set of running proxies, the status column and the table of servers stay in
  step, a restart restores them; and the port allocator hands out the first free port.
\<close>

section \<open>Ports\<close>

definition port_free :: "world \<Rightarrow> int \<Rightarrow> bool" where
  "port_free w port \<longleftrightarrow> port \<notin> pa_Port ` set (port_allocations w) \<and> can_listen w ''127.0.0.1'' port \<and> \<not> own_listener port w"

lemma checkAvailability_ok:
  assumes "faults w = []"
  shows "checkAvailability port w = (port_free w port, w)"
proof (cases "port \<in> pa_Port ` set (port_allocations w)")
  case True
  then have "\<exists>r \<in> set (port_allocations w). pa_Port r = port" by auto
  then obtain r where "first_by pa_Port (filter (\<lambda>r. pa_Port r = port) (port_allocations w)) = Some r"
    using first_by_filter_ex [of "port_allocations w" "\<lambda>r. pa_Port r = port" pa_Port] by blast
  then have "portAllocationRepo_GetByPort port w = (Inr r, w)"
    using assms by (simp only: portAllocationRepo_GetByPort_def db_first_ok) simp
  moreover have "\<not> port_free w port" using True by (simp only: port_free_def simp_thms)
  ultimately show ?thesis by (simp add: checkAvailability_def)
next
  case False
  then have "filter (\<lambda>r. pa_Port r = port) (port_allocations w) = []" by (auto simp: filter_empty_conv)
  then have "portAllocationRepo_GetByPort port w = (Inl ErrNotFound, w)"
    using assms by (simp add: portAllocationRepo_GetByPort_def)
  then show ?thesis by (simp add: checkAvailability_def port_free_def False)
qed

lemma port_allocation_stored:
  assumes "faults w = []" and "port \<notin> pa_Port ` set (port_allocations w)"
  shows "portAllocationRepo_Create (port_allocation port pu t st (clock w)) w =
    (Inr (port_allocation port pu t st (clock w)), port_allocations_update (\<lambda>rs. rs @ [port_allocation port pu t st (clock w)]) w)"
proof -
  have "\<not> (\<exists>x \<in> set (port_allocations w). pa_Port x = port)" using assms(2) by auto
  moreover have "auto_time now now = now" for now by (simp add: auto_time_def)
  ultimately show ?thesis
    using assms(1) by (auto simp: portAllocationRepo_Create_def db_save_def Let_def port_allocation_def)
qed

lemma allocate_from_ok:
  assumes "faults w = []"
  shows "allocate_from pu t port e w = (case List.find (port_free w) [port..e] of
      None \<Rightarrow> (None, w)
    | Some p \<Rightarrow> (Some p, port_allocations_update (\<lambda>rs. rs @ [port_allocation p pu t ''allocated'' (clock w)]) w))"
proof (induction "nat (e + 1 - port)" arbitrary: port)
  case 0
  then show ?case by (simp add: allocate_from.simps [of _ _ port])
next
  case (Suc n)
  then have le: "port \<le> e" and n: "n = nat (e + 1 - (port + 1))" by linarith+
  have u: "[port..e] = port # [port + 1..e]" using le by (rule upto_rec1)
  show ?case
  proof (cases "port_free w port")
    case True
    then have "port \<notin> pa_Port ` set (port_allocations w)" by (simp add: port_free_def)
    from port_allocation_stored [OF assms this] show ?thesis
      using le True by (simp add: allocate_from.simps [of _ _ port] checkAvailability_ok [OF assms] u)
  next
    case False
    then show ?thesis
      using le Suc.hyps(1) [OF n] by (simp add: allocate_from.simps [of _ _ port] checkAvailability_ok [OF assms] u)
  qed
qed

text \<open>
  C22. The allocator's loop ends with the first free port of the range, or with the error when there is none:
  it is a search of the range for a port that is neither allocated in the database nor bound, by another
  process or by a proxy of this one, and it records exactly that port.
\<close>

theorem allocate_first_free:
  assumes "faults w = []"
  shows "AllocatePort purpose targetID startPort endPort w = (case List.find (port_free w) [startPort..endPort] of
      None \<Rightarrow> (Inl (ErrMsg (''no free ports available in range '' @ itoa startPort @ '' - '' @ itoa endPort)), w)
    | Some port \<Rightarrow> (Inr port,
        port_allocations_update (\<lambda>rs. rs @ [port_allocation port purpose targetID ''allocated'' (clock w)]) w))"
  by (simp add: AllocatePort_def allocate_from_ok [OF assms] split: option.split)

theorem allocate_first_free_witness:
  "fst (AllocatePort ''proxy'' ''p2'' 9000 9002
     (start_world\<lparr>port_allocations := [port_allocation 9000 ''proxy'' ''p1'' ''allocated'' 0]\<rparr>)) = Inr 9001"
proof -
  have "[9000..9002 :: int] = [9000, 9001, 9002]" by (simp add: upto_rec1)
  then show ?thesis
    by (subst allocate_first_free) (simp_all add: port_free_def own_listener_def port_allocation_def)
qed

section \<open>Rows of the proxy table\<close>

definition unique_proxies :: "world \<Rightarrow> bool" where
  "unique_proxies w \<longleftrightarrow> distinct (map px_ID (proxies w)) \<and> distinct (map px_Port (proxies w))"

lemma log_audit_frame [simp]:
  "proxies (log_audit a d w) = proxies w" "servers (log_audit a d w) = servers w" "clock (log_audit a d w) = clock w"
  "can_listen (log_audit a d w) = can_listen w" "faults w = [] \<Longrightarrow> faults (log_audit a d w) = []"
  by (simp_all add: log_audit_def auditLogRepo_Create_def db_create_frame [where get = proxies]
      db_create_frame [where get = can_listen])

lemma set_server_frame [simp]:
  "proxies (set_server port s w) = proxies w" "clock (set_server port s w) = clock w" "faults (set_server port s w) = faults w"
  "servers (set_server port s w) = (servers w)(port := s)"
  by (simp_all add: set_server_def)

lemma get_proxy:
  assumes "faults w = []" and "unique_proxies w"
  shows "p \<in> set (proxies w) \<Longrightarrow> proxyRepo_GetByID (px_ID p) w = (Inr p, w)"
    and "i \<notin> px_ID ` set (proxies w) \<Longrightarrow> proxyRepo_GetByID i w = (Inl ErrNotFound, w)"
proof -
  show "p \<in> set (proxies w) \<Longrightarrow> proxyRepo_GetByID (px_ID p) w = (Inr p, w)"
    using assms by (simp add: proxyRepo_GetByID_def unique_proxies_def first_by_unique)
  assume "i \<notin> px_ID ` set (proxies w)"
  then have "filter (\<lambda>r. px_ID r = i) (proxies w) = []" by (auto simp: filter_empty_conv)
  then show "proxyRepo_GetByID i w = (Inl ErrNotFound, w)" using assms(1) by (simp add: proxyRepo_GetByID_def)
qed

text \<open>A saved copy of a stored proxy, with the same id and port, replaces its row.\<close>

lemma save_proxy_rows:
  assumes "faults w = []" and "unique_proxies w" and "p \<in> set (proxies w)" and "px_ID q = px_ID p" and "px_Port q = px_Port p"
  shows "proxyRepo_Update q w = (Inr (q\<lparr>px_UpdatedAt := clock w\<rparr>),
    proxies_update (map (\<lambda>x. if px_ID x = px_ID p then q\<lparr>px_UpdatedAt := clock w\<rparr> else x)) w)"
proof -
  have "inj_on px_Port (set (proxies w))" using assms(2) by (simp add: unique_proxies_def distinct_map)
  then have "\<not> (\<exists>x \<in> set (proxies w). px_ID x \<noteq> px_ID p \<and> px_Port x = px_Port p)"
    using assms(3) by (auto dest: inj_onD)
  moreover have "\<exists>x \<in> set (proxies w). px_ID x = px_ID p" using assms(3) by auto
  ultimately show ?thesis
    using assms(1,4,5) by (auto simp: proxyRepo_Update_def db_save_def Let_def)
qed


section \<open>One proxy moves\<close>

text \<open>
  The effect every operation of the manager has, seen from outside: the row of one proxy is rewritten, with
  its id, port and expiry kept, its status is \<^verbatim>\<open>running\<close> exactly when \<open>up\<close>, and so is the server on its port.
\<close>

definition proxy_moved :: "Proxy \<Rightarrow> bool \<Rightarrow> world \<Rightarrow> world \<Rightarrow> bool" where
  "proxy_moved p up w w' \<longleftrightarrow>
     (\<exists>q. px_ID q = px_ID p \<and> px_Port q = px_Port p \<and> px_ExpiresAt q = px_ExpiresAt p \<and>
       (px_Status q = ''running'' \<longleftrightarrow> up) \<and>
       proxies w' = map (\<lambda>x. if px_ID x = px_ID p then q else x) (proxies w)) \<and>
     (servers w' (px_Port p) \<noteq> None \<longleftrightarrow> up) \<and> (\<forall>port. port \<noteq> px_Port p \<longrightarrow> servers w' port = servers w port) \<and>
     clock w' = clock w \<and> faults w' = [] \<and> can_listen w' = can_listen w"

lemma proxy_movedI:
  assumes "faults w = []" and "unique_proxies w" and "p \<in> set (proxies w)"
    and "px_ID q = px_ID p" and "px_Port q = px_Port p" and "px_ExpiresAt q = px_ExpiresAt p"
    and "px_Status q = ''running'' \<longleftrightarrow> up"
    and "servers w1 (px_Port p) \<noteq> None \<longleftrightarrow> up" and "\<And>port. port \<noteq> px_Port p \<Longrightarrow> servers w1 port = servers w port"
    and "proxies w1 = proxies w" "faults w1 = []" "clock w1 = clock w" "can_listen w1 = can_listen w"
  shows "is_ok (fst (proxyRepo_Update q w1))" and "proxy_moved p up w (snd (proxyRepo_Update q w1))"
proof -
  have "unique_proxies w1" using assms(2,10) by (simp add: unique_proxies_def)
  from save_proxy_rows [OF assms(11) this _ assms(4,5)] assms(3,10)
  have u: "proxyRepo_Update q w1 = (Inr (q\<lparr>px_UpdatedAt := clock w1\<rparr>),
    proxies_update (map (\<lambda>x. if px_ID x = px_ID p then q\<lparr>px_UpdatedAt := clock w1\<rparr> else x)) w1)" by simp
  show "is_ok (fst (proxyRepo_Update q w1))" by (simp add: u)
  show "proxy_moved p up w (snd (proxyRepo_Update q w1))"
    unfolding proxy_moved_def u snd_conv
    by (intro conjI exI [of _ "q\<lparr>px_UpdatedAt := clock w1\<rparr>"]) (use assms in simp_all)
qed

lemma proxy_moved_audit: "proxy_moved p up w w' \<Longrightarrow> proxy_moved p up w (log_audit a d w')"
  by (simp add: proxy_moved_def)

definition startable :: "world \<Rightarrow> Proxy \<Rightarrow> bool" where
  "startable w p \<longleftrightarrow> servers w (px_Port p) \<noteq> None \<or>
     \<not> expired_at (clock w) p \<and> can_listen w (px_BindIP p) (px_Port p)"

lemma proxy_route_frame [simp]:
  "proxies (snd (proxy_route p w)) = proxies w" "servers (snd (proxy_route p w)) = servers w"
  "clock (snd (proxy_route p w)) = clock w" "can_listen (snd (proxy_route p w)) = can_listen w"
  "faults w = [] \<Longrightarrow> faults (snd (proxy_route p w)) = []"
  by (simp_all add: proxy_route_def split: option.split)

lemma server_Start_proxy:
  "server_Start (proxy_server hk p route) w =
    (if can_listen w (px_BindIP p) (px_Port p) then Inr ((proxy_server hk p route)\<lparr>gs_running := True\<rparr>)
     else Inl (ErrMsg ''listen tcp: address already in use''))"
  by (simp add: server_Start_def proxy_server_def Let_def NewAuthenticatedGoProxyServer_def NewGoProxyServer_def SetNamespace_def)

lemma can_listen_set_server [simp]: "can_listen (set_server port s w) = can_listen w"
  by (simp add: set_server_def)

lemma start_moves:
  assumes "faults w = []" and "unique_proxies w" and "p \<in> set (proxies w)"
  shows "is_ok (fst (StartProxy hk (px_ID p) w)) = startable w p"
    and "proxy_moved p (startable w p) w (snd (StartProxy hk (px_ID p) w))"
proof -
  obtain route w2 where r: "proxy_route p w = (route, w2)" by fastforce
  have w2: "proxies w2 = proxies w" "servers w2 = servers w" "clock w2 = clock w" "can_listen w2 = can_listen w" "faults w2 = []"
    using proxy_route_frame [where p = p and w = w] assms(1) by (simp_all add: r)
  note I = proxy_movedI(2) [OF assms]
  show "is_ok (fst (StartProxy hk (px_ID p) w)) = startable w p"
    by (simp add: StartProxy_def get_proxy [OF assms(1,2)] assms(3) r server_Start_proxy w2 startable_def)
  show "proxy_moved p (startable w p) w (snd (StartProxy hk (px_ID p) w))"
    by (auto simp: StartProxy_def get_proxy [OF assms(1,2)] assms r server_Start_proxy w2 startable_def save_proxy_def
        mark_expired_def intro!: proxy_moved_audit I)
qed

lemma stop_moves:
  assumes "faults w = []" and "unique_proxies w" and "p \<in> set (proxies w)"
  shows "proxy_moved p False w (snd (StopProxy (px_ID p) w))" and "proxy_moved p False w (snd (ExpireProxy (px_ID p) w))"
proof -
  note I = proxy_movedI [OF assms, of "mark_expired (clock w) p" False "set_server (px_Port p) None w"]
  show "proxy_moved p False w (snd (StopProxy (px_ID p) w))"
    by (auto simp: StopProxy_def get_proxy [OF assms(1,2)] assms save_proxy_def
        intro!: proxy_moved_audit proxy_movedI(2) [OF assms])
  obtain r w2 where u: "proxyRepo_Update (mark_expired (clock w) p) (set_server (px_Port p) None w) = (r, w2)" by fastforce
  have "is_ok (fst (r, w2)) \<and> proxy_moved p False w (snd (r, w2))"
    unfolding u [symmetric] using assms(1) by (intro conjI I) (simp_all add: mark_expired_def)
  then show "proxy_moved p False w (snd (ExpireProxy (px_ID p) w))"
    by (auto simp: ExpireProxy_def get_proxy [OF assms(1,2)] assms(3) u proxy_moved_audit elim!: is_okE)
qed


section \<open>Rows and servers in step\<close>

text \<open>
  The database and the process agree about the proxies in \<open>D\<close>: the row says \<^verbatim>\<open>running\<close> exactly when a server
  has its port. No other proxy has a server, and no server is without a proxy.
\<close>

definition agrees_on :: "string set \<Rightarrow> world \<Rightarrow> bool" where
  "agrees_on D w \<longleftrightarrow> unique_proxies w \<and>
     (\<forall>p \<in> set (proxies w). px_ID p \<in> D \<longrightarrow> (px_Status p = ''running'' \<longleftrightarrow> servers w (px_Port p) \<noteq> None)) \<and>
     (\<forall>p \<in> set (proxies w). px_ID p \<notin> D \<longrightarrow> servers w (px_Port p) = None) \<and>
     (\<forall>port. servers w port \<noteq> None \<longrightarrow> port \<in> px_Port ` set (proxies w))"

definition in_step :: "world \<Rightarrow> bool" where
  "in_step w \<longleftrightarrow> agrees_on UNIV w"

text \<open>The abstract state: which proxies run.\<close>

definition running_ids :: "world \<Rightarrow> string set" where
  "running_ids w = px_ID ` {p \<in> set (proxies w). px_Status p = ''running''}"

lemma unique_id: "unique_proxies w \<Longrightarrow> p \<in> set (proxies w) \<Longrightarrow> q \<in> set (proxies w) \<Longrightarrow> px_ID p = px_ID q \<Longrightarrow> p = q"
  by (auto simp: unique_proxies_def distinct_map dest: inj_onD)

lemma unique_port: "unique_proxies w \<Longrightarrow> p \<in> set (proxies w) \<Longrightarrow> q \<in> set (proxies w) \<Longrightarrow> px_Port p = px_Port q \<Longrightarrow> p = q"
  by (auto simp: unique_proxies_def distinct_map dest: inj_onD)

lemma not_running:
  assumes "unique_proxies w" and "p \<in> set (proxies w)" and "px_Status p \<noteq> ''running''"
  shows "px_ID p \<notin> running_ids w"
proof
  assume "px_ID p \<in> running_ids w"
  then obtain q where "q \<in> set (proxies w)" "px_Status q = ''running''" "px_ID p = px_ID q" by (auto simp: running_ids_def)
  then show False using unique_id [OF assms(1,2)] assms(3) by metis
qed

lemma moved_rows:
  assumes "proxy_moved p up w w'" and "unique_proxies w" and "p \<in> set (proxies w)"
  obtains q where "px_ID q = px_ID p" "px_Port q = px_Port p" "px_ExpiresAt q = px_ExpiresAt p"
    "px_Status q = ''running'' \<longleftrightarrow> up" and "set (proxies w') = insert q (set (proxies w) - {p})"
    and "unique_proxies w'"
proof -
  obtain q where q: "px_ID q = px_ID p" "px_Port q = px_Port p" "px_ExpiresAt q = px_ExpiresAt p"
    "px_Status q = ''running'' \<longleftrightarrow> up" "proxies w' = map (\<lambda>x. if px_ID x = px_ID p then q else x) (proxies w)"
    using assms(1) by (auto simp: proxy_moved_def)
  have m: "(if px_ID x = px_ID p then q else x) = (if x = p then q else x)" if "x \<in> set (proxies w)" for x
    using unique_id [OF assms(2) that assms(3)] by auto
  have "map px_ID (proxies w') = map px_ID (proxies w)" "map px_Port (proxies w') = map px_Port (proxies w)"
    using q m by simp_all
  then have "unique_proxies w'" using assms(2) by (simp only: unique_proxies_def)
  moreover have "set (proxies w') = insert q (set (proxies w) - {p})"
  proof -
    have "set (proxies w') = (\<lambda>x. if px_ID x = px_ID p then q else x) ` set (proxies w)" by (simp add: q(5))
    also have "\<dots> = (\<lambda>x. if x = p then q else x) ` set (proxies w)" using m by (rule image_cong [OF refl])
    finally show ?thesis using assms(3) by auto
  qed
  ultimately show thesis by (intro that [OF q(1-4)])
qed

lemma moved_agrees:
  assumes "proxy_moved p up w w'" and "agrees_on D w" and "p \<in> set (proxies w)"
  shows "agrees_on (insert (px_ID p) D) w'"
proof -
  have u: "unique_proxies w" using assms(2) by (simp add: agrees_on_def)
  obtain q where q: "px_ID q = px_ID p" "px_Port q = px_Port p" "px_Status q = ''running'' \<longleftrightarrow> up"
    and rows: "set (proxies w') = insert q (set (proxies w) - {p})" and "unique_proxies w'"
    by (rule moved_rows [OF assms(1) u assms(3)])
  have sv: "servers w' (px_Port p) \<noteq> None \<longleftrightarrow> up" "\<And>port. port \<noteq> px_Port p \<Longrightarrow> servers w' port = servers w port"
    using assms(1) by (auto simp: proxy_moved_def)
  have other: "px_ID x \<noteq> px_ID p" "servers w' (px_Port x) = servers w (px_Port x)" if "x \<in> set (proxies w) - {p}" for x
    using that unique_id [OF u _ assms(3), of x] unique_port [OF u _ assms(3), of x] sv(2) by auto
  have "px_Port ` set (proxies w') = px_Port ` set (proxies w)" using q(2) assms(3) by (auto simp: rows)
  moreover have "servers w port \<noteq> None" if "servers w' port \<noteq> None" "port \<noteq> px_Port p" for port
    using that sv(2) by simp
  ultimately have "\<forall>port. servers w' port \<noteq> None \<longrightarrow> port \<in> px_Port ` set (proxies w')"
    using assms(2,3) unfolding agrees_on_def by (metis imageI)
  moreover have "px_Status x = ''running'' \<longleftrightarrow> servers w' (px_Port x) \<noteq> None"
    if "x \<in> set (proxies w')" "px_ID x \<in> insert (px_ID p) D" for x
  proof (cases "x = q")
    case True
    then show ?thesis using q(2,3) sv(1) by simp
  next
    case False
    then have x: "x \<in> set (proxies w) - {p}" using that(1) by (simp add: rows)
    then have "px_ID x \<in> D" using that(2) other(1) by blast
    then show ?thesis using assms(2) x other(2) [OF x] by (simp add: agrees_on_def)
  qed
  moreover have "servers w' (px_Port x) = None" if "x \<in> set (proxies w')" "px_ID x \<notin> insert (px_ID p) D" for x
  proof -
    have x: "x \<in> set (proxies w) - {p}" using that q(1) by (auto simp: rows)
    then show ?thesis using assms(2) that(2) other(2) [OF x] by (simp add: agrees_on_def)
  qed
  ultimately show ?thesis using \<open>unique_proxies w'\<close> by (simp add: agrees_on_def)
qed

lemma moved_running:
  assumes "proxy_moved p up w w'" and "unique_proxies w" and "p \<in> set (proxies w)"
  shows "running_ids w' = (if up then insert (px_ID p) (running_ids w) else running_ids w - {px_ID p})"
proof -
  obtain q where q: "px_ID q = px_ID p" "px_Status q = ''running'' \<longleftrightarrow> up"
    and rows: "set (proxies w') = insert q (set (proxies w) - {p})"
    by (rule moved_rows [OF assms])
  have other: "px_ID x \<noteq> px_ID p" if "x \<in> set (proxies w) - {p}" for x
    using that unique_id [OF assms(2) _ assms(3), of x] by auto
  have "running_ids w' = (if up then {px_ID p} else {}) \<union> px_ID ` {x \<in> set (proxies w) - {p}. px_Status x = ''running''}"
  proof -
    have "{x \<in> set (proxies w'). px_Status x = ''running''}
        = (if up then {q} else {}) \<union> {x \<in> set (proxies w) - {p}. px_Status x = ''running''}"
      using q(2) by (auto simp: rows)
    then show ?thesis using q(1) by (simp add: running_ids_def image_Un)
  qed
  also have "px_ID ` {x \<in> set (proxies w) - {p}. px_Status x = ''running''} = running_ids w - {px_ID p}"
    using other by (auto simp: running_ids_def image_iff)
  finally show ?thesis by auto
qed

lemma moved_in_step:
  assumes "proxy_moved p up w w'" and "in_step w" and "p \<in> set (proxies w)"
  shows "in_step w'"
  using moved_agrees [OF assms(1) _ assms(3), of UNIV] assms(2) by (simp add: in_step_def)


section \<open>The sweep\<close>

definition expired_ids :: "world \<Rightarrow> string set" where
  "expired_ids w = px_ID ` {p \<in> set (proxies w). expired_at (clock w) p}"

text \<open>One step of a loop over the rows the manager read: this row, and every row still to come, is unchanged.\<close>

lemma moved_keeps_rest:
  assumes "proxy_moved p up w w'" and "unique_proxies w" and "p \<in> set (proxies w)"
    and "set ps \<subseteq> set (proxies w)" and "distinct (p # ps)"
  shows "set ps \<subseteq> set (proxies w')"
  by (rule moved_rows [OF assms(1-3)]) (use assms(4,5) in auto)

lemma sweep_moves:
  assumes "faults w = []" and "in_step w" and "p \<in> set (proxies w)"
  shows "sweep_proxy p w = w \<and> (expired_at (clock w) p \<longrightarrow> px_ID p \<notin> running_ids w) \<or>
    proxy_moved p False w (sweep_proxy p w) \<and> expired_at (clock w) p"
proof -
  have u: "unique_proxies w" using assms(2) by (simp add: in_step_def agrees_on_def)
  note nr = not_running [OF u assms(3)]
  show ?thesis
  proof (cases "expired_at (clock w) p \<and> (px_Status p = ''running'' \<or> px_Status p = ''stopped'')")
    case False
    then show ?thesis using nr by (auto simp: sweep_proxy_def)
  next
    case True
    show ?thesis
    proof (cases "px_Status p = ''running''")
      case running: True
      then show ?thesis using True stop_moves(2) [OF assms(1) u assms(3)] by (simp add: sweep_proxy_def)
    next
      case False
      then have "servers w (px_Port p) = None" using assms(2,3) by (simp add: in_step_def agrees_on_def)
      then have "proxy_moved p False w (snd (proxyRepo_Update (mark_expired (clock w) p) w))"
        by (intro proxy_movedI(2) [OF assms(1) u assms(3)]) (simp_all add: mark_expired_def assms(1))
      then show ?thesis using True False by (simp add: sweep_proxy_def save_proxy_def)
    qed
  qed
qed

lemma fold_sweep:
  assumes "faults w = []" and "in_step w" and "distinct ps" and "set ps \<subseteq> set (proxies w)"
  shows "faults (fold sweep_proxy ps w) = [] \<and> in_step (fold sweep_proxy ps w) \<and>
    running_ids (fold sweep_proxy ps w) = running_ids w - px_ID ` {p \<in> set ps. expired_at (clock w) p}"
  using assms
proof (induction ps arbitrary: w)
  case (Cons p ps)
  let ?w = "sweep_proxy p w"
  have u: "unique_proxies w" and p: "p \<in> set (proxies w)" using Cons.prems by (auto simp: in_step_def agrees_on_def)
  from sweep_moves [OF Cons.prems(1,2) p] show ?case
  proof
    assume w: "?w = w \<and> (expired_at (clock w) p \<longrightarrow> px_ID p \<notin> running_ids w)"
    then show ?thesis using Cons.IH [of w] Cons.prems by auto
  next
    assume m: "proxy_moved p False w ?w \<and> expired_at (clock w) p"
    then have s: "faults ?w = []" "clock ?w = clock w" by (simp_all add: proxy_moved_def)
    have "in_step ?w" by (rule moved_in_step [OF conjunct1 [OF m] Cons.prems(2) p])
    moreover have "set ps \<subseteq> set (proxies ?w)" using moved_keeps_rest [OF conjunct1 [OF m] u p _ Cons.prems(3)] Cons.prems(4) by simp
    moreover have "running_ids ?w = running_ids w - {px_ID p}" using moved_running [OF conjunct1 [OF m] u p] by simp
    ultimately show ?thesis using Cons.IH [of ?w] Cons.prems(3) m s by auto
  qed
qed simp

lemma unique_distinct: "unique_proxies w \<Longrightarrow> distinct (proxies w)"
  by (auto simp: unique_proxies_def distinct_map)

lemma sweep_running:
  assumes "faults w = []" and "in_step w"
  shows "faults (SweepExpiredProxies w) = [] \<and> in_step (SweepExpiredProxies w) \<and>
    running_ids (SweepExpiredProxies w) = running_ids w - expired_ids w"
proof -
  have "distinct (proxies w)" using assms(2) unique_distinct by (simp add: in_step_def agrees_on_def)
  moreover have "SweepExpiredProxies w = fold sweep_proxy (proxies w) w"
    by (simp add: SweepExpiredProxies_def proxyRepo_List_def assms(1))
  ultimately show ?thesis using fold_sweep [OF assms, of "proxies w"] by (simp add: expired_ids_def)
qed

section \<open>The manager is a set of running proxies\<close>

datatype mgr_op = StartOp string | StopOp string | ExpireOp string | SweepOp

fun mgr_step :: "hooks \<Rightarrow> mgr_op \<Rightarrow> world \<Rightarrow> world" where
  "mgr_step hk (StartOp i) w = snd (StartProxy hk i w)"
| "mgr_step hk (StopOp i) w = snd (StopProxy i w)"
| "mgr_step hk (ExpireOp i) w = snd (ExpireProxy i w)"
| "mgr_step hk SweepOp w = SweepExpiredProxies w"

text \<open>The specification: a start adds the proxy when it can be served, the others only take away.\<close>

definition can_serve :: "world \<Rightarrow> string \<Rightarrow> bool" where
  "can_serve w i \<longleftrightarrow> (\<exists>p \<in> set (proxies w). px_ID p = i \<and> startable w p)"

fun spec_step :: "world \<Rightarrow> mgr_op \<Rightarrow> string set \<Rightarrow> string set" where
  "spec_step w (StartOp i) R = (if can_serve w i then insert i R else R)"
| "spec_step w (StopOp i) R = R - {i}"
| "spec_step w (ExpireOp i) R = R - {i}"
| "spec_step w SweepOp R = R - expired_ids w"

lemma missing_proxy:
  assumes "faults w = []" and "unique_proxies w" and "i \<notin> px_ID ` set (proxies w)"
  shows "StartProxy hk i w = (Inl (ErrMsg (''proxy not found: '' @ err_text ErrNotFound)), w)"
    and "snd (StopProxy i w) = w" and "snd (ExpireProxy i w) = w"
  using get_proxy(2) [OF assms] by (simp_all add: StartProxy_def StopProxy_def ExpireProxy_def)

lemma start_refines:
  assumes "faults w = []" and "in_step w"
  shows "is_ok (fst (StartProxy hk i w)) = can_serve w i \<and> faults (mgr_step hk (StartOp i) w) = [] \<and>
    in_step (mgr_step hk (StartOp i) w) \<and>
    running_ids (mgr_step hk (StartOp i) w) = spec_step w (StartOp i) (running_ids w)"
proof (cases "i \<in> px_ID ` set (proxies w)")
  case True
  then obtain p where p: "p \<in> set (proxies w)" "i = px_ID p" by auto
  have u: "unique_proxies w" using assms(2) by (simp add: in_step_def agrees_on_def)
  note m = start_moves [OF assms(1) u p(1), of hk]
  have c: "can_serve w i = startable w p" using unique_id [OF u _ p(1)] p by (auto simp: can_serve_def)
  have "px_ID p \<notin> running_ids w" if "\<not> startable w p"
  proof -
    have "servers w (px_Port p) = None" using that by (simp add: startable_def)
    then have "px_Status p \<noteq> ''running''" using assms(2) p(1) by (simp add: in_step_def agrees_on_def)
    then show ?thesis by (rule not_running [OF u p(1)])
  qed
  then have "running_ids (snd (StartProxy hk i w)) = spec_step w (StartOp i) (running_ids w)"
    using moved_running [OF m(2) u p(1)] c by (auto simp: p(2))
  then show ?thesis using m c moved_in_step [OF m(2) assms(2) p(1)] by (simp add: p(2) proxy_moved_def)
next
  case False
  have u: "unique_proxies w" using assms(2) by (simp add: in_step_def agrees_on_def)
  have "\<not> can_serve w i" using False by (auto simp: can_serve_def)
  then show ?thesis using missing_proxy(1) [OF assms(1) u False, of hk] assms by simp
qed

lemma stop_refines:
  assumes "faults w = []" and "in_step w"
    and "\<And>p. p \<in> set (proxies w) \<Longrightarrow> i = px_ID p \<Longrightarrow> proxy_moved p False w w'"
    and "i \<notin> px_ID ` set (proxies w) \<Longrightarrow> w' = w"
  shows "faults w' = [] \<and> in_step w' \<and> running_ids w' = running_ids w - {i}"
proof (cases "i \<in> px_ID ` set (proxies w)")
  case True
  then obtain p where p: "p \<in> set (proxies w)" "i = px_ID p" by auto
  have u: "unique_proxies w" using assms(2) by (simp add: in_step_def agrees_on_def)
  have m: "proxy_moved p False w w'" using assms(3) p by simp
  then show ?thesis using moved_running [OF m u p(1)] moved_in_step [OF m assms(2) p(1)] p(2) by (simp add: proxy_moved_def)
next
  case False
  then show ?thesis using assms by (auto simp: running_ids_def)
qed

text \<open>
  C20. The proxy manager implements a set of running proxies. As long as the database answers, every operation
  keeps the status column and the table of servers in step (a row says \<^verbatim>\<open>running\<close> exactly when a server listens
  on its port), and its effect on the set of running proxies is the specification's: a start adds the proxy
  when it exists and is already served, or is not expired and its address is free, and says so in its answer; a
  stop and an expiry take it away; the sweep takes away exactly those whose time is over.
\<close>

theorem manager_refines_set:
  assumes "faults w = []" and "in_step w"
  shows "faults (mgr_step hk op w) = [] \<and> in_step (mgr_step hk op w) \<and>
    running_ids (mgr_step hk op w) = spec_step w op (running_ids w) \<and>
    is_ok (fst (StartProxy hk i w)) = can_serve w i"
proof -
  have u: "unique_proxies w" using assms(2) by (simp add: in_step_def agrees_on_def)
  have "faults (mgr_step hk op w) = [] \<and> in_step (mgr_step hk op w) \<and>
    running_ids (mgr_step hk op w) = spec_step w op (running_ids w)"
  proof (cases op)
    case (StartOp j)
    then show ?thesis using start_refines [OF assms, of hk j] by simp
  next
    case (StopOp j)
    have "faults (snd (StopProxy j w)) = [] \<and> in_step (snd (StopProxy j w)) \<and> running_ids (snd (StopProxy j w)) = running_ids w - {j}"
      by (rule stop_refines [OF assms]) (use stop_moves(1) [OF assms(1) u] missing_proxy(2) [OF assms(1) u] in auto)
    then show ?thesis by (simp add: StopOp)
  next
    case (ExpireOp j)
    have "faults (snd (ExpireProxy j w)) = [] \<and> in_step (snd (ExpireProxy j w)) \<and> running_ids (snd (ExpireProxy j w)) = running_ids w - {j}"
      by (rule stop_refines [OF assms]) (use stop_moves(2) [OF assms(1) u] missing_proxy(3) [OF assms(1) u] in auto)
    then show ?thesis by (simp add: ExpireOp)
  next
    case SweepOp
    then show ?thesis using sweep_running [OF assms] by simp
  qed
  then show ?thesis using start_refines [OF assms, of hk i] by simp
qed


definition managed_world :: world where
  "managed_world = start_world\<lparr>proxies := [zero_Proxy\<lparr>px_ID := ''p1'', px_Port := 8000, px_Status := ''stopped''\<rparr>,
     zero_Proxy\<lparr>px_ID := ''p2'', px_Port := 8001, px_Status := ''stopped'', px_ExpiresAt := Some 1\<rparr>]\<rparr>"

lemma managed_world_ok: "faults managed_world = []" "in_step managed_world" "running_ids managed_world = {}"
  "can_serve managed_world ''p1''" "\<not> can_serve managed_world ''p2''"
  by (auto simp: managed_world_def start_world_def in_step_def agrees_on_def unique_proxies_def running_ids_def
      can_serve_def startable_def expired_at_def time_units)

theorem manager_refines_set_witness:
  "running_ids (mgr_step (live_hooks demo_hash) (StartOp ''p1'') managed_world) = {''p1''} \<and>
    \<not> is_ok (fst (StartProxy (live_hooks demo_hash) ''p2'' managed_world))"
  using manager_refines_set [OF managed_world_ok(1,2), of "live_hooks demo_hash" "StartOp ''p1''" "''p2''"] managed_world_ok
  by simp

section \<open>A restart\<close>

definition restorable :: "world \<Rightarrow> Proxy \<Rightarrow> bool" where
  "restorable w p \<longleftrightarrow> px_Status p = ''running'' \<and> \<not> expired_at (clock w) p \<and> can_listen w (px_BindIP p) (px_Port p)"

lemma restore_moves:
  assumes "faults w = []" and "agrees_on D w" and "p \<in> set (proxies w)" and "px_ID p \<notin> D"
  shows "restore_proxy hk p w = w \<and> px_Status p \<noteq> ''running'' \<or> proxy_moved p (restorable w p) w (restore_proxy hk p w)"
proof -
  have u: "unique_proxies w" and n: "servers w (px_Port p) = None" using assms(2-4) by (simp_all add: agrees_on_def)
  show ?thesis
  proof (cases "expired_at (clock w) p")
    case True
    have "proxy_moved p False w (snd (proxyRepo_Update (mark_expired (clock w) p) w))"
      by (intro proxy_movedI(2) [OF assms(1) u assms(3)]) (simp_all add: mark_expired_def assms(1) n)
    then show ?thesis using True by (simp add: restore_proxy_def save_proxy_def restorable_def)
  next
    case False
    then show ?thesis
      using start_moves(2) [OF assms(1) u assms(3), of hk] n by (simp add: restore_proxy_def restorable_def startable_def)
  qed
qed

lemma agrees_idle:
  assumes "agrees_on D w" and "p \<in> set (proxies w)" and "px_ID p \<notin> D" and "px_Status p \<noteq> ''running''"
  shows "agrees_on (insert (px_ID p) D) w"
proof -
  have u: "unique_proxies w" using assms(1) by (simp add: agrees_on_def)
  have "px_Status q = ''running'' \<longleftrightarrow> servers w (px_Port q) \<noteq> None"
    if "q \<in> set (proxies w)" "px_ID q \<in> insert (px_ID p) D" for q
  proof (cases "q = p")
    case True
    then show ?thesis using assms by (simp add: agrees_on_def)
  next
    case False
    then have "px_ID q \<in> D" using that unique_id [OF u that(1) assms(2)] by blast
    then show ?thesis using assms(1) that(1) by (simp add: agrees_on_def)
  qed
  then show ?thesis using assms(1) by (simp add: agrees_on_def)
qed

lemma moved_ids:
  assumes "proxy_moved p up w w'"
  shows "px_ID ` set (proxies w') = px_ID ` set (proxies w)"
proof -
  obtain q where "px_ID q = px_ID p" "proxies w' = map (\<lambda>x. if px_ID x = px_ID p then q else x) (proxies w)"
    using assms by (auto simp: proxy_moved_def)
  then have "map px_ID (proxies w') = map px_ID (proxies w)" by simp
  then show ?thesis by (metis list.set_map)
qed

lemma fold_restore_ids:
  assumes "faults w = []" and "agrees_on D w" and "distinct ps" and "set ps \<subseteq> set (proxies w)" and "px_ID ` set ps \<inter> D = {}"
  shows "px_ID ` set (proxies (fold (restore_proxy hk) ps w)) = px_ID ` set (proxies w)"
  using assms
proof (induction ps arbitrary: w D)
  case (Cons p ps)
  let ?w = "restore_proxy hk p w"
  have u: "unique_proxies w" and p: "p \<in> set (proxies w)" "px_ID p \<notin> D" using Cons.prems by (auto simp: agrees_on_def)
  have "px_ID p \<notin> px_ID ` set ps" using Cons.prems(3,4) unique_id [OF u p(1)] by auto
  then have d: "px_ID ` set ps \<inter> insert (px_ID p) D = {}" using Cons.prems(5) by auto
  from restore_moves [OF Cons.prems(1,2) p] show ?case
  proof
    assume "?w = w \<and> px_Status p \<noteq> ''running''"
    then show ?thesis using Cons.IH [of w D] Cons.prems by auto
  next
    assume m: "proxy_moved p (restorable w p) w ?w"
    then have "faults ?w = []" by (simp add: proxy_moved_def)
    moreover have "set ps \<subseteq> set (proxies ?w)" using moved_keeps_rest [OF m u p(1) _ Cons.prems(3)] Cons.prems(4) by simp
    ultimately show ?thesis
      using Cons.IH [OF _ moved_agrees [OF m Cons.prems(2) p(1)] _ _ d] Cons.prems(3) moved_ids [OF m] by simp
  qed
qed simp

lemma fold_restore:
  assumes "faults w = []" and "agrees_on D w" and "distinct ps" and "set ps \<subseteq> set (proxies w)" and "px_ID ` set ps \<inter> D = {}"
  shows "agrees_on (D \<union> px_ID ` set ps) (fold (restore_proxy hk) ps w) \<and>
    running_ids (fold (restore_proxy hk) ps w) = running_ids w - px_ID ` set ps \<union> px_ID ` {p \<in> set ps. restorable w p}"
  using assms
proof (induction ps arbitrary: w D)
  case (Cons p ps)
  let ?w = "restore_proxy hk p w" and ?D = "insert (px_ID p) D"
  have u: "unique_proxies w" and p: "p \<in> set (proxies w)" "px_ID p \<notin> D" using Cons.prems by (auto simp: agrees_on_def)
  have fresh: "px_ID p \<notin> px_ID ` set ps"
    using Cons.prems(3,4) unique_id [OF u p(1)] by auto
  then have d: "px_ID ` set ps \<inter> ?D = {}" using Cons.prems(5) by auto
  from restore_moves [OF Cons.prems(1,2) p] show ?case
  proof
    assume w: "?w = w \<and> px_Status p \<noteq> ''running''"
    then have "px_ID p \<notin> running_ids w" "\<not> restorable w p" using not_running [OF u p(1)] by (simp_all add: restorable_def)
    moreover have "{q \<in> set (p # ps). restorable w q} = {q \<in> set ps. restorable w q}" using calculation(2) by auto
    moreover have "agrees_on ?D w" using agrees_idle [OF Cons.prems(2) p] w by blast
    ultimately show ?thesis using Cons.IH [of w ?D] Cons.prems d w by (simp add: insert_commute)
  next
    assume m: "proxy_moved p (restorable w p) w ?w"
    then have s: "faults ?w = []" "clock ?w = clock w" "can_listen ?w = can_listen w" by (simp_all add: proxy_moved_def)
    have r: "restorable ?w = restorable w" by (simp add: fun_eq_iff restorable_def s)
    have "set ps \<subseteq> set (proxies ?w)" using moved_keeps_rest [OF m u p(1) _ Cons.prems(3)] Cons.prems(4) by simp
    from Cons.IH [OF s(1) moved_agrees [OF m Cons.prems(2) p(1)] _ this d] Cons.prems(3)
    have IH: "agrees_on (?D \<union> px_ID ` set ps) (fold (restore_proxy hk) ps ?w)"
      "running_ids (fold (restore_proxy hk) ps ?w) = running_ids ?w - px_ID ` set ps \<union> px_ID ` {q \<in> set ps. restorable w q}"
      by (simp_all add: r)
    have "running_ids ?w - px_ID ` set ps \<union> px_ID ` {q \<in> set ps. restorable w q} =
        running_ids w - px_ID ` set (p # ps) \<union> px_ID ` {q \<in> set (p # ps). restorable w q}"
    proof (cases "restorable w p")
      case True
      have "{q \<in> set (p # ps). restorable w q} = insert p {q \<in> set ps. restorable w q}" using True by auto
      then show ?thesis using fresh True moved_running [OF m u p(1)] by auto
    next
      case False
      have "{q \<in> set (p # ps). restorable w q} = {q \<in> set ps. restorable w q}" using False by auto
      then show ?thesis using False moved_running [OF m u p(1)] by auto
    qed
    then show ?thesis using IH by simp
  qed
qed simp

lemma restore_outcome:
  assumes "faults w = []" and "unique_proxies w"
  shows "in_step (RestoreProxies hk (NewProxyManager w)) \<and>
    running_ids (RestoreProxies hk (NewProxyManager w)) = px_ID ` {p \<in> set (proxies w). restorable w p}"
proof -
  let ?w = "NewProxyManager w"
  have s: "proxies ?w = proxies w" "faults ?w = []" "servers ?w = (\<lambda>_. None)" using assms(1) by (simp_all add: NewProxyManager_def)
  have r: "restorable ?w = restorable w" by (simp add: fun_eq_iff restorable_def NewProxyManager_def)
  have a: "agrees_on {} ?w" using assms(2) by (simp add: agrees_on_def s unique_proxies_def)
  have e: "RestoreProxies hk ?w = fold (restore_proxy hk) (proxies w) ?w"
    by (simp add: RestoreProxies_def proxyRepo_List_def s)
  have f: "agrees_on (px_ID ` set (proxies w)) (RestoreProxies hk ?w)"
    "running_ids (RestoreProxies hk ?w) = running_ids ?w - px_ID ` set (proxies w) \<union> px_ID ` {p \<in> set (proxies w). restorable w p}"
    using fold_restore [OF s(2) a unique_distinct [OF assms(2)], of hk] by (simp_all add: s e r)
  have "running_ids ?w \<subseteq> px_ID ` set (proxies w)" by (auto simp: running_ids_def s)
  moreover have "in_step (RestoreProxies hk ?w)"
  proof -
    have "px_ID ` set (proxies (RestoreProxies hk ?w)) = px_ID ` set (proxies w)"
      using fold_restore_ids [OF s(2) a unique_distinct [OF assms(2)], of hk] by (simp add: s e)
    then show ?thesis using f(1) by (auto simp: in_step_def agrees_on_def)
  qed
  ultimately show ?thesis using f(2) by auto
qed

text \<open>
  C21. A restart brings back what ran: in a new process, whose table of servers is empty while the database
  still says \<^verbatim>\<open>running\<close>, restoring puts rows and servers in step, and the proxies that run are exactly those
  that ran, are not expired and whose address is free.
\<close>

theorem restart_restores:
  assumes "faults w = []" and "unique_proxies w"
  shows "in_step (RestoreProxies hk (NewProxyManager w)) \<and>
    running_ids (RestoreProxies hk (NewProxyManager w)) = px_ID ` {p \<in> set (proxies w). restorable w p}"
  by (rule restore_outcome [OF assms])


definition crashed_world :: world where
  "crashed_world = start_world\<lparr>proxies := [zero_Proxy\<lparr>px_ID := ''p1'', px_Port := 8000, px_Status := ''running''\<rparr>,
     zero_Proxy\<lparr>px_ID := ''p2'', px_Port := 8001, px_Status := ''running'', px_ExpiresAt := Some 1\<rparr>,
     zero_Proxy\<lparr>px_ID := ''p3'', px_Port := 8002, px_Status := ''stopped''\<rparr>]\<rparr>"

theorem restart_restores_witness:
  "running_ids (RestoreProxies (live_hooks demo_hash) (NewProxyManager crashed_world)) = {''p1''}"
proof -
  have ps: "{p \<in> set (proxies crashed_world). restorable crashed_world p} =
      {zero_Proxy\<lparr>px_ID := ''p1'', px_Port := 8000, px_Status := ''running''\<rparr>}"
    by (auto simp: crashed_world_def start_world_def restorable_def expired_at_def time_units)
  have "faults crashed_world = []" "unique_proxies crashed_world" by (simp_all add: crashed_world_def unique_proxies_def)
  from conjunct2 [OF restart_restores [OF this, of "live_hooks demo_hash"]] show ?thesis by (simp add: ps)
qed

end
