(* ===== verification/WireGuard.thy ===== *)
theory WireGuard imports GoNet begin

text \<open>
  The configuration filter of \<^verbatim>\<open>internal/vpn/wg_driver.go\<close>: which lines of a user's WireGuard configuration reach
  \<^verbatim>\<open>wg setconf\<close>, the resolution of an endpoint, and the local address. The resolver \<^verbatim>\<open>net.LookupIP\<close> is a
  parameter. Error texts are abridged: \<^verbatim>\<open>%q\<close> quotes nothing and the cause of a malformed address is left out.
\<close>

type_synonym resolver = "string \<Rightarrow> ip list result"

definition parse_address_line :: "string \<Rightarrow> string option" where
  "parse_address_line raw =
     (let line = trim_space raw in
      if has_prefix (to_lower line) ''address'' then
        (case split_on (CHR ''='') line of
           [_, v] \<Rightarrow> Some (trim_space (hd (split_on (CHR ''#'') (hd (split_on (CHR '','') (trim_space v))))))
         | _ \<Rightarrow> None)
      else None)"

definition parseLocalIP :: "string \<Rightarrow> string" where
  "parseLocalIP config = (case List.map_filter parse_address_line (split_on (CHR 0x0A) config) of [] \<Rightarrow> [] | v # _ \<Rightarrow> v)"

definition first_v4 :: "ip list \<Rightarrow> ip option" where
  "first_v4 ips = (case List.map_filter to4 ips of [] \<Rightarrow> None | v # _ \<Rightarrow> Some v)"

definition resolveWireGuardEndpoint :: "resolver \<Rightarrow> string \<Rightarrow> string result" where
  "resolveWireGuardEndpoint lookup raw =
     (let endpoint = trim_space (hd (split_on (CHR ''#'') raw)) in
      if endpoint = [] then Inl (ErrMsg ''empty WireGuard endpoint'')
      else case split_host_port endpoint of
        None \<Rightarrow> Inl (ErrMsg (''invalid WireGuard endpoint '' @ endpoint))
      | Some (host, port) \<Rightarrow> (case parse_ip (trim_cutset host ''[]'') of
          Some x \<Rightarrow> Inr (join_host_port (ip_string x) port)
        | None \<Rightarrow> (case lookup host of
            Inl e \<Rightarrow> Inl (ErrMsg (''failed to resolve WireGuard endpoint host '' @ host @ '': '' @ err_text e))
          | Inr ips \<Rightarrow> (case first_v4 ips of
              Some v4 \<Rightarrow> Inr (join_host_port (ip_string v4) port)
            | None \<Rightarrow> (case ips of
                x # _ \<Rightarrow> Inr (join_host_port (ip_string x) port)
              | [] \<Rightarrow> Inl (ErrMsg (''failed to resolve WireGuard endpoint host '' @ host @ '': no IP addresses found'')))))))"

text \<open>The keys that are allowed in a section; every other section allows none.\<close>

definition allowed_key :: "string \<Rightarrow> string \<Rightarrow> bool" where
  "allowed_key section_name key \<longleftrightarrow>
     section_name = ''interface'' \<and> key \<in> {''privatekey'', ''listenport'', ''fwmark''} \<or>
     section_name = ''peer'' \<and> key \<in> {''publickey'', ''presharedkey'', ''allowedips'', ''endpoint'', ''persistentkeepalive''}"

text \<open>One line, in a section: the section of the next line, and what is kept.\<close>

definition sanitize_line :: "resolver \<Rightarrow> string \<Rightarrow> string \<Rightarrow> (string \<times> string list) result" where
  "sanitize_line lookup sec raw =
     (let line = trim_space raw in
      if line = [] \<or> has_prefix line ''#'' \<or> has_prefix line '';'' then Inr (sec, [])
      else if has_prefix line ''['' \<and> has_suffix line '']'' then
        (let sec' = to_lower (trim_space (trim_cutset line ''[]''))
         in Inr (sec', if sec' = ''interface'' \<or> sec' = ''peer'' then [''['' @ title sec' @ '']''] else []))
      else case split2 (CHR ''='') line of
        [k, v] \<Rightarrow>
          (let key = to_lower (trim_space k) in
           if \<not> allowed_key sec key then Inr (sec, [])
           else if sec = ''peer'' \<and> key = ''endpoint'' then
             (case resolveWireGuardEndpoint lookup (trim_space v) of
                Inl e \<Rightarrow> Inl e
              | Inr normalized \<Rightarrow> Inr (sec, [trim_space k @ '' = '' @ normalized]))
           else Inr (sec, [line]))
      | _ \<Rightarrow> Inr (sec, []))"

fun sanitize_lines :: "resolver \<Rightarrow> string \<Rightarrow> string list \<Rightarrow> string list result" where
  "sanitize_lines lookup sec [] = Inr []"
| "sanitize_lines lookup sec (raw # rest) =
     (case sanitize_line lookup sec raw of
        Inl e \<Rightarrow> Inl e | Inr (sec', kept) \<Rightarrow> map_sum id ((@) kept) (sanitize_lines lookup sec' rest))"

definition sanitizeWireGuardConfig :: "resolver \<Rightarrow> string \<Rightarrow> string result" where
  "sanitizeWireGuardConfig lookup config =
     map_sum id (\<lambda>out. join [CHR 0x0A] out @ [CHR 0x0A]) (sanitize_lines lookup [] (split_on (CHR 0x0A) config))"

section \<open>What reaches the kernel\<close>

text \<open>A clean configuration: headers of the two sections, and below them only lines with a key the section allows.\<close>

definition line_key :: "string \<Rightarrow> string" where
  "line_key line = to_lower (trim_space (fst (cut (CHR ''='') line)))"

fun clean_config :: "string \<Rightarrow> string list \<Rightarrow> bool" where
  "clean_config sec [] = True"
| "clean_config sec (l # ls) =
     (if l = ''[Interface]'' then clean_config ''interface'' ls
      else if l = ''[Peer]'' then clean_config ''peer'' ls
      else allowed_key sec (line_key l) \<and> CHR ''='' \<in> set l \<and> clean_config sec ls)"

lemma title_sections: "title ''interface'' = ''Interface''" "title ''peer'' = ''Peer''"
  by code_simp+

lemma join_snoc: "join sep (ps @ [q]) = (if ps = [] then q else join sep ps @ sep @ q)"
  by (induction ps rule: induct_list012) auto

lemma split2_pair: "split2 sep s = [k, v] \<Longrightarrow> cut sep s = (k, v, True) \<and> sep \<in> set s"
  by (cases "cut sep s") (auto simp: split2_def split: if_splits dest: cut_parts)

lemma trim_by_append_space:
  assumes "P c"
  shows "trim_by P (s @ [c]) = trim_by P s"
proof (cases "\<forall>x \<in> set s. P x")
  case True
  then have "dropWhile P s = []" by (simp add: dropWhile_eq_Nil_conv)
  moreover have "dropWhile P (s @ [c]) = []" using True assms by (simp add: dropWhile_append2)
  ultimately show ?thesis by (simp only: trim_by_def)
next
  case False
  then obtain x where "x \<in> set s" "\<not> P x" by blast
  then have "dropWhile P (s @ [c]) = dropWhile P s @ [c]" by (rule dropWhile_append1)
  then show ?thesis using assms by (simp add: trim_by_def)
qed

lemma line_key_split:
  assumes "split2 (CHR ''='') line = [k, v]"
  shows "line_key line = to_lower (trim_space k)" and "line_key (trim_space k @ '' = '' @ u) = to_lower (trim_space k)"
proof -
  have c: "cut (CHR ''='') line = (k, v, True)" using split2_pair [OF assms] by simp
  then show "line_key line = to_lower (trim_space k)" by (simp add: line_key_def)
  have "CHR ''='' \<notin> set k" by (rule cut_first [OF c])
  then have "CHR ''='' \<notin> set (trim_space k @ '' '')" using set_trim_by [of is_space k] by (auto simp: trim_space_def)
  from cut_append [OF this, of "'' '' @ u"] have "cut (CHR ''='') (trim_space k @ '' = '' @ u) = (trim_space k @ '' '', '' '' @ u, True)"
    by simp
  moreover have "trim_space (trim_space k @ '' '') = trim_space k"
    unfolding trim_space_def by (subst trim_by_append_space) (simp_all add: is_space_def)
  ultimately show "line_key (trim_space k @ '' = '' @ u) = to_lower (trim_space k)" by (simp add: line_key_def)
qed

lemma clean_config_none:
  assumes "clean_config sec' out" and "sec' \<noteq> ''interface''" and "sec' \<noteq> ''peer''"
  shows "clean_config sec out"
  using assms by (cases out) (auto simp: allowed_key_def split: if_splits)

lemma clean_config_line:
  "allowed_key sec (line_key l) \<Longrightarrow> CHR ''='' \<in> set l \<Longrightarrow> clean_config sec ls \<Longrightarrow> clean_config sec (l # ls)"
  by auto

lemma map_sum_Inr: "map_sum f g r = Inr y \<longleftrightarrow> (\<exists>x. r = Inr x \<and> y = g x)"
  by (cases r) auto

text \<open>What one line keeps: nothing, the header of a known section, or a line with a key its section allows.\<close>

lemma sanitize_line_keeps:
  assumes "sanitize_line lookup sec raw = Inr (sec', kept)"
  shows "kept = [] \<and> (sec' = sec \<or> sec' \<noteq> ''interface'' \<and> sec' \<noteq> ''peer'') \<or>
    kept = [''[Interface]''] \<and> sec' = ''interface'' \<or> kept = [''[Peer]''] \<and> sec' = ''peer'' \<or>
    (\<exists>l. kept = [l] \<and> sec' = sec \<and> allowed_key sec (line_key l) \<and> CHR ''='' \<in> set l)"
proof -
  let ?line = "trim_space raw"
  consider (other) "kept = [] \<and> sec' = sec"
    | (header) "sec' = to_lower (trim_space (trim_cutset ?line ''[]''))"
        "kept = (if sec' = ''interface'' \<or> sec' = ''peer'' then [''['' @ title sec' @ '']''] else [])"
    | (key) k v where "split2 (CHR ''='') ?line = [k, v]" "allowed_key sec (to_lower (trim_space k))" "sec' = sec"
        "kept = [?line] \<or> (\<exists>n. kept = [trim_space k @ '' = '' @ n])"
  proof (cases "?line = [] \<or> has_prefix ?line ''#'' \<or> has_prefix ?line '';'' \<or> has_prefix ?line ''['' \<and> has_suffix ?line '']''")
    case True
    then show ?thesis using assms other header by (auto simp: sanitize_line_def Let_def split: if_splits)
  next
    case False
    show ?thesis
    proof (cases "\<exists>k v. split2 (CHR ''='') ?line = [k, v]")
      case True
      then obtain k v where kv: "split2 (CHR ''='') ?line = [k, v]" by blast
      show ?thesis
      proof (cases "allowed_key sec (to_lower (trim_space k))")
        case ok: True
        have "sec' = sec" "kept = [?line] \<or> (\<exists>n. kept = [trim_space k @ '' = '' @ n])"
          using assms False ok kv by (auto simp: sanitize_line_def Let_def split: if_splits sum.splits)
        then show ?thesis by (rule key [OF kv ok])
      qed (use assms False kv other in \<open>auto simp: sanitize_line_def Let_def split: if_splits\<close>)
    next
      case none: False
      have "sanitize_line lookup sec raw = Inr (sec, [])"
      proof (cases "split2 (CHR ''='') ?line")
        case (Cons a t)
        then show ?thesis using False none by (cases t) (auto simp: sanitize_line_def Let_def split: list.split)
      qed (use False in \<open>auto simp: sanitize_line_def Let_def\<close>)
      then show ?thesis using assms other by simp
    qed
  qed
  then show ?thesis
  proof cases
    case header
    then show ?thesis by (auto simp: title_sections)
  next
    case key
    have "CHR ''='' \<in> set ?line" using split2_pair [OF key(1)] by simp
    then show ?thesis using key(2,3,4) line_key_split [OF key(1)] by fastforce
  qed blast
qed

lemma sanitize_clean: "sanitize_lines lookup sec ls = Inr out \<Longrightarrow> clean_config sec out"
proof (induction ls arbitrary: sec out)
  case (Cons raw rest)
  then obtain sec' kept tail where l: "sanitize_line lookup sec raw = Inr (sec', kept)"
    and t: "sanitize_lines lookup sec' rest = Inr tail" and out: "out = kept @ tail"
    by (auto simp: map_sum_Inr split: sum.splits)
  have tail: "clean_config sec' tail" by (rule Cons.IH [OF t])
  from sanitize_line_keeps [OF l] show ?case
  proof (elim disjE)
    assume "kept = [] \<and> (sec' = sec \<or> sec' \<noteq> ''interface'' \<and> sec' \<noteq> ''peer'')"
    then show ?thesis using tail clean_config_none [of sec' tail sec] by (auto simp: out)
  next
    assume "\<exists>l. kept = [l] \<and> sec' = sec \<and> allowed_key sec (line_key l) \<and> CHR ''='' \<in> set l"
    then show ?thesis using tail by (auto simp: out intro: clean_config_line simp del: clean_config.simps)
  qed (use tail in \<open>auto simp: out\<close>)
qed simp


section \<open>No line breaks\<close>

definition one_line :: "string \<Rightarrow> bool" where "one_line s \<longleftrightarrow> CHR 0x0A \<notin> set s"

lemma one_line_simps [simp]:
  "one_line []" "one_line (c # s) \<longleftrightarrow> c \<noteq> CHR 0x0A \<and> one_line s" "one_line (s @ t) \<longleftrightarrow> one_line s \<and> one_line t"
  by (auto simp: one_line_def)

lemma one_line_sub: "one_line s \<Longrightarrow> set t \<subseteq> set s \<Longrightarrow> one_line t"
  by (auto simp: one_line_def)

lemma one_line_trim [intro]: "one_line s \<Longrightarrow> one_line (trim_space s)"
  using set_trim_by [of is_space s] by (auto simp: one_line_def trim_space_def)

lemma cut_sub: "cut sep s = (a, b, f) \<Longrightarrow> set a \<subseteq> set s \<and> set b \<subseteq> set s"
proof (induction s arbitrary: a b f)
  case (Cons c s)
  obtain a' b' f' where e: "cut sep s = (a', b', f')" by (rule prod_cases3)
  show ?case using Cons.prems Cons.IH [OF e] by (auto simp: e split: if_splits)
qed auto

lemma one_line_split_hd: "one_line s \<Longrightarrow> one_line (hd (split_on sep s))"
proof (induction s)
  case (Cons c s)
  obtain p ps where "split_on sep s = p # ps" by (cases "split_on sep s") auto
  with Cons show ?case by auto
qed auto

lemma one_line_digits: "one_line (digits n)"
  using digits_no_char [of "CHR 0x0A" n] by (simp add: one_line_def)

lemma one_line_join: "one_line sep \<Longrightarrow> (\<And>p. p \<in> set ps \<Longrightarrow> one_line p) \<Longrightarrow> one_line (join sep ps)"
  by (induction ps rule: induct_list012) auto

lemma one_line_hex_digits: "one_line (hex_digits n)"
proof (induction n rule: hex_digits.induct)
  case (1 n)
  have "list_all (\<lambda>i. ''0123456789abcdef'' ! i \<noteq> CHR 0x0A) [0..<16]" by code_simp
  then have h: "i < 16 \<Longrightarrow> ''0123456789abcdef'' ! i \<noteq> CHR 0x0A" for i by (simp only: list_all_iff set_upt atLeastLessThan_iff) auto
  show ?case
  proof (cases "n < 16")
    case True
    then show ?thesis using h [of n] by (subst hex_digits.simps) (simp only: if_True one_line_simps simp_thms not_False_eq_True)
  next
    case False
    then show ?thesis using h [of "n mod 16"] "1.IH"
      by (subst hex_digits.simps) (simp only: if_False one_line_simps simp_thms mod_less_divisor zero_less_numeral not_False_eq_True)
  qed
qed

lemma one_line_ip: "one_line (ip_string x)"
proof -
  have "one_line (ipv4_string q)" for q
    unfolding ipv4_string_def by (rule one_line_join) (auto simp: one_line_digits)
  moreover have "one_line (ipv6_string x)"
    by (auto simp: ipv6_string_def Let_def one_line_hex_digits intro!: one_line_join split: option.split)
  ultimately show ?thesis by (simp add: ip_string_def split: option.split)
qed

lemma one_line_join_host_port: "one_line h \<Longrightarrow> one_line p \<Longrightarrow> one_line (join_host_port h p)"
  by (simp add: join_host_port_def)

lemma split_host_port_sub:
  assumes "split_host_port s = Some (h, p)"
  shows "set p \<subseteq> set s"
proof -
  obtain pre port where c: "cut_last (CHR '':'') s = Some (pre, port)" and p: "p = port"
    using assms by (auto simp: split_host_port_def split: option.splits if_splits prod.splits)
  obtain b a f where e: "cut (CHR '':'') (rev s) = (b, a, f)" by (rule prod_cases3)
  have "port = rev b" using c by (auto simp: cut_last_def e split: if_splits)
  then show ?thesis using cut_sub [OF e] p by auto
qed

lemma one_line_endpoint:
  assumes "resolveWireGuardEndpoint lookup raw = Inr n" and "one_line raw"
  shows "one_line n"
proof -
  let ?e = "trim_space (hd (split_on (CHR ''#'') raw))"
  have e: "one_line ?e" using assms(2) by (intro one_line_trim one_line_split_hd)
  obtain h p where s: "split_host_port ?e = Some (h, p)"
    using assms(1) by (auto simp: resolveWireGuardEndpoint_def Let_def split: if_splits option.splits)
  have "one_line p" using split_host_port_sub [OF s] by (rule one_line_sub [OF e])
  moreover have "\<exists>x. n = join_host_port (ip_string x) p"
    using assms(1) by (auto simp: resolveWireGuardEndpoint_def Let_def s split: if_splits option.splits sum.splits list.splits)
  ultimately show ?thesis using one_line_join_host_port one_line_ip by auto
qed

lemma one_line_kept:
  assumes "sanitize_line lookup sec raw = Inr (sec', kept)" and "one_line raw" and "l \<in> set kept"
  shows "one_line l"
proof -
  let ?line = "trim_space raw"
  have t: "one_line ?line" using assms(2) by (rule one_line_trim)
  consider "l = ?line" | "l = ''[Interface]''" | "l = ''[Peer]''"
    | k v n where "split2 (CHR ''='') ?line = [k, v]" "resolveWireGuardEndpoint lookup (trim_space v) = Inr n"
        "l = trim_space k @ '' = '' @ n"
    using assms(1,3) by (auto simp: sanitize_line_def Let_def title_sections split: if_splits list.splits sum.splits)
  then show ?thesis
  proof cases
    case 4
    have c: "cut (CHR ''='') ?line = (k, v, True)" using split2_pair [OF 4(1)] by simp
    have "one_line k" "one_line v" using cut_sub [OF c] t by (auto intro: one_line_sub)
    then show ?thesis using one_line_endpoint [OF 4(2)] by (auto simp: 4(3))
  qed (use t in simp_all)
qed

lemma sanitize_one_line:
  "sanitize_lines lookup sec ls = Inr out \<Longrightarrow> \<forall>l \<in> set ls. one_line l \<Longrightarrow> \<forall>l \<in> set out. one_line l"
proof (induction ls arbitrary: sec out)
  case (Cons raw rest)
  then obtain sec' kept tail where l: "sanitize_line lookup sec raw = Inr (sec', kept)"
    and t: "sanitize_lines lookup sec' rest = Inr tail" and out: "out = kept @ tail"
    by (auto simp: map_sum_Inr split: sum.splits)
  show ?case using Cons.IH [OF t] Cons.prems(2) one_line_kept [OF l] by (auto simp: out)
qed simp

text \<open>
  C23. Whatever a user uploads, and whatever the resolver answers, the text handed to \<^verbatim>\<open>wg setconf\<close> reads back, line by
  line, as headers of the two known sections and as assignments whose key is allowed in the section they stand
  in: no \<^verbatim>\<open>PostUp\<close>, \<^verbatim>\<open>Address\<close> or \<^verbatim>\<open>DNS\<close> line reaches the tool, not even through a line break in a value.
\<close>

theorem wg_config_sanitized:
  assumes "sanitizeWireGuardConfig lookup config = Inr out"
  shows "\<exists>ls. clean_config [] ls \<and> (\<forall>l \<in> set ls. one_line l) \<and>
    split_on (CHR 0x0A) out = (if ls = [] then [[]] else ls) @ [[]]"
proof -
  obtain ls where ls: "sanitize_lines lookup [] (split_on (CHR 0x0A) config) = Inr ls"
    and out: "out = join [CHR 0x0A] ls @ [CHR 0x0A]"
    using assms by (auto simp: sanitizeWireGuardConfig_def map_sum_Inr)
  have lines: "\<forall>l \<in> set ls. one_line l"
    by (rule sanitize_one_line [OF ls]) (auto simp: one_line_def dest: split_on_no_sep)
  have "out = join [CHR 0x0A] ((if ls = [] then [[]] else ls) @ [[]])"
    by (simp add: out join_snoc)
  moreover have "split_on (CHR 0x0A) (join [CHR 0x0A] ((if ls = [] then [[]] else ls) @ [[]])) = (if ls = [] then [[]] else ls) @ [[]]"
    by (rule split_on_join) (use lines in \<open>auto simp: one_line_def split: if_splits\<close>)
  ultimately show ?thesis using sanitize_clean [OF ls] lines by auto
qed

definition hostile_config :: string where
  "hostile_config = join [CHR 0x0A] [''[Interface]'', '' PrivateKey = abc'', ''PostUp = rm -rf /'', ''Address = 10.0.0.2/24'',
     ''[Hooks]'', ''PrivateKey = no'', ''[PEER]'', ''Endpoint = 1.2.3.4:51820 # home'', ''PublicKey=xyz'']"

theorem wg_config_sanitized_witness:
  "\<exists>out. sanitizeWireGuardConfig (\<lambda>_. Inr []) hostile_config = Inr out \<and>
    out = join [CHR 0x0A] [''[Interface]'', ''PrivateKey = abc'', ''[Peer]'', ''Endpoint = 1.2.3.4:51820'', ''PublicKey=xyz''] @ [CHR 0x0A] \<and>
    (\<exists>ls. clean_config [] ls \<and> (\<forall>l \<in> set ls. one_line l) \<and> split_on (CHR 0x0A) out = (if ls = [] then [[]] else ls) @ [[]])"
proof -
  have e: "sanitizeWireGuardConfig (\<lambda>_. Inr []) hostile_config =
    Inr (join [CHR 0x0A] [''[Interface]'', ''PrivateKey = abc'', ''[Peer]'', ''Endpoint = 1.2.3.4:51820'', ''PublicKey=xyz''] @ [CHR 0x0A])"
    by code_simp
  show ?thesis using wg_config_sanitized [OF e] e by blast
qed

end
