(* ===== verification/GoAes.thy ===== *)
theory GoAes imports GoCrypto begin

text \<open>
  Go's \<^verbatim>\<open>crypto/aes\<close> with a 32-byte key and \<^verbatim>\<open>cipher.NewGCM\<close> with the standard nonce of 12 bytes, a tag of 16 and no
  additional data (FIPS 197, SP 800-38D). The S-box is computed: the inverse in the field of 256 elements and an
  affine map. Whatever \<^verbatim>\<open>Seal\<close> makes, \<^verbatim>\<open>Open\<close> reads back.
\<close>

section \<open>AES-256\<close>

definition xtime :: "byte \<Rightarrow> byte" where
  "xtime a = push_bit 1 a XOR (if bit a 7 then 0x1b else 0)"

fun gf_mul :: "nat \<Rightarrow> byte \<Rightarrow> byte \<Rightarrow> byte" where
  "gf_mul 0 a b = 0"
| "gf_mul (Suc n) a b = (if bit b 0 then a else 0) XOR gf_mul n (xtime a) (drop_bit 1 b)"

fun gf_power :: "nat \<Rightarrow> byte \<Rightarrow> byte" where
  "gf_power 0 a = 1"
| "gf_power (Suc n) a = gf_mul 8 a (gf_power n a)"

definition sub_byte :: "byte \<Rightarrow> byte" where
  "sub_byte a = (let i = gf_power 254 a in
     i XOR word_rotl 1 i XOR word_rotl 2 i XOR word_rotl 3 i XOR word_rotl 4 i XOR 0x63)"

text \<open>The key schedule: groups of four bytes; a new one from the last and the one eight before it.\<close>

definition xor_bytes :: "byte list \<Rightarrow> byte list \<Rightarrow> byte list" where
  "xor_bytes a b = map2 (XOR) a b"

fun round_constant :: "nat \<Rightarrow> byte" where
  "round_constant 0 = 1"
| "round_constant (Suc n) = xtime (round_constant n)"

definition schedule_word :: "nat \<Rightarrow> byte list \<Rightarrow> byte list" where
  "schedule_word i v =
     (if i mod 8 = 0 then xor_bytes (map sub_byte (rotate1 v)) [round_constant (i div 8 - 1), 0, 0, 0]
      else if i mod 8 = 4 then map sub_byte v else v)"

fun key_groups :: "nat \<Rightarrow> nat \<Rightarrow> byte list list \<Rightarrow> byte list list" where
  "key_groups 0 i ws = ws"
| "key_groups (Suc n) i ws = key_groups n (Suc i) (ws @ [xor_bytes (ws ! (i - 8)) (schedule_word i (ws ! (i - 1)))])"

definition round_keys :: "byte list \<Rightarrow> byte list list" where
  "round_keys key = (let ws = key_groups 52 8 (map (\<lambda>i. take 4 (drop (4 * i) key)) [0..<8])
     in map (\<lambda>r. concat (take 4 (drop (4 * r) ws))) [0..<15])"

text \<open>The state is its sixteen bytes, column after column.\<close>

definition shift_rows :: "byte list \<Rightarrow> byte list" where
  "shift_rows s = map (\<lambda>i. s ! ((i + 4 * (i mod 4)) mod 16)) [0..<16]"

definition mix_column :: "byte list \<Rightarrow> byte list" where
  "mix_column c = map (\<lambda>i. xtime (c ! i) XOR (xtime (c ! ((i + 1) mod 4)) XOR c ! ((i + 1) mod 4)) XOR
     c ! ((i + 2) mod 4) XOR c ! ((i + 3) mod 4)) [0..<4]"

definition mix_columns :: "byte list \<Rightarrow> byte list" where
  "mix_columns s = concat (map (\<lambda>j. mix_column (take 4 (drop (4 * j) s))) [0..<4])"

definition aes_round :: "byte list \<Rightarrow> byte list \<Rightarrow> byte list" where
  "aes_round k s = xor_bytes (mix_columns (shift_rows (map sub_byte s))) k"

definition aes_block :: "byte list \<Rightarrow> byte list \<Rightarrow> byte list" where
  "aes_block key blk = (let ks = round_keys key in
     xor_bytes (shift_rows (map sub_byte (fold aes_round (take 13 (drop 1 ks)) (xor_bytes blk (ks ! 0))))) (ks ! 14))"

section \<open>GCM\<close>

definition be_nat :: "byte list \<Rightarrow> nat" where
  "be_nat bs = foldl (\<lambda>n b. 256 * n + unat b) 0 bs"

definition be_bytes :: "nat \<Rightarrow> nat \<Rightarrow> byte list" where
  "be_bytes k n = rev (map (\<lambda>i. of_nat (n div 256 ^ i)) [0..<k])"

text \<open>The product of two blocks: bit 0 of the standard is the top bit of the number.\<close>

definition gcm_half :: "128 word \<Rightarrow> 128 word" where
  "gcm_half v = drop_bit 1 v XOR (if bit v 0 then push_bit 120 0xe1 else 0)"

fun gcm_mul :: "nat \<Rightarrow> 128 word \<Rightarrow> 128 word \<Rightarrow> 128 word" where
  "gcm_mul 0 x v = 0"
| "gcm_mul (Suc n) x v = (if bit x n then v else 0) XOR gcm_mul n x (gcm_half v)"

definition pad16 :: "byte list \<Rightarrow> byte list" where
  "pad16 bs = bs @ replicate ((16 - length bs mod 16) mod 16) 0"

fun blocks :: "nat \<Rightarrow> byte list \<Rightarrow> byte list list" where
  "blocks 0 bs = []"
| "blocks (Suc n) bs = take 16 bs # blocks n (drop 16 bs)"

definition ghash :: "byte list \<Rightarrow> byte list \<Rightarrow> byte list" where
  "ghash h bs = be_bytes 16 (unat (foldl (\<lambda>y x. gcm_mul 128 (y XOR of_nat (be_nat x)) (of_nat (be_nat h))) 0
     (blocks (length bs div 16) bs)))"

definition key_stream :: "byte list \<Rightarrow> byte list \<Rightarrow> nat \<Rightarrow> byte list" where
  "key_stream key nonce n =
     concat (map (\<lambda>i. aes_block key (nonce @ be_bytes 4 (i + 2))) [0..<(n + 15) div 16])"

definition gcm_tag :: "byte list \<Rightarrow> byte list \<Rightarrow> byte list \<Rightarrow> byte list" where
  "gcm_tag key nonce c = xor_bytes (aes_block key (nonce @ be_bytes 4 1))
     (ghash (aes_block key (replicate 16 0)) (pad16 c @ be_bytes 8 0 @ be_bytes 8 (8 * length c)))"

definition gcm_seal :: "byte list \<Rightarrow> byte list \<Rightarrow> byte list \<Rightarrow> byte list" where
  "gcm_seal key nonce p = (let c = xor_bytes p (key_stream key nonce (length p)) in c @ gcm_tag key nonce c)"

definition gcm_open :: "byte list \<Rightarrow> byte list \<Rightarrow> byte list \<Rightarrow> byte list option" where
  "gcm_open key nonce ct =
     (if length ct < 16 then None
      else let c = take (length ct - 16) ct in
        if drop (length ct - 16) ct \<noteq> gcm_tag key nonce c then None
        else Some (xor_bytes c (key_stream key nonce (length c))))"

section \<open>Round trip\<close>

lemma length_xor_bytes [simp]: "length (xor_bytes a b) = min (length a) (length b)"
  by (simp add: xor_bytes_def)

lemma length_shift_rows [simp]: "length (shift_rows s) = 16"
  by (simp add: shift_rows_def)

lemma length_mix_columns [simp]: "length (mix_columns s) = 16"
  by (simp add: mix_columns_def mix_column_def length_concat comp_def upt_rec)

lemma xor_bytes_twice: "length a \<le> length k \<Longrightarrow> xor_bytes (xor_bytes a k) k = a"
proof (induction a arbitrary: k)
  case (Cons x a)
  then show ?case by (cases k) (auto simp: xor_bytes_def xor.assoc)
qed (simp add: xor_bytes_def)


lemma length_schedule_word: "length v = 4 \<Longrightarrow> length (schedule_word i v) = 4"
  by (simp add: schedule_word_def)

lemma key_groups_ok:
  "length ws = i \<Longrightarrow> 8 \<le> i \<Longrightarrow> \<forall>v \<in> set ws. length v = 4 \<Longrightarrow>
    length (key_groups n i ws) = i + n \<and> (\<forall>v \<in> set (key_groups n i ws). length v = 4)"
proof (induction n arbitrary: i ws)
  case (Suc n)
  have "length (ws ! (i - 8)) = 4" "length (ws ! (i - 1)) = 4" using Suc.prems by simp_all
  then have "\<forall>v \<in> set (ws @ [xor_bytes (ws ! (i - 8)) (schedule_word i (ws ! (i - 1)))]). length v = 4"
    using Suc.prems(3) by (simp add: length_schedule_word)
  with Suc.IH [of "ws @ [xor_bytes (ws ! (i - 8)) (schedule_word i (ws ! (i - 1)))]" "Suc i"] Suc.prems show ?case by simp
qed simp

lemma length_concat_4: "\<forall>v \<in> set vs. length v = 4 \<Longrightarrow> length (concat vs) = 4 * length vs"
  by (induction vs) auto

lemma length_round_key:
  assumes "length ws = 8 + 52" and "\<forall>v \<in> set ws. length v = 4" and "r < 15"
  shows "length (concat (take 4 (drop (4 * r) ws))) = 16"
proof -
  have "\<forall>v \<in> set (take 4 (drop (4 * r) ws)). length v = 4"
    using assms(2) by (auto dest: in_set_takeD in_set_dropD)
  then show ?thesis using assms(1,3) by (simp add: length_concat_4)
qed

lemma round_keys_length:
  assumes "length key = 32"
  shows "length (round_keys key) = 15" and "r < 15 \<Longrightarrow> length (round_keys key ! r) = 16"
proof -
  let ?k = "map (\<lambda>i. take 4 (drop (4 * i) key)) [0..<8]"
  let ?ws = "key_groups 52 8 ?k"
  have four: "\<forall>v \<in> set ?k. length v = 4" using assms by auto
  have eight: "length ?k = 8" by (simp only: length_map length_upt diff_zero)
  have ws: "length ?ws = 8 + 52" "\<forall>v \<in> set ?ws. length v = 4"
    using key_groups_ok [OF eight order_refl four, of 52] by blast+
  show "length (round_keys key) = 15" by (simp only: round_keys_def Let_def length_map length_upt diff_zero)
  assume r: "r < 15"
  then have "r < 15 - 0" by (simp only: diff_zero)
  then have "round_keys key ! r = concat (take 4 (drop (4 * r) ?ws))"
    unfolding round_keys_def Let_def by (simp only: nth_map_upt add_0)
  then show "length (round_keys key ! r) = 16" using length_round_key [OF ws r] by simp
qed

lemma length_aes_block: "length key = 32 \<Longrightarrow> length (aes_block key blk) = 16"
  by (simp add: aes_block_def Let_def round_keys_length)

lemma length_concat_16: "\<forall>v \<in> set vs. length v = 16 \<Longrightarrow> length (concat vs) = 16 * length vs"
  by (induction vs) auto

lemma length_key_stream:
  assumes "length key = 32"
  shows "n \<le> length (key_stream key nonce n)"
proof -
  have "length (key_stream key nonce n) = 16 * ((n + 15) div 16)"
    unfolding key_stream_def by (subst length_concat_16) (auto simp: length_aes_block [OF assms])
  then show ?thesis by linarith
qed

lemma length_be_bytes [simp]: "length (be_bytes k n) = k"
  by (simp add: be_bytes_def)

lemma length_gcm_tag: "length key = 32 \<Longrightarrow> length (gcm_tag key nonce c) = 16"
  by (simp add: gcm_tag_def ghash_def length_aes_block)

lemma gcm_open_seal:
  assumes "length key = 32"
  shows "gcm_open key nonce (gcm_seal key nonce p) = Some p"
proof -
  let ?c = "xor_bytes p (key_stream key nonce (length p))"
  have l: "length ?c = length p" using length_key_stream [OF assms, of "length p" nonce] by simp
  have t: "length (gcm_tag key nonce ?c) = 16" by (rule length_gcm_tag [OF assms])
  have "xor_bytes ?c (key_stream key nonce (length p)) = p"
    by (rule xor_bytes_twice) (rule length_key_stream [OF assms])
  then show ?thesis using l t by (simp add: gcm_open_def gcm_seal_def Let_def)
qed

end
