(* ===== verification/Security.thy ===== *)
theory Security imports GoAes Tables begin

text \<open>
  \<^verbatim>\<open>internal/security/crypto.go\<close>: the encryption of VPN credentials at rest. The environment variables are a
  function (a missing one is empty), the nonce comes from the world's random bytes.
\<close>

definition dev_key :: string where "dev_key = ''dev-secret-key-32-bytes-long!!!''"

definition GetSecretKey :: "(string \<Rightarrow> string) \<Rightarrow> byte list result" where
  "GetSecretKey getenv =
     (if getenv ''VPN_SECRET_KEY'' = [] \<and> getenv ''GIN_MODE'' = ''release''
      then Inl (ErrMsg ''VPN_SECRET_KEY environment variable is empty but GIN_MODE=release'')
      else let key = string_bytes (if getenv ''VPN_SECRET_KEY'' = [] then dev_key else getenv ''VPN_SECRET_KEY'')
        in Inr (if length key < 32 then key @ replicate (32 - length key) 0 else take 32 key))"

definition EncryptSecret :: "(string \<Rightarrow> string) \<Rightarrow> string \<Rightarrow> world \<Rightarrow> string result \<times> world" where
  "EncryptSecret getenv plainText w =
     (case GetSecretKey getenv of
        Inl e \<Rightarrow> (Inl e, w)
      | Inr key \<Rightarrow> (case rand_read 12 w of
          (None, w1) \<Rightarrow> (Inl (ErrMsg ''rand''), w1)
        | (Some nonce, w1) \<Rightarrow> (Inr (hex_encode (nonce @ gcm_seal key nonce (string_bytes plainText))), w1)))"

definition DecryptSecret :: "(string \<Rightarrow> string) \<Rightarrow> string \<Rightarrow> string result" where
  "DecryptSecret getenv cipherText =
     (case GetSecretKey getenv of
        Inl e \<Rightarrow> Inl e
      | Inr key \<Rightarrow> (case hex_decode cipherText of
          None \<Rightarrow> Inl (ErrMsg ''encoding/hex: invalid input'')
        | Some ct \<Rightarrow>
            if length ct < 12 then Inl (ErrMsg ''ciphertext too short'')
            else (case gcm_open key (take 12 ct) (drop 12 ct) of
              None \<Rightarrow> Inl (ErrMsg ''cipher: message authentication failed'')
            | Some plain \<Rightarrow> Inr (bytes_string plain))))"

definition MaskSecret :: "string \<Rightarrow> string" where
  "MaskSecret secret = (if length secret \<le> 4 then ''XXXX'' else ''XXXX-XXXX-XXXX-'' @ drop (length secret - 4) secret)"

lemma GetSecretKey_length: "GetSecretKey getenv = Inr key \<Longrightarrow> length key = 32"
  by (auto simp: GetSecretKey_def Let_def split: if_splits)

text \<open>
  C24. A stored secret reads back: whatever key the environment gives (too short and padded, too long and cut,
  or the development key), and whatever nonce was drawn, decrypting what was encrypted yields the plain text.
\<close>

theorem decrypt_encrypt:
  assumes "EncryptSecret getenv plainText w = (Inr c, w')" and "\<And>bs. rand_of w (rand_next w) 12 = Some bs \<Longrightarrow> length bs = 12"
  shows "DecryptSecret getenv c = Inr plainText"
proof -
  obtain key nonce where k: "GetSecretKey getenv = Inr key" and n: "rand_of w (rand_next w) 12 = Some nonce"
    and c: "c = hex_encode (nonce @ gcm_seal key nonce (string_bytes plainText))"
    using assms(1) by (auto simp: EncryptSecret_def rand_read_def split: sum.splits option.splits)
  have "length nonce = 12" by (rule assms(2) [OF n])
  then show ?thesis
    by (simp add: DecryptSecret_def k c hex_decode_encode gcm_open_seal [OF GetSecretKey_length [OF k]])
qed

theorem decrypt_encrypt_witness:
  "\<exists>c. fst (EncryptSecret (\<lambda>_. []) ''ABCD-1234'' start_world) = Inr c \<and> DecryptSecret (\<lambda>_. []) c = Inr ''ABCD-1234''"
proof -
  obtain c w' where e: "EncryptSecret (\<lambda>_. []) ''ABCD-1234'' start_world = (Inr c, w')"
    by (simp add: EncryptSecret_def GetSecretKey_def rand_read_def Let_def)
  have "DecryptSecret (\<lambda>_. []) c = Inr ''ABCD-1234''"
    by (rule decrypt_encrypt [OF e]) simp
  then show ?thesis by (intro exI [of _ c]) (simp add: e)
qed

end
