(* ===== verification/Locations.thy ===== *)
theory Locations imports GoStrings begin

text \<open>
  \<^verbatim>\<open>internal/vpn/locations.go\<close> and \<^verbatim>\<open>internal/cache/location_cache.go\<close>: the catalogue of VPN locations, the parser
  of \<^verbatim>\<open>expressvpn list all\<close>, and the cache with its time to live. A flag is its eight bytes of UTF-8.
\<close>

record VPNLocation =
  lo_Country :: string
  lo_City :: string
  lo_Alias :: string
  lo_DisplayName :: string
  lo_Region :: string
  lo_Flag :: string
  lo_Recommended :: bool

text \<open>Two regional indicator symbols (U+1F1E6 for A, and so on), and the globe with meridians.\<close>

definition flag :: "string \<Rightarrow> string" where
  "flag cc = concat (map (\<lambda>c. [CHR 0xF0, CHR 0x9F, CHR 0x87, char_of (101 + of_char c :: nat)]) cc)"

definition globe :: string where "globe = [CHR 0xF0, CHR 0x9F, CHR 0x8C, CHR 0x90]"

definition asia :: string where "asia = ''Asia Pacific''"

definition loc :: "string \<Rightarrow> string \<Rightarrow> string \<Rightarrow> string \<Rightarrow> string \<Rightarrow> string \<Rightarrow> bool \<Rightarrow> VPNLocation" where
  "loc country city alias display region cc rec =
     \<lparr>lo_Country = country, lo_City = city, lo_Alias = alias, lo_DisplayName = display, lo_Region = region,
      lo_Flag = flag cc, lo_Recommended = rec\<rparr>"

definition FallbackLocations :: "VPNLocation list" where
  "FallbackLocations =
     [loc ''Vietnam'' ''Vietnam'' ''vietnam'' ''Vietnam'' asia ''VN'' True,
      loc ''Singapore'' ''Singapore'' ''singapore'' ''Singapore'' asia ''SG'' True,
      loc ''Malaysia'' ''Malaysia'' ''malaysia'' ''Malaysia'' asia ''MY'' False,
      loc ''Thailand'' ''Thailand'' ''thailand'' ''Thailand'' asia ''TH'' False,
      loc ''Hong Kong'' ''Hong Kong'' ''hongkong'' ''Hong Kong'' asia ''HK'' True,
      loc ''Japan'' ''Tokyo'' ''japan-tokyo'' ''Japan - Tokyo'' asia ''JP'' True,
      loc ''South Korea'' ''Seoul'' ''southkorea'' ''South Korea'' asia ''KR'' False,
      loc ''Australia'' ''Sydney'' ''australia'' ''Australia - Sydney'' asia ''AU'' True,
      loc ''New Zealand'' ''Auckland'' ''newzealand'' ''New Zealand'' asia ''NZ'' False,
      loc ''United States'' ''New York'' ''usa-new-york'' ''United States - New York'' ''Americas'' ''US'' True,
      loc ''United States'' ''Los Angeles'' ''usa-los-angeles'' ''United States - Los Angeles'' ''Americas'' ''US'' True,
      loc ''Canada'' ''Toronto'' ''canada'' ''Canada - Toronto'' ''Americas'' ''CA'' True,
      loc ''Mexico'' ''Mexico City'' ''mexico'' ''Mexico'' ''Americas'' ''MX'' False,
      loc ''Brazil'' ''Sao Paulo'' ''brazil'' ''Brazil'' ''Americas'' ''BR'' False,
      loc ''Chile'' ''Santiago'' ''chile'' ''Chile'' ''Americas'' ''CL'' False,
      loc ''Argentina'' ''Buenos Aires'' ''argentina'' ''Argentina'' ''Americas'' ''AR'' False,
      loc ''United Kingdom'' ''London'' ''uk-london'' ''United Kingdom - London'' ''Europe'' ''GB'' True,
      loc ''Germany'' ''Frankfurt'' ''germany-frankfurt'' ''Germany - Frankfurt'' ''Europe'' ''DE'' True,
      loc ''France'' ''Paris'' ''france'' ''France - Paris'' ''Europe'' ''FR'' True,
      loc ''Netherlands'' ''Amsterdam'' ''netherlands'' ''Netherlands'' ''Europe'' ''NL'' True]"

definition RegionFlagMap :: "(string \<times> string \<times> string) list" where
  "RegionFlagMap =
     [(''vietnam'', asia, flag ''VN''), (''singapore'', asia, flag ''SG''), (''malaysia'', asia, flag ''MY''),
      (''thailand'', asia, flag ''TH''), (''hong kong'', asia, flag ''HK''), (''hongkong'', asia, flag ''HK''),
      (''japan'', asia, flag ''JP''), (''south korea'', asia, flag ''KR''), (''southkorea'', asia, flag ''KR''),
      (''australia'', asia, flag ''AU''), (''new zealand'', asia, flag ''NZ''), (''newzealand'', asia, flag ''NZ''),
      (''united states'', ''Americas'', flag ''US''), (''usa'', ''Americas'', flag ''US''), (''canada'', ''Americas'', flag ''CA''),
      (''mexico'', ''Americas'', flag ''MX''), (''brazil'', ''Americas'', flag ''BR''), (''chile'', ''Americas'', flag ''CL''),
      (''argentina'', ''Americas'', flag ''AR''), (''united kingdom'', ''Europe'', flag ''GB''), (''uk'', ''Europe'', flag ''GB''),
      (''germany'', ''Europe'', flag ''DE''), (''france'', ''Europe'', flag ''FR''), (''netherlands'', ''Europe'', flag ''NL'')]"

section \<open>The parser\<close>

text \<open>
  The region of a location: the first matching entry in the order in which the Go map is iterated (\<open>entries\<close>,
  any order of \<open>RegionFlagMap\<close>).
\<close>

definition region_of :: "(string \<times> string \<times> string) list \<Rightarrow> string \<Rightarrow> string \<Rightarrow> string \<times> string" where
  "region_of entries country alias =
     (case List.find (\<lambda>(key, _). contains (to_lower country) key \<or> contains (to_lower alias) key) entries of
        None \<Rightarrow> (''Other'', globe) | Some (_, m) \<Rightarrow> m)"

definition recommended_mark :: "string \<Rightarrow> bool" where
  "recommended_mark s \<longleftrightarrow> to_upper s \<in> {''Y'', ''YES'', ''TRUE''}"

definition parse_location :: "(string \<times> string \<times> string) list \<Rightarrow> string \<Rightarrow> VPNLocation option" where
  "parse_location entries raw =
     (let line = trim_space raw; fs = GoStrings.fields line in
      if line = [] \<or> has_prefix line ''-'' \<or> has_prefix (to_lower line) ''alias'' \<or> length fs < 2 then None
      else let alias = hd fs;
               rec = recommended_mark (last fs);
               display = join '' '' (tl (if rec then butlast fs else fs));
               (country, city) = (if contains display ''-''
                 then (let ps = split_on (CHR ''-'') display in (trim_space (ps ! 0), trim_space (ps ! 1)))
                 else (display, display));
               (region, flg) = region_of entries country alias
           in Some \<lparr>lo_Country = country, lo_City = city, lo_Alias = alias, lo_DisplayName = display,
                lo_Region = region, lo_Flag = flg, lo_Recommended = rec\<rparr>)"

definition ParseExpressVpnLocations :: "(string \<times> string \<times> string) list \<Rightarrow> string \<Rightarrow> VPNLocation list" where
  "ParseExpressVpnLocations entries output =
     (case List.map_filter (parse_location entries) (split_on (CHR 0x0A) output) of
        [] \<Rightarrow> FallbackLocations | ls \<Rightarrow> ls)"

section \<open>The cache\<close>

record LocationCache =
  lc_locations :: "VPNLocation list option"
  lc_expiration :: time
  lc_ttl :: duration

definition NewLocationCache :: "duration \<Rightarrow> LocationCache" where
  "NewLocationCache ttl = \<lparr>lc_locations = None, lc_expiration = zero_time, lc_ttl = ttl\<rparr>"

definition cache_Get :: "time \<Rightarrow> LocationCache \<Rightarrow> VPNLocation list option" where
  "cache_Get now c = (if lc_expiration c < now then None else lc_locations c)"

definition cache_Set :: "time \<Rightarrow> VPNLocation list \<Rightarrow> LocationCache \<Rightarrow> LocationCache" where
  "cache_Set now ls c = c\<lparr>lc_locations := Some ls, lc_expiration := now + lc_ttl c\<rparr>"

definition cache_Clear :: "LocationCache \<Rightarrow> LocationCache" where
  "cache_Clear c = c\<lparr>lc_locations := None\<rparr>"

text \<open>A read returns what the last write stored, for as long as the time to live, and nothing after a clear.\<close>

lemma cache_read_your_write:
  "cache_Get now' (cache_Set now ls c) = (if now' \<le> now + lc_ttl c then Some ls else None)"
  "cache_Get now' (cache_Clear c) = None"
  by (simp_all add: cache_Get_def cache_Set_def cache_Clear_def)

text \<open>A location of the output that is parsed has the alias of its line, and never an empty name.\<close>

lemma parse_location_alias:
  "parse_location entries raw = Some l \<Longrightarrow> lo_Alias l = hd (GoStrings.fields (trim_space raw))"
  by (auto simp: parse_location_def Let_def split: if_splits prod.splits)

lemma locations_never_empty: "ParseExpressVpnLocations entries output \<noteq> []"
  by (simp add: ParseExpressVpnLocations_def FallbackLocations_def split: list.split)

end
