(* ===== verification/Network.thy ===== *)
theory Network imports GoStrings begin

text \<open>
  \<^verbatim>\<open>internal/network/ip_resolver.go\<close> and \<^verbatim>\<open>geo_resolver.go\<close>: the public address and its location, asked from a chain of
  web services. A service is a parameter: its answer to a URL is an error of the client, or a body; of a JSON
  service the status and the document (\<open>None\<close> when the body is no JSON). Decoding a document into a struct is
  modelled: keys match in any case, the last one wins, \<^verbatim>\<open>null\<close> leaves a field alone, a wrong type is an error.
\<close>

datatype json = JNull | JBool bool | JNum real | JStr string | JList "json list" | JObj "(string \<times> json) list"

record web =
  web_text :: "string \<Rightarrow> string result"
  web_json :: "string \<Rightarrow> (int \<times> json option) result"

section \<open>Decoding into a struct\<close>

definition field_values :: "string \<Rightarrow> (string \<times> json) list \<Rightarrow> json list" where
  "field_values name kvs = map snd (filter (\<lambda>(k, _). to_lower k = to_lower name) kvs)"

fun decode_str :: "string \<Rightarrow> json list \<Rightarrow> string option" where
  "decode_str s [] = Some s"
| "decode_str s (JStr t # r) = decode_str t r"
| "decode_str s (JNull # r) = decode_str s r"
| "decode_str s (_ # r) = None"

fun decode_bool :: "bool \<Rightarrow> json list \<Rightarrow> bool option" where
  "decode_bool b [] = Some b"
| "decode_bool b (JBool c # r) = decode_bool c r"
| "decode_bool b (JNull # r) = decode_bool b r"
| "decode_bool b (_ # r) = None"

text \<open>A nested struct that occurs several times is filled by all of its occurrences, one after the other.\<close>

fun decode_struct :: "json list \<Rightarrow> (string \<times> json) list option" where
  "decode_struct [] = Some []"
| "decode_struct (JObj kvs # r) = map_option ((@) kvs) (decode_struct r)"
| "decode_struct (JNull # r) = decode_struct r"
| "decode_struct (_ # r) = None"

definition str_field :: "string \<Rightarrow> (string \<times> json) list \<Rightarrow> string option" where
  "str_field name kvs = decode_str [] (field_values name kvs)"

text \<open>A field of type \<^verbatim>\<open>interface{}\<close> takes any value.\<close>

definition any_field :: "string \<Rightarrow> (string \<times> json) list \<Rightarrow> json" where
  "any_field name kvs = (case field_values name kvs of [] \<Rightarrow> JNull | vs \<Rightarrow> last vs)"

definition json_document :: "json option \<Rightarrow> (string \<times> json) list option" where
  "json_document body = (case body of None \<Rightarrow> None | Some j \<Rightarrow> decode_struct [j])"

section \<open>The public address\<close>

definition IPProviders :: "string list" where
  "IPProviders = [''https://api.ipify.org'', ''https://ifconfig.me/ip'', ''https://icanhazip.com'']"

text \<open>The status of the reply is not looked at.\<close>

definition queryProvider :: "web \<Rightarrow> string \<Rightarrow> string result" where
  "queryProvider net url = map_sum id trim_space (web_text net url)"

fun try_providers :: "web \<Rightarrow> string list \<Rightarrow> gerr \<Rightarrow> string result" where
  "try_providers net [] lastErr = Inl lastErr"
| "try_providers net (provider # rest) lastErr =
     (case queryProvider net provider of Inr ip \<Rightarrow> Inr ip | Inl e \<Rightarrow> try_providers net rest e)"

definition ResolvePublicIP :: "web \<Rightarrow> string result" where
  "ResolvePublicIP net = try_providers net IPProviders (ErrMsg [])"

section \<open>The location of an address\<close>

record GeoIPInfo =
  geo_Country :: string
  geo_CountryCode :: string
  geo_RegionName :: string
  geo_City :: string
  geo_ISP :: string
  geo_AS :: string
  geo_Timezone :: string

definition geo_info :: "string \<Rightarrow> string \<Rightarrow> string \<Rightarrow> string \<Rightarrow> string \<Rightarrow> string \<Rightarrow> string \<Rightarrow> GeoIPInfo" where
  "geo_info country code region city isp asn tz =
     \<lparr>geo_Country = country, geo_CountryCode = code, geo_RegionName = region, geo_City = city, geo_ISP = isp,
      geo_AS = asn, geo_Timezone = tz\<rparr>"

definition mockGeos :: "string \<Rightarrow> GeoIPInfo option" where
  "mockGeos = map_of
     [(''103.10.10.10'', geo_info ''Vietnam'' ''VN'' ''Ho Chi Minh City'' ''Ho Chi Minh City'' ''Viettel Group'' ''AS7552'' ''Asia/Ho_Chi_Minh''),
      (''45.90.90.10'', geo_info ''Singapore'' ''SG'' ''Singapore'' ''Singapore'' ''M247'' ''AS9009'' ''Asia/Singapore''),
      (''150.95.10.10'', geo_info ''Japan'' ''JP'' ''Tokyo'' ''Tokyo'' ''GMO Internet'' ''AS3791'' ''Asia/Tokyo''),
      (''198.51.100.10'', geo_info ''United States'' ''US'' ''New York'' ''New York'' ''DigitalOcean'' ''AS14061'' ''America/New_York''),
      (''10.200.0.2'', geo_info ''Vietnam'' ''VN'' ''Hanoi'' ''Hanoi'' ''Viettel'' ''AS7552'' ''Asia/Ho_Chi_Minh'')]"

definition local_network :: GeoIPInfo where
  "local_network = geo_info ''Local/Private Network'' ''LCL'' ''Private'' ''Private'' ''IANA'' ''AS0'' ''UTC''"

text \<open>The document of a reply with status 200.\<close>

definition get_json :: "web \<Rightarrow> string \<Rightarrow> string \<Rightarrow> (string \<times> json) list result" where
  "get_json net service url =
     (case web_json net url of
        Inl e \<Rightarrow> Inl e
      | Inr (status, body) \<Rightarrow>
          if status \<noteq> 200 then Inl (ErrMsg (service @ '' returned status '' @ itoa status))
          else (case json_document body of None \<Rightarrow> Inl (ErrMsg ''json'') | Some kvs \<Rightarrow> Inr kvs))"

text \<open>All the fields of a reply, or the error of a wrong type.\<close>

definition str_fields :: "string list \<Rightarrow> (string \<times> json) list \<Rightarrow> string list option" where
  "str_fields names kvs = those (map (\<lambda>n. str_field n kvs) names)"

definition resolveIpInfo :: "web \<Rightarrow> string \<Rightarrow> GeoIPInfo result" where
  "resolveIpInfo net ip =
     (case get_json net ''ipinfo.io'' (''https://ipinfo.io/'' @ ip @ ''/json'') of
        Inl e \<Rightarrow> Inl e
      | Inr kvs \<Rightarrow> (case str_fields [''ip'', ''country'', ''region'', ''city'', ''org'', ''timezone''] kvs of
          Some [_, country, region, city, org, tz] \<Rightarrow>
            (let parts = split2 (CHR '' '') org;
                 asn = (if org \<noteq> [] then hd parts else ''Unknown'');
                 isp = (if org \<noteq> [] \<and> length parts > 1 then parts ! 1 else ''Unknown'')
             in Inr (geo_info country country region city isp asn tz))
        | _ \<Rightarrow> Inl (ErrMsg ''json'')))"

text \<open>\<^verbatim>\<open>int(v)\<close> of a float drops the fraction.\<close>

definition truncate_real :: "real \<Rightarrow> int" where
  "truncate_real v = (if v < 0 then \<lceil>v\<rceil> else \<lfloor>v\<rfloor>)"

definition asn_text :: "json \<Rightarrow> string" where
  "asn_text j = (case j of JStr s \<Rightarrow> s | JNum v \<Rightarrow> ''AS'' @ itoa (truncate_real v) | _ \<Rightarrow> ''Unknown'')"

definition resolveIpWhoIs :: "web \<Rightarrow> string \<Rightarrow> GeoIPInfo result" where
  "resolveIpWhoIs net ip =
     (case get_json net ''ipwho.is'' (''https://ipwho.is/'' @ ip) of
        Inl e \<Rightarrow> Inl e
      | Inr kvs \<Rightarrow>
          (case (decode_bool False (field_values ''success'' kvs), str_fields [''country'', ''country_code'', ''region'', ''city''] kvs,
                 decode_struct (field_values ''connection'' kvs), decode_struct (field_values ''timezone'' kvs)) of
             (Some success, Some [country, code, region, city], Some conn, Some zone) \<Rightarrow>
               (case (str_field ''isp'' conn, str_field ''id'' zone) of
                  (Some isp, Some tz) \<Rightarrow>
                    if success then Inr (geo_info country code region city isp (asn_text (any_field ''asn'' conn)) tz)
                    else Inl (ErrMsg (''ipwho.is resolution failed for IP '' @ ip))
                | _ \<Rightarrow> Inl (ErrMsg ''json''))
           | _ \<Rightarrow> Inl (ErrMsg ''json'')))"

definition resolveIpApi :: "web \<Rightarrow> string \<Rightarrow> GeoIPInfo result" where
  "resolveIpApi net ip =
     (case get_json net ''ip-api.com'' (''http://ip-api.com/json/'' @ ip) of
        Inl e \<Rightarrow> Inl e
      | Inr kvs \<Rightarrow> (case str_fields [''status'', ''country'', ''countryCode'', ''regionName'', ''city'', ''isp'', ''as'', ''timezone''] kvs of
          Some [status, country, code, region, city, isp, asn, tz] \<Rightarrow>
            if status \<noteq> ''success'' then Inl (ErrMsg (''ip-api.com resolution failed for IP '' @ ip))
            else Inr (geo_info country code region city isp (if asn \<noteq> [] then hd (split_on (CHR '' '') asn) else ''Unknown'') tz)
        | _ \<Rightarrow> Inl (ErrMsg ''json'')))"

definition local_ip :: "string \<Rightarrow> bool" where
  "local_ip ip \<longleftrightarrow> ip = [] \<or> has_prefix ip ''127.'' \<or> has_prefix ip ''10.'' \<or> has_prefix ip ''192.168.'' \<or> ip = ''0.0.0.0''"

definition ResolveGeoIP :: "web \<Rightarrow> string \<Rightarrow> GeoIPInfo result" where
  "ResolveGeoIP net raw =
     (let ip = trim_space raw in
      case mockGeos ip of
        Some info \<Rightarrow> Inr info
      | None \<Rightarrow>
          if local_ip ip then Inr local_network
          else (case resolveIpInfo net ip of Inr info \<Rightarrow> Inr info | Inl _ \<Rightarrow>
            (case resolveIpWhoIs net ip of Inr info \<Rightarrow> Inr info | Inl _ \<Rightarrow>
              (case resolveIpApi net ip of Inr info \<Rightarrow> Inr info
               | Inl e \<Rightarrow> Inl (ErrMsg (''failed to resolve GeoIP details: '' @ err_text e))))))"

section \<open>The chains\<close>

text \<open>The answer is that of the first service that answers; the error is that of the last.\<close>

lemma try_providers_first:
  "try_providers net urls e = (case List.map_filter (\<lambda>u. case queryProvider net u of Inr ip \<Rightarrow> Some ip | Inl _ \<Rightarrow> None) urls of
     ip # _ \<Rightarrow> Inr ip
   | [] \<Rightarrow> Inl (if urls = [] then e else projl (queryProvider net (last urls))))"
  by (induction urls arbitrary: e) (auto simp: List.map_filter_simps split: sum.split list.split)

lemma public_ip_trimmed: "ResolvePublicIP net = Inr ip \<Longrightarrow> trim_space ip = ip"
proof -
  have q: "queryProvider net u = Inr ip \<Longrightarrow> trim_space ip = ip" for u
    by (cases "web_text net u") (auto simp: queryProvider_def)
  have "try_providers net us e = Inr ip \<Longrightarrow> trim_space ip = ip" for us e
    by (induction us arbitrary: e) (auto dest: q split: sum.splits)
  then show "ResolvePublicIP net = Inr ip \<Longrightarrow> trim_space ip = ip" by (auto simp: ResolvePublicIP_def)
qed

text \<open>Known and private addresses are answered without a request, whatever the web says.\<close>

lemma geo_offline:
  "mockGeos (trim_space ip) \<noteq> None \<or> local_ip (trim_space ip) \<Longrightarrow> \<exists>info. \<forall>net. ResolveGeoIP net ip = Inr info"
  by (cases "mockGeos (trim_space ip)") (auto simp: ResolveGeoIP_def Let_def)

end
