(* ===== verification/VpnDrivers.thy ===== *)
theory VpnDrivers imports WireGuard Security Locations Network Repository begin

text \<open>
  The four drivers of \<^verbatim>\<open>internal/vpn\<close>: \<^verbatim>\<open>mock_driver.go\<close>, \<^verbatim>\<open>wg_driver.go\<close>, \<^verbatim>\<open>expressvpn_driver.go\<close> and
  \<^verbatim>\<open>expressvpn_mock.go\<close>. A host keeps what the drivers keep (their active interfaces, the mock's counter) and the
  log of the commands it ran. The operating system is a parameter: what a command answers may depend on all that
  ran before it. A slice \<^verbatim>\<open>node.ID[:8]\<close> of a shorter id panics. On an error a driver leaves the node alone.
\<close>

section \<open>The operating system and the host\<close>

record vpn_env =
  ve_goos :: string
  ve_getenv :: "string \<Rightarrow> string"
  ve_look :: "string \<Rightarrow> bool"
  ve_run :: "string list list \<Rightarrow> string list \<Rightarrow> string \<times> string option"
  ve_wait :: "nat \<Rightarrow> gerr option"
  ve_web :: "string list list \<Rightarrow> nat \<Rightarrow> web"
  ve_resolver :: resolver
  ve_temp :: "string result"
  ve_write :: "gerr option"
  ve_intn :: "nat \<Rightarrow> int \<Rightarrow> int"
  ve_regions :: "(string \<times> string \<times> string) list"

record vpn_host =
  vh_mock :: "string \<Rightarrow> VpnIface option"
  vh_wireguard :: "string \<Rightarrow> VpnIface option"
  vh_express :: "string \<Rightarrow> VpnIface option"
  vh_express_mock :: "string \<Rightarrow> VpnIface option"
  vh_counter :: int
  vh_log :: "string list list"
  vh_waits :: nat
  vh_lookups :: nat
  vh_draws :: nat

definition new_host :: vpn_host where
  "new_host = \<lparr>vh_mock = \<lambda>_. None, vh_wireguard = \<lambda>_. None, vh_express = \<lambda>_. None, vh_express_mock = \<lambda>_. None,
     vh_counter = 0, vh_log = [], vh_waits = 0, vh_lookups = 0, vh_draws = 0\<rparr>"

type_synonym vpn_state = "vpn_host \<times> world"

datatype 'a outcome = Panics | Returns 'a

text \<open>\<^verbatim>\<open>exec.Command(...).CombinedOutput()\<close>: the output, and the error if there is one.\<close>

definition run_cmd :: "vpn_env \<Rightarrow> string list \<Rightarrow> vpn_host \<Rightarrow> (string \<times> string option) \<times> vpn_host" where
  "run_cmd env args h = (ve_run env (vh_log h) args, h\<lparr>vh_log := vh_log h @ [args]\<rparr>)"

text \<open>The select of \<^verbatim>\<open>ctx.Done()\<close> and a timer: \<open>None\<close> when the timer fires, else the error of the context.\<close>

definition wait_timer :: "vpn_env \<Rightarrow> vpn_host \<Rightarrow> gerr option \<times> vpn_host" where
  "wait_timer env h = (ve_wait env (vh_waits h), h\<lparr>vh_waits := Suc (vh_waits h)\<rparr>)"

definition public_ip :: "vpn_env \<Rightarrow> vpn_host \<Rightarrow> string result \<times> vpn_host" where
  "public_ip env h = (ResolvePublicIP (ve_web env (vh_log h) (vh_lookups h)), h\<lparr>vh_lookups := Suc (vh_lookups h)\<rparr>)"

definition geo_ip :: "vpn_env \<Rightarrow> string \<Rightarrow> vpn_host \<Rightarrow> GeoIPInfo result \<times> vpn_host" where
  "geo_ip env ip h = (ResolveGeoIP (ve_web env (vh_log h) (vh_lookups h)) ip, h\<lparr>vh_lookups := Suc (vh_lookups h)\<rparr>)"

definition intn :: "vpn_env \<Rightarrow> int \<Rightarrow> vpn_host \<Rightarrow> int \<times> vpn_host" where
  "intn env n h = (ve_intn env (vh_draws h) n mod n, h\<lparr>vh_draws := Suc (vh_draws h)\<rparr>)"

definition iface :: "VPNNode \<Rightarrow> string \<Rightarrow> string \<Rightarrow> string option \<Rightarrow> VpnIface" where
  "iface node localIP name ns = \<lparr>vi_id = vn_ID node, vi_name = vn_Name node, vi_localIP = localIP,
     vi_interfaceName = name, vi_status = ''connected'', vi_namespace = ns\<rparr>"

section \<open>The mock driver\<close>

definition mock_geos :: "(string \<times> string \<times> string \<times> string \<times> string) list" where
  "mock_geos = [(''104.244.72.11'', ''United States'', ''California'', ''Twitter Inc.'', ''AS13414''),
     (''185.190.140.23'', ''Germany'', ''Frankfurt'', ''Mullvad VPN'', ''AS20001''),
     (''82.102.23.109'', ''United Kingdom'', ''London'', ''NordVPN'', ''AS13678''),
     (''210.140.10.45'', ''Japan'', ''Tokyo'', ''Softbank'', ''AS2519''),
     (''103.84.22.1'', ''Vietnam'', ''Hanoi'', ''Viettel Group'', ''AS7552'')]"

definition mock_Connect :: "vpn_env \<Rightarrow> VPNNode \<Rightarrow> vpn_state \<Rightarrow> (VpnIface \<times> VPNNode) result outcome \<times> vpn_state" where
  "mock_Connect env node st = (case st of (h, w) \<Rightarrow>
     (case vh_mock h (vn_ID node) of
        Some ifc \<Rightarrow> (Returns (Inr (ifc, node)), (h, w))
      | None \<Rightarrow>
          (let h1 = h\<lparr>vh_counter := vh_counter h + 1\<rparr>;
               name = ''mock-wg'' @ itoa (vh_counter h1);
               localIP = ''10.200.0.'' @ itoa (vh_counter h1 + 1);
               (i, h2) = intn env (int (length mock_geos)) h1;
               (ip, country, region, isp, asn) = mock_geos ! nat i;
               (l, h3) = intn env 80 h2;
               ifc = iface node localIP name None;
               node' = node\<lparr>vn_IP := ip, vn_Country := country, vn_Region := region, vn_ISP := isp, vn_ASN := asn,
                 vn_LatencyMs := 20 + l, vn_Status := ''connected'', vn_InterfaceName := name, vn_LocalIP := localIP,
                 vn_LastConnectedAt := Some (clock w)\<rparr>
           in (Returns (Inr (ifc, node')), (h3\<lparr>vh_mock := (vh_mock h3)(vn_ID node \<mapsto> ifc)\<rparr>, w)))))"

definition mock_Disconnect :: "vpn_env \<Rightarrow> VPNNode \<Rightarrow> vpn_state \<Rightarrow> VPNNode result \<times> vpn_state" where
  "mock_Disconnect env node st = (case st of (h, w) \<Rightarrow>
     (Inr (node\<lparr>vn_Status := ''disconnected'', vn_InterfaceName := [], vn_LocalIP := []\<rparr>),
      (h\<lparr>vh_mock := (vh_mock h)(vn_ID node := None)\<rparr>, w)))"

section \<open>The WireGuard driver\<close>

definition wg_commands :: "string \<Rightarrow> string \<Rightarrow> string \<Rightarrow> string \<Rightarrow> string list list" where
  "wg_commands nsName ifaceName tmpFile localIP =
     [[''ip'', ''netns'', ''add'', nsName],
      [''ip'', ''link'', ''add'', ifaceName, ''type'', ''wireguard''],
      [''ip'', ''link'', ''set'', ifaceName, ''netns'', nsName],
      [''ip'', ''netns'', ''exec'', nsName, ''wg'', ''setconf'', ifaceName, tmpFile],
      [''ip'', ''netns'', ''exec'', nsName, ''ip'', ''address'', ''add'', localIP, ''dev'', ifaceName],
      [''ip'', ''netns'', ''exec'', nsName, ''ip'', ''link'', ''set'', ifaceName, ''up''],
      [''ip'', ''netns'', ''exec'', nsName, ''ip'', ''link'', ''set'', ''lo'', ''up''],
      [''ip'', ''netns'', ''exec'', nsName, ''ip'', ''route'', ''add'', ''default'', ''dev'', ifaceName]]"

definition delete_netns :: "string \<Rightarrow> string list" where
  "delete_netns nsName = [''ip'', ''netns'', ''delete'', nsName]"

text \<open>The commands in order; when one fails the namespace is deleted and the rest is not run.\<close>

fun run_commands :: "vpn_env \<Rightarrow> string \<Rightarrow> string list list \<Rightarrow> vpn_host \<Rightarrow> unit result \<times> vpn_host" where
  "run_commands env nsName [] h = (Inr (), h)"
| "run_commands env nsName (args # rest) h =
     (case run_cmd env args h of
        ((_, None), h1) \<Rightarrow> run_commands env nsName rest h1
      | ((out, Some e), h1) \<Rightarrow>
          (Inl (ErrMsg (''failed running ['' @ join '' '' args @ '']: '' @ e @ '', output: '' @ out)),
           snd (run_cmd env (delete_netns nsName) h1)))"

definition wg_local_ip :: "VPNNode \<Rightarrow> string" where
  "wg_local_ip node = (let localIP = parseLocalIP (vn_ConfigText node) in if localIP = [] then ''10.0.0.2/24'' else localIP)"

definition wg_Connect :: "vpn_env \<Rightarrow> VPNNode \<Rightarrow> vpn_state \<Rightarrow> (VpnIface \<times> VPNNode) result outcome \<times> vpn_state" where
  "wg_Connect env node st = (case st of (h, w) \<Rightarrow>
     if ve_goos env \<noteq> ''linux'' then
       (Returns (Inl (ErrMsg ''WireGuard driver with Network Namespaces is only supported on Linux'')), (h, w))
     else (case vh_wireguard h (vn_ID node) of
       Some ifc \<Rightarrow> (Returns (Inr (ifc, node)), (h, w))
     | None \<Rightarrow>
         if length (vn_ID node) < 8 then (Panics, (h, w))
         else (let nsName = ''ns-'' @ take 8 (vn_ID node); ifaceName = ''wg-'' @ take 8 (vn_ID node) in
           case ve_temp env of
             Inl e \<Rightarrow> (Returns (Inl (ErrMsg (''failed to create temp file: '' @ err_text e))), (h, w))
           | Inr tmpFile \<Rightarrow>
               (case sanitizeWireGuardConfig (ve_resolver env) (vn_ConfigText node) of
                  Inl e \<Rightarrow> (Returns (Inl (ErrMsg (''failed to sanitize WireGuard config: '' @ err_text e))), (h, w))
                | Inr wgConfig \<Rightarrow>
                    (case ve_write env of
                       Some e \<Rightarrow> (Returns (Inl (ErrMsg (''failed to write config file: '' @ err_text e))), (h, w))
                     | None \<Rightarrow>
                         (let localIP = wg_local_ip node in
                          case run_commands env nsName (wg_commands nsName ifaceName tmpFile localIP) h of
                            (Inl e, h1) \<Rightarrow> (Returns (Inl e), (h1, w))
                          | (Inr _, h1) \<Rightarrow>
                              (let ifc = iface node localIP ifaceName (Some nsName);
                                   node' = node\<lparr>vn_Status := ''connected'', vn_InterfaceName := ifaceName, vn_LocalIP := localIP\<rparr>
                               in (Returns (Inr (ifc, node')), (h1\<lparr>vh_wireguard := (vh_wireguard h1)(vn_ID node \<mapsto> ifc)\<rparr>, w)))))))))"

definition wg_Disconnect :: "vpn_env \<Rightarrow> VPNNode \<Rightarrow> vpn_state \<Rightarrow> VPNNode result \<times> vpn_state" where
  "wg_Disconnect env node st = (case st of (h, w) \<Rightarrow>
     (case vh_wireguard h (vn_ID node) of
        None \<Rightarrow> (Inr node, (h, w))
      | Some ifc \<Rightarrow>
          (let nsName = (case vi_namespace ifc of None \<Rightarrow> [] | Some ns \<Rightarrow> ns) in
           case run_cmd env (delete_netns nsName) h of
             ((out, Some e), h1) \<Rightarrow>
               (Inl (ErrMsg (''failed to delete netns '' @ nsName @ '': '' @ e @ '', output: '' @ out)), (h1, w))
           | ((_, None), h1) \<Rightarrow>
               (Inr (node\<lparr>vn_Status := ''disconnected'', vn_InterfaceName := [], vn_LocalIP := []\<rparr>),
                (h1\<lparr>vh_wireguard := (vh_wireguard h1)(vn_ID node := None)\<rparr>, w)))))"

section \<open>The ExpressVPN driver\<close>

definition expressvpn :: "string list \<Rightarrow> string list" where
  "expressvpn args = ''expressvpn'' # args"

definition isActivated :: "vpn_env \<Rightarrow> vpn_host \<Rightarrow> bool \<times> vpn_host" where
  "isActivated env h =
     (case run_cmd env (expressvpn [''status'']) h of
        ((out, e), h1) \<Rightarrow> (e = None \<and> \<not> contains (to_lower out) ''not activated'' \<and> \<not> contains (to_lower out) ''activate'', h1))"

text \<open>The polling loop: \<open>n\<close> rounds are left.\<close>

fun poll_status :: "vpn_env \<Rightarrow> nat \<Rightarrow> vpn_host \<Rightarrow> bool result \<times> vpn_host" where
  "poll_status env 0 h = (Inr False, h)"
| "poll_status env (Suc n) h =
     (case wait_timer env h of
        (Some e, h1) \<Rightarrow> (Inl e, h1)
      | (None, h1) \<Rightarrow>
          (case run_cmd env (expressvpn [''status'']) h1 of
             ((out, e), h2) \<Rightarrow>
               if e = None \<and> contains (to_lower out) ''connected to'' then (Inr True, h2) else poll_status env n h2))"

text \<open>\<^verbatim>\<open>activate\<close> runs only when the tool is not activated yet.\<close>

definition activate_if_needed :: "vpn_env \<Rightarrow> string \<Rightarrow> vpn_host \<Rightarrow> unit result \<times> vpn_host" where
  "activate_if_needed env secret h =
     (case isActivated env h of
        (True, h1) \<Rightarrow> (Inr (), h1)
      | (False, h1) \<Rightarrow>
          (case run_cmd env (expressvpn [''activate'', secret]) h1 of
             ((_, None), h2) \<Rightarrow> (Inr (), h2)
           | ((out, Some e), h2) \<Rightarrow> (Inl (ErrMsg (''failed to activate ExpressVPN: '' @ e @ '', output: '' @ out)), h2)))"

text \<open>The address after the connection, asked at most twice, and the node with its location.\<close>

definition resolve_exit :: "vpn_env \<Rightarrow> vpn_host \<Rightarrow> string \<times> vpn_host" where
  "resolve_exit env h =
     (case public_ip env h of
        (Inr ip, h1) \<Rightarrow> (ip, h1)
      | (Inl _, h1) \<Rightarrow> (case public_ip env h1 of (Inr ip, h2) \<Rightarrow> (ip, h2) | (Inl _, h2) \<Rightarrow> (''0.0.0.0'', h2)))"

definition express_node :: "time \<Rightarrow> string \<Rightarrow> GeoIPInfo result \<Rightarrow> VPNNode \<Rightarrow> VPNNode" where
  "express_node now publicIP geo node =
     (let (country, node1) = (case geo of
            Inr g \<Rightarrow> (geo_Country g, node\<lparr>vn_ISP := geo_ISP g, vn_ASN := geo_AS g\<rparr>) | Inl _ \<Rightarrow> (''Unknown'', node))
      in node1\<lparr>vn_IP := publicIP, vn_PublicIP := publicIP, vn_DetectedCountry := country, vn_Status := ''connected'',
           vn_ConnectionStatus := ''connected'', vn_AssignedInterface := ''tun0'', vn_InterfaceName := ''tun0'',
           vn_LastConnectedAt := Some now, vn_LastError := []\<rparr>)"

definition express_connect_cli :: "vpn_env \<Rightarrow> VPNNode \<Rightarrow> vpn_host \<Rightarrow> unit result \<times> vpn_host" where
  "express_connect_cli env node h =
     (let h1 = snd (run_cmd env (expressvpn [''preferences'', ''set'', ''send_diagnostics'', ''false'']) h);
          protocol = (if vn_Protocol node \<noteq> [] then vn_Protocol node else ''auto'');
          h2 = snd (run_cmd env (expressvpn [''protocol'', protocol]) h1)
      in case run_cmd env (expressvpn [''connect'', vn_LocationAlias node]) h2 of
           ((out, Some e), h3) \<Rightarrow>
             (Inl (ErrMsg (''failed to connect ExpressVPN to '' @ vn_LocationAlias node @ '': '' @ e @ '', output: '' @ out)), h3)
         | ((_, None), h3) \<Rightarrow>
             (case poll_status env 15 h3 of
                (Inl e, h4) \<Rightarrow> (Inl e, h4)
              | (Inr False, h4) \<Rightarrow> (Inl (ErrMsg ''timeout waiting for ExpressVPN connection to establish''),
                  snd (run_cmd env (expressvpn [''disconnect'']) h4))
              | (Inr True, h4) \<Rightarrow> (Inr (), h4)))"

definition express_Connect :: "vpn_env \<Rightarrow> VPNNode \<Rightarrow> vpn_state \<Rightarrow> (VpnIface \<times> VPNNode) result outcome \<times> vpn_state" where
  "express_Connect env node st = (case st of (h, w) \<Rightarrow>
     if \<not> ve_look env ''expressvpn'' then
       (Returns (Inl (ErrMsg ''expressvpn CLI binary not found in system path'')), (h, w))
     else (case vpnCredentialRepo_GetByID (vn_CredentialID node) w of
       (Inl e, w1) \<Rightarrow> (Returns (Inl (ErrMsg (''failed to fetch VPN credential: '' @ err_text e))), (h, w1))
     | (Inr cred, w1) \<Rightarrow>
         (case DecryptSecret (ve_getenv env) (vc_EncryptedSecret cred) of
            Inl e \<Rightarrow> (Returns (Inl (ErrMsg (''failed to decrypt credential secret: '' @ err_text e))), (h, w1))
          | Inr secret \<Rightarrow>
              (case and_then (activate_if_needed env secret) (\<lambda>_. express_connect_cli env node) h of
                 (Inl e, h1) \<Rightarrow> (Returns (Inl e), (h1, w1))
               | (Inr _, h1) \<Rightarrow>
                   (let (publicIP, h2) = resolve_exit env h1;
                        (geo, h3) = geo_ip env publicIP h2;
                        ifc = iface node ''10.0.0.1'' ''tun0'' None
                    in (Returns (Inr (ifc, express_node (clock w1) publicIP geo node)),
                        (h3\<lparr>vh_express := (vh_express h3)(vn_ID node \<mapsto> ifc)\<rparr>, w1)))))))"

definition express_Disconnect :: "vpn_env \<Rightarrow> VPNNode \<Rightarrow> vpn_state \<Rightarrow> VPNNode result \<times> vpn_state" where
  "express_Disconnect env node st = (case st of (h, w) \<Rightarrow>
     (case run_cmd env (expressvpn [''disconnect'']) h of
        ((out, Some e), h1) \<Rightarrow>
          (Inl (ErrMsg (''failed to disconnect ExpressVPN: '' @ e @ '', output: '' @ out)), (h1, w))
      | ((_, None), h1) \<Rightarrow>
          (Inr (node\<lparr>vn_Status := ''disconnected'', vn_ConnectionStatus := ''disconnected'', vn_IP := [], vn_PublicIP := [],
             vn_InterfaceName := [], vn_AssignedInterface := []\<rparr>),
           (h1\<lparr>vh_express := (vh_express h1)(vn_ID node := None)\<rparr>, w))))"

definition express_ListLocations :: "vpn_env \<Rightarrow> vpn_host \<Rightarrow> VPNLocation list result \<times> vpn_host" where
  "express_ListLocations env h =
     (if \<not> ve_look env ''expressvpn'' then (Inr FallbackLocations, h)
      else case run_cmd env (expressvpn [''list'', ''all'']) h of
        ((_, Some _), h1) \<Rightarrow> (Inr FallbackLocations, h1)
      | ((out, None), h1) \<Rightarrow> (Inr (ParseExpressVpnLocations (ve_regions env) out), h1))"

section \<open>The ExpressVPN mock\<close>

text \<open>Address, country, region, provider and autonomous system of a location; Vietnam by default.\<close>

definition mock_location :: "string \<Rightarrow> string \<times> string \<times> string \<times> string \<times> string" where
  "mock_location alias =
     (if alias = ''singapore'' then (''45.90.90.10'', ''Singapore'', asia, ''M247'', ''AS9009'')
      else if alias = ''malaysia'' then (''175.139.0.1'', ''Malaysia'', asia, ''TM Net'', ''AS4788'')
      else if alias = ''japan-tokyo'' then (''150.95.10.10'', ''Japan'', asia, ''GMO Internet'', ''AS3791'')
      else if alias = ''usa-new-york'' then (''198.51.100.10'', ''United States'', ''Americas'', ''DigitalOcean'', ''AS14061'')
      else if alias = ''usa-los-angeles'' then (''198.51.100.20'', ''United States'', ''Americas'', ''DigitalOcean'', ''AS14061'')
      else if alias = ''uk-london'' then (''82.102.23.109'', ''United Kingdom'', ''Europe'', ''NordVPN'', ''AS13678'')
      else if alias = ''germany-frankfurt'' then (''185.190.140.23'', ''Germany'', ''Europe'', ''Mullvad VPN'', ''AS20001'')
      else (''103.10.10.10'', ''Vietnam'', asia, ''Viettel Group'', ''AS7552''))"

definition express_mock_Connect :: "vpn_env \<Rightarrow> VPNNode \<Rightarrow> vpn_state \<Rightarrow> (VpnIface \<times> VPNNode) result outcome \<times> vpn_state" where
  "express_mock_Connect env node st = (case st of (h, w) \<Rightarrow>
     (case vh_express_mock h (vn_ID node) of
        Some ifc \<Rightarrow> (Returns (Inr (ifc, node)), (h, w))
      | None \<Rightarrow>
          (case wait_timer env h of
             (Some e, h1) \<Rightarrow> (Returns (Inl e), (h1, w))
           | (None, h1) \<Rightarrow>
               (let (ip, country, region, isp, asn) = mock_location (vn_LocationAlias node);
                    node' = node\<lparr>vn_IP := ip, vn_PublicIP := ip, vn_Country := country, vn_DetectedCountry := country,
                      vn_Region := region, vn_SelectedCountry := country, vn_SelectedRegion := region, vn_ISP := isp,
                      vn_ASN := asn, vn_LatencyMs := 45, vn_Status := ''connected'', vn_ConnectionStatus := ''connected'',
                      vn_InterfaceName := ''mock-expressvpn0'', vn_AssignedInterface := ''mock-expressvpn0'',
                      vn_LastConnectedAt := Some (clock w)\<rparr>;
                    ifc = iface node ''10.200.0.99'' ''mock-expressvpn0'' None
                in (Returns (Inr (ifc, node')), (h1\<lparr>vh_express_mock := (vh_express_mock h1)(vn_ID node \<mapsto> ifc)\<rparr>, w))))))"

definition express_mock_Disconnect :: "vpn_env \<Rightarrow> VPNNode \<Rightarrow> vpn_state \<Rightarrow> VPNNode result \<times> vpn_state" where
  "express_mock_Disconnect env node st = (case st of (h, w) \<Rightarrow>
     (Inr (node\<lparr>vn_Status := ''disconnected'', vn_ConnectionStatus := ''disconnected'', vn_InterfaceName := [],
        vn_AssignedInterface := [], vn_IP := [], vn_PublicIP := []\<rparr>),
      (h\<lparr>vh_express_mock := (vh_express_mock h)(vn_ID node := None)\<rparr>, w)))"

definition express_mock_ValidateCredentials :: "VPNCredential \<Rightarrow> unit result" where
  "express_mock_ValidateCredentials cred =
     (if vc_EncryptedSecret cred = [] \<and> vc_MaskedSecret cred = [] then Inl (ErrMsg ''empty activation code'') else Inr ())"

definition express_mock_Activate :: "VPNCredential \<Rightarrow> unit result" where
  "express_mock_Activate cred = Inr ()"

end
