(* ===== verification/VpnManager.thy ===== *)
theory VpnManager imports VpnDrivers ProxyManager begin

text \<open>
  \<^verbatim>\<open>internal/vpn/manager.go\<close> and \<^verbatim>\<open>validation_service.go\<close>: the registered drivers, connecting and disconnecting a node,
  and the self test of an ExpressVPN node. The active interfaces are \<open>vpn_active\<close> of the world; a method holds the
  manager's lock, so it is one step. The struct of a node carries on what the database wrote into it.
\<close>

section \<open>Drivers\<close>

record vpn_driver =
  dr_Connect :: "VPNNode \<Rightarrow> vpn_state \<Rightarrow> (VpnIface \<times> VPNNode) result outcome \<times> vpn_state"
  dr_Disconnect :: "VPNNode \<Rightarrow> vpn_state \<Rightarrow> VPNNode result \<times> vpn_state"
  dr_ListLocations :: "(vpn_host \<Rightarrow> VPNLocation list result \<times> vpn_host) option"

type_synonym drivers = "string \<Rightarrow> vpn_driver option"

definition RegisterDriver :: "string \<Rightarrow> vpn_driver \<Rightarrow> drivers \<Rightarrow> drivers" where
  "RegisterDriver driverType d drs = drs(driverType \<mapsto> d)"

definition mock_driver :: "vpn_env \<Rightarrow> vpn_driver" where
  "mock_driver env = \<lparr>dr_Connect = mock_Connect env, dr_Disconnect = mock_Disconnect env, dr_ListLocations = None\<rparr>"

definition wireguard_driver :: "vpn_env \<Rightarrow> vpn_driver" where
  "wireguard_driver env = \<lparr>dr_Connect = wg_Connect env, dr_Disconnect = wg_Disconnect env, dr_ListLocations = None\<rparr>"

definition expressvpn_driver :: "vpn_env \<Rightarrow> vpn_driver" where
  "expressvpn_driver env = \<lparr>dr_Connect = express_Connect env, dr_Disconnect = express_Disconnect env,
     dr_ListLocations = Some (express_ListLocations env)\<rparr>"

definition expressvpn_mock_driver :: "vpn_env \<Rightarrow> vpn_driver" where
  "expressvpn_mock_driver env = \<lparr>dr_Connect = express_mock_Connect env, dr_Disconnect = express_mock_Disconnect env,
     dr_ListLocations = Some (\<lambda>h. (Inr FallbackLocations, h))\<rparr>"

text \<open>A manager of a new process: four drivers, and no active interface.\<close>

definition NewVpnManager :: "vpn_env \<Rightarrow> world \<Rightarrow> drivers \<times> world" where
  "NewVpnManager env w =
     (RegisterDriver ''expressvpn_mock'' (expressvpn_mock_driver env)
       (RegisterDriver ''expressvpn'' (expressvpn_driver env)
         (RegisterDriver ''wireguard'' (wireguard_driver env)
           (RegisterDriver ''mock'' (mock_driver env) (\<lambda>_. None)))), w\<lparr>vpn_active := \<lambda>_. None\<rparr>)"

section \<open>Connecting\<close>

definition express_type :: "VPNNode \<Rightarrow> bool" where
  "express_type node \<longleftrightarrow> vn_Type node = ''expressvpn'' \<or> vn_Type node = ''expressvpn_mock''"

text \<open>\<^verbatim>\<open>m.nodeRepo.Update(node)\<close> with its error ignored: the struct afterwards.\<close>

definition save_node :: "VPNNode \<Rightarrow> world \<Rightarrow> VPNNode \<times> world" where
  "save_node node w = (case vpnNodeRepo_Update node w of (r, w1) \<Rightarrow> (row_or node r, w1))"

definition session_conflict :: "VPNNode \<Rightarrow> world \<Rightarrow> bool \<times> world" where
  "session_conflict node w =
     (if express_type node then
        (case expressVPNSessionRepo_GetActiveByAgent (vn_AgentID node) w of
           (Inr s, w1) \<Rightarrow> (es_NodeID s \<noteq> vn_ID node, w1) | (Inl _, w1) \<Rightarrow> (False, w1))
      else (False, w))"

definition new_session :: "string \<Rightarrow> VPNNode \<Rightarrow> time \<Rightarrow> ExpressVPNSession" where
  "new_session i node now = zero_ExpressVPNSession\<lparr>es_ID := i, es_AgentID := vn_AgentID node, es_NodeID := vn_ID node,
     es_LocationAlias := vn_LocationAlias node, es_LocationDisplayName := vn_LocationDisplayName node,
     es_PublicIP := vn_IP node, es_DetectedCountry := vn_DetectedCountry node, es_Status := ''connected'',
     es_ConnectedAt := now\<rparr>"

definition create_session :: "VPNNode \<Rightarrow> world \<Rightarrow> world" where
  "create_session node w =
     (if express_type node then
        (case new_uuid w of (i, w1) \<Rightarrow> snd (expressVPNSessionRepo_Create (new_session i node (clock w1)) w1))
      else w)"

definition connect_failed :: "VPNNode \<Rightarrow> gerr \<Rightarrow> world \<Rightarrow> world" where
  "connect_failed node e w =
     log_audit ''VPN_CONNECT_FAILED'' (''Failed to connect to VPN '' @ vn_Name node @ '': '' @ err_text e)
       (snd (save_node (node\<lparr>vn_Status := ''failed'', vn_ConnectionStatus := ''failed'', vn_LastError := err_text e\<rparr>) w))"

definition connect_done :: "VPNNode \<Rightarrow> VpnIface \<Rightarrow> world \<Rightarrow> world" where
  "connect_done node ifc w =
     (let w1 = create_session node w;
          w2 = w1\<lparr>vpn_active := (vpn_active w1)(vn_ID node \<mapsto> ifc)\<rparr>;
          w3 = snd (save_node node w2)
      in log_audit ''VPN_CONNECTED'' (''Successfully connected to VPN: '' @ vn_Name node @ '', exit IP: '' @ vn_IP node) w3)"

definition connect_begin :: "VPNNode \<Rightarrow> world \<Rightarrow> VPNNode \<times> world" where
  "connect_begin node w =
     (let (node1, w1) = save_node (node\<lparr>vn_Status := ''connecting'', vn_ConnectionStatus := ''connecting''\<rparr>) w
      in (node1, log_audit ''VPN_CONNECTING'' (''Connecting to VPN: '' @ vn_Name node @ '' ('' @ vn_Type node @ '')'') w1))"

definition connect_with :: "vpn_driver \<Rightarrow> VPNNode \<Rightarrow> vpn_state \<Rightarrow> VpnIface result outcome \<times> vpn_state" where
  "connect_with d node st = (case st of (h, w) \<Rightarrow>
     (let (node1, w2) = connect_begin node w
      in case dr_Connect d node1 (h, w2) of
           (Panics, st3) \<Rightarrow> (Panics, st3)
         | (Returns (Inl e), (h3, w3)) \<Rightarrow> (Returns (Inl e), (h3, connect_failed node1 e w3))
         | (Returns (Inr (ifc, node2)), (h3, w3)) \<Rightarrow> (Returns (Inr ifc), (h3, connect_done node2 ifc w3))))"

definition vm_Connect :: "drivers \<Rightarrow> string \<Rightarrow> vpn_state \<Rightarrow> VpnIface result outcome \<times> vpn_state" where
  "vm_Connect drs nodeID st = (case st of (h, w) \<Rightarrow>
     (case vpnNodeRepo_GetByID nodeID w of
        (Inl e, w1) \<Rightarrow> (Returns (Inl (ErrMsg (''failed to find vpn node: '' @ err_text e))), (h, w1))
      | (Inr node, w1) \<Rightarrow>
          (case (if vn_Status node = ''connected'' then vpn_active w1 (vn_ID node) else None) of
             Some ifc \<Rightarrow> (Returns (Inr ifc), (h, w1))
           | None \<Rightarrow>
               (case session_conflict node w1 of
                  (True, w2) \<Rightarrow> (Returns (Inl (ErrMsg
                    ''Agent already has an active ExpressVPN session. Disconnect it first or use another agent.'')), (h, w2))
                | (False, w2) \<Rightarrow>
                    (case drs (vn_Type node) of
                       None \<Rightarrow> (Returns (Inl (ErrMsg (''unsupported vpn type: '' @ vn_Type node))), (h, w2))
                     | Some d \<Rightarrow> connect_with d node (h, w2))))))"

section \<open>Disconnecting\<close>

definition close_session :: "VPNNode \<Rightarrow> world \<Rightarrow> world" where
  "close_session node w =
     (if express_type node then
        (case expressVPNSessionRepo_GetActiveByAgent (vn_AgentID node) w of
           (Inr s, w1) \<Rightarrow> snd (expressVPNSessionRepo_Update
             (s\<lparr>es_Status := ''disconnected'', es_DisconnectedAt := Some (clock w1)\<rparr>) w1)
         | (Inl _, w1) \<Rightarrow> w1)
      else w)"

definition disconnect_done :: "VPNNode \<Rightarrow> world \<Rightarrow> world" where
  "disconnect_done node w =
     (let w1 = close_session node w;
          w2 = w1\<lparr>vpn_active := (vpn_active w1)(vn_ID node := None)\<rparr>
      in log_audit ''VPN_DISCONNECTED'' (''Disconnected from VPN: '' @ vn_Name node) (snd (save_node node w2)))"

definition vm_Disconnect :: "drivers \<Rightarrow> string \<Rightarrow> vpn_state \<Rightarrow> unit result \<times> vpn_state" where
  "vm_Disconnect drs nodeID st = (case st of (h, w) \<Rightarrow>
     (case vpnNodeRepo_GetByID nodeID w of
        (Inl e, w1) \<Rightarrow> (Inl (ErrMsg (''failed to find vpn node: '' @ err_text e)), (h, w1))
      | (Inr node, w1) \<Rightarrow>
          (case drs (vn_Type node) of
             None \<Rightarrow> (Inl (ErrMsg (''unsupported vpn type: '' @ vn_Type node)), (h, w1))
           | Some d \<Rightarrow>
               (case dr_Disconnect d node (h, w1) of
                  (Inl e, (h2, w2)) \<Rightarrow> (Inl e, (h2, log_audit ''VPN_DISCONNECT_FAILED''
                    (''Failed to disconnect VPN '' @ vn_Name node @ '': '' @ err_text e) w2))
                | (Inr node', (h2, w2)) \<Rightarrow> (Inr (), (h2, disconnect_done node' w2))))))"

definition vm_ListLocations :: "drivers \<Rightarrow> string \<Rightarrow> vpn_host \<Rightarrow> VPNLocation list result \<times> vpn_host" where
  "vm_ListLocations drs driverType h =
     (case drs driverType of
        None \<Rightarrow> (Inl (ErrMsg (''driver not found: '' @ driverType)), h)
      | Some d \<Rightarrow> (case dr_ListLocations d of None \<Rightarrow> (Inr FallbackLocations, h) | Some f \<Rightarrow> f h))"

section \<open>The self test\<close>

record ValidationReport =
  vr_CLIAvailable :: bool
  vr_Activated :: bool
  vr_ConnectSuccess :: bool
  vr_DisconnectSuccess :: bool
  vr_LocationSwitch :: bool
  vr_IPChanged :: bool
  vr_ProxyRoutingWorks :: bool
  vr_TunnelPersistence :: bool
  vr_OriginalIP :: string
  vr_ConnectedIP :: string
  vr_ErrorDetails :: string

definition zero_report :: ValidationReport where
  "zero_report = \<lparr>vr_CLIAvailable = False, vr_Activated = False, vr_ConnectSuccess = False, vr_DisconnectSuccess = False,
     vr_LocationSwitch = False, vr_IPChanged = False, vr_ProxyRoutingWorks = False, vr_TunnelPersistence = False,
     vr_OriginalIP = [], vr_ConnectedIP = [], vr_ErrorDetails = []\<rparr>"

definition json_bool :: "bool \<Rightarrow> string" where "json_bool b = (if b then ''true'' else ''false'')"

definition json_object :: "(string \<times> string) list \<Rightarrow> string" where
  "json_object kvs = ''{'' @ join '','' (map (\<lambda>(k, v). json_string k @ '':'' @ v) kvs) @ ''}''"

definition report_json :: "ValidationReport \<Rightarrow> string" where
  "report_json r = json_object
     [(''cli_available'', json_bool (vr_CLIAvailable r)), (''activated'', json_bool (vr_Activated r)),
      (''connect_success'', json_bool (vr_ConnectSuccess r)), (''disconnect_success'', json_bool (vr_DisconnectSuccess r)),
      (''location_switch'', json_bool (vr_LocationSwitch r)), (''ip_changed'', json_bool (vr_IPChanged r)),
      (''proxy_routing_works'', json_bool (vr_ProxyRoutingWorks r)), (''tunnel_persistence'', json_bool (vr_TunnelPersistence r)),
      (''original_ip'', json_string (vr_OriginalIP r)), (''connected_ip'', json_string (vr_ConnectedIP r)),
      (''error_details'', json_string (vr_ErrorDetails r))]"

text \<open>The report is returned with the error of storing it.\<close>

type_synonym validation = "ExpressVPNValidation option \<times> gerr option"

definition saveReport ::
  "string \<Rightarrow> string \<Rightarrow> ValidationReport \<Rightarrow> string list \<Rightarrow> vpn_state \<Rightarrow> validation outcome \<times> vpn_state" where
  "saveReport nodeID status report logs st = (case st of (h, w) \<Rightarrow>
     (let fullDetails = ''LOGS:'' @ [CHR 0x0A] @ join [CHR 0x0A] logs @ [CHR 0x0A, CHR 0x0A] @ ''REPORT:'' @ [CHR 0x0A] @ report_json report;
          (i, w1) = new_uuid w;
          valReport = \<lparr>ev_ID = i, ev_NodeID = nodeID, ev_Status = status, ev_Details = fullDetails, ev_Timestamp = clock w1\<rparr>
      in case expressVPNValidationRepo_Create valReport w1 of
           (Inr stored, w2) \<Rightarrow> (Returns (Some stored, None), (h, w2))
         | (Inl e, w2) \<Rightarrow> (Returns (Some valReport, Some e), (h, w2))))"

definition validate_disconnect ::
  "drivers \<Rightarrow> string \<Rightarrow> ValidationReport \<Rightarrow> string list \<Rightarrow> vpn_state \<Rightarrow> validation outcome \<times> vpn_state" where
  "validate_disconnect drs nodeID report logs st =
     (let logs1 = logs @ [''Testing disconnection...''] in
      case vm_Disconnect drs nodeID st of
        (Inl e, st1) \<Rightarrow> saveReport nodeID ''failed''
          (report\<lparr>vr_DisconnectSuccess := False, vr_ErrorDetails := ''Disconnect failed: '' @ err_text e\<rparr>)
          (logs1 @ [''Validation failed: Disconnect failed: '' @ err_text e]) st1
      | (Inr _, st1) \<Rightarrow> saveReport nodeID ''success''
          (report\<lparr>vr_DisconnectSuccess := True, vr_LocationSwitch := True, vr_ProxyRoutingWorks := True,
             vr_TunnelPersistence := True\<rparr>)
          (logs1 @ [''Verified: Disconnection successful'']) st1)"

definition validate_exit ::
  "vpn_env \<Rightarrow> drivers \<Rightarrow> string \<Rightarrow> bool \<Rightarrow> VpnIface \<Rightarrow> ValidationReport \<Rightarrow> string list \<Rightarrow> vpn_state \<Rightarrow> validation outcome \<times> vpn_state" where
  "validate_exit env drs nodeID isMock ifc report logs st = (case st of (h, w) \<Rightarrow>
     (let (connIP, h1) = (if isMock then (''103.10.10.10'', h)
            else case public_ip env h of (Inr ip, h1) \<Rightarrow> (ip, h1) | (Inl _, h1) \<Rightarrow> (vi_localIP ifc, h1));
          logs1 = logs @ [''Resolved post-connect public IP: '' @ connIP];
          changed = (connIP \<noteq> vr_OriginalIP report);
          line = (if changed then ''Verified: Public IP successfully changed''
                  else if isMock then ''Mock Driver Node: Assumed public IP change''
                  else ''Warning: Public IP did not change after connect'')
      in validate_disconnect drs nodeID (report\<lparr>vr_ConnectedIP := connIP, vr_IPChanged := changed \<or> isMock\<rparr>)
           (logs1 @ [line]) (h1, w)))"

definition validate_connect ::
  "vpn_env \<Rightarrow> drivers \<Rightarrow> VPNNode \<Rightarrow> string \<Rightarrow> bool \<Rightarrow> ValidationReport \<Rightarrow> string list \<Rightarrow> vpn_state \<Rightarrow> validation outcome \<times> vpn_state" where
  "validate_connect env drs node nodeID isMock report logs st =
     (let logs1 = logs @ [''Testing connection to alias: '' @ vn_LocationAlias node] in
      case vm_Connect drs nodeID st of
        (Panics, st1) \<Rightarrow> (Panics, st1)
      | (Returns (Inl e), st1) \<Rightarrow> saveReport nodeID ''failed''
          (report\<lparr>vr_ConnectSuccess := False, vr_ErrorDetails := ''Connect failed: '' @ err_text e\<rparr>)
          (logs1 @ [''Validation failed: Connect failed: '' @ err_text e]) st1
      | (Returns (Inr ifc), st1) \<Rightarrow> validate_exit env drs nodeID isMock ifc (report\<lparr>vr_ConnectSuccess := True\<rparr>)
          (logs1 @ [''Verified: Connection established successfully'']) st1)"

text \<open>The checks of the tool, for a node that is no mock: the report, its log lines, and whether they passed.\<close>

definition validate_cli ::
  "vpn_env \<Rightarrow> ValidationReport \<Rightarrow> string list \<Rightarrow> vpn_host \<Rightarrow> (bool \<times> ValidationReport \<times> string list) \<times> vpn_host" where
  "validate_cli env report logs h =
     (if \<not> ve_look env ''expressvpn'' then
        ((False, report\<lparr>vr_CLIAvailable := False, vr_ErrorDetails := ''expressvpn CLI binary not found in system path''\<rparr>,
          logs @ [''Validation failed: expressvpn CLI not found'']), h)
      else
        (let logs1 = logs @ [''Verified: expressvpn CLI is available''];
             ((out, e), h1) = run_cmd env (expressvpn [''status'']) h
         in if e = None \<and> \<not> contains (to_lower out) ''not activated''
            then ((True, report\<lparr>vr_CLIAvailable := True, vr_Activated := True\<rparr>, logs1 @ [''Verified: ExpressVPN is activated'']), h1)
            else ((False, report\<lparr>vr_CLIAvailable := True, vr_Activated := False, vr_ErrorDetails := ''ExpressVPN status: '' @ out\<rparr>,
              logs1 @ [''Validation failed: ExpressVPN not activated'']), h1)))"

definition ValidateNode :: "vpn_env \<Rightarrow> drivers \<Rightarrow> string \<Rightarrow> vpn_state \<Rightarrow> validation outcome \<times> vpn_state" where
  "ValidateNode env drs nodeID st = (case st of (h, w) \<Rightarrow>
     (case vpnNodeRepo_GetByID nodeID w of
        (Inl e, w1) \<Rightarrow> (Returns (None, Some (ErrMsg (''failed to fetch VPN node: '' @ err_text e))), (h, w1))
      | (Inr node, w1) \<Rightarrow>
          (let ((report, logs), h1) = (case public_ip env h of
                 (Inr ip, h1) \<Rightarrow> ((zero_report\<lparr>vr_OriginalIP := ip\<rparr>, [''Resolved pre-connect public IP: '' @ ip]), h1)
               | (Inl e, h1) \<Rightarrow> ((zero_report\<lparr>vr_OriginalIP := ''Unknown''\<rparr>,
                   [''Warning: Failed to resolve pre-connect public IP: '' @ err_text e]), h1));
               isMock = (vn_Type node = ''expressvpn_mock'')
           in if isMock then
                validate_connect env drs node nodeID True (report\<lparr>vr_CLIAvailable := True, vr_Activated := True\<rparr>)
                  (logs @ [''Mock Driver Node: Skipping CLI binary and activation checks'']) (h1, w1)
              else (case validate_cli env report logs h1 of
                ((False, report1, logs1), h2) \<Rightarrow> saveReport nodeID ''failed'' report1 logs1 (h2, w1)
              | ((True, report1, logs1), h2) \<Rightarrow> validate_connect env drs node nodeID False report1 logs1 (h2, w1)))))"

end
