(* ===== verification/VpnFacts.thy ===== *)
theory VpnFacts imports VpnManager ProxyManagerFacts begin

text \<open>
  What the VPN manager relies on of a driver, as the locale \<open>vpn_driver_laws\<close>, interpreted on the four drivers; the
  outcome of a connection; the ExpressVPN session of an agent; and the commands of the WireGuard driver.
\<close>

section \<open>What running commands leaves alone\<close>

text \<open>A component of the host that commands, timers, lookups and draws do not touch.\<close>

locale host_frame =
  fixes get :: "vpn_host \<Rightarrow> 'x"
  assumes get_log: "get (h\<lparr>vh_log := l\<rparr>) = get h" and get_waits: "get (h\<lparr>vh_waits := n\<rparr>) = get h"
    and get_lookups: "get (h\<lparr>vh_lookups := n\<rparr>) = get h" and get_draws: "get (h\<lparr>vh_draws := n\<rparr>) = get h"
begin

lemma run_cmd_frame: "get (snd (run_cmd env args h)) = get h"
  by (simp add: run_cmd_def get_log)

lemma wait_frame: "get (snd (wait_timer env h)) = get h"
  by (simp add: wait_timer_def get_waits)

lemma public_ip_frame: "get (snd (public_ip env h)) = get h"
  by (simp add: public_ip_def get_lookups)

lemma geo_ip_frame: "get (snd (geo_ip env ip h)) = get h"
  by (simp add: geo_ip_def get_lookups)

lemma intn_frame: "get (snd (intn env n h)) = get h"
  by (simp add: intn_def get_draws)

lemma run_commands_frame: "get (snd (run_commands env ns cs h)) = get h"
proof (induction cs arbitrary: h)
  case (Cons args rest)
  obtain out e h1 where r: "run_cmd env args h = ((out, e), h1)" by (metis surj_pair)
  have "get h1 = get h" using run_cmd_frame [of env args h] by (simp add: r)
  then show ?case by (simp add: r Cons.IH run_cmd_frame split: option.split)
qed simp

lemma poll_frame: "get (snd (poll_status env n h)) = get h"
proof (induction n arbitrary: h)
  case (Suc n)
  obtain t h1 where t: "wait_timer env h = (t, h1)" by fastforce
  obtain out e h2 where r: "run_cmd env (expressvpn [''status'']) h1 = ((out, e), h2)" by (metis surj_pair)
  have "get h1 = get h" "get h2 = get h1"
    using wait_frame [of env h] run_cmd_frame [of env "expressvpn [''status'']" h1] by (simp_all add: t r)
  then show ?case by (simp add: t r Suc.IH split: option.split)
qed simp

lemma activate_frame: "get (snd (activate_if_needed env secret h)) = get h"
proof -
  obtain a h1 where a: "isActivated env h = (a, h1)" by fastforce
  obtain out e h2 where r: "run_cmd env (expressvpn [''activate'', secret]) h1 = ((out, e), h2)" by (metis surj_pair)
  have "get h1 = get h"
    using a run_cmd_frame [of env "expressvpn [''status'']" h] by (auto simp: isActivated_def split: prod.splits)
  moreover have "get h2 = get h1" using run_cmd_frame [of env "expressvpn [''activate'', secret]" h1] by (simp add: r)
  ultimately show ?thesis by (simp add: activate_if_needed_def a r split: bool.split option.split)
qed

lemma connect_cli_frame: "get (snd (express_connect_cli env node h)) = get h"
proof -
  define h1 where "h1 = snd (run_cmd env (expressvpn [''preferences'', ''set'', ''send_diagnostics'', ''false'']) h)"
  define h2 where "h2 = snd (run_cmd env (expressvpn [''protocol'', if vn_Protocol node \<noteq> [] then vn_Protocol node else ''auto'']) h1)"
  obtain out e h3 where r: "run_cmd env (expressvpn [''connect'', vn_LocationAlias node]) h2 = ((out, e), h3)" by (metis surj_pair)
  obtain p h4 where p: "poll_status env 15 h3 = (p, h4)" by fastforce
  have "get h1 = get h" "get h2 = get h1" by (simp_all add: h1_def h2_def run_cmd_frame)
  moreover have "get h3 = get h2" "get h4 = get h3"
    using run_cmd_frame [of env "expressvpn [''connect'', vn_LocationAlias node]" h2] poll_frame [of env 15 h3]
    by (simp_all add: r p)
  ultimately show ?thesis
    by (simp add: express_connect_cli_def Let_def h1_def [symmetric] h2_def [symmetric] r p run_cmd_frame
        split: option.split sum.split bool.split)
qed

lemma resolve_exit_frame: "get (snd (resolve_exit env h)) = get h"
proof -
  obtain a h1 where a: "public_ip env h = (a, h1)" by fastforce
  obtain b h2 where b: "public_ip env h1 = (b, h2)" by fastforce
  have "get h1 = get h" "get h2 = get h1"
    using public_ip_frame [of env h] public_ip_frame [of env h1] by (simp_all add: a b)
  then show ?thesis by (simp add: resolve_exit_def a b split: sum.split)
qed

end

interpretation mock_frame: host_frame vh_mock by unfold_locales simp_all
interpretation wireguard_frame: host_frame vh_wireguard by unfold_locales simp_all
interpretation express_frame: host_frame vh_express by unfold_locales simp_all
interpretation express_mock_frame: host_frame vh_express_mock by unfold_locales simp_all

section \<open>The contract of a driver\<close>

text \<open>The columns by which the manager finds a node again.\<close>

definition same_node :: "VPNNode \<Rightarrow> VPNNode \<Rightarrow> bool" where
  "same_node n n' \<longleftrightarrow> vn_ID n' = vn_ID n \<and> vn_Type n' = vn_Type n \<and> vn_AgentID n' = vn_AgentID n"

text \<open>
  A driver keeps one interface per node: a successful connection adds it (again), a successful disconnection
  removes it, an error changes nothing. The database is only read.
\<close>

locale vpn_driver_laws =
  fixes d :: vpn_driver and active :: "vpn_host \<Rightarrow> string \<Rightarrow> VpnIface option"
  assumes connect_ok: "dr_Connect d node (h, w) = (Returns (Inr (ifc, node')), (h', w')) \<Longrightarrow>
      same_node node node' \<and> active h' = (active h)(vn_ID node \<mapsto> ifc) \<and>
      (active h (vn_ID node) = None \<longrightarrow> vn_Status node' = ''connected'')"
    and connect_err: "dr_Connect d node (h, w) = (Returns (Inl e), (h', w')) \<Longrightarrow> active h' = active h"
    and connect_runs: "8 \<le> length (vn_ID node) \<Longrightarrow> fst (dr_Connect d node (h, w)) \<noteq> Panics"
    and connect_reads: "dr_Connect d node (h, w) = (r, (h', w')) \<Longrightarrow> faults w = [] \<Longrightarrow> w' = w"
    and disconnect_ok: "dr_Disconnect d node (h, w) = (Inr node', (h', w')) \<Longrightarrow>
      same_node node node' \<and> active h' = (active h)(vn_ID node := None) \<and>
      (active h (vn_ID node) \<noteq> None \<longrightarrow> vn_Status node' = ''disconnected'')"
    and disconnect_err: "dr_Disconnect d node (h, w) = (Inl e, (h', w')) \<Longrightarrow> active h' = active h"
    and disconnect_reads: "dr_Disconnect d node (h, w) = (rd, (h', w')) \<Longrightarrow> faults w = [] \<Longrightarrow> w' = w"
begin

text \<open>A node that is connected and then disconnected leaves the driver as it was without it.\<close>

lemma connect_disconnect:
  assumes "dr_Connect d node (h, w) = (Returns (Inr (ifc, node')), (h1, w1))"
    and "dr_Disconnect d node' (h1, w2) = (Inr node'', (h2, w3))"
  shows "active h2 = (active h)(vn_ID node := None)" and "same_node node node''" and "vn_Status node'' = ''disconnected''"
  using connect_ok [OF assms(1)] disconnect_ok [OF assms(2)] by (auto simp: same_node_def)

end

lemmas drivers = mock_driver_def wireguard_driver_def expressvpn_driver_def expressvpn_mock_driver_def

interpretation mock: vpn_driver_laws "mock_driver env" vh_mock for env
proof unfold_locales
  fix node h w ifc node' h' w'
  assume a: "dr_Connect (mock_driver env) node (h, w) = (Returns (Inr (ifc, node')), (h', w'))"
  show "same_node node node' \<and> vh_mock h' = (vh_mock h)(vn_ID node \<mapsto> ifc) \<and>
      (vh_mock h (vn_ID node) = None \<longrightarrow> vn_Status node' = ''connected'')"
    using a by (auto simp: drivers mock_Connect_def Let_def same_node_def intn_def split: option.splits prod.splits)
qed (auto simp: drivers mock_Connect_def mock_Disconnect_def Let_def same_node_def split: option.splits prod.splits)

interpretation express_mock: vpn_driver_laws "expressvpn_mock_driver env" vh_express_mock for env
proof unfold_locales
  fix node h w ifc node' h' w'
  assume a: "dr_Connect (expressvpn_mock_driver env) node (h, w) = (Returns (Inr (ifc, node')), (h', w'))"
  show "same_node node node' \<and> vh_express_mock h' = (vh_express_mock h)(vn_ID node \<mapsto> ifc) \<and>
      (vh_express_mock h (vn_ID node) = None \<longrightarrow> vn_Status node' = ''connected'')"
    using a by (auto simp: drivers express_mock_Connect_def Let_def same_node_def wait_timer_def split: option.splits prod.splits)
qed (auto simp: drivers express_mock_Connect_def express_mock_Disconnect_def Let_def same_node_def wait_timer_def
    split: option.splits prod.splits)

text \<open>The WireGuard driver: its connection fails before it runs anything, or runs the commands.\<close>

definition wg_run :: "vpn_env \<Rightarrow> VPNNode \<Rightarrow> string \<Rightarrow> vpn_host \<Rightarrow> unit result \<times> vpn_host" where
  "wg_run env node tmp h = run_commands env (''ns-'' @ take 8 (vn_ID node))
     (wg_commands (''ns-'' @ take 8 (vn_ID node)) (''wg-'' @ take 8 (vn_ID node)) tmp (wg_local_ip node)) h"

lemma wg_Connect_cases:
  assumes "wg_Connect env node (h, w) = (r, (h', w'))"
  obtains (active) ifc where "vh_wireguard h (vn_ID node) = Some ifc" "r = Returns (Inr (ifc, node))" "h' = h" "w' = w"
    | (refused) e where "r = Returns (Inl e)" "h' = h" "w' = w"
    | (panic) "length (vn_ID node) < 8" "r = Panics" "h' = h" "w' = w"
    | (failed) tmp e where "vh_wireguard h (vn_ID node) = None" "wg_run env node tmp h = (Inl e, h')" "r = Returns (Inl e)" "w' = w"
    | (connected) tmp h1 ifc node' where "vh_wireguard h (vn_ID node) = None" "wg_run env node tmp h = (Inr (), h1)"
        "r = Returns (Inr (ifc, node'))" "h' = h1\<lparr>vh_wireguard := (vh_wireguard h1)(vn_ID node \<mapsto> ifc)\<rparr>" "w' = w"
        "ifc = iface node (wg_local_ip node) (''wg-'' @ take 8 (vn_ID node)) (Some (''ns-'' @ take 8 (vn_ID node)))"
        "node' = node\<lparr>vn_Status := ''connected'', vn_InterfaceName := ''wg-'' @ take 8 (vn_ID node), vn_LocalIP := wg_local_ip node\<rparr>"
proof (cases "ve_goos env \<noteq> ''linux''")
  case True
  then have "\<exists>e. r = Returns (Inl e)" "h' = h" "w' = w" using assms by (auto simp: wg_Connect_def Let_def)
          then show thesis using refused by blast
next
  case linux: False
  show thesis
  proof (cases "vh_wireguard h (vn_ID node)")
    case (Some ifc)
    then have "r = Returns (Inr (ifc, node))" "h' = h" "w' = w" using assms linux by (auto simp: wg_Connect_def)
    then show thesis by (rule active [OF Some])
  next
    case idle: None
    show thesis
    proof (cases "length (vn_ID node) < 8")
      case True
      then have "r = Panics" "h' = h" "w' = w" using assms linux idle by (auto simp: wg_Connect_def)
      then show thesis by (rule panic [OF True])
    next
      case long: False
      show thesis
      proof (cases "ve_temp env")
        case (Inl e)
        then have "\<exists>e. r = Returns (Inl e)" "h' = h" "w' = w" using assms linux idle long by (auto simp: wg_Connect_def Let_def)
          then show thesis using refused by blast
      next
        case tmp: (Inr tmp)
        show thesis
        proof (cases "sanitizeWireGuardConfig (ve_resolver env) (vn_ConfigText node)")
          case (Inl e)
          then have "\<exists>e. r = Returns (Inl e)" "h' = h" "w' = w" using assms linux idle long tmp by (auto simp: wg_Connect_def Let_def)
          then show thesis using refused by blast
        next
          case conf: (Inr conf)
          show thesis
          proof (cases "ve_write env")
            case (Some e)
            then have "\<exists>e. r = Returns (Inl e)" "h' = h" "w' = w" using assms linux idle long tmp conf by (auto simp: wg_Connect_def Let_def)
          then show thesis using refused by blast
          next
            case None
            obtain x h1 where run: "wg_run env node tmp h = (x, h1)" by fastforce
            show thesis
            proof (cases x)
              case (Inl e)
              then have "r = Returns (Inl e)" "h' = h1" "w' = w"
                using assms linux idle long tmp conf None run by (auto simp: wg_Connect_def wg_run_def Let_def)
              then show thesis using failed [OF idle, of tmp e] run Inl by simp
            next
              case (Inr u)
              let ?ifc = "iface node (wg_local_ip node) (''wg-'' @ take 8 (vn_ID node)) (Some (''ns-'' @ take 8 (vn_ID node)))"
              let ?node = "node\<lparr>vn_Status := ''connected'', vn_InterfaceName := ''wg-'' @ take 8 (vn_ID node), vn_LocalIP := wg_local_ip node\<rparr>"
              have "r = Returns (Inr (?ifc, ?node))" "h' = h1\<lparr>vh_wireguard := (vh_wireguard h1)(vn_ID node \<mapsto> ?ifc)\<rparr>" "w' = w"
                using assms linux idle long tmp conf None run Inr by (auto simp: wg_Connect_def wg_run_def Let_def)
              then show thesis using connected [OF idle, of tmp h1 ?ifc ?node] run Inr by simp
            qed
          qed
        qed
      qed
    qed
  qed
qed

lemma wg_run_frame: "wg_run env node tmp h = (x, h1) \<Longrightarrow> vh_wireguard h1 = vh_wireguard h"
  using wireguard_frame.run_commands_frame [of env _ _ h] by (metis snd_conv wg_run_def)

interpretation wireguard: vpn_driver_laws "wireguard_driver env" vh_wireguard for env
proof unfold_locales
  fix node h w ifc node' h' w'
  assume "dr_Connect (wireguard_driver env) node (h, w) = (Returns (Inr (ifc, node')), (h', w'))"
  then have "wg_Connect env node (h, w) = (Returns (Inr (ifc, node')), (h', w'))" by (simp add: drivers)
  then show "same_node node node' \<and> vh_wireguard h' = (vh_wireguard h)(vn_ID node \<mapsto> ifc) \<and>
      (vh_wireguard h (vn_ID node) = None \<longrightarrow> vn_Status node' = ''connected'')"
    by (cases rule: wg_Connect_cases) (auto simp: same_node_def dest: wg_run_frame)
next
  fix node h w e h' w'
  assume "dr_Connect (wireguard_driver env) node (h, w) = (Returns (Inl e), (h', w'))"
  then have "wg_Connect env node (h, w) = (Returns (Inl e), (h', w'))" by (simp add: drivers)
  then show "vh_wireguard h' = vh_wireguard h"
    by (cases rule: wg_Connect_cases) (auto dest: wg_run_frame)
next
  fix node h w r h' w'
  assume "dr_Connect (wireguard_driver env) node (h, w) = (r, (h', w'))"
  then have "wg_Connect env node (h, w) = (r, (h', w'))" by (simp add: drivers)
  then show "w' = w" by (cases rule: wg_Connect_cases) auto
next
  fix node :: VPNNode and h :: vpn_host and w :: world
  assume l: "8 \<le> length (vn_ID node)"
  obtain r h' w' where e: "wg_Connect env node (h, w) = (r, (h', w'))" by (metis surj_pair)
  have "r \<noteq> Panics" using e by (cases rule: wg_Connect_cases) (use l in auto)
  then show "fst (dr_Connect (wireguard_driver env) node (h, w)) \<noteq> Panics" by (simp add: drivers e)
next
  fix node h w node' h' w'
  assume "dr_Disconnect (wireguard_driver env) node (h, w) = (Inr node', (h', w'))"
  then show "same_node node node' \<and> vh_wireguard h' = (vh_wireguard h)(vn_ID node := None) \<and>
      (vh_wireguard h (vn_ID node) \<noteq> None \<longrightarrow> vn_Status node' = ''disconnected'')"
    by (auto simp: drivers wg_Disconnect_def run_cmd_def Let_def same_node_def fun_upd_idem split: option.splits prod.splits)
qed (auto simp: drivers wg_Disconnect_def run_cmd_def Let_def split: option.splits prod.splits)

text \<open>The ExpressVPN driver: an error, or a connection.\<close>

lemma express_Connect_cases:
  assumes "express_Connect env node (h, w) = (r, (h', w'))"
  obtains (failed) e where "r = Returns (Inl e)" "vh_express h' = vh_express h" "faults w = [] \<longrightarrow> w' = w"
    | (connected) ifc node' where "r = Returns (Inr (ifc, node'))" "vh_express h' = (vh_express h)(vn_ID node \<mapsto> ifc)"
        "same_node node node'" "vn_Status node' = ''connected''" "faults w = [] \<longrightarrow> w' = w"
proof (cases "ve_look env ''expressvpn''")
  case False
  then have "\<exists>e. r = Returns (Inl e)" "vh_express h' = vh_express h" "faults w = [] \<longrightarrow> w' = w"
        using assms by (auto simp: express_Connect_def)
      then show thesis using failed by blast
next
  case look: True
  obtain c w1 where c: "vpnCredentialRepo_GetByID (vn_CredentialID node) w = (c, w1)" by fastforce
  have w1: "faults w = [] \<longrightarrow> w1 = w" using c by (auto simp: vpnCredentialRepo_GetByID_def split: option.splits)
  show thesis
  proof (cases c)
    case (Inl e)
    then have "\<exists>e. r = Returns (Inl e)" "vh_express h' = vh_express h" "faults w = [] \<longrightarrow> w' = w"
        using assms look c w1 by (auto simp: express_Connect_def)
      then show thesis using failed by blast
  next
    case cred: (Inr cred)
    show thesis
    proof (cases "DecryptSecret (ve_getenv env) (vc_EncryptedSecret cred)")
      case (Inl e)
      then have "\<exists>e. r = Returns (Inl e)" "vh_express h' = vh_express h" "faults w = [] \<longrightarrow> w' = w"
        using assms look c cred w1 by (auto simp: express_Connect_def)
      then show thesis using failed by blast
    next
      case secret: (Inr secret)
      obtain x h1 where x: "and_then (activate_if_needed env secret) (\<lambda>_. express_connect_cli env node) h = (x, h1)" by fastforce
      have h1: "vh_express h1 = vh_express h"
      proof -
        obtain a h0 where a: "activate_if_needed env secret h = (a, h0)" by fastforce
        have "vh_express h0 = vh_express h" using express_frame.activate_frame [of env secret h] by (simp add: a)
        then show ?thesis using x express_frame.connect_cli_frame [of env node h0]
          by (cases a) (auto simp: and_then_def a)
      qed
      obtain ip h2 where ip: "resolve_exit env h1 = (ip, h2)" by fastforce
      obtain g h3 where g: "geo_ip env ip h2 = (g, h3)" by fastforce
      have h3: "vh_express h3 = vh_express h"
        using express_frame.resolve_exit_frame [of env h1] express_frame.geo_ip_frame [of env ip h2] h1 by (simp add: ip g)
      note d = look c cred secret x
      show thesis
      proof (cases x)
        case (Inl e)
        then have "\<exists>e. r = Returns (Inl e)" "vh_express h' = vh_express h" "faults w = [] \<longrightarrow> w' = w"
          using assms d w1 h1 by (auto simp: express_Connect_def)
        then show thesis using failed by blast
      next
        case (Inr u)
        let ?n = "express_node (clock w1) ip g node" and ?ifc = "iface node ''10.0.0.1'' ''tun0'' None"
        have "same_node node ?n" "vn_Status ?n = ''connected''"
          by (auto simp: express_node_def same_node_def Let_def split: sum.split)
        moreover have "r = Returns (Inr (?ifc, ?n))" "h' = h3\<lparr>vh_express := (vh_express h3)(vn_ID node \<mapsto> ?ifc)\<rparr>" "w' = w1"
          using assms d Inr ip g by (auto simp: express_Connect_def Let_def)
        ultimately show thesis using connected [of ?ifc ?n] w1 h3 by simp
      qed
    qed
  qed
qed

interpretation express: vpn_driver_laws "expressvpn_driver env" vh_express for env
proof unfold_locales
  fix node h w ifc node' h' w'
  assume "dr_Connect (expressvpn_driver env) node (h, w) = (Returns (Inr (ifc, node')), (h', w'))"
  then have "express_Connect env node (h, w) = (Returns (Inr (ifc, node')), (h', w'))" by (simp add: drivers)
  then show "same_node node node' \<and> vh_express h' = (vh_express h)(vn_ID node \<mapsto> ifc) \<and>
      (vh_express h (vn_ID node) = None \<longrightarrow> vn_Status node' = ''connected'')"
    by (cases rule: express_Connect_cases) auto
next
  fix node h w e h' w'
  assume "dr_Connect (expressvpn_driver env) node (h, w) = (Returns (Inl e), (h', w'))"
  then have "express_Connect env node (h, w) = (Returns (Inl e), (h', w'))" by (simp add: drivers)
  then show "vh_express h' = vh_express h"
    by (cases rule: express_Connect_cases) auto
next
  fix node h w r h' w'
  assume "dr_Connect (expressvpn_driver env) node (h, w) = (r, (h', w'))" and f: "faults w = []"
  then have "express_Connect env node (h, w) = (r, (h', w'))" by (simp add: drivers)
  then show "w' = w" by (cases rule: express_Connect_cases) (use f in auto)
next
  fix node :: VPNNode and h :: vpn_host and w :: world
  obtain r h' w' where e: "express_Connect env node (h, w) = (r, (h', w'))" by (metis surj_pair)
  have "r \<noteq> Panics" using e by (cases rule: express_Connect_cases) auto
  then show "fst (dr_Connect (expressvpn_driver env) node (h, w)) \<noteq> Panics" by (simp add: drivers e)
qed (auto simp: drivers express_Disconnect_def run_cmd_def same_node_def split: option.splits prod.splits)

section \<open>The registry\<close>

text \<open>Every registered driver keeps the contract; \<open>act\<close> is the table of interfaces of the driver of a type.\<close>

locale vpn_registry =
  fixes drs :: drivers and act :: "string \<Rightarrow> vpn_host \<Rightarrow> string \<Rightarrow> VpnIface option"
  assumes registered: "drs t = Some d \<Longrightarrow> vpn_driver_laws d (act t)"

definition driver_active :: "string \<Rightarrow> vpn_host \<Rightarrow> string \<Rightarrow> VpnIface option" where
  "driver_active t = (if t = ''mock'' then vh_mock else if t = ''wireguard'' then vh_wireguard
     else if t = ''expressvpn'' then vh_express else vh_express_mock)"

lemma registered_drivers:
  "fst (NewVpnManager env w0) t = Some d \<longleftrightarrow>
     t = ''mock'' \<and> d = mock_driver env \<or> t = ''wireguard'' \<and> d = wireguard_driver env \<or>
     t = ''expressvpn'' \<and> d = expressvpn_driver env \<or> t = ''expressvpn_mock'' \<and> d = expressvpn_mock_driver env"
  by (auto simp: NewVpnManager_def RegisterDriver_def split: if_splits)

interpretation manager: vpn_registry "fst (NewVpnManager env w0)" driver_active for env w0
proof (rule vpn_registry.intro)
  fix t d
  assume "fst (NewVpnManager env w0) t = Some d"
  then consider "t = ''mock''" "d = mock_driver env" | "t = ''wireguard''" "d = wireguard_driver env"
    | "t = ''expressvpn''" "d = expressvpn_driver env" | "t = ''expressvpn_mock''" "d = expressvpn_mock_driver env"
    by (auto simp: registered_drivers)
  then show "vpn_driver_laws d (driver_active t)"
    by cases (simp_all add: driver_active_def mock.vpn_driver_laws_axioms wireguard.vpn_driver_laws_axioms
      express.vpn_driver_laws_axioms express_mock.vpn_driver_laws_axioms)
qed

section \<open>The tables of the manager\<close>

lemma log_audit_vpn [simp]:
  "vpn_nodes (log_audit a s w) = vpn_nodes w" "express_vpn_sessions (log_audit a s w) = express_vpn_sessions w"
  "vpn_active (log_audit a s w) = vpn_active w"
  by (simp_all add: log_audit_def auditLogRepo_Create_def db_create_frame [where get = vpn_nodes]
      db_create_frame [where get = express_vpn_sessions] db_create_frame [where get = vpn_active])

definition with_row :: "string \<Rightarrow> VPNNode \<Rightarrow> VPNNode list \<Rightarrow> VPNNode list" where
  "with_row i n = map (\<lambda>x. if vn_ID x = i then n else x)"

lemma with_row_twice [simp]: "vn_ID n = i \<Longrightarrow> with_row i m (with_row i n rows) = with_row i m rows"
  by (simp add: with_row_def)

lemma with_row_ids [simp]: "vn_ID n = i \<Longrightarrow> map vn_ID (with_row i n rows) = map vn_ID rows"
  by (simp add: with_row_def)

lemma with_row_mem: "i \<in> vn_ID ` set rows \<Longrightarrow> n \<in> set (with_row i n rows)"
  by (auto simp: with_row_def)

lemma with_row_id_set: "vn_ID n = i \<Longrightarrow> vn_ID ` set (with_row i n rows) = vn_ID ` set rows"
  by (metis list.set_map with_row_ids)

lemma save_node_ok:
  assumes "faults w = []" and "vn_ID n \<in> vn_ID ` set (vpn_nodes w)"
  shows "save_node n w = (n\<lparr>vn_UpdatedAt := clock w\<rparr>,
    vpn_nodes_update (with_row (vn_ID n) (n\<lparr>vn_UpdatedAt := clock w\<rparr>)) w)"
proof -
  have "\<exists>x \<in> set (vpn_nodes w). vn_ID x = vn_ID n" using assms(2) by auto
  then have "vpnNodeRepo_Update n w = (Inr (n\<lparr>vn_UpdatedAt := clock w\<rparr>),
      vpn_nodes_update (with_row (vn_ID n) (n\<lparr>vn_UpdatedAt := clock w\<rparr>)) w)"
    using assms(1) by (simp add: vpnNodeRepo_Update_def db_save_def Let_def with_row_def)
  then show ?thesis by (simp add: save_node_def row_or_def)
qed

lemma get_node:
  assumes "faults w = []" and "distinct (map vn_ID (vpn_nodes w))" and "n \<in> set (vpn_nodes w)"
  shows "vpnNodeRepo_GetByID (vn_ID n) w = (Inr n, w)"
  using assms by (simp add: vpnNodeRepo_GetByID_def first_by_unique)

text \<open>The entry of the audit log that a message makes.\<close>

definition audit_entry :: "string \<Rightarrow> string \<Rightarrow> world \<Rightarrow> AuditLog" where
  "audit_entry a s w = \<lparr>al_ID = next_id al_ID (audit_logs w), al_Action = a, al_Details = s, al_Timestamp = clock w\<rparr>"

lemma log_audit_ok:
  "faults w = [] \<Longrightarrow> log_audit a s w = w\<lparr>audit_logs := audit_logs w @ [audit_entry a s w]\<rparr>"
  by (simp add: log_audit_def auditLogRepo_Create_def db_create_ok Let_def audit_entry_def zero_AuditLog_def
      next_id_fresh [THEN not_sym] next_id_fresh)

text \<open>The session a connection stores; a duplicate id would store none.\<close>

definition opened_sessions :: "VPNNode \<Rightarrow> world \<Rightarrow> ExpressVPNSession list" where
  "opened_sessions n w =
     (if express_type n \<and> uuid_of w (uuid_next w) \<notin> es_ID ` set (express_vpn_sessions w)
      then [new_session (uuid_of w (uuid_next w)) n (clock w)] else [])"

lemma create_session_ok:
  assumes "faults w = []"
  shows "create_session n w = w\<lparr>express_vpn_sessions := express_vpn_sessions w @ opened_sessions n w,
    uuid_next := uuid_next w + (if express_type n then 1 else 0)\<rparr>"
proof -
  have u: "new_session i n t = zero_ExpressVPNSession\<lparr>es_ID := i, es_AgentID := vn_AgentID n, es_NodeID := vn_ID n,
     es_LocationAlias := vn_LocationAlias n, es_LocationDisplayName := vn_LocationDisplayName n,
     es_PublicIP := vn_IP n, es_DetectedCountry := vn_DetectedCountry n, es_Status := ''connected'',
     es_ConnectedAt := t\<rparr>" for i t by (simp add: new_session_def)
  show ?thesis
    using assms by (auto simp: create_session_def opened_sessions_def new_uuid_def expressVPNSessionRepo_Create_def
        db_create_ok Let_def u image_iff eq_commute [of "uuid_of w (uuid_next w)"])
qed

section \<open>The outcome of a connection\<close>

text \<open>The row of a node whose connection failed.\<close>

definition failed_row :: "VPNNode \<Rightarrow> gerr \<Rightarrow> time \<Rightarrow> VPNNode" where
  "failed_row n e now = n\<lparr>vn_Status := ''failed'', vn_ConnectionStatus := ''failed'', vn_LastError := err_text e,
     vn_UpdatedAt := now\<rparr>"

context vpn_driver_laws begin

lemma connect_with_outcome:
  assumes f: "faults w = []" and i: "vn_ID node \<in> vn_ID ` set (vpn_nodes w)"
    and c: "connect_with d node (h, w) = (r, (h', w'))"
  obtains (panics) "r = Panics" "length (vn_ID node) < 8"
    | (failed) e ls where "r = Returns (Inl e)" "active h' = active h"
      "w' = w\<lparr>vpn_nodes := with_row (vn_ID node) (failed_row node e (clock w)) (vpn_nodes w), audit_logs := audit_logs w @ ls\<rparr>"
      "map al_Action ls = [''VPN_CONNECTING'', ''VPN_CONNECT_FAILED'']"
    | (connected) ifc n ls where "r = Returns (Inr ifc)" "active h' = (active h)(vn_ID node \<mapsto> ifc)"
      "same_node node n" "active h (vn_ID node) = None \<longrightarrow> vn_Status n = ''connected''"
      "w' = w\<lparr>vpn_nodes := with_row (vn_ID node) n (vpn_nodes w),
         express_vpn_sessions := express_vpn_sessions w @ opened_sessions n w,
         vpn_active := (vpn_active w)(vn_ID node \<mapsto> ifc), audit_logs := audit_logs w @ ls,
         uuid_next := uuid_next w + (if express_type node then 1 else 0)\<rparr>"
      "map al_Action ls = [''VPN_CONNECTING'', ''VPN_CONNECTED'']"
proof -
  define node1 where "node1 = node\<lparr>vn_Status := ''connecting'', vn_ConnectionStatus := ''connecting'', vn_UpdatedAt := clock w\<rparr>"
  define w1 where "w1 = vpn_nodes_update (with_row (vn_ID node) node1) w"
  define l1 where "l1 = audit_entry ''VPN_CONNECTING'' (''Connecting to VPN: '' @ vn_Name node @ '' ('' @ vn_Type node @ '')'') w1"
  define w2 where "w2 = w1\<lparr>audit_logs := audit_logs w1 @ [l1]\<rparr>"
  have f2: "faults w2 = []" "faults w1 = []" using f by (simp_all add: w2_def w1_def)
  have b: "connect_begin node w = (node1, w2)"
    using save_node_ok [of w "node\<lparr>vn_Status := ''connecting'', vn_ConnectionStatus := ''connecting''\<rparr>"] f i
      log_audit_ok [OF f2(2)]
    by (simp add: connect_begin_def node1_def [symmetric] w1_def [symmetric] w2_def l1_def)
  have n1: "vn_ID node1 = vn_ID node" "same_node node node1" by (simp_all add: node1_def same_node_def)
  have rows2: "vpn_nodes w2 = with_row (vn_ID node) node1 (vpn_nodes w)" by (simp add: w2_def w1_def)
  have i2: "vn_ID node \<in> vn_ID ` set (vpn_nodes w2)" using i n1 by (simp add: rows2 with_row_id_set)
  obtain r3 h3 w3 where d: "dr_Connect d node1 (h, w2) = (r3, (h3, w3))" by (metis surj_pair)
  have w3: "w3 = w2" by (rule connect_reads [OF d f2(1)])
  show thesis
  proof (cases r3)
    case Panics
    then have "\<not> 8 \<le> length (vn_ID node1)" using connect_runs [of node1 h w2] by (auto simp: d)
    then show thesis using c Panics by (intro panics) (auto simp: connect_with_def b d n1)
  next
    case (Returns x)
    show thesis
    proof (cases x)
      case (Inl e)
      let ?n = "node1\<lparr>vn_Status := ''failed'', vn_ConnectionStatus := ''failed'', vn_LastError := err_text e\<rparr>"
      define w4 where "w4 = vpn_nodes_update (with_row (vn_ID node) (failed_row node e (clock w))) w2"
      have sv: "snd (save_node ?n w2) = w4"
        using save_node_ok [OF f2(1), of ?n] i2 n1
        by (simp add: w4_def failed_row_def) (simp add: node1_def w2_def w1_def)
      have f4: "faults w4 = []" by (simp add: w4_def f2)
      have c': "r = Returns (Inl e)" "h' = h3" "w' = connect_failed node1 e w2"
        using c by (auto simp: connect_with_def b d Returns w3 Inl)
      let ?ls = "[l1, audit_entry ''VPN_CONNECT_FAILED'' (''Failed to connect to VPN '' @ vn_Name node1 @ '': '' @ err_text e) w4]"
      show thesis
      proof (rule failed [of e ?ls])
        show "active h' = active h" using connect_err [of node1 h w2 e] d Returns Inl c' by simp
        show "w' = w\<lparr>vpn_nodes := with_row (vn_ID node) (failed_row node e (clock w)) (vpn_nodes w), audit_logs := audit_logs w @ ?ls\<rparr>"
          unfolding c'(3) connect_failed_def sv log_audit_ok [OF f4]
          by (rule world.equality) (simp_all add: w4_def w2_def w1_def n1)
      qed (simp_all add: c' l1_def audit_entry_def)
    next
      case (Inr y)
      obtain ifc node2 where y: "y = (ifc, node2)" by fastforce
      have k: "same_node node1 node2" "active h3 = (active h)(vn_ID node \<mapsto> ifc)" "active h (vn_ID node) = None \<longrightarrow> vn_Status node2 = ''connected''"
        using connect_ok [of node1 h w2 ifc node2 h3 w3] d Returns Inr y n1 by simp_all
      have id2: "vn_ID node2 = vn_ID node" "same_node node node2" using k(1) n1 by (simp_all add: same_node_def)
      have et: "express_type node2 = express_type node" using id2(2) by (simp add: express_type_def same_node_def)
      have c': "r = Returns (Inr ifc)" "h' = h3" "w' = connect_done node2 ifc w2"
        using c by (auto simp: connect_with_def b d Returns w3 Inr y)
      define n where "n = node2\<lparr>vn_UpdatedAt := clock w\<rparr>"
      define w5 where "w5 = (create_session node2 w2)\<lparr>vpn_active := (vpn_active (create_session node2 w2))(vn_ID node \<mapsto> ifc)\<rparr>"
      have s: "opened_sessions node2 w2 = opened_sessions n w"
        by (simp add: opened_sessions_def n_def w2_def w1_def express_type_def new_session_def)
      have w5: "w5 = w2\<lparr>express_vpn_sessions := express_vpn_sessions w @ opened_sessions n w,
          uuid_next := uuid_next w + (if express_type node then 1 else 0), vpn_active := (vpn_active w)(vn_ID node \<mapsto> ifc)\<rparr>"
        unfolding w5_def create_session_ok [OF f2(1)] s et by (simp add: w2_def w1_def)
      define w6 where "w6 = vpn_nodes_update (with_row (vn_ID node) n) w5"
      have "vn_ID node2 \<in> vn_ID ` set (vpn_nodes w5)" using i2 by (simp add: w5 id2)
      then have sv: "snd (save_node node2 w5) = w6"
        using save_node_ok [of w5 node2] f2 by (simp add: w6_def n_def w5 id2) (simp add: w2_def w1_def)
      have f6: "faults w6 = []" by (simp add: w6_def w5 f2)
      let ?ls = "[l1, audit_entry ''VPN_CONNECTED'' (''Successfully connected to VPN: '' @ vn_Name node2 @ '', exit IP: '' @ vn_IP node2) w6]"
      show thesis
      proof (rule connected [of ifc n ?ls])
        show "w' = w\<lparr>vpn_nodes := with_row (vn_ID node) n (vpn_nodes w),
           express_vpn_sessions := express_vpn_sessions w @ opened_sessions n w,
           vpn_active := (vpn_active w)(vn_ID node \<mapsto> ifc), audit_logs := audit_logs w @ ?ls,
           uuid_next := uuid_next w + (if express_type node then 1 else 0)\<rparr>"
          unfolding c'(3) connect_done_def Let_def id2(1) w5_def [symmetric] sv log_audit_ok [OF f6]
          by (rule world.equality) (simp_all add: w6_def w5 w2_def w1_def n1)
      qed (use k id2 in \<open>simp_all add: c' l1_def audit_entry_def n_def same_node_def\<close>)
    qed
  qed
qed

end

section \<open>One session per agent\<close>

definition connected_sessions :: "string \<Rightarrow> world \<Rightarrow> ExpressVPNSession list" where
  "connected_sessions agentID w = filter (\<lambda>s. es_AgentID s = agentID \<and> es_Status s = ''connected'') (express_vpn_sessions w)"

text \<open>The agent of the node has a session with another node.\<close>

definition blocked :: "VPNNode \<Rightarrow> world \<Rightarrow> bool" where
  "blocked node w \<longleftrightarrow> express_type node \<and>
     (case first_by es_ID (connected_sessions (vn_AgentID node) w) of None \<Rightarrow> False | Some s \<Rightarrow> es_NodeID s \<noteq> vn_ID node)"

lemma active_session_ok:
  "faults w = [] \<Longrightarrow> expressVPNSessionRepo_GetActiveByAgent agentID w =
    (case first_by es_ID (connected_sessions agentID w) of None \<Rightarrow> Inl ErrNotFound | Some s \<Rightarrow> Inr s, w)"
  by (simp add: expressVPNSessionRepo_GetActiveByAgent_def connected_sessions_def split: option.split)

lemma session_conflict_ok: "faults w = [] \<Longrightarrow> session_conflict node w = (blocked node w, w)"
  by (simp add: session_conflict_def blocked_def active_session_ok split: option.split)

lemma vm_Connect_ok:
  assumes "faults w = []" and "distinct (map vn_ID (vpn_nodes w))" and "node \<in> set (vpn_nodes w)"
  shows "vm_Connect drs (vn_ID node) (h, w) =
    (case (if vn_Status node = ''connected'' then vpn_active w (vn_ID node) else None) of
       Some ifc \<Rightarrow> (Returns (Inr ifc), (h, w))
     | None \<Rightarrow>
         if blocked node w then (Returns (Inl (ErrMsg
           ''Agent already has an active ExpressVPN session. Disconnect it first or use another agent.'')), (h, w))
         else (case drs (vn_Type node) of
           None \<Rightarrow> (Returns (Inl (ErrMsg (''unsupported vpn type: '' @ vn_Type node))), (h, w))
         | Some d \<Rightarrow> connect_with d node (h, w)))"
  by (simp add: vm_Connect_def get_node [OF assms] session_conflict_ok [OF assms(1)] split: option.split)

lemma manager_types:
  "fst (NewVpnManager env w0) t = None \<longleftrightarrow> t \<notin> {''mock'', ''wireguard'', ''expressvpn'', ''expressvpn_mock''}"
  by (auto simp: NewVpnManager_def RegisterDriver_def)


text \<open>A host on which every command succeeds and every address resolves to the same one.\<close>

definition quiet_web :: web where
  "quiet_web = \<lparr>web_text = \<lambda>_. Inr ''45.90.90.10'', web_json = \<lambda>_. Inl (ErrMsg ''offline'')\<rparr>"

definition quiet_env :: vpn_env where
  "quiet_env = \<lparr>ve_goos = ''linux'', ve_getenv = \<lambda>_. [], ve_look = \<lambda>_. True, ve_run = \<lambda>_ _. (''Connected to'', None),
     ve_wait = \<lambda>_. None, ve_web = \<lambda>_ _. quiet_web, ve_resolver = \<lambda>_. Inr [], ve_temp = Inr ''/tmp/wg-1.conf'',
     ve_write = None, ve_intn = \<lambda>_ _. 0, ve_regions = RegionFlagMap\<rparr>"

definition demo_node :: "string \<Rightarrow> string \<Rightarrow> VPNNode" where
  "demo_node i alias = zero_VPNNode\<lparr>vn_ID := i, vn_Name := ''exit'', vn_Type := ''expressvpn_mock'', vn_Status := ''disconnected'',
     vn_AgentID := ''local-agent'', vn_LocationAlias := alias\<rparr>"

definition demo_world :: world where
  "demo_world = start_world\<lparr>vpn_nodes := [demo_node ''node-aaaa'' ''singapore'', demo_node ''node-bbbb'' ''uk-london'']\<rparr>"

abbreviation quiet_drivers :: drivers where "quiet_drivers \<equiv> fst (NewVpnManager quiet_env demo_world)"

lemma demo_world_simps [simp]:
  "faults demo_world = []" "vpn_nodes demo_world = [demo_node ''node-aaaa'' ''singapore'', demo_node ''node-bbbb'' ''uk-london'']"
  "express_vpn_sessions demo_world = []" "vpn_active demo_world = (\<lambda>_. None)"
  "vn_ID (demo_node i a) = i" "vn_Status (demo_node i a) = ''disconnected''" "vn_Type (demo_node i a) = ''expressvpn_mock''"
  "vn_AgentID (demo_node i a) = ''local-agent''"
  by (simp_all add: demo_world_def demo_node_def)

lemma demo_connect:
  assumes "vm_Connect quiet_drivers (vn_ID (demo_node ''node-aaaa'' ''singapore'')) (new_host, demo_world) = (r, (h', w'))"
  shows "\<not> blocked (demo_node ''node-aaaa'' ''singapore'') demo_world" and "\<exists>ifc. r = Returns (Inr ifc)"
    and "connect_with (expressvpn_mock_driver quiet_env) (demo_node ''node-aaaa'' ''singapore'') (new_host, demo_world) = (r, (h', w'))"
proof -
  show b: "\<not> blocked (demo_node ''node-aaaa'' ''singapore'') demo_world"
    by (simp add: blocked_def connected_sessions_def)
  show c: "connect_with (expressvpn_mock_driver quiet_env) (demo_node ''node-aaaa'' ''singapore'') (new_host, demo_world) = (r, (h', w'))"
    using assms by (simp add: vm_Connect_ok [of demo_world "demo_node ''node-aaaa'' ''singapore''", simplified] b [simplified]
        NewVpnManager_def RegisterDriver_def)
  show "\<exists>ifc. r = Returns (Inr ifc)"
    using c by (auto simp: connect_with_def drivers express_mock_Connect_def quiet_env_def wait_timer_def new_host_def Let_def split: prod.splits)
qed


text \<open>What a connection and a disconnection do to the sessions, with no assumption about the node.\<close>

lemma save_node_frame:
  assumes "save_node n w = (n', w')"
  shows "same_node n n'" "express_vpn_sessions w' = express_vpn_sessions w" "faults w = [] \<Longrightarrow> faults w' = []"
    "vpn_active w' = vpn_active w"
proof -
  obtain r where r: "vpnNodeRepo_Update n w = (r, w')" and n': "n' = row_or n r"
    using assms by (auto simp: save_node_def split: prod.splits)
  show "same_node n n'"
    using r n' by (auto simp: vpnNodeRepo_Update_def db_save_def Let_def same_node_def row_or_def split: prod.splits if_splits)
  have "w' = snd (vpnNodeRepo_Update n w)" by (simp add: r)
  then show "express_vpn_sessions w' = express_vpn_sessions w" "faults w = [] \<Longrightarrow> faults w' = []" "vpn_active w' = vpn_active w"
    by (simp_all add: vpnNodeRepo_Update_def db_save_frame [where get = express_vpn_sessions] db_save_frame [where get = vpn_active])
qed

lemma connect_begin_frame:
  assumes "connect_begin n w = (n', w')"
  shows "same_node n n'" "express_vpn_sessions w' = express_vpn_sessions w" "faults w = [] \<Longrightarrow> faults w' = []"
proof -
  let ?n = "n\<lparr>vn_Status := ''connecting'', vn_ConnectionStatus := ''connecting''\<rparr>"
  obtain w1 where s: "save_node ?n w = (n', w1)" using assms by (auto simp: connect_begin_def split: prod.splits)
  show "same_node n n'" using save_node_frame(1) [OF s] by (simp add: same_node_def)
  show "express_vpn_sessions w' = express_vpn_sessions w" "faults w = [] \<Longrightarrow> faults w' = []"
    using assms save_node_frame(2,3) [OF s] by (auto simp: connect_begin_def s)
qed

lemma connect_failed_frame:
  "express_vpn_sessions (connect_failed n e w) = express_vpn_sessions w" "faults w = [] \<Longrightarrow> faults (connect_failed n e w) = []"
  using save_node_frame(2,3) [OF surjective_pairing] by (simp_all add: connect_failed_def)

lemma connect_done_sessions:
  assumes "faults w = []"
  shows "faults (connect_done n ifc w) = []" "express_vpn_sessions (connect_done n ifc w) = express_vpn_sessions (create_session n w)"
  using save_node_frame(2,3) [OF surjective_pairing] create_session_ok [OF assms] assms
  by (simp_all add: connect_done_def Let_def)

lemma close_session_ok:
  assumes "faults w = []"
  shows "close_session n w = (if express_type n then
      (case first_by es_ID (connected_sessions (vn_AgentID n) w) of None \<Rightarrow> w
       | Some s \<Rightarrow> express_vpn_sessions_update (map (\<lambda>x. if es_ID x = es_ID s
           then s\<lparr>es_Status := ''disconnected'', es_DisconnectedAt := Some (clock w)\<rparr> else x)) w) else w)"
proof (cases "first_by es_ID (connected_sessions (vn_AgentID n) w)")
  case (Some s)
  then have "s \<in> set (express_vpn_sessions w)" using first_by_in [OF Some] by (auto simp: connected_sessions_def)
  then have "\<exists>x \<in> set (express_vpn_sessions w). es_ID x = es_ID s" by blast
  then show ?thesis
    using assms Some by (simp add: close_session_def active_session_ok expressVPNSessionRepo_Update_def db_save_def Let_def)
qed (use assms in \<open>simp add: close_session_def active_session_ok\<close>)

lemma disconnect_done_sessions:
  assumes "faults w = []"
  shows "faults (disconnect_done n w) = []" "express_vpn_sessions (disconnect_done n w) = express_vpn_sessions (close_session n w)"
proof -
  have "faults (close_session n w) = []" using assms by (auto simp: close_session_ok split: option.split)
  then show "faults (disconnect_done n w) = []" "express_vpn_sessions (disconnect_done n w) = express_vpn_sessions (close_session n w)"
    using save_node_frame(2,3) [OF surjective_pairing] by (simp_all add: disconnect_done_def Let_def)
qed

context vpn_driver_laws begin

lemma connect_with_sessions:
  assumes f: "faults w = []" and c: "connect_with d node (h, w) = (r, (h', w'))"
  shows "faults w' = []" and "\<exists>ss. express_vpn_sessions w' = express_vpn_sessions w @ ss \<and>
    (\<forall>s \<in> set ss. es_AgentID s = vn_AgentID node \<and> es_NodeID s = vn_ID node \<and> express_type node)"
proof -
  obtain node1 w2 where b: "connect_begin node w = (node1, w2)" by fastforce
  note b_frame = connect_begin_frame [OF b]
  obtain r3 h3 w3 where d: "dr_Connect d node1 (h, w2) = (r3, (h3, w3))" by (metis surj_pair)
  have w3: "w3 = w2" "faults w2 = []" using connect_reads [OF d] b_frame(3) f by simp_all
  consider (none) "faults w' = []" "express_vpn_sessions w' = express_vpn_sessions w2"
    | (ended) ifc n where "same_node node1 n" "w' = connect_done n ifc w2"
  proof (cases r3)
    case Panics
    then show thesis using c none w3 by (simp add: connect_with_def b d)
  next
    case (Returns x)
    show thesis
    proof (cases x)
      case (Inl e)
      then show thesis using c none w3 Returns connect_failed_frame [where n = node1 and e = e and w = w2] by (auto simp: connect_with_def b d)
    next
      case (Inr y)
      obtain ifc n where y: "y = (ifc, n)" by fastforce
      have "same_node node1 n" using connect_ok [of node1 h w2 ifc n h3 w3] d Returns Inr y by simp
      moreover have "w' = connect_done n ifc w2" using c w3 Returns Inr y by (simp add: connect_with_def b d)
      ultimately show thesis by (rule ended)
    qed
  qed
  then have "faults w' = [] \<and> (\<exists>ss. express_vpn_sessions w' = express_vpn_sessions w @ ss \<and>
    (\<forall>s \<in> set ss. es_AgentID s = vn_AgentID node \<and> es_NodeID s = vn_ID node \<and> express_type node))"
  proof cases
    case none
    then show ?thesis by (simp add: b_frame(2))
  next
    case (ended ifc n)
    have "same_node node n" using b_frame(1) ended(1) by (simp add: same_node_def)
    then show ?thesis
      using connect_done_sessions [OF w3(2)] create_session_ok [OF w3(2), of n]
      by (auto simp: ended(2) b_frame(2) same_node_def express_type_def new_session_def opened_sessions_def)
  qed
  then show "faults w' = []" and "\<exists>ss. express_vpn_sessions w' = express_vpn_sessions w @ ss \<and>
    (\<forall>s \<in> set ss. es_AgentID s = vn_AgentID node \<and> es_NodeID s = vn_ID node \<and> express_type node)" by auto
qed

end

definition one_node_per_agent :: "world \<Rightarrow> bool" where
  "one_node_per_agent w \<longleftrightarrow> faults w = [] \<and>
     (\<forall>a. \<forall>s \<in> set (connected_sessions a w). \<forall>s' \<in> set (connected_sessions a w). es_NodeID s = es_NodeID s')"

lemma one_nodeD:
  "one_node_per_agent w \<Longrightarrow> s \<in> set (connected_sessions a w) \<Longrightarrow> s' \<in> set (connected_sessions a w) \<Longrightarrow> es_NodeID s = es_NodeID s'"
  unfolding one_node_per_agent_def by blast

lemma one_node_fewer:
  assumes "one_node_per_agent w" and "faults w' = []" and "\<And>a. set (connected_sessions a w') \<subseteq> set (connected_sessions a w)"
  shows "one_node_per_agent w'"
  using assms unfolding one_node_per_agent_def by blast

lemma one_node_same:
  assumes "one_node_per_agent w" and "express_vpn_sessions w' = express_vpn_sessions w" and "faults w' = []"
  shows "one_node_per_agent w'"
  by (rule one_node_fewer [OF assms(1,3)]) (simp add: connected_sessions_def assms(2))

lemma get_node_frame:
  assumes "vpnNodeRepo_GetByID i w = (r, w1)"
  shows "express_vpn_sessions w1 = express_vpn_sessions w" "faults w = [] \<Longrightarrow> w1 = w"
proof -
  have "w1 = snd (vpnNodeRepo_GetByID i w)" by (simp add: assms)
  then show "express_vpn_sessions w1 = express_vpn_sessions w"
    by (simp add: vpnNodeRepo_GetByID_def db_first_frame [where get = express_vpn_sessions])
  show "faults w = [] \<Longrightarrow> w1 = w" using arg_cong [OF assms, of snd] by (simp add: vpnNodeRepo_GetByID_def split: option.splits)
qed

context vpn_registry begin

lemma vm_Connect_keeps:
  assumes inv: "one_node_per_agent w" and c: "vm_Connect drs nodeID (h, w) = (r, (h', w'))"
  shows "one_node_per_agent w'"
proof -
  have f: "faults w = []" using inv by (simp add: one_node_per_agent_def)
  obtain g w1 where g: "vpnNodeRepo_GetByID nodeID w = (g, w1)" by fastforce
  have w1: "w1 = w" using get_node_frame(2) [OF g f] .
  consider "w' = w" | node d where "\<not> blocked node w" "drs (vn_Type node) = Some d" "connect_with d node (h, w) = (r, (h', w'))"
    using c by (auto simp: vm_Connect_def g w1 session_conflict_ok [OF f] split: sum.splits option.splits if_splits bool.splits)
  then show ?thesis
  proof cases
    case (2 node d)
    obtain ss where ss: "express_vpn_sessions w' = express_vpn_sessions w @ ss"
      "\<forall>s \<in> set ss. es_AgentID s = vn_AgentID node \<and> es_NodeID s = vn_ID node \<and> express_type node" and f': "faults w' = []"
      using vpn_driver_laws.connect_with_sessions [OF registered [OF 2(2)] f 2(3)] by blast
    have old: "es_NodeID s = vn_ID node" if s: "s \<in> set (connected_sessions (vn_AgentID node) w)" and e: "express_type node" for s
    proof -
      obtain s0 where s0: "first_by es_ID (connected_sessions (vn_AgentID node) w) = Some s0"
        using first_by_ex [OF s] by blast
      then have "es_NodeID s0 = vn_ID node" using 2(1) e by (simp add: blocked_def)
      moreover have "es_NodeID s = es_NodeID s0" by (rule one_nodeD [OF inv s first_by_in [OF s0]])
      ultimately show ?thesis by simp
    qed
    have conn: "s \<in> set (connected_sessions a w) \<or> s \<in> set ss \<and> a = vn_AgentID node"
      if "s \<in> set (connected_sessions a w')" for s a
      using that ss by (auto simp: connected_sessions_def)
    have node: "es_NodeID s = vn_ID node" if "s \<in> set (connected_sessions (vn_AgentID node) w')" "ss \<noteq> []" for s
    proof -
      have "express_type node" using that(2) ss(2) by (cases ss) auto
      then show ?thesis using conn [OF that(1)] old ss(2) by blast
    qed
    show ?thesis
      unfolding one_node_per_agent_def
    proof (intro conjI allI ballI)
      show "faults w' = []" by (rule f')
      fix a s s'
      assume s: "s \<in> set (connected_sessions a w')" "s' \<in> set (connected_sessions a w')"
      show "es_NodeID s = es_NodeID s'"
      proof (cases "ss \<noteq> [] \<and> a = vn_AgentID node")
        case True
        then show ?thesis using node s by simp
      next
        case False
        then have "s \<in> set (connected_sessions a w)" "s' \<in> set (connected_sessions a w)" using conn s by auto
        then show ?thesis by (rule one_nodeD [OF inv])
      qed
    qed
  qed (use inv in simp)
qed

lemma vm_Disconnect_cases:
  assumes f: "faults w = []" and c: "vm_Disconnect drs nodeID (h, w) = (r, (h', w'))"
  obtains (kept) "express_vpn_sessions w' = express_vpn_sessions w" "faults w' = []" "\<exists>e. r = Inl e"
    | (closed) node node' d where "vpnNodeRepo_GetByID nodeID w = (Inr node, w)" "drs (vn_Type node) = Some d"
        "same_node node node'" "w' = disconnect_done node' w" "r = Inr ()"
proof -
  obtain g w1 where g: "vpnNodeRepo_GetByID nodeID w = (g, w1)" by fastforce
  have w1: "w1 = w" using get_node_frame(2) [OF g f] .
  show thesis
  proof (cases g)
    case (Inl e)
    then have "w' = w" "\<exists>e. r = Inl e" using c g w1 by (auto simp: vm_Disconnect_def)
    then show thesis using kept f by simp
  next
    case (Inr node)
    show thesis
    proof (cases "drs (vn_Type node)")
      case None
      then have "w' = w" "\<exists>e. r = Inl e" using c g w1 Inr by (auto simp: vm_Disconnect_def)
      then show thesis using kept f by simp
    next
      case (Some d)
      obtain x h2 w2 where x: "dr_Disconnect d node (h, w) = (x, (h2, w2))" by (metis surj_pair)
      have w2: "w2 = w" using vpn_driver_laws.disconnect_reads [OF registered [OF Some] x f] .
      show thesis
      proof (cases x)
        case (Inl e)
        then have "w' = log_audit ''VPN_DISCONNECT_FAILED'' (''Failed to disconnect VPN '' @ vn_Name node @ '': '' @ err_text e) w"
          "r = Inl e" using c g w1 Inr Some x w2 by (auto simp: vm_Disconnect_def)
        then show thesis using f kept by simp
      next
        case r: (Inr node')
        have "same_node node node'" using vpn_driver_laws.disconnect_ok [OF registered [OF Some]] x r by blast
        moreover have "w' = disconnect_done node' w" "r = Inr ()" using c g w1 Inr Some x w2 r by (auto simp: vm_Disconnect_def)
        ultimately show thesis using closed g w1 Inr Some by blast
      qed
    qed
  qed
qed

lemma vm_Disconnect_keeps:
  assumes inv: "one_node_per_agent w" and c: "vm_Disconnect drs nodeID (h, w) = (r, (h', w'))"
  shows "one_node_per_agent w'"
proof -
  have f: "faults w = []" using inv by (simp add: one_node_per_agent_def)
  show ?thesis
    using f c
  proof (cases rule: vm_Disconnect_cases)
    case kept
    then show ?thesis using one_node_same [OF inv] by simp
  next
    case (closed node node' d)
    have "set (connected_sessions a w') \<subseteq> set (connected_sessions a w)" for a
      using disconnect_done_sessions(2) [OF f] by (auto simp: closed connected_sessions_def close_session_ok [OF f] split: option.splits if_splits)
    then show ?thesis using one_node_fewer [OF inv] disconnect_done_sessions(1) [OF f, of node'] by (simp add: closed(4))
  qed
qed

end

text \<open>
  All states the manager of any process reaches: any host and environment may be behind a step, and everything
  else the program does leaves the sessions alone.
\<close>

inductive vpn_reaches :: "vpn_state \<Rightarrow> bool" where
  start: "express_vpn_sessions w = [] \<Longrightarrow> faults w = [] \<Longrightarrow> vpn_reaches (h, w)"
| connect: "vpn_reaches st \<Longrightarrow> vpn_reaches (snd (vm_Connect (fst (NewVpnManager env w0)) nodeID st))"
| disconnect: "vpn_reaches st \<Longrightarrow> vpn_reaches (snd (vm_Disconnect (fst (NewVpnManager env w0)) nodeID st))"
| elsewhere: "vpn_reaches (h, w) \<Longrightarrow> express_vpn_sessions w' = express_vpn_sessions w \<Longrightarrow> faults w' = [] \<Longrightarrow> vpn_reaches (h', w')"

lemma vpn_reaches_invariant: "vpn_reaches st \<Longrightarrow> one_node_per_agent (snd st)"
proof (induction rule: vpn_reaches.induct)
  case (start w h)
  then show ?case by (simp add: one_node_per_agent_def connected_sessions_def)
next
  case (connect st env w0 nodeID)
  obtain h w r h' w' where "st = (h, w)" "vm_Connect (fst (NewVpnManager env w0)) nodeID (h, w) = (r, (h', w'))"
    by (metis surj_pair)
  then show ?case using manager.vm_Connect_keeps connect.IH by force
next
  case (disconnect st env w0 nodeID)
  obtain h w r h' w' where "st = (h, w)" "vm_Disconnect (fst (NewVpnManager env w0)) nodeID (h, w) = (r, (h', w'))"
    by (metis surj_pair)
  then show ?case using manager.vm_Disconnect_keeps disconnect.IH by force
next
  case (elsewhere h w w' h')
  then show ?case using one_node_same by simp
qed

text \<open>
  C25. One ExpressVPN location per agent: in every reachable state all the connected sessions of an agent belong to
  one node, so the tunnel of the host is never promised to two locations at once. The database answers throughout.
\<close>

theorem one_express_node_per_agent:
  assumes "vpn_reaches (h, w)" and "s \<in> set (connected_sessions agentID w)" and "s' \<in> set (connected_sessions agentID w)"
  shows "es_NodeID s = es_NodeID s'"
  by (rule one_nodeD [OF vpn_reaches_invariant [OF assms(1), unfolded snd_conv] assms(2,3)])

text \<open>Node \<^verbatim>\<open>node-aaaa\<close> is connected and its session is open.\<close>

definition demo_session :: ExpressVPNSession where
  "demo_session = new_session ''s1'' (demo_node ''node-aaaa'' ''singapore'') 7"

definition demo_busy :: world where
  "demo_busy = demo_world\<lparr>express_vpn_sessions := [demo_session], vpn_active := [''node-aaaa'' \<mapsto>
     iface (demo_node ''node-aaaa'' ''singapore'') ''10.200.0.99'' ''mock-expressvpn0'' None]\<rparr>"

lemma demo_busy_simps [simp]:
  "faults demo_busy = []" "vpn_nodes demo_busy = vpn_nodes demo_world" "express_vpn_sessions demo_busy = [demo_session]"
  "es_ID demo_session = ''s1''" "es_AgentID demo_session = ''local-agent''" "es_NodeID demo_session = ''node-aaaa''"
  "es_Status demo_session = ''connected''" "connected_sessions ''local-agent'' demo_busy = [demo_session]"
  "vpn_active demo_busy ''node-aaaa'' = Some (iface (demo_node ''node-aaaa'' ''singapore'') ''10.200.0.99'' ''mock-expressvpn0'' None)"
  by (simp_all add: demo_busy_def demo_session_def new_session_def connected_sessions_def)

theorem one_express_node_per_agent_witness:
  "\<exists>h w s. vpn_reaches (h, w) \<and> s \<in> set (connected_sessions ''local-agent'' w) \<and>
     (\<forall>s' \<in> set (connected_sessions ''local-agent'' w). es_NodeID s' = es_NodeID s)"
proof -
  obtain r h' w' where c: "vm_Connect quiet_drivers (vn_ID (demo_node ''node-aaaa'' ''singapore'')) (new_host, demo_world) = (r, (h', w'))"
    by (metis surj_pair)
  have reach: "vpn_reaches (h', w')"
    using vpn_reaches.connect [OF vpn_reaches.start [of demo_world new_host], of quiet_env demo_world "''node-aaaa''"] c by simp
  obtain ifc where r: "r = Returns (Inr ifc)" using demo_connect(2) [OF c] by blast
  have "\<exists>n. same_node (demo_node ''node-aaaa'' ''singapore'') n \<and> express_vpn_sessions w' = opened_sessions n demo_world"
    using demo_connect(3) [OF c]
    by (elim express_mock.connect_with_outcome [rotated 2]) (auto simp: r)
  then obtain s where s: "s \<in> set (connected_sessions ''local-agent'' w')"
    by (auto simp: connected_sessions_def opened_sessions_def same_node_def express_type_def new_session_def)
  then have "\<forall>s' \<in> set (connected_sessions ''local-agent'' w'). es_NodeID s' = es_NodeID s"
    using one_express_node_per_agent [OF reach _ s] by blast
  then show ?thesis using reach s by blast
qed

lemma disconnect_done_rows:
  assumes "faults w = []" and "vn_ID n \<in> vn_ID ` set (vpn_nodes w)"
  shows "vpn_nodes (disconnect_done n w) = with_row (vn_ID n) (n\<lparr>vn_UpdatedAt := clock w\<rparr>) (vpn_nodes w)"
    and "vpn_active (disconnect_done n w) = (vpn_active w)(vn_ID n := None)"
proof -
  define w1 where "w1 = close_session n w"
  have w1: "faults w1 = []" "vpn_nodes w1 = vpn_nodes w" "vpn_active w1 = vpn_active w" "clock w1 = clock w"
    using assms(1) by (auto simp: w1_def close_session_ok split: option.split)
  have "save_node n (w1\<lparr>vpn_active := (vpn_active w1)(vn_ID n := None)\<rparr>) = (n\<lparr>vn_UpdatedAt := clock w\<rparr>,
      vpn_nodes_update (with_row (vn_ID n) (n\<lparr>vn_UpdatedAt := clock w\<rparr>)) (w1\<lparr>vpn_active := (vpn_active w1)(vn_ID n := None)\<rparr>))"
    by (subst save_node_ok) (use w1 assms(2) in simp_all)
  then show "vpn_nodes (disconnect_done n w) = with_row (vn_ID n) (n\<lparr>vn_UpdatedAt := clock w\<rparr>) (vpn_nodes w)"
    and "vpn_active (disconnect_done n w) = (vpn_active w)(vn_ID n := None)"
    by (simp_all add: disconnect_done_def Let_def w1_def [symmetric] w1)
qed

text \<open>
  The gap of that check: disconnecting a node closes the session of its agent, whichever node that session
  belongs to. After \<^verbatim>\<open>Disconnect\<close> of a node that was never connected the other node is still active for the manager
  and its row is untouched, but its session is gone and every node of the agent may connect.
\<close>

theorem foreign_disconnect_ends_session:
  assumes "faults w = []" and "distinct (map vn_ID (vpn_nodes w))" and "node \<in> set (vpn_nodes w)" and "express_type node"
    and "connected_sessions (vn_AgentID node) w = [s]" and "es_NodeID s \<noteq> vn_ID node"
    and "vm_Disconnect (fst (NewVpnManager env w0)) (vn_ID node) (h, w) = (Inr (), (h', w'))"
  shows "connected_sessions (vn_AgentID node) w' = [] \<and> vpn_active w' (es_NodeID s) = vpn_active w (es_NodeID s) \<and>
    (\<forall>n \<in> set (vpn_nodes w). vn_ID n \<noteq> vn_ID node \<longrightarrow> n \<in> set (vpn_nodes w')) \<and>
    (\<forall>n. vn_AgentID n = vn_AgentID node \<longrightarrow> \<not> blocked n w')"
  using assms(1,7)
proof (cases rule: manager.vm_Disconnect_cases)
  case (closed node1 node' d)
  have n: "node1 = node" using closed(1) get_node [OF assms(1-3)] by simp
  have k: "vn_ID node' = vn_ID node" "vn_AgentID node' = vn_AgentID node" "express_type node'"
    using closed(3) assms(4) by (auto simp: n same_node_def express_type_def)
  have i: "vn_ID node' \<in> vn_ID ` set (vpn_nodes w)" using assms(3) k(1) by auto
  have s: "s \<in> set (connected_sessions (vn_AgentID node) w)" by (simp add: assms(5))
  have rest: "x = s" if "x \<in> set (express_vpn_sessions w)" "es_AgentID x = vn_AgentID node" "es_Status x = ''connected''" for x
  proof -
    have "x \<in> set (connected_sessions (vn_AgentID node) w)" using that by (simp add: connected_sessions_def)
    then show ?thesis by (simp add: assms(5))
  qed
  have "express_vpn_sessions w' = map (\<lambda>x. if es_ID x = es_ID s
      then s\<lparr>es_Status := ''disconnected'', es_DisconnectedAt := Some (clock w)\<rparr> else x) (express_vpn_sessions w)"
    using disconnect_done_sessions(2) [OF assms(1), of node'] by (simp add: closed(4) close_session_ok [OF assms(1)] k assms(5))
  then have none: "connected_sessions (vn_AgentID node) w' = []"
    using rest by (auto simp: connected_sessions_def filter_empty_conv split: if_splits)
  then have "\<not> blocked n w'" if "vn_AgentID n = vn_AgentID node" for n using that by (simp add: blocked_def)
  moreover have "n \<in> set (vpn_nodes w')" if "n \<in> set (vpn_nodes w)" "vn_ID n \<noteq> vn_ID node" for n
    using that disconnect_done_rows(1) [OF assms(1) i] by (force simp: closed(4) with_row_def k(1))
  moreover have "vpn_active w' (es_NodeID s) = vpn_active w (es_NodeID s)"
    using disconnect_done_rows(2) [OF assms(1) i] assms(6) by (simp add: closed(4) k(1))
  ultimately show ?thesis using none by blast
qed auto

theorem foreign_disconnect_ends_session_witness:
  "\<exists>h' w'. vm_Disconnect quiet_drivers ''node-bbbb'' (new_host, demo_busy) = (Inr (), (h', w')) \<and>
     connected_sessions ''local-agent'' w' = [] \<and> vpn_active w' ''node-aaaa'' \<noteq> None"
proof -
  have g: "vpnNodeRepo_GetByID ''node-bbbb'' demo_busy = (Inr (demo_node ''node-bbbb'' ''uk-london''), demo_busy)"
    using get_node [of demo_busy "demo_node ''node-bbbb'' ''uk-london''"] by simp
  obtain h' w' where d: "vm_Disconnect quiet_drivers (vn_ID (demo_node ''node-bbbb'' ''uk-london'')) (new_host, demo_busy) = (Inr (), (h', w'))"
    by (simp add: vm_Disconnect_def g NewVpnManager_def RegisterDriver_def drivers express_mock_Disconnect_def)
  have "connected_sessions (vn_AgentID (demo_node ''node-bbbb'' ''uk-london'')) w' = [] \<and>
      vpn_active w' (es_NodeID demo_session) = vpn_active demo_busy (es_NodeID demo_session)"
    using foreign_disconnect_ends_session [OF _ _ _ _ _ _ d, of demo_session] by (simp add: express_type_def)
  then show ?thesis using d by simp
qed

section \<open>The commands of the WireGuard driver\<close>

lemma run_cmd_log: "vh_log (snd (run_cmd env args h)) = vh_log h @ [args]"
  by (simp add: run_cmd_def)

lemma run_commands_log:
  "run_commands env ns cs h = (x, h') \<Longrightarrow>
     (case x of
        Inr _ \<Rightarrow> vh_log h' = vh_log h @ cs \<and> (\<forall>k < length cs. snd (ve_run env (vh_log h @ take k cs) (cs ! k)) = None)
      | Inl e \<Rightarrow> \<exists>k < length cs. vh_log h' = vh_log h @ take (Suc k) cs @ [delete_netns ns] \<and>
          (\<forall>j < k. snd (ve_run env (vh_log h @ take j cs) (cs ! j)) = None) \<and>
          snd (ve_run env (vh_log h @ take k cs) (cs ! k)) \<noteq> None)"
proof (induction cs arbitrary: h)
  case (Cons c cs)
  obtain out e1 where r: "ve_run env (vh_log h) c = (out, e1)" by fastforce
  let ?h = "h\<lparr>vh_log := vh_log h @ [c]\<rparr>"
  have run: "run_cmd env c h = ((out, e1), ?h)" by (simp add: run_cmd_def r)
  show ?case
  proof (cases e1)
    case (Some e')
    have "\<exists>e. x = Inl e" "vh_log h' = vh_log h @ [c, delete_netns ns]"
      using Cons.prems run_cmd_log [of env "delete_netns ns" ?h] by (auto simp: run Some)
    then obtain e where x: "x = Inl e" and l: "vh_log h' = vh_log h @ [c, delete_netns ns]" by blast
    show ?thesis unfolding x sum.case by (intro exI [of _ 0]) (simp add: r Some l)
  next
    case None
    then have rest: "run_commands env ns cs ?h = (x, h')" using Cons.prems by (simp add: run)
    show ?thesis
    proof (cases x)
      case (Inr u)
      then show ?thesis using Cons.IH [OF rest] r None by (auto simp: nth_Cons' less_Suc_eq_0_disj)
    next
      case (Inl e)
      obtain k where "k < length cs" "vh_log h' = vh_log ?h @ take (Suc k) cs @ [delete_netns ns]"
        "\<forall>j < k. snd (ve_run env (vh_log ?h @ take j cs) (cs ! j)) = None"
        "snd (ve_run env (vh_log ?h @ take k cs) (cs ! k)) \<noteq> None"
        using Cons.IH [OF rest] Inl by auto
      then show ?thesis
        unfolding Inl sum.case by (intro exI [of _ "Suc k"]) (auto simp: r None less_Suc_eq_0_disj)
    qed
  qed
qed auto

text \<open>
  C27. A WireGuard connection is all or nothing. It succeeds only after its eight commands have run in order and
  succeeded. When one of them fails the rest is not run, the namespace is deleted as the last command, and the
  driver keeps no interface; every other refusal runs no command at all.
\<close>

theorem wireguard_all_or_nothing:
  assumes "wg_Connect env node (h, w) = (r, (h', w'))" and "vh_wireguard h (vn_ID node) = None"
  shows "\<exists>tmp. let ns = ''ns-'' @ take 8 (vn_ID node);
      cs = wg_commands ns (''wg-'' @ take 8 (vn_ID node)) tmp (wg_local_ip node) in
    (case r of
       Panics \<Rightarrow> length (vn_ID node) < 8 \<and> h' = h
     | Returns (Inr (ifc, node')) \<Rightarrow> vi_namespace ifc = Some ns \<and> vn_Status node' = ''connected'' \<and>
         vh_wireguard h' (vn_ID node) = Some ifc \<and> vh_log h' = vh_log h @ cs \<and>
         (\<forall>k < 8. snd (ve_run env (vh_log h @ take k cs) (cs ! k)) = None)
     | Returns (Inl e) \<Rightarrow> vh_wireguard h' = vh_wireguard h \<and>
         (h' = h \<or> (\<exists>k < 8. vh_log h' = vh_log h @ take (Suc k) cs @ [delete_netns ns] \<and>
           snd (ve_run env (vh_log h @ take k cs) (cs ! k)) \<noteq> None)))"
proof -
  have len: "length (wg_commands ns i tmp ip) = 8" for ns i tmp ip by (simp add: wg_commands_def)
  show ?thesis
    using assms(1)
  proof (cases rule: wg_Connect_cases)
    case (failed tmp e)
    then show ?thesis
      using run_commands_log [OF failed(2) [unfolded wg_run_def]] wg_run_frame [OF failed(2)]
      by (intro exI [of _ tmp]) (auto simp: len Let_def)
  next
    case (connected tmp h1 ifc node')
    then show ?thesis
      using run_commands_log [OF connected(2) [unfolded wg_run_def]]
      by (intro exI [of _ tmp]) (auto simp: len Let_def iface_def)
  qed (use assms(2) in auto)
qed

text \<open>A host on which the third command, moving the interface into the namespace, fails.\<close>

definition broken_env :: vpn_env where
  "broken_env = quiet_env\<lparr>ve_run := \<lambda>log _. if length log = 2 then (''busy'', Some ''exit status 2'') else ([], None)\<rparr>"

definition wg_node :: VPNNode where
  "wg_node = zero_VPNNode\<lparr>vn_ID := ''12345678-9'', vn_Type := ''wireguard''\<rparr>"

lemma wg_node_local_ip: "wg_local_ip wg_node = ''10.0.0.2/24''" "sanitizeWireGuardConfig lookup (vn_ConfigText wg_node) = Inr [CHR 0x0A]"
  by (simp_all add: wg_local_ip_def parseLocalIP_def wg_node_def parse_address_line_def trim_space_def trim_by_def to_lower_def
      has_prefix_def List.map_filter_simps sanitizeWireGuardConfig_def sanitize_line_def zero_VPNNode_def)

theorem wireguard_all_or_nothing_witness:
  "\<exists>e h' tmp. wg_Connect broken_env wg_node (new_host, demo_world) = (Returns (Inl e), (h', demo_world)) \<and>
     vh_log h' = take 3 (wg_commands ''ns-12345678'' ''wg-12345678'' tmp ''10.0.0.2/24'') @ [delete_netns ''ns-12345678'']"
proof -
  obtain r h' w' where c: "wg_Connect broken_env wg_node (new_host, demo_world) = (r, (h', w'))" by (metis surj_pair)
  have i: "take 8 (vn_ID wg_node) = ''12345678''" "\<not> length (vn_ID wg_node) < 8" "vh_wireguard new_host = (\<lambda>_. None)"
    "vh_log new_host = []"
    by (simp_all add: wg_node_def new_host_def)
  have r: "\<exists>e. r = Returns (Inl e)" "w' = demo_world" "h' \<noteq> new_host"
    using c by (auto simp: wg_Connect_def i wg_node_local_ip broken_env_def quiet_env_def wg_commands_def run_cmd_def Let_def new_host_def)
  then obtain e where e: "r = Returns (Inl e)" by blast
  obtain tmp k where k: "k < 8" "vh_log h' = take (Suc k) (wg_commands ''ns-12345678'' ''wg-12345678'' tmp ''10.0.0.2/24'') @ [delete_netns ''ns-12345678'']"
    "snd (ve_run broken_env (take k (wg_commands ''ns-12345678'' ''wg-12345678'' tmp ''10.0.0.2/24''))
       (wg_commands ''ns-12345678'' ''wg-12345678'' tmp ''10.0.0.2/24'' ! k)) \<noteq> None"
    using wireguard_all_or_nothing [OF c] r(3) by (auto simp: e i wg_node_local_ip Let_def)
  have "length (take k (wg_commands ''ns-12345678'' ''wg-12345678'' tmp ''10.0.0.2/24'')) = k" using k(1) by (simp add: wg_commands_def)
  then have "k = 2" using k(3) by (simp add: broken_env_def split: if_splits)
  then have s: "Suc k = 3" by simp
  show ?thesis
    by (intro exI [of _ e] exI [of _ h'] exI [of _ tmp] conjI) (use c e r(2) k(2) s in simp_all)
qed

end
