(* ===== verification/Health.thy ===== *)
theory Health imports CommandBus ProxyManager Network begin

text \<open>
  \<^verbatim>\<open>internal/health\<close>: the heartbeats of the agents and the sweep for silent ones, the health monitor and its grade, the
  system metrics, and the health checker. Each ticker is a function of one tick. What a probe through a proxy
  answers, and the readings of the system, are parameters; so is the order in which the goroutines of a check end.
\<close>

section \<open>Heartbeats: \<^verbatim>\<open>agent_service.go\<close>\<close>

definition beat_agent :: "real \<Rightarrow> real \<Rightarrow> int \<Rightarrow> int \<Rightarrow> time \<Rightarrow> Agent \<Rightarrow> Agent" where
  "beat_agent cpuUsage ramUsage vpnCount proxyCount now agent =
     agent\<lparr>ag_Status := ''healthy'', ag_CPUUsage := cpuUsage, ag_RAMUsage := ramUsage, ag_VPNCount := vpnCount,
       ag_ProxyCount := proxyCount, ag_LastHeartbeatAt := now, ag_UpdatedAt := now\<rparr>"

definition RecordHeartbeat :: "string \<Rightarrow> real \<Rightarrow> real \<Rightarrow> int \<Rightarrow> int \<Rightarrow> world \<Rightarrow> world" where
  "RecordHeartbeat agentID cpuUsage ramUsage vpnCount proxyCount w =
     (let hb = \<lparr>ch_AgentID = agentID, ch_CPUUsage = cpuUsage, ch_RAMUsage = ramUsage, ch_VPNCount = vpnCount,
            ch_ProxyCount = proxyCount, ch_Timestamp = clock w\<rparr>;
          w1 = w\<lparr>hb_cache := (hb_cache w)(agentID \<mapsto> hb)\<rparr>
      in case agentRepo_GetByID agentID w1 of
           (Inl _, w2) \<Rightarrow> w2
         | (Inr agent, w2) \<Rightarrow>
             (let w3 = snd (agentRepo_Update (beat_agent cpuUsage ramUsage vpnCount proxyCount (clock w2) agent) w2)
              in if ag_Status agent \<noteq> ''healthy'' then publish AgentOnline agentID [] NoPayload w3 else w3))"

definition GetCached :: "string \<Rightarrow> world \<Rightarrow> CachedHeartbeat option" where
  "GetCached agentID w = hb_cache w agentID"

text \<open>The last sign of life: the cached heartbeat, or the time in the row.\<close>

definition last_heartbeat :: "world \<Rightarrow> Agent \<Rightarrow> time" where
  "last_heartbeat w agent = (case hb_cache w (ag_ID agent) of Some hb \<Rightarrow> ch_Timestamp hb | None \<Rightarrow> ag_LastHeartbeatAt agent)"

definition silent :: "time \<Rightarrow> world \<Rightarrow> Agent \<Rightarrow> bool" where
  "silent now w agent \<longleftrightarrow> ag_Status agent \<noteq> ''offline'' \<and> 90 * second < time_sub now (last_heartbeat w agent)"

definition set_offline :: "time \<Rightarrow> Agent \<Rightarrow> Agent" where
  "set_offline now agent = agent\<lparr>ag_Status := ''offline'', ag_UpdatedAt := now\<rparr>"

definition sweep_agent :: "time \<Rightarrow> Agent \<Rightarrow> world \<Rightarrow> world" where
  "sweep_agent now agent w =
     (if silent now w agent
      then publish AgentOffline (ag_ID agent) [] NoPayload (snd (agentRepo_Update (set_offline (clock w) agent) w))
      else w)"

definition runOfflineSweep :: "world \<Rightarrow> world" where
  "runOfflineSweep w = (case agentRepo_List w of
     (Inl _, w1) \<Rightarrow> w1 | (Inr ags, w1) \<Rightarrow> fold (sweep_agent (clock w1)) ags w1)"

text \<open>The snapshot of the cache; \<open>order\<close> is the order in which the map is iterated.\<close>

definition heartbeat_row :: "time \<Rightarrow> string \<Rightarrow> CachedHeartbeat \<Rightarrow> AgentHeartbeat" where
  "heartbeat_row now agentID hb = zero_AgentHeartbeat\<lparr>ah_AgentID := agentID, ah_CPUUsage := ch_CPUUsage hb,
     ah_RAMUsage := ch_RAMUsage hb, ah_VPNCount := ch_VPNCount hb, ah_ProxyCount := ch_ProxyCount hb, ah_Timestamp := now\<rparr>"

definition runHistoricalAggregator :: "string list \<Rightarrow> world \<Rightarrow> world" where
  "runHistoricalAggregator order w = fold (\<lambda>agentID w. case hb_cache w agentID of None \<Rightarrow> w
     | Some hb \<Rightarrow> snd (agentHeartbeatRepo_Create (heartbeat_row (clock w) agentID hb) w)) order w"

section \<open>The monitor: \<^verbatim>\<open>health_monitor.go\<close>\<close>

definition health_metric :: "string \<Rightarrow> int \<Rightarrow> string \<Rightarrow> time \<Rightarrow> HealthMetric" where
  "health_metric targetID latency status now = zero_HealthMetric\<lparr>hm_TargetID := targetID, hm_TargetType := ''proxy'',
     hm_LatencyMs := latency, hm_Status := status, hm_CheckedAt := now\<rparr>"

text \<open>The latency of a request through the proxy, or \<open>None\<close> when it fails or does not answer 200.\<close>

definition checkProxyNode :: "(Proxy \<Rightarrow> int option) \<Rightarrow> Proxy \<Rightarrow> world \<Rightarrow> int option \<times> world" where
  "checkProxyNode probe p w =
     (case probe p of
        None \<Rightarrow> (None, w)
      | Some latency \<Rightarrow> (Some latency, snd (healthMetricRepo_Create (health_metric (px_ID p) latency ''online'' (clock w)) w)))"

record check_count =
  cc_totalLatency :: int
  cc_checkCount :: int
  cc_offlineProxies :: int

definition count_check :: "(Proxy \<Rightarrow> int option) \<Rightarrow> Proxy \<Rightarrow> check_count \<times> world \<Rightarrow> check_count \<times> world" where
  "count_check probe p st = (case st of (c, w) \<Rightarrow>
     (case checkProxyNode probe p w of
        (Some lat, w1) \<Rightarrow> (c\<lparr>cc_totalLatency := cc_totalLatency c + lat, cc_checkCount := cc_checkCount c + 1\<rparr>, w1)
      | (None, w1) \<Rightarrow> (c\<lparr>cc_offlineProxies := cc_offlineProxies c + 1\<rparr>, w1)))"

definition zero_count :: check_count where
  "zero_count = \<lparr>cc_totalLatency = 0, cc_checkCount = 0, cc_offlineProxies = 0\<rparr>"

definition agents_with :: "string \<Rightarrow> Agent list \<Rightarrow> int" where
  "agents_with status as = int (length (filter (\<lambda>a. ag_Status a = status) as))"

text \<open>Go's division of integers drops the fraction.\<close>

definition go_div :: "int \<Rightarrow> int \<Rightarrow> int" where
  "go_div a b = sgn a * sgn b * (abs a div abs b)"

definition avg_latency :: "check_count \<Rightarrow> int" where
  "avg_latency c = (if 0 < cc_checkCount c then go_div (cc_totalLatency c) (cc_checkCount c) else 0)"

definition health_grade :: "Agent list \<Rightarrow> Proxy list \<Rightarrow> check_count \<Rightarrow> string" where
  "health_grade as ps c =
     (let grade = (if 0 < agents_with ''offline'' as \<or> 0 < cc_offlineProxies c then ''C''
            else if 0 < agents_with ''warning'' as \<or> 200 < avg_latency c then ''B'' else ''A'');
          isLocalAgentOffline = (\<exists>a \<in> set as. ag_ID a = ''local-agent'' \<and> ag_Status a = ''offline'')
      in if isLocalAgentOffline \<or> 0 < length ps \<and> cc_offlineProxies c = int (length ps) then ''Dead'' else grade)"

text \<open>\<open>sched\<close> orders the goroutines of the running proxies by the time they end.\<close>

definition set_grade :: "string \<Rightarrow> int \<Rightarrow> world \<Rightarrow> world" where
  "set_grade grade latency w =
     (let prevGrade = monitor_grade w; w1 = w\<lparr>monitor_grade := grade, monitor_latency := latency\<rparr>
      in if prevGrade \<noteq> grade then
           log_audit ''HEALTH_GRADE_CHANGED'' (''Global health grade transitioned from '' @ prevGrade @ '' to '' @ grade)
             (publish HealthChanged [] [] (PGrade grade) w1)
         else w1)"

definition check :: "(Proxy \<Rightarrow> int option) \<Rightarrow> (Proxy list \<Rightarrow> Proxy list) \<Rightarrow> world \<Rightarrow> world" where
  "check probe sched w =
     (case proxyRepo_List w of
        (Inl _, w1) \<Rightarrow> w1
      | (Inr ps, w1) \<Rightarrow> (case agentRepo_List w1 of
          (Inl _, w2) \<Rightarrow> w2
        | (Inr as, w2) \<Rightarrow>
            (case fold (count_check probe) (sched (filter (\<lambda>p. px_Status p = ''running'') ps)) (zero_count, w2) of
               (c, w3) \<Rightarrow> set_grade (health_grade as ps c) (avg_latency c) w3)))"

definition GetCurrentGrade :: "world \<Rightarrow> string \<times> int" where
  "GetCurrentGrade w = (monitor_grade w, monitor_latency w)"

text \<open>A monitor of a new process.\<close>

definition NewHealthMonitorService :: "world \<Rightarrow> world" where
  "NewHealthMonitorService w = w\<lparr>monitor_grade := ''A'', monitor_latency := 0\<rparr>"

section \<open>System metrics: \<^verbatim>\<open>metrics_service.go\<close>\<close>

text \<open>The readings of \<^verbatim>\<open>gopsutil\<close>: \<open>None\<close> is its error.\<close>

record sys_sample =
  ss_cpu :: "real list option"
  ss_ram :: "real option"
  ss_disk :: "real option"
  ss_net :: "(64 word \<times> 64 word) list option"

record SystemMetricsService =
  ms_current :: SystemMetricSnapshot
  ms_prevNetIn :: "64 word"
  ms_prevNetOut :: "64 word"
  ms_lastNetTime :: time

definition NewSystemMetricsService :: "time \<Rightarrow> SystemMetricsService" where
  "NewSystemMetricsService now =
     \<lparr>ms_current = zero_SystemMetricSnapshot, ms_prevNetIn = 0, ms_prevNetOut = 0, ms_lastNetTime = now\<rparr>"

definition net_speed :: "64 word \<Rightarrow> 64 word \<Rightarrow> real \<Rightarrow> nat" where
  "net_speed prev cur elapsed =
     (if 0 < prev \<and> prev \<le> cur then nat \<lfloor>real (unat (cur - prev)) / elapsed\<rfloor> else 0)"

text \<open>The bandwidth since the last reading, and the counters to remember.\<close>

definition network_bandwidth :: "sys_sample \<Rightarrow> time \<Rightarrow> SystemMetricsService \<Rightarrow> (nat \<times> nat) \<times> SystemMetricsService" where
  "network_bandwidth s now m =
     (case ss_net s of
        Some ((currIn, currOut) # _) \<Rightarrow>
          (let elapsed = real_of_int (time_sub now (ms_lastNetTime m)) / real_of_int second in
           if 0 < elapsed then
             ((net_speed (ms_prevNetIn m) currIn elapsed, net_speed (ms_prevNetOut m) currOut elapsed),
              m\<lparr>ms_prevNetIn := currIn, ms_prevNetOut := currOut, ms_lastNetTime := now\<rparr>)
           else ((0, 0), m\<lparr>ms_lastNetTime := now\<rparr>))
      | _ \<Rightarrow> ((0, 0), m))"

definition count_rows :: "('r \<Rightarrow> bool) \<Rightarrow> 'r list result \<Rightarrow> int" where
  "count_rows P r = (case r of Inl _ \<Rightarrow> 0 | Inr rows \<Rightarrow> int (length (filter P rows)))"

definition collect :: "sys_sample \<Rightarrow> SystemMetricsService \<Rightarrow> world \<Rightarrow> SystemMetricsService \<times> world" where
  "collect s m w =
     (let cpuVal = (case ss_cpu s of Some (c # _) \<Rightarrow> c | _ \<Rightarrow> 0);
          ramVal = (case ss_ram s of Some r \<Rightarrow> r | None \<Rightarrow> 0);
          diskVal = (case ss_disk s of Some d \<Rightarrow> d | None \<Rightarrow> 0);
          ((netIn, netOut), m1) = network_bandwidth s (clock w) m;
          (vpns, w1) = vpnNodeRepo_List w;
          (ps, w2) = proxyRepo_List w1
      in (m1\<lparr>ms_current := zero_SystemMetricSnapshot\<lparr>sm_CPUUsage := cpuVal, sm_RAMUsage := ramVal, sm_DiskUsage := diskVal,
            sm_NetIn := netIn, sm_NetOut := netOut, sm_VPNCount := count_rows (\<lambda>v. vn_Status v = ''connected'') vpns,
            sm_ProxyCount := count_rows (\<lambda>p. px_Status p = ''running'') ps, sm_Timestamp := clock w2\<rparr>\<rparr>, w2))"

definition GetCurrent :: "SystemMetricsService \<Rightarrow> SystemMetricSnapshot" where
  "GetCurrent m = ms_current m"

definition runMetricsHistorySaver :: "SystemMetricsService \<Rightarrow> world \<Rightarrow> world" where
  "runMetricsHistorySaver m w = snd (systemMetricRepo_Create (ms_current m) w)"

section \<open>The checker: \<^verbatim>\<open>checker.go\<close>\<close>

record IPInfo =
  ii_IP :: string
  ii_Country :: string
  ii_Region :: string
  ii_Org :: string

definition ip_info :: "(int \<times> json option) result \<Rightarrow> IPInfo result" where
  "ip_info reply =
     (case reply of
        Inl e \<Rightarrow> Inl e
      | Inr (status, body) \<Rightarrow>
          if status \<noteq> 200 then Inl (ErrMsg (''status code '' @ itoa status))
          else (case Option.bind (json_document body) (str_fields [''ip'', ''country'', ''region'', ''org'']) of
            Some [ip, country, region, org] \<Rightarrow> Inr \<lparr>ii_IP = ip, ii_Country = country, ii_Region = region, ii_Org = org\<rparr>
          | _ \<Rightarrow> Inl (ErrMsg ''json'')))"

definition handleFailure :: "Proxy \<Rightarrow> gerr \<Rightarrow> world \<Rightarrow> world" where
  "handleFailure p e w =
     (let w1 = snd (healthMetricRepo_Create (health_metric (px_ID p) 0 ''offline'' (clock w)) w)
      in log_audit ''PROXY_HEALTH_FAILED'' (''Health check failed for proxy on port '' @ itoa (px_Port p) @ '': '' @ err_text e) w1)"

definition exit_node :: "IPInfo \<Rightarrow> int \<Rightarrow> VPNNode \<Rightarrow> VPNNode" where
  "exit_node info latency node = node\<lparr>vn_IP := ii_IP info, vn_Country := ii_Country info, vn_Region := ii_Region info,
     vn_ISP := ii_Org info, vn_LatencyMs := latency\<rparr>"

text \<open>The reply through the proxy and the time it took are given.\<close>

definition CheckProxy :: "(Proxy \<Rightarrow> (int \<times> json option) result) \<Rightarrow> (Proxy \<Rightarrow> int) \<Rightarrow> Proxy \<Rightarrow> world \<Rightarrow> world" where
  "CheckProxy reply latency p w =
     (case ip_info (reply p) of
        Inl e \<Rightarrow> handleFailure p e w
      | Inr info \<Rightarrow>
          (let w1 = snd (healthMetricRepo_Create (health_metric (px_ID p) (latency p) ''online'' (clock w)) w)
           in if px_VPNNodeID p = [] then w1
              else (case vpnNodeRepo_GetByID (px_VPNNodeID p) w1 of
                (Inl _, w2) \<Rightarrow> w2
              | (Inr node, w2) \<Rightarrow> snd (vpnNodeRepo_Update (exit_node info (latency p) node) w2))))"

text \<open>The goroutines of one round, in the order they run.\<close>

definition CheckAll ::
  "(Proxy \<Rightarrow> (int \<times> json option) result) \<Rightarrow> (Proxy \<Rightarrow> int) \<Rightarrow> (Proxy list \<Rightarrow> Proxy list) \<Rightarrow> world \<Rightarrow> world" where
  "CheckAll reply latency sched w = (case proxyRepo_List w of
     (Inl _, w1) \<Rightarrow> w1
   | (Inr ps, w1) \<Rightarrow> fold (CheckProxy reply latency) (sched (filter (\<lambda>p. px_Status p = ''running'') ps)) w1)"

end
