(* ===== verification/HealthFacts.thy ===== *)
theory HealthFacts imports Health ProxyManagerFacts "HOL-Library.Multiset" begin

text \<open>
  What a tick of the health services does: the sweep marks exactly the silent agents, a heartbeat keeps its agent
  online for ninety seconds, and the grade of the monitor is a function of the rows and the probes alone.
\<close>

section \<open>What the health services leave alone\<close>

lemma publish_frame [simp]:
  "faults (publish t a i p w) = faults w" "clock (publish t a i p w) = clock w" "agents (publish t a i p w) = agents w"
  "hb_cache (publish t a i p w) = hb_cache w" "proxies (publish t a i p w) = proxies w"
  "monitor_grade (publish t a i p w) = monitor_grade w" "monitor_latency (publish t a i p w) = monitor_latency w"
  by (simp_all add: publish_def)

lemma agent_saved:
  assumes "faults w = []" and "ag_ID a \<in> ag_ID ` set (agents w)"
  shows "agentRepo_Update a w = (Inr (a\<lparr>ag_UpdatedAt := clock w\<rparr>),
    agents_update (map (\<lambda>x. if ag_ID x = ag_ID a then a\<lparr>ag_UpdatedAt := clock w\<rparr> else x)) w)"
proof -
  have "\<exists>x \<in> set (agents w). ag_ID x = ag_ID a" using assms(2) by auto
  then show ?thesis using assms(1) by (simp add: agentRepo_Update_def db_save_def Let_def)
qed

lemma get_agent:
  "faults w = [] \<Longrightarrow> distinct (map ag_ID (agents w)) \<Longrightarrow> a \<in> set (agents w) \<Longrightarrow> agentRepo_GetByID (ag_ID a) w = (Inr a, w)"
  by (simp add: agentRepo_GetByID_def first_by_unique)

section \<open>The sweep\<close>

definition offline_goroutines :: "EventBus \<Rightarrow> Agent list \<Rightarrow> (nat \<times> Event) list" where
  "offline_goroutines b as = concat (map (\<lambda>a. map (\<lambda>l. (l, \<lparr>ev_Type = AgentOffline, ev_AgentID = ag_ID a, ev_TargetID = [],
     ev_Payload = NoPayload\<rparr>)) (eb_listeners b AgentOffline)) as)"

lemma sweep_agent_silent:
  assumes "faults w = []" and "silent now w a" and "ag_ID a \<in> ag_ID ` set (agents w)"
  shows "sweep_agent now a w = publish AgentOffline (ag_ID a) [] NoPayload
    (agents_update (map (\<lambda>x. if ag_ID x = ag_ID a then set_offline (clock w) a else x)) w)"
proof -
  have k: "ag_ID (set_offline (clock w) a) = ag_ID a" "(set_offline (clock w) a)\<lparr>ag_UpdatedAt := clock w\<rparr> = set_offline (clock w) a"
    by (simp_all add: set_offline_def)
  show ?thesis
    using agent_saved [OF assms(1), of "set_offline (clock w) a", unfolded k, OF assms(3)] assms(2) by (simp add: sweep_agent_def)
qed

lemma sweep_prefix:
  assumes f: "faults w = []" and d: "distinct (map ag_ID (agents w))" and s: "set xs \<subseteq> set (agents w)"
  shows "agents (fold (sweep_agent (clock w)) xs w) =
      map (\<lambda>a. if a \<in> set xs \<and> silent (clock w) w a then set_offline (clock w) a else a) (agents w) \<and>
    faults (fold (sweep_agent (clock w)) xs w) = [] \<and> clock (fold (sweep_agent (clock w)) xs w) = clock w \<and>
    hb_cache (fold (sweep_agent (clock w)) xs w) = hb_cache w \<and>
    event_bus (fold (sweep_agent (clock w)) xs w) = (event_bus w)\<lparr>eb_started := eb_started (event_bus w) @
      offline_goroutines (event_bus w) (filter (silent (clock w) w) xs)\<rparr>"
  using s
proof (induction xs rule: rev_induct)
  case Nil
  then show ?case by (simp add: f offline_goroutines_def)
next
  case (snoc x xs)
  define w1 where "w1 = fold (sweep_agent (clock w)) xs w"
  have x: "x \<in> set (agents w)" using snoc.prems by simp
  have IH: "agents w1 = map (\<lambda>a. if a \<in> set xs \<and> silent (clock w) w a then set_offline (clock w) a else a) (agents w)"
    "faults w1 = []" "clock w1 = clock w" "hb_cache w1 = hb_cache w"
    "event_bus w1 = (event_bus w)\<lparr>eb_started := eb_started (event_bus w) @
      offline_goroutines (event_bus w) (filter (silent (clock w) w) xs)\<rparr>"
    using snoc.IH snoc.prems by (simp_all add: w1_def)
  have same: "silent (clock w) w1 x = silent (clock w) w x" by (simp add: silent_def last_heartbeat_def IH(4))
  have fold: "fold (sweep_agent (clock w)) (xs @ [x]) w = sweep_agent (clock w) x w1" by (simp add: w1_def)
  show ?case
  proof (cases "silent (clock w) w x")
    case False
    then have "sweep_agent (clock w) x w1 = w1" by (simp add: sweep_agent_def same)
    moreover have "(\<lambda>a. if a \<in> set (xs @ [x]) \<and> silent (clock w) w a then set_offline (clock w) a else a)
        = (\<lambda>a. if a \<in> set xs \<and> silent (clock w) w a then set_offline (clock w) a else a)" using False by auto
    ultimately show ?thesis using IH False by (simp only: fold) simp
  next
    case True
    let ?f = "\<lambda>a. if a \<in> set xs \<and> silent (clock w) w a then set_offline (clock w) a else a"
    have id: "ag_ID (?f a) = ag_ID a" for a by (simp add: set_offline_def)
    have "map ag_ID (agents w1) = map ag_ID (agents w)" unfolding IH(1) map_map comp_def id ..
    then have i: "ag_ID x \<in> ag_ID ` set (agents w1)" using x by (metis image_eqI list.set_map)
    note step = sweep_agent_silent [OF IH(2), of "clock w" x, unfolded same, OF True i]
    have row: "(if ag_ID (?f a) = ag_ID x then set_offline (clock w) x else ?f a) =
        (if a \<in> set (xs @ [x]) \<and> silent (clock w) w a then set_offline (clock w) a else a)" if "a \<in> set (agents w)" for a
    proof (cases "a = x")
      case False
      then have "ag_ID a \<noteq> ag_ID x" using d x that by (auto simp: distinct_map dest: inj_onD)
      then show ?thesis using False id by simp
    qed (use True id in simp)
    have "agents (sweep_agent (clock w) x w1) = map (\<lambda>a. if ag_ID (?f a) = ag_ID x then set_offline (clock w) x else ?f a) (agents w)"
      unfolding step by (simp add: IH(1,3) comp_def)
    also have "\<dots> = map (\<lambda>a. if a \<in> set (xs @ [x]) \<and> silent (clock w) w a then set_offline (clock w) a else a) (agents w)"
      by (rule map_cong [OF refl row])
    finally have "agents (sweep_agent (clock w) x w1) =
        map (\<lambda>a. if a \<in> set (xs @ [x]) \<and> silent (clock w) w a then set_offline (clock w) a else a) (agents w)" .
    moreover have "event_bus (sweep_agent (clock w) x w1) = (event_bus w)\<lparr>eb_started := eb_started (event_bus w) @
        offline_goroutines (event_bus w) (filter (silent (clock w) w) (xs @ [x]))\<rparr>"
      using True by (simp add: step publish_def Publish_def IH(5) offline_goroutines_def)
    ultimately show ?thesis using IH by (simp only: fold) (simp add: step)
  qed
qed

text \<open>
  C28. A sweep marks exactly the silent agents: those that are not offline and whose last sign of life, in the cache or
  else in the row, is more than ninety seconds old. All other rows stay as they are, and for each agent marked,
  in the order of the table, every listener of \<^verbatim>\<open>AgentOffline\<close> is started once. The database answers throughout.
\<close>

theorem sweep_exact:
  assumes "faults w = []" and "distinct (map ag_ID (agents w))"
  shows "agents (runOfflineSweep w) = map (\<lambda>a. if silent (clock w) w a then set_offline (clock w) a else a) (agents w) \<and>
    eb_started (event_bus (runOfflineSweep w)) = eb_started (event_bus w) @
      offline_goroutines (event_bus w) (filter (silent (clock w) w) (agents w))"
proof -
  have "agentRepo_List w = (Inr (agents w), w)" using assms(1) by (simp add: agentRepo_List_def)
  then have "runOfflineSweep w = fold (sweep_agent (clock w)) (agents w) w" by (simp add: runOfflineSweep_def)
  then show ?thesis using sweep_prefix [OF assms, of "agents w"] by simp
qed

definition demo_agent :: "string \<Rightarrow> string \<Rightarrow> time \<Rightarrow> Agent" where
  "demo_agent i status t = zero_Agent\<lparr>ag_ID := i, ag_Status := status, ag_LastHeartbeatAt := t\<rparr>"

definition demo_agents :: world where
  "demo_agents = start_world\<lparr>clock := 1000 * second, agents := [demo_agent ''a1'' ''healthy'' (905 * second),
     demo_agent ''a2'' ''healthy'' (910 * second), demo_agent ''a3'' ''offline'' 0, demo_agent ''a4'' ''healthy'' 0],
     hb_cache := [''a4'' \<mapsto> \<lparr>ch_AgentID = ''a4'', ch_CPUUsage = 0, ch_RAMUsage = 0, ch_VPNCount = 0, ch_ProxyCount = 0,
       ch_Timestamp = 909 * second\<rparr>]\<rparr>"

theorem sweep_exact_witness:
  "map ag_Status (agents (runOfflineSweep demo_agents)) = [''offline'', ''healthy'', ''offline'', ''offline'']"
  by (subst sweep_exact [THEN conjunct1])
    (simp_all add: demo_agents_def demo_agent_def silent_def last_heartbeat_def time_sub_def second_def set_offline_def)

section \<open>A heartbeat\<close>

lemma heartbeat_window:
  assumes "faults w = []" and "distinct (map ag_ID (agents w))" and "agentID \<in> ag_ID ` set (agents w)"
    and "0 \<le> d" and "d < 2 ^ 62"
  shows "\<forall>a \<in> set (agents (runOfflineSweep ((RecordHeartbeat agentID cpu ram vpns prx w)\<lparr>clock := clock w + d\<rparr>))).
    ag_ID a = agentID \<longrightarrow> ag_Status a = (if d \<le> 90 * second then ''healthy'' else ''offline'')"
proof -
  obtain a0 where a0: "a0 \<in> set (agents w)" "ag_ID a0 = agentID" using assms(3) by auto
  define hb where "hb = \<lparr>ch_AgentID = agentID, ch_CPUUsage = cpu, ch_RAMUsage = ram, ch_VPNCount = vpns,
            ch_ProxyCount = prx, ch_Timestamp = clock w\<rparr>"
  define w1 where "w1 = w\<lparr>hb_cache := (hb_cache w)(agentID \<mapsto> hb)\<rparr>"
  define b where "b = (beat_agent cpu ram vpns prx (clock w) a0)\<lparr>ag_UpdatedAt := clock w\<rparr>"
  have b: "ag_ID b = agentID" "ag_Status b = ''healthy''" by (simp_all add: b_def beat_agent_def a0(2))
  have g: "agentRepo_GetByID agentID w1 = (Inr a0, w1)"
    using get_agent [of w1 a0] assms(1,2) a0 by (simp add: w1_def)
  have u: "agentRepo_Update (beat_agent cpu ram vpns prx (clock w) a0) w1 =
      (Inr b, agents_update (map (\<lambda>x. if ag_ID x = agentID then b else x)) w1)"
    using agent_saved [of w1 "beat_agent cpu ram vpns prx (clock w) a0"] assms(1,3) a0(2)
    by (simp add: w1_def b_def beat_agent_def)
  define w2 where "w2 = (RecordHeartbeat agentID cpu ram vpns prx w)\<lparr>clock := clock w + d\<rparr>"
  have w2: "faults w2 = []" "clock w2 = clock w + d" "hb_cache w2 = (hb_cache w)(agentID \<mapsto> hb)"
    "agents w2 = map (\<lambda>x. if ag_ID x = agentID then b else x) (agents w)"
    using assms(1) g u by (auto simp: w2_def RecordHeartbeat_def Let_def hb_def [symmetric] w1_def [symmetric])
      (simp_all add: w1_def)
  have "map ag_ID (agents w2) = map ag_ID (agents w)" by (simp add: w2(4) b(1))
  then have dist: "distinct (map ag_ID (agents w2))" using assms(2) by simp
  show ?thesis
    unfolding w2_def [symmetric]
  proof (intro ballI impI)
    fix a assume a: "a \<in> set (agents (runOfflineSweep w2))" "ag_ID a = agentID"
    then obtain x where x: "x \<in> set (agents w2)" "a = (if silent (clock w2) w2 x then set_offline (clock w2) x else x)"
      using sweep_prefix [OF w2(1) dist, of "agents w2"] w2(1) by (auto simp: runOfflineSweep_def agentRepo_List_def)
    then have "ag_ID x = agentID" using a(2) by (simp add: set_offline_def split: if_splits)
    then have "x = b" using x(1) by (auto simp: w2(4))
    moreover have "silent (clock w2) w2 b \<longleftrightarrow> 90 * second < d"
      using assms(4,5) b by (simp add: silent_def last_heartbeat_def w2(2,3) hb_def time_sub_def second_def)
    ultimately show "ag_Status a = (if d \<le> 90 * second then ''healthy'' else ''offline'')"
      using x(2) b(2) by (auto simp: set_offline_def)
  qed
qed

text \<open>
  C29. A heartbeat keeps its agent online for ninety seconds, and not longer: with no further heartbeat the row of the
  agent reads \<^verbatim>\<open>healthy\<close> after every sweep up to ninety seconds later and \<^verbatim>\<open>offline\<close> after a sweep beyond that. The database answers throughout.
\<close>

theorem heartbeat_keeps_online:
  assumes "faults w = []" and "distinct (map ag_ID (agents w))" and "agentID \<in> ag_ID ` set (agents w)"
    and "0 \<le> d" and "d < 2 ^ 62"
  shows "\<forall>a \<in> set (agents (runOfflineSweep ((RecordHeartbeat agentID cpu ram vpns prx w)\<lparr>clock := clock w + d\<rparr>))).
    ag_ID a = agentID \<longrightarrow> ag_Status a = (if d \<le> 90 * second then ''healthy'' else ''offline'')"
  by (rule heartbeat_window [OF assms])

theorem heartbeat_keeps_online_witness:
  "map ag_Status (agents (runOfflineSweep ((RecordHeartbeat ''a1'' 1 2 3 4
      (start_world\<lparr>agents := [demo_agent ''a1'' ''offline'' 0]\<rparr>))\<lparr>clock := clock start_world + 91 * second\<rparr>))) = [''offline'']"
proof -
  let ?w = "start_world\<lparr>agents := [demo_agent ''a1'' ''offline'' 0]\<rparr>"
  let ?as = "agents (runOfflineSweep ((RecordHeartbeat ''a1'' 1 2 3 4 ?w)\<lparr>clock := clock start_world + 91 * second\<rparr>))"
  have "\<forall>a \<in> set ?as. ag_ID a = ''a1'' \<longrightarrow> ag_Status a = ''offline''"
    using heartbeat_keeps_online [of ?w "''a1''" "91 * second" 1 2 3 4]
    by (simp add: demo_agent_def second_def)
  moreover have "map ag_ID ?as = [''a1'']"
    by (simp add: RecordHeartbeat_def Let_def agentRepo_GetByID_def agentRepo_Update_def db_save_def demo_agent_def beat_agent_def
        runOfflineSweep_def agentRepo_List_def sweep_agent_def set_offline_def)
  ultimately show ?thesis by (cases ?as) auto
qed

section \<open>The grade\<close>

text \<open>The count of a check is a sum over the proxies, whatever the order of the goroutines.\<close>

definition tally :: "(Proxy \<Rightarrow> int option) \<Rightarrow> Proxy multiset \<Rightarrow> check_count" where
  "tally probe M = \<lparr>cc_totalLatency = (\<Sum>p \<in># M. case probe p of None \<Rightarrow> 0 | Some l \<Rightarrow> l),
     cc_checkCount = int (size (filter_mset (\<lambda>p. probe p \<noteq> None) M)),
     cc_offlineProxies = int (size (filter_mset (\<lambda>p. probe p = None) M))\<rparr>"

lemma checkProxyNode_frame [simp]:
  "faults w = [] \<Longrightarrow> faults (snd (checkProxyNode probe p w)) = []" "clock (snd (checkProxyNode probe p w)) = clock w"
  "event_bus (snd (checkProxyNode probe p w)) = event_bus w" "monitor_grade (snd (checkProxyNode probe p w)) = monitor_grade w"
  "audit_logs (snd (checkProxyNode probe p w)) = audit_logs w"
  by (simp_all add: checkProxyNode_def healthMetricRepo_Create_def db_create_frame [where get = event_bus]
      db_create_frame [where get = monitor_grade] db_create_frame [where get = audit_logs] split: option.split)

definition add_count :: "check_count \<Rightarrow> check_count \<Rightarrow> check_count" where
  "add_count c t = \<lparr>cc_totalLatency = cc_totalLatency c + cc_totalLatency t, cc_checkCount = cc_checkCount c + cc_checkCount t,
     cc_offlineProxies = cc_offlineProxies c + cc_offlineProxies t\<rparr>"

lemma add_count_tally:
  "add_count c (tally probe {#}) = c"
  "add_count c (tally probe (add_mset p M)) = add_count (case probe p of
      Some lat \<Rightarrow> c\<lparr>cc_totalLatency := cc_totalLatency c + lat, cc_checkCount := cc_checkCount c + 1\<rparr>
    | None \<Rightarrow> c\<lparr>cc_offlineProxies := cc_offlineProxies c + 1\<rparr>) (tally probe M)"
  "add_count zero_count (tally probe M) = tally probe M"
  by (simp_all add: add_count_def tally_def zero_count_def split: option.split)

lemma count_check_tally:
  "\<exists>w'. fold (count_check probe) xs (c, w) = (add_count c (tally probe (mset xs)), w') \<and> (faults w = [] \<longrightarrow> faults w' = []) \<and>
     event_bus w' = event_bus w \<and> monitor_grade w' = monitor_grade w \<and> audit_logs w' = audit_logs w \<and> clock w' = clock w"
proof (induction xs arbitrary: c w)
  case (Cons p xs)
  obtain l w1 where k: "checkProxyNode probe p w = (l, w1)" by fastforce
  let ?c = "case probe p of
      Some lat \<Rightarrow> c\<lparr>cc_totalLatency := cc_totalLatency c + lat, cc_checkCount := cc_checkCount c + 1\<rparr>
    | None \<Rightarrow> c\<lparr>cc_offlineProxies := cc_offlineProxies c + 1\<rparr>"
  have "l = probe p" using k by (auto simp: checkProxyNode_def split: option.splits)
  then have "count_check probe p (c, w) = (?c, w1)" by (simp add: count_check_def k split: option.split)
  moreover have "faults w = [] \<longrightarrow> faults w1 = []" "event_bus w1 = event_bus w" "monitor_grade w1 = monitor_grade w"
    "audit_logs w1 = audit_logs w" "clock w1 = clock w"
    using checkProxyNode_frame [where w = w and probe = probe and p = p] by (simp_all add: k)
  moreover obtain w' where "fold (count_check probe) xs (?c, w1) = (add_count ?c (tally probe (mset xs)), w')"
    "faults w1 = [] \<longrightarrow> faults w' = []" "event_bus w' = event_bus w1" "monitor_grade w' = monitor_grade w1"
    "audit_logs w' = audit_logs w1" "clock w' = clock w1"
    using Cons.IH [of ?c w1] by blast
  ultimately show ?case by (intro exI [of _ w']) (simp add: add_count_tally)
qed (simp add: add_count_tally)

definition running_proxies :: "world \<Rightarrow> Proxy list" where
  "running_proxies w = filter (\<lambda>p. px_Status p = ''running'') (proxies w)"

definition proxy_down :: "(Proxy \<Rightarrow> int option) \<Rightarrow> Proxy \<Rightarrow> bool" where
  "proxy_down probe p \<longleftrightarrow> px_Status p = ''running'' \<and> probe p = None"

lemma tally_offline:
  "cc_offlineProxies (tally probe (mset (running_proxies w))) = int (length (filter (proxy_down probe) (proxies w)))"
  by (simp add: tally_def running_proxies_def proxy_down_def [abs_def] conj_commute flip: mset_filter)

lemma set_grade_effect:
  assumes "faults w = []"
  shows "monitor_grade (set_grade g l w) = g" "monitor_latency (set_grade g l w) = l"
    "eb_started (event_bus (set_grade g l w)) = eb_started (event_bus w) @ (if monitor_grade w = g then []
       else map (\<lambda>i. (i, \<lparr>ev_Type = HealthChanged, ev_AgentID = [], ev_TargetID = [], ev_Payload = PGrade g\<rparr>))
         (eb_listeners (event_bus w) HealthChanged))"
  by (simp_all add: set_grade_def Let_def publish_def Publish_def log_audit_def auditLogRepo_Create_def
      db_create_frame [where get = monitor_grade] db_create_frame [where get = monitor_latency] db_create_frame [where get = event_bus])

text \<open>
  C30. The grade of a check depends on the rows and the probes alone, not on the order in which the goroutines end:
  \<^verbatim>\<open>Dead\<close> when the local agent is offline, or when every proxy there is runs and fails its probe; else \<^verbatim>\<open>C\<close> when an
  agent is offline or a running proxy fails, else \<^verbatim>\<open>B\<close> when an agent warns or the mean latency exceeds 200
  milliseconds, else \<^verbatim>\<open>A\<close>. Listeners hear of it exactly when it has changed. The database answers throughout.
\<close>

theorem grade_exact:
  assumes "faults w = []" and "\<And>ps. mset (sched ps) = mset ps"
  shows "let w' = check probe sched w;
      lats = map (\<lambda>p. the (probe p)) (filter (\<lambda>p. probe p \<noteq> None) (running_proxies w));
      avg = (if lats = [] then 0 else go_div (sum_list lats) (int (length lats)))
    in monitor_grade w' =
         (if (\<exists>a \<in> set (agents w). ag_ID a = ''local-agent'' \<and> ag_Status a = ''offline'') \<or>
             proxies w \<noteq> [] \<and> list_all (proxy_down probe) (proxies w) then ''Dead''
          else if (\<exists>a \<in> set (agents w). ag_Status a = ''offline'') \<or> (\<exists>p \<in> set (proxies w). proxy_down probe p) then ''C''
          else if (\<exists>a \<in> set (agents w). ag_Status a = ''warning'') \<or> 200 < avg then ''B'' else ''A'') \<and>
       monitor_latency w' = avg \<and>
       (eb_listeners (event_bus w) HealthChanged \<noteq> [] \<longrightarrow>
         (eb_started (event_bus w') \<noteq> eb_started (event_bus w)) = (monitor_grade w' \<noteq> monitor_grade w))"
proof -
  define c where "c = tally probe (mset (running_proxies w))"
  define lats where "lats = map (\<lambda>p. the (probe p)) (filter (\<lambda>p. probe p \<noteq> None) (running_proxies w))"
  obtain w1 where f: "fold (count_check probe) (sched (running_proxies w)) (zero_count, w) = (c, w1)"
    and w1: "faults w1 = []" "event_bus w1 = event_bus w" "monitor_grade w1 = monitor_grade w"
    using count_check_tally [of probe "sched (running_proxies w)" zero_count w] assms
    by (auto simp: c_def add_count_tally)
  have ck: "check probe sched w = set_grade (health_grade (agents w) (proxies w) c) (avg_latency c) w1"
    using f assms(1) by (simp add: check_def proxyRepo_List_def agentRepo_List_def running_proxies_def)
  have sum: "(\<Sum>p \<in># mset ps. case probe p of None \<Rightarrow> 0 | Some l \<Rightarrow> l) = sum_list (map (\<lambda>p. the (probe p)) (filter (\<lambda>p. probe p \<noteq> None) ps))"
    for ps by (induction ps) auto
  have cnt: "cc_totalLatency c = sum_list lats" "cc_checkCount c = int (length lats)"
    by (simp_all add: c_def tally_def lats_def sum flip: mset_filter)
  have avg: "avg_latency c = (if lats = [] then 0 else go_div (sum_list lats) (int (length lats)))"
    by (auto simp: avg_latency_def cnt)
  have off: "cc_offlineProxies c = int (length (filter (proxy_down probe) (proxies w)))" by (simp add: c_def tally_offline)
  have all: "cc_offlineProxies c = int (length (proxies w)) \<longleftrightarrow> list_all (proxy_down probe) (proxies w)"
    by (simp add: off list_all_iff) (metis filter_id_conv filter_True length_filter_less less_irrefl)
  have some: "0 < cc_offlineProxies c \<longleftrightarrow> (\<exists>p \<in> set (proxies w). proxy_down probe p)"
    "0 < agents_with s (agents w) \<longleftrightarrow> (\<exists>a \<in> set (agents w). ag_Status a = s)" for s
    by (auto simp: off agents_with_def filter_empty_conv)
  let ?g = "health_grade (agents w) (proxies w) c"
  have g: "?g = (if (\<exists>a \<in> set (agents w). ag_ID a = ''local-agent'' \<and> ag_Status a = ''offline'') \<or>
        proxies w \<noteq> [] \<and> list_all (proxy_down probe) (proxies w) then ''Dead''
      else if (\<exists>a \<in> set (agents w). ag_Status a = ''offline'') \<or> (\<exists>p \<in> set (proxies w). proxy_down probe p) then ''C''
      else if (\<exists>a \<in> set (agents w). ag_Status a = ''warning'') \<or> 200 < avg_latency c then ''B'' else ''A'')"
    by (simp only: health_grade_def Let_def all some length_greater_0_conv)
  have ev: "eb_listeners (event_bus w) HealthChanged \<noteq> [] \<Longrightarrow>
      (eb_started (event_bus (check probe sched w)) \<noteq> eb_started (event_bus w)) = (?g \<noteq> monitor_grade w)"
    using set_grade_effect(3) [OF w1(1), of ?g "avg_latency c"] by (auto simp: ck w1(2,3) simp del: health_grade_def)
  have mon: "monitor_grade (check probe sched w) = ?g" "monitor_latency (check probe sched w) = avg_latency c"
    by (simp_all only: ck set_grade_effect [OF w1(1)])
  show ?thesis
    unfolding Let_def lats_def [symmetric] avg [symmetric] g [symmetric] mon using ev by blast
qed

text \<open>One of the two proxies is stopped and the other fails: the grade is \<^verbatim>\<open>C\<close>, not \<^verbatim>\<open>Dead\<close>.\<close>

definition demo_proxies :: world where
  "demo_proxies = start_world\<lparr>proxies := [zero_Proxy\<lparr>px_ID := ''p1'', px_Status := ''running''\<rparr>,
     zero_Proxy\<lparr>px_ID := ''p2'', px_Status := ''stopped''\<rparr>]\<rparr>"

theorem grade_exact_witness:
  "monitor_grade (check (\<lambda>_. None) rev demo_proxies) = ''C'' \<and>
   monitor_grade (check (\<lambda>_. None) rev (demo_proxies\<lparr>proxies := take 1 (proxies demo_proxies)\<rparr>)) = ''Dead''"
proof -
  have d: "faults demo_proxies = []" "agents demo_proxies = []" "map px_Status (proxies demo_proxies) = [''running'', ''stopped'']"
    by (simp_all add: demo_proxies_def)
  show ?thesis
    using grade_exact [of demo_proxies rev "\<lambda>_. None"]
      grade_exact [of "demo_proxies\<lparr>proxies := take 1 (proxies demo_proxies)\<rparr>" rev "\<lambda>_. None"]
    by (simp add: Let_def demo_proxies_def proxy_down_def)
qed

section \<open>The metrics\<close>

text \<open>The bandwidth never exceeds the bytes counted over the time elapsed, and a counter that was reset counts nothing.\<close>

lemma net_speed_bound:
  assumes "0 < elapsed"
  shows "real (net_speed prev cur elapsed) * elapsed \<le> real (unat (cur - prev))"
proof -
  have bound: "real (nat \<lfloor>real n / elapsed\<rfloor>) * elapsed \<le> real n" for n :: nat
  proof -
    have "real (nat \<lfloor>real n / elapsed\<rfloor>) \<le> real n / elapsed" by (rule of_nat_floor) (use assms in simp)
    then show ?thesis using pos_le_divide_eq [OF assms] by blast
  qed
  have "net_speed prev cur elapsed = 0 \<or> net_speed prev cur elapsed = nat \<lfloor>real (unat (cur - prev)) / elapsed\<rfloor>"
    by (simp only: net_speed_def split: if_split) blast
  then show ?thesis
  proof
    assume z: "net_speed prev cur elapsed = 0"
    show ?thesis by (simp only: z of_nat_0 mult_zero_left of_nat_0_le_iff)
  next
    assume s: "net_speed prev cur elapsed = nat \<lfloor>real (unat (cur - prev)) / elapsed\<rfloor>"
    show ?thesis unfolding s by (rule bound)
  qed
qed

lemma net_speed_reset: "cur < prev \<Longrightarrow> net_speed prev cur elapsed = 0"
  by (simp add: net_speed_def not_le [symmetric])

lemma collect_counts:
  assumes "faults w = []"
  shows "sm_VPNCount (GetCurrent (fst (collect s m w))) = int (length (filter (\<lambda>v. vn_Status v = ''connected'') (vpn_nodes w)))"
    and "sm_ProxyCount (GetCurrent (fst (collect s m w))) = int (length (running_proxies w))"
    and "snd (collect s m w) = w"
  using assms by (auto simp: collect_def GetCurrent_def vpnNodeRepo_List_def proxyRepo_List_def count_rows_def running_proxies_def
      split: prod.split)

end
