(* ===== verification/Http.thy ===== *)
theory Http imports Prelude begin

text \<open>
  What the handlers of \<^verbatim>\<open>internal/api/handler.go\<close> share: a reply is a status and an error text or a value, and the
  input is what gin's \<^verbatim>\<open>ShouldBindJSON\<close> returns, an error or the struct. gin itself is not part of the
  source: the decoded struct is an argument, the \<^verbatim>\<open>binding:"required"\<close> tags are a predicate of the handler.
\<close>

datatype 'a reply = Fails int string | Sends int 'a

fun status_of :: "'a reply \<Rightarrow> int" where
  "status_of (Fails s _) = s"
| "status_of (Sends s _) = s"

text \<open>\<^verbatim>\<open>if err != nil { c.JSON(bad, err.Error()); return }; c.JSON(good, x)\<close>.\<close>

definition answer :: "int \<Rightarrow> int \<Rightarrow> 'a result \<times> 'w \<Rightarrow> 'a reply \<times> 'w" where
  "answer bad good p = (case p of (Inl e, w) \<Rightarrow> (Fails bad (err_text e), w) | (Inr x, w) \<Rightarrow> (Sends good x, w))"

text \<open>The same with a fixed message for the success.\<close>

definition confirm :: "int \<Rightarrow> string \<Rightarrow> unit result \<times> 'w \<Rightarrow> string reply \<times> 'w" where
  "confirm bad msg p = (case p of (Inl e, w) \<Rightarrow> (Fails bad (err_text e), w) | (Inr _, w) \<Rightarrow> (Sends 200 msg, w))"

text \<open>\<^verbatim>\<open>ShouldBindJSON\<close> with the required fields, and the early return with status 400.\<close>

definition bind_json :: "('i \<Rightarrow> bool) \<Rightarrow> 'i result \<Rightarrow> 'i result" where
  "bind_json required body = (case body of Inl e \<Rightarrow> Inl e
     | Inr i \<Rightarrow> if required i then Inr i else Inl (ErrMsg ''Field validation failed on the 'required' tag''))"

definition with_input :: "('i \<Rightarrow> bool) \<Rightarrow> 'i result \<Rightarrow> ('i \<Rightarrow> 'w \<Rightarrow> 'a reply \<times> 'w) \<Rightarrow> 'w \<Rightarrow> 'a reply \<times> 'w" where
  "with_input required body k w =
     (case bind_json required body of Inl e \<Rightarrow> (Fails 400 (err_text e), w) | Inr i \<Rightarrow> k i w)"

lemma answer_simps [simp]:
  "answer bad good (Inl e, w) = (Fails bad (err_text e), w)"
  "answer bad good (Inr x, w) = (Sends good x, w)"
  by (simp_all add: answer_def)

lemma confirm_simps [simp]:
  "confirm bad msg (Inl e, w) = (Fails bad (err_text e), w)"
  "confirm bad msg (Inr u, w) = (Sends 200 msg, w)"
  by (simp_all add: confirm_def)

lemma answer_world [simp]: "snd (answer bad good p) = snd p"
  by (cases p rule: result_cases) simp_all

lemma confirm_world [simp]: "snd (confirm bad msg p) = snd p"
  by (cases p rule: result_cases) simp_all

lemma answer_sends: "fst (answer bad good p) = Sends s x \<longleftrightarrow> s = good \<and> fst p = Inr x"
  by (cases p rule: result_cases) auto

lemma with_input_refused [simp]: "with_input required (Inl e) k w = (Fails 400 (err_text e), w)"
  by (simp add: with_input_def bind_json_def)

lemma with_input_ok [simp]: "required i \<Longrightarrow> with_input required (Inr i) k w = k i w"
  by (simp add: with_input_def bind_json_def)

end
