(* ===== verification/AgentApi.thy ===== *)
theory AgentApi imports Http Health Customer begin

text \<open>
  The handlers of \<^verbatim>\<open>internal/api/handler.go\<close> for agents, their tokens and their commands. Those that only use
  the database are functions of the world, those that use the command bus are functions of its state.
\<close>

definition on_world :: "(world \<Rightarrow> 'a \<times> world) \<Rightarrow> CommandBus \<Rightarrow> 'a \<times> CommandBus" where
  "on_world m b = (case m (cb_world b) of (x, w) \<Rightarrow> (x, b\<lparr>cb_world := w\<rparr>))"

section \<open>The registry\<close>

record agent_input =
  ai_ID :: string
  ai_Name :: string
  ai_Hostname :: string
  ai_IPAddress :: string
  ai_OS :: string
  ai_Version :: string

definition pick_id :: "string \<Rightarrow> world \<Rightarrow> string \<times> world" where
  "pick_id i w = (if i = [] then new_uuid w else (i, w))"

definition input_agent :: "string \<Rightarrow> agent_input \<Rightarrow> string \<Rightarrow> time \<Rightarrow> Agent" where
  "input_agent agentID i status now =
     \<lparr>ag_ID = agentID, ag_Name = ai_Name i, ag_Hostname = ai_Hostname i, ag_IPAddress = ai_IPAddress i, ag_OS = ai_OS i,
      ag_Version = ai_Version i, ag_Status = status, ag_LastHeartbeatAt = now, ag_VPNCount = 0, ag_ProxyCount = 0,
      ag_CPUUsage = 0, ag_RAMUsage = 0, ag_CreatedAt = now, ag_UpdatedAt = now\<rparr>"

definition RegisterAgent :: "agent_input result \<Rightarrow> world \<Rightarrow> Agent reply \<times> world" where
  "RegisterAgent body = with_input (\<lambda>_. True) body (\<lambda>i w.
     (let (agentID, w1) = pick_id (ai_ID i) w
      in case agentRepo_Create (input_agent agentID i ''healthy'' (clock w1)) w1 of
           (Inl e, w2) \<Rightarrow> (Fails 500 (err_text e), w2)
         | (Inr agent, w2) \<Rightarrow> (Sends 201 agent, log_audit ''AGENT_REGISTERED''
             (''Agent registered: '' @ ag_Name agent @ '' (ID: '' @ ag_ID agent @ '')'') w2)))"

definition ListAgents :: "world \<Rightarrow> Agent list reply \<times> world" where
  "ListAgents w = answer 500 200 (agentRepo_List w)"

definition GetAgent :: "string \<Rightarrow> world \<Rightarrow> Agent reply \<times> world" where
  "GetAgent i w = (case agentRepo_GetByID i w of
     (Inl _, w1) \<Rightarrow> (Fails 404 ''agent not found'', w1) | (Inr agent, w1) \<Rightarrow> (Sends 200 agent, w1))"

definition DeleteAgent :: "string \<Rightarrow> world \<Rightarrow> string reply \<times> world" where
  "DeleteAgent i w =
     (if i = ''local-agent'' then (Fails 400 ''cannot delete default local-agent'', w)
      else case agentRepo_Delete i w of
        (Inl e, w1) \<Rightarrow> (Fails 500 (err_text e), w1)
      | (Inr _, w1) \<Rightarrow> (Sends 200 ''Agent deleted successfully'', log_audit ''AGENT_DELETED'' (''Agent deleted: '' @ i) w1))"

record heartbeat_input =
  hi_CPUUsage :: real
  hi_RAMUsage :: real
  hi_VPNCount :: int
  hi_ProxyCount :: int

definition ReceiveHeartbeat :: "string \<Rightarrow> heartbeat_input result \<Rightarrow> world \<Rightarrow> string reply \<times> world" where
  "ReceiveHeartbeat i body = with_input (\<lambda>_. True) body (\<lambda>h w.
     (Sends 200 ''ok'', RecordHeartbeat i (hi_CPUUsage h) (hi_RAMUsage h) (hi_VPNCount h) (hi_ProxyCount h) w))"

section \<open>Tokens\<close>

text \<open>The plain token and its hash.\<close>

definition generateToken :: "world \<Rightarrow> (string \<times> string) result \<times> world" where
  "generateToken w = (case randomHex 32 w of
     (Inl e, w1) \<Rightarrow> (Inl e, w1) | (Inr plain, w1) \<Rightarrow> (Inr (plain, sha256Hex plain), w1))"

definition token_life :: duration where "token_life = 365 * 24 * hour"

definition fresh_credential :: "string \<Rightarrow> string \<Rightarrow> time \<Rightarrow> AgentCredential" where
  "fresh_credential agentID hash now =
     \<lparr>ac_AgentID = agentID, ac_TokenHash = hash, ac_IssuedAt = now, ac_ExpiresAt = now + token_life, ac_RevokedAt = None,
      ac_CreatedAt = now\<rparr>"

definition store_token :: "string \<Rightarrow> Agent \<Rightarrow> world \<Rightarrow> (string \<times> Agent \<times> string) reply \<times> world" where
  "store_token agentID agent w =
     (case generateToken w of
        (Inl _, w1) \<Rightarrow> (Fails 500 ''token generation failed'', w1)
      | (Inr (plain, hash), w1) \<Rightarrow>
          (case agentCredentialRepo_Create (fresh_credential agentID hash (clock w1)) w1 of
             (Inl _, w2) \<Rightarrow> (Fails 500 ''credential storage failed'', w2)
           | (Inr _, w2) \<Rightarrow> (Sends 201 (agentID, agent, plain), log_audit ''AGENT_REGISTERED''
               (''Agent '' @ ag_Name agent @ '' ('' @ agentID @ '') registered with token'') w2)))"

definition RegisterAgentWithToken :: "agent_input result \<Rightarrow> world \<Rightarrow> (string \<times> Agent \<times> string) reply \<times> world" where
  "RegisterAgentWithToken body = with_input (\<lambda>i. ai_Name i \<noteq> []) body (\<lambda>i w.
     (let (agentID, w1) = pick_id (ai_ID i) w
      in case agentRepo_Create (input_agent agentID i ''offline'' (clock w1)) w1 of
           (Inl e, w2) \<Rightarrow> (Fails 500 (err_text e), w2)
         | (Inr agent, w2) \<Rightarrow> store_token agentID agent w2))"

text \<open>A lookup that fails for any reason makes a new record.\<close>

definition credential_or_new :: "string \<Rightarrow> world \<Rightarrow> AgentCredential \<times> world" where
  "credential_or_new agentID w = (case agentCredentialRepo_GetByAgentID agentID w of
     (Inr cred, w1) \<Rightarrow> (cred, w1)
   | (Inl _, w1) \<Rightarrow> (fresh_credential agentID [] (clock w1), w1))"

definition renew :: "string \<Rightarrow> time \<Rightarrow> AgentCredential \<Rightarrow> AgentCredential" where
  "renew hash now cred = cred\<lparr>ac_TokenHash := hash, ac_IssuedAt := now, ac_ExpiresAt := now + token_life, ac_RevokedAt := None\<rparr>"

definition RotateToken :: "string \<Rightarrow> world \<Rightarrow> (string \<times> string) reply \<times> world" where
  "RotateToken agentID w =
     (case generateToken w of
        (Inl _, w1) \<Rightarrow> (Fails 500 ''token generation failed'', w1)
      | (Inr (plain, hash), w1) \<Rightarrow>
          (let (cred, w2) = credential_or_new agentID w1
           in case agentCredentialRepo_Update (renew hash (clock w2) cred) w2 of
                (Inl _, w3) \<Rightarrow> (Fails 500 ''credential update failed'', w3)
              | (Inr _, w3) \<Rightarrow> (Sends 200 (agentID, plain),
                  log_audit ''AGENT_TOKEN_ROTATED'' (''Token rotated for agent '' @ agentID) w3)))"

definition mark_offline :: "string \<Rightarrow> world \<Rightarrow> world" where
  "mark_offline agentID w = (case agentRepo_GetByID agentID w of
     (Inl _, w1) \<Rightarrow> w1
   | (Inr agent, w1) \<Rightarrow> snd (agentRepo_Update (agent\<lparr>ag_Status := ''offline'', ag_UpdatedAt := clock w1\<rparr>) w1))"

section \<open>Commands\<close>

definition allowedCommandTypes :: "string set" where
  "allowedCommandTypes = {''CONNECT_VPN'', ''DISCONNECT_VPN'', ''CREATE_PROXY'', ''DELETE_PROXY'', ''RESTART_PROXY'',
     ''HEALTH_CHECK'', ''SYNC_STATE''}"

text \<open>\<open>ci_Payload\<close> is the text \<^verbatim>\<open>json.Marshal\<close> makes of the payload.\<close>

record command_input =
  ci_Type :: string
  ci_Payload :: string
  ci_TimeoutSeconds :: int
  ci_IdempotencyKey :: string

definition input_command :: "string \<Rightarrow> string \<Rightarrow> command_input \<Rightarrow> AgentCommand" where
  "input_command i agentID c = zero_AgentCommand\<lparr>cmd_ID := i, cmd_AgentID := agentID, cmd_Type := ci_Type c,
     cmd_Payload := ci_Payload c, cmd_IdempotencyKey := ci_IdempotencyKey c,
     cmd_TimeoutSeconds := (if ci_TimeoutSeconds c = 0 then 120 else ci_TimeoutSeconds c), cmd_MaxAttempts := 3\<rparr>"

definition dispatch_input :: "string \<Rightarrow> command_input \<Rightarrow> CommandBus \<Rightarrow> string reply \<times> CommandBus" where
  "dispatch_input agentID c b =
     (let (i, b1) = on_world new_uuid b
      in case Dispatch (input_command i agentID c) b1 of
           (Inl e, b2) \<Rightarrow> (Fails 409 (err_text e), b2)
         | (Inr cmd, b2) \<Rightarrow> (Sends 201 (cmd_ID cmd), b2\<lparr>cb_world := log_audit ''COMMAND_CREATED''
             (''Command '' @ cmd_ID cmd @ '' type='' @ cmd_Type cmd @ '' dispatched to agent '' @ agentID) (cb_world b2)\<rparr>))"

definition CreateAgentCommand :: "string \<Rightarrow> command_input result \<Rightarrow> CommandBus \<Rightarrow> string reply \<times> CommandBus" where
  "CreateAgentCommand agentID body = with_input (\<lambda>c. ci_Type c \<noteq> []) body (\<lambda>c b.
     if ci_Type c \<notin> allowedCommandTypes then (Fails 400 (''command type not allowed: '' @ ci_Type c), b)
     else dispatch_input agentID c b)"

definition GetCommandStatus :: "string \<Rightarrow> world \<Rightarrow> AgentCommand reply \<times> world" where
  "GetCommandStatus i w = (case agentCommandRepo_GetByID i w of
     (Inl _, w1) \<Rightarrow> (Fails 404 ''command not found'', w1) | (Inr cmd, w1) \<Rightarrow> (Sends 200 cmd, w1))"

text \<open>The agent in the path is not looked at.\<close>

definition ListAgentCommands :: "string \<Rightarrow> world \<Rightarrow> AgentCommand list reply \<times> world" where
  "ListAgentCommands agentID w = answer 500 200 (agentCommandRepo_ListAll 100 w)"

definition ListCommands :: "world \<Rightarrow> AgentCommand list reply \<times> world" where
  "ListCommands w = answer 500 200 (agentCommandRepo_ListAll 500 w)"

end
