(* ===== verification/AgentGateway.thy ===== *)
theory AgentGateway imports AgentApi begin

text \<open>
  \<^verbatim>\<open>internal/api/websocket.go\<close>: the gateway the agents connect to, on the state of the command bus, and the gateway
  that broadcasts events to dashboards. A handshake is the token of its query and its \<^verbatim>\<open>Authorization\<close> header, a
  message the document \<^verbatim>\<open>json.Unmarshal\<close> reads, \<open>None\<close> when the text is no JSON.
\<close>

section \<open>Dashboards\<close>

text \<open>A client is a number; \<open>sent\<close> tells what has been written to it.\<close>

record DashboardWSGateway =
  dg_clients :: "nat set"
  dg_sent :: "nat \<Rightarrow> string list"

definition dashboard_events :: "EventType list" where
  "dashboard_events = [AgentRegistered, AgentConnected, AgentDisconnected, AgentOnline, AgentOffline, VPNConnected,
     VPNDisconnected, ProxyCreated, ProxyDeleted, ProxyFailed, HealthChanged, CommandCreated, CommandDispatched,
     CommandExecuting, CommandExecuted]"

text \<open>\<open>l\<close> is the listener that broadcasts an event.\<close>

definition NewDashboardWSGateway :: "nat \<Rightarrow> EventBus \<Rightarrow> DashboardWSGateway \<times> EventBus" where
  "NewDashboardWSGateway l eb = (\<lparr>dg_clients = {}, dg_sent = (\<lambda>_. [])\<rparr>, fold (\<lambda>t. Subscribe t l) dashboard_events eb)"

definition dashboard_join :: "nat \<Rightarrow> DashboardWSGateway \<Rightarrow> DashboardWSGateway" where
  "dashboard_join c gw = gw\<lparr>dg_clients := insert c (dg_clients gw)\<rparr>"

definition dashboard_leave :: "nat \<Rightarrow> DashboardWSGateway \<Rightarrow> DashboardWSGateway" where
  "dashboard_leave c gw = gw\<lparr>dg_clients := dg_clients gw - {c}\<rparr>"

text \<open>Whatever a client sends is answered by a pong.\<close>

definition dashboard_read :: "nat \<Rightarrow> DashboardWSGateway \<Rightarrow> DashboardWSGateway" where
  "dashboard_read c gw = gw\<lparr>dg_sent := (dg_sent gw)(c := dg_sent gw c @ [''pong''])\<rparr>"

text \<open>\<open>alive\<close> says whose socket takes the message; the others are dropped.\<close>

definition Broadcast :: "(nat \<Rightarrow> bool) \<Rightarrow> string \<Rightarrow> DashboardWSGateway \<Rightarrow> DashboardWSGateway" where
  "Broadcast alive msg gw =
     \<lparr>dg_clients = {c \<in> dg_clients gw. alive c},
      dg_sent = (\<lambda>c. if c \<in> dg_clients gw \<and> alive c then dg_sent gw c @ [msg] else dg_sent gw c)\<rparr>"

section \<open>The handshake of an agent\<close>

definition request_token :: "string \<Rightarrow> string \<Rightarrow> string" where
  "request_token query_token authHeader =
     (if query_token \<noteq> [] then query_token
      else if 7 < length authHeader \<and> take 7 authHeader = ''Bearer '' then drop 7 authHeader else [])"

definition agent_auth :: "string \<Rightarrow> world \<Rightarrow> AgentCredential option \<times> world" where
  "agent_auth token w =
     (if token = [] then (None, w)
      else case db_first AgentCredential_schema (\<lambda>c. ac_TokenHash c = sha256Hex token \<and> ac_RevokedAt c = None) w of
        (Inl _, w1) \<Rightarrow> (None, w1)
      | (Inr cred, w1) \<Rightarrow> if ac_ExpiresAt cred < clock w1 then (None, w1) else (Some cred, w1))"

text \<open>\<^verbatim>\<open>gw.db.Where("id = ?", agentID).First(&agent)\<close>, a change, and \<^verbatim>\<open>Save\<close>.\<close>

definition change_agent :: "string \<Rightarrow> (Agent \<Rightarrow> Agent) \<Rightarrow> world \<Rightarrow> world" where
  "change_agent agentID f w = (case db_first Agent_schema (\<lambda>a. ag_ID a = agentID) w of
     (Inl _, w1) \<Rightarrow> w1 | (Inr agent, w1) \<Rightarrow> snd (db_save Agent_schema (f agent) w1))"

definition send_chan :: SendChan where "send_chan = \<lparr>snd_cap = 100, snd_queue = []\<rparr>"

definition agent_open :: "string \<Rightarrow> CommandBus \<Rightarrow> CommandBus" where
  "agent_open agentID b =
     (let b1 = RegisterAgentConnection agentID send_chan b;
          w1 = change_agent agentID (\<lambda>a. a\<lparr>ag_Status := ''healthy'', ag_LastHeartbeatAt := clock (cb_world b1)\<rparr>) (cb_world b1)
      in b1\<lparr>cb_world := publish AgentConnected agentID [] NoPayload w1\<rparr>)"

definition agent_connect :: "string \<Rightarrow> string \<Rightarrow> CommandBus \<Rightarrow> AgentCredential option \<times> CommandBus" where
  "agent_connect query_token authHeader b =
     (case agent_auth (request_token query_token authHeader) (cb_world b) of
        (None, w1) \<Rightarrow> (None, b\<lparr>cb_world := w1\<rparr>)
      | (Some cred, w1) \<Rightarrow> (Some cred, agent_open (ac_AgentID cred) (b\<lparr>cb_world := w1\<rparr>)))"

definition agent_close :: "string \<Rightarrow> CommandBus \<Rightarrow> CommandBus" where
  "agent_close agentID b =
     (let b1 = UnregisterAgentConnection agentID b;
          w1 = change_agent agentID (\<lambda>a. a\<lparr>ag_Status := ''offline''\<rparr>) (cb_world b1)
      in b1\<lparr>cb_world := publish AgentDisconnected agentID [] NoPayload w1\<rparr>)"

section \<open>Messages\<close>

text \<open>A map keeps the last value of a key; a failed type assertion leaves the zero value.\<close>

definition msg_value :: "string \<Rightarrow> (string \<times> json) list \<Rightarrow> json option" where
  "msg_value k kvs = map_of (rev kvs) k"

definition msg_str :: "string \<Rightarrow> (string \<times> json) list \<Rightarrow> string" where
  "msg_str k kvs = (case msg_value k kvs of Some (json.JStr s) \<Rightarrow> s | _ \<Rightarrow> [])"

definition msg_num :: "string \<Rightarrow> (string \<times> json) list \<Rightarrow> real" where
  "msg_num k kvs = (case msg_value k kvs of Some (JNum v) \<Rightarrow> v | _ \<Rightarrow> 0)"

definition msg_int :: "string \<Rightarrow> (string \<times> json) list \<Rightarrow> int" where
  "msg_int k kvs = truncate_real (msg_num k kvs)"

definition heartbeat_msg :: "string \<Rightarrow> (string \<times> json) list \<Rightarrow> world \<Rightarrow> world" where
  "heartbeat_msg agentID m =
     RecordHeartbeat agentID (msg_num ''cpu_usage'' m) (msg_num ''ram_usage'' m) (msg_int ''vpn_count'' m)
       (msg_int ''proxy_count'' m)"

text \<open>A negative byte count is read as 0; Go leaves that conversion to the machine.\<close>

definition metrics_snapshot :: "(string \<times> json) list \<Rightarrow> time \<Rightarrow> SystemMetricSnapshot" where
  "metrics_snapshot m now = zero_SystemMetricSnapshot\<lparr>sm_CPUUsage := msg_num ''cpu_usage'' m,
     sm_RAMUsage := msg_num ''ram_usage'' m, sm_DiskUsage := msg_num ''disk_usage'' m,
     sm_NetIn := nat (msg_int ''net_in'' m), sm_NetOut := nat (msg_int ''net_out'' m),
     sm_VPNCount := msg_int ''vpn_count'' m, sm_ProxyCount := msg_int ''proxy_count'' m, sm_Timestamp := now\<rparr>"

definition metrics_msg :: "string \<Rightarrow> (string \<times> json) list \<Rightarrow> world \<Rightarrow> world" where
  "metrics_msg agentID m w =
     (let w1 = heartbeat_msg agentID m w
      in snd (db_create SystemMetricSnapshot_schema (metrics_snapshot m (clock w1)) w1))"

definition agent_fields :: "string \<Rightarrow> (string \<times> json) list \<Rightarrow> CommandBus \<Rightarrow> CommandBus" where
  "agent_fields agentID m b =
     (let msgType = msg_str ''type'' m in
      if msgType = ''heartbeat'' then b\<lparr>cb_world := heartbeat_msg agentID m (cb_world b)\<rparr>
      else if msgType = ''metrics'' then b\<lparr>cb_world := metrics_msg agentID m (cb_world b)\<rparr>
      else if msgType = ''command_result'' then
        snd (HandleResult (msg_str ''command_id'' m) (msg_str ''status'' m) (msg_str ''result'' m) (msg_str ''last_error'' m) b)
      else b)"

definition agent_message :: "string \<Rightarrow> json option \<Rightarrow> CommandBus \<Rightarrow> CommandBus" where
  "agent_message agentID msg b =
     (case msg of Some (JObj m) \<Rightarrow> agent_fields agentID m b | _ \<Rightarrow> b)"

section \<open>The gateway with its open connections\<close>

text \<open>A connection: its agent, the token of its handshake, the credential that was found, and when.\<close>

record agent_conn =
  gc_agent :: string
  gc_token :: string
  gc_cred :: AgentCredential
  gc_opened :: time

record gateway =
  gw_bus :: CommandBus
  gw_conns :: "agent_conn list"

definition gw_connect :: "string \<Rightarrow> string \<Rightarrow> gateway \<Rightarrow> gateway" where
  "gw_connect q h g =
     (case agent_connect q h (gw_bus g) of
        (None, b) \<Rightarrow> g\<lparr>gw_bus := b\<rparr>
      | (Some cred, b) \<Rightarrow> \<lparr>gw_bus = b, gw_conns = gw_conns g @
          [\<lparr>gc_agent = ac_AgentID cred, gc_token = request_token q h, gc_cred = cred, gc_opened = clock (cb_world (gw_bus g))\<rparr>]\<rparr>)"

text \<open>
  \<^verbatim>\<open>RevokeAgent\<close> of \<^verbatim>\<open>internal/api/handler.go\<close>, on the gateway with its connections: what it calls to drop the
  connection, \<^verbatim>\<open>UnregisterAgentConnection\<close>, deletes the entry of the channel and has no access to the socket.
\<close>

definition RevokeAgent :: "string \<Rightarrow> gateway \<Rightarrow> string reply \<times> gateway" where
  "RevokeAgent agentID g =
     (let b = gw_bus g in case agentCredentialRepo_GetByAgentID agentID (cb_world b) of
        (Inl _, w1) \<Rightarrow> (Fails 404 ''credential not found'', g\<lparr>gw_bus := b\<lparr>cb_world := w1\<rparr>\<rparr>)
      | (Inr cred, w1) \<Rightarrow>
          (case agentCredentialRepo_Update (cred\<lparr>ac_RevokedAt := Some (clock w1)\<rparr>) w1 of
             (Inl _, w2) \<Rightarrow> (Fails 500 ''revocation failed'', g\<lparr>gw_bus := b\<lparr>cb_world := w2\<rparr>\<rparr>)
           | (Inr _, w2) \<Rightarrow>
               (let w3 = log_audit ''AGENT_REVOKED'' (''Agent '' @ agentID @ '' token revoked'') (mark_offline agentID w2)
                in (Sends 200 ''agent revoked and disconnected'',
                    g\<lparr>gw_bus := UnregisterAgentConnection agentID (b\<lparr>cb_world := w3\<rparr>)\<rparr>))))"

text \<open>
  The steps of the server that concern agents: a handshake, a message or the end of a connection, the handlers
  that change credentials, dispatched commands, and what the command bus does by itself.
\<close>

inductive gw_step :: "gateway \<Rightarrow> gateway \<Rightarrow> bool" where
  connects: "gw_step g (gw_connect q h g)"
| message: "c \<in> set (gw_conns g) \<Longrightarrow> gw_step g (g\<lparr>gw_bus := agent_message (gc_agent c) msg (gw_bus g)\<rparr>)"
| closes: "i < length (gw_conns g) \<Longrightarrow> gw_step g
    \<lparr>gw_bus = agent_close (gc_agent (gw_conns g ! i)) (gw_bus g), gw_conns = take i (gw_conns g) @ drop (Suc i) (gw_conns g)\<rparr>"
| registers: "gw_step g (g\<lparr>gw_bus := snd (on_world (RegisterAgentWithToken body) (gw_bus g))\<rparr>)"
| rotates: "gw_step g (g\<lparr>gw_bus := snd (on_world (RotateToken a) (gw_bus g))\<rparr>)"
| revokes: "gw_step g (snd (RevokeAgent a g))"
| commands: "gw_step g (g\<lparr>gw_bus := snd (CreateAgentCommand a cmd (gw_bus g))\<rparr>)"
| task: "i < length (cb_tasks (gw_bus g)) \<Longrightarrow> cb_tasks (gw_bus g) ! i = (due, t) \<Longrightarrow> due \<le> clock (cb_world (gw_bus g)) \<Longrightarrow>
    gw_step g (g\<lparr>gw_bus := run_task t ((gw_bus g)\<lparr>cb_tasks := take i (cb_tasks (gw_bus g)) @ drop (Suc i) (cb_tasks (gw_bus g))\<rparr>)\<rparr>)"
| tick: "gw_step g (g\<lparr>gw_bus := checkCommandTimeouts (gw_bus g)\<rparr>)"
| sweep: "gw_step g (g\<lparr>gw_bus := (gw_bus g)\<lparr>cb_world := runOfflineSweep (cb_world (gw_bus g))\<rparr>\<rparr>)"
| deliver: "cb_wsRegistry (gw_bus g) a = Some ch \<Longrightarrow> snd_queue ch = m # rest \<Longrightarrow>
    gw_step g (g\<lparr>gw_bus := (gw_bus g)\<lparr>cb_wsRegistry := (cb_wsRegistry (gw_bus g))(a \<mapsto> ch\<lparr>snd_queue := rest\<rparr>)\<rparr>\<rparr>)"
| wait: "clock (cb_world (gw_bus g)) \<le> t \<Longrightarrow>
    gw_step g (g\<lparr>gw_bus := (gw_bus g)\<lparr>cb_world := (cb_world (gw_bus g))\<lparr>clock := t\<rparr>\<rparr>\<rparr>)"

inductive gw_run :: "gateway \<Rightarrow> gateway \<Rightarrow> bool" where
  start: "gw_run g g"
| step: "gw_run a b \<Longrightarrow> gw_step b c \<Longrightarrow> gw_run a c"

inductive_cases gw_stepE: "gw_step g g'"

end
