(* ===== verification/GoFmt.thy ===== *)
theory GoFmt imports GoJson begin

text \<open>The verb \<^verbatim>\<open>%q\<close> of \<^verbatim>\<open>fmt\<close> and what the commands use of \<^verbatim>\<open>path/filepath\<close> on Unix.\<close>

section \<open>Quoting\<close>

definition go_quote_char :: "char \<Rightarrow> string" where
  "go_quote_char c =
     (if c = CHR 0x22 \<or> c = CHR 0x5C then [CHR 0x5C, c]
      else if c = CHR 0x07 then [CHR 0x5C, CHR ''a'']
      else if c = CHR 0x08 then [CHR 0x5C, CHR ''b'']
      else if c = CHR 0x0C then [CHR 0x5C, CHR ''f'']
      else if c = CHR 0x0A then [CHR 0x5C, CHR ''n'']
      else if c = CHR 0x0D then [CHR 0x5C, CHR ''r'']
      else if c = CHR 0x09 then [CHR 0x5C, CHR ''t'']
      else if c = CHR 0x0B then [CHR 0x5C, CHR ''v'']
      else if of_char c < (0x20 :: nat) \<or> c = CHR 0x7F then
        [CHR 0x5C, CHR ''x'', hex_char (of_char c div 16), hex_char (of_char c mod 16)]
      else [c])"

definition go_quote :: "string \<Rightarrow> string" where
  "go_quote s = CHR 0x22 # concat (map go_quote_char s) @ [CHR 0x22]"

section \<open>Paths\<close>

definition slash :: char where "slash = CHR ''/''"

text \<open>The elements of a cleaned path: empty ones and dots vanish, two dots take back the element before them.\<close>

definition clean_step :: "bool \<Rightarrow> string list \<Rightarrow> string \<Rightarrow> string list" where
  "clean_step rooted acc c =
     (if c = [] \<or> c = ''.'' then acc
      else if c = ''..'' then
        (if acc = [] then (if rooted then [] else [''..''])
         else if last acc = ''..'' then acc @ [''..''] else butlast acc)
      else acc @ [c])"

definition path_clean :: "string \<Rightarrow> string" where
  "path_clean p =
     (let rooted = (p \<noteq> [] \<and> hd p = slash);
          r = (if rooted then [slash] else []) @ join [slash] (foldl (clean_step rooted) [] (split_on slash p))
      in if r = [] then ''.'' else r)"

definition path_join :: "string \<Rightarrow> string \<Rightarrow> string" where
  "path_join a b =
     (if a = [] \<and> b = [] then [] else if a = [] then path_clean b else if b = [] then path_clean a
      else path_clean (a @ slash # b))"

text \<open>What is before and after the last slash.\<close>

definition after_slash :: "string \<Rightarrow> string" where
  "after_slash p = last (split_on slash p)"

definition path_dir :: "string \<Rightarrow> string" where
  "path_dir p = path_clean (take (length p - length (after_slash p)) p)"

definition trim_slashes :: "string \<Rightarrow> string" where
  "trim_slashes p = rev (dropWhile (\<lambda>c. c = slash) (rev p))"

definition path_base :: "string \<Rightarrow> string" where
  "path_base p = (if p = [] then ''.'' else if trim_slashes p = [] then [slash] else after_slash (trim_slashes p))"

lemma path_examples:
  "path_dir ''data/vpn.db'' = ''data''" "path_dir ''vpn.db'' = ''.''" "path_base ''/srv/data/vpn.db'' = ''vpn.db''"
  "path_join ''/tmp'' ''vpn-to-proxy'' = ''/tmp/vpn-to-proxy''" "path_clean ''a/./b/../c//'' = ''a/c''" "path_dir ''/x'' = ''/''"
  by code_simp+

end
