(* ===== verification/RemoteAgent.thy ===== *)
theory RemoteAgent imports AgentGateway GoFmt begin

text \<open>
  \<^verbatim>\<open>cmd/agent/main.go\<close>: the program that runs on a remote host, connects to the gateway, reports its figures and
  executes the commands of the bus. Its state is its configuration, the ports it listens on, what it has written to
  its socket and the runs of the VPN client. The host is a parameter (\<open>agent_env\<close>): ports that cannot be opened, the
  \<^verbatim>\<open>expressvpn\<close> client, the readings of \<^verbatim>\<open>gopsutil\<close> (\<^verbatim>\<open>host.Info\<close> is taken to succeed), the dialler. A command is one
  step: the locks of the source make each operation atomic.
\<close>

section \<open>Configuration\<close>

record Config =
  cfg_AgentID :: string
  cfg_MasterURL :: string
  cfg_Token :: string
  cfg_HeartbeatIntervalSeconds :: int
  cfg_MetricsIntervalSeconds :: int
  cfg_ProxyPortRangeStart :: int
  cfg_ProxyPortRangeEnd :: int

text \<open>\<open>file\<close> is what reading the file gives, \<open>yaml\<close> decodes its text.\<close>

definition config_complete :: "Config \<Rightarrow> bool" where
  "config_complete c \<longleftrightarrow> cfg_AgentID c \<noteq> [] \<and> cfg_MasterURL c \<noteq> [] \<and> cfg_Token c \<noteq> [] \<and> cfg_Token c \<noteq> ''YOUR_AGENT_TOKEN''"

definition or_default :: "int \<Rightarrow> int \<Rightarrow> int" where
  "or_default d n = (if n = 0 then d else n)"

definition config_defaults :: "Config \<Rightarrow> Config" where
  "config_defaults c = c\<lparr>cfg_HeartbeatIntervalSeconds := or_default 30 (cfg_HeartbeatIntervalSeconds c),
     cfg_MetricsIntervalSeconds := or_default 5 (cfg_MetricsIntervalSeconds c),
     cfg_ProxyPortRangeStart := or_default 8000 (cfg_ProxyPortRangeStart c),
     cfg_ProxyPortRangeEnd := or_default 9000 (cfg_ProxyPortRangeEnd c)\<rparr>"

definition loadConfig :: "string result \<Rightarrow> (string \<Rightarrow> Config result) \<Rightarrow> Config result" where
  "loadConfig file yaml = (case file of Inl e \<Rightarrow> Inl e
     | Inr b \<Rightarrow> (case yaml b of Inl e \<Rightarrow> Inl e
       | Inr c \<Rightarrow> if config_complete c then Inr (config_defaults c)
                  else Inl (ErrMsg ''agent_id, master_url, and token are required'')))"

section \<open>State and host\<close>

record remote_agent =
  ra_cfg :: Config
  ra_proxies :: "int list"
  ra_startedAt :: time
  ra_sent :: "json list"
  ra_runs :: "string list list"

definition new_agent :: "Config \<Rightarrow> time \<Rightarrow> remote_agent" where
  "new_agent c now = \<lparr>ra_cfg = c, ra_proxies = [], ra_startedAt = now, ra_sent = [], ra_runs = []\<rparr>"

text \<open>
  \<open>ae_express\<close> is \<open>None\<close> when \<^verbatim>\<open>expressvpn\<close> is not in the path; a run is given its deadline and its arguments.
  \<open>ae_walk\<close> is the order in which Go walks the map of proxies.
\<close>

record agent_env =
  ae_now :: time
  ae_socket :: bool
  ae_dial :: "string \<Rightarrow> string \<Rightarrow> gerr option"
  ae_listen :: "int \<Rightarrow> gerr option"
  ae_express :: "(duration option \<Rightarrow> string list \<Rightarrow> string \<times> gerr option) option"
  ae_cpu :: "real list result"
  ae_mem :: "real result"
  ae_disk :: "real result"
  ae_net :: "nat list result"
  ae_hostname :: string
  ae_goos :: string
  ae_walk :: "int list \<Rightarrow> int list"

section \<open>Sending\<close>

definition sendJSON :: "agent_env \<Rightarrow> json \<Rightarrow> remote_agent \<Rightarrow> gerr option \<times> remote_agent" where
  "sendJSON env v s = (if ae_socket env then (None, s\<lparr>ra_sent := ra_sent s @ [v]\<rparr>) else (Some (ErrMsg ''websocket''), s))"

definition proxyPorts :: "agent_env \<Rightarrow> remote_agent \<Rightarrow> int list" where
  "proxyPorts env s = ae_walk env (ra_proxies s)"

text \<open>A reading that fails or is empty counts as 0.\<close>

definition first_or :: "'a \<Rightarrow> 'a list result \<Rightarrow> 'a" where
  "first_or d r = (case r of Inr (x # _) \<Rightarrow> x | _ \<Rightarrow> d)"

definition reading :: "real result \<Rightarrow> real" where
  "reading r = (case r of Inr x \<Rightarrow> x | Inl _ \<Rightarrow> 0)"

definition sampleMetrics :: "agent_env \<Rightarrow> remote_agent \<Rightarrow> real \<times> real \<times> real \<times> nat \<times> int \<times> int" where
  "sampleMetrics env s = (first_or 0 (ae_cpu env), reading (ae_mem env), reading (ae_disk env), first_or 0 (ae_net env),
     0, int (length (proxyPorts env s)))"

text \<open>\<^verbatim>\<open>json.Marshal\<close> sorts the keys of a map.\<close>

definition heartbeat_doc :: "agent_env \<Rightarrow> remote_agent \<Rightarrow> json" where
  "heartbeat_doc env s = (case sampleMetrics env s of (cpuUsage, ramUsage, _, _, vpnCount, proxyCount) \<Rightarrow>
     JObj [(''cpu_usage'', JNum cpuUsage), (''proxy_count'', JNum (of_int proxyCount)), (''ram_usage'', JNum ramUsage),
       (''type'', json.JStr ''heartbeat''), (''vpn_count'', JNum (of_int vpnCount))])"

definition sendHeartbeat :: "agent_env \<Rightarrow> remote_agent \<Rightarrow> gerr option \<times> remote_agent" where
  "sendHeartbeat env s = sendJSON env (heartbeat_doc env s) s"

definition metrics_doc :: "agent_env \<Rightarrow> remote_agent \<Rightarrow> json" where
  "metrics_doc env s = (case sampleMetrics env s of (cpuUsage, ramUsage, diskUsage, netIn, vpnCount, proxyCount) \<Rightarrow>
     JObj [(''cpu_usage'', JNum cpuUsage), (''disk_usage'', JNum diskUsage), (''net_in'', JNum (of_nat netIn)),
       (''net_out'', JNum 0), (''proxy_count'', JNum (of_int proxyCount)), (''ram_usage'', JNum ramUsage),
       (''type'', json.JStr ''metrics''), (''vpn_count'', JNum (of_int vpnCount))])"

definition sendMetrics :: "agent_env \<Rightarrow> remote_agent \<Rightarrow> gerr option \<times> remote_agent" where
  "sendMetrics env s = sendJSON env (metrics_doc env s) s"

definition state_doc :: "agent_env \<Rightarrow> remote_agent \<Rightarrow> json" where
  "state_doc env s =
     JObj [(''active_proxies'', JList (map (\<lambda>p. JNum (of_int p)) (proxyPorts env s))), (''active_vpn'', JNull),
       (''agent_id'', json.JStr (cfg_AgentID (ra_cfg s))), (''agent_version'', json.JStr ''v0.2.0-phase2b''),
       (''hostname'', json.JStr (ae_hostname env)), (''os'', json.JStr (ae_goos env)), (''public_ip'', json.JStr []),
       (''started_at'', json.JStr (rfc3339 (ra_startedAt s))), (''type'', json.JStr ''state_sync'')]"

definition sendStateSync :: "agent_env \<Rightarrow> remote_agent \<Rightarrow> remote_agent" where
  "sendStateSync env s = snd (sendJSON env (state_doc env s) s)"

definition result_doc :: "time \<Rightarrow> string \<Rightarrow> string \<Rightarrow> string \<Rightarrow> string \<Rightarrow> json" where
  "result_doc now commandID status res lastError =
     JObj [(''command_id'', json.JStr commandID), (''last_error'', json.JStr lastError),
       (''reported_at'', json.JStr (rfc3339 now)), (''result'', json.JStr res), (''status'', json.JStr status),
       (''type'', json.JStr ''command_result'')]"

definition sendCommandResult :: "agent_env \<Rightarrow> string \<Rightarrow> string \<Rightarrow> string \<Rightarrow> string \<Rightarrow> remote_agent \<Rightarrow> remote_agent" where
  "sendCommandResult env commandID status res lastError s =
     snd (sendJSON env (result_doc (ae_now env) commandID status res lastError) s)"

section \<open>Payloads\<close>

text \<open>
  \<^verbatim>\<open>json.Unmarshal\<close> of a \<^verbatim>\<open>json.RawMessage\<close> (\<open>None\<close> when the key was missing) into a struct of one field: the value,
  and whether an error is returned. A wrong type is an error that leaves the field as it is. A whole number is read
  as an integer however it is written.
\<close>

definition payload_values :: "string \<Rightarrow> json option \<Rightarrow> json list \<times> bool" where
  "payload_values name payload = (case payload of Some (JObj kvs) \<Rightarrow> (field_values name kvs, True)
     | Some JNull \<Rightarrow> ([], True) | _ \<Rightarrow> ([], False))"

fun take_int :: "int \<times> bool \<Rightarrow> json \<Rightarrow> int \<times> bool" where
  "take_int (n, ok) JNull = (n, ok)"
| "take_int (n, ok) (JNum v) = (if of_int \<lfloor>v\<rfloor> = v \<and> wrap64 \<lfloor>v\<rfloor> = \<lfloor>v\<rfloor> then (\<lfloor>v\<rfloor>, ok) else (n, False))"
| "take_int (n, ok) _ = (n, False)"

fun take_str :: "string \<times> bool \<Rightarrow> json \<Rightarrow> string \<times> bool" where
  "take_str (t, ok) JNull = (t, ok)"
| "take_str (t, ok) (json.JStr u) = (u, ok)"
| "take_str (t, ok) _ = (t, False)"

definition unmarshal_int :: "string \<Rightarrow> json option \<Rightarrow> int \<times> bool" where
  "unmarshal_int name payload = (case payload_values name payload of (vs, ok) \<Rightarrow> foldl take_int (0, ok) vs)"

definition unmarshal_str :: "string \<Rightarrow> json option \<Rightarrow> string \<times> bool" where
  "unmarshal_str name payload = (case payload_values name payload of (vs, ok) \<Rightarrow> foldl take_str ([], ok) vs)"

definition portFromPayload :: "json option \<Rightarrow> int result" where
  "portFromPayload payload = (case unmarshal_int ''port'' payload of (port, ok) \<Rightarrow>
     if \<not> ok then Inl (ErrMsg ''json'') else if port = 0 then Inl (ErrMsg ''port is required'') else Inr port)"

section \<open>Proxies\<close>

function next_free :: "int list \<Rightarrow> int \<Rightarrow> int \<Rightarrow> int" where
  "next_free used port stop =
     (if stop < port then 0 else if port \<in> set used then next_free used (port + 1) stop else port)"
  by pat_completeness auto
termination
  by (relation "measure (\<lambda>(used, port, stop). nat (stop + 1 - port))") auto

declare next_free.simps [simp del]

definition nextFreePortLocked :: "remote_agent \<Rightarrow> int" where
  "nextFreePortLocked s = next_free (ra_proxies s) (cfg_ProxyPortRangeStart (ra_cfg s)) (cfg_ProxyPortRangeEnd (ra_cfg s))"

text \<open>\<^verbatim>\<open>net.Listen\<close>: the port has to be one, no listener of the agent may have it, and the host must let it.\<close>

definition listen_error :: "agent_env \<Rightarrow> int \<Rightarrow> remote_agent \<Rightarrow> gerr option" where
  "listen_error env port s =
     (if port < 0 \<or> 65535 < port then Some (ErrMsg (''listen tcp: address '' @ itoa port @ '': invalid port''))
      else if port \<in> set (ra_proxies s) then Some (ErrMsg (''listen tcp :'' @ itoa port @ '': bind: address already in use''))
      else ae_listen env port)"

text \<open>The texts of the results; the fixed words are quoted as they are.\<close>

definition proxy_status :: "int \<Rightarrow> string \<Rightarrow> string" where
  "proxy_status port status =
     ''{'' @ json_string ''port'' @ '':'' @ itoa port @ '','' @ json_string ''status'' @ '':'' @ json_string status @ ''}''"

definition createProxy :: "agent_env \<Rightarrow> json option \<Rightarrow> remote_agent \<Rightarrow> string result \<times> remote_agent" where
  "createProxy env payload s =
     (let wanted = fst (unmarshal_int ''port'' payload);
          port = (if wanted = 0 then nextFreePortLocked s else wanted)
      in if port = 0 then (Inl (ErrMsg ''no free proxy port available''), s)
         else case listen_error env port s of
             Some e \<Rightarrow> (Inl e, s)
           | None \<Rightarrow> (Inr (proxy_status port ''running''), s\<lparr>ra_proxies := ra_proxies s @ [port]\<rparr>))"

definition deleteProxy :: "json option \<Rightarrow> remote_agent \<Rightarrow> string result \<times> remote_agent" where
  "deleteProxy payload s = (case portFromPayload payload of
     Inl e \<Rightarrow> (Inl e, s)
   | Inr port \<Rightarrow>
       if port \<in> set (ra_proxies s)
       then (Inr (proxy_status port ''stopped''), s\<lparr>ra_proxies := filter (\<lambda>p. p \<noteq> port) (ra_proxies s)\<rparr>)
       else (Inl (ErrMsg (''proxy port '' @ itoa port @ '' is not running'')), s))"

definition restartProxy :: "agent_env \<Rightarrow> json option \<Rightarrow> remote_agent \<Rightarrow> string result \<times> remote_agent" where
  "restartProxy env payload s = createProxy env payload (snd (deleteProxy payload s))"

text \<open>What a client of a placeholder proxy is sent.\<close>

definition servePlaceholderProxy :: string where
  "servePlaceholderProxy = ''HTTP/1.1 200 OK'' @ crlf @ ''Content-Length: 2'' @ crlf @ crlf @ ''OK''"

section \<open>The VPN client\<close>

definition mock_run :: "string list \<Rightarrow> string" where
  "mock_run args = ''{'' @ json_string ''driver'' @ '':'' @ json_string ''expressvpn'' @ '','' @ json_string ''mock'' @
     '':true,'' @ json_string ''args'' @ '':['' @ join '' '' (map go_quote args) @ '']}''"

text \<open>The output of a run that fails is dropped by the caller.\<close>

definition runExpressVPN :: "agent_env \<Rightarrow> duration option \<Rightarrow> string list \<Rightarrow> remote_agent \<Rightarrow> string result \<times> remote_agent" where
  "runExpressVPN env deadline args s = (case ae_express env of
     None \<Rightarrow> (Inr (mock_run args), s)
   | Some run \<Rightarrow> (case run deadline args of (out, err) \<Rightarrow>
       (case err of None \<Rightarrow> Inr out | Some e \<Rightarrow> Inl e, s\<lparr>ra_runs := ra_runs s @ [args]\<rparr>)))"

section \<open>Commands\<close>

record CommandMessage =
  co_Type :: string
  co_CommandID :: string
  co_CommandType :: string
  co_Payload :: "json option"
  co_TimeoutSeconds :: int
  co_IdempotencyKey :: string

definition raw_field :: "string \<Rightarrow> (string \<times> json) list \<Rightarrow> json option" where
  "raw_field name kvs = (case field_values name kvs of [] \<Rightarrow> None | vs \<Rightarrow> Some (last vs))"

definition command_fields :: "(string \<times> json) list \<Rightarrow> CommandMessage option" where
  "command_fields kvs =
     (case str_fields [''type'', ''command_id'', ''command_type'', ''idempotency_key''] kvs of
        Some [t, i, ct, k] \<Rightarrow> (case foldl take_int (0, True) (field_values ''timeout_seconds'' kvs) of (secs, ok) \<Rightarrow>
          if ok then Some \<lparr>co_Type = t, co_CommandID = i, co_CommandType = ct, co_Payload = raw_field ''payload'' kvs,
            co_TimeoutSeconds = secs, co_IdempotencyKey = k\<rparr> else None)
      | _ \<Rightarrow> None)"

definition decode_command :: "json option \<Rightarrow> CommandMessage option" where
  "decode_command msg = (case json_document msg of None \<Rightarrow> None | Some kvs \<Rightarrow> command_fields kvs)"

definition connect_args :: "json option \<Rightarrow> string list" where
  "connect_args payload = (let location = fst (unmarshal_str ''location'' payload) in
     ''connect'' # (if location \<noteq> [] then [location] else []))"

definition executeVPNCommand :: "agent_env \<Rightarrow> duration option \<Rightarrow> CommandMessage \<Rightarrow> remote_agent \<Rightarrow> string result \<times> remote_agent" where
  "executeVPNCommand env deadline cmd s =
     (if co_CommandType cmd = ''CONNECT_VPN'' then runExpressVPN env deadline (connect_args (co_Payload cmd)) s
      else if co_CommandType cmd = ''DISCONNECT_VPN'' then runExpressVPN env deadline [''disconnect''] s
      else if co_CommandType cmd = ''HEALTH_CHECK'' then runExpressVPN env deadline [''status''] s
      else if co_CommandType cmd = ''SYNC_STATE'' then (Inr (''{'' @ json_string ''synced'' @ '':true}''), sendStateSync env s)
      else (Inl (ErrMsg ''unsupported vpn command''), s))"

definition command_deadline :: "CommandMessage \<Rightarrow> duration option" where
  "command_deadline cmd = (if 0 < co_TimeoutSeconds cmd then Some (wrap64 (co_TimeoutSeconds cmd * second)) else None)"

definition run_command :: "agent_env \<Rightarrow> CommandMessage \<Rightarrow> remote_agent \<Rightarrow> string result \<times> remote_agent" where
  "run_command env cmd s =
     (if co_CommandType cmd \<in> {''CONNECT_VPN'', ''DISCONNECT_VPN'', ''HEALTH_CHECK'', ''SYNC_STATE''} then
        executeVPNCommand env (command_deadline cmd) cmd s
      else if co_CommandType cmd = ''CREATE_PROXY'' then createProxy env (co_Payload cmd) s
      else if co_CommandType cmd = ''DELETE_PROXY'' then deleteProxy (co_Payload cmd) s
      else if co_CommandType cmd = ''RESTART_PROXY'' then restartProxy env (co_Payload cmd) s
      else (Inl (ErrMsg (''unsupported command type '' @ co_CommandType cmd)), s))"

definition executeCommand :: "agent_env \<Rightarrow> CommandMessage \<Rightarrow> remote_agent \<Rightarrow> remote_agent" where
  "executeCommand env cmd s =
     (case run_command env cmd (sendCommandResult env (co_CommandID cmd) ''executing'' [] [] s) of
        (Inl e, s1) \<Rightarrow> sendCommandResult env (co_CommandID cmd) ''failed'' [] (err_text e) s1
      | (Inr res, s1) \<Rightarrow> sendCommandResult env (co_CommandID cmd) ''completed'' res [] s1)"

text \<open>A message of the socket, \<open>None\<close> when its text is no JSON.\<close>

definition read_message :: "agent_env \<Rightarrow> json option \<Rightarrow> remote_agent \<Rightarrow> remote_agent" where
  "read_message env msg s = (case decode_command msg of
     None \<Rightarrow> s | Some cmd \<Rightarrow> if co_Type cmd = ''command'' then executeCommand env cmd s else s)"

section \<open>Connections\<close>

text \<open>What happens on an open connection, each event with the host as it is then.\<close>

datatype agent_event = HeartbeatTick | MetricsTick | Received "json option" | Lost gerr

text \<open>\<open>Open\<close>: still connected after these events; \<open>Panics\<close>: a ticker with no positive interval ends the program.\<close>

datatype session_end = Open | Ended gerr | Panics

fun serve_events :: "(agent_env \<times> agent_event) list \<Rightarrow> remote_agent \<Rightarrow> session_end \<times> remote_agent" where
  "serve_events [] s = (Open, s)"
| "serve_events ((env, HeartbeatTick) # evs) s = (case sendHeartbeat env s of
     (Some e, s1) \<Rightarrow> (Ended e, s1) | (None, s1) \<Rightarrow> serve_events evs s1)"
| "serve_events ((env, MetricsTick) # evs) s = (case sendMetrics env s of
     (Some e, s1) \<Rightarrow> (Ended e, s1) | (None, s1) \<Rightarrow> serve_events evs s1)"
| "serve_events ((env, Received msg) # evs) s = serve_events evs (read_message env msg s)"
| "serve_events ((env, Lost e) # evs) s = (Ended e, s)"

definition tickers_ok :: "Config \<Rightarrow> bool" where
  "tickers_ok c \<longleftrightarrow> 0 < wrap64 (cfg_HeartbeatIntervalSeconds c * second) \<and> 0 < wrap64 (cfg_MetricsIntervalSeconds c * second)"

definition telemetryLoop :: "agent_env \<Rightarrow> (agent_env \<times> agent_event) list \<Rightarrow> remote_agent \<Rightarrow> session_end \<times> remote_agent" where
  "telemetryLoop env evs s =
     (if tickers_ok (ra_cfg s) then serve_events evs (snd (sendMetrics env (snd (sendHeartbeat env s)))) else (Panics, s))"

definition connectAndServe :: "agent_env \<Rightarrow> (agent_env \<times> agent_event) list \<Rightarrow> remote_agent \<Rightarrow> session_end \<times> remote_agent" where
  "connectAndServe env evs s =
     (case ae_dial env (cfg_MasterURL (ra_cfg s)) (''Bearer '' @ cfg_Token (ra_cfg s)) of
        Some e \<Rightarrow> (Ended e, s)
      | None \<Rightarrow> telemetryLoop env evs (sendStateSync env s))"

text \<open>The rounds of \<^verbatim>\<open>run\<close>: after every end of a connection the next attempt, three seconds later.\<close>

fun run_rounds :: "(agent_env \<times> (agent_env \<times> agent_event) list) list \<Rightarrow> remote_agent \<Rightarrow> session_end \<times> remote_agent" where
  "run_rounds [] s = (Open, s)"
| "run_rounds ((env, evs) # rounds) s = (case connectAndServe env evs s of
     (Ended _, s1) \<Rightarrow> run_rounds rounds s1 | (Open, s1) \<Rightarrow> (Open, s1) | (Panics, s1) \<Rightarrow> (Panics, s1))"

section \<open>The wire\<close>

text \<open>
  The document \<^verbatim>\<open>attemptDispatch\<close> marshals for a command. The payload is a field of type \<^verbatim>\<open>string\<close>, so
  its JSON text is sent as a JSON string.
\<close>

definition command_doc :: "CommandMsg \<Rightarrow> json" where
  "command_doc m =
     JObj [(''command_id'', json.JStr (cm_command_id m)), (''command_type'', json.JStr (cm_command_type m)),
       (''idempotency_key'', json.JStr (cm_idempotency_key m)), (''payload'', json.JStr (cm_payload m)),
       (''timeout_seconds'', JNum (of_int (cm_timeout_seconds m))), (''type'', json.JStr ''command'')]"

end
