(* ===== verification/AgentGatewayFacts.thy ===== *)
theory AgentGatewayFacts imports AgentGateway CommandBusFacts HealthFacts Accounts begin

text \<open>
  The agents' gateway: commands only flow to agents that have shown a live credential, the life of a token from its
  registration over its rotation to its revocation, and two things the gateway does not look at.
\<close>

section \<open>Which channels an operation opens\<close>

lemma on_world_registry [simp]: "cb_wsRegistry (snd (on_world m b)) = cb_wsRegistry b"
  by (simp add: on_world_def split: prod.split)

lemma RevokeAgent_channels:
  "cb_wsRegistry (gw_bus (snd (RevokeAgent a g))) x \<noteq> None \<Longrightarrow> cb_wsRegistry (gw_bus g) x \<noteq> None"
  "gw_conns (snd (RevokeAgent a g)) = gw_conns g"
  by (auto simp: RevokeAgent_def UnregisterAgentConnection_def Let_def split: prod.splits sum.splits if_splits)

lemma Dispatch_registry [simp]: "cb_wsRegistry (snd (Dispatch cmd b)) = cb_wsRegistry b"
  by (simp add: Dispatch_def start_task_def split: prod.splits sum.splits bool.splits)

lemma CreateAgentCommand_registry [simp]: "cb_wsRegistry (snd (CreateAgentCommand a cmd b)) = cb_wsRegistry b"
proof -
  have "cb_wsRegistry (snd (dispatch_input a c b)) = cb_wsRegistry b" for c
  proof -
    obtain i b1 where i: "on_world new_uuid b = (i, b1)" by fastforce
    have "cb_wsRegistry b1 = cb_wsRegistry b" using on_world_registry [of new_uuid b] by (simp add: i)
    moreover obtain r b2 where d: "Dispatch (input_command i a c) b1 = (r, b2)" by fastforce
    moreover have "cb_wsRegistry b2 = cb_wsRegistry b1"
      using Dispatch_registry [of "input_command i a c" b1] by (simp add: d)
    ultimately show ?thesis by (cases r) (simp_all add: dispatch_input_def i)
  qed
  then show ?thesis by (simp add: CreateAgentCommand_def with_input_def split: sum.split)
qed

lemma HandleResult_registry [simp]: "cb_wsRegistry (snd (HandleResult i s r e b)) = cb_wsRegistry b"
proof -
  have "cb_wsRegistry (snd (apply_result c s r e b')) = cb_wsRegistry b'" for c b'
    by (simp add: apply_result_def handle_failed_def start_task_def Let_def)
  then show ?thesis by (simp add: HandleResult_def split: prod.split sum.split)
qed

lemma agent_message_registry [simp]: "cb_wsRegistry (agent_message a m b) = cb_wsRegistry b"
  by (simp add: agent_message_def agent_fields_def Let_def split: option.split json.split)

lemma attemptDispatch_channels: "cb_wsRegistry (attemptDispatch c b) x = None \<longleftrightarrow> cb_wsRegistry b x = None"
  by (auto simp: attemptDispatch_def Let_def split: option.split if_splits)

lemma attempts_channels: "cb_wsRegistry (foldl (\<lambda>b c. attemptDispatch c b) b cs) x = None \<longleftrightarrow> cb_wsRegistry b x = None"
  by (induction cs arbitrary: b) (simp_all add: attemptDispatch_channels)

lemma run_task_channels: "cb_wsRegistry (run_task t b) x = None \<longleftrightarrow> cb_wsRegistry b x = None"
proof (cases t)
  case (ProcessPending a)
  then show ?thesis
    by (auto simp: processPendingCommandsForAgent_def attempts_channels split: prod.split sum.split)
qed (simp add: attemptDispatch_channels)

lemma checkCommandTimeouts_registry [simp]: "cb_wsRegistry (checkCommandTimeouts b) = cb_wsRegistry b"
  by (simp add: checkCommandTimeouts_def split: prod.split sum.split)

lemma agent_close_registry: "cb_wsRegistry (agent_close a b) = (cb_wsRegistry b)(a := None)"
  by (simp add: agent_close_def UnregisterAgentConnection_def Let_def)

section \<open>Authentication\<close>

lemma agent_auth_sound:
  assumes "fst (agent_auth token w) = Some c"
  shows "c \<in> set (agent_credentials w) \<and> ac_TokenHash c = sha256Hex token \<and> ac_RevokedAt c = None \<and>
    clock w \<le> ac_ExpiresAt c \<and> token \<noteq> []"
proof -
  obtain res w1 where f: "db_first AgentCredential_schema (\<lambda>c. ac_TokenHash c = sha256Hex token \<and> ac_RevokedAt c = None) w = (res, w1)"
    by fastforce
  have k: "clock w1 = clock w"
    using clock_frames(2) [of AgentCredential_schema "\<lambda>c. ac_TokenHash c = sha256Hex token \<and> ac_RevokedAt c = None" w]
    by (simp add: f)
  show ?thesis
    using assms agent_credentials_table.first_row [of _ w] f k
    by (cases res) (auto simp: agent_auth_def split: if_splits)
qed

definition conn_ok :: "gateway \<Rightarrow> gateway \<Rightarrow> agent_conn \<Rightarrow> bool" where
  "conn_ok s g c \<longleftrightarrow> (\<exists>g0. gw_run s g0 \<and> gw_run g0 g \<and>
     fst (agent_auth (gc_token c) (cb_world (gw_bus g0))) = Some (gc_cred c) \<and>
     gc_agent c = ac_AgentID (gc_cred c) \<and> gc_opened c = clock (cb_world (gw_bus g0)))"

definition gw_inv :: "gateway \<Rightarrow> gateway \<Rightarrow> bool" where
  "gw_inv s g \<longleftrightarrow> (\<forall>a. cb_wsRegistry (gw_bus g) a \<noteq> None \<longrightarrow> (\<exists>c \<in> set (gw_conns g). gc_agent c = a)) \<and>
     (\<forall>c \<in> set (gw_conns g). conn_ok s g c)"

lemma conn_ok_step: "conn_ok s g c \<Longrightarrow> gw_step g g' \<Longrightarrow> conn_ok s g' c"
  by (auto simp: conn_ok_def intro: gw_run.step)

lemma agent_connect_channels:
  assumes "agent_connect q h b = (r, b')"
  shows "case r of None \<Rightarrow> cb_wsRegistry b' = cb_wsRegistry b \<and> fst (agent_auth (request_token q h) (cb_world b)) = None
    | Some cred \<Rightarrow> cb_wsRegistry b' = (cb_wsRegistry b)(ac_AgentID cred \<mapsto> send_chan) \<and>
        fst (agent_auth (request_token q h) (cb_world b)) = Some cred"
proof -
  obtain o1 w1 where a: "agent_auth (request_token q h) (cb_world b) = (o1, w1)" by fastforce
  show ?thesis
    using assms
    by (cases o1) (auto simp: agent_connect_def a agent_open_def RegisterAgentConnection_def start_task_def Let_def)
qed

lemma gw_inv_step:
  assumes run: "gw_run s g" and inv: "gw_inv s g" and st: "gw_step g g'"
  shows "gw_inv s g'"
proof -
  have old: "\<forall>c \<in> set (gw_conns g). conn_ok s g' c" using inv conn_ok_step [OF _ st] by (auto simp: gw_inv_def)
  have ch: "cb_wsRegistry (gw_bus g) a \<noteq> None \<Longrightarrow> \<exists>c \<in> set (gw_conns g). gc_agent c = a" for a
    using inv by (simp add: gw_inv_def)
  have run': "gw_run g g'" using gw_run.step [OF gw_run.start st] .
  have same: ?thesis if "gw_conns g' = gw_conns g"
    and "\<And>a. cb_wsRegistry (gw_bus g') a \<noteq> None \<Longrightarrow> cb_wsRegistry (gw_bus g) a \<noteq> None"
    using that old ch by (simp add: gw_inv_def)
  from st show ?thesis
  proof cases
    case (connects q h)
    obtain r b where r: "agent_connect q h (gw_bus g) = (r, b)" by fastforce
    note c = agent_connect_channels [OF r]
    show ?thesis
    proof (cases r)
      case None
      then show ?thesis using c connects r by (intro same) (simp_all add: gw_connect_def)
    next
      case (Some cred)
      let ?c = "\<lparr>gc_agent = ac_AgentID cred, gc_token = request_token q h, gc_cred = cred, gc_opened = clock (cb_world (gw_bus g))\<rparr>"
      have g': "g' = \<lparr>gw_bus = b, gw_conns = gw_conns g @ [?c]\<rparr>" using connects r Some by (simp add: gw_connect_def)
      have "conn_ok s g' ?c" using run run' c Some unfolding conn_ok_def by (intro exI [of _ g]) simp
      moreover have "cb_wsRegistry b = (cb_wsRegistry (gw_bus g))(ac_AgentID cred \<mapsto> send_chan)" using c Some by simp
      ultimately show ?thesis using old ch by (auto simp: gw_inv_def g' split: if_splits)
    qed
  next
    case (closes i)
    let ?a = "gc_agent (gw_conns g ! i)"
    let ?cs = "take i (gw_conns g) @ drop (Suc i) (gw_conns g)"
    have sub: "set ?cs \<subseteq> set (gw_conns g)" by (auto dest: in_set_takeD in_set_dropD)
    have keep: "c \<in> set ?cs" if c: "c \<in> set (gw_conns g)" and ne: "gc_agent c \<noteq> ?a" for c
    proof -
      have "set (gw_conns g) = insert (gw_conns g ! i) (set ?cs)"
        using id_take_nth_drop [OF closes(2)] by (metis Un_insert_right list.simps(15) set_append)
      then show ?thesis using c ne by auto
    qed
    have "\<exists>c \<in> set ?cs. gc_agent c = x" if "cb_wsRegistry (agent_close ?a (gw_bus g)) x \<noteq> None" for x
      using that ch [of x] keep by (auto simp: agent_close_registry split: if_splits)
    then show ?thesis using old sub closes(1) by (auto simp: gw_inv_def)
  next
    case (task i due t)
    then show ?thesis by (intro same) (simp_all add: run_task_channels)
  next
    case (revokes a)
    then show ?thesis using RevokeAgent_channels [of a g] by (intro same) (simp_all del: not_None_eq)
  next
    case (deliver a c m rest)
    then show ?thesis by (intro same) (auto split: if_splits)
  qed (rule same; simp)+
qed

lemma gw_run_inv: "gw_run s g \<Longrightarrow> gw_inv s s \<Longrightarrow> gw_inv s g"
  by (induction rule: gw_run.induct) (simp_all add: gw_inv_step)

lemma gw_run_trans: "gw_run a b \<Longrightarrow> gw_run s a \<Longrightarrow> gw_run s b"
  by (induction rule: gw_run.induct) (auto intro: gw_run.step)

definition NewGateway :: "world \<Rightarrow> gateway" where
  "NewGateway w = \<lparr>gw_bus = NewCommandBus w, gw_conns = []\<rparr>"

text \<open>
  C31. Safety: in every reachable state of the server, a channel that commands for an agent can be written to belongs to
  an open connection whose handshake was made, in an earlier reachable state, with a token whose hash the database
  then held as the unrevoked and unexpired credential of that very agent.
\<close>

theorem agent_channels_authenticated:
  assumes "gw_run (NewGateway w) g" and "cb_wsRegistry (gw_bus g) a = Some ch"
  shows "\<exists>c \<in> set (gw_conns g). \<exists>g0 cred. gw_run (NewGateway w) g0 \<and> gw_run g0 g \<and>
    cred \<in> set (agent_credentials (cb_world (gw_bus g0))) \<and> ac_AgentID cred = a \<and> ac_TokenHash cred = sha256Hex (gc_token c) \<and>
    ac_RevokedAt cred = None \<and> clock (cb_world (gw_bus g0)) \<le> ac_ExpiresAt cred"
proof -
  have "gw_inv (NewGateway w) (NewGateway w)" by (simp add: gw_inv_def NewGateway_def NewCommandBus_def)
  then have inv: "gw_inv (NewGateway w) g" using gw_run_inv assms(1) by blast
  then obtain c where c: "c \<in> set (gw_conns g)" "gc_agent c = a" using assms(2) by (auto simp: gw_inv_def)
  then have "conn_ok (NewGateway w) g c" using inv by (simp add: gw_inv_def)
  then obtain g0 where "gw_run (NewGateway w) g0" "gw_run g0 g"
    "fst (agent_auth (gc_token c) (cb_world (gw_bus g0))) = Some (gc_cred c)" "gc_agent c = ac_AgentID (gc_cred c)"
    by (auto simp: conn_ok_def)
  then show ?thesis
    using c agent_auth_sound by (intro bexI [of _ c] exI [of _ g0] exI [of _ "gc_cred c"]) auto
qed

section \<open>The life of a token\<close>

lemma log_audit_credentials [simp]: "agent_credentials (log_audit a d w) = agent_credentials w" "clock (log_audit a d w) = clock w"
  by (simp_all add: log_audit_def auditLogRepo_Create_def db_create_frame [where get = agent_credentials])

lemma agentRepo_credentials:
  "agentRepo_Create a w = (r, w') \<Longrightarrow> agent_credentials w' = agent_credentials w \<and> clock w' = clock w \<and>
    rand_of w' = rand_of w"
  using db_create_frame [of agent_credentials Agent_schema a w] db_create_frame [of clock Agent_schema a w]
    db_create_frame [of rand_of Agent_schema a w] by (simp add: agentRepo_Create_def)

lemma pick_id_frame: "pick_id i w = (a, w') \<Longrightarrow> agent_credentials w' = agent_credentials w \<and> clock w' = clock w \<and>
    rand_of w' = rand_of w"
  by (auto simp: pick_id_def new_uuid_def split: if_splits)

lemma generateToken_ok:
  assumes "generateToken w = (Inr (plain, hash), w')" and "\<forall>k bs. rand_of w k 32 = Some bs \<longrightarrow> bs \<noteq> []"
  shows "hash = sha256Hex plain \<and> plain \<noteq> [] \<and> agent_credentials w' = agent_credentials w \<and> clock w' = clock w"
proof -
  obtain bs where bs: "rand_of w (rand_next w) 32 = Some bs" "plain = hex_encode bs" "hash = sha256Hex plain"
    "w' = w\<lparr>rand_next := Suc (rand_next w)\<rparr>"
    using assms(1) by (auto simp: generateToken_def randomHex_def rand_read_def split: option.splits)
  have "plain \<noteq> []" using assms(2) bs(1) length_hex_encode [of bs] unfolding bs(2) by (metis length_0_conv list.size(3) mult_eq_0_iff zero_neq_numeral)
  then show ?thesis by (simp add: bs(3,4))
qed

lemma credentials_with_hash:
  assumes "faults w = []" and "c \<in> set (agent_credentials w)" and "ac_TokenHash c = sha256Hex token" and "token \<noteq> []"
    and "\<And>x. x \<in> set (agent_credentials w) \<Longrightarrow> ac_TokenHash x = sha256Hex token \<Longrightarrow> x = c"
  shows "fst (agent_auth token w) = (if ac_RevokedAt c = None \<and> clock w \<le> ac_ExpiresAt c then Some c else None)"
proof -
  let ?P = "\<lambda>x. ac_TokenHash x = sha256Hex token \<and> ac_RevokedAt x = None"
  show ?thesis
  proof (cases "ac_RevokedAt c = None")
    case True
    then have "\<exists>r \<in> set (agent_credentials w). ?P r" using assms(2,3) by blast
    from first_by_filter_ex [OF this, of ac_AgentID]
    obtain x where x: "first_by ac_AgentID (filter ?P (agent_credentials w)) = Some x" by (rule exE)
    have "x = c" using first_by_filter [OF x] assms(5) [of x] by (elim conjE)
    with x have "first_by ac_AgentID (filter ?P (agent_credentials w)) = Some c" by simp
    then show ?thesis using assms(1,4) True by (simp add: agent_auth_def)
  next
    case False
    have "\<not> ?P x" if "x \<in> set (agent_credentials w)" for x using assms(5) [OF that] False by blast
    then have "first_by ac_AgentID (filter ?P (agent_credentials w)) = None"
      unfolding first_by_filter_None by blast
    then show ?thesis using assms(1,4) False by (simp add: agent_auth_def)
  qed
qed

text \<open>
  C32. Round trip: the token that \<^verbatim>\<open>RegisterAgentWithToken\<close> shows once opens the gateway for exactly the agent it was
  issued to, at every time up to 365 days later, and not after that. Only its hash is stored. The database answers throughout.
\<close>

theorem registered_token_connects:
  assumes "RegisterAgentWithToken body w = (Sends s (a, agent, token), w')"
    and "\<forall>k bs. rand_of w k 32 = Some bs \<longrightarrow> bs \<noteq> []"
    and "\<forall>x \<in> set (agent_credentials w). ac_TokenHash x \<noteq> sha256Hex token"
    and "faults late = []" and "agent_credentials late = agent_credentials w'"
  shows "fst (agent_auth token late) =
    (if clock late \<le> clock w + 365 * 24 * hour then Some (fresh_credential a (sha256Hex token) (clock w)) else None)"
proof -
  obtain i where i: "bind_json (\<lambda>i. ai_Name i \<noteq> []) body = Inr i"
    using assms(1) by (cases "bind_json (\<lambda>i. ai_Name i \<noteq> []) body") (auto simp: RegisterAgentWithToken_def with_input_def)
  obtain a1 w1 where p: "pick_id (ai_ID i) w = (a1, w1)" by fastforce
  obtain ag w2 where c: "agentRepo_Create (input_agent a1 i ''offline'' (clock w1)) w1 = (Inr ag, w2)"
    and st: "store_token a1 ag w2 = (Sends s (a, agent, token), w')"
    using assms(1) i p by (cases "agentRepo_Create (input_agent a1 i ''offline'' (clock w1)) w1" rule: result_cases)
      (auto simp: RegisterAgentWithToken_def with_input_def)
  obtain plain hash w3 where g: "generateToken w2 = (Inr (plain, hash), w3)"
    using st by (cases "generateToken w2" rule: result_cases) (auto simp: store_token_def)
  let ?c = "fresh_credential a1 hash (clock w3)"
  obtain x w4 where k: "agentCredentialRepo_Create ?c w3 = (Inr x, w4)"
    and r: "a1 = a" "plain = token" "w' = log_audit ''AGENT_REGISTERED''
      (''Agent '' @ ag_Name ag @ '' ('' @ a1 @ '') registered with token'') w4"
    using st g by (cases "agentCredentialRepo_Create ?c w3" rule: result_cases) (auto simp: store_token_def)
  note fr = pick_id_frame [OF p] agentRepo_credentials [OF c]
  have tok: "hash = sha256Hex token" "token \<noteq> []" "agent_credentials w3 = agent_credentials w" "clock w3 = clock w"
    using generateToken_ok [OF g] assms(2) fr r by auto
  have "x = ?c" using k by (auto simp: agentCredentialRepo_Create_def db_create_def Let_def auto_time_def fresh_credential_def
        stmt_def split: if_splits list.splits)
  moreover have "agent_credentials w4 = agent_credentials w3 @ [x]"
    using agent_credentials_table.create_rows [OF k [unfolded agentCredentialRepo_Create_def]] by simp
  ultimately have rows: "agent_credentials late = agent_credentials w @ [fresh_credential a (sha256Hex token) (clock w)]"
    using r tok assms(5) by simp
  have "fst (agent_auth token late) = (if ac_RevokedAt (fresh_credential a (sha256Hex token) (clock w)) = None \<and>
      clock late \<le> ac_ExpiresAt (fresh_credential a (sha256Hex token) (clock w))
      then Some (fresh_credential a (sha256Hex token) (clock w)) else None)"
    using assms(3) tok(2) by (intro credentials_with_hash [OF assms(4)]) (auto simp: rows fresh_credential_def)
  then show ?thesis by (simp add: fresh_credential_def token_life_def)
qed

lemma credential_saved:
  assumes "agentCredentialRepo_Update c w = (Inr x, w')"
  shows "(\<exists>y. x = c\<lparr>ac_CreatedAt := y\<rparr>) \<and>
    (agent_credentials w' = map (\<lambda>y. if ac_AgentID y = ac_AgentID c then x else y) (agent_credentials w) \<and>
       (\<exists>y \<in> set (agent_credentials w). ac_AgentID y = ac_AgentID c) \<or>
     agent_credentials w' = agent_credentials w @ [x] \<and> (\<forall>y \<in> set (agent_credentials w). ac_AgentID y \<noteq> ac_AgentID c))"
proof -
  obtain ok w1 where st: "stmt w = (ok, w1)" by fastforce
  have w1: "agent_credentials w1 = agent_credentials w" using agent_credentials_table.stmt_rows [OF st] by simp
  have id: "c = c\<lparr>ac_CreatedAt := ac_CreatedAt c\<rparr>" by simp
  show ?thesis
  proof (cases "\<exists>y \<in> set (agent_credentials w). ac_AgentID y = ac_AgentID c")
    case True
    then have "x = c \<and> agent_credentials w' = map (\<lambda>y. if ac_AgentID y = ac_AgentID c then c else y) (agent_credentials w)"
      using assms by (auto simp: agentCredentialRepo_Update_def db_save_def st Let_def w1 split: if_splits)
    then show ?thesis using True id by blast
  next
    case False
    then show ?thesis
      using assms by (auto simp: agentCredentialRepo_Update_def db_save_def st Let_def w1 split: if_splits)
  qed
qed

text \<open>What a rotation stores.\<close>

lemma RotateToken_rows:
  assumes "RotateToken a w = (Sends s (a', token), w')" and "\<forall>k bs. rand_of w k 32 = Some bs \<longrightarrow> bs \<noteq> []"
  shows "a' = a \<and> token \<noteq> [] \<and> (\<exists>x \<in> set (agent_credentials w'). ac_AgentID x = a) \<and>
    (\<forall>x \<in> set (agent_credentials w'). if ac_AgentID x = a then ac_TokenHash x = sha256Hex token \<and> ac_RevokedAt x = None \<and>
       ac_ExpiresAt x = clock w + token_life else x \<in> set (agent_credentials w))"
proof -
  obtain plain hash w1 where g: "generateToken w = (Inr (plain, hash), w1)"
    using assms(1) by (cases "generateToken w" rule: result_cases) (auto simp: RotateToken_def)
  obtain cred w2 where c: "credential_or_new a w1 = (cred, w2)" by fastforce
  obtain x w3 where u: "agentCredentialRepo_Update (renew hash (clock w2) cred) w2 = (Inr x, w3)"
    and r: "a' = a" "plain = token" "w' = log_audit ''AGENT_TOKEN_ROTATED'' (''Token rotated for agent '' @ a) w3"
    using assms(1) g c by (cases "agentCredentialRepo_Update (renew hash (clock w2) cred) w2" rule: result_cases)
      (auto simp: RotateToken_def)
  obtain q v where q: "agentCredentialRepo_GetByAgentID a w1 = (q, v)" by fastforce
  have "clock (snd (q, v)) = clock w1" unfolding q [symmetric] by (simp add: agentCredentialRepo_GetByAgentID_def)
  then have v: "agent_credentials v = agent_credentials w1" "clock v = clock w1"
    using agent_credentials_table.first_rows [OF q [unfolded agentCredentialRepo_GetByAgentID_def]] by simp_all
  have cr: "ac_AgentID cred = a \<and> w2 = v"
    using c q agent_credentials_table.first_row [of "\<lambda>r. ac_AgentID r = a" w1]
    by (cases q) (auto simp: credential_or_new_def fresh_credential_def agentCredentialRepo_GetByAgentID_def)
  note tok = generateToken_ok [OF g assms(2)]
  let ?new = "renew hash (clock w2) cred"
  have k: "ac_AgentID ?new = a" using cr by (simp add: renew_def)
  note sv = credential_saved [OF u, unfolded k]
  have x: "ac_AgentID x = a \<and> ac_TokenHash x = hash \<and> ac_RevokedAt x = None \<and> ac_ExpiresAt x = clock w2 + token_life"
    using sv cr by (auto simp: renew_def)
  note rows = conjunct2 [OF sv]
  have w': "agent_credentials w' = agent_credentials w3" using r by simp
  have w2: "agent_credentials w2 = agent_credentials w" "clock w2 = clock w" using cr v tok by simp_all
  from rows show ?thesis
    unfolding w' using r tok x w2 by (elim disjE conjE) auto
qed

text \<open>
  C33. A rotation replaces the token: afterwards a token opens the gateway as this agent exactly when its hash is
  that of the new token and 365 days have not passed. The old token is dead, a revocation is lifted. The database answers throughout.
\<close>

theorem rotation_replaces_token:
  assumes "RotateToken a w = (Sends s (a', token), w')"
    and "\<forall>k bs. rand_of w k 32 = Some bs \<longrightarrow> bs \<noteq> []"
    and "\<forall>x \<in> set (agent_credentials w). ac_AgentID x \<noteq> a \<longrightarrow> ac_TokenHash x \<noteq> sha256Hex token"
    and "faults late = []" and "agent_credentials late = agent_credentials w'" and "t \<noteq> []"
  shows "(\<exists>c. fst (agent_auth t late) = Some c \<and> ac_AgentID c = a) \<longleftrightarrow>
    sha256Hex t = sha256Hex token \<and> clock late \<le> clock w + 365 * 24 * hour"
proof -
  note rows = RotateToken_rows [OF assms(1,2)]
  show ?thesis
  proof (intro iffI)
    assume "\<exists>c. fst (agent_auth t late) = Some c \<and> ac_AgentID c = a"
    then obtain c where c: "fst (agent_auth t late) = Some c" "ac_AgentID c = a" by blast
    then show "sha256Hex t = sha256Hex token \<and> clock late \<le> clock w + 365 * 24 * hour"
      using agent_auth_sound [OF c(1)] rows assms(5) by (auto simp: token_life_def)
  next
    assume h: "sha256Hex t = sha256Hex token \<and> clock late \<le> clock w + 365 * 24 * hour"
    let ?P = "\<lambda>x. ac_TokenHash x = sha256Hex t \<and> ac_RevokedAt x = None"
    have "\<exists>x \<in> set (agent_credentials late). ?P x" using rows h assms(5) by fastforce
    from first_by_filter_ex [OF this, of ac_AgentID]
    obtain x where x: "first_by ac_AgentID (filter ?P (agent_credentials late)) = Some x" by (rule exE)
    have m: "x \<in> set (agent_credentials w')" "?P x" using first_by_filter [OF x] assms(5) by simp_all
    have "ac_AgentID x = a"
    proof (rule ccontr)
      assume ne: "ac_AgentID x \<noteq> a"
      then have "x \<in> set (agent_credentials w)" using rows m(1) by fastforce
      then show False using assms(3) ne m(2) h by simp
    qed
    then have "ac_ExpiresAt x = clock w + token_life" using rows m(1) by fastforce
    then have "fst (agent_auth t late) = Some x"
      using x h assms(4,6) by (simp add: agent_auth_def token_life_def)
    with \<open>ac_AgentID x = a\<close> show "\<exists>c. fst (agent_auth t late) = Some c \<and> ac_AgentID c = a" by blast
  qed
qed

section \<open>What the gateway does not look at\<close>

lemma heartbeat_marks_healthy:
  assumes "faults w = []" and "distinct (map ag_ID (agents w))" and "a \<in> ag_ID ` set (agents w)"
  shows "\<exists>x \<in> set (agents (RecordHeartbeat a cpu ram vpns prx w)). ag_ID x = a \<and> ag_Status x = ''healthy''"
proof -
  obtain a0 where a0: "a0 \<in> set (agents w)" "ag_ID a0 = a" using assms(3) by auto
  define w1 where "w1 = w\<lparr>hb_cache := (hb_cache w)(a \<mapsto> \<lparr>ch_AgentID = a, ch_CPUUsage = cpu, ch_RAMUsage = ram,
    ch_VPNCount = vpns, ch_ProxyCount = prx, ch_Timestamp = clock w\<rparr>)\<rparr>"
  define n where "n = beat_agent cpu ram vpns prx (clock w) a0"
  have n: "ag_ID n = a" "ag_Status n = ''healthy''" by (simp_all add: n_def beat_agent_def a0(2))
  have w1: "faults w1 = []" "agents w1 = agents w" "clock w1 = clock w" using assms(1) by (simp_all add: w1_def)
  have g: "agentRepo_GetByID a w1 = (Inr a0, w1)" using get_agent [of w1 a0] assms(2) a0 w1 by simp
  have u: "agents (snd (agentRepo_Update n w1)) = map (\<lambda>x. if ag_ID x = a then n\<lparr>ag_UpdatedAt := clock w\<rparr> else x) (agents w)"
    using agent_saved [of w1 n] assms(3) w1 n(1) by simp
  have r: "agents (RecordHeartbeat a cpu ram vpns prx w) = agents (snd (agentRepo_Update n w1))"
    by (simp add: RecordHeartbeat_def Let_def w1_def [symmetric] g w1(3) n_def [symmetric])
  have "n\<lparr>ag_UpdatedAt := clock w\<rparr> \<in> set (agents (RecordHeartbeat a cpu ram vpns prx w))"
    unfolding r u set_map using a0 by (intro image_eqI [of _ _ a0]) simp_all
  then show ?thesis using n by (intro bexI [of _ "n\<lparr>ag_UpdatedAt := clock w\<rparr>"]) simp_all
qed

lemma log_audit_agents [simp]: "agents (log_audit x d w) = agents w" "faults w = [] \<Longrightarrow> faults (log_audit x d w) = []"
  by (simp_all add: log_audit_def auditLogRepo_Create_def db_create_frame [where get = agents])

lemma mark_offline_agents:
  assumes "faults w = []" and "distinct (map ag_ID (agents w))" and "a \<in> ag_ID ` set (agents w)"
  shows "faults (mark_offline a w) = [] \<and> map ag_ID (agents (mark_offline a w)) = map ag_ID (agents w) \<and>
    agent_credentials (mark_offline a w) = agent_credentials w"
proof -
  obtain a0 where a0: "a0 \<in> set (agents w)" "ag_ID a0 = a" using assms(3) by auto
  have "agentRepo_GetByID a w = (Inr a0, w)" using get_agent [OF assms(1,2) a0(1)] a0(2) by simp
  then show ?thesis
    using agent_saved [OF assms(1), of "a0\<lparr>ag_Status := ''offline'', ag_UpdatedAt := clock w\<rparr>"] assms(1,3) a0
    by (simp add: mark_offline_def)
qed

text \<open>
  C34. A revoked agent is not disconnected. Take an agent with an open connection. After \<^verbatim>\<open>RevokeAgent\<close> has answered
  that the agent is revoked and disconnected (while the database answers and agent ids are unique), no token opens the
  gateway for it and no channel leads to it; but that very connection is still open, so the gateway goes on reading its
  messages, and the next heartbeat on it, a step of the gateway, makes the agent healthy again.
\<close>

theorem revoked_agent_stays:
  assumes "faults (cb_world (gw_bus g)) = []" and "distinct (map ag_ID (agents (cb_world (gw_bus g))))"
    and "c \<in> set (gw_conns g)" and "gc_agent c \<in> ag_ID ` set (agents (cb_world (gw_bus g)))"
    and "RevokeAgent (gc_agent c) g = (Sends s text, g')" and "msg_str ''type'' m = ''heartbeat''"
  shows "cb_wsRegistry (gw_bus g') (gc_agent c) = None \<and>
    (\<forall>t cred. fst (agent_auth t (cb_world (gw_bus g'))) = Some cred \<longrightarrow> ac_AgentID cred \<noteq> gc_agent c) \<and>
    c \<in> set (gw_conns g') \<and>
    (let g2 = g'\<lparr>gw_bus := agent_message (gc_agent c) (Some (JObj m)) (gw_bus g')\<rparr> in
      gw_step g' g2 \<and> c \<in> set (gw_conns g2) \<and>
      (\<exists>x \<in> set (agents (cb_world (gw_bus g2))). ag_ID x = gc_agent c \<and> ag_Status x = ''healthy''))"
proof -
  let ?w = "cb_world (gw_bus g)" and ?a = "gc_agent c"
  obtain cred where g: "agentCredentialRepo_GetByAgentID ?a ?w = (Inr cred, ?w)"
    using assms(1,5) by (cases "agentCredentialRepo_GetByAgentID ?a ?w" rule: result_cases)
      (auto simp: RevokeAgent_def Let_def agentCredentialRepo_GetByAgentID_def split: option.splits)
  have cred: "ac_AgentID cred = ?a"
    using agent_credentials_table.first_row [OF g [unfolded agentCredentialRepo_GetByAgentID_def]] by simp
  let ?r = "cred\<lparr>ac_RevokedAt := Some (clock ?w)\<rparr>"
  obtain x w2 where u: "agentCredentialRepo_Update ?r ?w = (Inr x, w2)"
    and g': "g' = g\<lparr>gw_bus := UnregisterAgentConnection ?a ((gw_bus g)\<lparr>cb_world :=
      log_audit ''AGENT_REVOKED'' (''Agent '' @ ?a @ '' token revoked'') (mark_offline ?a w2)\<rparr>)\<rparr>"
    using assms(5) g by (cases "agentCredentialRepo_Update ?r ?w" rule: result_cases) (auto simp: RevokeAgent_def Let_def)
  have "agents (snd (agentCredentialRepo_Update ?r ?w)) = agents ?w"
    "faults (snd (agentCredentialRepo_Update ?r ?w)) = []"
    using assms(1) by (simp_all add: agentCredentialRepo_Update_def db_save_frame [where get = agents])
  then have w2: "faults w2 = []" "agents w2 = agents ?w" unfolding u by simp_all
  have rev: "ac_RevokedAt y \<noteq> None" if y: "y \<in> set (agent_credentials w2)" "ac_AgentID y = ?a" for y
  proof -
    have k: "ac_AgentID ?r = ?a" using cred by simp
    note sv = credential_saved [OF u, unfolded k]
    obtain z where z: "x = ?r\<lparr>ac_CreatedAt := z\<rparr>" using sv by blast
    have "y = x"
    proof (cases "\<exists>y \<in> set (agent_credentials ?w). ac_AgentID y = ?a")
      case True
      then have "agent_credentials w2 = map (\<lambda>y. if ac_AgentID y = ?a then x else y) (agent_credentials ?w)"
        using sv by blast
      then show ?thesis using y by (auto split: if_splits)
    next
      case False
      then have "agent_credentials w2 = agent_credentials ?w @ [x]" using sv by blast
      then show ?thesis using y False by auto
    qed
    then show ?thesis by (simp add: z)
  qed
  note off = mark_offline_agents [of w2 ?a, unfolded w2(2), OF w2(1) assms(2,4)]
  define v where "v = cb_world (gw_bus g')"
  have v: "faults v = []" "map ag_ID (agents v) = map ag_ID (agents ?w)" "agent_credentials v = agent_credentials w2"
    using off by (simp_all add: v_def g' UnregisterAgentConnection_def)
  have "distinct (map ag_ID (agents v))" "?a \<in> set (map ag_ID (agents v))" unfolding v(2) using assms(2,4) by simp_all
  then have hb: "\<exists>x \<in> set (agents (heartbeat_msg ?a m v)). ag_ID x = ?a \<and> ag_Status x = ''healthy''"
    unfolding heartbeat_msg_def by (intro heartbeat_marks_healthy v(1)) simp_all
  have auth: "ac_AgentID k \<noteq> ?a" if k: "fst (agent_auth t v) = Some k" for t k
  proof
    assume "ac_AgentID k = ?a"
    moreover have "k \<in> set (agent_credentials w2)" "ac_RevokedAt k = None" using agent_auth_sound [OF k] v(3) by simp_all
    ultimately show False using rev by blast
  qed
  have reg: "cb_wsRegistry (gw_bus g') ?a = None" by (simp add: g' UnregisterAgentConnection_def)
  have open': "c \<in> set (gw_conns g')" using assms(3) by (simp add: g')
  have "cb_world (agent_message ?a (Some (JObj m)) (gw_bus g')) = heartbeat_msg ?a m v"
    using assms(6) by (simp add: agent_message_def agent_fields_def v_def)
  then show ?thesis
    using reg auth hb open' gw_step.message [OF open', of "Some (JObj m)"] by (simp add: Let_def v_def [symmetric])
qed

text \<open>
  A result is believed whoever sends it: on the connection of any agent, a message that names a command of another
  agent completes that command with the text it carries.
\<close>

theorem foreign_result_believed:
  assumes "faults (cb_world b) = []" and "distinct (map cmd_ID (commands b))" and "cmd \<in> set (commands b)"
    and "\<not> terminal (cmd_Status cmd)"
    and "msg_str ''type'' m = ''command_result''" "msg_str ''command_id'' m = cmd_ID cmd" "msg_str ''status'' m = ''completed''"
  shows "commands (agent_message anyone (Some (JObj m)) b) = map (\<lambda>x. if cmd_ID x = cmd_ID cmd
    then cmd\<lparr>cmd_Status := ''completed'', cmd_CompletedAt := Some (clock (cb_world b)), cmd_Result := msg_str ''result'' m\<rparr>
    else x) (commands b)"
proof -
  let ?c = "cmd\<lparr>cmd_Status := ''completed'', cmd_CompletedAt := Some (clock (cb_world b)), cmd_Result := msg_str ''result'' m\<rparr>"
  have g: "agentCommandRepo_GetByID (cmd_ID cmd) (cb_world b) = (Inr cmd, cb_world b)"
    using assms(1,2,3) by (simp add: agentCommandRepo_GetByID_def first_by_unique)
  have "snd (HandleResult (cmd_ID cmd) ''completed'' (msg_str ''result'' m) (msg_str ''last_error'' m) b) =
      b\<lparr>cb_world := publish_cmd CommandExecuted ?c (save_cmd ?c (cb_world b))\<rparr>"
    using assms(4) by (simp add: HandleResult_def g apply_result_def Let_def)
  then show ?thesis
    using save_cmd_ok [OF assms(1), of ?c] assms(3,5,6,7)
    by (simp add: agent_message_def agent_fields_def Let_def)
qed

section \<open>Examples\<close>

definition token_world :: world where
  "token_world = start_world\<lparr>agents := [demo_agent ''a1'' ''offline'' 0],
     agent_credentials := [fresh_credential ''a1'' (sha256Hex ''tok'') (1000 * hour)]\<rparr>"

lemma token_world_auth: "agent_auth ''tok'' token_world = (Some (fresh_credential ''a1'' (sha256Hex ''tok'') (1000 * hour)), token_world)"
  by (simp add: agent_auth_def token_world_def fresh_credential_def token_life_def time_units)

theorem agent_channels_authenticated_witness:
  "\<exists>c \<in> set (gw_conns (gw_connect ''tok'' [] (NewGateway token_world))). \<exists>g0 cred. gw_run (NewGateway token_world) g0 \<and>
    gw_run g0 (gw_connect ''tok'' [] (NewGateway token_world)) \<and> cred \<in> set (agent_credentials (cb_world (gw_bus g0))) \<and>
    ac_AgentID cred = ''a1'' \<and> ac_TokenHash cred = sha256Hex (gc_token c) \<and>
    ac_RevokedAt cred = None \<and> clock (cb_world (gw_bus g0)) \<le> ac_ExpiresAt cred"
proof (rule agent_channels_authenticated)
  show "gw_run (NewGateway token_world) (gw_connect ''tok'' [] (NewGateway token_world))"
    by (rule gw_run.step [OF gw_run.start gw_step.connects])
  show "cb_wsRegistry (gw_bus (gw_connect ''tok'' [] (NewGateway token_world))) ''a1'' = Some send_chan"
    by (simp add: gw_connect_def agent_connect_def request_token_def NewGateway_def NewCommandBus_def token_world_auth
        agent_open_def RegisterAgentConnection_def start_task_def Let_def fresh_credential_def)
qed

definition demo_input :: agent_input where
  "demo_input = \<lparr>ai_ID = ''a1'', ai_Name = ''edge'', ai_Hostname = [], ai_IPAddress = [], ai_OS = [], ai_Version = []\<rparr>"

theorem registered_token_connects_witness:
  "\<exists>agent token w'. RegisterAgentWithToken (Inr demo_input) start_world = (Sends 201 (''a1'', agent, token), w') \<and>
    fst (agent_auth token (w'\<lparr>clock := 1001 * hour\<rparr>)) = Some (fresh_credential ''a1'' (sha256Hex token) (1000 * hour))"
proof -
  have "\<exists>agent token w'. RegisterAgentWithToken (Inr demo_input) start_world = (Sends 201 (''a1'', agent, token), w') \<and> faults w' = []"
    by (simp add: RegisterAgentWithToken_def demo_input_def pick_id_def agentRepo_Create_def db_create_ok Let_def store_token_def
        generateToken_def randomHex_def rand_read_def agentCredentialRepo_Create_def input_agent_def fresh_credential_def)
  then obtain agent token w' where r: "RegisterAgentWithToken (Inr demo_input) start_world = (Sends 201 (''a1'', agent, token), w')"
    and f: "faults w' = []" by blast
  have "fst (agent_auth token (w'\<lparr>clock := 1001 * hour\<rparr>)) = Some (fresh_credential ''a1'' (sha256Hex token) (1000 * hour))"
    using registered_token_connects [OF r, of "w'\<lparr>clock := 1001 * hour\<rparr>"] f by (simp add: time_units)
  with r show ?thesis by blast
qed

theorem rotation_replaces_token_witness:
  "\<exists>token w'. RotateToken ''a1'' token_world = (Sends 200 (''a1'', token), w') \<and>
    (\<exists>c. fst (agent_auth token w') = Some c \<and> ac_AgentID c = ''a1'')"
proof -
  have "\<exists>token w'. RotateToken ''a1'' token_world = (Sends 200 (''a1'', token), w') \<and> faults w' = [] \<and>
      token = hex_encode (replicate 32 0) \<and> clock w' = 1000 * hour"
    by (simp add: RotateToken_def token_world_def credential_or_new_def agentCredentialRepo_GetByAgentID_def Let_def renew_def
        generateToken_def randomHex_def rand_read_def agentCredentialRepo_Update_def db_save_def fresh_credential_def)
  then obtain token w' where r: "RotateToken ''a1'' token_world = (Sends 200 (''a1'', token), w')" "faults w' = []"
    "token = hex_encode (replicate 32 0)" "clock w' = 1000 * hour" by blast
  have "length token = 64" by (simp add: r(3))
  then have ne: "token \<noteq> []" by auto
  have "\<exists>c. fst (agent_auth token w') = Some c \<and> ac_AgentID c = ''a1''"
    using rotation_replaces_token [OF r(1), of w' token] r(2,4) ne by (simp add: token_world_def fresh_credential_def time_units)
  with r show ?thesis by blast
qed

text \<open>The agent connects with its token and is then revoked.\<close>

definition token_conn :: agent_conn where
  "token_conn = \<lparr>gc_agent = ''a1'', gc_token = ''tok'', gc_cred = fresh_credential ''a1'' (sha256Hex ''tok'') (1000 * hour),
     gc_opened = 1000 * hour\<rparr>"

lemma token_world_opened:
  "faults (cb_world (agent_open ''a1'' (NewCommandBus token_world))) = []"
  "map ag_ID (agents (cb_world (agent_open ''a1'' (NewCommandBus token_world)))) = [''a1'']"
  "agent_credentials (cb_world (agent_open ''a1'' (NewCommandBus token_world))) = agent_credentials token_world"
  by (simp_all add: agent_open_def RegisterAgentConnection_def start_task_def Let_def NewCommandBus_def change_agent_def
      token_world_def demo_agent_def db_save_def publish_def Publish_def)

lemma token_connected:
  "gw_connect ''tok'' [] (NewGateway token_world) =
    \<lparr>gw_bus = agent_open ''a1'' (NewCommandBus token_world), gw_conns = [token_conn]\<rparr>"
proof -
  have k: "ac_AgentID (fresh_credential ''a1'' (sha256Hex ''tok'') (1000 * hour)) = ''a1''" by (simp add: fresh_credential_def)
  have "agent_connect ''tok'' [] (NewCommandBus token_world) =
      (Some (fresh_credential ''a1'' (sha256Hex ''tok'') (1000 * hour)), agent_open ''a1'' (NewCommandBus token_world))"
    by (simp add: agent_connect_def request_token_def NewCommandBus_def token_world_auth k)
  moreover have "clock token_world = 1000 * hour" by (simp add: token_world_def)
  ultimately show ?thesis
    by (simp add: gw_connect_def NewGateway_def token_conn_def request_token_def k) (simp add: NewCommandBus_def)
qed

theorem revoked_agent_stays_witness:
  "let g = gw_connect ''tok'' [] (NewGateway token_world) in
    \<exists>g'. RevokeAgent ''a1'' g = (Sends 200 ''agent revoked and disconnected'', g') \<and>
      gw_conns g = [token_conn] \<and> gw_conns g' = [token_conn] \<and>
      (\<exists>g2. gw_step g' g2 \<and> (\<exists>x \<in> set (agents (cb_world (gw_bus g2))). ag_ID x = ''a1'' \<and> ag_Status x = ''healthy''))"
proof -
  let ?b = "agent_open ''a1'' (NewCommandBus token_world)"
  let ?g = "\<lparr>gw_bus = ?b, gw_conns = [token_conn]\<rparr>"
  have "\<exists>g'. RevokeAgent ''a1'' ?g = (Sends 200 ''agent revoked and disconnected'', g')"
    using token_world_opened(1,3)
    by (simp add: RevokeAgent_def agentCredentialRepo_GetByAgentID_def token_world_def fresh_credential_def
        agentCredentialRepo_Update_def db_save_def Let_def)
  then obtain g' where r: "RevokeAgent ''a1'' ?g = (Sends 200 ''agent revoked and disconnected'', g')" by blast
  have a: "gc_agent token_conn = ''a1''" by (simp add: token_conn_def)
  have "''a1'' \<in> set (map ag_ID (agents (cb_world ?b)))" by (simp only: token_world_opened(2)) simp
  then have i: "gc_agent token_conn \<in> ag_ID ` set (agents (cb_world (gw_bus ?g)))" by (simp add: a)
  have m: "msg_str ''type'' [(''type'', json.JStr ''heartbeat'')] = ''heartbeat''" by (simp add: msg_str_def msg_value_def)
  have d: "distinct (map ag_ID (agents (cb_world (gw_bus ?g))))" "faults (cb_world (gw_bus ?g)) = []"
    using token_world_opened(1,2) by simp_all
  have c: "token_conn \<in> set (gw_conns ?g)" by simp
  have r': "RevokeAgent (gc_agent token_conn) ?g = (Sends 200 ''agent revoked and disconnected'', g')"
    using r by (simp only: a)
  have g': "gw_conns g' = [token_conn]" using RevokeAgent_channels(2) [of "''a1''" ?g] by (simp add: r)
  have "\<exists>g2. gw_step g' g2 \<and> (\<exists>x \<in> set (agents (cb_world (gw_bus g2))). ag_ID x = ''a1'' \<and> ag_Status x = ''healthy'')"
    using revoked_agent_stays [OF d(2,1) c i r' m, unfolded a Let_def] by blast
  then show ?thesis using r g' unfolding Let_def token_connected by simp
qed

definition stolen_result :: "(string \<times> json) list" where
  "stolen_result = [(''type'', json.JStr ''command_result''), (''command_id'', json.JStr ''c1''), (''status'', json.JStr ''completed''),
     (''result'', json.JStr ''forged'')]"

theorem foreign_result_believed_witness:
  "map cmd_AgentID (commands (NewCommandBus (start_world\<lparr>agent_commands := [demo_cmd]\<rparr>))) = [''a''] \<and>
    map cmd_Result (commands (agent_message ''other'' (Some (JObj stolen_result))
      (NewCommandBus (start_world\<lparr>agent_commands := [demo_cmd]\<rparr>)))) = [''forged'']"
proof -
  have m: "msg_str ''type'' stolen_result = ''command_result''" "msg_str ''command_id'' stolen_result = ''c1''"
    "msg_str ''status'' stolen_result = ''completed''" "msg_str ''result'' stolen_result = ''forged''"
    by (simp_all add: stolen_result_def msg_str_def msg_value_def)
  have d: "cmd_ID demo_cmd = ''c1''" "cmd_Status demo_cmd = []" "cmd_AgentID demo_cmd = ''a''" by (simp_all add: demo_cmd_def)
  show ?thesis
    using foreign_result_believed [of "NewCommandBus (start_world\<lparr>agent_commands := [demo_cmd]\<rparr>)" demo_cmd stolen_result "''other''"]
    by (simp add: m d NewCommandBus_def terminal_def)
qed

end
