(* ===== verification/RemoteAgentFacts.thy ===== *)
theory RemoteAgentFacts imports RemoteAgent AgentGatewayFacts begin

text \<open>
  The remote agent against the server: its figures and results arrive as the gateway reads them, a dispatched command
  ends as what the agent did, its ports are its own; and what does not arrive, the payload of a command.
\<close>

section \<open>Documents the gateway reads\<close>

lemma agent_token_presented: "t \<noteq> [] \<Longrightarrow> request_token [] (''Bearer '' @ t) = t"
  by (simp add: request_token_def)

lemma heartbeat_arrives:
  "agent_message a (Some (heartbeat_doc env s)) b = b\<lparr>cb_world := RecordHeartbeat a (first_or 0 (ae_cpu env))
     (reading (ae_mem env)) 0 (int (length (proxyPorts env s))) (cb_world b)\<rparr>"
  by (simp add: agent_message_def agent_fields_def heartbeat_doc_def sampleMetrics_def heartbeat_msg_def msg_str_def
      msg_num_def msg_int_def msg_value_def truncate_real_def)

lemma state_doc_ignored: "agent_message a (Some (state_doc env s)) b = b"
  by (simp add: agent_message_def agent_fields_def state_doc_def msg_str_def msg_value_def)

lemma result_arrives:
  "agent_message a (Some (result_doc now i status res err)) b = snd (HandleResult i status res err b)"
  by (simp add: agent_message_def agent_fields_def result_doc_def msg_str_def msg_value_def)

section \<open>Commands from the wire\<close>

definition wire_command :: "CommandMsg \<Rightarrow> CommandMessage" where
  "wire_command m = \<lparr>co_Type = ''command'', co_CommandID = cm_command_id m, co_CommandType = cm_command_type m,
     co_Payload = Some (json.JStr (cm_payload m)), co_TimeoutSeconds = cm_timeout_seconds m,
     co_IdempotencyKey = cm_idempotency_key m\<rparr>"

definition command_keys :: "CommandMsg \<Rightarrow> (string \<times> json) list" where
  "command_keys m =
     [(''command_id'', json.JStr (cm_command_id m)), (''command_type'', json.JStr (cm_command_type m)),
      (''idempotency_key'', json.JStr (cm_idempotency_key m)), (''payload'', json.JStr (cm_payload m)),
      (''timeout_seconds'', JNum (of_int (cm_timeout_seconds m))), (''type'', json.JStr ''command'')]"

lemma lower_keys:
  "map to_lower [''command_id'', ''command_type'', ''idempotency_key'', ''payload'', ''timeout_seconds'', ''type''] =
    [''command_id'', ''command_type'', ''idempotency_key'', ''payload'', ''timeout_seconds'', ''type'']"
  by code_simp

lemma command_values:
  "field_values ''type'' (command_keys m) = [json.JStr ''command'']"
  "field_values ''command_id'' (command_keys m) = [json.JStr (cm_command_id m)]"
  "field_values ''command_type'' (command_keys m) = [json.JStr (cm_command_type m)]"
  "field_values ''idempotency_key'' (command_keys m) = [json.JStr (cm_idempotency_key m)]"
  "field_values ''payload'' (command_keys m) = [json.JStr (cm_payload m)]"
  "field_values ''timeout_seconds'' (command_keys m) = [JNum (of_int (cm_timeout_seconds m))]"
  using lower_keys by (simp_all add: field_values_def command_keys_def del: to_lower_simps)

lemma command_fields_wire:
  "command_fields (command_keys m) =
     (if wrap64 (cm_timeout_seconds m) = cm_timeout_seconds m then Some (wire_command m) else None)"
  by (simp add: command_fields_def str_fields_def str_field_def command_values raw_field_def wire_command_def)

lemma decode_wire:
  "decode_command (Some (command_doc m)) =
     (if wrap64 (cm_timeout_seconds m) = cm_timeout_seconds m then Some (wire_command m) else None)"
proof -
  have "command_doc m = JObj (command_keys m)" by (simp add: command_doc_def command_keys_def)
  then show ?thesis by (simp add: decode_command_def json_document_def command_fields_wire)
qed

lemma string_payload [simp]:
  "unmarshal_int n (Some (json.JStr p)) = (0, False)" "unmarshal_str n (Some (json.JStr p)) = ([], False)"
  by (simp_all add: unmarshal_int_def unmarshal_str_def payload_values_def)

lemma string_port [simp]: "portFromPayload (Some (json.JStr p)) = Inl (ErrMsg ''json'')"
  by (simp add: portFromPayload_def)

lemma sendJSON_simps [simp]:
  "ra_proxies (snd (sendJSON env v s)) = ra_proxies s" "ra_cfg (snd (sendJSON env v s)) = ra_cfg s"
  "ra_runs (snd (sendJSON env v s)) = ra_runs s"
  "ae_socket env \<Longrightarrow> ra_sent (snd (sendJSON env v s)) = ra_sent s @ [v]"
  by (simp_all add: sendJSON_def)

lemma result_simps [simp]:
  "ra_proxies (sendCommandResult env i st r e s) = ra_proxies s" "ra_cfg (sendCommandResult env i st r e s) = ra_cfg s"
  "ae_socket env \<Longrightarrow> ra_sent (sendCommandResult env i st r e s) = ra_sent s @ [result_doc (ae_now env) i st r e]"
  by (simp_all add: sendCommandResult_def)

lemma state_sync_simps [simp]:
  "ra_proxies (sendStateSync env s) = ra_proxies s" "ra_cfg (sendStateSync env s) = ra_cfg s"
  "ae_socket env \<Longrightarrow> ra_sent (sendStateSync env s) = ra_sent s @ [state_doc env s]"
  by (simp_all add: sendStateSync_def)

lemma listen_error_cong: "ra_proxies s = ra_proxies s' \<Longrightarrow> listen_error env p s = listen_error env p s'"
  by (simp add: listen_error_def)

lemma next_free_cong:
  "ra_proxies s = ra_proxies s' \<Longrightarrow> ra_cfg s = ra_cfg s' \<Longrightarrow> nextFreePortLocked s = nextFreePortLocked s'"
  by (simp add: nextFreePortLocked_def)

text \<open>The operations on proxies say nothing on the socket.\<close>

lemma proxy_ops_sent [simp]:
  "ra_sent (snd (createProxy env p s)) = ra_sent s" "ra_sent (snd (deleteProxy p s)) = ra_sent s"
  "ra_sent (snd (restartProxy env p s)) = ra_sent s" "ra_sent (snd (runExpressVPN env d args s)) = ra_sent s"
proof -
  show c: "ra_sent (snd (createProxy env p s)) = ra_sent s" for s
    by (simp add: createProxy_def Let_def split: option.split)
  show d: "ra_sent (snd (deleteProxy p s)) = ra_sent s" by (simp add: deleteProxy_def split: sum.split)
  show "ra_sent (snd (restartProxy env p s)) = ra_sent s" by (simp add: restartProxy_def c d)
  show "ra_sent (snd (runExpressVPN env d args s)) = ra_sent s"
    by (simp add: runExpressVPN_def split: option.split prod.split)
qed

lemma run_command_sent:
  assumes "ae_socket env" and "run_command env cmd s = (r, s')"
  shows "ra_sent s' = ra_sent s \<or> (\<exists>t. ra_sent s' = ra_sent s @ [state_doc env t])"
proof -
  have "ra_sent (snd (run_command env cmd s)) = ra_sent s \<or>
      ra_sent (snd (run_command env cmd s)) = ra_sent s @ [state_doc env s]"
    using assms(1) by (simp add: run_command_def executeVPNCommand_def)
  then show ?thesis using assms(2) by auto
qed

lemma read_wire:
  "read_message env (Some (command_doc m)) s =
     (if wrap64 (cm_timeout_seconds m) = cm_timeout_seconds m then executeCommand env (wire_command m) s else s)"
  by (simp add: read_message_def decode_wire wire_command_def)

section \<open>The payload does not arrive\<close>

lemma run_command_payload:
  "run_command env (wire_command (m\<lparr>cm_payload := p\<rparr>)) s = run_command env (wire_command m) s"
  by (simp add: run_command_def wire_command_def executeVPNCommand_def command_deadline_def connect_args_def createProxy_def
      deleteProxy_def restartProxy_def Let_def)

lemma create_first_free:
  "createProxy env (Some (json.JStr p)) s =
     (let port = nextFreePortLocked s in
      if port = 0 then (Inl (ErrMsg ''no free proxy port available''), s)
      else case listen_error env port s of Some e \<Rightarrow> (Inl e, s)
        | None \<Rightarrow> (Inr (proxy_status port ''running''), s\<lparr>ra_proxies := ra_proxies s @ [port]\<rparr>))"
  by (simp add: createProxy_def Let_def)

lemma delete_wire: "deleteProxy (Some (json.JStr p)) s = (Inl (ErrMsg ''json''), s)"
  by (simp add: deleteProxy_def)

lemma executed_proxies:
  "ra_proxies (executeCommand env cmd s) =
     ra_proxies (snd (run_command env cmd (sendCommandResult env (co_CommandID cmd) ''executing'' [] [] s)))"
  by (simp add: executeCommand_def split: prod.split sum.split)

text \<open>
  C38. Functional: the agent never sees the payload of a command. The bus sends it as a JSON string, which no struct
  of the agent decodes: whatever the payload, the agent does and answers the same. It never closes a proxy for
  \<^verbatim>\<open>DELETE_PROXY\<close>, which always fails, and for \<^verbatim>\<open>RESTART_PROXY\<close> as for \<^verbatim>\<open>CREATE_PROXY\<close> it keeps every proxy
  and opens a further one on the first port of its range it does not use.
\<close>

theorem payload_lost_on_wire:
  assumes "wrap64 (cm_timeout_seconds m) = cm_timeout_seconds m" and "ae_socket env"
    and "s' = read_message env (Some (command_doc m)) s"
  shows "read_message env (Some (command_doc (m\<lparr>cm_payload := p\<rparr>))) s = s' \<and>
    (cm_command_type m = ''DELETE_PROXY'' \<longrightarrow> ra_proxies s' = ra_proxies s \<and>
       ra_sent s' = ra_sent s @ [result_doc (ae_now env) (cm_command_id m) ''executing'' [] [],
         result_doc (ae_now env) (cm_command_id m) ''failed'' [] ''json'']) \<and>
    (cm_command_type m \<in> {''CREATE_PROXY'', ''RESTART_PROXY''} \<longrightarrow>
       ra_proxies s' = (if nextFreePortLocked s = 0 \<or> listen_error env (nextFreePortLocked s) s \<noteq> None then ra_proxies s
         else ra_proxies s @ [nextFreePortLocked s]))"
proof -
  let ?c = "wire_command m"
  let ?t = "sendCommandResult env (co_CommandID ?c) ''executing'' [] [] s"
  have c: "co_CommandID ?c = cm_command_id m" "co_CommandType ?c = cm_command_type m"
    "co_Payload ?c = Some (json.JStr (cm_payload m))" by (simp_all add: wire_command_def)
  have s': "s' = executeCommand env ?c s" using assms(1,3) by (simp add: read_wire)
  have ids: "co_CommandID (wire_command (m\<lparr>cm_payload := p\<rparr>)) = co_CommandID ?c" by (simp add: wire_command_def)
  have same: "read_message env (Some (command_doc (m\<lparr>cm_payload := p\<rparr>))) s = s'"
    using assms(1) by (simp add: s' read_wire) (simp only: executeCommand_def run_command_payload ids)
  have del: "s' = sendCommandResult env (cm_command_id m) ''failed'' [] ''json'' ?t"
    if "cm_command_type m = ''DELETE_PROXY''"
    using that by (simp add: s' executeCommand_def run_command_def c delete_wire)
  have mk: "ra_proxies s' = ra_proxies (snd (createProxy env (Some (json.JStr (cm_payload m))) ?t))"
    if "cm_command_type m \<in> {''CREATE_PROXY'', ''RESTART_PROXY''}"
    using that by (auto simp: s' executed_proxies run_command_def c restartProxy_def delete_wire)
  have nf: "nextFreePortLocked ?t = nextFreePortLocked s" "listen_error env q ?t = listen_error env q s" for q
    by (simp_all add: nextFreePortLocked_def listen_error_def)
  have cr: "ra_proxies (snd (createProxy env (Some (json.JStr (cm_payload m))) ?t)) =
      (if nextFreePortLocked s = 0 \<or> listen_error env (nextFreePortLocked s) s \<noteq> None then ra_proxies s
       else ra_proxies s @ [nextFreePortLocked s])"
    by (simp add: create_first_free nf Let_def split: option.split)
  show ?thesis using same del mk cr assms(2) by (simp add: c)
qed

section \<open>What becomes of a dispatched command\<close>

text \<open>The row of a command after a result, when the command is not finished.\<close>

definition updated_row :: "time \<Rightarrow> string \<Rightarrow> string \<Rightarrow> string \<Rightarrow> AgentCommand \<Rightarrow> AgentCommand" where
  "updated_row now status res err c =
     (if status = ''executing'' then c\<lparr>cmd_Status := ''executing'', cmd_ExecutedAt := Some now\<rparr>
      else if status = ''completed'' then c\<lparr>cmd_Status := ''completed'', cmd_CompletedAt := Some now, cmd_Result := res\<rparr>
      else c\<lparr>cmd_LastError := err, cmd_Status := (if cmd_Attempts c < cmd_MaxAttempts c then ''pending'' else ''dead_letter'')\<rparr>)"

lemma known_command:
  assumes "faults (cb_world b) = []" and "distinct (map cmd_ID (commands b))" and "c \<in> set (commands b)"
  shows "HandleResult (cmd_ID c) status res err b = apply_result c status res err b"
proof -
  have "agentCommandRepo_GetByID (cmd_ID c) (cb_world b) = (Inr c, cb_world b)"
    using assms by (simp add: agentCommandRepo_GetByID_def first_by_unique)
  then show ?thesis by (simp add: HandleResult_def)
qed

lemma applied_cases:
  assumes "\<not> terminal (cmd_Status c)"
  shows "snd (apply_result c ''executing'' res err b) =
      (let n = updated_row (clock (cb_world b)) ''executing'' res err c
       in b\<lparr>cb_world := publish_cmd CommandExecuting n (save_cmd n (cb_world b))\<rparr>)" (is ?ex)
    and "snd (apply_result c ''completed'' res err b) =
      (let n = updated_row (clock (cb_world b)) ''completed'' res err c
       in b\<lparr>cb_world := publish_cmd CommandExecuted n (save_cmd n (cb_world b))\<rparr>)" (is ?co)
    and "snd (apply_result c ''failed'' res err b) =
      (let n = updated_row (clock (cb_world b)) ''failed'' res err c
       in if cmd_Attempts c < cmd_MaxAttempts c
          then start_task (3 * second) (Attempt n) (b\<lparr>cb_world := save_cmd n (cb_world b)\<rparr>)
          else b\<lparr>cb_world := publish_cmd ProxyFailed n (save_cmd n (cb_world b))\<rparr>)" (is ?fa)
proof -
  show ?ex using assms by (simp add: apply_result_def updated_row_def Let_def)
  show ?co using assms by (simp add: apply_result_def updated_row_def Let_def)
  show ?fa using assms
    by (cases "cmd_Attempts c < cmd_MaxAttempts c") (simp_all add: apply_result_def handle_failed_def updated_row_def Let_def)
qed

lemma start_task_simps [simp]:
  "cb_world (start_task d t b) = cb_world b" "cb_tasks (start_task d t b) = cb_tasks b @ [(clock (cb_world b) + d, t)]"
  by (simp_all add: start_task_def)

lemma HandleResult_row:
  assumes "faults (cb_world b) = []" and "distinct (map cmd_ID (commands b))" and "c \<in> set (commands b)"
    and "\<not> terminal (cmd_Status c)" and "status \<in> {''executing'', ''completed'', ''failed''}"
    and "b' = snd (HandleResult (cmd_ID c) status res err b)" and "n = updated_row (clock (cb_world b)) status res err c"
  shows "commands b' = map (\<lambda>x. if cmd_ID x = cmd_ID c then n else x) (commands b) \<and>
    faults (cb_world b') = [] \<and> clock (cb_world b') = clock (cb_world b) \<and>
    (status = ''failed'' \<and> cmd_Attempts c < cmd_MaxAttempts c \<longrightarrow>
      (clock (cb_world b) + 3 * second, Attempt n) \<in> set (cb_tasks b'))"
proof -
  have n: "cmd_ID n = cmd_ID c" by (simp add: assms(7) updated_row_def)
  have "cmd_ID n \<in> cmd_ID ` set (commands b)" using n assms(3) by simp
  note sv = save_cmd_ok [OF assms(1) this, unfolded n]
  consider "status = ''executing''" | "status = ''completed''" | "status = ''failed''" using assms(5) by auto
  then show ?thesis
    using sv assms(1,7)
    by cases (simp_all add: assms(6) known_command [OF assms(1-3)] applied_cases [OF assms(4)] Let_def)
qed

lemma results_heard:
  assumes "ae_socket env" and "ra_sent s1 = ra_sent s @ v # vs" and "vs = [] \<or> (\<exists>t. vs = [state_doc env t])"
  shows "foldl (\<lambda>b v. agent_message a (Some v) b) b
      (drop (length (ra_sent s)) (ra_sent (sendCommandResult env i status res err s1))) =
    agent_message a (Some (result_doc (ae_now env) i status res err)) (agent_message a (Some v) b)"
  using assms by (auto simp: state_doc_ignored)

lemma executed_messages:
  assumes "ae_socket env" and "run_command env cmd (sendCommandResult env (co_CommandID cmd) ''executing'' [] [] s) = (r, s1)"
  shows "foldl (\<lambda>b v. agent_message a (Some v) b) b (drop (length (ra_sent s)) (ra_sent (executeCommand env cmd s))) =
    (let b1 = snd (HandleResult (co_CommandID cmd) ''executing'' [] [] b)
     in case r of Inr res \<Rightarrow> snd (HandleResult (co_CommandID cmd) ''completed'' res [] b1)
        | Inl e \<Rightarrow> snd (HandleResult (co_CommandID cmd) ''failed'' [] (err_text e) b1))"
proof -
  let ?v = "result_doc (ae_now env) (co_CommandID cmd) ''executing'' [] []"
  obtain vs where "ra_sent s1 = ra_sent s @ ?v # vs" "vs = [] \<or> (\<exists>t. vs = [state_doc env t])"
    using run_command_sent [OF assms] assms(1) by auto
  note heard = results_heard [OF assms(1) this]
  show ?thesis
    by (cases r) (simp_all only: executeCommand_def assms(2) prod.case sum.case heard Let_def result_arrives)
qed

lemma mapped_row:
  assumes "c \<in> set xs" and "cmd_ID n = cmd_ID c"
  shows "n \<in> set (map (\<lambda>x. if cmd_ID x = cmd_ID c then n else x) xs)"
    and "map cmd_ID (map (\<lambda>x. if cmd_ID x = cmd_ID c then n else x) xs) = map cmd_ID xs"
  using assms by force+

text \<open>
  C37. Liveness: a command the bus has dispatched to a connected agent does not stay open. When the agent
  has executed it and the gateway has read everything the agent sent, the stored command has been executing, and is completed
  with the result of the operation; or the operation failed, and the command carries its error and is pending with
  a retry in three seconds, or a dead letter when its attempts are used up. The database answers throughout.
\<close>

theorem executed_command_settles:
  assumes "faults (cb_world b) = []" and "distinct (map cmd_ID (commands b))" and "c \<in> set (commands b)"
    and "\<not> terminal (cmd_Status c)" and "wrap64 (cmd_TimeoutSeconds c) = cmd_TimeoutSeconds c" and "ae_socket env"
    and "s' = read_message env (Some (command_doc (command_msg c))) s"
    and "b' = foldl (\<lambda>b v. agent_message a (Some v) b) b (drop (length (ra_sent s)) (ra_sent s'))"
  shows "\<exists>x \<in> set (commands b'). cmd_ID x = cmd_ID c \<and> cmd_ExecutedAt x = Some (clock (cb_world b)) \<and>
    (case fst (run_command env (wire_command (command_msg c)) (sendCommandResult env (cmd_ID c) ''executing'' [] [] s)) of
       Inr res \<Rightarrow> cmd_Status x = ''completed'' \<and> cmd_Result x = res \<and> cmd_CompletedAt x = Some (clock (cb_world b))
     | Inl e \<Rightarrow> cmd_LastError x = err_text e \<and>
         (if cmd_Attempts c < cmd_MaxAttempts c
          then cmd_Status x = ''pending'' \<and> (clock (cb_world b) + 3 * second, Attempt x) \<in> set (cb_tasks b')
          else cmd_Status x = ''dead_letter''))"
proof -
  let ?m = "wire_command (command_msg c)" and ?now = "clock (cb_world b)"
  have i: "co_CommandID ?m = cmd_ID c" by (simp add: wire_command_def command_msg_def)
  obtain r s1 where run: "run_command env ?m (sendCommandResult env (cmd_ID c) ''executing'' [] [] s) = (r, s1)" by fastforce
  have s': "s' = executeCommand env ?m s" using assms(5,7) by (simp add: read_wire command_msg_def)
  define b1 where "b1 = snd (HandleResult (cmd_ID c) ''executing'' [] [] b)"
  define n where "n = updated_row ?now ''executing'' [] [] c"
  have n: "cmd_ID n = cmd_ID c" "\<not> terminal (cmd_Status n)" "cmd_ExecutedAt n = Some ?now"
    "cmd_Attempts n = cmd_Attempts c" "cmd_MaxAttempts n = cmd_MaxAttempts c"
    by (simp_all add: n_def updated_row_def terminal_def)
  have "''executing'' \<in> {''executing'', ''completed'', ''failed''}" by simp
  note one = HandleResult_row [OF assms(1-4) this b1_def n_def]
  have known: "distinct (map cmd_ID (commands b1))" "n \<in> set (commands b1)" "faults (cb_world b1) = []" "clock (cb_world b1) = ?now"
    using one assms(2) mapped_row(1) [OF assms(3) n(1)] mapped_row(2) [OF assms(3) n(1)]
    by (simp_all only: conj_ac)
  define st where "st = (case r of Inr _ \<Rightarrow> ''completed'' | Inl _ \<Rightarrow> ''failed'')"
  define res where "res = (case r of Inr t \<Rightarrow> t | Inl _ \<Rightarrow> [])"
  define err where "err = (case r of Inr _ \<Rightarrow> [] | Inl e \<Rightarrow> err_text e)"
  have b': "b' = snd (HandleResult (cmd_ID n) st res err b1)"
    unfolding assms(8) s' n(1) using executed_messages [OF assms(6), of ?m s r s1 a b] run
    by (cases r) (simp_all add: i b1_def Let_def st_def res_def err_def)
  define x where "x = updated_row (clock (cb_world b1)) st res err n"
  have st: "st \<in> {''executing'', ''completed'', ''failed''}" by (simp add: st_def split: sum.split)
  note two = HandleResult_row [OF known(3,1,2) n(2) st b' x_def]
  have "cmd_ID x = cmd_ID n" by (simp add: x_def updated_row_def)
  then have "x \<in> set (commands b')" using two mapped_row(1) [OF known(2)] by simp
  moreover have "case r of
       Inr res \<Rightarrow> cmd_Status x = ''completed'' \<and> cmd_Result x = res \<and> cmd_CompletedAt x = Some ?now
     | Inl e \<Rightarrow> cmd_LastError x = err_text e \<and>
         (if cmd_Attempts c < cmd_MaxAttempts c
          then cmd_Status x = ''pending'' \<and> (?now + 3 * second, Attempt x) \<in> set (cb_tasks b')
          else cmd_Status x = ''dead_letter'')"
    using two known(4) n(4,5) by (cases r) (simp_all add: st_def res_def err_def x_def updated_row_def)
  moreover have "cmd_ID x = cmd_ID c \<and> cmd_ExecutedAt x = Some ?now"
    using n known(4) by (simp add: x_def updated_row_def)
  ultimately show ?thesis by (intro bexI [of _ x]) (simp_all add: run)
qed

section \<open>The ports of an agent\<close>

lemma next_free_spec:
  "port \<le> stop \<Longrightarrow> (\<exists>q \<in> {port..stop}. q \<notin> set used) \<Longrightarrow>
    next_free used port stop \<in> {port..stop} - set used \<and> (\<forall>q \<in> {port..<next_free used port stop}. q \<in> set used)"
proof (induction used port stop rule: next_free.induct)
  case (1 used port stop)
  show ?case
  proof (cases "port \<in> set used")
    case True
    obtain q where q: "q \<in> {port..stop}" "q \<notin> set used" using "1.prems"(2) by blast
    have "q \<noteq> port" using q(2) True by blast
    note q = q this
    then have "\<exists>q \<in> {port + 1..stop}. q \<notin> set used" by (intro bexI [of _ q]) auto
    with q True have ih: "next_free used (port + 1) stop \<in> {port + 1..stop} - set used \<and>
        (\<forall>q \<in> {port + 1..<next_free used (port + 1) stop}. q \<in> set used)"
      using "1.IH" "1.prems"(1) by auto
    have "next_free used port stop = next_free used (port + 1) stop"
      using True "1.prems"(1) by (subst next_free.simps) simp
    with ih True show ?thesis
      by (smt (verit) Diff_iff atLeastAtMost_iff atLeastLessThan_iff)
  next
    case False
    then have "next_free used port stop = port" using "1.prems"(1) by (subst next_free.simps) simp
    with False "1.prems"(1) show ?thesis by simp
  qed
qed

lemma next_free_none: "\<forall>q \<in> {port..stop}. q \<in> set used \<Longrightarrow> next_free used port stop = 0"
  by (induction used port stop rule: next_free.induct) (subst next_free.simps, auto)

definition ports_ok :: "remote_agent \<Rightarrow> bool" where
  "ports_ok s \<longleftrightarrow> distinct (ra_proxies s) \<and> (\<forall>p \<in> set (ra_proxies s). 0 < p \<and> p \<le> 65535)"

lemma createProxy_ports: "ports_ok s \<Longrightarrow> ports_ok (snd (createProxy env p s))"
  by (auto simp: createProxy_def ports_ok_def listen_error_def Let_def split: option.split if_splits)

lemma deleteProxy_ports: "ports_ok s \<Longrightarrow> ports_ok (snd (deleteProxy p s))"
  by (auto simp: deleteProxy_def ports_ok_def split: sum.split)

lemma runExpressVPN_ports: "ra_proxies (snd (runExpressVPN env d args s)) = ra_proxies s"
  by (simp add: runExpressVPN_def split: option.split prod.split)

lemma run_command_ports: "ports_ok s \<Longrightarrow> ports_ok (snd (run_command env cmd s))"
proof -
  assume s: "ports_ok s"
  have v: "ports_ok (snd (executeVPNCommand env d cmd s))" for d
    using s by (simp add: executeVPNCommand_def ports_ok_def runExpressVPN_ports)
  have r: "ports_ok (snd (restartProxy env p s))" for p
    using s by (simp add: restartProxy_def createProxy_ports deleteProxy_ports)
  show ?thesis
    unfolding run_command_def
    by (intro if_split [where P = "\<lambda>x. ports_ok (snd x)", THEN iffD2] conjI impI)
      (simp_all only: v r createProxy_ports [OF s] deleteProxy_ports [OF s] snd_conv s)
qed

lemma read_message_ports: "ports_ok s \<Longrightarrow> ports_ok (read_message env msg s)"
proof -
  assume s: "ports_ok s"
  have "ports_ok (sendCommandResult env i st r e s)" for i st r e using s by (simp add: ports_ok_def)
  from run_command_ports [OF this]
  have r: "ports_ok (snd (run_command env cmd (sendCommandResult env (co_CommandID cmd) ''executing'' [] [] s)))" for cmd .
  have "ports_ok (executeCommand env cmd s)" for cmd
    using r [of cmd] unfolding ports_ok_def executed_proxies .
  with s show ?thesis by (simp add: read_message_def split: option.split)
qed

lemma send_ports:
  "ports_ok s \<Longrightarrow> ports_ok (snd (sendHeartbeat env s))" "ports_ok s \<Longrightarrow> ports_ok (snd (sendMetrics env s))"
  "ports_ok s \<Longrightarrow> ports_ok (sendStateSync env s)"
  by (simp_all add: sendHeartbeat_def sendMetrics_def ports_ok_def)

lemma serve_events_ports: "ports_ok s \<Longrightarrow> ports_ok (snd (serve_events evs s))"
proof (induction evs arbitrary: s)
  case (Cons ev evs)
  obtain env e where ev: "ev = (env, e)" by fastforce
  obtain h s1 where h: "sendHeartbeat env s = (h, s1)" by fastforce
  obtain m s2 where m: "sendMetrics env s = (m, s2)" by fastforce
  have p: "ports_ok s1" "ports_ok s2" using send_ports [OF Cons.prems, of env] by (simp_all add: h m)
  show ?case
  proof (cases e)
    case HeartbeatTick
    then show ?thesis using p Cons.IH by (cases h) (simp_all add: ev h)
  next
    case MetricsTick
    then show ?thesis using p Cons.IH by (cases m) (simp_all add: ev m)
  next
    case (Received msg)
    then show ?thesis using Cons.IH read_message_ports [OF Cons.prems] by (simp add: ev)
  qed (simp add: ev Cons.prems)
qed simp

text \<open>Invariant: over all connections an agent listens on different ports, each of them a port number.\<close>

theorem agent_ports_valid: "ports_ok s \<Longrightarrow> ports_ok (snd (run_rounds rounds s))"
proof (induction rounds arbitrary: s)
  case (Cons r rounds)
  obtain env evs where r: "r = (env, evs)" by fastforce
  obtain e s1 where c: "connectAndServe env evs s = (e, s1)" by fastforce
  have "ports_ok (snd (telemetryLoop env evs t))" if "ports_ok t" for t
    using that by (simp add: telemetryLoop_def serve_events_ports send_ports)
  then have "ports_ok (snd (connectAndServe env evs s))"
    using Cons.prems by (simp add: connectAndServe_def send_ports split: option.split)
  then have "ports_ok s1" by (simp add: c)
  then show ?case using Cons.IH by (cases e) (simp_all add: r c)
qed simp

text \<open>
  A port another program has is never skipped: while the first port of the range that the agent itself does not use
  cannot be opened, no proxy is created, however many ports of the range are free.
\<close>

theorem foreign_port_blocks_range:
  assumes "fst (unmarshal_int ''port'' payload) = 0" and "ae_listen env (nextFreePortLocked s) = Some e"
    and "nextFreePortLocked s \<in> {1..65535} - set (ra_proxies s)"
  shows "createProxy env payload s = (Inl e, s)"
  using assms by (simp add: createProxy_def listen_error_def Let_def)

section \<open>Examples\<close>

definition demo_host :: agent_env where
  "demo_host = \<lparr>ae_now = 0, ae_socket = True, ae_dial = (\<lambda>_ _. None), ae_listen = (\<lambda>_. None), ae_express = None,
     ae_cpu = Inr [], ae_mem = Inr 0, ae_disk = Inr 0, ae_net = Inr [], ae_hostname = ''h'', ae_goos = ''linux'',
     ae_walk = (\<lambda>ps. ps)\<rparr>"

definition demo_remote :: remote_agent where
  "demo_remote = new_agent \<lparr>cfg_AgentID = ''a1'', cfg_MasterURL = ''ws'', cfg_Token = ''tok'', cfg_HeartbeatIntervalSeconds = 30,
     cfg_MetricsIntervalSeconds = 5, cfg_ProxyPortRangeStart = 8000, cfg_ProxyPortRangeEnd = 9000\<rparr> 0"

text \<open>The server wants a proxy on port 8123; the agent already has one on port 8000 and opens 8001.\<close>

definition demo_create :: CommandMsg where
  "demo_create = \<lparr>cm_command_id = ''c1'', cm_command_type = ''CREATE_PROXY'', cm_payload = ''{'' @ json_string ''port'' @ '':8123}'', cm_timeout_seconds = 120,
     cm_idempotency_key = []\<rparr>"

lemma demo_next: "nextFreePortLocked (demo_remote\<lparr>ra_proxies := [8000]\<rparr>) = 8001"
proof -
  have "next_free [8000] 8000 9000 = 8001" by (subst next_free.simps, simp, subst next_free.simps, simp)
  then show ?thesis by (simp add: nextFreePortLocked_def demo_remote_def new_agent_def)
qed

theorem payload_lost_on_wire_witness:
  "ra_proxies (read_message demo_host (Some (command_doc demo_create)) (demo_remote\<lparr>ra_proxies := [8000]\<rparr>)) = [8000, 8001]"
proof -
  have h: "wrap64 (cm_timeout_seconds demo_create) = cm_timeout_seconds demo_create" "ae_socket demo_host"
    "cm_command_type demo_create = ''CREATE_PROXY''" by (simp_all add: demo_create_def demo_host_def wrap64_id)
  have l: "listen_error demo_host 8001 (demo_remote\<lparr>ra_proxies := [8000]\<rparr>) = None"
    by (simp add: listen_error_def demo_host_def)
  show ?thesis
    using payload_lost_on_wire [where s = "demo_remote\<lparr>ra_proxies := [8000]\<rparr>", OF h(1,2) refl] h(3)
    by (simp add: demo_next l)
qed

definition demo_sent_cmd :: AgentCommand where
  "demo_sent_cmd = zero_AgentCommand\<lparr>cmd_ID := ''c1'', cmd_AgentID := ''a1'', cmd_Type := ''HEALTH_CHECK'',
     cmd_Status := ''dispatched'', cmd_TimeoutSeconds := 120, cmd_MaxAttempts := 3, cmd_Attempts := 1\<rparr>"

theorem executed_command_settles_witness:
  "\<exists>x \<in> set (commands (foldl (\<lambda>b v. agent_message ''a1'' (Some v) b)
      (NewCommandBus (start_world\<lparr>agent_commands := [demo_sent_cmd]\<rparr>))
      (drop 0 (ra_sent (read_message demo_host (Some (command_doc (command_msg demo_sent_cmd))) demo_remote))))).
    cmd_Status x = ''completed'' \<and> cmd_Result x = mock_run [''status'']"
proof -
  let ?b = "NewCommandBus (start_world\<lparr>agent_commands := [demo_sent_cmd]\<rparr>)"
  have h: "faults (cb_world ?b) = []" "distinct (map cmd_ID (commands ?b))" "demo_sent_cmd \<in> set (commands ?b)"
    "\<not> terminal (cmd_Status demo_sent_cmd)" "wrap64 (cmd_TimeoutSeconds demo_sent_cmd) = cmd_TimeoutSeconds demo_sent_cmd"
    "ae_socket demo_host"
    by (simp_all add: NewCommandBus_def start_world_def demo_sent_cmd_def demo_host_def terminal_def wrap64_id)
  have r: "fst (run_command demo_host (wire_command (command_msg demo_sent_cmd)) t) = Inr (mock_run [''status''])" for t
    by (simp add: run_command_def wire_command_def command_msg_def demo_sent_cmd_def executeVPNCommand_def runExpressVPN_def
        demo_host_def)
  have l: "length (ra_sent demo_remote) = 0" by (simp add: demo_remote_def new_agent_def)
  show ?thesis
    using executed_command_settles [OF h refl refl, of "''a1''" demo_remote] unfolding l r sum.case by blast
qed

end
