(* ===== verification/ProxyApi.thy ===== *)
theory ProxyApi imports Http Health Security VpnManager begin

text \<open>
  The handlers of \<^verbatim>\<open>internal/api/handler.go\<close> for VPN nodes, their credentials and locations, for proxies, and for
  the system's figures. \<open>drs\<close> is the registry of drivers and \<open>hk\<close> the hooks that \<^verbatim>\<open>main\<close> installs. A panic of a
  driver becomes a reply 500 without a body, as gin's recovery makes of it.
\<close>

section \<open>VPN nodes\<close>

definition ListVPNs :: "world \<Rightarrow> VPNNode list reply \<times> world" where
  "ListVPNs w = answer 500 200 (vpnNodeRepo_List w)"

record vpn_input =
  ni_Name :: string
  ni_Provider :: string
  ni_Type :: string
  ni_ConfigText :: string

definition input_node :: "string \<Rightarrow> vpn_input \<Rightarrow> VPNNode" where
  "input_node i n = zero_VPNNode\<lparr>vn_ID := i, vn_Name := ni_Name n, vn_Provider := ni_Provider n, vn_Type := ni_Type n,
     vn_ConfigText := ni_ConfigText n, vn_Status := ''disconnected'', vn_ConnectionStatus := ''disconnected'',
     vn_AgentID := ''local-agent''\<rparr>"

definition store_node :: "(VPNNode \<Rightarrow> string) \<Rightarrow> VPNNode \<Rightarrow> world \<Rightarrow> VPNNode reply \<times> world" where
  "store_node details node w = (case vpnNodeRepo_Create node w of
     (Inl e, w1) \<Rightarrow> (Fails 500 (err_text e), w1)
   | (Inr n, w1) \<Rightarrow> (Sends 201 n, log_audit ''VPN_CREATED'' (details n) w1))"

definition CreateVPN :: "vpn_input result \<Rightarrow> world \<Rightarrow> VPNNode reply \<times> world" where
  "CreateVPN body = with_input (\<lambda>n. ni_Name n \<noteq> [] \<and> ni_Type n \<noteq> []) body (\<lambda>n w.
     (let (i, w1) = new_uuid w
      in store_node (\<lambda>v. ''Created VPN node: '' @ vn_Name v @ '' ('' @ vn_Type v @ '')'') (input_node i n) w1))"

text \<open>The name of the interface and its local address.\<close>

definition ConnectVPN :: "drivers \<Rightarrow> string \<Rightarrow> vpn_state \<Rightarrow> (string \<times> string) reply \<times> vpn_state" where
  "ConnectVPN drs i st = (case vm_Connect drs i st of
     (Panics, st1) \<Rightarrow> (Fails 500 [], st1)
   | (Returns (Inl e), st1) \<Rightarrow> (Fails 500 (err_text e), st1)
   | (Returns (Inr ifc), st1) \<Rightarrow> (Sends 200 (vi_interfaceName ifc, vi_localIP ifc), st1))"

definition DisconnectVPN :: "drivers \<Rightarrow> string \<Rightarrow> vpn_state \<Rightarrow> string reply \<times> vpn_state" where
  "DisconnectVPN drs i st = confirm 500 ''Disconnected successfully'' (vm_Disconnect drs i st)"

text \<open>The errors of stopping and deleting a proxy are dropped, and so is that of the disconnect.\<close>

definition drop_proxy :: "string \<Rightarrow> world \<Rightarrow> world" where
  "drop_proxy i w = snd (proxyRepo_Delete i (snd (StopProxy i w)))"

definition drop_proxies_of :: "string \<Rightarrow> world \<Rightarrow> world" where
  "drop_proxies_of nodeID w = (case proxyRepo_GetByVPNNodeID nodeID w of
     (Inl _, w1) \<Rightarrow> w1 | (Inr ps, w1) \<Rightarrow> fold (\<lambda>p. drop_proxy (px_ID p)) ps w1)"

definition DeleteVPN :: "drivers \<Rightarrow> string \<Rightarrow> vpn_state \<Rightarrow> string reply \<times> vpn_state" where
  "DeleteVPN drs i st =
     (case snd (vm_Disconnect drs i st) of (h, w) \<Rightarrow>
       (case confirm 500 ''VPN node and associated proxies deleted successfully'' (vpnNodeRepo_Delete i (drop_proxies_of i w)) of
          (r, w1) \<Rightarrow> (r, (h, w1))))"

section \<open>Credentials of VPN providers\<close>

record credential_input =
  pi_Provider :: string
  pi_Name :: string
  pi_Secret :: string

definition CreateCredential :: "(string \<Rightarrow> string) \<Rightarrow> credential_input result \<Rightarrow> world \<Rightarrow> VPNCredential reply \<times> world" where
  "CreateCredential getenv body = with_input (\<lambda>c. pi_Provider c \<noteq> [] \<and> pi_Name c \<noteq> [] \<and> pi_Secret c \<noteq> []) body (\<lambda>c w.
     (case EncryptSecret getenv (pi_Secret c) w of
        (Inl _, w1) \<Rightarrow> (Fails 500 ''Failed to encrypt secret key'', w1)
      | (Inr encrypted, w1) \<Rightarrow>
          (let (i, w2) = new_uuid w1
           in answer 500 201 (vpnCredentialRepo_Create
                (zero_VPNCredential\<lparr>vc_ID := i, vc_Provider := pi_Provider c, vc_Name := pi_Name c,
                   vc_EncryptedSecret := encrypted, vc_MaskedSecret := MaskSecret (pi_Secret c),
                   vc_CreatedAt := clock w2, vc_UpdatedAt := clock w2\<rparr>) w2))))"

definition ListCredentials :: "world \<Rightarrow> VPNCredential list reply \<times> world" where
  "ListCredentials w = answer 500 200 (vpnCredentialRepo_List w)"

section \<open>Locations\<close>

definition ordered_regions :: "string list" where
  "ordered_regions = [''Asia Pacific'', ''Americas'', ''Europe'', ''Middle East and Africa'', ''Other'']"

definition in_region :: "VPNLocation list \<Rightarrow> string \<Rightarrow> VPNLocation list" where
  "in_region locs r = filter (\<lambda>l. lo_Region l = r) locs"

text \<open>\<open>order\<close> is the order in which Go walks the groups that are left.\<close>

definition groupLocationsByRegion :: "(string list \<Rightarrow> string list) \<Rightarrow> VPNLocation list \<Rightarrow> (string \<times> VPNLocation list) list" where
  "groupLocationsByRegion order locs =
     map (\<lambda>r. (r, in_region locs r))
       (filter (\<lambda>r. in_region locs r \<noteq> []) ordered_regions
        @ order (remdups (filter (\<lambda>r. r \<notin> set ordered_regions) (map lo_Region locs))))"

text \<open>\<open>driverType\<close> is the query, \<^verbatim>\<open>expressvpn\<close> when it has none.\<close>

definition ListLocations ::
  "drivers \<Rightarrow> (string list \<Rightarrow> string list) \<Rightarrow> string \<Rightarrow> time \<Rightarrow> LocationCache \<times> vpn_host
    \<Rightarrow> (string \<times> VPNLocation list) list reply \<times> (LocationCache \<times> vpn_host)" where
  "ListLocations drs order driverType now st = (case st of (c, h) \<Rightarrow>
     (case cache_Get now c of
        Some locs \<Rightarrow> (Sends 200 (groupLocationsByRegion order locs), (c, h))
      | None \<Rightarrow> (case vm_ListLocations drs driverType h of
          (Inl e, h1) \<Rightarrow> (Fails 500 (err_text e), (c, h1))
        | (Inr locs, h1) \<Rightarrow> (Sends 200 (groupLocationsByRegion order locs), (cache_Set now locs c, h1)))))"

section \<open>ExpressVPN nodes\<close>

record express_input =
  xi_AgentID :: string
  xi_Name :: string
  xi_CredentialID :: string
  xi_LocationAlias :: string
  xi_LocationDisplayName :: string
  xi_SelectedCountry :: string
  xi_SelectedRegion :: string
  xi_Protocol :: string

definition express_node_type :: "VPNCredential result \<Rightarrow> string" where
  "express_node_type cred = (case cred of
     Inl _ \<Rightarrow> ''expressvpn''
   | Inr c \<Rightarrow> if vc_Provider c = ''expressvpn_mock'' \<or> contains (to_lower (vc_Name c)) ''mock''
       then ''expressvpn_mock'' else ''expressvpn'')"

definition input_express_node :: "string \<Rightarrow> string \<Rightarrow> express_input \<Rightarrow> VPNNode" where
  "input_express_node i nodeType x = zero_VPNNode\<lparr>vn_ID := i, vn_Name := xi_Name x, vn_Provider := ''expressvpn'', vn_Type := nodeType,
     vn_Status := ''disconnected'', vn_AgentID := (if xi_AgentID x = [] then ''local-agent'' else xi_AgentID x),
     vn_CredentialID := xi_CredentialID x, vn_LocationAlias := xi_LocationAlias x,
     vn_LocationDisplayName := xi_LocationDisplayName x, vn_SelectedCountry := xi_SelectedCountry x,
     vn_SelectedRegion := xi_SelectedRegion x, vn_Protocol := xi_Protocol x, vn_ConnectionStatus := ''disconnected''\<rparr>"

definition CreateExpressVPNNode :: "express_input result \<Rightarrow> world \<Rightarrow> VPNNode reply \<times> world" where
  "CreateExpressVPNNode body = with_input
     (\<lambda>x. xi_Name x \<noteq> [] \<and> xi_CredentialID x \<noteq> [] \<and> xi_LocationAlias x \<noteq> [] \<and> xi_LocationDisplayName x \<noteq> []) body (\<lambda>x w.
     (let (cred, w1) = vpnCredentialRepo_GetByID (xi_CredentialID x) w; (i, w2) = new_uuid w1
      in store_node (\<lambda>v. ''Created ExpressVPN node: '' @ vn_Name v @ '' ('' @ vn_LocationDisplayName v @ '')'')
           (input_express_node i (express_node_type cred) x) w2))"

record vpn_status =
  st_provider :: string
  st_agent :: string
  st_selected_location :: string
  st_public_ip :: string
  st_detected_country :: string
  st_connection_status :: string
  st_last_error :: string

definition GetVPNStatus :: "string \<Rightarrow> world \<Rightarrow> vpn_status reply \<times> world" where
  "GetVPNStatus i w = (case vpnNodeRepo_GetByID i w of
     (Inl _, w1) \<Rightarrow> (Fails 404 ''VPN node not found'', w1)
   | (Inr n, w1) \<Rightarrow> (Sends 200 \<lparr>st_provider = vn_Provider n, st_agent = vn_AgentID n,
       st_selected_location = vn_LocationDisplayName n, st_public_ip = vn_IP n, st_detected_country = vn_DetectedCountry n,
       st_connection_status = vn_Status n, st_last_error = vn_LastError n\<rparr>, w1))"

definition ValidateVPN :: "vpn_env \<Rightarrow> drivers \<Rightarrow> string \<Rightarrow> vpn_state \<Rightarrow> ExpressVPNValidation option reply \<times> vpn_state" where
  "ValidateVPN env drs i st = (case ValidateNode env drs i st of
     (Panics, st1) \<Rightarrow> (Fails 500 [], st1)
   | (Returns (_, Some e), st1) \<Rightarrow> (Fails 500 (err_text e), st1)
   | (Returns (report, None), st1) \<Rightarrow> (Sends 200 report, st1))"

section \<open>Connecting and serving in one call\<close>

record serve_input =
  si_ProxyType :: string
  si_Port :: int
  si_Username :: string
  si_Password :: string
  si_RotationMode :: string

definition rotation_mode :: "string \<Rightarrow> string" where
  "rotation_mode m = (if m = [] then ''static'' else m)"

definition serve_proxy :: "string \<Rightarrow> VPNNode \<Rightarrow> serve_input \<Rightarrow> Proxy" where
  "serve_proxy i node s = zero_Proxy\<lparr>px_ID := i, px_VPNNodeID := vn_ID node, px_Port := si_Port s, px_Type := si_ProxyType s,
     px_BindIP := ''0.0.0.0'', px_Username := si_Username s, px_Password := si_Password s, px_Status := ''stopped'',
     px_AgentID := vn_AgentID node, px_RotationMode := rotation_mode (si_RotationMode s)\<rparr>"

text \<open>Whatever proxy has the port is stopped and deleted.\<close>

definition clear_port :: "int \<Rightarrow> world \<Rightarrow> world" where
  "clear_port port w = (case proxyRepo_GetByPort port w of
     (Inl _, w1) \<Rightarrow> w1 | (Inr existing, w1) \<Rightarrow> drop_proxy (px_ID existing) w1)"

definition start_served :: "hooks \<Rightarrow> VPNNode \<Rightarrow> Proxy \<Rightarrow> world \<Rightarrow> (Proxy \<times> string) reply \<times> world" where
  "start_served hk node p w = (case StartProxy hk (px_ID p) w of
     (Inl e, w1) \<Rightarrow> (Fails 500 (''Failed to start proxy: '' @ err_text e), w1)
   | (Inr _, w1) \<Rightarrow> (Sends 200 (p, vn_IP node), w1))"

definition serve_node :: "hooks \<Rightarrow> VPNNode \<Rightarrow> serve_input \<Rightarrow> world \<Rightarrow> (Proxy \<times> string) reply \<times> world" where
  "serve_node hk node s w =
     (let w1 = clear_port (si_Port s) w; (i, w2) = new_uuid w1
      in case proxyRepo_Create (serve_proxy i node s) w2 of
           (Inl e, w3) \<Rightarrow> (Fails 500 (''Failed to register proxy: '' @ err_text e), w3)
         | (Inr p, w3) \<Rightarrow> start_served hk node p w3)"

text \<open>The node is connected before the body is looked at; the reply is the proxy and the node's address.\<close>

definition serve_connected :: "hooks \<Rightarrow> string \<Rightarrow> serve_input result \<Rightarrow> world \<Rightarrow> (Proxy \<times> string) reply \<times> world" where
  "serve_connected hk i body = with_input (\<lambda>s. si_ProxyType s \<noteq> [] \<and> si_Port s \<noteq> 0) body (\<lambda>s w.
     (case vpnNodeRepo_GetByID i w of
        (Inl _, w1) \<Rightarrow> (Fails 500 ''VPN connection is not marked connected'', w1)
      | (Inr node, w1) \<Rightarrow>
          if vn_Status node \<noteq> ''connected'' then (Fails 500 ''VPN connection is not marked connected'', w1)
          else serve_node hk node s w1))"

definition ConnectAndCreateProxy ::
  "drivers \<Rightarrow> hooks \<Rightarrow> string \<Rightarrow> serve_input result \<Rightarrow> vpn_state \<Rightarrow> (Proxy \<times> string) reply \<times> vpn_state" where
  "ConnectAndCreateProxy drs hk i body st = (case vm_Connect drs i st of
     (Panics, st1) \<Rightarrow> (Fails 500 [], st1)
   | (Returns (Inl e), st1) \<Rightarrow> (Fails 500 (''Failed to connect VPN: '' @ err_text e), st1)
   | (Returns (Inr _), (h, w)) \<Rightarrow> (case serve_connected hk i body w of (r, w1) \<Rightarrow> (r, (h, w1))))"

section \<open>Proxies\<close>

definition ListProxies :: "world \<Rightarrow> Proxy list reply \<times> world" where
  "ListProxies w = answer 500 200 (proxyRepo_List w)"

record proxy_input =
  yi_VPNNodeID :: string
  yi_Port :: int
  yi_Type :: string
  yi_BindIP :: string
  yi_Username :: string
  yi_Password :: string
  yi_ExpiresHours :: int
  yi_RotationMode :: string

text \<open>The login of a new proxy: the given one, or a generated one, whose password the reply shows.\<close>

definition proxy_login :: "(nat \<Rightarrow> nat option) \<Rightarrow> (string \<Rightarrow> string result) \<Rightarrow> proxy_input \<Rightarrow> (string \<times> string \<times> string) result" where
  "proxy_login draw bcrypt y =
     (if yi_Username y = [] \<or> yi_Password y = []
      then (case fst (GenerateCredential draw bcrypt 0) of
          Inl e \<Rightarrow> Inl (ErrMsg (''failed to generate proxy credential: '' @ err_text e))
        | Inr c \<Rightarrow> Inr (cr_Username c, cr_Password c, cr_Password c))
      else Inr (yi_Username y, yi_Password y, []))"

definition expires_hours :: "proxy_input \<Rightarrow> int" where
  "expires_hours y = (if yi_ExpiresHours y \<le> 0 then 12 else yi_ExpiresHours y)"

definition node_agent :: "VPNNode result \<Rightarrow> string" where
  "node_agent node = (case node of Inl _ \<Rightarrow> ''local-agent'' | Inr n \<Rightarrow> vn_AgentID n)"

definition input_proxy :: "string \<Rightarrow> proxy_input \<Rightarrow> string \<Rightarrow> string \<Rightarrow> string \<Rightarrow> time \<Rightarrow> Proxy" where
  "input_proxy i y username password agentID now = zero_Proxy\<lparr>px_ID := i, px_VPNNodeID := yi_VPNNodeID y, px_Port := yi_Port y,
     px_Type := yi_Type y, px_BindIP := (if yi_BindIP y = [] then ''0.0.0.0'' else yi_BindIP y), px_Username := username,
     px_Password := password, px_ExpiresAt := Some (now + wrap64 (expires_hours y * hour)), px_Status := ''stopped'',
     px_AgentID := agentID, px_RotationMode := rotation_mode (yi_RotationMode y)\<rparr>"

text \<open>The stored proxy, the generated password (empty when the login was given) and the hours it is rented for.\<close>

definition store_proxy :: "proxy_input \<Rightarrow> string \<times> string \<times> string \<Rightarrow> world \<Rightarrow> (Proxy \<times> string \<times> int) reply \<times> world" where
  "store_proxy y login w = (case login of (username, password, generated) \<Rightarrow>
     (let (node, w1) = vpnNodeRepo_GetByID (yi_VPNNodeID y) w; (i, w2) = new_uuid w1
      in case proxyRepo_Create (input_proxy i y username password (node_agent node) (clock w2)) w2 of
           (Inl e, w3) \<Rightarrow> (Fails 500 (err_text e), w3)
         | (Inr p, w3) \<Rightarrow> (Sends 201 (p, generated, expires_hours y), w3)))"

definition CreateProxy ::
  "(nat \<Rightarrow> nat option) \<Rightarrow> (string \<Rightarrow> string result) \<Rightarrow> proxy_input result \<Rightarrow> world \<Rightarrow> (Proxy \<times> string \<times> int) reply \<times> world" where
  "CreateProxy draw bcrypt body = with_input (\<lambda>y. yi_Port y \<noteq> 0 \<and> yi_Type y \<noteq> []) body (\<lambda>y w.
     (case proxy_login draw bcrypt y of
        Inl e \<Rightarrow> (Fails 500 (err_text e), w)
      | Inr login \<Rightarrow> (case proxyRepo_GetByPort (yi_Port y) w of
          (Inr _, w1) \<Rightarrow> (Fails 400 (''Port '' @ itoa (yi_Port y) @ '' is already in use''), w1)
        | (Inl _, w1) \<Rightarrow> store_proxy y login w1)))"

definition api_StartProxy :: "hooks \<Rightarrow> string \<Rightarrow> world \<Rightarrow> string reply \<times> world" where
  "api_StartProxy hk i w = confirm 500 ''Proxy started successfully'' (StartProxy hk i w)"

definition api_StopProxy :: "string \<Rightarrow> world \<Rightarrow> string reply \<times> world" where
  "api_StopProxy i w = confirm 500 ''Proxy stopped successfully'' (StopProxy i w)"

definition DeleteProxy :: "string \<Rightarrow> world \<Rightarrow> string reply \<times> world" where
  "DeleteProxy i w = confirm 500 ''Proxy deleted successfully'' (proxyRepo_Delete i (snd (StopProxy i w)))"

definition GetProxyMetrics :: "string \<Rightarrow> world \<Rightarrow> HealthMetric list reply \<times> world" where
  "GetProxyMetrics i w = answer 500 200 (healthMetricRepo_GetLatest i 20 w)"

section \<open>Figures of the system\<close>

record system_stats =
  ys_sample :: SystemMetricSnapshot
  ys_health_grade :: string
  ys_health_latency :: int
  ys_total_agents :: int
  ys_online_agents :: int

definition GetSystemStats :: "SystemMetricsService \<Rightarrow> world \<Rightarrow> system_stats reply \<times> world" where
  "GetSystemStats m w =
     (let (grade, lat) = GetCurrentGrade w; (as, w1) = agentRepo_List w; ags = (case as of Inl _ \<Rightarrow> [] | Inr ags \<Rightarrow> ags)
      in (Sends 200 \<lparr>ys_sample = GetCurrent m, ys_health_grade = grade, ys_health_latency = lat,
            ys_total_agents = int (length ags), ys_online_agents = agents_with ''healthy'' ags\<rparr>, w1))"

definition GetLogs :: "world \<Rightarrow> AuditLog list reply \<times> world" where
  "GetLogs w = answer 500 200 (auditLogRepo_List 100 w)"

text \<open>\<open>show_f\<close> prints a float with \<^verbatim>\<open>%f\<close>.\<close>

definition gauge :: "string \<Rightarrow> string \<Rightarrow> string \<Rightarrow> string" where
  "gauge name help value =
     ''# HELP '' @ name @ '' '' @ help @ [CHR 0x0A] @ ''# TYPE '' @ name @ '' gauge'' @ [CHR 0x0A] @ value @ [CHR 0x0A]"

definition GetPrometheusMetrics :: "(real \<Rightarrow> string) \<Rightarrow> SystemMetricsService \<Rightarrow> world \<Rightarrow> string reply \<times> world" where
  "GetPrometheusMetrics show_f m w =
     (let stats = GetCurrent m; (grade, lat) = GetCurrentGrade w in
      (Sends 200
        (gauge ''vpn_proxy_cpu_usage'' ''Current CPU usage percentage'' (''vpn_proxy_cpu_usage '' @ show_f (sm_CPUUsage stats))
         @ gauge ''vpn_proxy_ram_usage'' ''Current RAM usage percentage'' (''vpn_proxy_ram_usage '' @ show_f (sm_RAMUsage stats))
         @ gauge ''vpn_proxy_active_vpns'' ''Total active VPN connections'' (''vpn_proxy_active_vpns '' @ itoa (sm_VPNCount stats))
         @ gauge ''vpn_proxy_active_proxies'' ''Total active proxy servers''
             (''vpn_proxy_active_proxies '' @ itoa (sm_ProxyCount stats))
         @ gauge ''vpn_proxy_latency_ms'' ''Global health latency in milliseconds'' (''vpn_proxy_latency_ms '' @ itoa lat)
         @ gauge ''vpn_proxy_health_grade'' ''Global system health grade''
             (''vpn_proxy_health_grade{grade='' @ [CHR 0x22] @ grade @ [CHR 0x22] @ ''} 1'')), w))"

end
