(* ===== verification/CustomerApi.thy ===== *)
theory CustomerApi imports Http Abuse Customer Routing Health begin

text \<open>
  The handlers of \<^verbatim>\<open>internal/api/handler.go\<close> for customers, and those for administrators of plans, subscriptions,
  invoices, customers, abuse and routing. \<open>svc\<close> is the customer service and \<open>provider\<close> the payment provider that
  \<^verbatim>\<open>main\<close> builds; \<open>header\<close> is the \<^verbatim>\<open>Authorization\<close> header of the request.
\<close>

section \<open>Customers\<close>

definition with_principal :: "string \<Rightarrow> (Principal \<Rightarrow> world \<Rightarrow> 'a reply \<times> world) \<Rightarrow> world \<Rightarrow> 'a reply \<times> world" where
  "with_principal header k w = (case AuthenticateBearer header w of
     (Inl e, w1) \<Rightarrow> (Fails 401 (err_text e), w1) | (Inr p, w1) \<Rightarrow> k p w1)"

abbreviation principal_id :: "Principal \<Rightarrow> string" where
  "principal_id p \<equiv> cu_ID (pr_Customer p)"

record login_input =
  li_Email :: string
  li_Password :: string

definition login_given :: "login_input \<Rightarrow> bool" where
  "login_given l \<longleftrightarrow> li_Email l \<noteq> [] \<and> li_Password l \<noteq> []"

definition audit_customer :: "string \<Rightarrow> Customer \<Rightarrow> world \<Rightarrow> world" where
  "audit_customer action c = Audit (cu_ID c) ''customer'' action (cu_ID c) ''customer'' (Some [(''email'', jval.JStr (cu_Email c))])"

definition CustomerRegister :: "CustomerService \<Rightarrow> login_input result \<Rightarrow> world \<Rightarrow> (Customer \<times> string) reply \<times> world" where
  "CustomerRegister svc body = with_input login_given body (\<lambda>l w.
     (case Register svc (li_Email l) (li_Password l) w of
        (Inl e, w1) \<Rightarrow> (Fails 400 (err_text e), w1)
      | (Inr (c, token), w1) \<Rightarrow> (Sends 201 (c, token), audit_customer ''CUSTOMER_REGISTERED'' c w1)))"

definition CustomerLogin :: "CustomerService \<Rightarrow> login_input result \<Rightarrow> world \<Rightarrow> (Customer \<times> string) reply \<times> world" where
  "CustomerLogin svc body = with_input login_given body (\<lambda>l w.
     (case Login svc (li_Email l) (li_Password l) w of
        (Inl e, w1) \<Rightarrow> (Fails 401 (err_text e), w1)
      | (Inr (c, token), w1) \<Rightarrow> (Sends 200 (c, token), audit_customer ''LOGIN'' c w1)))"

definition CustomerListPlans :: "world \<Rightarrow> ProxyPlan list reply \<times> world" where
  "CustomerListPlans w = answer 500 200 (customer_ListPlans w)"

definition CustomerListProxies :: "string \<Rightarrow> world \<Rightarrow> AllocatedProxy list reply \<times> world" where
  "CustomerListProxies header = with_principal header (\<lambda>p w. answer 500 200 (ListAllocatedProxies (principal_id p) w))"

record allocate_input =
  oi_Country :: string
  oi_RotationMode :: string
  oi_Type :: string

definition allocate_for :: "CustomerService \<Rightarrow> string \<Rightarrow> allocate_input \<Rightarrow> world \<Rightarrow> AllocatedProxy reply \<times> world" where
  "allocate_for svc customerID i w =
     (case AllocateProxy svc customerID (oi_Country i) (oi_RotationMode i) (oi_Type i) w of
        (Inl e, w1) \<Rightarrow> (Fails 400 (err_text e), w1)
      | (Inr item, w1) \<Rightarrow> (Sends 201 item, Audit customerID ''customer'' ''PROXY_ALLOCATION'' (alp_ID item) ''proxy_allocation''
          (Some [(''country'', jval.JStr (oi_Country i)), (''rotation_mode'', jval.JStr (oi_RotationMode i)), (''type'', jval.JStr (oi_Type i))]) w1))"

definition CustomerAllocateProxy ::
  "CustomerService \<Rightarrow> string \<Rightarrow> allocate_input result \<Rightarrow> world \<Rightarrow> AllocatedProxy reply \<times> world" where
  "CustomerAllocateProxy svc header body = with_principal header (\<lambda>p. with_input (\<lambda>_. True) body (allocate_for svc (principal_id p)))"

definition CustomerRotateCredential :: "CustomerService \<Rightarrow> string \<Rightarrow> string \<Rightarrow> world \<Rightarrow> AllocatedProxy reply \<times> world" where
  "CustomerRotateCredential svc header i = with_principal header (\<lambda>p w. answer 400 200 (RotateCredential svc (principal_id p) i w))"

definition CustomerRotateProxy :: "CustomerService \<Rightarrow> string \<Rightarrow> string \<Rightarrow> world \<Rightarrow> AllocatedProxy reply \<times> world" where
  "CustomerRotateProxy svc header i = with_principal header (\<lambda>p w. answer 400 200 (RotateProxy svc (principal_id p) i w))"

definition CustomerReleaseProxy :: "string \<Rightarrow> string \<Rightarrow> world \<Rightarrow> string reply \<times> world" where
  "CustomerReleaseProxy header i = with_principal header (\<lambda>p w.
     (case ReleaseProxy (principal_id p) i w of
        (Inl e, w1) \<Rightarrow> (Fails 400 (err_text e), w1)
      | (Inr _, w1) \<Rightarrow> (Sends 200 ''proxy allocation released'',
          Audit (principal_id p) ''customer'' ''PROXY_DELETION'' i ''proxy_allocation'' None w1)))"

definition CustomerUsage :: "CustomerService \<Rightarrow> string \<Rightarrow> world \<Rightarrow> customer_usage reply \<times> world" where
  "CustomerUsage svc header = with_principal header (\<lambda>p w. answer 500 200 (customer_Usage svc (principal_id p) w))"

text \<open>The error of reading the body is dropped: the name is then empty.\<close>

definition CustomerCreateAPIKey :: "string \<Rightarrow> string result \<Rightarrow> world \<Rightarrow> (CustomerApiKey \<times> string) reply \<times> world" where
  "CustomerCreateAPIKey header body = with_principal header (\<lambda>p w.
     answer 500 201 (CreateAPIKey (principal_id p) (case body of Inl _ \<Rightarrow> [] | Inr name \<Rightarrow> name) w))"

definition CustomerDeleteAPIKey :: "string \<Rightarrow> string \<Rightarrow> world \<Rightarrow> string reply \<times> world" where
  "CustomerDeleteAPIKey header i = with_principal header (\<lambda>p w. confirm 500 ''api key revoked'' (DeleteAPIKey (principal_id p) i w))"

text \<open>\<open>format\<close> is the query, \<^verbatim>\<open>txt\<close> when it has none.\<close>

definition CustomerExportProxies :: "string \<Rightarrow> string \<Rightarrow> world \<Rightarrow> (string \<times> export_body) reply \<times> world" where
  "CustomerExportProxies header format = with_principal header (\<lambda>p w. answer 500 200 (ExportProxies (principal_id p) format w))"

definition CustomerSubscriptionUsage :: "string \<Rightarrow> world \<Rightarrow> usage reply \<times> world" where
  "CustomerSubscriptionUsage header = with_principal header (\<lambda>p w. answer 500 200 (UsageDashboard (principal_id p) w))"

definition CustomerListIPWhitelist :: "string \<Rightarrow> world \<Rightarrow> IPWhitelist list reply \<times> world" where
  "CustomerListIPWhitelist header = with_principal header (\<lambda>p w. answer 500 200 (ListWhitelist (principal_id p) w))"

record whitelist_input =
  wi_IPAddress :: string
  wi_CIDR :: string
  wi_Description :: string

definition CustomerAddIPWhitelist :: "string \<Rightarrow> whitelist_input result \<Rightarrow> world \<Rightarrow> IPWhitelist reply \<times> world" where
  "CustomerAddIPWhitelist header body = with_principal header (\<lambda>p. with_input (\<lambda>_. True) body (\<lambda>i w.
     answer 400 201 (AddWhitelist (principal_id p) (wi_IPAddress i) (wi_CIDR i) (wi_Description i) w)))"

definition CustomerDeleteIPWhitelist :: "string \<Rightarrow> string \<Rightarrow> world \<Rightarrow> string reply \<times> world" where
  "CustomerDeleteIPWhitelist header i = with_principal header (\<lambda>p w.
     confirm 400 ''whitelist entry deleted'' (DeleteWhitelist (principal_id p) i w))"

text \<open>The customer's events among the last hundred of all.\<close>

definition CustomerSecurityDashboard :: "string \<Rightarrow> world \<Rightarrow> (IPWhitelist list \<times> AbuseEvent list) reply \<times> world" where
  "CustomerSecurityDashboard header = with_principal header (\<lambda>p w.
     (let (whitelist, w1) = ListWhitelist (principal_id p) w; (events, w2) = RecentEvents 100 w1
      in (Sends 200 (rows_or_empty whitelist, filter (\<lambda>e. abe_CustomerID e = principal_id p) (rows_or_empty events)), w2)))"

end
