(* ===== verification/AdminApi.thy ===== *)
theory AdminApi imports CustomerApi begin

text \<open>
  The handlers of \<^verbatim>\<open>internal/api/handler.go\<close> under \<^verbatim>\<open>/api/admin\<close> and \<^verbatim>\<open>/api/pools\<close>. None of them looks at the
  \<^verbatim>\<open>Authorization\<close> header: their arguments are the path, the query and the body alone. The ZIP format of the
  backup is not modelled.
\<close>

section \<open>Plans and subscriptions\<close>

definition AdminCreatePlan :: "ProxyPlan result \<Rightarrow> world \<Rightarrow> ProxyPlan reply \<times> world" where
  "AdminCreatePlan body = with_input (\<lambda>_. True) body (\<lambda>plan w. answer 400 201 (customer_CreatePlan plan w))"

text \<open>The plan and the days.\<close>

definition AdminCreateSubscription :: "string \<Rightarrow> (string \<times> int) result \<Rightarrow> world \<Rightarrow> CustomerSubscription reply \<times> world" where
  "AdminCreateSubscription i body = with_input (\<lambda>(plan, _). plan \<noteq> []) body (\<lambda>(plan, d) w.
     answer 400 201 (ActivateSubscription i plan d w))"

definition AdminListCommercialPlans :: "world \<Rightarrow> Plan list reply \<times> world" where
  "AdminListCommercialPlans w = answer 500 200 (billing_ListPlans w)"

text \<open>The plan and its features, in the order in which Go walks the map.\<close>

definition AdminCreateCommercialPlan :: "(Plan \<times> (string \<times> string) list) result \<Rightarrow> world \<Rightarrow> Plan reply \<times> world" where
  "AdminCreateCommercialPlan body = with_input (\<lambda>_. True) body (\<lambda>(plan, features) w.
     if pl_Name plan = [] then (Fails 400 ''plan.name is required'', w)
     else answer 400 201 (billing_CreatePlan plan features w))"

definition AdminUpdateCommercialPlan :: "string \<Rightarrow> (string \<times> jval) list result \<Rightarrow> world \<Rightarrow> Plan reply \<times> world" where
  "AdminUpdateCommercialPlan i body = with_input (\<lambda>_. True) body (\<lambda>updates w. answer 400 200 (UpdatePlan i updates w))"

record subscription_input =
  ui_CustomerID :: string
  ui_PlanID :: string
  ui_Days :: int
  ui_AutoRenew :: bool
  ui_Status :: string

definition AdminCreateCommercialSubscription :: "subscription_input result \<Rightarrow> world \<Rightarrow> Subscription reply \<times> world" where
  "AdminCreateCommercialSubscription body = with_input (\<lambda>u. ui_CustomerID u \<noteq> [] \<and> ui_PlanID u \<noteq> []) body (\<lambda>u w.
     answer 400 201 (CreateSubscription (ui_CustomerID u) (ui_PlanID u) (ui_Days u) (ui_AutoRenew u) (ui_Status u) w))"

definition AdminUpdateSubscriptionStatus :: "string \<Rightarrow> string result \<Rightarrow> world \<Rightarrow> string reply \<times> world" where
  "AdminUpdateSubscriptionStatus i body = with_input (\<lambda>s. s \<noteq> []) body (\<lambda>s w.
     confirm 400 ''subscription status updated'' (UpdateSubscriptionStatus i s w))"

section \<open>Invoices\<close>

text \<open>The customer and the subscription.\<close>

definition AdminGenerateInvoice :: "PaymentProvider \<Rightarrow> (string \<times> string) result \<Rightarrow> world \<Rightarrow> Invoice reply \<times> world" where
  "AdminGenerateInvoice provider body = with_input (\<lambda>(c, s). c \<noteq> [] \<and> s \<noteq> []) body (\<lambda>(c, s) w.
     answer 400 201 (GenerateInvoice provider c s w))"

definition AdminMarkInvoicePaid :: "string \<Rightarrow> world \<Rightarrow> string reply \<times> world" where
  "AdminMarkInvoicePaid i w = (case MarkInvoicePaid i w of
     (Inl e, w1) \<Rightarrow> (Fails 400 (err_text e), w1)
   | (Inr _, w1) \<Rightarrow> (Sends 200 ''invoice marked paid'', Audit ''admin'' ''system'' ''INVOICE_MARKED_PAID'' i ''invoice'' None w1))"

definition AdminVerifyInvoicePayment :: "PaymentProvider \<Rightarrow> string \<Rightarrow> world \<Rightarrow> Invoice reply \<times> world" where
  "AdminVerifyInvoicePayment provider i w = answer 400 200 (VerifyInvoicePayment provider i w)"

definition AdminRefundInvoice :: "PaymentProvider \<Rightarrow> string \<Rightarrow> world \<Rightarrow> Invoice reply \<times> world" where
  "AdminRefundInvoice provider i w = answer 400 200 (RefundInvoice provider i w)"

definition AdminInvoicePaymentStatus :: "PaymentProvider \<Rightarrow> string \<Rightarrow> world \<Rightarrow> PaymentStatusReport reply \<times> world" where
  "AdminInvoicePaymentStatus provider i w = answer 400 200 (InvoicePaymentStatus provider i w)"

section \<open>Reports\<close>

definition AdminBillingOverview :: "world \<Rightarrow> (BillingReport \<times> Subscription list \<times> Invoice list) reply \<times> world" where
  "AdminBillingOverview w =
     (let (overview, w1) = BillingOverview w; (subs, w2) = ListSubscriptions 100 w1; (invoices, w3) = ListInvoices 100 w2
      in (Sends 200 (overview, rows_or_empty subs, rows_or_empty invoices), w3))"

record production_metrics =
  pd_overview :: BillingReport
  pd_running_proxies :: int
  pd_online_agents :: int
  pd_health_score :: string

definition AdminProductionMetrics :: "SystemMetricsService \<Rightarrow> world \<Rightarrow> production_metrics reply \<times> world" where
  "AdminProductionMetrics m w =
     (let (overview, w1) = BillingOverview w; (as, w2) = agentRepo_List w1
      in (Sends 200 \<lparr>pd_overview = overview, pd_running_proxies = sm_ProxyCount (GetCurrent m),
            pd_online_agents = agents_with ''healthy'' (rows_or_empty as), pd_health_score = fst (GetCurrentGrade w)\<rparr>, w2))"

definition AdminListAuditEvents :: "world \<Rightarrow> AuditEvent list reply \<times> world" where
  "AdminListAuditEvents w = answer 500 200 (ListAuditEvents 500 w)"

definition backup_configs :: "string list" where
  "backup_configs = [''config.production.yaml'', ''docker-compose.yml'']"

text \<open>The backup in JSON: the content type, the name of the attachment and the payload.\<close>

definition AdminExportBackup :: "(string \<Rightarrow> string option) \<Rightarrow> world \<Rightarrow> (string \<times> string \<times> BackupPayload) reply \<times> world" where
  "AdminExportBackup read_file w = (case backupPayload read_file backup_configs w of
     (Inl e, w1) \<Rightarrow> (Fails 500 (err_text e), w1)
   | (Inr payload, w1) \<Rightarrow> (Sends 200 (''application/json'', ''backup.json'', payload), w1))"

text \<open>A field of \<^verbatim>\<open>encoding/csv\<close>, quoted when it has to be.\<close>

definition csv_quoted :: "string \<Rightarrow> bool" where
  "csv_quoted s \<longleftrightarrow> s = [CHR 0x5C, CHR ''.''] \<or> (\<exists>c \<in> set s. c \<in> {CHR '','', CHR 0x22, CHR 0x0A, CHR 0x0D}) \<or>
     (s \<noteq> [] \<and> hd s \<in> {CHR '' '', CHR 0x09, CHR 0x0B, CHR 0x0C})"

definition csv_field :: "string \<Rightarrow> string" where
  "csv_field s = (if csv_quoted s
     then [CHR 0x22] @ concat (map (\<lambda>c. if c = CHR 0x22 then [c, c] else [c]) s) @ [CHR 0x22] else s)"

definition csv_record :: "string list \<Rightarrow> string" where
  "csv_record fs = join '','' (map csv_field fs) @ [CHR 0x0A]"

definition audit_csv :: "AuditLog list \<Rightarrow> string" where
  "audit_csv logs = csv_record [''ID'', ''Action'', ''Details'', ''Timestamp''] @
     concat (map (\<lambda>l. csv_record [itoa (int (al_ID l)), al_Action l, al_Details l, rfc3339 (al_Timestamp l)]) logs)"

datatype audit_body = AuditCsv string | AuditJson "AuditLog list"

definition ExportAuditLog :: "string \<Rightarrow> world \<Rightarrow> audit_body reply \<times> world" where
  "ExportAuditLog format w = (case auditLogRepo_List 1000 w of
     (Inl e, w1) \<Rightarrow> (Fails 500 (err_text e), w1)
   | (Inr logs, w1) \<Rightarrow> (Sends 200 (if format = ''csv'' then AuditCsv (audit_csv logs) else AuditJson logs), w1))"

section \<open>Customers and abuse\<close>

definition AdminSuspendCustomer :: "string \<Rightarrow> world \<Rightarrow> string reply \<times> world" where
  "AdminSuspendCustomer i w = confirm 400 ''customer suspended'' (billing_SuspendCustomer i w)"

definition AdminActivateCustomer :: "string \<Rightarrow> world \<Rightarrow> string reply \<times> world" where
  "AdminActivateCustomer i w = confirm 400 ''customer activated'' (ActivateCustomer i w)"

definition AdminListBlockedTargets :: "world \<Rightarrow> BlockedTarget list reply \<times> world" where
  "AdminListBlockedTargets w = answer 500 200 (ListBlockedTargets w)"

record target_input =
  ti_Type :: string
  ti_Value :: string
  ti_Reason :: string

definition AdminAddBlockedTarget :: "target_input result \<Rightarrow> world \<Rightarrow> BlockedTarget reply \<times> world" where
  "AdminAddBlockedTarget body = with_input (\<lambda>t. ti_Type t \<noteq> [] \<and> ti_Value t \<noteq> []) body (\<lambda>t w.
     answer 400 201 (AddBlockedTarget (ti_Type t) (ti_Value t) (ti_Reason t) w))"

definition AdminDeleteBlockedTarget :: "string \<Rightarrow> world \<Rightarrow> string reply \<times> world" where
  "AdminDeleteBlockedTarget i w = confirm 400 ''blocked target deleted'' (DeleteBlockedTarget i w)"

definition AdminAbuseDashboard :: "world \<Rightarrow> AbuseDashboard reply \<times> world" where
  "AdminAbuseDashboard w = (case abuse_Dashboard w of (d, w1) \<Rightarrow> (Sends 200 d, w1))"

definition AdminAbuseSuspendCustomer :: "string \<Rightarrow> world \<Rightarrow> string reply \<times> world" where
  "AdminAbuseSuspendCustomer i w = confirm 400 ''customer suspended'' (abuse_SuspendCustomer i w)"

definition AdminAbuseUnsuspendCustomer :: "string \<Rightarrow> world \<Rightarrow> string reply \<times> world" where
  "AdminAbuseUnsuspendCustomer i w = confirm 400 ''customer unsuspended'' (UnsuspendCustomer i w)"

definition AdminAbuseSuspendProxy :: "string \<Rightarrow> world \<Rightarrow> string reply \<times> world" where
  "AdminAbuseSuspendProxy i w = confirm 400 ''proxy suspended'' (SuspendProxy i w)"

definition AdminAbuseDisableCredential :: "string \<Rightarrow> world \<Rightarrow> string reply \<times> world" where
  "AdminAbuseDisableCredential i w = confirm 400 ''credential disabled'' (DisableCredential i w)"

definition AdminAbuseClearRisk :: "string \<Rightarrow> world \<Rightarrow> string reply \<times> world" where
  "AdminAbuseClearRisk i w = confirm 400 ''risk cleared'' (ClearRisk i w)"

section \<open>Pools and routing\<close>

definition api_ListPools :: "world \<Rightarrow> PoolOverview list reply \<times> world" where
  "api_ListPools w = answer 500 200 (ListPools w)"

definition GetPool :: "string \<Rightarrow> world \<Rightarrow> PoolOverview reply \<times> world" where
  "GetPool country w = answer 404 200 (pool_overview country True w)"

record pool_health =
  ph_country :: string
  ph_health :: string
  ph_available_proxies :: int
  ph_pool_size :: int
  ph_average_quality :: int
  ph_agent_redundancy :: int
  ph_country_redundancy :: int
  ph_active_sessions :: int

definition health_of_pool :: "PoolOverview \<Rightarrow> pool_health" where
  "health_of_pool p = \<lparr>ph_country = pool_Country (po_Pool p), ph_health = po_Health p, ph_available_proxies = po_AvailableProxies p,
     ph_pool_size = po_PoolSize p, ph_average_quality = po_AverageQuality p, ph_agent_redundancy = po_AgentRedundancy p,
     ph_country_redundancy = po_CountryRedundancy p, ph_active_sessions = po_ActiveSessions p\<rparr>"

definition GetPoolHealth :: "string \<Rightarrow> world \<Rightarrow> pool_health reply \<times> world" where
  "GetPoolHealth country w = (case pool_overview country False w of
     (Inl e, w1) \<Rightarrow> (Fails 404 (err_text e), w1) | (Inr p, w1) \<Rightarrow> (Sends 200 (health_of_pool p), w1))"

definition AdminRoutingDashboard :: "world \<Rightarrow> RoutingDashboard reply \<times> world" where
  "AdminRoutingDashboard w = answer 500 200 (routing_Dashboard w)"

record pool_input =
  oo_Country :: string
  oo_Region :: string
  oo_Strategy :: string

definition AdminCreatePool :: "pool_input result \<Rightarrow> world \<Rightarrow> string reply \<times> world" where
  "AdminCreatePool body = with_input (\<lambda>p. oo_Country p \<noteq> []) body (\<lambda>p w.
     (case CreatePool (oo_Country p) (oo_Region p) (oo_Strategy p) w of
        (Inl e, w1) \<Rightarrow> (Fails 400 (err_text e), w1) | (Inr _, w1) \<Rightarrow> (Sends 201 ''pool created'', w1)))"

definition AdminSyncPools :: "world \<Rightarrow> string reply \<times> world" where
  "AdminSyncPools w = confirm 500 ''pools synced'' (SyncPools w)"

definition AdminSelectProxy :: "RoutingSelectionInput result \<Rightarrow> world \<Rightarrow> Candidate reply \<times> world" where
  "AdminSelectProxy body = with_input (\<lambda>_. True) body (\<lambda>i w. answer 400 200 (SelectProxy i w))"

text \<open>The customer and the reason.\<close>

definition AdminRotateAllocation :: "string \<Rightarrow> (string \<times> string) result \<Rightarrow> world \<Rightarrow> Candidate reply \<times> world" where
  "AdminRotateAllocation i body = with_input (\<lambda>(c, _). c \<noteq> []) body (\<lambda>(c, reason) w.
     answer 400 200 (RotateAllocation c i reason w))"

definition AdminFailoverAllocation :: "string \<Rightarrow> string result \<Rightarrow> world \<Rightarrow> Candidate reply \<times> world" where
  "AdminFailoverAllocation i body = with_input (\<lambda>c. c \<noteq> []) body (\<lambda>c w. answer 400 200 (FailoverAllocation c i w))"

definition AdminCreateReservation :: "ProxyReservation result \<Rightarrow> world \<Rightarrow> ProxyReservation reply \<times> world" where
  "AdminCreateReservation body = with_input (\<lambda>_. True) body (\<lambda>r w. answer 400 201 (CreateReservation r w))"

end
