(* ===== verification/Router.thy ===== *)
theory Router imports ProxyApi AdminApi AgentGateway begin

text \<open>
  \<^verbatim>\<open>internal/api/router.go\<close> and the rate limiter of \<^verbatim>\<open>handler.go\<close>: a request passes the CORS and the rate-limit
  middleware and reaches the handler of its route. Of a reply only the status and the error text are kept here.
  gin's decoders of the bodies are the parameters of \<open>gin\<close>; the files of the web application are not modelled.
\<close>

section \<open>The application\<close>

text \<open>What gin reads from the text of a body, for each of the structs the handlers bind.\<close>

record gin =
  gin_agent :: "string \<Rightarrow> agent_input result"
  gin_heartbeat :: "string \<Rightarrow> heartbeat_input result"
  gin_command :: "string \<Rightarrow> command_input result"
  gin_vpn :: "string \<Rightarrow> vpn_input result"
  gin_credential :: "string \<Rightarrow> credential_input result"
  gin_express :: "string \<Rightarrow> express_input result"
  gin_serve :: "string \<Rightarrow> serve_input result"
  gin_proxy :: "string \<Rightarrow> proxy_input result"
  gin_login :: "string \<Rightarrow> login_input result"
  gin_allocate :: "string \<Rightarrow> allocate_input result"
  gin_name :: "string \<Rightarrow> string result"
  gin_whitelist :: "string \<Rightarrow> whitelist_input result"
  gin_proxy_plan :: "string \<Rightarrow> ProxyPlan result"
  gin_plan_days :: "string \<Rightarrow> (string \<times> int) result"
  gin_plan :: "string \<Rightarrow> (Plan \<times> (string \<times> string) list) result"
  gin_updates :: "string \<Rightarrow> (string \<times> jval) list result"
  gin_subscription :: "string \<Rightarrow> subscription_input result"
  gin_status :: "string \<Rightarrow> string result"
  gin_invoice :: "string \<Rightarrow> (string \<times> string) result"
  gin_target :: "string \<Rightarrow> target_input result"
  gin_pool :: "string \<Rightarrow> pool_input result"
  gin_selection :: "string \<Rightarrow> RoutingSelectionInput result"
  gin_rotation :: "string \<Rightarrow> (string \<times> string) result"
  gin_customer :: "string \<Rightarrow> string result"
  gin_reservation :: "string \<Rightarrow> ProxyReservation result"

text \<open>The collaborators of the handlers.\<close>

record app =
  app_gin :: gin
  app_drivers :: drivers
  app_hooks :: hooks
  app_vpn :: vpn_env
  app_customer :: CustomerService
  app_payment :: PaymentProvider
  app_draw :: "nat \<Rightarrow> nat option"
  app_bcrypt :: "string \<Rightarrow> string result"
  app_order :: "string list \<Rightarrow> string list"
  app_float :: "real \<Rightarrow> string"
  app_files :: "string \<Rightarrow> string option"

record server =
  sv_gw :: gateway
  sv_host :: vpn_host
  sv_locs :: LocationCache
  sv_metrics :: SystemMetricsService
  sv_dash :: DashboardWSGateway

definition NewHandler :: "gateway \<Rightarrow> vpn_host \<Rightarrow> SystemMetricsService \<Rightarrow> DashboardWSGateway \<Rightarrow> server" where
  "NewHandler gw h m dash =
     \<lparr>sv_gw = gw, sv_host = h, sv_locs = NewLocationCache (24 * hour), sv_metrics = m, sv_dash = dash\<rparr>"

record request =
  rq_method :: string
  rq_path :: string
  rq_ip :: string
  rq_auth :: string
  rq_query :: "string \<Rightarrow> string option"
  rq_body :: string
  rq_conn :: nat
  rq_refused :: "int option"

definition default_query :: "string \<Rightarrow> string \<Rightarrow> request \<Rightarrow> string" where
  "default_query k d rq = (case rq_query rq k of None \<Rightarrow> d | Some v \<Rightarrow> v)"

section \<open>Handlers on the state of the server\<close>

type_synonym handler = "request \<Rightarrow> string list \<Rightarrow> server \<Rightarrow> unit reply \<times> server"

definition sv_world :: "server \<Rightarrow> world" where
  "sv_world sv = cb_world (gw_bus (sv_gw sv))"

definition set_bus :: "CommandBus \<Rightarrow> server \<Rightarrow> server" where
  "set_bus b sv = sv\<lparr>sv_gw := (sv_gw sv)\<lparr>gw_bus := b\<rparr>\<rparr>"

definition set_world :: "world \<Rightarrow> server \<Rightarrow> server" where
  "set_world w sv = set_bus ((gw_bus (sv_gw sv))\<lparr>cb_world := w\<rparr>) sv"

abbreviation erase :: "'a reply \<Rightarrow> unit reply" where
  "erase r \<equiv> map_reply (\<lambda>_. ()) r"

definition on_db :: "(world \<Rightarrow> 'a reply \<times> world) \<Rightarrow> server \<Rightarrow> unit reply \<times> server" where
  "on_db m sv = (case m (sv_world sv) of (r, w) \<Rightarrow> (erase r, set_world w sv))"

definition on_bus :: "(CommandBus \<Rightarrow> 'a reply \<times> CommandBus) \<Rightarrow> server \<Rightarrow> unit reply \<times> server" where
  "on_bus m sv = (case m (gw_bus (sv_gw sv)) of (r, b) \<Rightarrow> (erase r, set_bus b sv))"

definition on_gw :: "(gateway \<Rightarrow> 'a reply \<times> gateway) \<Rightarrow> server \<Rightarrow> unit reply \<times> server" where
  "on_gw m sv = (case m (sv_gw sv) of (r, g) \<Rightarrow> (erase r, sv\<lparr>sv_gw := g\<rparr>))"

definition on_vpn :: "(vpn_state \<Rightarrow> 'a reply \<times> vpn_state) \<Rightarrow> server \<Rightarrow> unit reply \<times> server" where
  "on_vpn m sv = (case m (sv_host sv, sv_world sv) of (r, (h, w)) \<Rightarrow> (erase r, set_world w (sv\<lparr>sv_host := h\<rparr>)))"

definition on_locs :: "(time \<Rightarrow> LocationCache \<times> vpn_host \<Rightarrow> 'a reply \<times> (LocationCache \<times> vpn_host)) \<Rightarrow> server \<Rightarrow> unit reply \<times> server" where
  "on_locs m sv = (case m (clock (sv_world sv)) (sv_locs sv, sv_host sv) of
     (r, (c, h)) \<Rightarrow> (erase r, sv\<lparr>sv_locs := c, sv_host := h\<rparr>))"

text \<open>
  The handlers of web sockets are \<^verbatim>\<open>golang.org/x/net/websocket\<close> handlers: that package answers a handshake it does
  not accept (no web socket, no or an invalid \<^verbatim>\<open>Origin\<close>) with an error status, the request's \<open>rq_refused\<close>, and never
  calls the handler. Otherwise it answers 101, also when the agent's handshake is then refused by closing the socket.
\<close>

definition websocket_Handler :: "(request \<Rightarrow> server \<Rightarrow> server) \<Rightarrow> handler" where
  "websocket_Handler f rq ps sv = (case rq_refused rq of
     Some status \<Rightarrow> (Fails status [], sv) | None \<Rightarrow> (Sends 101 (), f rq sv))"

definition ws_agent :: handler where
  "ws_agent = websocket_Handler (\<lambda>rq sv.
     sv\<lparr>sv_gw := gw_connect (default_query ''token'' [] rq) (rq_auth rq) (sv_gw sv)\<rparr>)"

definition ws_dashboard :: handler where
  "ws_dashboard = websocket_Handler (\<lambda>rq sv. sv\<lparr>sv_dash := dashboard_join (rq_conn rq) (sv_dash sv)\<rparr>)"

section \<open>The routes\<close>

text \<open>A method, a pattern, and a handler, which is given the request and the values of the pattern's parameters.\<close>

type_synonym route = "string \<times> string \<times> handler"

definition vpn_routes :: "app \<Rightarrow> route list" where
  "vpn_routes a = (let g = app_gin a; drs = app_drivers a in
    [(''GET'', ''/api/vpns'', \<lambda>rq ps. on_db ListVPNs),
     (''POST'', ''/api/vpns'', \<lambda>rq ps. on_db (CreateVPN (gin_vpn g (rq_body rq)))),
     (''POST'', ''/api/vpns/:id/connect'', \<lambda>rq ps. on_vpn (ConnectVPN drs (hd ps))),
     (''POST'', ''/api/vpns/:id/disconnect'', \<lambda>rq ps. on_vpn (DisconnectVPN drs (hd ps))),
     (''DELETE'', ''/api/vpns/:id'', \<lambda>rq ps. on_vpn (DeleteVPN drs (hd ps))),
     (''POST'', ''/api/vpn/credentials'', \<lambda>rq ps. on_db (CreateCredential (ve_getenv (app_vpn a)) (gin_credential g (rq_body rq)))),
     (''GET'', ''/api/vpn/credentials'', \<lambda>rq ps. on_db ListCredentials),
     (''GET'', ''/api/vpn/expressvpn/locations'', \<lambda>rq ps. on_locs (ListLocations drs (app_order a) (default_query ''type'' ''expressvpn'' rq))),
     (''POST'', ''/api/vpn/expressvpn/nodes'', \<lambda>rq ps. on_db (CreateExpressVPNNode (gin_express g (rq_body rq)))),
     (''GET'', ''/api/vpn/:id/status'', \<lambda>rq ps. on_db (GetVPNStatus (hd ps))),
     (''POST'', ''/api/vpn/:id/connect-and-create-proxy'',
        \<lambda>rq ps. on_vpn (ConnectAndCreateProxy drs (app_hooks a) (hd ps) (gin_serve g (rq_body rq)))),
     (''POST'', ''/api/vpn/:id/validate'', \<lambda>rq ps. on_vpn (ValidateVPN (app_vpn a) drs (hd ps)))])"

definition proxy_routes :: "app \<Rightarrow> route list" where
  "proxy_routes a =
    [(''GET'', ''/api/proxies'', \<lambda>rq ps. on_db ListProxies),
     (''POST'', ''/api/proxies'', \<lambda>rq ps. on_db (CreateProxy (app_draw a) (app_bcrypt a) (gin_proxy (app_gin a) (rq_body rq)))),
     (''POST'', ''/api/proxies/:id/start'', \<lambda>rq ps. on_db (api_StartProxy (app_hooks a) (hd ps))),
     (''POST'', ''/api/proxies/:id/stop'', \<lambda>rq ps. on_db (api_StopProxy (hd ps))),
     (''DELETE'', ''/api/proxies/:id'', \<lambda>rq ps. on_db (DeleteProxy (hd ps))),
     (''GET'', ''/api/proxies/:id/metrics'', \<lambda>rq ps. on_db (GetProxyMetrics (hd ps))),
     (''GET'', ''/api/pools'', \<lambda>rq ps. on_db api_ListPools),
     (''GET'', ''/api/pools/:country'', \<lambda>rq ps. on_db (GetPool (hd ps))),
     (''GET'', ''/api/pools/:country/health'', \<lambda>rq ps. on_db (GetPoolHealth (hd ps))),
     (''GET'', ''/api/system/stats'', \<lambda>rq ps sv. on_db (GetSystemStats (sv_metrics sv)) sv),
     (''GET'', ''/api/system/logs'', \<lambda>rq ps. on_db GetLogs),
     (''GET'', ''/api/prometheus/metrics'', \<lambda>rq ps sv. on_db (GetPrometheusMetrics (app_float a) (sv_metrics sv)) sv)]"

definition agent_routes :: "app \<Rightarrow> route list" where
  "agent_routes a = (let g = app_gin a in
    [(''POST'', ''/api/agents/register'', \<lambda>rq ps. on_db (RegisterAgentWithToken (gin_agent g (rq_body rq)))),
     (''GET'', ''/api/agents'', \<lambda>rq ps. on_db ListAgents),
     (''GET'', ''/api/agents/:id'', \<lambda>rq ps. on_db (GetAgent (hd ps))),
     (''DELETE'', ''/api/agents/:id'', \<lambda>rq ps. on_db (DeleteAgent (hd ps))),
     (''POST'', ''/api/agents/:id/heartbeat'', \<lambda>rq ps. on_db (ReceiveHeartbeat (hd ps) (gin_heartbeat g (rq_body rq)))),
     (''POST'', ''/api/agents/:id/rotate-token'', \<lambda>rq ps. on_db (RotateToken (hd ps))),
     (''POST'', ''/api/agents/:id/revoke'', \<lambda>rq ps. on_gw (RevokeAgent (hd ps))),
     (''POST'', ''/api/agents/:id/commands'', \<lambda>rq ps. on_bus (CreateAgentCommand (hd ps) (gin_command g (rq_body rq)))),
     (''GET'', ''/api/agents/:id/commands'', \<lambda>rq ps. on_db (ListAgentCommands (hd ps))),
     (''GET'', ''/api/commands'', \<lambda>rq ps. on_db ListCommands),
     (''GET'', ''/api/commands/:id'', \<lambda>rq ps. on_db (GetCommandStatus (hd ps))),
     (''GET'', ''/api/audit/export'', \<lambda>rq ps. on_db (ExportAuditLog (default_query ''format'' ''json'' rq)))])"

text \<open>The routes a customer calls without a token.\<close>

definition public_routes :: "app \<Rightarrow> route list" where
  "public_routes a = (let g = app_gin a; svc = app_customer a in
    [(''POST'', ''/api/customer/register'', \<lambda>rq ps. on_db (CustomerRegister svc (gin_login g (rq_body rq)))),
     (''POST'', ''/api/customer/login'', \<lambda>rq ps. on_db (CustomerLogin svc (gin_login g (rq_body rq)))),
     (''GET'', ''/api/customer/plans'', \<lambda>rq ps. on_db CustomerListPlans)])"

definition customer_routes :: "app \<Rightarrow> route list" where
  "customer_routes a = (let g = app_gin a; svc = app_customer a in
    [(''GET'', ''/api/customer/proxies'', \<lambda>rq ps. on_db (CustomerListProxies (rq_auth rq))),
     (''POST'', ''/api/customer/proxies/allocate'', \<lambda>rq ps. on_db (CustomerAllocateProxy svc (rq_auth rq) (gin_allocate g (rq_body rq)))),
     (''POST'', ''/api/customer/proxies/:id/rotate-credential'', \<lambda>rq ps. on_db (CustomerRotateCredential svc (rq_auth rq) (hd ps))),
     (''POST'', ''/api/customer/proxies/:id/rotate'', \<lambda>rq ps. on_db (CustomerRotateProxy svc (rq_auth rq) (hd ps))),
     (''DELETE'', ''/api/customer/proxies/:id'', \<lambda>rq ps. on_db (CustomerReleaseProxy (rq_auth rq) (hd ps))),
     (''GET'', ''/api/customer/proxies/export'', \<lambda>rq ps. on_db (CustomerExportProxies (rq_auth rq) (default_query ''format'' ''txt'' rq))),
     (''GET'', ''/api/customer/usage'', \<lambda>rq ps. on_db (CustomerUsage svc (rq_auth rq))),
     (''POST'', ''/api/customer/api-keys'', \<lambda>rq ps. on_db (CustomerCreateAPIKey (rq_auth rq) (gin_name g (rq_body rq)))),
     (''DELETE'', ''/api/customer/api-keys/:id'', \<lambda>rq ps. on_db (CustomerDeleteAPIKey (rq_auth rq) (hd ps))),
     (''GET'', ''/api/customer/subscription/usage'', \<lambda>rq ps. on_db (CustomerSubscriptionUsage (rq_auth rq))),
     (''GET'', ''/api/customer/ip-whitelist'', \<lambda>rq ps. on_db (CustomerListIPWhitelist (rq_auth rq))),
     (''POST'', ''/api/customer/ip-whitelist'', \<lambda>rq ps. on_db (CustomerAddIPWhitelist (rq_auth rq) (gin_whitelist g (rq_body rq)))),
     (''DELETE'', ''/api/customer/ip-whitelist/:id'', \<lambda>rq ps. on_db (CustomerDeleteIPWhitelist (rq_auth rq) (hd ps))),
     (''GET'', ''/api/customer/security'', \<lambda>rq ps. on_db (CustomerSecurityDashboard (rq_auth rq)))])"

definition billing_routes :: "app \<Rightarrow> route list" where
  "billing_routes a = (let g = app_gin a; pay = app_payment a in
    [(''POST'', ''/api/admin/plans'', \<lambda>rq ps. on_db (AdminCreatePlan (gin_proxy_plan g (rq_body rq)))),
     (''POST'', ''/api/admin/customers/:id/subscriptions'', \<lambda>rq ps. on_db (AdminCreateSubscription (hd ps) (gin_plan_days g (rq_body rq)))),
     (''GET'', ''/api/admin/billing/overview'', \<lambda>rq ps. on_db AdminBillingOverview),
     (''GET'', ''/api/admin/metrics'', \<lambda>rq ps sv. on_db (AdminProductionMetrics (sv_metrics sv)) sv),
     (''GET'', ''/api/admin/billing/plans'', \<lambda>rq ps. on_db AdminListCommercialPlans),
     (''POST'', ''/api/admin/billing/plans'', \<lambda>rq ps. on_db (AdminCreateCommercialPlan (gin_plan g (rq_body rq)))),
     (''PUT'', ''/api/admin/billing/plans/:id'', \<lambda>rq ps. on_db (AdminUpdateCommercialPlan (hd ps) (gin_updates g (rq_body rq)))),
     (''POST'', ''/api/admin/billing/subscriptions'', \<lambda>rq ps. on_db (AdminCreateCommercialSubscription (gin_subscription g (rq_body rq)))),
     (''POST'', ''/api/admin/billing/subscriptions/:id/status'',
        \<lambda>rq ps. on_db (AdminUpdateSubscriptionStatus (hd ps) (gin_status g (rq_body rq)))),
     (''POST'', ''/api/admin/billing/invoices'', \<lambda>rq ps. on_db (AdminGenerateInvoice pay (gin_invoice g (rq_body rq)))),
     (''POST'', ''/api/admin/billing/invoices/:id/paid'', \<lambda>rq ps. on_db (AdminMarkInvoicePaid (hd ps))),
     (''POST'', ''/api/admin/billing/invoices/:id/verify'', \<lambda>rq ps. on_db (AdminVerifyInvoicePayment pay (hd ps))),
     (''POST'', ''/api/admin/billing/invoices/:id/refund'', \<lambda>rq ps. on_db (AdminRefundInvoice pay (hd ps))),
     (''GET'', ''/api/admin/billing/invoices/:id/payment-status'', \<lambda>rq ps. on_db (AdminInvoicePaymentStatus pay (hd ps))),
     (''POST'', ''/api/admin/customers/:id/suspend'', \<lambda>rq ps. on_db (AdminSuspendCustomer (hd ps))),
     (''POST'', ''/api/admin/customers/:id/activate'', \<lambda>rq ps. on_db (AdminActivateCustomer (hd ps))),
     (''GET'', ''/api/admin/audit-events'', \<lambda>rq ps. on_db AdminListAuditEvents),
     (''GET'', ''/api/admin/backup/export'', \<lambda>rq ps. on_db (AdminExportBackup (app_files a)))])"

definition control_routes :: "app \<Rightarrow> route list" where
  "control_routes a = (let g = app_gin a in
    [(''GET'', ''/api/admin/blocked-targets'', \<lambda>rq ps. on_db AdminListBlockedTargets),
     (''POST'', ''/api/admin/blocked-targets'', \<lambda>rq ps. on_db (AdminAddBlockedTarget (gin_target g (rq_body rq)))),
     (''DELETE'', ''/api/admin/blocked-targets/:id'', \<lambda>rq ps. on_db (AdminDeleteBlockedTarget (hd ps))),
     (''GET'', ''/api/admin/abuse/dashboard'', \<lambda>rq ps. on_db AdminAbuseDashboard),
     (''POST'', ''/api/admin/abuse/customers/:id/suspend'', \<lambda>rq ps. on_db (AdminAbuseSuspendCustomer (hd ps))),
     (''POST'', ''/api/admin/abuse/customers/:id/unsuspend'', \<lambda>rq ps. on_db (AdminAbuseUnsuspendCustomer (hd ps))),
     (''POST'', ''/api/admin/abuse/proxies/:id/suspend'', \<lambda>rq ps. on_db (AdminAbuseSuspendProxy (hd ps))),
     (''POST'', ''/api/admin/abuse/credentials/:id/disable'', \<lambda>rq ps. on_db (AdminAbuseDisableCredential (hd ps))),
     (''POST'', ''/api/admin/abuse/customers/:id/clear-risk'', \<lambda>rq ps. on_db (AdminAbuseClearRisk (hd ps))),
     (''GET'', ''/api/admin/routing/dashboard'', \<lambda>rq ps. on_db AdminRoutingDashboard),
     (''POST'', ''/api/admin/routing/pools'', \<lambda>rq ps. on_db (AdminCreatePool (gin_pool g (rq_body rq)))),
     (''POST'', ''/api/admin/routing/pools/sync'', \<lambda>rq ps. on_db AdminSyncPools),
     (''POST'', ''/api/admin/routing/select'', \<lambda>rq ps. on_db (AdminSelectProxy (gin_selection g (rq_body rq)))),
     (''POST'', ''/api/admin/routing/allocations/:id/rotate'', \<lambda>rq ps. on_db (AdminRotateAllocation (hd ps) (gin_rotation g (rq_body rq)))),
     (''POST'', ''/api/admin/routing/allocations/:id/failover'', \<lambda>rq ps. on_db (AdminFailoverAllocation (hd ps) (gin_customer g (rq_body rq)))),
     (''POST'', ''/api/admin/routing/reservations'', \<lambda>rq ps. on_db (AdminCreateReservation (gin_reservation g (rq_body rq))))])"

definition socket_routes :: "route list" where
  "socket_routes = [(''GET'', ''/ws'', ws_dashboard), (''GET'', ''/ws/dashboard'', ws_dashboard), (''GET'', ''/ws/agent'', ws_agent)]"

definition api_routes :: "app \<Rightarrow> route list" where
  "api_routes a = vpn_routes a @ proxy_routes a @ agent_routes a @ public_routes a @ customer_routes a @ billing_routes a
     @ control_routes a @ socket_routes"

section \<open>Finding the route\<close>

text \<open>A segment that starts with a colon takes any value but the empty one.\<close>

fun match_segments :: "string list \<Rightarrow> string list \<Rightarrow> string list option" where
  "match_segments [] [] = Some []"
| "match_segments (p # ps) (s # ss) =
     (if has_prefix p '':'' then (if s = [] then None else map_option ((#) s) (match_segments ps ss))
      else if p = s then match_segments ps ss else None)"
| "match_segments _ _ = None"

definition segments :: "string \<Rightarrow> string list" where
  "segments path = split_on (CHR ''/'') path"

fun find_route :: "route list \<Rightarrow> string \<Rightarrow> string \<Rightarrow> (handler \<times> string list) option" where
  "find_route [] m path = None"
| "find_route ((m', pat, h) # rs) m path =
     (case (if m' = m then match_segments (segments pat) (segments path) else None) of
        Some ps \<Rightarrow> Some (h, ps) | None \<Rightarrow> find_route rs m path)"

section \<open>The middleware\<close>

text \<open>Who is counted, in which scope, and how many requests a minute.\<close>

definition bearer_identity :: "(Principal \<Rightarrow> string) \<Rightarrow> string \<Rightarrow> string \<Rightarrow> world \<Rightarrow> string \<times> world" where
  "bearer_identity f ip header w = (case AuthenticateBearer header w of (Inl _, w1) \<Rightarrow> (ip, w1) | (Inr p, w1) \<Rightarrow> (f p, w1))"

definition api_identity :: "Principal \<Rightarrow> string" where
  "api_identity p = (if pr_APIKeyID p = [] then principal_id p else pr_APIKeyID p)"

definition rate_class :: "request \<Rightarrow> world \<Rightarrow> (string \<times> string \<times> int) \<times> world" where
  "rate_class rq w =
     (let path = rq_path rq; ip = rq_ip rq; bearer = (\<lambda>f. bearer_identity f ip (rq_auth rq) w) in
      if contains path ''/customer/login'' \<or> contains path ''/customer/register'' then ((ip, ''login'', 10), w)
      else if contains path ''/agents/'' \<or> has_suffix path ''/agents'' \<or> contains path ''/commands'' \<or> contains path ''/ws/agent''
        then ((ip, ''agent-control'', 2000), w)
      else if contains path ''/system/'' \<or> contains path ''/prometheus/'' then ((ip, ''system-observability'', 600), w)
      else if contains path ''/customer/proxies/allocate''
        then (case bearer principal_id of (i, w1) \<Rightarrow> ((i, ''proxy-allocation'', 20), w1))
      else if contains path ''/admin/'' then ((ip, ''admin'', 300), w)
      else if contains path ''/customer/'' then (case bearer api_identity of (i, w1) \<Rightarrow> ((i, ''customer-api'', 120), w1))
      else ((ip, ''api'', 120), w))"

text \<open>Whether the request goes on.\<close>

definition RateLimitMiddleware :: "request \<Rightarrow> world \<Rightarrow> bool \<times> world" where
  "RateLimitMiddleware rq w =
     (case rate_class rq w of ((identity, scope, limit), w1) \<Rightarrow>
        if rq_method rq = ''OPTIONS'' then (True, w1)
        else case CheckAPIRate identity scope limit minute w1 of
          (True, w2) \<Rightarrow> (True, w2)
        | (False, w2) \<Rightarrow> (False, Audit identity ''api'' ''RATE_LIMIT_TRIGGERED'' (rq_path rq) ''api''
            (Some [(''limit'', JInt limit), (''scope'', jval.JStr scope)]) w2))"

section \<open>The server\<close>

definition route_request :: "app \<Rightarrow> request \<Rightarrow> server \<Rightarrow> unit reply \<times> server" where
  "route_request a rq sv = (case find_route (api_routes a) (rq_method rq) (rq_path rq) of
     None \<Rightarrow> (Fails 404 ''404 page not found'', sv) | Some (h, ps) \<Rightarrow> h rq ps sv)"

text \<open>A preflight request ends in the CORS middleware.\<close>

definition serve :: "app \<Rightarrow> request \<Rightarrow> server \<Rightarrow> unit reply \<times> server" where
  "serve a rq sv =
     (if rq_method rq = ''OPTIONS'' then (Sends 204 (), sv)
      else case RateLimitMiddleware rq (sv_world sv) of
        (False, w) \<Rightarrow> (Fails 429 ''rate limit exceeded'', set_world w sv)
      | (True, w) \<Rightarrow> route_request a rq (set_world w sv))"

end
