(* ===== verification/RouterFacts.thy ===== *)
theory RouterFacts imports Router AgentGatewayFacts begin

text \<open>
  The router: no request matches two routes, the customers' routes do nothing without a live token, and the routes for
  administrators never ask for one.
\<close>

section \<open>The table of routes is unambiguous\<close>

definition is_param :: "string \<Rightarrow> bool" where "is_param p = has_prefix p '':''"
fun compatible :: "string list \<Rightarrow> string list \<Rightarrow> bool" where
  "compatible [] [] = True"
| "compatible (p # ps) (q # qs) = (if p = q \<or> is_param p \<or> is_param q then compatible ps qs else False)"
| "compatible _ _ = False"

lemma match_compatible: "match_segments p s = Some x \<Longrightarrow> match_segments q s = Some y \<Longrightarrow> compatible p q"
  by (induction p s arbitrary: q x y rule: match_segments.induct)
    (case_tac q; auto simp: is_param_def split: if_splits)+

definition route_key :: "route \<Rightarrow> string \<times> string list" where
  "route_key r = (case r of (m, p, h) \<Rightarrow> (m, segments p))"

fun unambiguous :: "(string \<times> string list) list \<Rightarrow> bool" where
  "unambiguous [] = True"
| "unambiguous (k # ks) = (list_all (\<lambda>k'. if fst k = fst k' then \<not> compatible (snd k) (snd k') else True) ks \<and> unambiguous ks)"




definition heads :: "nat \<Rightarrow> (string \<times> string list) list \<Rightarrow> string list list" where
  "heads n ks = remdups (map (\<lambda>k. take n (snd k)) ks)"

definition apart :: "nat \<Rightarrow> (string \<times> string list) list \<Rightarrow> (string \<times> string list) list \<Rightarrow> bool" where
  "apart n xs ys = (let hs = heads n xs; ks = heads n ys in
     list_all (\<lambda>h. \<not> list_ex is_param h) hs \<and> list_all (\<lambda>h. \<not> list_ex is_param h) ks \<and>
     list_all (\<lambda>h. \<not> List.member ks h) hs)"

lemma compatible_heads:
  "compatible p q \<Longrightarrow> \<not> list_ex is_param (take n p) \<Longrightarrow> \<not> list_ex is_param (take n q) \<Longrightarrow> take n p = take n q"
proof (induction p q arbitrary: n rule: compatible.induct)
  case (2 p ps q qs)
  then show ?case by (cases n) (auto split: if_splits)
qed auto

lemma unambiguous_append: "unambiguous xs \<Longrightarrow> unambiguous ys \<Longrightarrow> apart n xs ys \<Longrightarrow> unambiguous (xs @ ys)"
proof (induction xs)
  case (Cons k xs)
  have h: "set (heads n zs) = (\<lambda>k. take n (snd k)) ` set zs" for zs :: "(string \<times> string list) list" by (simp add: heads_def)
  have a: "\<not> compatible (snd k) (snd k')" if "k' \<in> set ys" for k'
    using Cons.prems(3) that compatible_heads [of "snd k" "snd k'" n] by (auto simp: apart_def list_all_iff Let_def h)
  have "apart n xs ys" using Cons.prems(3) by (auto simp: apart_def list_all_iff Let_def h)
  then have "unambiguous (xs @ ys)" using Cons.IH Cons.prems by simp
  moreover have "\<forall>k' \<in> set xs. if fst k = fst k' then \<not> compatible (snd k) (snd k') else True"
    using Cons.prems(1) by (simp add: list_all_iff)
  ultimately show ?case using a by (auto simp: list_all_iff)
qed simp

lemma route_key_simp: "route_key (m, p, h) = (m, segments p)" by (simp add: route_key_def)
lemmas tables = vpn_routes_def proxy_routes_def agent_routes_def public_routes_def customer_routes_def billing_routes_def
  control_routes_def socket_routes_def Let_def list.map append.simps route_key_simp

text \<open>The groups of the table, and what tells them apart: the first three or four segments.\<close>

lemma group_routes:
  "unambiguous (map route_key (vpn_routes a))" "unambiguous (map route_key (proxy_routes a))"
  "unambiguous (map route_key (agent_routes a))" "unambiguous (map route_key (public_routes a @ customer_routes a))"
  "unambiguous (map route_key (billing_routes a))" "unambiguous (map route_key (control_routes a))"
  "unambiguous (map route_key socket_routes)"
  unfolding tables by code_simp+

lemma groups_apart:
  "apart 4 (map route_key (billing_routes a)) (map route_key (control_routes a))"
  "apart 3 (map route_key (billing_routes a @ control_routes a)) (map route_key socket_routes)"
  "apart 3 (map route_key (public_routes a @ customer_routes a)) (map route_key (billing_routes a @ control_routes a @ socket_routes))"
  "apart 3 (map route_key (agent_routes a)) (map route_key (public_routes a @ customer_routes a @ billing_routes a @ control_routes a @ socket_routes))"
  unfolding tables by code_simp+

lemma front_apart:
  "apart 3 (map route_key (proxy_routes a)) (map route_key (agent_routes a @ public_routes a @ customer_routes a @ billing_routes a
     @ control_routes a @ socket_routes))"
  "apart 3 (map route_key (vpn_routes a)) (map route_key (proxy_routes a @ agent_routes a @ public_routes a @ customer_routes a
     @ billing_routes a @ control_routes a @ socket_routes))"
  unfolding tables by code_simp+

lemma routes_distinct: "unambiguous (map route_key (api_routes a))"
proof -
  have "unambiguous (map route_key (billing_routes a @ control_routes a))"
    unfolding map_append by (rule unambiguous_append [OF group_routes(5,6) groups_apart(1)])
  then have "unambiguous (map route_key (billing_routes a @ control_routes a @ socket_routes))"
    using unambiguous_append [OF _ group_routes(7) groups_apart(2), of a] by simp
  then have "unambiguous (map route_key (public_routes a @ customer_routes a @ billing_routes a @ control_routes a @ socket_routes))"
    using unambiguous_append [OF group_routes(4) _ groups_apart(3), of a] by simp
  then have "unambiguous (map route_key (agent_routes a @ public_routes a @ customer_routes a @ billing_routes a @ control_routes a
      @ socket_routes))"
    unfolding map_append [of _ "agent_routes a"] by (rule unambiguous_append [OF group_routes(3) _ groups_apart(4)])
  then have "unambiguous (map route_key (proxy_routes a @ agent_routes a @ public_routes a @ customer_routes a @ billing_routes a
      @ control_routes a @ socket_routes))"
    unfolding map_append [of _ "proxy_routes a"] by (rule unambiguous_append [OF group_routes(2) _ front_apart(1)])
  then have "unambiguous (map route_key (vpn_routes a @ proxy_routes a @ agent_routes a @ public_routes a @ customer_routes a
      @ billing_routes a @ control_routes a @ socket_routes))"
    unfolding map_append [of _ "vpn_routes a"] by (rule unambiguous_append [OF group_routes(1) _ front_apart(2)])
  then show ?thesis by (simp only: api_routes_def)
qed

definition route_matches :: "string \<Rightarrow> string \<Rightarrow> route \<Rightarrow> string list option" where
  "route_matches m path r = (case r of (m', pat, h) \<Rightarrow> if m' = m then match_segments (segments pat) (segments path) else None)"

lemma find_route_member: "find_route rs m path = Some (h, ps) \<Longrightarrow> \<exists>r \<in> set rs. snd (snd r) = h \<and> route_matches m path r = Some ps"
  by (induction rs m path rule: find_route.induct) (auto simp: route_matches_def split: option.splits if_splits)

lemma find_route_none: "find_route rs m path = None \<longleftrightarrow> (\<forall>r \<in> set rs. route_matches m path r = None)"
  by (induction rs m path rule: find_route.induct) (auto simp: route_matches_def split: option.splits)

lemma matches_once:
  "unambiguous (map route_key rs) \<Longrightarrow> r \<in> set rs \<Longrightarrow> r' \<in> set rs \<Longrightarrow> route_matches m path r = Some ps \<Longrightarrow>
    route_matches m path r' = Some ps' \<Longrightarrow> r = r'"
proof (induction rs)
  case (Cons q rs)
  have k: "\<not> (route_matches m path q = Some x \<and> route_matches m path q' = Some y)" if "q' \<in> set rs" for q' x y
  proof
    assume h: "route_matches m path q = Some x \<and> route_matches m path q' = Some y"
    obtain m1 p1 h1 m2 p2 h2 where q: "q = (m1, p1, h1)" "q' = (m2, p2, h2)" by (metis prod_cases3)
    have "compatible (segments p1) (segments p2)" "m1 = m2"
      using h match_compatible by (auto simp: q route_matches_def split: if_splits)
    moreover have "if fst (route_key q) = fst (route_key q') then \<not> compatible (snd (route_key q)) (snd (route_key q')) else True"
      using Cons.prems(1) that by (simp add: list_all_iff)
    ultimately show False by (simp add: q route_key_simp)
  qed
  have u: "unambiguous (map route_key rs)" using Cons.prems(1) by simp
  show ?case
  proof (rule ccontr)
    assume ne: "r \<noteq> r'"
    have "r = q \<or> r \<in> set rs" "r' = q \<or> r' \<in> set rs" using Cons.prems(2,3) by auto
    then consider "r = q" "r' \<in> set rs" | "r' = q" "r \<in> set rs" | "r \<in> set rs" "r' \<in> set rs" using ne by blast
    then show False
    proof cases
      case 1
      then show False using k [OF 1(2), of ps ps'] Cons.prems(4,5) by blast
    next
      case 2
      then show False using k [OF 2(2), of ps' ps] Cons.prems(4,5) by blast
    next
      case 3
      then show False using Cons.IH [OF u _ _ Cons.prems(4,5)] ne by blast
    qed
  qed
qed simp

lemma find_route_only:
  assumes "unambiguous (map route_key rs)" and "r \<in> set rs" and "route_matches m path r = Some ps"
  shows "find_route rs m path = Some (snd (snd r), ps)"
proof (cases "find_route rs m path")
  case None
  then show ?thesis using assms(2,3) by (auto simp: find_route_none)
next
  case (Some x)
  obtain h qs where x: "x = (h, qs)" by fastforce
  then obtain r' where r': "r' \<in> set rs" "snd (snd r') = h" "route_matches m path r' = Some qs"
    using find_route_member Some by blast
  then have "r' = r" using matches_once [OF assms(1)] assms(2,3) by blast
  then show ?thesis using r' assms(3) Some x by simp
qed

text \<open>
  The order of the routes does not matter: in whatever order the routes are registered, a method and a path reach
  the same handler with the same parameters. No request matches two of the 90 routes.
\<close>

theorem routes_order_irrelevant:
  assumes "set rs = set (api_routes a)"
  shows "find_route rs m path = find_route (api_routes a) m path"
proof (cases "find_route rs m path")
  case None
  then show ?thesis using assms by (metis find_route_none)
next
  case (Some x)
  obtain h ps where x: "x = (h, ps)" by fastforce
  then obtain r where "r \<in> set rs" "snd (snd r) = h" "route_matches m path r = Some ps" using find_route_member Some by blast
  then show ?thesis using find_route_only [OF routes_distinct] assms Some x by metis
qed

section \<open>The customers' routes\<close>

text \<open>A token that some session or key of the database stands for.\<close>

definition live_token :: "string \<Rightarrow> world \<Rightarrow> bool" where
  "live_token header w \<longleftrightarrow> has_prefix header ''Bearer '' \<and>
     ((\<exists>s \<in> set (customer_sessions w). cs_TokenHash s = sha256Hex (bearer_token header) \<and> cs_RevokedAt s = None \<and>
         clock w \<le> cs_ExpiresAt s) \<or>
      (\<exists>k \<in> set (customer_api_keys w). ck_KeyHash k = sha256Hex (bearer_token header) \<and> ck_Status k = ''active''))"

text \<open>All that a refused request may change: the limiter's memory, the audit trail and its ids.\<close>

definition audit_only :: "world \<Rightarrow> world \<Rightarrow> bool" where
  "audit_only w w' \<longleftrightarrow> (\<exists>f u ev m. w' = w\<lparr>faults := f, uuid_next := u, audit_events := ev, abuse_mem := m\<rparr>)"

lemma faults_same: "w\<lparr>faults := faults w\<rparr> = (w :: world)"
  by simp

lemma audit_only_refl: "audit_only w w"
  unfolding audit_only_def by (intro exI [of _ "faults w"] exI [of _ "uuid_next w"] exI [of _ "audit_events w"] exI [of _ "abuse_mem w"]) simp

lemma audit_only_faults: "audit_only w (w\<lparr>faults := f\<rparr>)"
  unfolding audit_only_def by (intro exI [of _ f] exI [of _ "uuid_next w"] exI [of _ "audit_events w"] exI [of _ "abuse_mem w"]) simp

lemma audit_only_mem: "audit_only w (w\<lparr>abuse_mem := m\<rparr>)"
  unfolding audit_only_def by (intro exI [of _ "faults w"] exI [of _ "uuid_next w"] exI [of _ "audit_events w"] exI [of _ m]) simp

lemma audit_only_trans: "audit_only a b \<Longrightarrow> audit_only b c \<Longrightarrow> audit_only a c"
  unfolding audit_only_def by (elim exE) (simp, metis)

lemma live_token_audit: "audit_only w w' \<Longrightarrow> live_token header w' = live_token header w"
  by (auto simp: audit_only_def live_token_def)

lemma db_first_world: "\<exists>f. snd (db_first sc P w) = w\<lparr>faults := f\<rparr>"
  unfolding db_first_def stmt_def
  by (cases "faults w") (auto split: option.split intro: exI [of _ "faults w"])

lemma dead_token_refused:
  assumes "\<not> live_token header w"
  shows "\<exists>e f. AuthenticateBearer header w = (Inl e, w\<lparr>faults := f\<rparr>)"
proof (cases "has_prefix header ''Bearer ''")
  case False
  then show ?thesis unfolding AuthenticateBearer_def using faults_same [of w] by (metis (no_types))
next
  case True
  let ?h = "sha256Hex (bearer_token header)"
  let ?P = "\<lambda>s. cs_TokenHash s = ?h \<and> cs_RevokedAt s = None"
  let ?Q = "\<lambda>k. ck_KeyHash k = ?h \<and> ck_Status k = ''active''"
  obtain r w1 where q: "db_first CustomerSession_schema ?P w = (r, w1)" by fastforce
  obtain f where f: "w1 = w\<lparr>faults := f\<rparr>" using db_first_world [of CustomerSession_schema ?P w] by (auto simp: q)
  have a: "AuthenticateBearer header w = authenticate_hash ?h w" using True by (simp add: AuthenticateBearer_def)
  show ?thesis
  proof (cases r)
    case (Inr s)
    then have "cs_ExpiresAt s < clock w"
      using customer_sessions_table.first_row [of ?P w s w1] q assms True by (force simp: live_token_def not_le)
    then show ?thesis using q Inr f by (auto simp: a authenticate_hash_def)
  next
    case (Inl e)
    obtain r2 w2 where q2: "db_first CustomerApiKey_schema ?Q w1 = (r2, w2)" by fastforce
    obtain f2 where f2: "w2 = w1\<lparr>faults := f2\<rparr>" using db_first_world [of CustomerApiKey_schema ?Q w1] by (auto simp: q2)
    have "r2 \<noteq> Inr k" for k
      using customer_api_keys_table.first_row [of ?Q w1 k w2] q2 assms True by (auto simp: live_token_def f)
    then obtain e2 where "r2 = Inl e2" by (cases r2) auto
    then show ?thesis using q Inl q2 f f2 by (auto simp: a authenticate_hash_def)
  qed
qed

lemma audit_event_world: "\<exists>f ev. snd (db_create AuditEvent_schema r w) = w\<lparr>faults := f, audit_events := ev\<rparr>"
proof -
  have u: "audit_events_update g v = v\<lparr>audit_events := g (audit_events v)\<rparr>" for g v by (cases v) simp
  have "\<exists>ok f. stmt w = (ok, w\<lparr>faults := f\<rparr>)"
  proof (cases "faults w")
    case Nil
    then show ?thesis using faults_same [of w] unfolding stmt_def by (intro exI [of _ True] exI [of _ "faults w"]) simp
  next
    case (Cons o1 rest)
    then show ?thesis unfolding stmt_def by (intro exI [of _ o1] exI [of _ rest]) simp
  qed
  then obtain ok f where st: "stmt w = (ok, w\<lparr>faults := f\<rparr>)" by blast
  have e: "\<exists>f ev. w\<lparr>faults := g\<rparr> = w\<lparr>faults := f, audit_events := ev\<rparr>" for g
    by (intro exI [of _ g] exI [of _ "audit_events w"]) simp
  have k: "\<exists>f ev. audit_events_update h (w\<lparr>faults := g\<rparr>) = w\<lparr>faults := f, audit_events := ev\<rparr>" for g h
    using u [of h "w\<lparr>faults := g\<rparr>"] by blast
  show ?thesis by (cases ok) (simp_all add: db_create_def st Let_def e k)
qed

lemma Audit_only: "audit_only w (Audit a b c d e m w)"
proof -
  obtain f ev where "Audit a b c d e m w = w\<lparr>uuid_next := Suc (uuid_next w)\<rparr>\<lparr>faults := f, audit_events := ev\<rparr>"
    unfolding Audit_def new_uuid_def Let_def prod.case using audit_event_world by blast
  then show ?thesis unfolding audit_only_def
    by (intro exI [of _ f] exI [of _ "Suc (uuid_next w)"] exI [of _ ev] exI [of _ "abuse_mem w"]) simp
qed

lemma CheckAPIRate_only: "CheckAPIRate i s l d w = (b, w') \<Longrightarrow> audit_only w w'"
proof -
  have "abuse_mem_update g w = w\<lparr>abuse_mem := g (abuse_mem w)\<rparr>" for g by (cases w) simp
  then have "audit_only w (abuse_mem_update g w)" for g by (metis audit_only_mem)
  then show "CheckAPIRate i s l d w = (b, w') \<Longrightarrow> audit_only w w'"
    by (auto simp: CheckAPIRate_def checkRequestRate_def Let_def split: if_splits)
qed

lemma bearer_identity_dead: "\<not> live_token header w \<Longrightarrow> bearer_identity f ip header w = (i, w') \<Longrightarrow> i = ip \<and> audit_only w w'"
  using dead_token_refused [of header w] by (auto simp: bearer_identity_def audit_only_faults)

lemma middleware_only:
  assumes "\<not> live_token (rq_auth rq) w" and "RateLimitMiddleware rq w = (go, w')"
  shows "audit_only w w'"
proof -
  obtain i s l w1 where c: "rate_class rq w = ((i, s, l), w1)" by (metis surj_pair)
  have 1: "audit_only w w1"
    using c bearer_identity_dead [OF assms(1)] audit_only_refl [of w]
    by (auto simp: rate_class_def Let_def split: if_splits prod.splits)
  obtain b w2 where k: "CheckAPIRate i s l minute w1 = (b, w2)" by fastforce
  note 2 = CheckAPIRate_only [OF k]
  show ?thesis
    using assms(2) 1 audit_only_trans [OF 1 2] audit_only_trans [OF audit_only_trans [OF 1 2] Audit_only]
    by (cases b) (auto simp: RateLimitMiddleware_def c k split: if_splits)
qed

lemma principal_route:
  assumes "\<not> live_token (rq_auth rq) (sv_world sv)"
  shows "\<exists>e f. on_db (with_principal (rq_auth rq) k) sv = (Fails 401 e, set_world ((sv_world sv)\<lparr>faults := f\<rparr>) sv)"
  using dead_token_refused [OF assms] by (auto simp: on_db_def with_principal_def)

lemmas customer_handlers = CustomerListProxies_def CustomerAllocateProxy_def CustomerRotateCredential_def CustomerRotateProxy_def
  CustomerReleaseProxy_def CustomerExportProxies_def CustomerUsage_def CustomerCreateAPIKey_def CustomerDeleteAPIKey_def
  CustomerSubscriptionUsage_def CustomerListIPWhitelist_def CustomerAddIPWhitelist_def CustomerDeleteIPWhitelist_def
  CustomerSecurityDashboard_def

lemma customer_handler_dead:
  assumes "(m, pat, h) \<in> set (customer_routes a)" and "\<not> live_token (rq_auth rq) (sv_world sv)"
  shows "\<exists>e f. h rq ps sv = (Fails 401 e, set_world ((sv_world sv)\<lparr>faults := f\<rparr>) sv)"
  using assms(1) unfolding customer_routes_def Let_def customer_handlers
  by (simp only: list.set insert_iff prod.inject empty_iff) (elim disjE conjE; simp only: principal_route [OF assms(2)])

lemma set_world_twice [simp]: "set_world v (set_world w sv) = set_world v sv" "sv_world (set_world w sv) = w"
  by (simp_all add: set_world_def set_bus_def sv_world_def)

lemma route_reached:
  assumes "r \<in> set (api_routes a)" and "route_matches (rq_method rq) (rq_path rq) r = Some ps"
  shows "route_request a rq sv = snd (snd r) rq ps sv"
  using find_route_only [OF routes_distinct assms] by (simp add: route_request_def)

lemma table_methods: "r \<in> set (customer_routes a) \<Longrightarrow> fst r \<noteq> ''OPTIONS''"
  unfolding customer_routes_def Let_def by (auto simp only: list.set insert_iff empty_iff fst_conv)

text \<open>
  C35. Safety: the routes of a customer's own data are closed. Whatever route of this group a request reaches, without a
  token that a live session or an active key stands for it is answered 401, or 429 by the rate limiter, and nothing
  changes but the limiter's memory and the audit trail.
\<close>

theorem customer_routes_need_token:
  assumes "r \<in> set (customer_routes a)" and "route_matches (rq_method rq) (rq_path rq) r = Some ps"
    and "\<not> live_token (rq_auth rq) (sv_world sv)"
  shows "status_of (fst (serve a rq sv)) \<in> {401, 429} \<and> (\<exists>w. snd (serve a rq sv) = set_world w sv \<and> audit_only (sv_world sv) w)"
proof -
  obtain m pat h where r: "r = (m, pat, h)" by (metis surj_pair)
  have m: "m = rq_method rq" using assms(2) by (simp add: r route_matches_def split: if_splits)
  then have no: "rq_method rq \<noteq> ''OPTIONS''" using table_methods [OF assms(1)] by (simp add: r)
  obtain go w where mw: "RateLimitMiddleware rq (sv_world sv) = (go, w)" by fastforce
  have ao: "audit_only (sv_world sv) w" using middleware_only [OF assms(3) mw] .
  show ?thesis
  proof (cases go)
    case False
    then show ?thesis using no mw ao by (auto simp: serve_def)
  next
    case True
    have "r \<in> set (api_routes a)" using assms(1) by (simp add: api_routes_def)
    note hit = route_reached [OF this assms(2), of "set_world w sv"]
    have "\<not> live_token (rq_auth rq) (sv_world (set_world w sv))" using assms(3) live_token_audit [OF ao] by simp
    then obtain e f where h: "h rq ps (set_world w sv) = (Fails 401 e, set_world (w\<lparr>faults := f\<rparr>) (set_world w sv))"
      using customer_handler_dead [of m pat h a rq "set_world w sv" ps] assms(1) by (auto simp: r)
    have "serve a rq sv = (Fails 401 e, set_world (w\<lparr>faults := f\<rparr>) sv)"
      using no mw True hit h by (simp add: serve_def r)
    moreover have "audit_only (sv_world sv) (w\<lparr>faults := f\<rparr>)" using audit_only_trans [OF ao audit_only_faults] .
    ultimately show ?thesis by auto
  qed
qed

section \<open>The open routes\<close>

definition open_routes :: "app \<Rightarrow> route list" where
  "open_routes a = vpn_routes a @ proxy_routes a @ agent_routes a @ billing_routes a @ control_routes a"

lemma default_query_auth [simp]: "default_query k d (rq\<lparr>rq_auth := x\<rparr>) = default_query k d rq"
  by (simp add: default_query_def)

lemma open_handler_auth: "(m, pat, h) \<in> set (open_routes a) \<Longrightarrow> h (rq\<lparr>rq_auth := x\<rparr>) ps sv = h rq ps sv"
  unfolding open_routes_def vpn_routes_def proxy_routes_def agent_routes_def billing_routes_def control_routes_def Let_def
    set_append list.set
  by (simp only: Un_iff insert_iff prod.inject empty_iff) (elim disjE conjE; simp)

lemma prefix_of_append: "has_prefix s (p @ q) \<Longrightarrow> has_prefix s p"
  unfolding has_prefix_def by (metis append_take_drop_id length_append take_append take_take min.absorb1 le_add1 append_eq_conv_conj)

lemma contains_append: "contains s (p @ q) \<Longrightarrow> contains s p"
  by (induction s "p @ q" rule: contains.induct) (auto intro: prefix_of_append)

lemma rate_class_auth:
  assumes "\<not> contains (rq_path rq) ''/customer/''"
  shows "rate_class (rq\<lparr>rq_auth := x\<rparr>) w = rate_class rq w"
proof -
  have "\<not> contains (rq_path rq) ''/customer/proxies/allocate''"
    using assms contains_append [of "rq_path rq" "''/customer/''" "''proxies/allocate''"] by auto
  then show ?thesis using assms by (simp add: rate_class_def Let_def)
qed

text \<open>Where the rate limiter sees \<open>/customer/\<close> in a path, that path has a segment \<open>customer\<close>.\<close>

lemma contains_split: "contains s p \<Longrightarrow> \<exists>q r. s = q @ p @ r"
proof (induction s p rule: contains.induct)
  case (2 c s p)
  show ?case
  proof (cases "has_prefix (c # s) p")
    case True
    then show ?thesis using has_prefix_iff [of "c # s" p] append_Nil by metis
  next
    case False
    then show ?thesis using 2 by (metis append_Cons contains.simps(2))
  qed
qed simp

lemma split_on_last: "sep \<notin> set p \<Longrightarrow> p \<in> set (tl (split_on sep (q @ sep # p @ sep # r)))"
proof (induction q)
  case Nil
  then show ?case by (simp add: split_on_append)
next
  case (Cons c q)
  then show ?case by (cases "split_on sep (q @ sep # p @ sep # r)") auto
qed

lemma customer_segment:
  assumes "contains path ''/customer/''"
  shows "''customer'' \<in> set (segments path)"
proof -
  obtain q r where "path = q @ ''/customer/'' @ r" using contains_split [OF assms] by blast
  then have "path = q @ CHR ''/'' # ''customer'' @ CHR ''/'' # r" by simp
  moreover have "''customer'' \<in> set (tl (split_on (CHR ''/'') (q @ CHR ''/'' # ''customer'' @ CHR ''/'' # r)))"
    by (rule split_on_last) simp
  ultimately have "''customer'' \<in> set (tl (segments path))" by (simp only: segments_def)
  then show ?thesis by (cases "segments path") simp_all
qed

lemma match_segments_values: "match_segments ps ss = Some vs \<Longrightarrow> set ss \<subseteq> set ps \<union> set vs"
  by (induction ps ss arbitrary: vs rule: match_segments.induct) (auto split: if_splits)

lemma open_patterns: "list_all (\<lambda>k. \<not> List.member (snd k) ''customer'') (map route_key (open_routes a))"
  unfolding open_routes_def tables by code_simp

lemma open_path_customer:
  assumes "r \<in> set (open_routes a)" and "route_matches m path r = Some ps" and "contains path ''/customer/''"
  shows "''customer'' \<in> set ps"
proof -
  obtain m' pat h where r: "r = (m', pat, h)" by (metis surj_pair)
  have "match_segments (segments pat) (segments path) = Some ps"
    using assms(2) by (simp add: r route_matches_def split: if_splits)
  then have "set (segments path) \<subseteq> set (segments pat) \<union> set ps" by (rule match_segments_values)
  moreover have "''customer'' \<notin> set (segments pat)"
    using assms(1) open_patterns [of a] by (auto simp: r list_all_iff route_key_simp)
  ultimately show ?thesis using customer_segment [OF assms(3)] by blast
qed

text \<open>
  C36. The routes of the administration are open, and so are those of VPNs, proxies and agents: on each of them the
  \<^verbatim>\<open>Authorization\<close> header has no influence on the handler, neither on its reply nor on what it does, in any state. Nor
  does it have any on the middleware before it, so that the whole request is served alike, except where the value of a
  path parameter is literally \<open>customer\<close>: there the rate limiter takes the path for a customer's and counts the bearer
  instead of the address. Whoever reaches the port can suspend customers, mark invoices paid, or issue the token of an
  agent.
\<close>

theorem open_routes_ignore_authorization:
  assumes "r \<in> set (open_routes a)" and "route_matches (rq_method rq) (rq_path rq) r = Some ps"
  shows "(\<forall>v. route_request a (rq\<lparr>rq_auth := anything\<rparr>) v = route_request a rq v) \<and>
    (''customer'' \<notin> set ps \<longrightarrow> serve a (rq\<lparr>rq_auth := anything\<rparr>) sv = serve a rq sv)"
proof -
  obtain m pat h where r: "r = (m, pat, h)" by (metis surj_pair)
  have mem: "r \<in> set (api_routes a)" using assms(1) by (auto simp: open_routes_def api_routes_def)
  have routed: "route_request a (rq\<lparr>rq_auth := anything\<rparr>) v = route_request a rq v" for v
    using route_reached [OF mem, of rq ps v] route_reached [OF mem, of "rq\<lparr>rq_auth := anything\<rparr>" ps v] assms
      open_handler_auth [of m pat h a] by (simp add: r)
  have "serve a (rq\<lparr>rq_auth := anything\<rparr>) sv = serve a rq sv" if "''customer'' \<notin> set ps"
  proof -
    have n: "\<not> contains (rq_path rq) ''/customer/''" using open_path_customer [OF assms] that by blast
    have "rq_path (rq\<lparr>rq_auth := anything\<rparr>) = rq_path rq" "rq_method (rq\<lparr>rq_auth := anything\<rparr>) = rq_method rq" by simp_all
    then have "RateLimitMiddleware (rq\<lparr>rq_auth := anything\<rparr>) w = RateLimitMiddleware rq w" for w
      unfolding RateLimitMiddleware_def rate_class_auth [OF n] by (simp only:)
    moreover obtain go w where "RateLimitMiddleware rq (sv_world sv) = (go, w)" by fastforce
    ultimately show ?thesis using routed by (cases go) (simp_all add: serve_def)
  qed
  with routed show ?thesis by blast
qed

section \<open>Examples\<close>

definition demo_server :: server where
  "demo_server = NewHandler (NewGateway start_world) new_host (NewSystemMetricsService 0) (fst (NewDashboardWSGateway 0 GetBus))"

definition demo_request :: "string \<Rightarrow> string \<Rightarrow> request" where
  "demo_request m path = \<lparr>rq_method = m, rq_path = path, rq_ip = ''10.0.0.1'', rq_auth = ''Bearer guess'', rq_query = (\<lambda>_. None),
     rq_body = [], rq_conn = 0, rq_refused = None\<rparr>"

lemma demo_paths:
  "match_segments (segments ''/api/customer/proxies'') (segments ''/api/customer/proxies'') = Some []"
  "match_segments (segments ''/api/admin/billing/invoices/:id/paid'') (segments ''/api/admin/billing/invoices/i1/paid'') = Some [''i1'']"
  by code_simp+

theorem customer_routes_need_token_witness:
  "\<forall>a. status_of (fst (serve a (demo_request ''GET'' ''/api/customer/proxies'') demo_server)) \<in> {401, 429}"
proof
  fix a
  let ?r = "(''GET'', ''/api/customer/proxies'', \<lambda>rq (ps :: string list). on_db (CustomerListProxies (rq_auth rq)))"
  have "?r \<in> set (customer_routes a)" by (simp add: customer_routes_def Let_def)
  moreover have "route_matches ''GET'' ''/api/customer/proxies'' ?r = Some []" using demo_paths(1) by (simp add: route_matches_def)
  moreover have "\<not> live_token x (sv_world demo_server)" for x
    by (simp add: live_token_def demo_server_def NewHandler_def sv_world_def NewGateway_def NewCommandBus_def)
  ultimately show "status_of (fst (serve a (demo_request ''GET'' ''/api/customer/proxies'') demo_server)) \<in> {401, 429}"
    using customer_routes_need_token [of ?r a "demo_request ''GET'' ''/api/customer/proxies''" "[]" demo_server]
    by (simp add: demo_request_def)
qed

theorem open_routes_ignore_authorization_witness:
  "\<forall>a. serve a ((demo_request ''POST'' ''/api/admin/billing/invoices/i1/paid'')\<lparr>rq_auth := []\<rparr>) demo_server =
    serve a (demo_request ''POST'' ''/api/admin/billing/invoices/i1/paid'') demo_server"
proof
  fix a
  let ?r = "(''POST'', ''/api/admin/billing/invoices/:id/paid'', \<lambda>(rq :: request) ps. on_db (AdminMarkInvoicePaid (hd ps)))"
  have "?r \<in> set (open_routes a)" by (simp add: open_routes_def billing_routes_def Let_def)
  moreover have "route_matches ''POST'' ''/api/admin/billing/invoices/i1/paid'' ?r = Some [''i1'']"
    using demo_paths(2) by (simp add: route_matches_def)
  ultimately show "serve a ((demo_request ''POST'' ''/api/admin/billing/invoices/i1/paid'')\<lparr>rq_auth := []\<rparr>) demo_server =
    serve a (demo_request ''POST'' ''/api/admin/billing/invoices/i1/paid'') demo_server"
    using open_routes_ignore_authorization [of ?r a "demo_request ''POST'' ''/api/admin/billing/invoices/i1/paid''" "[''i1'']" "[]" demo_server]
    by (simp add: demo_request_def)
qed

text \<open>The exception: a request for the pool of a country \<open>customer\<close> is counted for the bearer of the request.\<close>

lemma customer_named_parameter:
  "match_segments (segments ''/api/pools/:country/health'') (segments ''/api/pools/customer/health'') = Some [''customer''] \<and>
    contains ''/api/pools/customer/health'' ''/customer/''"
  by code_simp

end
