(* ===== verification/Server.thy ===== *)
theory Server imports Router AgentGatewayFacts RoutingFacts GoProxyFacts ProxyManagerFacts Security GoFmt begin

text \<open>
  \<^verbatim>\<open>cmd/server/main.go\<close>: where the database lies, what is done between the start of the process and its first
  request, and what is done at its end. The file system and SQLite are parameters: the outcome of creating a
  directory, of opening a file, and of each statement \<^verbatim>\<open>NewSQLiteDB\<close> depends on for a path.
\<close>

section \<open>Opening the database\<close>

record sqlite_file =
  sf_open :: "gerr option"
  sf_migrate :: "gerr option"
  sf_create :: "gerr option"
  sf_insert :: "gerr option"
  sf_delete :: "gerr option"

record file_system =
  fs_temp :: string
  fs_mkdir :: "string \<Rightarrow> gerr option"
  fs_file :: "string \<Rightarrow> gerr option"
  fs_sqlite :: "string \<Rightarrow> sqlite_file"

text \<open>The first error of a sequence of checks.\<close>

fun first_error :: "gerr option list \<Rightarrow> gerr option" where
  "first_error [] = None"
| "first_error (Some e # _) = Some e"
| "first_error (None # es) = first_error es"

lemma first_error_None: "first_error es = None \<longleftrightarrow> (\<forall>e \<in> set es. e = None)"
  by (induction es rule: first_error.induct) auto

definition wrap_error :: "string \<Rightarrow> gerr option \<Rightarrow> gerr option" where
  "wrap_error text = map_option (\<lambda>e. ErrMsg (text @ '': '' @ err_text e))"

definition verifySQLiteWritable :: "sqlite_file \<Rightarrow> gerr option" where
  "verifySQLiteWritable f = first_error
     [wrap_error ''sqlite write check failed while creating table'' (sf_create f),
      wrap_error ''sqlite write check failed while inserting row'' (sf_insert f),
      wrap_error ''sqlite write check failed while cleaning table'' (sf_delete f)]"

definition NewSQLiteDB :: "file_system \<Rightarrow> string \<Rightarrow> gerr option" where
  "NewSQLiteDB fs path = (let f = fs_sqlite fs path in first_error [sf_open f, sf_migrate f, verifySQLiteWritable f])"

definition ensureWritableSQLitePath :: "file_system \<Rightarrow> string \<Rightarrow> gerr option" where
  "ensureWritableSQLitePath fs path =
     (let dir = path_dir path
      in first_error [if dir \<noteq> ''.'' then fs_mkdir fs dir else None, fs_file fs path])"

definition fallback_dir :: "file_system \<Rightarrow> string" where
  "fallback_dir fs = path_join (fs_temp fs) ''vpn-to-proxy''"

definition fallbackDBPath :: "file_system \<Rightarrow> string \<Rightarrow> string result" where
  "fallbackDBPath fs path = (case fs_mkdir fs (fallback_dir fs) of
     Some e \<Rightarrow> Inl e | None \<Rightarrow> Inr (path_join (fallback_dir fs) (path_base path)))"

definition wanted_path :: "string \<Rightarrow> string" where
  "wanted_path path = (if trim_space path = [] then ''vpn_to_proxy.db'' else trim_space path)"

definition resolveDBPath :: "file_system \<Rightarrow> string \<Rightarrow> string result" where
  "resolveDBPath fs p =
     (let path = wanted_path p in
      case ensureWritableSQLitePath fs path of
        None \<Rightarrow> Inr path
      | Some _ \<Rightarrow> (case fallbackDBPath fs path of
          Inl e \<Rightarrow> Inl e
        | Inr fallbackPath \<Rightarrow> (case ensureWritableSQLitePath fs fallbackPath of
            None \<Rightarrow> Inr fallbackPath
          | Some e \<Rightarrow> Inl (ErrMsg (''primary path '' @ go_quote path @ '' is unavailable and fallback '' @ go_quote fallbackPath @
              '' also failed: '' @ err_text e)))))"

definition openSQLiteDB :: "file_system \<Rightarrow> string \<Rightarrow> string result" where
  "openSQLiteDB fs path = (case NewSQLiteDB fs path of
     None \<Rightarrow> Inr path
   | Some err \<Rightarrow> (case fallbackDBPath fs path of
       Inl e \<Rightarrow> Inl (ErrMsg (''primary database '' @ go_quote path @ '' failed: '' @ err_text err @ ''; fallback path failed: '' @ err_text e))
     | Inr fallbackPath \<Rightarrow>
         if fallbackPath = path then Inl err
         else (case NewSQLiteDB fs fallbackPath of
             None \<Rightarrow> Inr fallbackPath
           | Some e \<Rightarrow> Inl (ErrMsg (''primary database '' @ go_quote path @ '' failed: '' @ err_text err @ ''; fallback database '' @
               go_quote fallbackPath @ '' failed: '' @ err_text e)))))"

section \<open>Boot\<close>

definition local_agent :: "time \<Rightarrow> Agent" where
  "local_agent now = zero_Agent\<lparr>ag_ID := ''local-agent'', ag_Name := ''local-agent'', ag_Hostname := ''localhost'',
     ag_IPAddress := ''127.0.0.1'', ag_OS := ''local'', ag_Version := ''v1.0.0'', ag_Status := ''healthy'',
     ag_LastHeartbeatAt := now, ag_VPNCount := 0, ag_ProxyCount := 0, ag_CreatedAt := now, ag_UpdatedAt := now\<rparr>"

definition ensure_local_agent :: "world \<Rightarrow> unit result \<times> world" where
  "ensure_local_agent w = (case agentRepo_GetByID ''local-agent'' w of
     (Inr _, w1) \<Rightarrow> (Inr (), w1)
   | (Inl _, w1) \<Rightarrow> (case agentRepo_Create (local_agent (clock w1)) w1 of
       (Inl e, w2) \<Rightarrow> (Inl e, w2) | (Inr _, w2) \<Rightarrow> (Inr (), w2)))"

text \<open>The managers and services with the memory of a new process, in the order \<^verbatim>\<open>main\<close> makes them.\<close>

definition start_services :: "vpn_env \<Rightarrow> world \<Rightarrow> drivers \<times> world" where
  "start_services env w =
     (let (ds, w1) = NewVpnManager env w;
          w2 = billing_EnsureDefaultPlans (customer_EnsureDefaultPlans (NewProxyManager w1));
          w3 = EnsureDefaultRules (w2\<lparr>abuse_mem := new_abuse_mem\<rparr>);
          w4 = EnsureDefaultPools (w3\<lparr>routing_rr := (\<lambda>_. 0)\<rparr>)
      in (ds, NewHealthMonitorService (w4\<lparr>hb_cache := (\<lambda>_. None)\<rparr>)))"

text \<open>
  The services that are started: \<^verbatim>\<open>metricsService.Start\<close> collects once before it starts its goroutines, and
  \<^verbatim>\<open>runCheckLoop\<close> of the health monitor begins with a check, in a goroutine, which may be done before or after
  the heartbeat of the server's own agent is recorded. The sweeper, the aggregator, the history of the metrics and the
  expiry monitor wait for their first tick. The arguments are the readings of the first collection, and the probes, the
  order of the goroutines and the moment of the first check.
\<close>

record first_ticks =
  ft_sample :: sys_sample
  ft_probe :: "Proxy \<Rightarrow> int option"
  ft_sched :: "Proxy list \<Rightarrow> Proxy list"
  ft_early :: bool

text \<open>The restored proxies, the services, and the one heartbeat of the server's own agent.\<close>

definition begin_service ::
  "first_ticks \<Rightarrow> hooks \<Rightarrow> SystemMetricsService \<Rightarrow> world \<Rightarrow> SystemMetricsService \<times> world" where
  "begin_service t hk m w =
     (let (m1, w1) = collect (ft_sample t) m (RestoreProxies hk w);
          first_check = check (ft_probe t) (ft_sched t);
          w2 = (if ft_early t then first_check w1 else w1);
          w3 = RecordHeartbeat ''local-agent'' 0 0 0 0 w2
      in (m1, if ft_early t then w3 else first_check w3))"

definition customer_service :: "bcrypt \<Rightarrow> CustomerService" where
  "customer_service bc = \<lparr>svc_bcrypt = bc, svc_enforcer = Some billing_enforcer, svc_router = Some SelectDomainProxy\<rparr>"

text \<open>\<open>db\<close> is the content of the database at a path, with the environment of the process.\<close>

definition boot_world :: "first_ticks \<Rightarrow> vpn_env \<Rightarrow> hooks \<Rightarrow> world \<Rightarrow> (drivers \<times> server) result" where
  "boot_world t env hk w =
     (case ensure_local_agent w of
        (Inl e, _) \<Rightarrow> Inl (ErrMsg (''Failed to initialize local agent: '' @ err_text e))
      | (Inr _, w1) \<Rightarrow>
          (case start_services env (log_audit ''SYSTEM_BOOT'' ''VPN-to-Proxy service started'' w1) of (ds, w2) \<Rightarrow>
            (case NewDashboardWSGateway 0 GetBus of (dash, bus) \<Rightarrow>
              (case begin_service t hk (NewSystemMetricsService (clock w2)) (w2\<lparr>event_bus := bus\<rparr>) of (m, w3) \<Rightarrow>
                 Inr (ds, NewHandler (NewGateway w3) new_host m dash)))))"

definition boot :: "file_system \<Rightarrow> (string \<Rightarrow> string) \<Rightarrow> (string \<Rightarrow> world) \<Rightarrow> first_ticks \<Rightarrow> vpn_env \<Rightarrow> hash_check \<Rightarrow>
    string \<Rightarrow> (drivers \<times> server) result" where
  "boot fs getenv db t env bcrypt_ok dbPath =
     (case resolveDBPath fs dbPath of
        Inl e \<Rightarrow> Inl (ErrMsg (''Failed to resolve database path: '' @ err_text e))
      | Inr resolved \<Rightarrow> (case openSQLiteDB fs resolved of
          Inl e \<Rightarrow> Inl (ErrMsg (''Failed to initialize database: '' @ err_text e))
        | Inr active \<Rightarrow> (case GetSecretKey getenv of
            Inl e \<Rightarrow> Inl (ErrMsg (''Security initialization failed: '' @ err_text e))
          | Inr _ \<Rightarrow> boot_world t env (live_hooks bcrypt_ok) (db active))))"

section \<open>Shutdown\<close>

definition stop_if_running :: "Proxy \<Rightarrow> world \<Rightarrow> world" where
  "stop_if_running p w = (if px_Status p = ''running'' then snd (StopProxy (px_ID p) w) else w)"

definition shutdown_proxies :: "world \<Rightarrow> world" where
  "shutdown_proxies w = (case proxyRepo_List w of
     (Inl _, w1) \<Rightarrow> w1 | (Inr ps, w1) \<Rightarrow> fold stop_if_running ps w1)"

end
