(* ===== verification/ServerFacts.thy ===== *)
theory ServerFacts imports Server begin

text \<open>
  The life of the server process: the database it opens can be written, an orderly shutdown leaves nothing to restore,
  and an idle server declares itself dead.
\<close>

section \<open>The database\<close>

lemma writable_file:
  "ensureWritableSQLitePath fs path = None \<longleftrightarrow>
    (path_dir path \<noteq> ''.'' \<longrightarrow> fs_mkdir fs (path_dir path) = None) \<and> fs_file fs path = None"
  by (simp add: ensureWritableSQLitePath_def Let_def first_error_None)

lemma sound_database:
  "NewSQLiteDB fs path = None \<longleftrightarrow> (\<forall>e \<in> {sf_open, sf_migrate, sf_create, sf_insert, sf_delete}. e (fs_sqlite fs path) = None)"
  by (auto simp: NewSQLiteDB_def Let_def first_error_None verifySQLiteWritable_def wrap_error_def)

text \<open>
  What is opened is the wanted path or the one in the temporary directory, and it passed all checks; an error is
  only reported when both fail.
\<close>

theorem opened_path_sound:
  assumes "resolveDBPath fs path = Inr p" and "openSQLiteDB fs p = Inr q"
  shows "p \<in> {wanted_path path, path_join (fallback_dir fs) (path_base (wanted_path path))} \<and>
    ensureWritableSQLitePath fs p = None \<and> q \<in> {p, path_join (fallback_dir fs) (path_base p)} \<and> NewSQLiteDB fs q = None"
  using assms
  by (auto simp: resolveDBPath_def openSQLiteDB_def fallbackDBPath_def Let_def split: option.splits sum.splits if_splits)

theorem resolve_fails_only_if_both:
  assumes "resolveDBPath fs path = Inl e"
  shows "ensureWritableSQLitePath fs (wanted_path path) \<noteq> None \<and>
    (fs_mkdir fs (fallback_dir fs) \<noteq> None \<or>
     ensureWritableSQLitePath fs (path_join (fallback_dir fs) (path_base (wanted_path path))) \<noteq> None)"
  using assms by (auto simp: resolveDBPath_def fallbackDBPath_def Let_def split: option.splits sum.splits)

section \<open>Shutdown and restart\<close>

lemma stop_step:
  assumes "faults w = []" and "in_step w" and "p \<in> set (proxies w)"
  shows "faults (snd (StopProxy (px_ID p) w)) = [] \<and> in_step (snd (StopProxy (px_ID p) w)) \<and>
    running_ids (snd (StopProxy (px_ID p) w)) = running_ids w - {px_ID p} \<and>
    px_ID ` set (proxies (snd (StopProxy (px_ID p) w))) = px_ID ` set (proxies w)"
proof -
  have u: "unique_proxies w" using assms(2) by (simp add: in_step_def agrees_on_def)
  note m = stop_moves(1) [OF assms(1) u assms(3)]
  show ?thesis
    using m moved_in_step [OF m assms(2,3)] moved_running [OF m u assms(3)] moved_ids [OF m] by (simp add: proxy_moved_def)
qed

lemma fold_stop:
  assumes "faults w = []" and "in_step w" and "px_ID ` set ps \<subseteq> px_ID ` set (proxies w)"
  shows "faults (fold stop_if_running ps w) = [] \<and> in_step (fold stop_if_running ps w) \<and>
    running_ids (fold stop_if_running ps w) = running_ids w - px_ID ` {p \<in> set ps. px_Status p = ''running''}"
  using assms
proof (induction ps arbitrary: w)
  case (Cons p ps)
  show ?case
  proof (cases "px_Status p = ''running''")
    case True
    obtain q where q: "q \<in> set (proxies w)" "px_ID q = px_ID p" using Cons.prems(3) by auto
    let ?w = "snd (StopProxy (px_ID p) w)"
    have s: "faults ?w = []" "in_step ?w" "running_ids ?w = running_ids w - {px_ID p}"
      "px_ID ` set (proxies ?w) = px_ID ` set (proxies w)"
      using stop_step [OF Cons.prems(1,2) q(1)] by (simp_all add: q(2))
    have "px_ID ` set ps \<subseteq> px_ID ` set (proxies ?w)" using Cons.prems(3) by (simp only: s(4)) simp
    from Cons.IH [OF s(1,2) this]
    have "faults (fold stop_if_running ps ?w) = [] \<and> in_step (fold stop_if_running ps ?w) \<and>
      running_ids (fold stop_if_running ps ?w) = running_ids w - insert (px_ID p) (px_ID ` {p \<in> set ps. px_Status p = ''running''})"
      unfolding s(3) by blast
    moreover have "px_ID ` {x \<in> set (p # ps). px_Status x = ''running''} = insert (px_ID p) (px_ID ` {x \<in> set ps. px_Status x = ''running''})"
      using True by auto
    moreover have "stop_if_running p w = ?w" using True by (simp add: stop_if_running_def)
    ultimately show ?thesis by simp
  next
    case False
    moreover have "{x \<in> set (p # ps). px_Status x = ''running''} = {x \<in> set ps. px_Status x = ''running''}" using False by auto
    moreover have "stop_if_running p w = w" using False by (simp add: stop_if_running_def)
    ultimately show ?thesis using Cons.IH [of w] Cons.prems by simp
  qed
qed simp

lemma shutdown_stops:
  assumes "faults w = []" and "in_step w"
  shows "faults (shutdown_proxies w) = [] \<and> in_step (shutdown_proxies w) \<and> running_ids (shutdown_proxies w) = {}"
proof -
  have "shutdown_proxies w = fold stop_if_running (proxies w) w"
    using assms(1) by (simp add: shutdown_proxies_def proxyRepo_List_def)
  then show ?thesis using fold_stop [OF assms, of "proxies w"] by (simp add: running_ids_def)
qed

text \<open>
  C40. Functional: an orderly shutdown is not undone by the next start. It closes every server and marks every running
  proxy as stopped, so that the restore of the next process, which looks for rows that say \<^verbatim>\<open>running\<close>, starts none of
  them; after a crash the same process brings all of them back whose time and address still allow it. The database answers throughout.
\<close>

theorem shutdown_leaves_nothing_to_restore:
  assumes "faults w = []" and "in_step w"
  shows "(\<forall>port. servers (shutdown_proxies w) port = None) \<and>
    running_ids (RestoreProxies hk (NewProxyManager ((shutdown_proxies w)\<lparr>clock := t, can_listen := listen\<rparr>))) = {} \<and>
    running_ids (RestoreProxies hk (NewProxyManager (w\<lparr>clock := t, can_listen := listen\<rparr>))) =
      px_ID ` {p \<in> set (proxies w). px_Status p = ''running'' \<and> \<not> expired_at t p \<and> listen (px_BindIP p) (px_Port p)}"
proof -
  have u: "unique_proxies w" using assms(2) by (simp add: in_step_def agrees_on_def)
  define s where "s = shutdown_proxies w"
  have s: "faults s = []" "in_step s" "running_ids s = {}" using shutdown_stops [OF assms] by (simp_all add: s_def)
  then have us: "unique_proxies s" by (simp add: in_step_def agrees_on_def)
  have none: "px_Status p \<noteq> ''running''" if "p \<in> set (proxies s)" for p using s(3) that by (auto simp: running_ids_def)
  have "servers s port = None" for port
  proof (rule ccontr)
    assume p: "servers s port \<noteq> None"
    then obtain q where q: "q \<in> set (proxies s)" "px_Port q = port" using s(2) unfolding in_step_def agrees_on_def by blast
    then have "px_Status q = ''running''" using s(2) p by (simp add: in_step_def agrees_on_def)
    with none [OF q(1)] show False by simp
  qed
  moreover have "running_ids (RestoreProxies hk (NewProxyManager (v\<lparr>clock := t, can_listen := listen\<rparr>))) =
      px_ID ` {p \<in> set (proxies v). px_Status p = ''running'' \<and> \<not> expired_at t p \<and> listen (px_BindIP p) (px_Port p)}"
    if "faults v = []" "unique_proxies v" for v
    using restore_outcome [of "v\<lparr>clock := t, can_listen := listen\<rparr>" hk] that
    by (simp add: unique_proxies_def restorable_def)
  ultimately show ?thesis using assms(1) u s(1) us none unfolding s_def [symmetric] by auto
qed

definition serving_world :: world where
  "serving_world = start_world\<lparr>proxies := [zero_Proxy\<lparr>px_ID := ''p1'', px_Port := 8000, px_Status := ''running''\<rparr>],
     servers := [8000 \<mapsto> demo_server]\<rparr>"

theorem shutdown_leaves_nothing_to_restore_witness:
  "running_ids (RestoreProxies (live_hooks demo_hash) (NewProxyManager ((shutdown_proxies serving_world)
      \<lparr>clock := 0, can_listen := (\<lambda>_ _. True)\<rparr>))) = {} \<and>
   running_ids (RestoreProxies (live_hooks demo_hash) (NewProxyManager (serving_world
      \<lparr>clock := 0, can_listen := (\<lambda>_ _. True)\<rparr>))) = {''p1''}"
proof -
  have h: "faults serving_world = []" "in_step serving_world"
    by (auto simp: serving_world_def start_world_def in_step_def agrees_on_def unique_proxies_def)
  have ps: "{p \<in> set (proxies serving_world). px_Status p = ''running'' \<and> \<not> expired_at 0 p \<and> True} =
      {zero_Proxy\<lparr>px_ID := ''p1'', px_Port := 8000, px_Status := ''running''\<rparr>}"
    by (auto simp: serving_world_def expired_at_def)
  show ?thesis
    using shutdown_leaves_nothing_to_restore [where hk = "live_hooks demo_hash" and t = 0 and listen = "\<lambda>_ _. True", OF h] unfolding ps by simp
qed

section \<open>Agents and the grade\<close>

lemma check_grade:
  assumes "faults w = []"
  shows "\<exists>c. monitor_grade (check probe sched w) = health_grade (agents w) (proxies w) c"
proof -
  obtain c w1 where f: "fold (count_check probe) (sched (filter (\<lambda>p. px_Status p = ''running'') (proxies w))) (zero_count, w) = (c, w1)"
    and w1: "faults w1 = []"
    using count_check_tally [of probe "sched (filter (\<lambda>p. px_Status p = ''running'') (proxies w))" zero_count w] assms by auto
  have "check probe sched w = set_grade (health_grade (agents w) (proxies w) c) (avg_latency c) w1"
    using f assms by (simp add: check_def proxyRepo_List_def agentRepo_List_def)
  then show ?thesis using set_grade_effect(1) [OF w1] by auto
qed

lemma heartbeat_ids:
  assumes "faults w = []" and "distinct (map ag_ID (agents w))" and "a \<in> ag_ID ` set (agents w)"
  shows "faults (RecordHeartbeat a cpu ram vpns prx w) = [] \<and>
    map ag_ID (agents (RecordHeartbeat a cpu ram vpns prx w)) = map ag_ID (agents w)"
proof -
  obtain a0 where a0: "a0 \<in> set (agents w)" "ag_ID a0 = a" using assms(3) by auto
  define w1 where "w1 = w\<lparr>hb_cache := (hb_cache w)(a \<mapsto> \<lparr>ch_AgentID = a, ch_CPUUsage = cpu, ch_RAMUsage = ram,
    ch_VPNCount = vpns, ch_ProxyCount = prx, ch_Timestamp = clock w\<rparr>)\<rparr>"
  define n where "n = beat_agent cpu ram vpns prx (clock w) a0"
  have n: "ag_ID n = a" by (simp add: n_def beat_agent_def a0(2))
  have w1: "faults w1 = []" "agents w1 = agents w" "clock w1 = clock w" using assms(1) by (simp_all add: w1_def)
  have g: "agentRepo_GetByID a w1 = (Inr a0, w1)" using get_agent [of w1 a0] assms(2) a0 w1 by simp
  show ?thesis
    using agent_saved [of w1 n] assms(3) w1 n
    by (simp add: RecordHeartbeat_def Let_def w1_def [symmetric] g w1(3) n_def [symmetric])
qed

text \<open>What decides about the local agent and the grade; most of what the server does in the background leaves it alone.\<close>

definition vitals :: "world \<Rightarrow> Agent list \<times> (string \<Rightarrow> CachedHeartbeat option) \<times> time \<times> string" where
  "vitals w = (agents w, hb_cache w, clock w, monitor_grade w)"

lemma vitals_puts [simp]:
  "vitals (w\<lparr>faults := bs\<rparr>) = vitals w" "vitals (proxies_update f1 w) = vitals w" "vitals (audit_logs_update f2 w) = vitals w"
  "vitals (health_metrics_update f3 w) = vitals w" "vitals (agent_commands_update f4 w) = vitals w"
  "vitals (system_metric_snapshots_update f5 w) = vitals w" "vitals (agent_heartbeats_update f6 w) = vitals w"
  "vitals (servers_update f7 w) = vitals w" "vitals (event_bus_update f8 w) = vitals w"
  "vitals (publish t a i x w) = vitals w"
  by (simp_all add: vitals_def publish_def)

lemmas vitals_frames [simp] = statement_frames [where get = vitals]

definition same_agents :: "world \<Rightarrow> world \<Rightarrow> bool" where
  "same_agents w w' \<longleftrightarrow> vitals w' = vitals w \<and> (faults w = [] \<longrightarrow> faults w' = [])"

lemma same_agents_trans: "same_agents w v \<Longrightarrow> same_agents v u \<Longrightarrow> same_agents w u"
  by (simp add: same_agents_def)

lemma same_agents_fold: "(\<And>x w. same_agents w (f x w)) \<Longrightarrow> same_agents w (fold f xs w)"
proof (induction xs arbitrary: w)
  case (Cons x xs)
  then show ?case using same_agents_trans [of w "f x w"] by simp
qed (simp add: same_agents_def)

lemma same_agents_steps:
  "same_agents w w" "same_agents w (log_audit a d w)" "same_agents w (save_proxy p w)" "same_agents w (set_server port s w)"
  "same_agents w (snd (proxyRepo_GetByID i w))" "same_agents w (snd (proxyRepo_List w))" "same_agents w (snd (proxy_route p w))"
proof -
  show a: "same_agents w (log_audit a d w)" for a d
    by (simp add: same_agents_def log_audit_def auditLogRepo_Create_def)
  show "same_agents w (snd (proxy_route p w))"
    using a by (simp add: proxy_route_def same_agents_def split: option.split)
qed (simp_all add: same_agents_def set_server_def save_proxy_def proxyRepo_Update_def proxyRepo_GetByID_def proxyRepo_List_def
    split: option.split)

lemmas same_agents_chain = same_agents_steps(2-4) [THEN same_agents_trans [rotated]]

lemma StartProxy_agents: "same_agents w (snd (StartProxy hk i w))"
proof -
  obtain r w1 where g: "proxyRepo_GetByID i w = (r, w1)" by fastforce
  have w1: "same_agents w w1" using same_agents_steps(5) [of w i] by (simp add: g)
  show ?thesis
  proof (cases r)
    case (Inr p)
    obtain route w2 where q: "proxy_route p w1 = (route, w2)" by fastforce
    have w2: "same_agents w w2" using same_agents_trans [OF w1] same_agents_steps(7) [of w1 p] by (simp add: q)
    show ?thesis
      by (simp add: StartProxy_def g Inr q split: sum.split) (auto intro!: same_agents_chain w1 w2)
  qed (simp add: StartProxy_def g w1)
qed

lemma restored_agents: "(\<And>p w. same_agents w (f p w)) \<Longrightarrow>
    same_agents w (case proxyRepo_List w of (Inl _, w1) \<Rightarrow> w1 | (Inr ps, w1) \<Rightarrow> fold f ps w1)"
  using same_agents_fold [of f] same_agents_trans same_agents_steps(6) [of w]
  by (cases "proxyRepo_List w" rule: result_cases) auto

lemma RestoreProxies_agents: "same_agents w (RestoreProxies hk w)"
  unfolding RestoreProxies_def
  using same_agents_steps(1,3) StartProxy_agents by (intro restored_agents) (simp add: restore_proxy_def)

section \<open>The ticks of the background services\<close>

lemma ExpireProxy_agents: "same_agents w (snd (ExpireProxy i w))"
proof -
  obtain r w1 where g: "proxyRepo_GetByID i w = (r, w1)" by fastforce
  have w1: "same_agents w w1" using same_agents_steps(5) [of w i] by (simp add: g)
  have u: "same_agents w v" if "proxyRepo_Update p (set_server port s w1) = (x, v)" for p port s x v
  proof -
    have "v = save_proxy p (set_server port s w1)" by (simp add: save_proxy_def that)
    then show ?thesis by (auto intro!: same_agents_chain w1)
  qed
  show ?thesis
    by (auto simp: ExpireProxy_def g w1 split: prod.split sum.split dest!: u intro: same_agents_chain)
qed

lemma SweepExpiredProxies_agents: "same_agents w (SweepExpiredProxies w)"
  unfolding SweepExpiredProxies_def
  using same_agents_steps(1,3) ExpireProxy_agents by (intro restored_agents) (simp add: sweep_proxy_def)

lemma collect_agents: "same_agents w (snd (collect s m w))"
  by (simp add: collect_def Let_def case_prod_beta same_agents_def vpnNodeRepo_List_def proxyRepo_List_def)

lemma history_agents: "same_agents w (runMetricsHistorySaver m w)" "same_agents w (runHistoricalAggregator order w)"
proof -
  show "same_agents w (runMetricsHistorySaver m w)"
    by (simp add: runMetricsHistorySaver_def systemMetricRepo_Create_def same_agents_def)
  show "same_agents w (runHistoricalAggregator order w)"
    unfolding runHistoricalAggregator_def
    by (rule same_agents_fold) (simp add: same_agents_def agentHeartbeatRepo_Create_def split: option.split)
qed

lemma command_agents:
  "same_agents w (save_cmd c w)" "same_agents w (publish_cmd t c w)" "same_agents w (check_timeout now c w)"
  by (simp_all add: same_agents_def save_cmd_def agentCommandRepo_Update_def publish_cmd_def check_timeout_def publish_def)

lemma checkCommandTimeouts_agents: "same_agents (cb_world b) (cb_world (checkCommandTimeouts b))"
proof -
  obtain r w1 where l: "agentCommandRepo_ListActive (cb_world b) = (r, w1)" by fastforce
  have w1: "same_agents (cb_world b) w1"
    using arg_cong [OF l, of snd] by (auto simp: agentCommandRepo_ListActive_def same_agents_def)
  have "same_agents w (foldl (\<lambda>w c. check_timeout now c w) w cs)" for cs now w
    unfolding foldl_conv_fold by (rule same_agents_fold) (rule command_agents)
  then show ?thesis using w1 same_agents_trans by (cases r) (auto simp: checkCommandTimeouts_def l)
qed

lemma attemptDispatch_agents: "same_agents (cb_world b) (cb_world (attemptDispatch c b))"
  by (auto simp: attemptDispatch_def Let_def same_agents_steps(1) split: option.split
      intro!: same_agents_trans [OF command_agents(1) command_agents(2)] same_agents_trans [OF command_agents(1) command_agents(1)])

lemma run_task_agents: "same_agents (cb_world b) (cb_world (run_task t b))"
proof (cases t)
  case (ProcessPending a)
  obtain r w1 where l: "agentCommandRepo_ListPendingByAgent a (cb_world b) = (r, w1)" by fastforce
  have w1: "same_agents (cb_world b) w1"
    using arg_cong [OF l, of snd] by (auto simp: agentCommandRepo_ListPendingByAgent_def same_agents_def)
  have "same_agents (cb_world b) (cb_world (foldl (\<lambda>b c. attemptDispatch c b) b cs))" for cs b
  proof (induction cs arbitrary: b)
    case (Cons c cs)
    show ?case using same_agents_trans [OF attemptDispatch_agents Cons.IH] by simp
  qed (simp add: same_agents_steps(1))
  from this [of "b\<lparr>cb_world := w1\<rparr>"] show ?thesis
    using w1 same_agents_trans by (cases r) (auto simp: ProcessPending processPendingCommandsForAgent_def l)
qed (simp add: attemptDispatch_agents)

lemma sweep_effect:
  assumes "faults w = []" and "distinct (map ag_ID (agents w))"
  shows "agents (runOfflineSweep w) = map (\<lambda>a. if silent (clock w) w a then set_offline (clock w) a else a) (agents w)"
    "faults (runOfflineSweep w) = []" "clock (runOfflineSweep w) = clock w" "hb_cache (runOfflineSweep w) = hb_cache w"
    "monitor_grade (runOfflineSweep w) = monitor_grade w"
proof -
  have r: "runOfflineSweep w = fold (sweep_agent (clock w)) (agents w) w"
    using assms(1) by (simp add: runOfflineSweep_def agentRepo_List_def)
  show "agents (runOfflineSweep w) = map (\<lambda>a. if silent (clock w) w a then set_offline (clock w) a else a) (agents w)"
    "faults (runOfflineSweep w) = []" "clock (runOfflineSweep w) = clock w" "hb_cache (runOfflineSweep w) = hb_cache w"
    using sweep_prefix [OF assms, of "agents w"] by (simp_all add: r)
  have "monitor_grade (fold (sweep_agent now) as v) = monitor_grade v" for now as v
    by (induction as arbitrary: v)
      (simp_all add: sweep_agent_def agentRepo_Update_def db_save_frame [where get = monitor_grade])
  then show "monitor_grade (runOfflineSweep w) = monitor_grade w" by (simp add: r)
qed

lemma count_checks_agents: "same_agents (snd st) (snd (fold (count_check probe) ps st))"
proof (induction ps arbitrary: st)
  case (Cons p ps)
  obtain c w where st: "st = (c, w)" by fastforce
  have "same_agents w (snd (checkProxyNode probe p w))"
    by (simp add: checkProxyNode_def same_agents_def healthMetricRepo_Create_def split: option.split)
  then have "same_agents (snd st) (snd (count_check probe p st))"
    by (simp add: st count_check_def case_prod_beta split: option.split)
  then show ?case using same_agents_trans [OF _ Cons.IH] by simp
qed (simp add: same_agents_steps(1))

lemma check_effect:
  assumes "faults w = []"
  shows "agents (check probe sched w) = agents w" "hb_cache (check probe sched w) = hb_cache w"
    "clock (check probe sched w) = clock w" "faults (check probe sched w) = []"
proof -
  let ?run = "fold (count_check probe) (sched (filter (\<lambda>p. px_Status p = ''running'') (proxies w))) (zero_count, w)"
  obtain c w1 where f: "?run = (c, w1)" by fastforce
  have w1: "same_agents w w1" using count_checks_agents [where st = "(zero_count, w)"] f by (metis snd_conv)
  have "check probe sched w = set_grade (health_grade (agents w) (proxies w) c) (avg_latency c) w1"
    using f assms by (simp add: check_def proxyRepo_List_def agentRepo_List_def)
  moreover have "agents (set_grade g l v) = agents v" "hb_cache (set_grade g l v) = hb_cache v"
    "clock (set_grade g l v) = clock v" "faults v = [] \<Longrightarrow> faults (set_grade g l v) = []" for g l v
    by (simp_all add: set_grade_def Let_def log_audit_def auditLogRepo_Create_def db_create_frame [where get = agents]
        db_create_frame [where get = hb_cache])
  ultimately show "agents (check probe sched w) = agents w" "hb_cache (check probe sched w) = hb_cache w"
    "clock (check probe sched w) = clock w" "faults (check probe sched w) = []"
    using w1 assms by (simp_all add: same_agents_def vitals_def)
qed

section \<open>An idle server\<close>

text \<open>
  What happens on a server that nobody uses: no request, no agent and no client of a proxy. Its background services tick,
  in any order and any number of times, started goroutines of the command bus run, and time passes.
\<close>

inductive idle_step :: "server \<Rightarrow> server \<Rightarrow> bool" where
  sweep: "idle_step sv (set_world (runOfflineSweep (sv_world sv)) sv)"
| aggregate: "idle_step sv (set_world (runHistoricalAggregator order (sv_world sv)) sv)"
| grade: "idle_step sv (set_world (check probe sched (sv_world sv)) sv)"
| metrics: "collect s (sv_metrics sv) (sv_world sv) = (m, w) \<Longrightarrow> idle_step sv (set_world w (sv\<lparr>sv_metrics := m\<rparr>))"
| history: "idle_step sv (set_world (runMetricsHistorySaver (sv_metrics sv) (sv_world sv)) sv)"
| expiry: "idle_step sv (set_world (SweepExpiredProxies (sv_world sv)) sv)"
| timeouts: "idle_step sv (set_bus (checkCommandTimeouts (gw_bus (sv_gw sv))) sv)"
| task: "i < length (cb_tasks b) \<Longrightarrow> cb_tasks b ! i = (due, t) \<Longrightarrow> b = gw_bus (sv_gw sv) \<Longrightarrow>
    idle_step sv (set_bus (run_task t (b\<lparr>cb_tasks := take i (cb_tasks b) @ drop (Suc i) (cb_tasks b)\<rparr>)) sv)"
| time: "clock (sv_world sv) \<le> t \<Longrightarrow> idle_step sv (set_world ((sv_world sv)\<lparr>clock := t\<rparr>) sv)"

inductive idle_run :: "server \<Rightarrow> server \<Rightarrow> bool" where
  stay: "idle_run sv sv"
| tick: "idle_run sv sv1 \<Longrightarrow> idle_step sv1 sv2 \<Longrightarrow> idle_run sv sv2"

text \<open>The local agent with the heartbeat of the start, its only one.\<close>

definition only_heartbeat :: "time \<Rightarrow> world \<Rightarrow> bool" where
  "only_heartbeat t w \<longleftrightarrow> faults w = [] \<and> distinct (map ag_ID (agents w)) \<and> ''local-agent'' \<in> ag_ID ` set (agents w) \<and>
     map_option ch_Timestamp (hb_cache w ''local-agent'') = Some t"

definition local_offline :: "world \<Rightarrow> bool" where
  "local_offline w \<longleftrightarrow> (\<exists>a \<in> set (agents w). ag_ID a = ''local-agent'' \<and> ag_Status a = ''offline'')"

lemma same_agents_idle:
  assumes "same_agents w w'"
  shows "only_heartbeat t w \<Longrightarrow> only_heartbeat t w'" "local_offline w' = local_offline w" "monitor_grade w' = monitor_grade w"
  using assms by (simp_all add: same_agents_def vitals_def only_heartbeat_def local_offline_def)

lemma sweep_idle:
  assumes "only_heartbeat t w"
  shows "only_heartbeat t (runOfflineSweep w)" "local_offline w \<Longrightarrow> local_offline (runOfflineSweep w)"
    "90 * second < clock w - t \<Longrightarrow> clock w - t < 2 ^ 62 \<Longrightarrow> local_offline (runOfflineSweep w)"
proof -
  have w: "faults w = []" "distinct (map ag_ID (agents w))" "''local-agent'' \<in> ag_ID ` set (agents w)"
    "map_option ch_Timestamp (hb_cache w ''local-agent'') = Some t"
    using assms by (simp_all add: only_heartbeat_def)
  note sw = sweep_effect [OF w(1,2)]
  have id: "ag_ID (if silent (clock w) w a then set_offline (clock w) a else a) = ag_ID a" for a by (simp add: set_offline_def)
  have ids: "map ag_ID (agents (runOfflineSweep w)) = map ag_ID (agents w)" unfolding sw(1) map_map comp_def id ..
  have "ag_ID ` set (agents (runOfflineSweep w)) = ag_ID ` set (agents w)" using arg_cong [OF ids, of set] unfolding list.set_map .
  then show "only_heartbeat t (runOfflineSweep w)" using w sw(2,4) ids by (simp only: only_heartbeat_def)
  show "local_offline (runOfflineSweep w)" if off: "local_offline w"
  proof -
    obtain a where a: "a \<in> set (agents w)" "ag_ID a = ''local-agent''" "ag_Status a = ''offline''"
      using off by (auto simp: local_offline_def)
    then have "a \<in> set (agents (runOfflineSweep w))" by (force simp: sw(1) silent_def)
    with a show ?thesis by (auto simp: local_offline_def)
  qed
  show "local_offline (runOfflineSweep w)" if d: "90 * second < clock w - t" "clock w - t < 2 ^ 62"
  proof -
    obtain a where a: "a \<in> set (agents w)" "ag_ID a = ''local-agent''" using w(3) by auto
    obtain hb where hb: "hb_cache w ''local-agent'' = Some hb" "ch_Timestamp hb = t" using w(4) by auto
    have "silent (clock w) w a \<or> ag_Status a = ''offline''"
      using d by (auto simp: silent_def last_heartbeat_def a(2) hb time_sub_def second_def)
    then have "ag_Status (if silent (clock w) w a then set_offline (clock w) a else a) = ''offline''"
      by (auto simp: set_offline_def)
    moreover have "(if silent (clock w) w a then set_offline (clock w) a else a) \<in> set (agents (runOfflineSweep w))"
      using a(1) by (simp add: sw(1))
    ultimately show ?thesis using id [of a] a(2) unfolding local_offline_def by metis
  qed
qed

lemma check_idle:
  assumes "only_heartbeat t w"
  shows "only_heartbeat t (check probe sched w)" "local_offline (check probe sched w) = local_offline w"
    "local_offline w \<Longrightarrow> monitor_grade (check probe sched w) = ''Dead''"
proof -
  have f: "faults w = []" using assms by (simp add: only_heartbeat_def)
  show "only_heartbeat t (check probe sched w)" "local_offline (check probe sched w) = local_offline w"
    using check_effect [OF f] assms by (simp_all add: only_heartbeat_def local_offline_def)
  show "monitor_grade (check probe sched w) = ''Dead''" if "local_offline w"
  proof -
    obtain c where g: "monitor_grade (check probe sched w) = health_grade (agents w) (proxies w) c"
      using check_grade [OF f] by blast
    from that show ?thesis unfolding g health_grade_def local_offline_def by (simp only: Let_def simp_thms if_True)
  qed
qed

text \<open>The invariants of an idle server, in the order in which they come to hold.\<close>

definition idle_phase :: "bool \<Rightarrow> bool \<Rightarrow> time \<Rightarrow> world \<Rightarrow> bool" where
  "idle_phase off dead t w \<longleftrightarrow> only_heartbeat t w \<and> (off \<longrightarrow> local_offline w) \<and> (dead \<longrightarrow> monitor_grade w = ''Dead'')"

lemma set_world_world [simp]: "sv_world (set_world w sv) = w" "sv_world (set_bus b sv) = cb_world b"
  by (simp_all add: sv_world_def set_world_def set_bus_def)

lemma idle_step_phase:
  assumes "idle_step sv sv'" and p: "idle_phase off dead t (sv_world sv)" and "dead \<longrightarrow> off"
  shows "idle_phase off dead t (sv_world sv')"
proof -
  have same: "idle_phase off dead t w'" if "same_agents (sv_world sv) w'" for w'
    using same_agents_idle [OF that] p by (simp add: idle_phase_def)
  have h: "only_heartbeat t (sv_world sv)" using p by (simp add: idle_phase_def)
  from assms(1) show ?thesis
  proof cases
    case sweep
    have "faults (sv_world sv) = []" "distinct (map ag_ID (agents (sv_world sv)))" using h by (simp_all add: only_heartbeat_def)
    then show ?thesis using sweep_idle(1,2) [OF h] sweep_effect(5) [of "sv_world sv"] p sweep by (simp add: idle_phase_def)
  next
    case (grade probe sched)
    then show ?thesis using check_idle [OF h, of probe sched] p assms(3) by (auto simp: idle_phase_def)
  next
    case (metrics s m w)
    then show ?thesis using same [of w] collect_agents [of "sv_world sv" s "sv_metrics sv"] by simp
  next
    case timeouts
    have "same_agents (sv_world sv) (cb_world (checkCommandTimeouts (gw_bus (sv_gw sv))))"
      unfolding sv_world_def by (rule checkCommandTimeouts_agents)
    then show ?thesis using same timeouts by simp
  next
    case (task i b due x)
    have "same_agents (sv_world sv) (cb_world (run_task x (b\<lparr>cb_tasks := take i (cb_tasks b) @ drop (Suc i) (cb_tasks b)\<rparr>)))"
      using run_task_agents [of "b\<lparr>cb_tasks := take i (cb_tasks b) @ drop (Suc i) (cb_tasks b)\<rparr>" x] task by (simp add: sv_world_def)
    then show ?thesis using same task by simp
  next
    case (time u)
    then show ?thesis using p by (simp add: idle_phase_def only_heartbeat_def local_offline_def)
  qed (use same history_agents SweepExpiredProxies_agents in simp_all)
qed

lemma idle_run_phase:
  assumes "idle_run sv sv'" and "idle_phase off dead t (sv_world sv)" and "dead \<longrightarrow> off"
  shows "idle_phase off dead t (sv_world sv')"
  using assms by (induction rule: idle_run.induct) (auto intro: idle_step_phase)

lemma heartbeat_only:
  assumes "faults w = []" and "distinct (map ag_ID (agents w))" and "''local-agent'' \<in> ag_ID ` set (agents w)"
  shows "only_heartbeat (clock w) (RecordHeartbeat ''local-agent'' cpu ram vpns prx w)"
    "clock (RecordHeartbeat ''local-agent'' cpu ram vpns prx w) = clock w"
proof -
  let ?w = "RecordHeartbeat ''local-agent'' cpu ram vpns prx w"
  note ids = heartbeat_ids [OF assms, of cpu ram vpns prx]
  have "ag_ID ` set (agents ?w) = ag_ID ` set (agents w)" using arg_cong [OF conjunct2 [OF ids], of set] unfolding list.set_map .
  moreover have "map_option ch_Timestamp (hb_cache ?w ''local-agent'') = Some (clock w)" "clock ?w = clock w"
    by (simp_all add: RecordHeartbeat_def Let_def agentRepo_GetByID_def agentRepo_Update_def case_prod_beta
        db_first_frame [where get = hb_cache] db_save_frame [where get = hb_cache] db_save_frame [where get = clock]
        split: sum.split)
  ultimately show "only_heartbeat (clock w) ?w" "clock ?w = clock w" using ids assms by (simp_all only: only_heartbeat_def)
qed

lemma begin_service_phase:
  assumes "faults w = []" and "distinct (map ag_ID (agents w))" and "''local-agent'' \<in> ag_ID ` set (agents w)"
  shows "only_heartbeat (clock w) (snd (begin_service t hk m w)) \<and> clock (snd (begin_service t hk m w)) = clock w"
proof -
  let ?w1 = "snd (collect (ft_sample t) m (RestoreProxies hk w))"
  let ?check = "check (ft_probe t) (ft_sched t)"
  let ?beat = "RecordHeartbeat ''local-agent'' 0 0 0 0"
  have "same_agents w ?w1" using same_agents_trans [OF RestoreProxies_agents collect_agents] .
  then have w1: "faults ?w1 = []" "distinct (map ag_ID (agents ?w1))" "''local-agent'' \<in> ag_ID ` set (agents ?w1)" "clock ?w1 = clock w"
    using assms by (simp_all add: same_agents_def vitals_def)
  have s: "snd (begin_service t hk m w) = (if ft_early t then ?beat (?check ?w1) else ?check (?beat ?w1))"
    by (simp add: begin_service_def Let_def case_prod_beta)
  note c = check_effect [OF w1(1), of "ft_probe t" "ft_sched t"]
  have "only_heartbeat (clock w) (?beat (?check ?w1)) \<and> clock (?beat (?check ?w1)) = clock w"
    using heartbeat_only [of "?check ?w1" 0 0 0 0] c w1 by simp
  moreover note b = heartbeat_only [OF w1(1-3), of 0 0 0 0]
  then have "only_heartbeat (clock w) (?check (?beat ?w1)) \<and> clock (?check (?beat ?w1)) = clock w"
    using check_idle(1) [OF b(1)] check_effect(3) [of "?beat ?w1"] w1(4) by (simp add: only_heartbeat_def)
  ultimately show ?thesis by (simp add: s)
qed

text \<open>
  C39. Safety: an idle server declares itself dead. The heartbeat that \<^verbatim>\<open>main\<close> records for the server's own agent is the
  only one. Take a server as \<^verbatim>\<open>main\<close> starts it (while the database answers) that nobody uses, with whatever ticks of its
  background services: a sweep that runs more than ninety seconds after the start marks that agent offline, and from the
  monitor's next check on the global grade is \<^verbatim>\<open>Dead\<close>, and stays so as long as nobody uses the server, however well every
  proxy answers.
\<close>

theorem idle_server_grades_dead:
  assumes "faults w = []" and "distinct (map ag_ID (agents w))" and "''local-agent'' \<in> ag_ID ` set (agents w)"
    and "sv_world sv0 = snd (begin_service t hk m w)" and "idle_run sv0 sv1"
    and "90 * second < clock (sv_world sv1) - clock w" and "clock (sv_world sv1) - clock w < 2 ^ 62"
    and "idle_run (set_world (runOfflineSweep (sv_world sv1)) sv1) sv2"
    and "idle_run (set_world (check probe sched (sv_world sv2)) sv2) sv3"
  shows "fst (GetCurrentGrade (sv_world sv3)) = ''Dead''"
proof -
  have "idle_phase False False (clock w) (sv_world sv0)"
    using begin_service_phase [OF assms(1-3)] by (simp add: idle_phase_def assms(4))
  then have h1: "only_heartbeat (clock w) (sv_world sv1)"
    using idle_run_phase [OF assms(5)] by (auto simp: idle_phase_def)
  have "idle_phase True False (clock w) (sv_world (set_world (runOfflineSweep (sv_world sv1)) sv1))"
    using sweep_idle(1,3) [OF h1] assms(6,7) by (simp add: idle_phase_def)
  then have "idle_phase True False (clock w) (sv_world sv2)" using idle_run_phase [OF assms(8)] by blast
  then have "idle_phase True True (clock w) (sv_world (set_world (check probe sched (sv_world sv2)) sv2))"
    using check_idle [of "clock w" "sv_world sv2" probe sched] by (simp add: idle_phase_def)
  then have "idle_phase True True (clock w) (sv_world sv3)" using idle_run_phase [OF assms(9)] by blast
  then show ?thesis by (simp add: idle_phase_def GetCurrentGrade_def)
qed

definition idle_world :: world where
  "idle_world = start_world\<lparr>agents := [local_agent 0]\<rparr>"

definition idle_ticks :: first_ticks where
  "idle_ticks = \<lparr>ft_sample = \<lparr>ss_cpu = None, ss_ram = None, ss_disk = None, ss_net = None\<rparr>, ft_probe = (\<lambda>_. Some 1),
     ft_sched = rev, ft_early = True\<rparr>"

definition idle_server :: server where
  "idle_server = NewHandler (NewGateway (snd (begin_service idle_ticks (live_hooks demo_hash) (NewSystemMetricsService 0) idle_world)))
     new_host (NewSystemMetricsService 0) (fst (NewDashboardWSGateway 0 GetBus))"

text \<open>A minute and a half and a second go by, a sweep, and a check.\<close>

theorem idle_server_grades_dead_witness:
  "let sv1 = set_world ((sv_world idle_server)\<lparr>clock := clock idle_world + 91 * second\<rparr>) idle_server;
       sv2 = set_world (runOfflineSweep (sv_world sv1)) sv1
   in idle_run idle_server sv1 \<and>
      fst (GetCurrentGrade (sv_world (set_world (check (\<lambda>_. Some 1) rev (sv_world sv2)) sv2))) = ''Dead''"
proof -
  let ?sv1 = "set_world ((sv_world idle_server)\<lparr>clock := clock idle_world + 91 * second\<rparr>) idle_server"
  let ?sv2 = "set_world (runOfflineSweep (sv_world ?sv1)) ?sv1"
  have w: "faults idle_world = []" "distinct (map ag_ID (agents idle_world))" "''local-agent'' \<in> ag_ID ` set (agents idle_world)"
    by (simp_all add: idle_world_def local_agent_def)
  have s: "sv_world idle_server = snd (begin_service idle_ticks (live_hooks demo_hash) (NewSystemMetricsService 0) idle_world)"
    by (simp add: idle_server_def NewHandler_def NewGateway_def NewCommandBus_def sv_world_def)
  have c: "clock (sv_world idle_server) = clock idle_world"
    using begin_service_phase [OF w] by (simp add: s)
  have run: "idle_run idle_server ?sv1"
    by (rule idle_run.tick [OF idle_run.stay idle_step.time]) (simp add: c second_def)
  have d: "90 * second < clock (sv_world ?sv1) - clock idle_world" "clock (sv_world ?sv1) - clock idle_world < 2 ^ 62"
    by (simp_all add: second_def)
  from idle_server_grades_dead [OF w s run d idle_run.stay idle_run.stay, of "\<lambda>_. Some 1" rev] run
  show ?thesis by (simp only: Let_def simp_thms)
qed

end
