(* ===== verification/NetnsDial.thy ===== *)
theory NetnsDial imports GoFmt begin

text \<open>
  \<^verbatim>\<open>internal/proxy/netns_dial_linux.go\<close> and its stub for other systems: an outbound connection from inside a network
  namespace, made on a thread that is locked for it. The \<^verbatim>\<open>netns\<close> library and the kernel are a parameter; the state is
  the thread with its namespace, the open handles and the open connections.
\<close>

record netns_kernel =
  nk_get :: "gerr option"
  nk_open :: "string \<Rightarrow> gerr option"
  nk_enter :: "string \<Rightarrow> gerr option"
  nk_restore :: "gerr option"
  nk_dial :: "string \<Rightarrow> string \<Rightarrow> string \<Rightarrow> gerr option"

text \<open>A connection keeps the namespace its socket was made in.\<close>

record ns_conn =
  sc_ns :: string
  sc_address :: string

record os_thread =
  th_ns :: string
  th_locked :: bool
  th_handles :: "string list"
  th_conns :: "ns_conn list"

definition open_handle :: "string \<Rightarrow> os_thread \<Rightarrow> os_thread" where
  "open_handle ns t = t\<lparr>th_handles := ns # th_handles t\<rparr>"

definition close_handle :: "string \<Rightarrow> os_thread \<Rightarrow> os_thread" where
  "close_handle ns t = t\<lparr>th_handles := remove1 ns (th_handles t)\<rparr>"

definition lock_thread :: "bool \<Rightarrow> os_thread \<Rightarrow> os_thread" where
  "lock_thread b t = t\<lparr>th_locked := b\<rparr>"

definition netns_failed :: "string \<Rightarrow> gerr \<Rightarrow> ns_conn result" where
  "netns_failed text e = Inl (ErrMsg (text @ '': '' @ err_text e))"

text \<open>From inside the namespace: the dial, then back to \<open>orig\<close>. A thread that cannot go back stays locked.\<close>

definition dial_inside :: "netns_kernel \<Rightarrow> string \<Rightarrow> string \<Rightarrow> string \<Rightarrow> os_thread \<Rightarrow> ns_conn result \<times> os_thread" where
  "dial_inside k orig network address t =
     (let conn = \<lparr>sc_ns = th_ns t, sc_address = address\<rparr>;
          derr = nk_dial k (th_ns t) network address;
          t1 = (if derr = None then t\<lparr>th_conns := conn # th_conns t\<rparr> else t)
      in case nk_restore k of
          Some e \<Rightarrow> (netns_failed ''restore root netns'' e,
            close_handle orig (if derr = None then t1\<lparr>th_conns := remove1 conn (th_conns t1)\<rparr> else t1))
        | None \<Rightarrow> (case derr of None \<Rightarrow> Inr conn | Some e \<Rightarrow> Inl e,
            lock_thread False (close_handle orig (t1\<lparr>th_ns := orig\<rparr>))))"

definition dialInNamespace :: "netns_kernel \<Rightarrow> string \<Rightarrow> string \<Rightarrow> string \<Rightarrow> os_thread \<Rightarrow> ns_conn result \<times> os_thread" where
  "dialInNamespace k nsName network address t0 =
     (let t = lock_thread True t0; orig = th_ns t in
      case nk_get k of
        Some e \<Rightarrow> (netns_failed ''get current netns'' e, lock_thread False t)
      | None \<Rightarrow>
          let t1 = open_handle orig t in
          (case nk_open k nsName of
             Some e \<Rightarrow> (netns_failed (''open netns '' @ nsName) e, lock_thread False (close_handle orig t1))
           | None \<Rightarrow>
               let t2 = open_handle nsName t1 in
               (case nk_enter k nsName of
                  Some e \<Rightarrow> (netns_failed (''enter netns '' @ nsName) e,
                    lock_thread False (close_handle orig (close_handle nsName t2)))
                | None \<Rightarrow> dial_inside k orig network address (close_handle nsName (t2\<lparr>th_ns := nsName\<rparr>)))))"

text \<open>On other systems.\<close>

definition dialInNamespace_other :: "string \<Rightarrow> ns_conn result" where
  "dialInNamespace_other nsName =
     Inl (ErrMsg (''network namespace dialing is only supported on Linux (requested ns '' @ go_quote nsName @ '')''))"

lemmas netns_ops = open_handle_def close_handle_def lock_thread_def netns_failed_def

text \<open>
  Every branch leaves the thread fit for others or keeps it: a thread that is given back is in the namespace it came
  from, no handle leaks, a connection is returned exactly when one more is open, and it was made inside the namespace.
\<close>

theorem dial_in_namespace_safe:
  assumes "\<not> th_locked t" and "dialInNamespace k ns network address t = (r, t')"
  shows "(\<not> th_locked t' \<longrightarrow> th_ns t' = th_ns t) \<and> th_handles t' = th_handles t \<and>
    (case r of Inr conn \<Rightarrow> sc_ns conn = ns \<and> sc_address conn = address \<and> th_conns t' = conn # th_conns t \<and> \<not> th_locked t'
     | Inl _ \<Rightarrow> th_conns t' = th_conns t)"
  using assms
  by (auto simp: dialInNamespace_def dial_inside_def netns_ops Let_def split: option.splits if_splits)

theorem dial_in_namespace_ok:
  assumes "nk_get k = None" "nk_open k ns = None" "nk_enter k ns = None" "nk_restore k = None"
  shows "fst (dialInNamespace k ns network address t) =
    (case nk_dial k ns network address of None \<Rightarrow> Inr \<lparr>sc_ns = ns, sc_address = address\<rparr> | Some e \<Rightarrow> Inl e)"
  using assms by (simp add: dialInNamespace_def dial_inside_def netns_ops Let_def)

end
