(* ===== verification/Spec2Isabelle.thy ===== *)
theory Spec2Isabelle imports AbuseGuard Accounts RoutingFacts CommandBusFacts GoProxyFacts ProxyManagerFacts
  VpnFacts HealthFacts RemoteAgentFacts RouterFacts ServerFacts NetnsDial begin

text \<open>
  A verification development for the VPN-to-proxy server, a Go service that turns VPN tunnels of remote
  agents into HTTP and SOCKS5 proxies and sells them to customers.

  The program. \<^verbatim>\<open>internal/domain\<close> holds the GORM models, \<^verbatim>\<open>internal/repository\<close> the SQLite database and its
  repositories, \<^verbatim>\<open>internal/customer\<close> accounts, tokens and proxy allocations, \<^verbatim>\<open>internal/billing\<close> plans,
  subscriptions, invoices and quotas, \<^verbatim>\<open>internal/routing\<close> the choice of a proxy for a customer,
  \<^verbatim>\<open>internal/abuse\<close> the login validator, the connection guard, rate limits and risk scores,
  \<^verbatim>\<open>internal/event\<close> the event bus and the command bus that drives the remote agents, \<^verbatim>\<open>internal/proxy\<close> the
  proxy servers and their manager, \<^verbatim>\<open>internal/vpn\<close> the VPN drivers and sessions, \<^verbatim>\<open>internal/health\<close> heartbeats
  and grades, \<^verbatim>\<open>internal/api\<close> the HTTP routes and the gateways of agents and dashboards,
  \<^verbatim>\<open>cmd/server\<close> starts and stops all of them, \<^verbatim>\<open>cmd/agent\<close> is the program on a remote host,
  \<^verbatim>\<open>internal/network\<close>, \<^verbatim>\<open>internal/cache\<close> and \<^verbatim>\<open>internal/security\<close> resolvers, the location cache and
  the secrets. They meet in the database: the customer service asks billing for the quota and routing for a proxy and stores a credential
  and an allocation; the proxy servers ask the abuse service whether a login and a connection are allowed.

  The theories, in the order of their dependency.
  \<^item> Prelude: time, Go errors as values (\<open>gerr\<close>, \<open>'a result\<close>), sequencing with early return (\<open>and_then\<close>),
    the JSON metadata of a row, decimal printing, \<^verbatim>\<open>ORDER BY ... LIMIT 1\<close> (\<open>first_by\<close>), row updates.
  \<^item> Domain: one record per model of \<^verbatim>\<open>internal/domain/models.go\<close>, with its zero value.
  \<^item> World: the state, that is the tables, the environment and the memory of the services, and GORM's
    statements on it; one schema per table from the struct tags.
  \<^item> GoStrings, GoNet, GoJson, GoTime, GoCrypto: what the source uses of Go's \<^verbatim>\<open>strings\<close>, \<^verbatim>\<open>net\<close>,
    \<^verbatim>\<open>encoding/json\<close>, \<^verbatim>\<open>time\<close>, \<^verbatim>\<open>encoding/hex\<close> and \<^verbatim>\<open>crypto/sha256\<close>, with round trips of what they print and parse.
  \<^item> Tables: the contract of a table as the locales \<open>table\<close> and \<open>keyed_table\<close>, interpreted on every schema;
    what a statement leaves alone.
  \<^item> Repository: the repositories of \<^verbatim>\<open>sqlite.go\<close>, and their contract \<open>crud_repository\<close>, a sublocale of \<open>keyed_table\<close>.
  \<^item> ProxyHooks: the types of the hooks of \<^verbatim>\<open>go_proxy.go\<close>. Abuse models \<^verbatim>\<open>abuse/service.go\<close>; AbuseSafety proves the
    login validator, the rate limiter and the risk scores, AbuseGuard the connection guard under interleaving.
  \<^item> Billing and BillingFacts: \<^verbatim>\<open>billing/service.go\<close>; the payment provider is a locale interpreted on the mock provider.
  \<^item> Customer, CustomerFacts, Accounts: \<^verbatim>\<open>customer/service.go\<close>; the enforcer and the router it calls are the
    locales \<open>subscription_enforcer\<close> (interpreted on billing) and \<open>routing_selector\<close> (interpreted on routing).
  \<^item> Routing and RoutingFacts: \<^verbatim>\<open>routing/service.go\<close>; \<open>scoring_frame\<close> and \<open>router_frame\<close> say what the router leaves alone.
  \<^item> CommandBus and CommandBusFacts: \<^verbatim>\<open>event/event_bus.go\<close> and \<^verbatim>\<open>event/command_bus.go\<close> as a step relation.
  \<^item> GoProxy and GoProxyFacts: \<^verbatim>\<open>proxy/go_proxy.go\<close>, the HTTP and SOCKS5 logins, the SOCKS handshake on the bytes of a
    session, and the relay with its byte counters.
  \<^item> ProxyManager and ProxyManagerFacts: \<^verbatim>\<open>proxy_manager.go\<close>, \<^verbatim>\<open>port_allocator.go\<close>, \<^verbatim>\<open>credential_manager.go\<close> and
    \<^verbatim>\<open>health_checker.go\<close>: proxy sessions with their ports, refined to a set of running proxies.
  \<^item> GoAes and Security: AES-256 in CTR mode as the source composes it from Go's block cipher, and \<^verbatim>\<open>internal/security\<close>.
  \<^item> Network: the IP and geo resolvers of \<^verbatim>\<open>internal/network\<close>. Locations: the location cache. WireGuard: the
    configuration filter. VpnDrivers: the four drivers. VpnManager: \<^verbatim>\<open>vpn_manager.go\<close> and the node self test.
  \<^item> VpnFacts: the contracts \<open>host_frame\<close>, \<open>vpn_driver_laws\<close> and \<open>vpn_registry\<close>, interpreted on the
    four drivers and on the registry that \<^verbatim>\<open>NewVpnManager\<close> builds.
  \<^item> Health and HealthFacts: \<^verbatim>\<open>internal/health\<close>, heartbeats, the offline sweep, metrics and grades.
  \<^item> Http: replies and bound inputs. AgentApi, ProxyApi, CustomerApi and AdminApi: the handlers of \<^verbatim>\<open>api/handler.go\<close>.
    AgentGateway and AgentGatewayFacts: \<^verbatim>\<open>api/websocket.go\<close> as steps of the server. Router and RouterFacts:
    \<^verbatim>\<open>api/router.go\<close>, the rate limiter, and which handler a request reaches.
  \<^item> GoFmt: \<^verbatim>\<open>%q\<close> and paths. RemoteAgent and RemoteAgentFacts: \<^verbatim>\<open>cmd/agent/main.go\<close>, the program on a remote host, and
    what becomes of a command between the bus and the agent. Server and ServerFacts: \<^verbatim>\<open>cmd/server/main.go\<close>, the database
    file, boot and shutdown. NetnsDial: \<^verbatim>\<open>proxy/netns_dial_linux.go\<close>, the dialler that enters a network namespace.

  Correspondence. A Go method is the function of the same name (with a prefix where a name is used twice);
  it takes the world and returns its result and the next world. A returned error is \<open>Inl\<close>. Every SQL
  statement consumes one entry of \<open>faults\<close>, which says whether the driver executes it, so every error
  branch is a branch of the model; an empty list means that all further statements succeed, which some properties
  assume, and \<open>statement_ok n\<close> that the statement after the next \<open>n\<close> does, for the places
  where the code goes on after one that failed. UUIDs and random bytes come from supplies of the world. Code that has no source here is a parameter: bcrypt (\<open>hash_check\<close>,
  \<open>bcrypt\<close>), the payment provider, the operating system commands and files of the VPN drivers (\<open>vpn_env\<close>),
  web services and probes, the file system, the host of a remote agent, the block cipher, gin's decoding of
  bodies, the check of a web socket's handshake, the readings of the host's metrics and the order in which Go walks a map. Sockets are the bytes they deliver and the bytes written to them.

  Assumptions. Strings are ASCII; one operation reads one clock value; the zone is UTC; floats are real
  numbers; the counters of round robin do not overflow; unique indexes are checked by the statement that writes. A method is atomic except where a theory
  models its interleaving: the connection guard (AbuseGuard) and the command bus (CommandBus).

  What the properties show. Logins, limits and guards of the abuse service; tokens and registration of the
  customer service; atomic payments and quotas of billing; which proxies the router may hand out, which it
  does, fairness of round robin, sticky sessions and what a score is made of; delivery, states, idempotency and
  timeouts of the command bus, and what a stale retry does; which HTTP and SOCKS5 clients a proxy lets in, by the login they sent, and
  what a SOCKS session sends; that the proxy manager implements a set of running proxies, allocates free ports
  and restores its sessions at a restart; what every outcome of a VPN connection changes and that it changes nothing else, that WireGuard
  comes up entirely or not at all and that its configurations run no commands; that secrets decrypt to what was
  encrypted; which agents a sweep marks offline, what keeps one online, and how a grade follows; that
  commands only reach agents that showed a live credential, how long a token lives and what rotating and
  revoking it do; which routes ask for a token and which do not; that an executed command settles and that its payload
  is lost on the way to the agent; what an orderly restart restores, and what grade an idle server gives itself whatever its background services do.

  Bounds and fuel. Recursion is on lists, with four exceptions. The JSON reader of GoJson takes as many
  rounds as the text has characters, which is enough because every element consumes one. A VPN driver polls
  the state of its client for fifteen rounds, the bound of the source. The port allocator's loop terminates
  because the distance to the end of its range decreases, and so does the remote agent's.

  Not modelled: flags, logs and signals of the two programs, the MaxMind lookup, the ZIP container of
  \<^verbatim>\<open>ExportBackup\<close>, and the web application with its static files.
\<close>

end
